(* ===== verification/Prelude.thy ===== *)
theory Prelude
  imports Complex_Main "HOL-Library.List_Lexorder" "HOL-Library.Char_ord" "HOL-Library.Sublist"
    "HOL-Library.Monad_Syntax"
begin

text \<open>
  Shared vocabulary of the development: the theorem collections, the association-list view
  of Go maps with string keys, sorted key lists, and the list lemmas that several components
  use. A Go \<open>map[string]T\<close> is an association list read through \<open>map_of\<close>;
  a \<open>range\<close> over it that the code sorts afterwards is \<open>sorted_keys\<close>.
\<close>

named_theorems inv_intros \<open>one preservation rule per operation of a component\<close>

type_synonym 'v smap = "(string \<times> 'v) list"

text \<open>What reading a file or a directory returns: \<open>Missing\<close> is \<open>os.IsNotExist\<close>.\<close>

datatype 'a file_read = Missing | Unreadable string | Found 'a

subsection \<open>Sorted keys of a map\<close>

definition sorted_keys :: "'v smap \<Rightarrow> string list" where
  "sorted_keys m = sort (remdups (map fst m))"

lemma set_sorted_keys [simp]: "set (sorted_keys m) = fst ` set m"
  by (simp add: sorted_keys_def)

lemma sorted_sorted_keys [simp]: "sorted (sorted_keys m)"
  by (simp add: sorted_keys_def)

lemma distinct_sorted_keys [simp]: "distinct (sorted_keys m)"
  by (simp add: sorted_keys_def)

lemma sorted_keys_Nil_iff [simp]: "sorted_keys m = [] \<longleftrightarrow> m = []"
  by (metis image_is_empty set_empty set_sorted_keys)

text \<open>Reading a missing key of a Go map gives the zero value.\<close>

definition lookup_or :: "'v \<Rightarrow> 'v smap \<Rightarrow> string \<Rightarrow> 'v" where
  "lookup_or z m k = (case map_of m k of None \<Rightarrow> z | Some v \<Rightarrow> v)"

lemma lookup_or_in: "map_of m k = Some v \<Longrightarrow> lookup_or z m k = v"
  by (simp add: lookup_or_def)

subsection \<open>Optional items of a list under construction\<close>

text \<open>
  Most reports of the code are lists to which conditional items are appended in order.
  \<open>note c x\<close> is the list that holds \<open>x\<close> exactly when \<open>c\<close>.
\<close>

definition note_if :: "bool \<Rightarrow> 'a \<Rightarrow> 'a list" where
  "note_if c x = (if c then [x] else [])"

lemma note_if_Nil [simp]: "note_if c x = [] \<longleftrightarrow> \<not> c"
  by (simp add: note_if_def)

lemma set_note_if [simp]: "set (note_if c x) = (if c then {x} else {})"
  by (cases c) (simp_all add: note_if_def)

lemma note_if_simps [simp]: "note_if True x = [x]" "note_if False x = []"
  by (simp_all add: note_if_def)

lemma concat_map_Nil: "concat (map f xs) = [] \<longleftrightarrow> (\<forall>x\<in>set xs. f x = [])"
  by (induction xs) auto

subsection \<open>Searching and positions\<close>

fun index_from :: "nat \<Rightarrow> ('a \<Rightarrow> bool) \<Rightarrow> 'a list \<Rightarrow> nat option" where
  "index_from i p [] = None"
| "index_from i p (x # xs) = (if p x then Some i else index_from (Suc i) p xs)"

lemma index_from_None: "index_from i p xs = None \<longleftrightarrow> (\<forall>x\<in>set xs. \<not> p x)"
  by (induction xs arbitrary: i) auto

lemma index_from_Some:
  "index_from i p xs = Some k \<Longrightarrow>
     i \<le> k \<and> k - i < length xs \<and> p (xs ! (k - i)) \<and> (\<forall>j < k - i. \<not> p (xs ! j))"
proof (induction xs arbitrary: i)
  case Nil
  then show ?case by simp
next
  case (Cons x xs)
  show ?case
  proof (cases "p x")
    case True
    with Cons.prems show ?thesis by simp
  next
    case False
    with Cons.prems have "index_from (Suc i) p xs = Some k" by simp
    from Cons.IH [OF this] have
      IH: "Suc i \<le> k" "k - Suc i < length xs" "p (xs ! (k - Suc i))"
        "\<forall>j < k - Suc i. \<not> p (xs ! j)" by auto
    have shift: "k - i = Suc (k - Suc i)" using IH(1) by simp
    have "\<forall>j < k - i. \<not> p ((x # xs) ! j)"
      using False IH(4) shift by (auto simp: nth_Cons' less_Suc_eq_0_disj)
    with IH shift show ?thesis by simp
  qed
qed

lemma find_None_iff_all: "List.find p xs = None \<longleftrightarrow> (\<forall>x\<in>set xs. \<not> p x)"
  by (auto simp: find_None_iff)

lemma find_Some_in: "List.find p xs = Some x \<Longrightarrow> x \<in> set xs \<and> p x"
  by (auto simp: find_Some_iff)

lemma find_append:
  "List.find p (xs @ ys) = (case List.find p xs of None \<Rightarrow> List.find p ys | Some x \<Rightarrow> Some x)"
  by (induction xs) auto

end
