(* ===== verification/Go_Strings.thy ===== *)
theory Go_Strings
  imports Prelude
begin

text \<open>
  The functions of Go's packages \<open>strings\<close> and \<open>strconv\<close> that the code calls, on
  byte strings. A Go string is a byte sequence, so it is a \<open>char list\<close> here and
  \<open>length\<close> counts bytes. Case folding and white space are the ASCII ones: the
  identifiers, paths and records the program compares (bcdedit identifiers, FAT names, step
  names, JSON keys) are ASCII, and a byte from 128 on is left as it is.
\<close>

subsection \<open>Case folding\<close>

definition code_of :: "char \<Rightarrow> nat" where
  "code_of c = of_char c"

definition lower_code :: "nat \<Rightarrow> nat" where
  "lower_code n = (if 65 \<le> n \<and> n \<le> 90 then n + 32 else n)"

definition lower_char :: "char \<Rightarrow> char" where
  "lower_char c = char_of (lower_code (code_of c))"

definition to_lower :: "string \<Rightarrow> string" where
  "to_lower s = map lower_char s"

definition equal_fold :: "string \<Rightarrow> string \<Rightarrow> bool" where
  "equal_fold a b \<longleftrightarrow> to_lower a = to_lower b"

lemma code_of_bound: "code_of c < 256"
  unfolding code_of_def by (metis nat_of_char_less_256)

lemma code_of_char_of: "n < 256 \<Longrightarrow> code_of (char_of n) = n"
  by (simp add: code_of_def)

lemma lower_code_idem [simp]: "lower_code (lower_code n) = lower_code n"
  by (simp add: lower_code_def)

lemma code_of_lower_char: "code_of (lower_char c) = lower_code (code_of c)"
proof -
  have "lower_code (code_of c) < 256"
    using code_of_bound [of c] by (simp add: lower_code_def)
  then show ?thesis by (simp add: lower_char_def code_of_char_of)
qed

lemma code_of_inject: "code_of c = code_of d \<longleftrightarrow> c = d"
  by (simp add: code_of_def)

text \<open>An equation between characters is one between codes, which the simplifier decides.\<close>

lemma lower_char_eq_iff: "lower_char c = d \<longleftrightarrow> lower_code (code_of c) = code_of d"
  by (simp only: code_of_inject [symmetric] code_of_lower_char)

text \<open>Bitwise evaluation rules, for the kernel's evaluator.\<close>

lemma lower_char_code [code]:
  "lower_char (Char b0 b1 b2 b3 b4 b5 b6 b7) =
     Char b0 b1 b2 b3 b4 (b5 \<or> (b6 \<and> \<not> b7 \<and> (b0 \<or> b1 \<or> b2 \<or> b3 \<or> b4) \<and>
       \<not> (b4 \<and> b3 \<and> (b2 \<or> b1 \<and> b0)))) b6 b7"
  unfolding lower_char_eq_iff
  by (cases b0; cases b1; cases b2; cases b3; cases b4; cases b5; cases b6; cases b7)
    (simp_all add: code_of_def lower_code_def)

text \<open>Folding moves only the codes 65 to 90, to 97 to 122: every other character is its own image.\<close>

lemma lower_char_fixed:
  assumes "\<not> (65 \<le> code_of d \<and> code_of d \<le> 90)" and "\<not> (97 \<le> code_of d \<and> code_of d \<le> 122)"
  shows "lower_char c = d \<longleftrightarrow> c = d"
proof -
  have "lower_code (code_of c) = code_of d \<longleftrightarrow> code_of c = code_of d"
    using assms by (auto simp: lower_code_def)
  then show ?thesis by (simp only: lower_char_eq_iff code_of_inject)
qed

lemma lower_char_idem [simp]: "lower_char (lower_char c) = lower_char c"
  by (simp add: lower_char_def [of "lower_char c"] code_of_lower_char)
     (simp add: lower_char_def)

lemma to_lower_idem [simp]: "to_lower (to_lower s) = to_lower s"
  by (simp add: to_lower_def)

lemma to_lower_Nil [simp]: "to_lower [] = []"
  by (simp add: to_lower_def)

lemma to_lower_Nil_iff [simp]: "to_lower s = [] \<longleftrightarrow> s = []"
  by (simp add: to_lower_def)

lemma to_lower_append: "to_lower (a @ b) = to_lower a @ to_lower b"
  by (simp add: to_lower_def)

lemma length_to_lower [simp]: "length (to_lower s) = length s"
  by (simp add: to_lower_def)

lemma equal_fold_refl [simp]: "equal_fold a a"
  by (simp add: equal_fold_def)

lemma equal_fold_sym: "equal_fold a b \<Longrightarrow> equal_fold b a"
  by (simp add: equal_fold_def)

lemma equal_fold_trans: "equal_fold a b \<Longrightarrow> equal_fold b c \<Longrightarrow> equal_fold a c"
  by (simp add: equal_fold_def)

lemma equal_fold_lower [simp]:
  "equal_fold (to_lower a) b \<longleftrightarrow> equal_fold a b" "equal_fold a (to_lower b) \<longleftrightarrow> equal_fold a b"
  by (simp_all add: equal_fold_def)

subsection \<open>White space and trimming\<close>

definition is_space :: "char \<Rightarrow> bool" where
  "is_space c \<longleftrightarrow> (let n = code_of c in n = 32 \<or> (9 \<le> n \<and> n \<le> 13))"

definition trim_left_by :: "(char \<Rightarrow> bool) \<Rightarrow> string \<Rightarrow> string" where
  "trim_left_by p s = dropWhile p s"

definition trim_right_by :: "(char \<Rightarrow> bool) \<Rightarrow> string \<Rightarrow> string" where
  "trim_right_by p s = rev (dropWhile p (rev s))"

definition trim_by :: "(char \<Rightarrow> bool) \<Rightarrow> string \<Rightarrow> string" where
  "trim_by p s = trim_right_by p (trim_left_by p s)"

definition trim_space :: "string \<Rightarrow> string" where
  "trim_space = trim_by is_space"

text \<open>\<open>strings.Trim(s, cutset)\<close> and \<open>strings.TrimRight\<close>.\<close>

definition trim_set :: "string \<Rightarrow> string \<Rightarrow> string" where
  "trim_set s cutset = trim_by (\<lambda>c. c \<in> set cutset) s"

definition trim_right_set :: "string \<Rightarrow> string \<Rightarrow> string" where
  "trim_right_set s cutset = trim_right_by (\<lambda>c. c \<in> set cutset) s"

lemma trim_right_by_id: "s = [] \<or> \<not> p (last s) \<Longrightarrow> trim_right_by p s = s"
proof (cases s rule: rev_cases)
  case Nil
  then show ?thesis by (simp add: trim_right_by_def)
next
  case (snoc ys y)
  moreover assume "s = [] \<or> \<not> p (last s)"
  ultimately show ?thesis by (simp add: trim_right_by_def)
qed

lemma trim_left_by_id: "s = [] \<or> \<not> p (hd s) \<Longrightarrow> trim_left_by p s = s"
  by (cases s) (auto simp: trim_left_by_def)

lemma trim_by_id: "s = [] \<or> (\<not> p (hd s) \<and> \<not> p (last s)) \<Longrightarrow> trim_by p s = s"
  by (auto simp: trim_by_def trim_left_by_id trim_right_by_id)

lemma trim_right_by_snoc [simp]:
  "trim_right_by p (s @ [c]) = (if p c then trim_right_by p s else s @ [c])"
  by (simp add: trim_right_by_def)

lemma trim_right_by_Nil [simp]: "trim_right_by p [] = []"
  by (simp add: trim_right_by_def)

lemma trim_right_by_last: "trim_right_by p s \<noteq> [] \<Longrightarrow> \<not> p (last (trim_right_by p s))"
  by (induction s rule: rev_induct) auto

lemma trim_right_by_prefix: "prefix (trim_right_by p s) s"
proof (induction s rule: rev_induct)
  case Nil
  then show ?case by simp
next
  case (snoc c s)
  then show ?case by auto
qed

lemma trim_by_all: "(\<forall>c\<in>set s. p c) \<Longrightarrow> trim_by p s = []"
  by (metis dropWhile_eq_Nil_conv trim_by_def trim_left_by_def trim_right_by_Nil)

lemma trim_by_ne:
  assumes "\<exists>c\<in>set s. \<not> p c"
  shows "trim_by p s \<noteq> []"
proof
  assume eq: "trim_by p s = []"
  let ?d = "dropWhile p s"
  from assms have "?d \<noteq> []" by (auto simp: dropWhile_eq_Nil_conv)
  then have hd: "\<not> p (hd ?d)" by (rule hd_dropWhile)
  from eq have "trim_right_by p ?d = []"
    by (simp add: trim_by_def trim_left_by_def)
  then have "\<forall>c\<in>set ?d. p c"
    by (simp add: trim_right_by_def dropWhile_eq_Nil_conv)
  with hd \<open>?d \<noteq> []\<close> show False by (simp add: hd_in_set)
qed

lemma trim_by_hd: "trim_by p s \<noteq> [] \<Longrightarrow> \<not> p (hd (trim_by p s))"
proof -
  assume ne: "trim_by p s \<noteq> []"
  let ?d = "dropWhile p s"
  have pre: "prefix (trim_by p s) ?d"
    by (simp add: trim_by_def trim_left_by_def trim_right_by_prefix)
  have "?d \<noteq> []"
  proof
    assume "?d = []"
    with pre ne show False by (simp only: prefix_Nil)
  qed
  then have "\<not> p (hd ?d)" by (rule hd_dropWhile)
  moreover from pre ne have "hd (trim_by p s) = hd ?d"
    by (auto simp: prefix_def)
  ultimately show ?thesis by simp
qed

lemma trim_by_last: "trim_by p s \<noteq> [] \<Longrightarrow> \<not> p (last (trim_by p s))"
  by (simp add: trim_by_def trim_right_by_last)

lemma trim_by_idem [simp]: "trim_by p (trim_by p s) = trim_by p s"
  using trim_by_hd trim_by_last by (intro trim_by_id) blast

lemma trim_space_idem [simp]: "trim_space (trim_space s) = trim_space s"
  by (simp add: trim_space_def)

lemma set_trim_by: "set (trim_by p s) \<subseteq> set s"
proof -
  have "set (trim_by p s) \<subseteq> set (dropWhile p s)"
    by (simp add: trim_by_def trim_left_by_def trim_right_by_prefix set_mono_prefix)
  then show ?thesis using set_dropWhileD by fastforce
qed

subsection \<open>Splitting, joining, replacing\<close>

text \<open>\<open>strings.Split\<close> on a one-byte separator: never an empty list.\<close>

fun split_on :: "char \<Rightarrow> string \<Rightarrow> string list" where
  "split_on sep [] = [[]]"
| "split_on sep (c # cs) =
     (if c = sep then [] # split_on sep cs
      else (case split_on sep cs of [] \<Rightarrow> [[c]] | w # ws \<Rightarrow> (c # w) # ws))"

fun join_with :: "string \<Rightarrow> string list \<Rightarrow> string" where
  "join_with sep [] = []"
| "join_with sep [w] = w"
| "join_with sep (w # ws) = w @ sep @ join_with sep ws"

lemma split_on_ne [simp]: "split_on sep s \<noteq> []"
  by (induction s) (auto split: list.splits)

lemma split_on_no_sep: "sep \<notin> set s \<Longrightarrow> split_on sep s = [s]"
  by (induction s) auto

lemma split_on_append: "sep \<notin> set a \<Longrightarrow> split_on sep (a @ sep # b) = a # split_on sep b"
  by (induction a) auto

lemma split_on_parts: "w \<in> set (split_on sep s) \<Longrightarrow> sep \<notin> set w"
proof (induction s arbitrary: w)
  case Nil
  then show ?case by simp
next
  case (Cons c s)
  show ?case
  proof (cases "c = sep")
    case True
    with Cons show ?thesis by auto
  next
    case False
    obtain v vs where v: "split_on sep s = v # vs"
      by (cases "split_on sep s") auto
    with Cons.IH have "sep \<notin> set v" "\<And>u. u \<in> set vs \<Longrightarrow> sep \<notin> set u" by auto
    with Cons.prems False v show ?thesis by auto
  qed
qed

lemma split_join:
  "ws \<noteq> [] \<Longrightarrow> \<forall>w\<in>set ws. sep \<notin> set w \<Longrightarrow> split_on sep (join_with [sep] ws) = ws"
  by (induction "[sep]" ws rule: join_with.induct) (auto simp: split_on_no_sep split_on_append)

lemma join_split: "join_with [sep] (split_on sep s) = s"
proof (induction s)
  case Nil
  then show ?case by simp
next
  case (Cons c s)
  obtain v vs where v: "split_on sep s = v # vs"
    by (cases "split_on sep s") auto
  with Cons show ?case
    by (cases vs) auto
qed

text \<open>\<open>strings.ReplaceAll(s, "\r\n", "\n")\<close> and the separator replacements.\<close>

fun crlf_to_lf :: "string \<Rightarrow> string" where
  "crlf_to_lf [] = []"
| "crlf_to_lf [c] = [c]"
| "crlf_to_lf (c # d # cs) =
     (if c = CHR 0x0D \<and> d = CHR 0x0A then CHR 0x0A # crlf_to_lf cs
      else c # crlf_to_lf (d # cs))"

lemma crlf_to_lf_id: "CHR 0x0D \<notin> set s \<Longrightarrow> crlf_to_lf s = s"
  by (induction s rule: crlf_to_lf.induct) auto

definition replace_char :: "char \<Rightarrow> char \<Rightarrow> string \<Rightarrow> string" where
  "replace_char a b s = map (\<lambda>c. if c = a then b else c) s"

definition backslash :: char where
  "backslash = CHR 0x5C"

definition slash :: char where
  "slash = CHR 0x2F"

definition to_slashes :: "string \<Rightarrow> string" where
  "to_slashes s = replace_char backslash slash s"

lemma to_slashes_idem [simp]: "to_slashes (to_slashes s) = to_slashes s"
  by (simp add: to_slashes_def replace_char_def)

lemma to_slashes_no_backslash: "backslash \<notin> set (to_slashes s)"
  by (auto simp: to_slashes_def replace_char_def backslash_def slash_def)

lemma to_slashes_id: "backslash \<notin> set s \<Longrightarrow> to_slashes s = s"
  unfolding to_slashes_def replace_char_def by (rule map_idI) auto

text \<open>\<open>strings.Fields\<close>: the maximal runs of non-space bytes.\<close>

function str_fields :: "string \<Rightarrow> string list" where
  "str_fields s =
     (let t = dropWhile is_space s in
      if t = [] then []
      else takeWhile (\<lambda>c. \<not> is_space c) t # str_fields (dropWhile (\<lambda>c. \<not> is_space c) t))"
  by pat_completeness auto
termination
proof (relation "measure length", goal_cases)
  case 1
  then show ?case by simp
next
  case (2 s t)
  then have "t \<noteq> []" and "\<not> is_space (hd t)"
    using hd_dropWhile [of is_space s] by auto
  then have "length (dropWhile (\<lambda>c. \<not> is_space c) t) < length t"
    by (cases t) (auto simp: le_imp_less_Suc length_dropWhile_le)
  also have "\<dots> \<le> length s"
    using 2 by (simp add: length_dropWhile_le)
  finally show ?case by simp
qed

declare str_fields.simps [simp del]

definition has_prefix :: "string \<Rightarrow> string \<Rightarrow> bool" where
  "has_prefix s p \<longleftrightarrow> prefix p s"

definition has_suffix :: "string \<Rightarrow> string \<Rightarrow> bool" where
  "has_suffix s p \<longleftrightarrow> suffix p s"

definition trim_prefix :: "string \<Rightarrow> string \<Rightarrow> string" where
  "trim_prefix s p = (if has_prefix s p then drop (length p) s else s)"

definition trim_suffix :: "string \<Rightarrow> string \<Rightarrow> string" where
  "trim_suffix s p = (if has_suffix s p then take (length s - length p) s else s)"

fun contains_str :: "string \<Rightarrow> string \<Rightarrow> bool" where
  "contains_str [] p \<longleftrightarrow> p = []"
| "contains_str (c # cs) p \<longleftrightarrow> prefix p (c # cs) \<or> contains_str cs p"

lemma contains_str_sublist: "contains_str s p \<longleftrightarrow> sublist p s"
  by (induction s) (auto simp: sublist_Cons_right)

definition contains_any :: "string \<Rightarrow> string \<Rightarrow> bool" where
  "contains_any s cs \<longleftrightarrow> (\<exists>c\<in>set s. c \<in> set cs)"

subsection \<open>Character classes of the regular expressions\<close>

definition is_digit :: "char \<Rightarrow> bool" where
  "is_digit c \<longleftrightarrow> (let n = code_of c in 48 \<le> n \<and> n \<le> 57)"

definition is_lower_hex :: "char \<Rightarrow> bool" where
  "is_lower_hex c \<longleftrightarrow> is_digit c \<or> (let n = code_of c in 97 \<le> n \<and> n \<le> 102)"

definition is_upper_hex :: "char \<Rightarrow> bool" where
  "is_upper_hex c \<longleftrightarrow> is_digit c \<or> (let n = code_of c in 65 \<le> n \<and> n \<le> 70)"

definition is_hex :: "char \<Rightarrow> bool" where
  "is_hex c \<longleftrightarrow> is_lower_hex c \<or> is_upper_hex c"

lemma char_class_code [code]:
  "is_digit (Char b0 b1 b2 b3 b4 b5 b6 b7) \<longleftrightarrow>
     \<not> b7 \<and> \<not> b6 \<and> b5 \<and> b4 \<and> \<not> (b3 \<and> (b2 \<or> b1))"
  "is_lower_hex (Char b0 b1 b2 b3 b4 b5 b6 b7) \<longleftrightarrow>
     is_digit (Char b0 b1 b2 b3 b4 b5 b6 b7) \<or>
     (\<not> b7 \<and> b6 \<and> b5 \<and> \<not> b4 \<and> \<not> b3 \<and> (b0 \<or> b1 \<or> b2) \<and> \<not> (b0 \<and> b1 \<and> b2))"
  "is_upper_hex (Char b0 b1 b2 b3 b4 b5 b6 b7) \<longleftrightarrow>
     is_digit (Char b0 b1 b2 b3 b4 b5 b6 b7) \<or>
     (\<not> b7 \<and> b6 \<and> \<not> b5 \<and> \<not> b4 \<and> \<not> b3 \<and> (b0 \<or> b1 \<or> b2) \<and> \<not> (b0 \<and> b1 \<and> b2))"
  "is_space (Char b0 b1 b2 b3 b4 b5 b6 b7) \<longleftrightarrow>
     \<not> b7 \<and> \<not> b6 \<and> \<not> b4 \<and>
     (if b5 then \<not> b3 \<and> \<not> b2 \<and> \<not> b1 \<and> \<not> b0 else b3 \<and> (b2 \<noteq> (b1 \<or> b0) \<or> (b2 \<and> \<not> b1)))"
  by (cases b0; cases b1; cases b2; cases b3; cases b4; cases b5; cases b6; cases b7;
      simp add: is_digit_def is_lower_hex_def is_upper_hex_def is_space_def code_of_def)+

definition is_letter :: "char \<Rightarrow> bool" where
  "is_letter c \<longleftrightarrow> (let n = code_of c in (65 \<le> n \<and> n \<le> 90) \<or> (97 \<le> n \<and> n \<le> 122))"

definition digit_val :: "char \<Rightarrow> nat" where
  "digit_val c = code_of c - 48"

definition hex_val :: "char \<Rightarrow> nat" where
  "hex_val c =
     (let n = code_of c in if n \<le> 57 then n - 48 else if n \<le> 70 then n - 55 else n - 87)"

text \<open>Groups of hexadecimal digits of the given lengths, separated by \<open>-\<close>.\<close>

fun hex_groups :: "(char \<Rightarrow> bool) \<Rightarrow> nat list \<Rightarrow> string \<Rightarrow> bool" where
  "hex_groups p [] s \<longleftrightarrow> s = []"
| "hex_groups p [n] s \<longleftrightarrow> length s = n \<and> list_all p s"
| "hex_groups p (n # ns) s \<longleftrightarrow>
     n < length s \<and> list_all p (take n s) \<and> s ! n = CHR ''-'' \<and> hex_groups p ns (drop (Suc n) s)"

lemma hex_groups_length:
  "hex_groups p ns s \<Longrightarrow> ns \<noteq> [] \<Longrightarrow> Suc (length s) = sum_list ns + length ns"
proof (induction p ns s rule: hex_groups.induct)
  case (1 p s)
  then show ?case by simp
next
  case (2 p n s)
  then show ?case by simp
next
  case (3 p n m ms s)
  from "3.prems" have "n < length s" "hex_groups p (m # ms) (drop (Suc n) s)" by auto
  with "3.IH" show ?case by simp
qed

lemma is_hex_lower [simp]: "is_hex (lower_char c) \<longleftrightarrow> is_hex c"
  by (auto simp: is_hex_def is_lower_hex_def is_upper_hex_def is_digit_def Let_def
      code_of_lower_char lower_code_def)

lemma lower_char_dash [simp]: "lower_char c = CHR ''-'' \<longleftrightarrow> c = CHR ''-''"
  by (rule lower_char_fixed) (simp_all add: code_of_def)

lemma list_all_hex_lower: "list_all is_hex (to_lower s) \<longleftrightarrow> list_all is_hex s"
  by (simp add: to_lower_def list_all_iff)

lemma hex_groups_lower: "hex_groups is_hex ns (to_lower s) \<longleftrightarrow> hex_groups is_hex ns s"
proof (induction "is_hex" ns s rule: hex_groups.induct)
  case (1 s)
  then show ?case by simp
next
  case (2 n s)
  then show ?case by (simp add: list_all_hex_lower)
next
  case (3 n m ms s)
  then show ?case
    by (auto simp: to_lower_def take_map drop_map list_all_iff)
qed

definition uuid_shape :: "(char \<Rightarrow> bool) \<Rightarrow> string \<Rightarrow> bool" where
  "uuid_shape p s \<longleftrightarrow> hex_groups p [8, 4, 4, 4, 12] s"

lemma uuid_shape_lower: "uuid_shape is_hex (to_lower s) \<longleftrightarrow> uuid_shape is_hex s"
  by (simp add: uuid_shape_def hex_groups_lower del: hex_groups.simps)

lemma uuid_shape_length: "uuid_shape p s \<Longrightarrow> length s = 36"
  using hex_groups_length [of p "[8, 4, 4, 4, 12]" s] by (simp add: uuid_shape_def)

subsection \<open>Decimal printing\<close>

definition digit_char :: "nat \<Rightarrow> char" where
  "digit_char d = char_of (48 + d)"

fun dec_nat :: "nat \<Rightarrow> string" where
  "dec_nat n = (if n < 10 then [digit_char n] else dec_nat (n div 10) @ [digit_char (n mod 10)])"

declare dec_nat.simps [simp del]

definition dec_int :: "int \<Rightarrow> string" where
  "dec_int n = (if n < 0 then CHR ''-'' # dec_nat (nat (- n)) else dec_nat (nat n))"

end
