(* ===== verification/Esp_Paths.thy ===== *)
theory Esp_Paths
  imports Go_Strings
begin

text \<open>
  Names of files on the EFI system partition (\<open>app/esp_ownership.go\<close>,
  \<open>app/esp_cleanup.go\<close>): normalisation for the case-insensitive FAT volume, the
  syntactic check of a manifest path, and the fixed sets of paths that wootc may own.
\<close>

definition espOwnershipManifest :: string where
  "espOwnershipManifest = ''EFI'' @ [backslash] @ ''wootc'' @ [backslash] @ ''wootc-owned.txt''"

definition wootcGrubMarker :: string where
  "wootcGrubMarker = ''# wootc deployer''"

definition wootcGrubOwnership :: string where
  "wootcGrubOwnership = ''# wootc''"

definition normalizeESPPath :: "string \<Rightarrow> string" where
  "normalizeESPPath p = to_lower (trim_set (to_slashes p) [slash])"

definition path_parts :: "string \<Rightarrow> string list" where
  "path_parts rel = split_on slash (to_slashes rel)"

definition bad_path_chars :: string where
  "bad_path_chars =
     [CHR '':'', CHR ''<'', CHR ''>'', CHR 0x22, CHR ''|'', CHR ''?'', CHR ''*'', CHR 0x00, CHR 0x0D,
      CHR 0x0A, CHR 0x09]"

definition bad_path_part :: "string \<Rightarrow> bool" where
  "bad_path_part part \<longleftrightarrow>
     part = [] \<or> part = ''.'' \<or> part = ''..'' \<or> trim_right_set part '' .'' \<noteq> part \<or>
     contains_any part bad_path_chars"

text \<open>\<open>None\<close> is the accepting result; \<open>Some rel\<close> the refused path.\<close>

definition validateESPRelativeFile :: "string \<Rightarrow> string option" where
  "validateESPRelativeFile rel =
     (if list_ex bad_path_part (path_parts rel) then Some (to_slashes rel) else None)"

definition isOwnNamespace :: "string \<Rightarrow> bool" where
  "isOwnNamespace rel \<longleftrightarrow> has_prefix (normalizeESPPath rel) ''efi/wootc/''"

definition shared_product_files :: "string list" where
  "shared_product_files =
     [''efi/fedora/grub.cfg'', ''efi/fedora/shimx64.efi'', ''efi/fedora/grubx64.efi'',
      ''efi/fedora/mmx64.efi'', ''efi/redhat/grub.cfg'', ''efi/systemd/shimx64.efi'',
      ''efi/systemd/grubx64.efi'', ''efi/systemd/systemd-bootx64.efi'', ''loader/loader.conf'',
      ''loader/entries/wootc-deployer.conf'', ''loader/entries/wootc.conf'']"

definition allowedESPCleanupClaim :: "string \<Rightarrow> bool" where
  "allowedESPCleanupClaim rel \<longleftrightarrow>
     (let rel = normalizeESPPath rel in
      has_prefix rel ''efi/wootc/'' \<or> rel \<in> set shared_product_files)"

definition legacyUnrecordedProductFile :: "string \<Rightarrow> bool" where
  "legacyUnrecordedProductFile rel \<longleftrightarrow>
     rel \<in> set [''efi/wootc/deployer-vmlinuz'', ''efi/wootc/deployer-initramfs.img'',
       ''efi/wootc/phase2-vmlinuz'', ''efi/wootc/phase2-initramfs.img'', ''efi/wootc/wubildr.efi'',
       ''efi/fedora/grub.cfg'', ''efi/redhat/grub.cfg'', ''efi/wootc/grub.cfg'',
       ''loader/loader.conf'']"

subsection \<open>Normalisation\<close>

lemma code_of_slash: "code_of slash = 47"
  by (simp add: code_of_def slash_def)

lemma code_of_backslash: "code_of backslash = 92"
  by (simp add: code_of_def backslash_def)

lemma lower_char_slash_iff [simp]: "lower_char c = slash \<longleftrightarrow> c = slash"
  by (rule lower_char_fixed) (simp_all add: code_of_slash)

lemma lower_char_slash [simp]: "lower_char slash = slash"
  by simp

lemma lower_char_backslash_iff [simp]: "lower_char c = backslash \<longleftrightarrow> c = backslash"
  by (rule lower_char_fixed) (simp_all add: code_of_backslash)

lemma backslash_in_to_lower: "backslash \<in> set (to_lower s) \<longleftrightarrow> backslash \<in> set s"
proof -
  have "backslash \<in> set (to_lower s) \<longleftrightarrow> (\<exists>c\<in>set s. lower_char c = backslash)"
    by (auto simp only: to_lower_def set_map image_iff eq_commute [of backslash])
  then show ?thesis by auto
qed

lemma normalize_no_backslash: "backslash \<notin> set (normalizeESPPath p)"
  using to_slashes_no_backslash [of p] set_trim_by [of "\<lambda>c. c \<in> set [slash]" "to_slashes p"]
  by (auto simp: normalizeESPPath_def trim_set_def backslash_in_to_lower)

lemma normalize_ends:
  "normalizeESPPath p \<noteq> [] \<Longrightarrow> hd (normalizeESPPath p) \<noteq> slash \<and> last (normalizeESPPath p) \<noteq> slash"
  using trim_by_hd [of "\<lambda>c. c \<in> set [slash]" "to_slashes p"]
    trim_by_last [of "\<lambda>c. c \<in> set [slash]" "to_slashes p"]
  by (simp add: normalizeESPPath_def trim_set_def to_lower_def hd_map last_map)

lemma trim_slash_id:
  "s = [] \<or> (hd s \<noteq> slash \<and> last s \<noteq> slash) \<Longrightarrow> trim_set s [slash] = s"
  by (auto simp: trim_set_def intro!: trim_by_id)

text \<open>A normalised path is its own normal form, so claims can be compared as strings.\<close>

lemma normalize_idem [simp]: "normalizeESPPath (normalizeESPPath p) = normalizeESPPath p"
proof -
  let ?n = "normalizeESPPath p"
  have "to_slashes ?n = ?n"
    by (rule to_slashes_id [OF normalize_no_backslash])
  moreover have "trim_set ?n [slash] = ?n"
    using normalize_ends [of p] by (intro trim_slash_id) blast
  moreover have "to_lower ?n = ?n"
    by (simp add: normalizeESPPath_def)
  ultimately show ?thesis
    by (simp add: normalizeESPPath_def [of ?n])
qed

subsection \<open>The cleanup allow-list\<close>

lemma allowed_normalize [simp]:
  "allowedESPCleanupClaim (normalizeESPPath rel) \<longleftrightarrow> allowedESPCleanupClaim rel"
  by (simp add: allowedESPCleanupClaim_def)

lemma ownNamespace_allowed: "isOwnNamespace rel \<Longrightarrow> allowedESPCleanupClaim rel"
  by (simp add: isOwnNamespace_def allowedESPCleanupClaim_def)

end
