(* ===== verification/Esp_Volume.thy ===== *)
theory Esp_Volume
  imports Esp_Paths
begin

text \<open>
  The EFI system partition as the code sees it through Go's \<open>os\<close> package: a tree of named
  entries looked up without regard to case, and file operations that may fail. The state
  carries a script that says, for each operation in turn, whether it works; every theorem
  about the ESP holds for every script. The faults are the ones that the comments of
  \<open>app/esp_ownership.go\<close> report from real machines: a refused call, a torn write, a rename that
  reports an error after it moved the file, and a scanner that takes the file away.
\<close>

datatype node = Dir "(string \<times> node) list" | File string | Link | Special

datatype fault =
    Fine
  | Fails string
  | Torn nat string
  | Reported string
  | Eaten string
  | Kept string
  | Ignored

record esp_state =
  es_root :: node
  es_script :: "fault list"

subsection \<open>The tree\<close>

definition get_entry :: "string \<Rightarrow> (string \<times> node) list \<Rightarrow> node option" where
  "get_entry p es = map_option snd (List.find (\<lambda>e. equal_fold (fst e) p) es)"

definition set_entry :: "string \<Rightarrow> node option \<Rightarrow> (string \<times> node) list \<Rightarrow> (string \<times> node) list" where
  "set_entry p v es =
     (case v of
        None \<Rightarrow> filter (\<lambda>e. \<not> equal_fold (fst e) p) es
      | Some m \<Rightarrow> if get_entry p es = None then es @ [(p, m)]
                  else map (\<lambda>e. if equal_fold (fst e) p then (fst e, m) else e) es)"

fun locate :: "node \<Rightarrow> string list \<Rightarrow> node option" where
  "locate n [] = Some n"
| "locate n (p # ps) =
     (case n of
        Dir es \<Rightarrow> (case get_entry p es of None \<Rightarrow> None | Some m \<Rightarrow> locate m ps)
      | _ \<Rightarrow> None)"

text \<open>\<open>alter ps v n\<close> puts \<open>v\<close> at the path, or removes what is there, when its parent exists.\<close>

fun alter :: "string list \<Rightarrow> node option \<Rightarrow> node \<Rightarrow> node" where
  "alter [] v n = n"
| "alter (p # ps) v n =
     (case n of
        Dir es \<Rightarrow>
          (if ps = [] then Dir (set_entry p v es)
           else case get_entry p es of
                  None \<Rightarrow> n
                | Some m \<Rightarrow> Dir (set_entry p (Some (alter ps v m)) es))
      | _ \<Rightarrow> n)"

fun make_dirs :: "string list \<Rightarrow> node \<Rightarrow> node option" where
  "make_dirs [] n = (case n of Dir es \<Rightarrow> Some n | _ \<Rightarrow> None)"
| "make_dirs (p # ps) n =
     (case n of
        Dir es \<Rightarrow>
          (case make_dirs ps (case get_entry p es of None \<Rightarrow> Dir [] | Some m \<Rightarrow> m) of
             None \<Rightarrow> None
           | Some m \<Rightarrow> Some (Dir (set_entry p (Some m) es)))
      | _ \<Rightarrow> None)"

definition same_path :: "string list \<Rightarrow> string list \<Rightarrow> bool" where
  "same_path ps qs \<longleftrightarrow> map to_lower ps = map to_lower qs"

definition file_at :: "node \<Rightarrow> string list \<Rightarrow> string option" where
  "file_at n ps = (case locate n ps of Some (File d) \<Rightarrow> Some d | _ \<Rightarrow> None)"

definition not_dir :: "node option \<Rightarrow> bool" where
  "not_dir v \<longleftrightarrow> (case v of Some (Dir es) \<Rightarrow> False | _ \<Rightarrow> True)"

lemma not_dir_simps [simp]:
  "not_dir None" "not_dir (Some (File d))" "not_dir (Some Link)" "not_dir (Some Special)"
  "\<not> not_dir (Some (Dir es))"
  by (simp_all add: not_dir_def)

definition dir_at :: "node \<Rightarrow> string list \<Rightarrow> bool" where
  "dir_at n ps \<longleftrightarrow> \<not> not_dir (locate n ps)"

text \<open>
  The interface of one directory: reading after an update. It is stated as a locale, and
  the laws of the whole tree below are derived from its interpretation.
\<close>

locale entry_table =
  fixes get :: "string \<Rightarrow> 't \<Rightarrow> 'n option"
    and set_to :: "string \<Rightarrow> 'n option \<Rightarrow> 't \<Rightarrow> 't"
  assumes get_set: "get q (set_to p v t) = (if equal_fold p q then v else get q t)"
    and get_fold: "equal_fold p q \<Longrightarrow> get p t = get q t"
begin

lemma get_same [simp]: "get p (set_to p v t) = v"
  by (simp add: get_set)

lemma get_other: "\<not> equal_fold p q \<Longrightarrow> get q (set_to p v t) = get q t"
  by (simp add: get_set)

lemma set_twice: "get q (set_to p w (set_to p v t)) = get q (set_to p w t)"
  by (simp add: get_set)

end

lemma get_entry_fold: "equal_fold p q \<Longrightarrow> get_entry p es = get_entry q es"
  by (simp add: get_entry_def equal_fold_def)

lemma get_entry_append:
  "get_entry p (es @ fs) = (case get_entry p es of None \<Rightarrow> get_entry p fs | Some m \<Rightarrow> Some m)"
  by (auto simp: get_entry_def find_append split: option.splits)

lemma get_entry_filter:
  "get_entry q (filter (\<lambda>e. \<not> equal_fold (fst e) p) es) = (if equal_fold p q then None else get_entry q es)"
  by (induction es) (auto simp: get_entry_def equal_fold_def)

lemma get_entry_map:
  "get_entry q (map (\<lambda>e. if equal_fold (fst e) p then (fst e, m) else e) es) =
     (if equal_fold p q then map_option (\<lambda>_. m) (get_entry q es) else get_entry q es)"
  by (induction es) (auto simp: get_entry_def equal_fold_def)

interpretation entries: entry_table get_entry set_entry
proof
  fix p q v and es :: "(string \<times> node) list"
  have single: "get_entry q [(p, m)] = (if equal_fold p q then Some m else None)" for m
    by (simp add: get_entry_def)
  show "get_entry q (set_entry p v es) = (if equal_fold p q then v else get_entry q es)"
    using get_entry_fold [of p q es]
    by (auto simp: set_entry_def get_entry_filter get_entry_map get_entry_append single
        split: option.splits)
  show "equal_fold p q \<Longrightarrow> get_entry p es = get_entry q es" by (rule get_entry_fold)
qed

subsection \<open>Reading after a change\<close>

lemma same_path_Cons: "same_path (p # ps) (q # qs) \<longleftrightarrow> equal_fold p q \<and> same_path ps qs"
  by (simp add: same_path_def equal_fold_def)

lemma same_path_Nil [simp]: "same_path [] qs \<longleftrightarrow> qs = []" "same_path ps [] \<longleftrightarrow> ps = []"
  by (auto simp: same_path_def)

lemma same_path_refl [simp]: "same_path ps ps"
  by (simp add: same_path_def)

lemma same_path_sym: "same_path ps qs \<longleftrightarrow> same_path qs ps"
  by (auto simp: same_path_def)

lemma same_path_trans: "same_path ps qs \<Longrightarrow> same_path qs rs \<Longrightarrow> same_path ps rs"
  by (simp add: same_path_def)

lemma locate_same: "same_path ps qs \<Longrightarrow> locate n ps = locate n qs"
proof (induction ps arbitrary: n qs)
  case Nil
  then show ?case by simp
next
  case (Cons p ps)
  then obtain q rs where qs: "qs = q # rs" "equal_fold p q" "same_path ps rs"
    by (cases qs) (auto simp: same_path_Cons)
  have "get_entry p = get_entry q" using entries.get_fold [OF qs(2)] by (rule ext)
  moreover have "(\<lambda>m. locate m ps) = (\<lambda>m. locate m rs)" using Cons.IH [OF qs(3)] by (rule ext)
  ultimately show ?case unfolding qs(1) locate.simps by presburger
qed

lemma file_at_same: "same_path ps qs \<Longrightarrow> file_at n ps = file_at n qs"
  by (simp only: file_at_def locate_same)

lemma dir_at_same: "same_path ps qs \<Longrightarrow> dir_at n ps = dir_at n qs"
  by (simp only: dir_at_def locate_same)

text \<open>
  What the tree shows at a path: the contents of a file, whether it is a directory, and
  whether anything is there.
\<close>

definition shows_at :: "node option \<Rightarrow> string option \<times> bool \<times> bool" where
  "shows_at v =
     (case v of
        None \<Rightarrow> (None, False, False)
      | Some n \<Rightarrow> (case n of File d \<Rightarrow> Some d | _ \<Rightarrow> None, case n of Dir es \<Rightarrow> True | _ \<Rightarrow> False, True))"

lemma shows_at_locate: "shows_at (locate n ps) = (file_at n ps, dir_at n ps, locate n ps \<noteq> None)"
  by (simp add: shows_at_def file_at_def dir_at_def not_dir_def split: option.splits node.splits)

lemma shows_at_below:
  "not_dir v \<Longrightarrow> qs \<noteq> [] \<Longrightarrow> (case v of None \<Rightarrow> None | Some m \<Rightarrow> locate m qs) = None"
  by (cases qs) (auto simp: not_dir_def split: option.splits node.splits)

lemma alter_is_dir: "shows_at (Some (alter ps v n)) = shows_at (Some n)"
  by (cases ps) (auto simp: shows_at_def split: node.splits option.splits)

lemma alter_other:
  assumes "not_dir (locate n ps)" "not_dir v" "\<not> same_path ps qs"
  shows "shows_at (locate (alter ps v n) qs) = shows_at (locate n qs)"
  using assms
proof (induction ps arbitrary: n qs)
  case Nil
  then show ?case by simp
next
  case (Cons p ps)
  show ?case
  proof (cases n)
    case (Dir es)
    show ?thesis
    proof (cases qs)
      case Nil
      with alter_is_dir [of "p # ps" v n] show ?thesis by simp
    next
      case (Cons q rs)
      show ?thesis
      proof (cases "equal_fold p q")
        case False
        with Dir Cons show ?thesis
          by (cases "ps = []") (auto simp: entries.get_set split: option.splits)
      next
        case True
        then have get: "get_entry q es = get_entry p es" by (simp add: entries.get_fold [of p q])
        have ns: "\<not> same_path ps rs" using True Cons Cons.prems(3) by (simp add: same_path_Cons)
        show ?thesis
        proof (cases "ps = []")
          case True
          with ns have "rs \<noteq> []" by simp
          moreover have "not_dir (get_entry p es)"
            using Cons.prems(1) Dir True by (simp split: option.splits add: not_dir_def)
          ultimately show ?thesis
            using Dir True Cons \<open>equal_fold p q\<close> get Cons.prems(2)
            by (simp add: entries.get_set shows_at_below)
        next
          case False
          show ?thesis
          proof (cases "get_entry p es")
            case None
            with Dir False Cons show ?thesis by simp
          next
            case (Some m)
            have "not_dir (locate m ps)" using Cons.prems(1) Dir Some by simp
            from Cons.IH [OF this Cons.prems(2) ns] Dir False Cons Some True get
            show ?thesis by (simp add: entries.get_set)
          qed
        qed
      qed
    qed
  qed (use Cons in auto)
qed

lemma alter_at:
  assumes "ps \<noteq> []" "dir_at n (butlast ps)"
  shows "locate (alter ps v n) ps = v"
  using assms
proof (induction ps arbitrary: n)
  case Nil
  then show ?case by simp
next
  case (Cons p ps)
  show ?case
  proof (cases n)
    case (Dir es)
    show ?thesis
    proof (cases "ps = []")
      case True
      with Dir show ?thesis by (auto split: option.splits)
    next
      case False
      with Cons.prems Dir obtain m where m: "get_entry p es = Some m" "dir_at m (butlast ps)"
        by (auto simp: dir_at_def split: option.splits)
      from Cons.IH [OF False m(2)] Dir False m(1) show ?thesis by simp
    qed
  qed (use Cons in \<open>auto simp: dir_at_def not_dir_def split: if_splits\<close>)
qed

text \<open>The two laws every file operation is stated with.\<close>

lemma file_at_alter:
  assumes "not_dir (locate n ps)" "not_dir v" "ps \<noteq> []" "dir_at n (butlast ps)"
  shows "file_at (alter ps v n) qs =
    (if same_path ps qs then (case v of Some (File d) \<Rightarrow> Some d | _ \<Rightarrow> None) else file_at n qs)"
proof (cases "same_path ps qs")
  case True
  then have "file_at (alter ps v n) qs = file_at (alter ps v n) ps"
    using file_at_same same_path_sym by blast
  with True alter_at [OF assms(3,4), of v] show ?thesis by (simp add: file_at_def)
next
  case False
  from alter_other [OF assms(1,2) this] show ?thesis using False by (simp add: shows_at_locate)
qed

lemma dir_at_alter_same:
  assumes "not_dir (locate n ps)" "not_dir v"
  shows "dir_at (alter ps v n) ps = dir_at n ps"
  using assms
proof (induction ps arbitrary: n)
  case Nil
  then show ?case by simp
next
  case (Cons p ps)
  show ?case
  proof (cases n)
    case (Dir es)
    show ?thesis
    proof (cases "ps = []")
      case True
      with Cons.prems Dir show ?thesis by (cases v) (simp_all add: dir_at_def)
    next
      case False
      show ?thesis
      proof (cases "get_entry p es")
        case (Some m)
        with Cons.prems Dir have "not_dir (locate m ps)" by simp
        from Cons.IH [OF this Cons.prems(2)] Dir False Some show ?thesis by (simp add: dir_at_def)
      qed (use Dir False in \<open>simp add: dir_at_def\<close>)
    qed
  qed (simp_all add: dir_at_def)
qed

lemma dir_at_alter:
  assumes "not_dir (locate n ps)" "not_dir v"
  shows "dir_at (alter ps v n) qs = dir_at n qs"
proof (cases "same_path ps qs")
  case False
  from alter_other [OF assms this] show ?thesis by (simp add: shows_at_locate)
next
  case True
  have "dir_at (alter ps v n) ps = dir_at n ps"
    using assms by (rule dir_at_alter_same)
  with True show ?thesis using dir_at_same by metis
qed

lemma file_at_alter_other:
  "not_dir (locate n ps) \<Longrightarrow> not_dir v \<Longrightarrow> \<not> same_path ps qs \<Longrightarrow>
     file_at (alter ps v n) qs = file_at n qs"
  using alter_other [of n ps v qs] by (simp add: shows_at_locate)

subsection \<open>File operations\<close>

definition next_fault :: "esp_state \<Rightarrow> fault \<times> esp_state" where
  "next_fault s =
     (case es_script s of [] \<Rightarrow> (Fine, s) | f # fs \<Rightarrow> (f, s\<lparr>es_script := fs\<rparr>))"

definition put_at :: "string list \<Rightarrow> node option \<Rightarrow> esp_state \<Rightarrow> esp_state" where
  "put_at ps v s = s\<lparr>es_root := alter ps v (es_root s)\<rparr>"

text \<open>A file can be written when its directory exists and nothing but a file is at the path.\<close>

definition can_write :: "node \<Rightarrow> string list \<Rightarrow> bool" where
  "can_write n ps \<longleftrightarrow> ps \<noteq> [] \<and> dir_at n (butlast ps) \<and>
     (case locate n ps of None \<Rightarrow> True | Some (File d) \<Rightarrow> True | _ \<Rightarrow> False)"

definition enoent :: string where "enoent = ''The system cannot find the file specified.''"

definition os_stat :: "string list \<Rightarrow> esp_state \<Rightarrow> node file_read \<times> esp_state" where
  "os_stat ps s =
     (let (f, s1) = next_fault s
      in case f of
           Fails e \<Rightarrow> (Unreadable e, s1)
         | _ \<Rightarrow> (case locate (es_root s1) ps of None \<Rightarrow> Missing | Some n \<Rightarrow> Found n, s1))"

definition os_read_file :: "string list \<Rightarrow> esp_state \<Rightarrow> string file_read \<times> esp_state" where
  "os_read_file ps s =
     (let (st, s1) = os_stat ps s
      in (case st of Missing \<Rightarrow> Missing | Unreadable e \<Rightarrow> Unreadable e
          | Found n \<Rightarrow> (case n of File d \<Rightarrow> Found d | _ \<Rightarrow> Unreadable ''not a file''), s1))"

definition os_create :: "string list \<Rightarrow> esp_state \<Rightarrow> string option \<times> esp_state" where
  "os_create ps s =
     (let (f, s1) = next_fault s
      in case f of
           Fails e \<Rightarrow> (Some e, s1)
         | _ \<Rightarrow> if can_write (es_root s1) ps then (None, put_at ps (Some (File [])) s1)
                else (Some enoent, s1))"

text \<open>Writing the whole contents of a file just created; the path still exists.\<close>

definition os_write :: "string list \<Rightarrow> string \<Rightarrow> esp_state \<Rightarrow> string option \<times> esp_state" where
  "os_write ps d s =
     (let (f, s1) = next_fault s
      in case f of
           Fails e \<Rightarrow> (Some e, s1)
         | Torn k e \<Rightarrow> (Some e, put_at ps (Some (File (take k d))) s1)
         | _ \<Rightarrow> (None, put_at ps (Some (File d)) s1))"

definition os_flush :: "esp_state \<Rightarrow> string option \<times> esp_state" where
  "os_flush s = (let (f, s1) = next_fault s in (case f of Fails e \<Rightarrow> Some e | _ \<Rightarrow> None, s1))"

definition os_remove :: "string list \<Rightarrow> esp_state \<Rightarrow> string option \<times> esp_state" where
  "os_remove ps s =
     (let (f, s1) = next_fault s
      in case f of
           Kept e \<Rightarrow> (Some e, s1)
         | Ignored \<Rightarrow> (None, s1)
         | _ \<Rightarrow> (case locate (es_root s1) ps of
                  None \<Rightarrow> (Some enoent, s1)
                | Some (Dir es) \<Rightarrow> (Some ''The directory is not empty.'', s1)
                | Some n \<Rightarrow> (None, put_at ps None s1)))"

definition move_file :: "string list \<Rightarrow> string list \<Rightarrow> esp_state \<Rightarrow> string option \<times> esp_state" where
  "move_file a b s =
     (case file_at (es_root s) a of
        Some d \<Rightarrow> if can_write (es_root s) b
                  then (None, put_at a None (put_at b (Some (File d)) s)) else (Some enoent, s)
      | None \<Rightarrow> (Some enoent, s))"

definition os_rename :: "string list \<Rightarrow> string list \<Rightarrow> esp_state \<Rightarrow> string option \<times> esp_state" where
  "os_rename a b s =
     (let (f, s1) = next_fault s
      in case f of
           Fails e \<Rightarrow> (Some e, s1)
         | Reported e \<Rightarrow> (Some e, snd (move_file a b s1))
         | Eaten e \<Rightarrow> (Some e, case file_at (es_root s1) a of None \<Rightarrow> s1 | Some d \<Rightarrow> put_at a None s1)
         | _ \<Rightarrow> move_file a b s1)"

definition os_mkdir_all :: "string list \<Rightarrow> esp_state \<Rightarrow> string option \<times> esp_state" where
  "os_mkdir_all ps s =
     (let (f, s1) = next_fault s
      in case f of
           Fails e \<Rightarrow> (Some e, s1)
         | _ \<Rightarrow> (case make_dirs ps (es_root s1) of
                  None \<Rightarrow> (Some ''The directory name is invalid.'', s1)
                | Some n \<Rightarrow> (None, s1\<lparr>es_root := n\<rparr>)))"

text \<open>\<open>os.WriteFile\<close> truncates in place; \<open>copyFile\<close> (\<open>app/helpers.go\<close>) copies readable contents.\<close>

definition os_write_file :: "string list \<Rightarrow> string \<Rightarrow> esp_state \<Rightarrow> string option \<times> esp_state" where
  "os_write_file ps d s =
     (case os_create ps s of
        (Some e, s1) \<Rightarrow> (Some e, s1)
      | (None, s1) \<Rightarrow>
          (case os_write ps d s1 of
             (Some e, s2) \<Rightarrow> (Some e, s2)
           | (None, s2) \<Rightarrow> os_flush s2))"

definition copyFile :: "string file_read \<Rightarrow> string list \<Rightarrow> esp_state \<Rightarrow> string option \<times> esp_state" where
  "copyFile src dst s =
     (case src of
        Missing \<Rightarrow> (Some enoent, s)
      | Unreadable e \<Rightarrow> (Some e, s)
      | Found d \<Rightarrow>
          (case os_create dst s of
             (Some e, s1) \<Rightarrow> (Some e, s1)
           | (None, s1) \<Rightarrow> os_write dst d s1))"

subsection \<open>What an operation leaves alone\<close>

text \<open>
  \<open>keeps P s s'\<close>: every path outside \<open>P\<close> shows the same file, no directory was lost, and the rest
  of the script is a rest of the old one.
\<close>

definition keeps :: "(string list \<Rightarrow> bool) \<Rightarrow> esp_state \<Rightarrow> esp_state \<Rightarrow> bool" where
  "keeps P s s' \<longleftrightarrow>
     (\<forall>qs. \<not> P qs \<longrightarrow> file_at (es_root s') qs = file_at (es_root s) qs) \<and>
     (\<forall>qs. dir_at (es_root s) qs \<longrightarrow> dir_at (es_root s') qs) \<and>
     suffix (es_script s') (es_script s)"

definition only :: "string list \<Rightarrow> string list \<Rightarrow> bool" where
  "only ps qs \<longleftrightarrow> same_path ps qs"

lemma keeps_refl [simp]: "keeps P s s"
  by (simp add: keeps_def)

lemma keeps_trans: "keeps P s s1 \<Longrightarrow> keeps P s1 s2 \<Longrightarrow> keeps P s s2"
  unfolding keeps_def by (metis suffix_order.trans)

lemma keeps_mono: "keeps P s s' \<Longrightarrow> (\<And>qs. P qs \<Longrightarrow> Q qs) \<Longrightarrow> keeps Q s s'"
  unfolding keeps_def by blast

lemma keepsD:
  assumes "keeps P s s'"
  shows "\<not> P qs \<Longrightarrow> file_at (es_root s') qs = file_at (es_root s) qs"
    "dir_at (es_root s) qs \<Longrightarrow> dir_at (es_root s') qs"
    "set (es_script s') \<subseteq> set (es_script s)"
  using assms unfolding keeps_def by (blast, blast, metis set_mono_suffix)

lemma keeps_next: "next_fault s = (f, s1) \<Longrightarrow> keeps P s s1"
  by (cases "es_script s") (auto simp: next_fault_def keeps_def suffix_def)

lemma next_root: "next_fault s = (f, s1) \<Longrightarrow> es_root s1 = es_root s"
  by (cases "es_script s") (auto simp: next_fault_def)

lemma put_at_simps [simp]:
  "es_root (put_at ps v s) = alter ps v (es_root s)" "es_script (put_at ps v s) = es_script s"
  by (simp_all add: put_at_def)

lemma keeps_put:
  assumes "not_dir (locate (es_root s) ps)" "not_dir v"
  shows "keeps (only ps) s (put_at ps v s)"
  using assms by (simp add: keeps_def only_def file_at_alter_other dir_at_alter)

lemma can_writeD:
  assumes "can_write n ps"
  shows "ps \<noteq> []" "dir_at n (butlast ps)" "not_dir (locate n ps)"
  using assms by (auto simp: can_write_def not_dir_def split: option.splits node.splits)

lemma file_not_dir: "file_at n ps = Some d \<Longrightarrow> not_dir (locate n ps)"
  by (auto simp: file_at_def not_dir_def split: option.splits node.splits)

lemma keeps_move: "move_file a b s = (r, s') \<Longrightarrow> keeps (\<lambda>qs. only a qs \<or> only b qs) s s'"
proof (cases "file_at (es_root s) a")
  case (Some d)
  assume m: "move_file a b s = (r, s')"
  show ?thesis
  proof (cases "can_write (es_root s) b")
    case True
    let ?s1 = "put_at b (Some (File d)) s"
    have "keeps (only b) s ?s1" using can_writeD(3) [OF True] by (intro keeps_put) simp_all
    moreover have "not_dir (locate (es_root ?s1) a)"
      using dir_at_alter [OF can_writeD(3) [OF True], of "Some (File d)" a] file_not_dir [OF Some]
      by (simp add: dir_at_def)
    then have "keeps (only a) ?s1 (put_at a None ?s1)" by (intro keeps_put) simp_all
    moreover have "s' = put_at a None ?s1" using m Some True by (simp add: move_file_def)
    ultimately show ?thesis using keeps_mono keeps_trans by (metis (no_types, lifting))
  qed (use m Some in \<open>simp add: move_file_def\<close>)
qed (simp add: move_file_def)

subsection \<open>One preservation rule per operation\<close>

lemma keeps_stat [inv_intros]: "os_stat ps s = (r, s') \<Longrightarrow> keeps P s s'"
  by (auto simp: os_stat_def split: prod.splits fault.splits intro: keeps_next)

lemma stat_root: "os_stat ps s = (r, s') \<Longrightarrow> es_root s' = es_root s"
  by (auto simp: os_stat_def next_root split: prod.splits fault.splits)

lemma stat_value:
  "os_stat ps s = (Found n, s') \<Longrightarrow> locate (es_root s) ps = Some n"
  "os_stat ps s = (Missing, s') \<Longrightarrow> locate (es_root s) ps = None"
  by (auto simp: os_stat_def next_root split: prod.splits fault.splits option.splits)

lemma keeps_read [inv_intros]: "os_read_file ps s = (r, s') \<Longrightarrow> keeps P s s'"
  by (auto simp: os_read_file_def split: prod.splits intro: keeps_stat)

lemma read_root: "os_read_file ps s = (r, s') \<Longrightarrow> es_root s' = es_root s"
  by (auto simp: os_read_file_def split: prod.splits dest: stat_root)

lemma read_value:
  "os_read_file ps s = (Found d, s') \<Longrightarrow> file_at (es_root s) ps = Some d"
  "os_read_file ps s = (Missing, s') \<Longrightarrow> locate (es_root s) ps = None"
  by (auto simp: os_read_file_def file_at_def split: prod.splits file_read.splits node.splits
      dest: stat_value)

lemma create_cases:
  assumes "os_create ps s = (r, s')"
  obtains (failed) e where "r = Some e" "es_root s' = es_root s" "keeps P s s'"
  | (created) "r = None" "can_write (es_root s) ps" "es_root s' = alter ps (Some (File [])) (es_root s)"
      "keeps (only ps) s s'"
proof -
  obtain f s1 where n: "next_fault s = (f, s1)" by (metis surj_pair)
  note root = next_root [OF n]
  have k: "keeps Q s s1" for Q by (rule keeps_next [OF n])
  have err: thesis if "r = Some e" "s' = s1" for e
    using that root k by (intro failed) simp_all
  have ok: thesis if c: "can_write (es_root s1) ps" "r = None" "s' = put_at ps (Some (File [])) s1"
  proof (rule created)
    have "keeps (only ps) s1 s'" unfolding c(3) using can_writeD(3) [OF c(1)] by (intro keeps_put) simp_all
    then show "keeps (only ps) s s'" using k keeps_trans by blast
  qed (use c root in simp_all)
  from assms n have "(\<exists>e. r = Some e \<and> s' = s1) \<or>
      can_write (es_root s1) ps \<and> r = None \<and> s' = put_at ps (Some (File [])) s1"
    by (simp add: os_create_def split: fault.splits if_splits) metis+
  then show thesis using err ok by blast
qed

lemma keeps_create [inv_intros]: "os_create ps s = (r, s') \<Longrightarrow> keeps (only ps) s s'"
  by (erule create_cases)

lemma created_file:
  assumes "os_create ps s = (None, s')"
  shows "file_at (es_root s') ps = Some []"
  using assms
proof (cases rule: create_cases)
  case created
  then show ?thesis using can_writeD [OF created(2)] by (simp add: file_at_alter)
qed simp

lemma file_at_parent: "file_at n ps = Some d \<Longrightarrow> ps \<noteq> [] \<Longrightarrow> dir_at n (butlast ps)"
proof (induction ps arbitrary: n)
  case Nil
  then show ?case by simp
next
  case (Cons p ps)
  then show ?case
    by (cases n; cases "ps = []") (auto simp: file_at_def dir_at_def split: option.splits)
qed

text \<open>Writing over an existing file leaves the file with the whole or a part of the data.\<close>

lemma write_cases:
  assumes "os_write ps d s = (r, s')" "file_at (es_root s) ps = Some c" "ps \<noteq> []"
  shows "keeps (only ps) s s' \<and>
    (case r of None \<Rightarrow> file_at (es_root s') ps = Some d
     | Some e \<Rightarrow> file_at (es_root s') ps = Some c \<or> (\<exists>k. file_at (es_root s') ps = Some (take k d)))"
proof -
  obtain f s1 where n: "next_fault s = (f, s1)" by (metis surj_pair)
  note root = next_root [OF n]
  have k: "keeps Q s s1" for Q by (rule keeps_next [OF n])
  have nd: "not_dir (locate (es_root s1) ps)" using file_not_dir [OF assms(2)] root by simp
  have par: "dir_at (es_root s1) (butlast ps)" using file_at_parent [OF assms(2,3)] root by simp
  have put: "keeps (only ps) s (put_at ps (Some (File x)) s1)"
    "file_at (es_root (put_at ps (Some (File x)) s1)) ps = Some x" for x
    using keeps_trans [OF k keeps_put [OF nd]] file_at_alter [OF nd _ assms(3) par] by simp_all
  from assms(1,2) n put k root show ?thesis
    by (auto simp: os_write_def split: fault.splits)
qed

lemma keeps_flush [inv_intros]: "os_flush s = (r, s') \<Longrightarrow> keeps P s s'"
  by (auto simp: os_flush_def split: prod.splits intro: keeps_next)

lemma flush_root: "os_flush s = (r, s') \<Longrightarrow> es_root s' = es_root s"
  by (auto simp: os_flush_def next_root split: prod.splits)

definition removals_work :: "esp_state \<Rightarrow> bool" where
  "removals_work s \<longleftrightarrow> list_all (\<lambda>f. case f of Kept e \<Rightarrow> False | Ignored \<Rightarrow> False | _ \<Rightarrow> True) (es_script s)"

lemma removals_work_keeps: "removals_work s \<Longrightarrow> keeps P s s' \<Longrightarrow> removals_work s'"
  unfolding removals_work_def list_all_iff using keepsD(3) by blast

lemma keeps_remove [inv_intros]: "os_remove ps s = (r, s') \<Longrightarrow> keeps (only ps) s s'"
proof -
  assume a: "os_remove ps s = (r, s')"
  obtain f s1 where n: "next_fault s = (f, s1)" by (metis surj_pair)
  have k: "keeps Q s s1" for Q by (rule keeps_next [OF n])
  have "keeps (only ps) s (put_at ps None s1)" if "not_dir (locate (es_root s1) ps)"
    using keeps_trans [OF k keeps_put [OF that]] by simp
  with a n k show ?thesis
    by (auto simp: os_remove_def split: fault.splits option.splits node.splits)
qed

lemma removed:
  assumes "os_remove ps s = (r, s')" "removals_work s" "ps \<noteq> []" "\<not> dir_at (es_root s) ps"
  shows "locate (es_root s') ps = None \<or> \<not> dir_at (es_root s) (butlast ps)"
proof -
  obtain f s1 where n: "next_fault s = (f, s1)" by (metis surj_pair)
  have "f \<noteq> Ignored" "\<forall>e. f \<noteq> Kept e"
    using n assms(2) by (cases "es_script s"; auto simp: next_fault_def removals_work_def)+
  then show ?thesis
    using assms(1,3,4) n next_root [OF n] alter_at [of ps "es_root s" None]
    by (auto simp: os_remove_def dir_at_def split: fault.splits option.splits node.splits)
qed

lemma keeps_rename [inv_intros]: "os_rename a b s = (r, s') \<Longrightarrow> keeps (\<lambda>qs. only a qs \<or> only b qs) s s'"
proof -
  assume o: "os_rename a b s = (r, s')"
  obtain f s1 where n: "next_fault s = (f, s1)" by (metis surj_pair)
  have k: "keeps Q s s1" for Q by (rule keeps_next [OF n])
  have eat: "keeps (\<lambda>qs. only a qs \<or> only b qs) s (put_at a None s1)" if "file_at (es_root s1) a = Some d" for d
    using keeps_trans [OF k keeps_put [OF file_not_dir [OF that], of None]] keeps_mono
    by (metis (no_types, lifting) not_dir_simps(1))
  have mv: "keeps (\<lambda>qs. only a qs \<or> only b qs) s (snd (move_file a b s1))"
    using keeps_trans [OF k keeps_move [of a b s1]] by (metis prod.collapse)
  from o n k eat mv show ?thesis
    by (auto simp: os_rename_def split: fault.splits option.splits)
qed

subsection \<open>Where files can be written\<close>

lemma can_write_alt:
  "can_write n ps \<longleftrightarrow> ps \<noteq> [] \<and> dir_at n (butlast ps) \<and> (locate n ps = None \<or> file_at n ps \<noteq> None)"
  by (auto simp: can_write_def file_at_def split: option.splits node.splits)

lemma can_write_same: "same_path ps qs \<Longrightarrow> can_write n ps = can_write n qs"
proof -
  assume s: "same_path ps qs"
  then have "same_path (butlast ps) (butlast qs)" by (simp add: same_path_def map_butlast)
  moreover have "ps = [] \<longleftrightarrow> qs = []" using s by (auto simp: same_path_def)
  ultimately show ?thesis
    using s by (simp add: can_write_alt locate_same [OF s] file_at_same [OF s] dir_at_same)
qed

text \<open>What a file operation may put at a path it can write: a file or nothing.\<close>

definition file_or_none :: "node option \<Rightarrow> bool" where
  "file_or_none v \<longleftrightarrow> (case v of None \<Rightarrow> True | Some (File d) \<Rightarrow> True | _ \<Rightarrow> False)"

lemma file_or_none_simps [simp]: "file_or_none None" "file_or_none (Some (File d))"
  by (simp_all add: file_or_none_def)

lemma file_or_none_not_dir: "file_or_none v \<Longrightarrow> not_dir v"
  by (auto simp: file_or_none_def not_dir_def split: option.splits node.splits)

lemma can_write_alter:
  assumes "can_write n ps" "file_or_none v"
  shows "can_write (alter ps v n) qs = (same_path ps qs \<or> can_write n qs)"
proof (cases "same_path ps qs")
  case True
  note c = can_writeD [OF assms(1)]
  have "dir_at (alter ps v n) (butlast ps)"
    using c(2) dir_at_alter [OF c(3) file_or_none_not_dir [OF assms(2)]] by simp
  then have "can_write (alter ps v n) ps"
    using alter_at [OF c(1,2), of v] assms(2) c(1)
    by (simp add: can_write_def file_or_none_def)
  with True show ?thesis using can_write_same by blast
next
  case False
  note c = can_writeD [OF assms(1)]
  note nd = file_or_none_not_dir [OF assms(2)]
  from alter_other [OF c(3) nd False]
  have "file_at (alter ps v n) qs = file_at n qs"
    "locate (alter ps v n) qs = None \<longleftrightarrow> locate n qs = None"
    unfolding shows_at_locate by auto
  with False show ?thesis by (simp only: can_write_alt dir_at_alter [OF c(3) nd] simp_thms)
qed

lemma file_can_write: "file_at n ps = Some d \<Longrightarrow> ps \<noteq> [] \<Longrightarrow> can_write n ps"
  using file_at_parent by (simp add: can_write_alt)

text \<open>
  \<open>writes_kept P s s'\<close>: whatever could be written before can be written after. Only operations
  on files are composed with it; making directories is not.
\<close>

definition writes_kept :: "esp_state \<Rightarrow> esp_state \<Rightarrow> bool" where
  "writes_kept s s' \<longleftrightarrow> (\<forall>qs. can_write (es_root s) qs \<longrightarrow> can_write (es_root s') qs)"

lemma writes_kept_refl [simp]: "es_root s = es_root s' \<Longrightarrow> writes_kept s s'"
  by (simp add: writes_kept_def)

lemma writes_kept_trans: "writes_kept s s1 \<Longrightarrow> writes_kept s1 s2 \<Longrightarrow> writes_kept s s2"
  by (simp add: writes_kept_def)

lemma writes_kept_put:
  "can_write (es_root s) ps \<Longrightarrow> file_or_none v \<Longrightarrow> writes_kept s (put_at ps v s)"
  by (simp add: writes_kept_def can_write_alter)

lemma writes_kept_next: "next_fault s = (f, s1) \<Longrightarrow> writes_kept s s1"
  by (simp add: next_root)

lemma writes_kept_create: "os_create ps s = (r, s') \<Longrightarrow> writes_kept s s'"
  by (erule create_cases) (simp_all add: writes_kept_def can_write_alter)

lemma writes_kept_after:
  "next_fault s = (f, s1) \<Longrightarrow> can_write (es_root s1) ps \<Longrightarrow> file_or_none v \<Longrightarrow> writes_kept s (put_at ps v s1)"
  using writes_kept_next writes_kept_put writes_kept_trans by blast

lemma writes_kept_write:
  assumes "os_write ps d s = (r, s')" "file_at (es_root s) ps = Some c" "ps \<noteq> []"
  shows "writes_kept s s'"
proof -
  obtain f s1 where n: "next_fault s = (f, s1)" by (metis surj_pair)
  have "can_write (es_root s1) ps"
    using file_can_write [OF assms(2,3)] by (simp only: next_root [OF n])
  then have "writes_kept s (put_at ps (Some (File x)) s1)" for x
    using n writes_kept_after by simp
  with assms(1) n show ?thesis
    by (auto simp: os_write_def next_root split: fault.splits)
qed

lemma writes_kept_remove:
  assumes "os_remove ps s = (r, s')" "can_write (es_root s) ps"
  shows "writes_kept s s'"
proof -
  obtain f s1 where n: "next_fault s = (f, s1)" by (metis surj_pair)
  have "writes_kept s (put_at ps None s1)"
    using writes_kept_after [OF n] assms(2) by (simp add: next_root [OF n])
  with assms(1) n show ?thesis
    by (auto simp: os_remove_def next_root split: fault.splits option.splits node.splits)
qed

lemma move_values:
  assumes "move_file a b s = (r, s')" "\<not> same_path a b" "a \<noteq> []"
  shows "r = None \<Longrightarrow> file_at (es_root s') b = file_at (es_root s) a \<and> file_at (es_root s) a \<noteq> None \<and>
      locate (es_root s') a = None"
    "r \<noteq> None \<Longrightarrow> s' = s" "writes_kept s s'"
proof -
  have ok: "file_at (es_root s') b = Some d \<and> locate (es_root s') a = None \<and> writes_kept s s'"
    if d: "file_at (es_root s) a = Some d" and c: "can_write (es_root s) b" for d
  proof -
    let ?s1 = "put_at b (Some (File d)) s"
    have s': "s' = put_at a None ?s1" using assms(1) d c by (simp add: move_file_def)
    note cw = can_writeD [OF c]
    have b: "file_at (es_root ?s1) b = Some d" using cw by (simp add: file_at_alter)
    have a: "file_at (es_root ?s1) a = Some d"
      using cw d assms(2) by (simp add: file_at_alter same_path_sym [of b a])
    then have c1: "can_write (es_root ?s1) a" using assms(3) by (rule file_can_write)
    note cw1 = can_writeD [OF c1]
    have "file_at (es_root s') b = Some d"
      using b cw1 assms(2) unfolding s' put_at_simps by (simp add: file_at_alter)
    moreover have "locate (es_root s') a = None"
      using alter_at [OF cw1(1,2), of None] by (simp add: s')
    moreover have "writes_kept s ?s1" using c by (intro writes_kept_put) simp_all
    moreover have "writes_kept ?s1 s'" unfolding s' using c1 by (intro writes_kept_put) simp_all
    ultimately show ?thesis using writes_kept_trans by blast
  qed
  show "r = None \<Longrightarrow> file_at (es_root s') b = file_at (es_root s) a \<and> file_at (es_root s) a \<noteq> None \<and>
      locate (es_root s') a = None"
    using assms(1) ok by (auto simp: move_file_def split: option.splits if_splits)
  show "r \<noteq> None \<Longrightarrow> s' = s" using assms(1) by (auto simp: move_file_def split: option.splits if_splits)
  show "writes_kept s s'"
    using assms(1) ok by (auto simp: move_file_def split: option.splits if_splits)
qed

text \<open>A rename that reports success moved the file; one that reports failure may have.\<close>

lemma rename_cases:
  assumes "os_rename a b s = (r, s')" "\<not> same_path a b" "a \<noteq> []"
  obtains (moved) "file_at (es_root s') b = file_at (es_root s) a" "file_at (es_root s) a \<noteq> None"
      "locate (es_root s') a = None" "writes_kept s s'"
  | (stayed) "r \<noteq> None" "es_root s' = es_root s" "writes_kept s s'"
  | (eaten) "r \<noteq> None" "file_at (es_root s') b = file_at (es_root s) b" "locate (es_root s') a = None"
      "writes_kept s s'"
proof -
  obtain f s1 where n: "next_fault s = (f, s1)" by (metis surj_pair)
  note root = next_root [OF n]
  obtain q s2 where mv: "move_file a b s1 = (q, s2)" by (metis surj_pair)
  note v = move_values [OF mv assms(2,3)]
  have kept: "writes_kept s s2" using v(3) root by (simp add: writes_kept_def)
  have move: thesis if "s' = s2" "q = None" using that v(1) root kept by (intro moved) simp_all
  have stay: thesis if "r \<noteq> None" "s' = s1" using that root by (intro stayed) simp_all
  have eat: thesis if d: "file_at (es_root s1) a = Some d" "r \<noteq> None" "s' = put_at a None s1" for d
  proof -
    note c = file_can_write [OF d(1) assms(3)]
    note cw = can_writeD [OF c]
    show thesis
    proof (rule eaten)
      show "file_at (es_root s') b = file_at (es_root s) b"
        using cw assms(2) d(3) root by (simp add: file_at_alter)
      show "locate (es_root s') a = None" using alter_at [OF cw(1,2), of None] d(3) by simp
      show "writes_kept s s'" using writes_kept_after [OF n c, of None] d(3) by simp
    qed (rule d(2))
  qed
  have tried: thesis if "s' = s2" "q \<noteq> None \<longrightarrow> r \<noteq> None"
  proof (cases q)
    case None
    show thesis by (rule move [OF that(1) None])
  next
    case (Some e)
    with v(2) that have "s' = s1" "r \<noteq> None" by simp_all
    then show thesis by (intro stay)
  qed
  have "(r \<noteq> None \<and> s' = s1) \<or>
      (\<exists>d. file_at (es_root s1) a = Some d \<and> r \<noteq> None \<and> s' = put_at a None s1) \<or>
      (s' = s2 \<and> (q \<noteq> None \<longrightarrow> r \<noteq> None))"
    using assms(1) n mv by (cases f; auto simp: os_rename_def split: option.splits)
  then show thesis using stay eat tried by metis
qed

subsection \<open>Making directories\<close>

lemma make_dirs_shape: "make_dirs ps n = Some n' \<Longrightarrow> \<exists>es es'. n = Dir es \<and> n' = Dir es'"
  by (cases ps) (auto split: node.splits option.splits)

lemma make_dirs_file: "make_dirs ps n = Some n' \<Longrightarrow> file_at n' qs = file_at n qs"
proof (induction ps arbitrary: n n' qs)
  case Nil
  then show ?case by (auto split: node.splits)
next
  case (Cons p ps)
  let ?m = "\<lambda>es. case get_entry p es of None \<Rightarrow> Dir [] | Some m \<Rightarrow> m"
  from Cons.prems obtain es m where m: "n = Dir es" "make_dirs ps (?m es) = Some m"
    "n' = Dir (set_entry p (Some m) es)"
    by (auto split: node.splits option.splits)
  show ?case
  proof (cases qs)
    case Nil
    then show ?thesis using m by (simp add: file_at_def)
  next
    case (Cons q rs)
    show ?thesis
    proof (cases "equal_fold p q")
      case False
      then show ?thesis using m Cons by (simp add: file_at_def entries.get_set)
    next
      case True
      have "file_at m rs = file_at (?m es) rs" using m(2) by (rule Cons.IH)
      moreover have "file_at (Dir []) rs = None" by (cases rs) (auto simp: file_at_def get_entry_def)
      moreover have "get_entry q es = get_entry p es" using True by (simp add: entries.get_fold [of p q])
      ultimately show ?thesis
        using m Cons True by (simp add: file_at_def entries.get_set split: option.splits)
    qed
  qed
qed

lemma make_dirs_dir: "make_dirs ps n = Some n' \<Longrightarrow> dir_at n qs \<Longrightarrow> dir_at n' qs"
proof (induction ps arbitrary: n n' qs)
  case Nil
  then show ?case by (auto split: node.splits)
next
  case (Cons p ps)
  let ?m = "\<lambda>es. case get_entry p es of None \<Rightarrow> Dir [] | Some m \<Rightarrow> m"
  from Cons.prems obtain es m where m: "n = Dir es" "make_dirs ps (?m es) = Some m"
    "n' = Dir (set_entry p (Some m) es)"
    by (auto split: node.splits option.splits)
  show ?case
  proof (cases qs)
    case Nil
    then show ?thesis using m by (simp add: dir_at_def)
  next
    case (Cons q rs)
    show ?thesis
    proof (cases "equal_fold p q")
      case False
      then show ?thesis using m Cons \<open>dir_at n qs\<close> by (simp add: dir_at_def entries.get_set)
    next
      case True
      have g: "get_entry q es = get_entry p es" using True by (simp add: entries.get_fold [of p q])
      have "dir_at (?m es) rs"
        using \<open>dir_at n qs\<close> m(1) Cons g by (auto simp: dir_at_def split: option.splits)
      with m(2) have "dir_at m rs" by (rule Cons.IH)
      then show ?thesis using m Cons True by (simp add: dir_at_def entries.get_set)
    qed
  qed
qed

lemma make_dirs_at:
  "make_dirs ps n = Some n' \<Longrightarrow> dir_at n' ps \<and> locate n' (ps @ [q]) = locate n (ps @ [q])"
proof (induction ps arbitrary: n n')
  case Nil
  then show ?case by (auto simp: dir_at_def split: node.splits)
next
  case (Cons p ps)
  let ?m = "\<lambda>es. case get_entry p es of None \<Rightarrow> Dir [] | Some m \<Rightarrow> m"
  from Cons.prems obtain es m where m: "n = Dir es" "make_dirs ps (?m es) = Some m"
    "n' = Dir (set_entry p (Some m) es)"
    by (auto split: node.splits option.splits)
  have none: "locate (Dir []) (ps @ [q]) = None" by (cases ps) (auto simp: get_entry_def)
  from Cons.IH [OF m(2)] m none show ?case
    by (auto simp: dir_at_def split: option.splits)
qed

lemma mkdir_cases:
  assumes "os_mkdir_all ps s = (r, s')"
  shows "keeps P s s' \<and> (\<forall>qs. file_at (es_root s') qs = file_at (es_root s) qs) \<and>
    locate (es_root s') (ps @ [q]) = locate (es_root s) (ps @ [q]) \<and>
    (r = None \<longrightarrow> dir_at (es_root s') ps)"
proof -
  obtain f s1 where n: "next_fault s = (f, s1)" by (metis surj_pair)
  note root = next_root [OF n]
  have k: "keeps P s s1" by (rule keeps_next [OF n])
  have made: ?thesis if "make_dirs ps (es_root s1) = Some t" "s' = s1\<lparr>es_root := t\<rparr>" for t
  proof -
    have "keeps P s1 s'"
      using make_dirs_file [OF that(1)] make_dirs_dir [OF that(1)] that(2) by (simp add: keeps_def)
    then show ?thesis
      using make_dirs_file [OF that(1)] make_dirs_at [OF that(1)] that(2) root keeps_trans [OF k] by simp
  qed
  have "(r \<noteq> None \<and> s' = s1) \<or> (\<exists>t. make_dirs ps (es_root s1) = Some t \<and> s' = s1\<lparr>es_root := t\<rparr>)"
    using assms n by (auto simp: os_mkdir_all_def split: fault.splits option.splits)
  then show ?thesis using made k root by auto
qed

subsection \<open>Paths and their normal forms\<close>

lemma lower_split: "map to_lower (split_on slash s) = split_on slash (to_lower s)"
proof (induction s)
  case Nil
  then show ?case by (simp add: to_lower_def)
next
  case (Cons c s)
  then show ?case
    by (cases "split_on slash s"; cases "split_on slash (to_lower s)") (auto simp: to_lower_def)
qed

lemma split_on_inject: "split_on sep a = split_on sep b \<longleftrightarrow> a = b"
  using join_split [of sep a] join_split [of sep b] by metis

lemma same_path_iff: "same_path (path_parts a) (path_parts b) \<longleftrightarrow> to_lower (to_slashes a) = to_lower (to_slashes b)"
  by (simp add: same_path_def path_parts_def lower_split split_on_inject)

lemma dropWhile_lower: "dropWhile (\<lambda>c. c = slash) (to_lower s) = to_lower (dropWhile (\<lambda>c. c = slash) s)"
  by (simp add: to_lower_def dropWhile_map comp_def)

lemma normalize_lower: "normalizeESPPath p = trim_set (to_lower (to_slashes p)) [slash]"
proof -
  have rev: "rev (to_lower s) = to_lower (rev s)" for s by (simp add: to_lower_def rev_map)
  show ?thesis
    by (simp add: normalizeESPPath_def trim_set_def trim_by_def trim_left_by_def trim_right_by_def
        dropWhile_lower rev)
qed

lemma same_path_normalize:
  "same_path (path_parts a) (path_parts b) \<Longrightarrow> normalizeESPPath a = normalizeESPPath b"
  by (simp add: same_path_iff normalize_lower)

subsection \<open>What stays absent\<close>

text \<open>\<open>steady P\<close> also keeps, outside \<open>P\<close>, which paths exist.\<close>

definition steady :: "(string list \<Rightarrow> bool) \<Rightarrow> esp_state \<Rightarrow> esp_state \<Rightarrow> bool" where
  "steady P s s' \<longleftrightarrow> keeps P s s' \<and>
     (\<forall>qs. \<not> P qs \<longrightarrow> (locate (es_root s') qs = None) = (locate (es_root s) qs = None))"

lemma steady_refl [simp]: "steady P s s"
  by (simp add: steady_def)

lemma steady_trans: "steady P s s1 \<Longrightarrow> steady P s1 s2 \<Longrightarrow> steady P s s2"
  unfolding steady_def using keeps_trans by metis

lemma steady_mono: "steady P s s' \<Longrightarrow> (\<And>qs. P qs \<Longrightarrow> Q qs) \<Longrightarrow> steady Q s s'"
  unfolding steady_def using keeps_mono by metis

lemma steady_root: "es_root s' = es_root s \<Longrightarrow> keeps P s s' \<Longrightarrow> steady P s s'"
  by (simp add: steady_def)

lemma steady_alter:
  assumes "keeps (only ps) s s'" "not_dir (locate (es_root s) ps)" "not_dir v"
    "es_root s' = alter ps v (es_root s)"
  shows "steady (only ps) s s'"
proof -
  have "(locate (es_root s') qs = None) = (locate (es_root s) qs = None)" if "\<not> only ps qs" for qs
    using alter_other [OF assms(2,3), of qs] that assms(4) by (auto simp: shows_at_locate only_def)
  with assms(1) show ?thesis by (simp add: steady_def)
qed

lemma steady_create:
  assumes "os_create ps s = (r, s')"
  shows "steady (only ps) s s'"
proof -
  have "es_root s' = es_root s \<or>
      can_write (es_root s) ps \<and> es_root s' = alter ps (Some (File [])) (es_root s)"
    by (rule create_cases [OF assms]) auto
  then show ?thesis
  proof
    assume "es_root s' = es_root s"
    then show ?thesis using keeps_create [OF assms] by (rule steady_root)
  next
    assume "can_write (es_root s) ps \<and> es_root s' = alter ps (Some (File [])) (es_root s)"
    then show ?thesis using keeps_create [OF assms] can_writeD(3) by (intro steady_alter) auto
  qed
qed

lemma steady_write:
  assumes "os_write ps d s = (r, s')" "file_at (es_root s) ps = Some c" "ps \<noteq> []"
  shows "steady (only ps) s s'"
proof -
  have k: "keeps (only ps) s s'" using write_cases [OF assms] by blast
  have nd: "not_dir (locate (es_root s) ps)" using assms(2) by (rule file_not_dir)
  obtain f s1 where n: "next_fault s = (f, s1)" by (metis surj_pair)
  have "es_root s' = es_root s \<or> (\<exists>x. es_root s' = alter ps (Some (File x)) (es_root s))"
    using assms(1) n next_root [OF n] by (auto simp: os_write_def split: fault.splits)
  then show ?thesis using k steady_alter [OF k nd] by (auto simp: steady_def)
qed

lemma steady_copy:
  assumes "copyFile src ps s = (r, s')" "ps \<noteq> []"
  shows "steady (only ps) s s' \<and>
    (r = None \<longrightarrow> (\<exists>d. src = Found d \<and> file_at (es_root s') ps = Some d))"
proof (cases src)
  case (Found d)
  obtain r1 s1 where c: "os_create ps s = (r1, s1)" by (metis surj_pair)
  show ?thesis
  proof (cases r1)
    case (Some e)
    then show ?thesis using assms(1) Found c steady_create [OF c] by (auto simp: copyFile_def)
  next
    case None
    have w: "os_write ps d s1 = (r, s')" using assms(1) Found c None by (simp add: copyFile_def)
    have f: "file_at (es_root s1) ps = Some []" using c None created_file by blast
    have "r = None \<Longrightarrow> file_at (es_root s') ps = Some d"
      using write_cases [OF w f assms(2)] by simp
    moreover have "steady (only ps) s s'"
      using steady_trans [OF steady_create [OF c] steady_write [OF w f assms(2)]] .
    ultimately show ?thesis using Found by simp
  qed
qed (use assms(1) in \<open>auto simp: copyFile_def\<close>)

lemma steady_write_file:
  assumes "os_write_file ps d s = (r, s')" "ps \<noteq> []"
  shows "steady (only ps) s s' \<and> (r = None \<longrightarrow> file_at (es_root s') ps = Some d)"
proof -
  obtain r1 s1 where c: "os_create ps s = (r1, s1)" by (metis surj_pair)
  show ?thesis
  proof (cases r1)
    case (Some e)
    then show ?thesis using assms(1) c steady_create [OF c] by (auto simp: os_write_file_def)
  next
    case None
    obtain r2 s2 where w: "os_write ps d s1 = (r2, s2)" by (metis surj_pair)
    have f: "file_at (es_root s1) ps = Some []" using c None created_file by blast
    have st: "steady (only ps) s s2"
      using steady_trans [OF steady_create [OF c] steady_write [OF w f assms(2)]] .
    show ?thesis
    proof (cases r2)
      case (Some e)
      then show ?thesis using assms(1) c None w st by (auto simp: os_write_file_def)
    next
      case n2: None
      then have fl: "os_flush s2 = (r, s')" using assms(1) c None w by (simp add: os_write_file_def)
      have "file_at (es_root s2) ps = Some d" using write_cases [OF w f assms(2)] n2 by simp
      then show ?thesis
        using steady_trans [OF st steady_root [OF flush_root [OF fl] keeps_flush [OF fl]]] flush_root [OF fl]
        by simp
    qed
  qed
qed

text \<open>Making directories creates nothing but the directories on the way.\<close>

definition along :: "string list \<Rightarrow> string list \<Rightarrow> bool" where
  "along ps qs \<longleftrightarrow> (\<exists>k. same_path (take k ps) qs)"

lemma along_Cons: "along ps qs \<Longrightarrow> equal_fold p q \<Longrightarrow> along (p # ps) (q # qs)"
proof -
  assume "along ps qs" "equal_fold p q"
  then obtain k where "same_path (take k ps) qs" by (auto simp: along_def)
  with \<open>equal_fold p q\<close> have "same_path (take (Suc k) (p # ps)) (q # qs)" by (simp add: same_path_Cons)
  then show ?thesis unfolding along_def by blast
qed

lemma make_dirs_none:
  "make_dirs ps n = Some n' \<Longrightarrow> \<not> along ps qs \<Longrightarrow> (locate n' qs = None) = (locate n qs = None)"
proof (induction ps arbitrary: n n' qs)
  case Nil
  then show ?case by (auto split: node.splits)
next
  case (Cons p ps)
  let ?m = "\<lambda>es. case get_entry p es of None \<Rightarrow> Dir [] | Some m \<Rightarrow> m"
  from Cons.prems obtain es m where m: "n = Dir es" "make_dirs ps (?m es) = Some m"
    "n' = Dir (set_entry p (Some m) es)"
    by (auto split: node.splits option.splits)
  show ?case
  proof (cases qs)
    case Nil
    then show ?thesis by simp
  next
    case (Cons q rs)
    show ?thesis
    proof (cases "equal_fold p q")
      case False
      then show ?thesis using m Cons by (simp add: entries.get_set)
    next
      case True
      then have g: "get_entry q es = get_entry p es" by (simp add: entries.get_fold [of p q])
      have na: "\<not> along ps rs" using Cons.prems(2) Cons True along_Cons by blast
      from Cons.IH [OF m(2) na] have "(locate m rs = None) = (locate (?m es) rs = None)" .
      moreover have "rs \<noteq> []" using na by (auto simp: along_def intro: exI [of _ 0])
      then have "locate (Dir []) rs = None" by (cases rs) (auto simp: get_entry_def)
      ultimately show ?thesis using m Cons True g by (simp add: entries.get_set split: option.splits)
    qed
  qed
qed

lemma steady_mkdir:
  assumes "os_mkdir_all ps s = (r, s')"
  shows "steady (along ps) s s'"
proof -
  obtain f s1 where n: "next_fault s = (f, s1)" by (metis surj_pair)
  have "es_root s' = es_root s \<or> make_dirs ps (es_root s) = Some (es_root s')"
    using assms n next_root [OF n] by (auto simp: os_mkdir_all_def split: fault.splits option.splits)
  moreover have "keeps (along ps) s s'" using mkdir_cases [OF assms] by blast
  ultimately show ?thesis using make_dirs_none by (auto simp: steady_def)
qed

end
