(* ===== verification/Esp_Ownership.thy ===== *)
theory Esp_Ownership
  imports Esp_Volume "HOL-Library.Word"
begin

text \<open>
  The ownership manifest of the ESP (\<open>app/esp_ownership.go\<close>): reading and writing the record
  of the files that wootc put there, the guard that refuses to overwrite anything else, and
  the claim that precedes every file. Each Go error is a constructor with the arguments of
  its format string. Sleeping between attempts changes no state and is left out.
\<close>

datatype esp_error =
    Os string
  | AmbiguousWhitespace
  | InvalidEspPath string
  | LineTooLong
  | ManifestUnreadable esp_error
  | ForeignFile string
  | KeptFailing esp_error esp_error
  | KeptFailingWith esp_error
  | WritingTmp esp_error
  | Recording string esp_error
  | CopyFailed string esp_error
  | ForeignLinux string
  | PayloadMissing string string
  | EspTooSmall "64 word" "64 word"
  | MenuWrite string esp_error
  | StageFailed string esp_error
  | SecureBootRefused string
  | ForeignSystemdBoot
  | SystemdBootMissing

subsection \<open>The text of the manifest\<close>

definition manifest_path :: "string list" where
  "manifest_path = path_parts espOwnershipManifest"

definition manifest_tmp :: "string list" where
  "manifest_tmp = butlast manifest_path @ [last manifest_path @ ''.tmp'']"

text \<open>\<open>bufio.ScanLines\<close>: a final empty line is not a line, and a carriage return is dropped.\<close>

definition drop_cr :: "string \<Rightarrow> string" where
  "drop_cr l = (if l \<noteq> [] \<and> last l = CHR 0x0D then butlast l else l)"

definition scan_lines :: "string \<Rightarrow> string list" where
  "scan_lines d =
     (let ls = split_on (CHR 0x0A) d in if last ls = [] then butlast ls else ls)"

text \<open>A line that does not fit the scanner's 64 KiB buffer ends the scan with an error.\<close>

definition too_long :: "string \<Rightarrow> bool" where
  "too_long l \<longleftrightarrow> 65536 \<le> int (length l)"

definition comment_or_blank :: "string \<Rightarrow> bool" where
  "comment_or_blank line \<longleftrightarrow> line = [] \<or> has_prefix line ''#''"

fun read_claims :: "string list \<Rightarrow> string list \<Rightarrow> esp_error + string list" where
  "read_claims owned [] = Inr owned"
| "read_claims owned (raw # rest) =
     (if too_long raw then Inl LineTooLong
      else let text = drop_cr raw; line = trim_space text
           in if comment_or_blank line then read_claims owned rest
              else if line \<noteq> text then Inl AmbiguousWhitespace
              else case validateESPRelativeFile line of
                     Some p \<Rightarrow> Inl (InvalidEspPath p)
                   | None \<Rightarrow> read_claims (normalizeESPPath line # owned) rest)"

definition parse_manifest :: "string \<Rightarrow> esp_error + string list" where
  "parse_manifest d = read_claims [] (scan_lines d)"

definition lf :: string where "lf = [CHR 0x0A]"

definition manifest_header :: "string list" where
  "manifest_header =
     [''# Files on this EFI partition written by wootc.'',
      ''# wootc will replace these on reinstall and refuse to touch anything else.'']"

definition render_manifest :: "string list \<Rightarrow> string" where
  "render_manifest owned = concat (map (\<lambda>p. p @ lf) (manifest_header @ sort (remdups owned)))"

subsection \<open>Reading\<close>

definition readESPOwnershipFile :: "string list \<Rightarrow> esp_state \<Rightarrow> (esp_error + string list) \<times> esp_state" where
  "readESPOwnershipFile path s =
     (case os_read_file path s of
        (Missing, s1) \<Rightarrow> (Inr [], s1)
      | (Unreadable e, s1) \<Rightarrow> (Inl (Os e), s1)
      | (Found d, s1) \<Rightarrow> (parse_manifest d, s1))"

definition readESPOwnership :: "esp_state \<Rightarrow> (esp_error + string list) \<times> esp_state" where
  "readESPOwnership s = readESPOwnershipFile manifest_path s"

definition ownsFedoraNamespace :: "esp_state \<Rightarrow> bool \<times> esp_state" where
  "ownsFedoraNamespace s =
     (case os_read_file [''EFI'', ''fedora'', ''grub.cfg''] s of
        (Found d, s1) \<Rightarrow> (contains_str d wootcGrubOwnership, s1)
      | (_, s1) \<Rightarrow> (False, s1))"

text \<open>The guard over the destinations, in order; every file system call is in its place.\<close>

fun guard_dests :: "string list \<Rightarrow> bool \<Rightarrow> string list \<Rightarrow> esp_state \<Rightarrow> esp_error option \<times> esp_state" where
  "guard_dests owned fedoraIsOurs [] s = (None, s)"
| "guard_dests owned fedoraIsOurs (rel # rels) s =
     (case os_stat (path_parts rel) s of
        (Found n, s1) \<Rightarrow>
          (if isOwnNamespace rel \<or> normalizeESPPath rel \<in> set owned \<or> fedoraIsOurs
           then guard_dests owned fedoraIsOurs rels s1
           else (case readESPOwnership s1 of
                   (Inr fresh, s2) \<Rightarrow>
                     (if normalizeESPPath rel \<in> set fresh then guard_dests owned fedoraIsOurs rels s2
                      else (Some (ForeignFile rel), s2))
                 | (Inl e, s2) \<Rightarrow> (Some (ForeignFile rel), s2)))
      | (_, s1) \<Rightarrow> guard_dests owned fedoraIsOurs rels s1)"

definition guardESPDestinations :: "string list \<Rightarrow> esp_state \<Rightarrow> esp_error option \<times> esp_state" where
  "guardESPDestinations rels s =
     (case readESPOwnership s of
        (Inl e, s1) \<Rightarrow> (Some (ManifestUnreadable e), s1)
      | (Inr owned, s1) \<Rightarrow>
          (let (ours, s2) = ownsFedoraNamespace s1 in guard_dests owned ours rels s2))"

subsection \<open>Writing the manifest\<close>

text \<open>\<open>writeFileSynced\<close>: a failed write or flush removes the file, a failed close does not.\<close>

definition writeFileSynced :: "string list \<Rightarrow> string \<Rightarrow> esp_state \<Rightarrow> string option \<times> esp_state" where
  "writeFileSynced path content s =
     (case os_create path s of
        (Some e, s1) \<Rightarrow> (Some e, s1)
      | (None, s1) \<Rightarrow>
          (case os_write path content s1 of
             (Some e, s2) \<Rightarrow> (Some e, snd (os_remove path s2))
           | (None, s2) \<Rightarrow>
               (case os_flush s2 of
                  (Some e, s3) \<Rightarrow> (Some e, snd (os_remove path s3))
                | (None, s3) \<Rightarrow> os_flush s3)))"

definition manifestLanded :: "string list \<Rightarrow> string \<Rightarrow> esp_state \<Rightarrow> bool \<times> esp_state" where
  "manifestLanded final content s =
     (let (r, s1) = os_read_file final s in (r = Found content, s1))"

type_synonym noted = "(esp_error \<times> esp_error) option"

definition note_error :: "esp_error \<Rightarrow> noted \<Rightarrow> noted" where
  "note_error e errs = (case errs of None \<Rightarrow> Some (e, e) | Some (first, _) \<Rightarrow> Some (first, e))"

definition kept_failing :: "noted \<Rightarrow> esp_error" where
  "kept_failing errs =
     (case errs of
        Some (first, lst) \<Rightarrow> if first \<noteq> lst then KeptFailing first lst else KeptFailingWith lst
      | None \<Rightarrow> KeptFailingWith (Os []))"

text \<open>One pass of the loop body: \<open>Inr\<close> returns, \<open>Inl\<close> continues with the noted error.\<close>

definition persist_pass ::
  "string list \<Rightarrow> string list \<Rightarrow> string \<Rightarrow> esp_state \<Rightarrow> (esp_error + unit) \<times> esp_state" where
  "persist_pass tmp final content s =
     (case manifestLanded final content s of
        (True, s1) \<Rightarrow> (Inr (), snd (os_remove tmp s1))
      | (False, s1) \<Rightarrow>
          (let (st, s2) = os_stat tmp s1;
               (written, s3) = (case st of Found n \<Rightarrow> (None, s2) | _ \<Rightarrow> writeFileSynced tmp content s2)
           in case written of
                Some e \<Rightarrow> (Inl (WritingTmp (Os e)), s3)
              | None \<Rightarrow>
                  (case os_rename tmp final s3 of
                     (Some e, s4) \<Rightarrow> (Inl (Os e), s4)
                   | (None, s4) \<Rightarrow> (Inr (), s4))))"

definition persist_end ::
  "string list \<Rightarrow> string list \<Rightarrow> string \<Rightarrow> noted \<Rightarrow> esp_state \<Rightarrow> esp_error option \<times> esp_state" where
  "persist_end tmp final content errs s =
     (case manifestLanded final content s of
        (True, s1) \<Rightarrow> (None, snd (os_remove tmp s1))
      | (False, s1) \<Rightarrow> (Some (kept_failing errs), snd (os_remove tmp s1)))"

fun persist_loop ::
  "nat \<Rightarrow> string list \<Rightarrow> string list \<Rightarrow> string \<Rightarrow> noted \<Rightarrow> esp_state \<Rightarrow> esp_error option \<times> esp_state" where
  "persist_loop 0 tmp final content errs s = persist_end tmp final content errs s"
| "persist_loop (Suc k) tmp final content errs s =
     (case persist_pass tmp final content s of
        (Inr _, s1) \<Rightarrow> (None, s1)
      | (Inl e, s1) \<Rightarrow> persist_loop k tmp final content (note_error e errs) s1)"

definition persist_attempts :: nat where "persist_attempts = 40"

definition persistManifest ::
  "string list \<Rightarrow> string list \<Rightarrow> string \<Rightarrow> esp_state \<Rightarrow> esp_error option \<times> esp_state" where
  "persistManifest tmp final content s = persist_loop persist_attempts tmp final content None s"

definition writeESPManifest :: "string \<Rightarrow> esp_state \<Rightarrow> esp_error option \<times> esp_state" where
  "writeESPManifest content s = persistManifest manifest_tmp manifest_path content s"

subsection \<open>Claiming\<close>

definition recordESPOwnership :: "string list \<Rightarrow> esp_state \<Rightarrow> esp_error option \<times> esp_state" where
  "recordESPOwnership rels s =
     (case readESPOwnership s of
        (Inl e, s1) \<Rightarrow> (Some e, s1)
      | (Inr owned, s1) \<Rightarrow>
          (case List.find (\<lambda>rel. validateESPRelativeFile rel \<noteq> None) rels of
             Some rel \<Rightarrow> (Some (InvalidEspPath (to_slashes rel)), s1)
           | None \<Rightarrow>
               (case os_mkdir_all (butlast manifest_path) s1 of
                  (Some e, s2) \<Rightarrow> (Some (Os e), s2)
                | (None, s2) \<Rightarrow> writeESPManifest (render_manifest (map normalizeESPPath rels @ owned)) s2)))"

definition stageESPFile ::
  "string \<Rightarrow> (esp_state \<Rightarrow> esp_error option \<times> esp_state) \<Rightarrow> esp_state \<Rightarrow> esp_error option \<times> esp_state" where
  "stageESPFile rel write s =
     (case recordESPOwnership [rel] s of
        (Some e, s1) \<Rightarrow> (Some (Recording rel e), s1)
      | (None, s1) \<Rightarrow> write s1)"

end
