(* ===== verification/Esp_Cleanup.thy ===== *)
theory Esp_Cleanup
  imports Esp_Ownership
begin

text \<open>
  Removing wootc's files from the ESP (\<open>app/esp_cleanup.go\<close>): the claims that authorise a
  removal, the resolution of a claim to the one entry it names, and the removal in the order
  plan, remove, recheck, forget. Go's map iteration order decides which of several
  unacceptable claims an error names; here it is the first in the sorted order.
\<close>

datatype cleanup_error =
    EspError esp_error
  | CallFailed string
  | UnsafeRoot
  | AmbiguousPath string
  | SymlinkPath string
  | NonDirectory string
  | NotRegular string
  | ClaimOutside string
  | RemoveFailed string
  | RemovalUnverified "string list"
  | Remains string
  | ManifestRemoveFailed string
  | ManifestUnverified

subsection \<open>Resolving a claim\<close>

definition os_read_dir :: "string list \<Rightarrow> esp_state \<Rightarrow> (string + string list) \<times> esp_state" where
  "os_read_dir ps s =
     (case os_stat ps s of
        (Found (Dir es), s1) \<Rightarrow> (Inr (map fst es), s1)
      | (Found n, s1) \<Rightarrow> (Inl ''not a directory'', s1)
      | (Missing, s1) \<Rightarrow> (Inl enoent, s1)
      | (Unreadable e, s1) \<Rightarrow> (Inl e, s1))"

definition entry_refusal :: "string \<Rightarrow> bool \<Rightarrow> node \<Rightarrow> cleanup_error option" where
  "entry_refusal rel is_last n =
     (case n of
        Link \<Rightarrow> Some (SymlinkPath rel)
      | Dir es \<Rightarrow> if is_last then Some (NotRegular rel) else None
      | File d \<Rightarrow> if is_last then None else Some (NonDirectory rel)
      | Special \<Rightarrow> Some (if is_last then NotRegular rel else NonDirectory rel))"

fun resolve_parts ::
  "string \<Rightarrow> string list \<Rightarrow> string list \<Rightarrow> esp_state \<Rightarrow> (cleanup_error + string list \<times> bool) \<times> esp_state"
where
  "resolve_parts rel current [] s = (Inr (current, True), s)"
| "resolve_parts rel current (part # parts) s =
     (case os_read_dir current s of
        (Inl e, s1) \<Rightarrow> (Inl (CallFailed e), s1)
      | (Inr names, s1) \<Rightarrow>
          (case filter (\<lambda>n. equal_fold n part) names of
             [] \<Rightarrow> (Inr (current @ part # parts, False), s1)
           | [matched] \<Rightarrow>
               (case os_stat (current @ [matched]) s1 of
                  (Missing, s2) \<Rightarrow> (Inl (CallFailed enoent), s2)
                | (Unreadable e, s2) \<Rightarrow> (Inl (CallFailed e), s2)
                | (Found n, s2) \<Rightarrow>
                    (case entry_refusal rel (parts = []) n of
                       Some e \<Rightarrow> (Inl e, s2)
                     | None \<Rightarrow> resolve_parts rel (current @ [matched]) parts s2))
           | _ \<Rightarrow> (Inl (AmbiguousPath rel), s1)))"

definition resolveESPCleanupPath ::
  "string \<Rightarrow> esp_state \<Rightarrow> (cleanup_error + string list \<times> bool) \<times> esp_state" where
  "resolveESPCleanupPath rel s =
     (case validateESPRelativeFile rel of
        Some p \<Rightarrow> (Inl (EspError (InvalidEspPath p)), s)
      | None \<Rightarrow>
          (case os_stat [] s of
             (Found (Dir es), s1) \<Rightarrow> resolve_parts rel [] (path_parts rel) s1
           | (Found n, s1) \<Rightarrow> (Inl UnsafeRoot, s1)
           | (Missing, s1) \<Rightarrow> (Inl (CallFailed enoent), s1)
           | (Unreadable e, s1) \<Rightarrow> (Inl (CallFailed e), s1)))"

subsection \<open>The claims\<close>

text \<open>A config file is marked when it resolves to a file that contains the marker.\<close>

definition marked_config :: "string \<Rightarrow> esp_state \<Rightarrow> (cleanup_error + bool) \<times> esp_state" where
  "marked_config rel s =
     (case resolveESPCleanupPath rel s of
        (Inl e, s1) \<Rightarrow> (Inl e, s1)
      | (Inr (path, False), s1) \<Rightarrow> (Inr False, s1)
      | (Inr (path, True), s1) \<Rightarrow>
          (case os_read_file path s1 of
             (Found d, s2) \<Rightarrow> (Inr (contains_str d wootcGrubOwnership), s2)
           | (Missing, s2) \<Rightarrow> (Inl (CallFailed enoent), s2)
           | (Unreadable e, s2) \<Rightarrow> (Inl (CallFailed e), s2)))"

fun marked_claims ::
  "(string \<times> string list) list \<Rightarrow> esp_state \<Rightarrow> (cleanup_error + string list) \<times> esp_state" where
  "marked_claims [] s = (Inr [], s)"
| "marked_claims ((rel, claims) # rest) s =
     (case marked_config rel s of
        (Inl e, s1) \<Rightarrow> (Inl e, s1)
      | (Inr m, s1) \<Rightarrow>
          (case marked_claims rest s1 of
             (Inl e, s2) \<Rightarrow> (Inl e, s2)
           | (Inr cs, s2) \<Rightarrow> (Inr ((if m then claims else []) @ cs), s2)))"

text \<open>Each historical config and what it attributes when it carries the marker.\<close>

definition legacy_configs :: "(string \<times> string list) list" where
  "legacy_configs =
     [(''EFI/fedora/grub.cfg'', [''efi/fedora/grub.cfg'', ''efi/fedora/shimx64.efi'',
         ''efi/fedora/grubx64.efi'', ''efi/fedora/mmx64.efi'']),
      (''EFI/redhat/grub.cfg'', [''efi/redhat/grub.cfg'']),
      (''EFI/wootc/grub.cfg'', [''efi/wootc/grub.cfg'']),
      (''loader/loader.conf'', [''loader/loader.conf'', ''loader/entries/wootc-deployer.conf'',
         ''loader/entries/wootc.conf'', ''efi/systemd/shimx64.efi'', ''efi/systemd/grubx64.efi'',
         ''efi/systemd/systemd-bootx64.efi''])]"

definition product_files :: "string list" where
  "product_files =
     [''efi/wootc/deployer-vmlinuz'', ''efi/wootc/deployer-initramfs.img'', ''efi/wootc/phase2-vmlinuz'',
      ''efi/wootc/phase2-initramfs.img'', ''efi/wootc/wubildr.efi'']"

definition legacyESPCleanupClaims :: "esp_state \<Rightarrow> (cleanup_error + string list) \<times> esp_state" where
  "legacyESPCleanupClaims s =
     (case marked_claims legacy_configs s of
        (Inl e, s1) \<Rightarrow> (Inl e, s1)
      | (Inr cs, s1) \<Rightarrow> (Inr (cs @ product_files), s1))"

definition espCleanupClaims ::
  "esp_state \<Rightarrow> (cleanup_error + string list \<times> string list \<times> bool) \<times> esp_state" where
  "espCleanupClaims s =
     (case resolveESPCleanupPath espOwnershipManifest s of
        (Inl e, s1) \<Rightarrow> (Inl e, s1)
      | (Inr (manifest, exists), s1) \<Rightarrow>
          (case readESPOwnershipFile manifest s1 of
             (Inl e, s2) \<Rightarrow> (Inl (EspError e), s2)
           | (Inr owned, s2) \<Rightarrow>
               (case legacyESPCleanupClaims s2 of
                  (Inl e, s3) \<Rightarrow> (Inl e, s3)
                | (Inr legacy, s3) \<Rightarrow>
                    (let more = filter (\<lambda>rel. \<not> exists \<or> legacyUnrecordedProductFile rel) legacy
                     in (Inr (filter (\<lambda>rel. rel \<noteq> normalizeESPPath espOwnershipManifest) (owned @ more),
                           manifest, exists), s3)))))"

subsection \<open>Removing\<close>

type_synonym remover = "string list \<Rightarrow> esp_state \<Rightarrow> string option \<times> esp_state"

fun plan_paths :: "string list \<Rightarrow> esp_state \<Rightarrow> (cleanup_error + string list list) \<times> esp_state" where
  "plan_paths [] s = (Inr [], s)"
| "plan_paths (rel # rels) s =
     (case resolveESPCleanupPath rel s of
        (Inl e, s1) \<Rightarrow> (Inl e, s1)
      | (Inr (path, exists), s1) \<Rightarrow>
          (case plan_paths rels s1 of
             (Inl e, s2) \<Rightarrow> (Inl e, s2)
           | (Inr ps, s2) \<Rightarrow> (Inr (if exists then path # ps else ps), s2)))"

definition confirmed_absent :: "string list \<Rightarrow> esp_state \<Rightarrow> bool \<times> esp_state" where
  "confirmed_absent path s = (case os_stat path s of (Missing, s1) \<Rightarrow> (True, s1) | (_, s1) \<Rightarrow> (False, s1))"

fun remove_paths :: "remover \<Rightarrow> string list list \<Rightarrow> esp_state \<Rightarrow> cleanup_error option \<times> esp_state" where
  "remove_paths remove [] s = (None, s)"
| "remove_paths remove (path # paths) s =
     (case remove path s of
        (Some e, s1) \<Rightarrow> (Some (RemoveFailed e), s1)
      | (None, s1) \<Rightarrow>
          (case confirmed_absent path s1 of
             (False, s2) \<Rightarrow> (Some (RemovalUnverified path), s2)
           | (True, s2) \<Rightarrow> remove_paths remove paths s2))"

fun recheck_claims :: "string list \<Rightarrow> esp_state \<Rightarrow> cleanup_error option \<times> esp_state" where
  "recheck_claims [] s = (None, s)"
| "recheck_claims (rel # rels) s =
     (case resolveESPCleanupPath rel s of
        (Inl e, s1) \<Rightarrow> (Some e, s1)
      | (Inr (path, exists), s1) \<Rightarrow> if exists then (Some (Remains rel), s1) else recheck_claims rels s1)"

definition forget_manifest :: "remover \<Rightarrow> string list \<Rightarrow> esp_state \<Rightarrow> cleanup_error option \<times> esp_state" where
  "forget_manifest remove manifest s =
     (case remove manifest s of
        (Some e, s1) \<Rightarrow> (Some (ManifestRemoveFailed e), s1)
      | (None, s1) \<Rightarrow>
          (case confirmed_absent manifest s1 of
             (False, s2) \<Rightarrow> (Some ManifestUnverified, s2)
           | (True, s2) \<Rightarrow> (None, s2)))"

definition cleanupESPOwnedFilesWithRemove ::
  "remover \<Rightarrow> esp_state \<Rightarrow> cleanup_error option \<times> esp_state" where
  "cleanupESPOwnedFilesWithRemove remove s =
     (case espCleanupClaims s of
        (Inl e, s1) \<Rightarrow> (Some e, s1)
      | (Inr (claims, manifest, hasManifest), s1) \<Rightarrow>
          (let rels = sort (remdups claims)
           in case List.find (\<lambda>rel. \<not> allowedESPCleanupClaim rel) rels of
                Some rel \<Rightarrow> (Some (ClaimOutside rel), s1)
              | None \<Rightarrow>
                  (case plan_paths rels s1 of
                     (Inl e, s2) \<Rightarrow> (Some e, s2)
                   | (Inr paths, s2) \<Rightarrow>
                       (case remove_paths remove paths s2 of
                          (Some e, s3) \<Rightarrow> (Some e, s3)
                        | (None, s3) \<Rightarrow>
                            (case recheck_claims rels s3 of
                               (Some e, s4) \<Rightarrow> (Some e, s4)
                             | (None, s4) \<Rightarrow>
                                 if hasManifest then forget_manifest remove manifest s4 else (None, s4))))))"

definition cleanupESPOwnedFiles :: "esp_state \<Rightarrow> cleanup_error option \<times> esp_state" where
  "cleanupESPOwnedFiles s = cleanupESPOwnedFilesWithRemove os_remove s"

fun any_present :: "string list \<Rightarrow> esp_state \<Rightarrow> (cleanup_error + bool) \<times> esp_state" where
  "any_present [] s = (Inr False, s)"
| "any_present (rel # rels) s =
     (case resolveESPCleanupPath rel s of
        (Inl e, s1) \<Rightarrow> (Inl e, s1)
      | (Inr (path, exists), s1) \<Rightarrow> if exists then (Inr True, s1) else any_present rels s1)"

definition hasESPOwnedFiles :: "esp_state \<Rightarrow> (cleanup_error + bool) \<times> esp_state" where
  "hasESPOwnedFiles s =
     (case espCleanupClaims s of
        (Inl e, s1) \<Rightarrow> (Inl e, s1)
      | (Inr (claims, manifest, hasManifest), s1) \<Rightarrow>
          if hasManifest then (Inr True, s1) else any_present (sort (remdups claims)) s1)"

end
