(* ===== verification/Boot_Menu.thy ===== *)
theory Boot_Menu
  imports Esp_Paths
begin

text \<open>
  The deployer's boot menus (\<open>app/boot_menu.go\<close>): the branded label, made safe for the
  firmware's parsers, and the three menu files. A rune outside ASCII becomes one space in the
  code and one per byte here; runs of spaces collapse afterwards, so the labels agree.
\<close>

record branding =
  br_name :: string
  br_product :: string

definition menu_char :: "char \<Rightarrow> bool" where
  "menu_char c \<longleftrightarrow> is_letter c \<or> is_digit c \<or> c \<in> set '' ._+()-''"

definition bootMenuSafe :: "string \<Rightarrow> string" where
  "bootMenuSafe name =
     (let out = join_with '' '' (str_fields (map (\<lambda>c. if menu_char c then c else CHR '' '') name))
      in if 40 < length out then trim_space (take 40 out) else out)"

definition bootMenuLabel :: "branding \<Rightarrow> string" where
  "bootMenuLabel b =
     (if br_product b = [] \<or> equal_fold (br_product b) ''wootc'' then ''wootc''
      else if bootMenuSafe (br_name b) \<noteq> [] then bootMenuSafe (br_name b)
      else if bootMenuSafe (br_product b) \<noteq> [] then bootMenuSafe (br_product b)
      else ''Linux'')"

definition newline :: string where "newline = [CHR 0x0A]"

definition menu_entry :: "string \<Rightarrow> string \<Rightarrow> string \<Rightarrow> string \<Rightarrow> string \<Rightarrow> string" where
  "menu_entry label mode dir options tail =
     ''menuentry '' @ [CHR 0x22] @ ''Install '' @ label @ '' ('' @ mode @ '')'' @ [CHR 0x22] @ '' {'' @ newline @
     ''    linux '' @ dir @ ''/deployer-vmlinuz '' @ options @ tail @ newline @
     ''    initrd '' @ dir @ ''/deployer-initramfs.img'' @ newline @ ''}'' @ newline"

definition kernel_options :: "string \<Rightarrow> string \<Rightarrow> string" where
  "kernel_options imageRef hostname =
     ''wootc.image='' @ imageRef @ '' wootc.hostname='' @ hostname @ '' wootc.vault=/wootc/install/vault.json''"

definition menu_settings :: string where
  "menu_settings = ''set default=0'' @ newline @ ''set timeout=5'' @ newline @ newline"

definition deployerGrubMenu :: "string \<Rightarrow> string \<Rightarrow> string \<Rightarrow> string \<Rightarrow> string" where
  "deployerGrubMenu label imageRef hostname args =
     wootcGrubMarker @ '' - one-shot Linux installation'' @ newline @ menu_settings @
     menu_entry label ''automatic'' ''/EFI/wootc'' (kernel_options imageRef hostname @ args) '' quiet'' @
     newline @
     menu_entry label ''debug'' ''/EFI/wootc'' (kernel_options imageRef hostname @ args) '' wootc.debug''"

definition deployerInstallMenu :: "string \<Rightarrow> string \<Rightarrow> string \<Rightarrow> string" where
  "deployerInstallMenu label imageRef hostname =
     ''# wootc first-boot installer menu'' @ newline @ menu_settings @
     menu_entry label ''automatic'' ''/wootc/install'' (kernel_options imageRef hostname) '' quiet'' @
     newline @
     menu_entry label ''debug'' ''/wootc/install'' (kernel_options imageRef hostname) '' wootc.debug''"

definition deployerLoaderEntry :: "string \<Rightarrow> string \<Rightarrow> string \<Rightarrow> string \<Rightarrow> string" where
  "deployerLoaderEntry label imageRef hostname args =
     ''title '' @ label @ '' installer'' @ newline @ ''linux /EFI/wootc/deployer-vmlinuz'' @ newline @
     ''initrd /EFI/wootc/deployer-initramfs.img'' @ newline @ ''options '' @
     kernel_options imageRef hostname @ '' wootc.bootloader=systemd'' @ args @ '' quiet'' @ newline"

subsection \<open>Labels are safe\<close>

lemma fields_parts: "w \<in> set (str_fields s) \<Longrightarrow> w \<noteq> [] \<and> (\<forall>c\<in>set w. c \<in> set s \<and> \<not> is_space c)"
proof (induction s rule: str_fields.induct)
  case (1 s)
  let ?t = "dropWhile is_space s"
  show ?case
  proof (cases "?t = []")
    case True
    with 1(2) show ?thesis by (simp add: str_fields.simps [of s])
  next
    case False
    have ne: "takeWhile (\<lambda>c. \<not> is_space c) ?t \<noteq> []"
      using hd_dropWhile [OF False] False by (cases ?t) auto
    have sub: "set ?t \<subseteq> set s" by (auto dest: set_dropWhileD)
    have "str_fields s = takeWhile (\<lambda>c. \<not> is_space c) ?t #
        str_fields (dropWhile (\<lambda>c. \<not> is_space c) ?t)"
      using False by (subst str_fields.simps) (simp only: Let_def if_False)
    with 1(2) consider "w = takeWhile (\<lambda>c. \<not> is_space c) ?t"
      | "w \<in> set (str_fields (dropWhile (\<lambda>c. \<not> is_space c) ?t))"
      by auto
    then show ?thesis
    proof cases
      case 1
      with ne sub show ?thesis by (auto dest!: set_takeWhileD)
    next
      case 2
      from "1.IH" [OF refl False 2] sub show ?thesis by (auto dest: set_dropWhileD)
    qed
  qed
qed

lemma menu_char_space: "menu_char CHR '' ''"
  by (simp add: menu_char_def)

lemma set_join: "c \<in> set (join_with sep ws) \<Longrightarrow> c \<in> set sep \<or> (\<exists>w\<in>set ws. c \<in> set w)"
  by (induction sep ws rule: join_with.induct) auto

lemma safe_chars: "\<forall>c\<in>set (bootMenuSafe name). menu_char c"
proof -
  let ?s = "map (\<lambda>c. if menu_char c then c else CHR '' '') name"
  have s: "\<forall>c\<in>set ?s. menu_char c" using menu_char_space by auto
  have "menu_char c" if "c \<in> set (join_with '' '' (str_fields ?s))" for c
  proof -
    from set_join [OF that] consider "c = CHR '' ''" | w where "w \<in> set (str_fields ?s)" "c \<in> set w"
      by auto
    then show ?thesis
    proof cases
      case 1
      then show ?thesis using menu_char_space by simp
    next
      case 2
      with fields_parts [OF 2(1)] have "c \<in> set ?s" by blast
      with s show ?thesis by blast
    qed
  qed
  moreover have "set (trim_space (take 40 t)) \<subseteq> set t" for t
    using set_trim_by set_take_subset unfolding trim_space_def by fast
  ultimately show ?thesis by (auto simp: bootMenuSafe_def Let_def)
qed

lemma set_length_trim: "length (trim_space s) \<le> length s"
  by (simp add: trim_space_def trim_by_def trim_right_by_def trim_left_by_def)
    (metis length_dropWhile_le le_trans length_rev)

lemma safe_length: "length (bootMenuSafe name) \<le> 40"
  using set_length_trim by (auto simp: bootMenuSafe_def Let_def intro: order_trans [OF set_length_trim])

lemma label_cases: "bootMenuLabel b = ''wootc'' \<or> bootMenuLabel b = ''Linux'' \<or>
   (\<exists>n. bootMenuLabel b = bootMenuSafe n \<and> bootMenuSafe n \<noteq> [])"
  by (auto simp: bootMenuLabel_def)

text \<open>
  No brand can break the boot menu. For every branding, whatever bytes its names hold,
  the label of the menus is not empty, has at most 40 characters, and consists of ASCII
  letters, digits and the seven listed signs only: no quote, no expansion, no escape, no
  brace, no newline reaches the firmware's parser.
\<close>

theorem menu_label_safe:
  "bootMenuLabel b \<noteq> [] \<and> length (bootMenuLabel b) \<le> 40 \<and> list_all menu_char (bootMenuLabel b)"
proof -
  have const: "list_all menu_char ''wootc''" "list_all menu_char ''Linux''" by code_simp+
  from label_cases [of b] show ?thesis
  proof (elim disjE exE conjE)
    fix n assume n: "bootMenuLabel b = bootMenuSafe n" "bootMenuSafe n \<noteq> []"
    show ?thesis unfolding n(1) using n(2) safe_length safe_chars by (auto simp: list_all_iff)
  qed (use const in simp_all)
qed

lemma prefix_contains: "prefix p s \<Longrightarrow> contains_str s p"
  by (cases s) (auto simp: contains_str.simps has_prefix_def)

lemma menu_recognised: "contains_str (deployerGrubMenu label imageRef hostname args) wootcGrubOwnership"
  by (rule prefix_contains)
    (simp add: deployerGrubMenu_def wootcGrubMarker_def wootcGrubOwnership_def)

end
