(* ===== verification/Lifecycle.thy ===== *)
theory Lifecycle
  imports Go_Strings
begin

text \<open>
  The vocabulary every component shares: the lifecycle states of \<open>state.json\<close>
  (\<open>app/state.go\<close>) and the step catalogue of the two installation phases
  (\<open>app/steps_gen.go\<close>, \<open>app/steps.go\<close>). States and steps are strings in
  the code, because they are read back from JSON files that other programs write, so an
  unknown value must stay representable: they are strings here as well.
\<close>

named_theorems state_names \<open>the literals of the lifecycle states\<close>
named_theorems step_names \<open>the literals of the step identifiers\<close>

subsection \<open>Lifecycle states\<close>

definition StateStaged :: string where
  [state_names]: "StateStaged = ''staged''"

definition StateArmed :: string where
  [state_names]: "StateArmed = ''armed''"

definition StateDeploying :: string where
  [state_names]: "StateDeploying = ''deploying''"

definition StateDeployed :: string where
  [state_names]: "StateDeployed = ''deployed''"

definition StateHealthy :: string where
  [state_names]: "StateHealthy = ''healthy''"

definition StateFailed :: string where
  [state_names]: "StateFailed = ''failed''"

text \<open>\<open>LifecycleState\<close>, the contents of \<open>state.json\<close>.\<close>

record lifecycle_state =
  ls_phase_id :: string
  ls_state :: string
  ls_phase :: string
  ls_error :: string
  ls_updated_at :: string
  ls_updated_by :: string

definition zero_lifecycle :: lifecycle_state where
  "zero_lifecycle = \<lparr>ls_phase_id = [], ls_state = [], ls_phase = [], ls_error = [],
     ls_updated_at = [], ls_updated_by = []\<rparr>"

lemma states_distinct:
  "distinct [StateStaged, StateArmed, StateDeploying, StateDeployed, StateHealthy, StateFailed]"
  by (simp add: state_names)

lemma state_neq [simp]:
  "StateStaged \<noteq> StateArmed" "StateStaged \<noteq> StateDeploying" "StateStaged \<noteq> StateDeployed"
  "StateStaged \<noteq> StateHealthy" "StateStaged \<noteq> StateFailed" "StateArmed \<noteq> StateDeploying"
  "StateArmed \<noteq> StateDeployed" "StateArmed \<noteq> StateHealthy" "StateArmed \<noteq> StateFailed"
  "StateDeploying \<noteq> StateDeployed" "StateDeploying \<noteq> StateHealthy"
  "StateDeploying \<noteq> StateFailed" "StateDeployed \<noteq> StateHealthy"
  "StateDeployed \<noteq> StateFailed" "StateHealthy \<noteq> StateFailed"
  using states_distinct by (simp_all del: distinct.simps(1))

lemmas state_neq_sym [simp] = state_neq [symmetric]

lemma state_not_Nil [simp]:
  "StateStaged \<noteq> []" "StateArmed \<noteq> []" "StateDeploying \<noteq> []" "StateDeployed \<noteq> []"
  "StateHealthy \<noteq> []" "StateFailed \<noteq> []"
  by (simp_all add: state_names)

lemmas state_not_Nil_sym [simp] = state_not_Nil [symmetric]

subsection \<open>The step catalogue\<close>

definition StepInstallerCheckingYourPC :: string where
  [step_names]: "StepInstallerCheckingYourPC = ''Checking your PC''"

definition StepInstallerPreparingWindows :: string where
  [step_names]: "StepInstallerPreparingWindows = ''Preparing Windows''"

definition StepInstallerSettingThingsUp :: string where
  [step_names]: "StepInstallerSettingThingsUp = ''Setting things up''"

definition StepInstallerFindingYourFiles :: string where
  [step_names]: "StepInstallerFindingYourFiles = ''Finding your files''"

definition StepInstallerMakingRoomForLinux :: string where
  [step_names]: "StepInstallerMakingRoomForLinux = ''Making room for Linux''"

definition StepInstallerDownloadingLinux :: string where
  [step_names]: "StepInstallerDownloadingLinux = ''Downloading Linux''"

definition StepInstallerDownloadingYourLinuxSystem :: string where
  [step_names]: "StepInstallerDownloadingYourLinuxSystem = ''Downloading your Linux system''"

definition StepInstallerPreparingTheStartupMenu :: string where
  [step_names]: "StepInstallerPreparingTheStartupMenu = ''Preparing the startup menu''"

definition StepInstallerGettingLinuxPrepared :: string where
  [step_names]: "StepInstallerGettingLinuxPrepared = ''Getting Linux prepared''"

definition StepInstallerMakingLinuxBootableOnYourMachine :: string where
  [step_names]: "StepInstallerMakingLinuxBootableOnYourMachine = ''Making Linux bootable on your machine''"

definition StepInstallerSavingYourSettings :: string where
  [step_names]: "StepInstallerSavingYourSettings = ''Saving your settings''"

definition StepInstallerSavingYourBitLockerRecoveryKey :: string where
  [step_names]: "StepInstallerSavingYourBitLockerRecoveryKey = ''Saving your BitLocker recovery key''"

definition StepInstallerLookingAtYourInstalledApps :: string where
  [step_names]: "StepInstallerLookingAtYourInstalledApps = ''Looking at your installed apps''"

definition StepInstallerCheckingYourSignedInApps :: string where
  [step_names]: "StepInstallerCheckingYourSignedInApps = ''Checking your signed-in apps''"

definition StepInstallerLookingForYourCloudDrives :: string where
  [step_names]: "StepInstallerLookingForYourCloudDrives = ''Looking for your cloud drives''"

definition StepInstallerCollectingYourLookAndWiFi :: string where
  [step_names]: "StepInstallerCollectingYourLookAndWiFi = ''Collecting your look and Wi-Fi''"

definition StepInstallerFinishingUp :: string where
  [step_names]: "StepInstallerFinishingUp = ''Finishing up''"

definition StepDeployerNtfsMounted :: string where
  [step_names]: "StepDeployerNtfsMounted = ''ntfs-mounted''"

definition StepDeployerScratchSetup :: string where
  [step_names]: "StepDeployerScratchSetup = ''scratch-setup''"

definition StepDeployerNetworkWait :: string where
  [step_names]: "StepDeployerNetworkWait = ''network-wait''"

definition StepDeployerBundleIngest :: string where
  [step_names]: "StepDeployerBundleIngest = ''bundle-ingest''"

definition StepDeployerRegistryPreflight :: string where
  [step_names]: "StepDeployerRegistryPreflight = ''registry-preflight''"

definition StepDeployerFisherman :: string where
  [step_names]: "StepDeployerFisherman = ''fisherman''"

definition StepDeployerVerification :: string where
  [step_names]: "StepDeployerVerification = ''verification''"

definition StepDeployerReboot :: string where
  [step_names]: "StepDeployerReboot = ''reboot''"

definition StepFirstbootFirstbootEvidence :: string where
  [step_names]: "StepFirstbootFirstbootEvidence = ''firstboot-evidence''"

record step_definition =
  sd_id :: string
  sd_owner :: string
  sd_label :: string

definition StepCatalogue :: "step_definition list" where
  "StepCatalogue =
    [\<lparr>sd_id = StepInstallerCheckingYourPC, sd_owner = ''installer'', sd_label = ''Checking your PC''\<rparr>,
     \<lparr>sd_id = StepInstallerPreparingWindows, sd_owner = ''installer'', sd_label = ''Preparing Windows''\<rparr>,
     \<lparr>sd_id = StepInstallerSettingThingsUp, sd_owner = ''installer'', sd_label = ''Setting things up''\<rparr>,
     \<lparr>sd_id = StepInstallerFindingYourFiles, sd_owner = ''installer'', sd_label = ''Finding your files''\<rparr>,
     \<lparr>sd_id = StepInstallerMakingRoomForLinux, sd_owner = ''installer'', sd_label = ''Making room for Linux''\<rparr>,
     \<lparr>sd_id = StepInstallerDownloadingLinux, sd_owner = ''installer'', sd_label = ''Downloading Linux''\<rparr>,
     \<lparr>sd_id = StepInstallerDownloadingYourLinuxSystem, sd_owner = ''installer'', sd_label = ''Downloading your Linux system''\<rparr>,
     \<lparr>sd_id = StepInstallerPreparingTheStartupMenu, sd_owner = ''installer'', sd_label = ''Preparing the startup menu''\<rparr>,
     \<lparr>sd_id = StepInstallerGettingLinuxPrepared, sd_owner = ''installer'', sd_label = ''Getting Linux prepared''\<rparr>,
     \<lparr>sd_id = StepInstallerMakingLinuxBootableOnYourMachine, sd_owner = ''installer'', sd_label = ''Making Linux bootable on your machine''\<rparr>,
     \<lparr>sd_id = StepInstallerSavingYourSettings, sd_owner = ''installer'', sd_label = ''Saving your settings''\<rparr>,
     \<lparr>sd_id = StepInstallerSavingYourBitLockerRecoveryKey, sd_owner = ''installer'', sd_label = ''Saving your BitLocker recovery key''\<rparr>,
     \<lparr>sd_id = StepInstallerLookingAtYourInstalledApps, sd_owner = ''installer'', sd_label = ''Looking at your installed apps''\<rparr>,
     \<lparr>sd_id = StepInstallerCheckingYourSignedInApps, sd_owner = ''installer'', sd_label = ''Checking your signed-in apps''\<rparr>,
     \<lparr>sd_id = StepInstallerLookingForYourCloudDrives, sd_owner = ''installer'', sd_label = ''Looking for your cloud drives''\<rparr>,
     \<lparr>sd_id = StepInstallerCollectingYourLookAndWiFi, sd_owner = ''installer'', sd_label = ''Collecting your look and Wi-Fi''\<rparr>,
     \<lparr>sd_id = StepInstallerFinishingUp, sd_owner = ''installer'', sd_label = ''Finishing up''\<rparr>,
     \<lparr>sd_id = StepDeployerNtfsMounted, sd_owner = ''deployer'', sd_label = ''Preparing your disk...''\<rparr>,
     \<lparr>sd_id = StepDeployerScratchSetup, sd_owner = ''deployer'', sd_label = ''Preparing your disk...''\<rparr>,
     \<lparr>sd_id = StepDeployerNetworkWait, sd_owner = ''deployer'', sd_label = ''Waiting for a network connection - plug in a network cable if this takes a while...''\<rparr>,
     \<lparr>sd_id = StepDeployerBundleIngest, sd_owner = ''deployer'', sd_label = ''Loading your downloaded system - no internet needed...''\<rparr>,
     \<lparr>sd_id = StepDeployerRegistryPreflight, sd_owner = ''deployer'', sd_label = ''Connecting to the software library...''\<rparr>,
     \<lparr>sd_id = StepDeployerFisherman, sd_owner = ''deployer'', sd_label = ''Installing your Linux system...''\<rparr>,
     \<lparr>sd_id = StepDeployerVerification, sd_owner = ''deployer'', sd_label = ''Checking your Linux system...''\<rparr>,
     \<lparr>sd_id = StepDeployerReboot, sd_owner = ''deployer'', sd_label = ''Preparing to restart...''\<rparr>,
     \<lparr>sd_id = StepFirstbootFirstbootEvidence, sd_owner = ''firstboot'', sd_label = ''Verifying your installed Linux boot...''\<rparr>]"

definition InstallerSteps :: "step_definition list" where
  "InstallerSteps = filter (\<lambda>s. sd_owner s = ''installer'') StepCatalogue"

text \<open>The two generated switches return \<open>("", false)\<close> for an unknown id: \<open>None\<close>.\<close>

definition StepLabel :: "string \<Rightarrow> string option" where
  "StepLabel sid =
    (if sid = StepInstallerCheckingYourPC then Some ''Checking your PC''
     else if sid = StepInstallerPreparingWindows then Some ''Preparing Windows''
     else if sid = StepInstallerSettingThingsUp then Some ''Setting things up''
     else if sid = StepInstallerFindingYourFiles then Some ''Finding your files''
     else if sid = StepInstallerMakingRoomForLinux then Some ''Making room for Linux''
     else if sid = StepInstallerDownloadingLinux then Some ''Downloading Linux''
     else if sid = StepInstallerDownloadingYourLinuxSystem then Some ''Downloading your Linux system''
     else if sid = StepInstallerPreparingTheStartupMenu then Some ''Preparing the startup menu''
     else if sid = StepInstallerGettingLinuxPrepared then Some ''Getting Linux prepared''
     else if sid = StepInstallerMakingLinuxBootableOnYourMachine then Some ''Making Linux bootable on your machine''
     else if sid = StepInstallerSavingYourSettings then Some ''Saving your settings''
     else if sid = StepInstallerSavingYourBitLockerRecoveryKey then Some ''Saving your BitLocker recovery key''
     else if sid = StepInstallerLookingAtYourInstalledApps then Some ''Looking at your installed apps''
     else if sid = StepInstallerCheckingYourSignedInApps then Some ''Checking your signed-in apps''
     else if sid = StepInstallerLookingForYourCloudDrives then Some ''Looking for your cloud drives''
     else if sid = StepInstallerCollectingYourLookAndWiFi then Some ''Collecting your look and Wi-Fi''
     else if sid = StepInstallerFinishingUp then Some ''Finishing up''
     else if sid = StepDeployerNtfsMounted then Some ''Preparing your disk...''
     else if sid = StepDeployerScratchSetup then Some ''Preparing your disk...''
     else if sid = StepDeployerNetworkWait then Some ''Waiting for a network connection - plug in a network cable if this takes a while...''
     else if sid = StepDeployerBundleIngest then Some ''Loading your downloaded system - no internet needed...''
     else if sid = StepDeployerRegistryPreflight then Some ''Connecting to the software library...''
     else if sid = StepDeployerFisherman then Some ''Installing your Linux system...''
     else if sid = StepDeployerVerification then Some ''Checking your Linux system...''
     else if sid = StepDeployerReboot then Some ''Preparing to restart...''
     else if sid = StepFirstbootFirstbootEvidence then Some ''Verifying your installed Linux boot...''
     else None)"

definition StepOwner :: "string \<Rightarrow> string option" where
  "StepOwner sid =
    (if sid = StepInstallerCheckingYourPC then Some ''installer''
     else if sid = StepInstallerPreparingWindows then Some ''installer''
     else if sid = StepInstallerSettingThingsUp then Some ''installer''
     else if sid = StepInstallerFindingYourFiles then Some ''installer''
     else if sid = StepInstallerMakingRoomForLinux then Some ''installer''
     else if sid = StepInstallerDownloadingLinux then Some ''installer''
     else if sid = StepInstallerDownloadingYourLinuxSystem then Some ''installer''
     else if sid = StepInstallerPreparingTheStartupMenu then Some ''installer''
     else if sid = StepInstallerGettingLinuxPrepared then Some ''installer''
     else if sid = StepInstallerMakingLinuxBootableOnYourMachine then Some ''installer''
     else if sid = StepInstallerSavingYourSettings then Some ''installer''
     else if sid = StepInstallerSavingYourBitLockerRecoveryKey then Some ''installer''
     else if sid = StepInstallerLookingAtYourInstalledApps then Some ''installer''
     else if sid = StepInstallerCheckingYourSignedInApps then Some ''installer''
     else if sid = StepInstallerLookingForYourCloudDrives then Some ''installer''
     else if sid = StepInstallerCollectingYourLookAndWiFi then Some ''installer''
     else if sid = StepInstallerFinishingUp then Some ''installer''
     else if sid = StepDeployerNtfsMounted then Some ''deployer''
     else if sid = StepDeployerScratchSetup then Some ''deployer''
     else if sid = StepDeployerNetworkWait then Some ''deployer''
     else if sid = StepDeployerBundleIngest then Some ''deployer''
     else if sid = StepDeployerRegistryPreflight then Some ''deployer''
     else if sid = StepDeployerFisherman then Some ''deployer''
     else if sid = StepDeployerVerification then Some ''deployer''
     else if sid = StepDeployerReboot then Some ''deployer''
     else if sid = StepFirstbootFirstbootEvidence then Some ''firstboot''
     else None)"

definition observedStepID :: "string \<Rightarrow> string" where
  "observedStepID sid = (case StepOwner sid of Some _ \<Rightarrow> sid | None \<Rightarrow> [])"

definition displayStepLabel :: "string \<Rightarrow> string" where
  "displayStepLabel sid = (case StepLabel sid of Some l \<Rightarrow> l | None \<Rightarrow> sid)"

text \<open>
  \<open>installStepProgress\<close>; its message ends in the UTF-8 ellipsis. A percentage is a rational
  number: the code's constants are small integers, and its progress arithmetic is idealised.
\<close>

record progress_event =
  pe_step :: string
  pe_phase_id :: string
  pe_message :: string
  pe_percent :: rat
  pe_done :: bool
  pe_error :: string
  pe_warnings :: "string list"

definition ellipsis :: string where
  "ellipsis = [CHR 0xE2, CHR 0x80, CHR 0xA6]"

definition progress_at :: "string \<Rightarrow> string \<Rightarrow> string \<Rightarrow> rat \<Rightarrow> progress_event" where
  "progress_at sid phase msg pct =
     \<lparr>pe_step = sid, pe_phase_id = phase, pe_message = msg, pe_percent = pct, pe_done = False,
      pe_error = [], pe_warnings = []\<rparr>"

definition installStepProgress :: "string \<Rightarrow> rat \<Rightarrow> progress_event" where
  "installStepProgress sid pct =
     progress_at sid (observedStepID sid) (displayStepLabel sid @ ellipsis) pct"

text \<open>The record \<open>writeState\<close> persists; \<open>now\<close> is the formatted clock.\<close>

definition new_lifecycle_state :: "string \<Rightarrow> string \<Rightarrow> string \<Rightarrow> string \<Rightarrow> lifecycle_state" where
  "new_lifecycle_state now state phase err =
     \<lparr>ls_phase_id = observedStepID phase, ls_state = state, ls_phase = phase, ls_error = err,
      ls_updated_at = now, ls_updated_by = ''wootc-installer''\<rparr>"

subsection \<open>The catalogue is the one authority\<close>

lemma catalogue_ids_distinct: "distinct (map sd_id StepCatalogue)"
  by (simp add: StepCatalogue_def step_names)

text \<open>The switches are look-ups in the catalogue, entry by entry in its order.\<close>

lemma StepOwner_map_of: "StepOwner sid = map_of (map (\<lambda>s. (sd_id s, sd_owner s)) StepCatalogue) sid"
  unfolding StepOwner_def StepCatalogue_def by (simp only: list.map map_of.simps fun_upd_apply
    step_definition.select_convs fst_conv snd_conv eq_commute [of sid] cong: if_cong)

lemma StepLabel_map_of: "StepLabel sid = map_of (map (\<lambda>s. (sd_id s, sd_label s)) StepCatalogue) sid"
  unfolding StepLabel_def StepCatalogue_def by (simp only: list.map map_of.simps fun_upd_apply
    step_definition.select_convs fst_conv snd_conv eq_commute [of sid] cong: if_cong)

lemma StepOwner_catalogue: "s \<in> set StepCatalogue \<Longrightarrow> StepOwner (sd_id s) = Some (sd_owner s)"
  unfolding StepOwner_map_of using catalogue_ids_distinct by (auto simp: comp_def)

lemma StepLabel_catalogue: "s \<in> set StepCatalogue \<Longrightarrow> StepLabel (sd_id s) = Some (sd_label s)"
  unfolding StepLabel_map_of using catalogue_ids_distinct by (auto simp: comp_def)

lemma StepOwner_None: "sid \<notin> sd_id ` set StepCatalogue \<Longrightarrow> StepOwner sid = None"
  by (auto simp: StepOwner_map_of map_of_eq_None_iff)

lemma StepLabel_None: "sid \<notin> sd_id ` set StepCatalogue \<Longrightarrow> StepLabel sid = None"
  by (auto simp: StepLabel_map_of map_of_eq_None_iff)

lemma observedStepID_cases: "observedStepID sid = sid \<or> observedStepID sid = []"
  by (simp add: observedStepID_def split: option.splits)

lemma observedStepID_idem [simp]: "observedStepID (observedStepID sid) = observedStepID sid"
  by (auto simp: observedStepID_def split: option.splits)

lemma catalogue_id_not_Nil: "s \<in> set StepCatalogue \<Longrightarrow> sd_id s \<noteq> []"
  unfolding StepCatalogue_def by (auto simp: step_names)

lemma observedStepID_Nil_iff: "observedStepID sid = [] \<longleftrightarrow> sid \<notin> sd_id ` set StepCatalogue"
  using StepOwner_None [of sid] StepOwner_catalogue catalogue_id_not_Nil
  by (fastforce simp: observedStepID_def split: option.splits)

end
