(* ===== verification/Install_Journal.thy ===== *)
theory Install_Journal
  imports Lifecycle
begin

text \<open>
  The install journal (\<open>app/install_journal.go\<close>): the record, its two queries, the
  recorder the pipeline writes it with, and the crash-safe writer. The recorder's clock and
  the file operations are functions of the environment.
\<close>

definition JournalRunning :: string where "JournalRunning = ''running''"
definition JournalCancelled :: string where "JournalCancelled = ''cancelled''"
definition JournalFailed :: string where "JournalFailed = ''failed''"
definition JournalArmed :: string where "JournalArmed = ''armed''"

lemmas journal_outcomes = JournalRunning_def JournalCancelled_def JournalFailed_def JournalArmed_def

lemma outcome_neq [simp]:
  "JournalRunning \<noteq> JournalCancelled" "JournalRunning \<noteq> JournalFailed" "JournalRunning \<noteq> JournalArmed"
  "JournalCancelled \<noteq> JournalFailed" "JournalCancelled \<noteq> JournalArmed" "JournalFailed \<noteq> JournalArmed"
  by (simp_all add: journal_outcomes)

lemmas outcome_neq_sym [simp] = outcome_neq [symmetric]

record install_journal =
  ij_schema :: int
  ij_attempt :: string
  ij_image :: string
  ij_drive :: string
  ij_pid :: int
  ij_started :: string
  ij_updated :: string
  ij_ended :: string
  ij_outcome :: string
  ij_current :: string
  ij_completed :: "string list"
  ij_error :: string

definition LastCompletedStep :: "install_journal \<Rightarrow> string" where
  "LastCompletedStep j = (if ij_completed j = [] then [] else last (ij_completed j))"

definition Completed :: "install_journal \<Rightarrow> string \<Rightarrow> bool" where
  "Completed j step \<longleftrightarrow> list_ex (\<lambda>s. s = step) (ij_completed j)"

subsection \<open>The recorder\<close>

text \<open>
  The clock gives one instant in the two formats the recorder prints: the attempt identifier
  and RFC 3339. \<open>rj_write\<close> is \<open>writeJournalAt\<close> on the recorder's path; its error is only
  reported on stderr, so the recorder goes on.
\<close>

record 's recorder_env =
  rj_now :: "'s \<Rightarrow> (string \<times> string) \<times> 's"
  rj_write :: "install_journal \<Rightarrow> 's \<Rightarrow> string option \<times> 's"

definition journal_flush ::
  "'s recorder_env \<Rightarrow> install_journal \<Rightarrow> 's \<Rightarrow> install_journal \<times> 's" where
  "journal_flush env j s =
     (let (t, s1) = rj_now env s;
          j1 = j\<lparr>ij_updated := snd t\<rparr>;
          (_, s2) = rj_write env j1 s1
      in (j1, s2))"

definition newInstallJournalRecorder ::
  "'s recorder_env \<Rightarrow> string \<Rightarrow> string \<Rightarrow> int \<Rightarrow> 's \<Rightarrow> install_journal \<times> 's" where
  "newInstallJournalRecorder env imageRef storageDrive pid s =
     (let (t, s1) = rj_now env s
      in journal_flush env
           \<lparr>ij_schema = 1, ij_attempt = fst t, ij_image = imageRef, ij_drive = storageDrive,
            ij_pid = pid, ij_started = snd t, ij_updated = [], ij_ended = [],
            ij_outcome = JournalRunning, ij_current = [], ij_completed = [], ij_error = []\<rparr> s1)"

definition stepStarted ::
  "'s recorder_env \<Rightarrow> string \<Rightarrow> install_journal \<Rightarrow> 's \<Rightarrow> install_journal \<times> 's" where
  "stepStarted env step j s = journal_flush env (j\<lparr>ij_current := step\<rparr>) s"

definition stepDone ::
  "'s recorder_env \<Rightarrow> string \<Rightarrow> install_journal \<Rightarrow> 's \<Rightarrow> install_journal \<times> 's" where
  "stepDone env step j s =
     journal_flush env (j\<lparr>ij_completed := ij_completed j @ [step], ij_current := []\<rparr>) s"

definition journal_end ::
  "'s recorder_env \<Rightarrow> string \<Rightarrow> string \<Rightarrow> install_journal \<Rightarrow> 's \<Rightarrow> install_journal \<times> 's" where
  "journal_end env outcome err j s =
     (let (t, s1) = rj_now env s
      in journal_flush env (j\<lparr>ij_outcome := outcome, ij_error := err, ij_ended := snd t\<rparr>) s1)"

subsection \<open>The crash-safe writer\<close>

text \<open>
  \<open>writeJournalAt\<close> over the file operations it calls, on the temporary file unless named
  otherwise; each returns its error, if any. Marshalling a journal cannot fail: it holds
  strings, integers and lists only.
\<close>

record 's file_ops =
  fo_mkdir :: "'s \<Rightarrow> string option \<times> 's"
  fo_open :: "'s \<Rightarrow> string option \<times> 's"
  fo_write :: "install_journal \<Rightarrow> 's \<Rightarrow> string option \<times> 's"
  fo_sync :: "'s \<Rightarrow> string option \<times> 's"
  fo_close :: "'s \<Rightarrow> string option \<times> 's"
  fo_remove :: "'s \<Rightarrow> string option \<times> 's"
  fo_rename :: "'s \<Rightarrow> string option \<times> 's"

datatype write_error =
    CreatingInstallDir string
  | FileError string

definition discard_tmp :: "'s file_ops \<Rightarrow> bool \<Rightarrow> string \<Rightarrow> 's \<Rightarrow> write_error option \<times> 's" where
  "discard_tmp ops opened e s =
     (let s1 = (if opened then snd (fo_close ops s) else s)
      in (Some (FileError e), snd (fo_remove ops s1)))"

definition writeJournalAt :: "'s file_ops \<Rightarrow> install_journal \<Rightarrow> 's \<Rightarrow> write_error option \<times> 's" where
  "writeJournalAt ops j s =
     (case fo_mkdir ops s of
        (Some e, s1) \<Rightarrow> (Some (CreatingInstallDir e), s1)
      | (None, s1) \<Rightarrow>
     (case fo_open ops s1 of
        (Some e, s2) \<Rightarrow> (Some (FileError e), s2)
      | (None, s2) \<Rightarrow>
     (case fo_write ops j s2 of
        (Some e, s3) \<Rightarrow> discard_tmp ops True e s3
      | (None, s3) \<Rightarrow>
     (case fo_sync ops s3 of
        (Some e, s4) \<Rightarrow> discard_tmp ops True e s4
      | (None, s4) \<Rightarrow>
     (case fo_close ops s4 of
        (Some e, s5) \<Rightarrow> discard_tmp ops False e s5
      | (None, s5) \<Rightarrow>
     (case fo_rename ops s5 of
        (Some e, s6) \<Rightarrow> (Some (FileError e), s6)
      | (None, s6) \<Rightarrow> (None, s6)))))))"

end
