(* ===== verification/Install_Engine.thy ===== *)
theory Install_Engine
  imports Install_Journal
begin

text \<open>
  The install engine (\<open>app/install_engine.go\<close>): the step loop with its journal, progress,
  cancellation, fault injection and disarming, over the adapter \<open>installPlatform\<close>, which is
  a record of functions here as it is an interface there.
\<close>

record install_config =
  ic_image :: string
  ic_disk_gb :: int
  ic_username :: string
  ic_password :: string
  ic_hostname :: string
  ic_bootloader :: string
  ic_composefs :: bool
  ic_drive :: string
  ic_encryption :: string
  ic_luks_passphrase :: string
  ic_windows_look :: bool
  ic_session_consent :: "bool smap"
  ic_fault :: string

record 's install_step =
  st_name :: string
  st_percent :: rat
  st_fn :: "'s \<Rightarrow> string option \<times> 's"

text \<open>
  \<open>ip_cancelled\<close> polls the context: \<open>Some\<close> error once it is cancelled. \<open>ip_env_fault\<close> is the
  environment variable \<open>WOOTC_FAULT_INJECT\<close>.
\<close>

record 's install_platform =
  ip_prepare :: "string \<Rightarrow> 's \<Rightarrow> string option \<times> 's"
  ip_release :: "'s \<Rightarrow> 's"
  ip_steps :: "install_config \<Rightarrow> 's install_step list"
  ip_recorder :: "'s recorder_env"
  ip_pid :: int
  ip_writeState :: "string \<Rightarrow> string \<Rightarrow> string \<Rightarrow> 's \<Rightarrow> 's"
  ip_disarm :: "'s \<Rightarrow> 's"
  ip_emit :: "progress_event \<Rightarrow> 's \<Rightarrow> 's"
  ip_cancelled :: "'s \<Rightarrow> string option \<times> 's"
  ip_env_fault :: string

datatype engine_error =
    Refused string
  | Interrupted string
  | StepError string string
  | CancelledBeforeReboot string

definition root_disk_fault :: string where
  "root_disk_fault = ''fault-injection: simulated failure during root disk creation''"
definition download_fault :: string where
  "download_fault = ''fault-injection: simulated failure during image download''"
definition staging_fault :: string where
  "staging_fault = ''fault-injection: simulated failure during EFI staging''"
definition arming_fault :: string where
  "arming_fault = ''fault-injection: simulated failure during BCD arming''"
definition reboot_fault :: string where
  "reboot_fault = ''fault-injection: simulated cancellation before reboot''"

definition step_fault :: "string \<Rightarrow> string \<Rightarrow> string option" where
  "step_fault fault name =
     (if fault = [] then None
      else if fault = ''root-disk'' \<and> name = StepInstallerMakingRoomForLinux then Some root_disk_fault
      else if (fault = ''image-pull'' \<or> fault = ''image-download'') \<and>
              (name = StepInstallerDownloadingLinux \<or> name = StepInstallerDownloadingYourLinuxSystem)
           then Some download_fault
      else if (fault = ''efi-staging'' \<or> fault = ''efi'') \<and> name = StepInstallerGettingLinuxPrepared
           then Some staging_fault
      else if (fault = ''bcd-arming'' \<or> fault = ''bcd'') \<and>
              name = StepInstallerMakingLinuxBootableOnYourMachine then Some arming_fault
      else None)"

type_synonym 's engine_run = "(engine_error option \<times> bool \<times> install_journal) \<times> 's"

text \<open>The clean exits: disarm when armed, persist the lifecycle state, close the journal.\<close>

definition leave ::
  "'s install_platform \<Rightarrow> bool \<Rightarrow> string \<Rightarrow> string \<Rightarrow> string \<Rightarrow> string \<Rightarrow>
     install_journal \<Rightarrow> 's \<Rightarrow> install_journal \<times> 's" where
  "leave p armed state phase msg outcome j s =
     (let s1 = (if armed then ip_disarm p s else s);
          s2 = ip_writeState p state phase msg s1
      in journal_end (ip_recorder p) outcome msg j s2)"

definition step_failed ::
  "'s install_platform \<Rightarrow> bool \<Rightarrow> string \<Rightarrow> string \<Rightarrow> install_journal \<Rightarrow> 's \<Rightarrow> 's engine_run" where
  "step_failed p armed name msg j s =
     (let (j1, s1) = leave p armed StateFailed name msg JournalFailed j s
      in ((Some (StepError (displayStepLabel name) msg), armed, j1), s1))"

text \<open>One step after its cancellation check: announce it, run it, record it.\<close>

definition run_step ::
  "'s install_platform \<Rightarrow> string \<Rightarrow> 's install_step \<Rightarrow> bool \<Rightarrow> install_journal \<Rightarrow> 's \<Rightarrow> 's engine_run" where
  "run_step p fault st armed j s =
     (let (j1, s1) = stepStarted (ip_recorder p) (st_name st) j s;
          s2 = ip_emit p (installStepProgress (st_name st) (st_percent st)) s1
      in case step_fault fault (st_name st) of
           Some msg \<Rightarrow> step_failed p armed (st_name st) msg j1 s2
         | None \<Rightarrow>
             (let armed1 = (armed \<or> st_name st = StepInstallerMakingLinuxBootableOnYourMachine)
              in case st_fn st s2 of
                   (Some e, s3) \<Rightarrow> step_failed p armed1 (st_name st) e j1 s3
                 | (None, s3) \<Rightarrow>
                     (let (j2, s4) = stepDone (ip_recorder p) (st_name st) j1 s3
                      in ((None, armed1, j2), s4))))"

fun run_steps ::
  "'s install_platform \<Rightarrow> string \<Rightarrow> 's install_step list \<Rightarrow> bool \<Rightarrow> install_journal \<Rightarrow> 's \<Rightarrow> 's engine_run" where
  "run_steps p fault [] armed j s = ((None, armed, j), s)"
| "run_steps p fault (st # sts) armed j s =
     (case ip_cancelled p s of
        (Some e, s1) \<Rightarrow>
          (let (j1, s2) = leave p armed StateStaged ''cancelled'' [] JournalCancelled j s1
           in ((Some (Interrupted e), armed, j1), s2))
      | (None, s1) \<Rightarrow>
          (case run_step p fault st armed j s1 of
             ((Some e, armed1, j1), s2) \<Rightarrow> ((Some e, armed1, j1), s2)
           | ((None, armed1, j1), s2) \<Rightarrow> run_steps p fault sts armed1 j1 s2))"

definition finishInstallPipeline :: "'s install_platform \<Rightarrow> bool \<Rightarrow> 's \<Rightarrow> engine_error option \<times> 's" where
  "finishInstallPipeline p armed s =
     (case ip_cancelled p s of
        (Some e, s1) \<Rightarrow>
          (let s2 = (if armed then ip_disarm p s1 else s1)
           in (Some (Interrupted e), ip_writeState p StateStaged ''cancelled'' [] s2))
      | (None, s1) \<Rightarrow> (None, ip_writeState p StateArmed [] [] s1))"

text \<open>What follows the loop.\<close>

definition run_end ::
  "'s install_platform \<Rightarrow> string \<Rightarrow> bool \<Rightarrow> install_journal \<Rightarrow> 's \<Rightarrow> engine_error option \<times> 's" where
  "run_end p fault armed j s =
     (if fault = ''pre-reboot''
      then (let (_, s1) = leave p armed StateStaged ''cancelled'' reboot_fault JournalCancelled j s
            in (Some (CancelledBeforeReboot reboot_fault), s1))
      else case finishInstallPipeline p armed s of
             (Some e, s1) \<Rightarrow> (Some e, snd (journal_end (ip_recorder p) JournalCancelled [] j s1))
           | (None, s1) \<Rightarrow> (None, snd (journal_end (ip_recorder p) JournalArmed [] j s1)))"

definition effective_fault :: "'s install_platform \<Rightarrow> install_config \<Rightarrow> string" where
  "effective_fault p cfg = (if ic_fault cfg = [] then ip_env_fault p else ic_fault cfg)"

definition Run :: "'s install_platform \<Rightarrow> install_config \<Rightarrow> 's \<Rightarrow> engine_error option \<times> 's" where
  "Run p cfg s =
     (case ip_prepare p (ic_drive cfg) s of
        (Some e, s1) \<Rightarrow> (Some (Refused e), s1)
      | (None, s1) \<Rightarrow>
          (let (j, s2) = newInstallJournalRecorder (ip_recorder p) (ic_image cfg) (ic_drive cfg) (ip_pid p) s1;
               fault = effective_fault p cfg;
               (r, s3) = (case run_steps p fault (ip_steps p cfg) False j s2 of
                   ((Some e, _, _), s3) \<Rightarrow> (Some e, s3)
                 | ((None, armed, j1), s3) \<Rightarrow> run_end p fault armed j1 s3)
           in (r, ip_release p s3)))"

end
