(* ===== verification/Esp_Staging.thy ===== *)
theory Esp_Staging
  imports Esp_Ownership Boot_Menu Install_Engine
begin

text \<open>
  Staging the boot chain on the ESP (\<open>app/installer_esp.go\<close>): \<open>setupSignedChain\<close> and
  \<open>setupSystemdBoot\<close> with their guards, space check, claims, copies and menus, in the order of
  the code. What they read outside the ESP is a record: the downloaded files, the free
  space, the catalog, the branding and the firmware's Secure Boot state.
\<close>

record stage_source =
  sg_size :: "string \<Rightarrow> 64 word option"
  sg_file :: "string \<Rightarrow> string file_read"
  sg_free :: "64 word option"
  sg_brand :: branding
  sg_needs_mok :: "string \<Rightarrow> bool"
  sg_e2e :: bool
  sg_secure_boot :: "bool \<times> bool"
  sg_exe_dir :: string
  sg_install_dir :: string
  sg_authentic :: "string \<Rightarrow> bool"

definition esp_rel :: "string list \<Rightarrow> string" where
  "esp_rel ps = join_with [backslash] ps"

definition luksCmdline :: "install_config \<Rightarrow> string" where
  "luksCmdline cfg =
     (if ic_encryption cfg = [] \<or> ic_encryption cfg = ''none'' then []
      else '' wootc.luks='' @ ic_encryption cfg)"

subsection \<open>The signed chain\<close>

definition fedora_dir :: "string list" where "fedora_dir = [''EFI'', ''fedora'']"
definition redhat_dir :: "string list" where "redhat_dir = [''EFI'', ''redhat'']"
definition wootc_dir :: "string list" where "wootc_dir = [''EFI'', ''wootc'']"
definition systemd_dir :: "string list" where "systemd_dir = [''EFI'', ''systemd'']"

text \<open>The files of the chain: name in the download folder, place on the ESP, optional or not.\<close>

definition signed_chain :: "(string \<times> string \<times> bool) list" where
  "signed_chain =
     [(''shimx64.efi'', esp_rel (fedora_dir @ [''shimx64.efi'']), False),
      (''grubx64.efi'', esp_rel (fedora_dir @ [''grubx64.efi'']), False),
      (''mmx64.efi'', esp_rel (fedora_dir @ [''mmx64.efi'']), True),
      (''deployer-vmlinuz'', esp_rel (wootc_dir @ [''deployer-vmlinuz'']), False),
      (''deployer-initramfs.img'', esp_rel (wootc_dir @ [''deployer-initramfs.img'']), False)]"

definition signed_destinations :: "string list" where
  "signed_destinations = map (fst \<circ> snd) signed_chain"

text \<open>A config that can be read and has no marker belongs to another system.\<close>

definition marker_guard :: "string list \<Rightarrow> esp_error \<Rightarrow> esp_state \<Rightarrow> esp_error option \<times> esp_state" where
  "marker_guard path refusal s =
     (case os_read_file path s of
        (Found d, s1) \<Rightarrow> (if contains_str d wootcGrubOwnership then None else Some refusal, s1)
      | (_, s1) \<Rightarrow> (None, s1))"

definition required_payload :: "string list" where
  "required_payload = [''deployer-vmlinuz'', ''deployer-initramfs.img'', ''shimx64.efi'', ''grubx64.efi'']"

text \<open>The sum of the sizes, in the 64-bit arithmetic of the code; \<open>Inl\<close> names a missing file.\<close>

fun payload_need :: "(string \<Rightarrow> 64 word option) \<Rightarrow> string list \<Rightarrow> 64 word \<Rightarrow> string + 64 word" where
  "payload_need sz [] need = Inr need"
| "payload_need sz (name # names) need =
     (case sz name of
        None \<Rightarrow> Inl name
      | Some n \<Rightarrow> payload_need sz names (need + n))"

definition space_slack :: "64 word" where "space_slack = 0x400000"

definition too_small :: "64 word \<Rightarrow> 64 word \<Rightarrow> bool" where
  "too_small free need \<longleftrightarrow> sint free < sint (need + space_slack)"

definition space_gate :: "stage_source \<Rightarrow> esp_error option" where
  "space_gate src =
     (case payload_need (sg_size src) required_payload 0 of
        Inl name \<Rightarrow> Some (PayloadMissing name (sg_install_dir src))
      | Inr need \<Rightarrow>
          (let need = (case sg_size src ''mmx64.efi'' of None \<Rightarrow> need | Some n \<Rightarrow> need + n)
           in case sg_free src of
                None \<Rightarrow> None
              | Some free \<Rightarrow>
                  if too_small free need
                  then Some (EspTooSmall (drop_bit 20 free) (drop_bit 20 (need + space_slack))) else None))"

fun mkdirs :: "string list list \<Rightarrow> esp_state \<Rightarrow> esp_error option \<times> esp_state" where
  "mkdirs [] s = (None, s)"
| "mkdirs (d # ds) s =
     (case os_mkdir_all d s of
        (Some e, s1) \<Rightarrow> (Some (Os e), s1)
      | (None, s1) \<Rightarrow> mkdirs ds s1)"

definition copy_payload ::
  "(esp_error \<Rightarrow> esp_error) \<Rightarrow> string file_read \<Rightarrow> string \<Rightarrow> esp_state \<Rightarrow> esp_error option \<times> esp_state" where
  "copy_payload wrap data rel s =
     (case copyFile data (path_parts rel) s of
        (Some e, s1) \<Rightarrow> (Some (wrap (Os e)), s1)
      | (None, s1) \<Rightarrow> (None, s1))"

fun stage_chain ::
  "stage_source \<Rightarrow> (string \<times> string \<times> bool) list \<Rightarrow> esp_state \<Rightarrow> esp_error option \<times> esp_state" where
  "stage_chain src [] s = (None, s)"
| "stage_chain src ((name, rel, optional) # items) s =
     (if optional \<and> sg_size src name = None then stage_chain src items s
      else case stageESPFile rel (copy_payload (CopyFailed name) (sg_file src name) rel) s of
             (Some e, s1) \<Rightarrow> (Some e, s1)
           | (None, s1) \<Rightarrow> stage_chain src items s1)"

definition install_mode :: "stage_source \<Rightarrow> install_config \<Rightarrow> string" where
  "install_mode src cfg =
     (if ic_bootloader cfg = ''grub2'' then '' wootc.bootloader=grub2''
      else if ic_bootloader cfg = ''systemd-boot'' then '' wootc.bootloader=systemd''
      else '' wootc.bootloader=auto'') @
     (if ic_composefs cfg then '' wootc.composefs=1'' else []) @
     (if sg_needs_mok src (ic_image cfg) then '' wootc.mok=enroll'' else []) @
     (if sg_e2e src then '' console=ttyS0'' else [])"

definition signed_menu :: "stage_source \<Rightarrow> install_config \<Rightarrow> string" where
  "signed_menu src cfg =
     deployerGrubMenu (bootMenuLabel (sg_brand src)) (ic_image cfg) (ic_hostname cfg)
       (luksCmdline cfg @ install_mode src cfg)"

definition menu_dirs :: "string list list" where
  "menu_dirs = [fedora_dir, redhat_dir, wootc_dir]"

fun write_menus :: "string \<Rightarrow> string list list \<Rightarrow> esp_state \<Rightarrow> esp_error option \<times> esp_state" where
  "write_menus menu [] s = (None, s)"
| "write_menus menu (d # ds) s =
     (case os_mkdir_all d s of
        (Some e, s1) \<Rightarrow> (Some (Os e), s1)
      | (None, s1) \<Rightarrow>
          (case os_write_file (d @ [''grub.cfg'']) menu s1 of
             (Some e, s2) \<Rightarrow> (Some (MenuWrite (esp_rel d) (Os e)), s2)
           | (None, s2) \<Rightarrow> write_menus menu ds s2))"

text \<open>A failed part ends the whole; \<open>andthen\<close> is the \<open>if err != nil \{ return err \}\<close> between two.\<close>

definition andthen ::
  "(esp_state \<Rightarrow> esp_error option \<times> esp_state) \<Rightarrow> (esp_state \<Rightarrow> esp_error option \<times> esp_state) \<Rightarrow>
     esp_state \<Rightarrow> esp_error option \<times> esp_state" where
  "andthen f g s = (case f s of (Some e, s1) \<Rightarrow> (Some e, s1) | (None, s1) \<Rightarrow> g s1)"

definition signed_gates :: "stage_source \<Rightarrow> esp_state \<Rightarrow> esp_error option \<times> esp_state" where
  "signed_gates src =
     andthen (marker_guard (fedora_dir @ [''grub.cfg'']) (ForeignLinux (esp_rel fedora_dir)))
     (andthen (guardESPDestinations signed_destinations)
     (andthen (marker_guard (redhat_dir @ [''grub.cfg'']) (ForeignLinux (esp_rel redhat_dir)))
       (\<lambda>s. (space_gate src, s))))"

definition setupSignedChain ::
  "stage_source \<Rightarrow> install_config \<Rightarrow> esp_state \<Rightarrow> esp_error option \<times> esp_state" where
  "setupSignedChain src cfg =
     andthen (signed_gates src)
     (andthen (mkdirs [fedora_dir, wootc_dir])
     (andthen (stage_chain src signed_chain)
       (write_menus (signed_menu src cfg) menu_dirs)))"

subsection \<open>The systemd-boot chain\<close>

record systemd_assets =
  sa_loader :: string
  sa_shim :: string
  sa_trusted :: bool

text \<open>Where the bundled binaries may be; a path exists when its size can be read.\<close>

definition win_join :: "string \<Rightarrow> string list \<Rightarrow> string" where
  "win_join base ps = join_with [backslash] (base # ps)"

definition debian_assets :: "stage_source \<Rightarrow> string \<Rightarrow> systemd_assets option" where
  "debian_assets src base =
     (let shim = win_join base [''debian'', ''shimx64.efi''];
          loader = win_join base [''debian'', ''systemd-bootx64.efi.signed'']
      in if sg_size src shim = None \<or> sg_size src loader = None then None
         else if sg_authentic src shim \<and> sg_authentic src loader
         then Some \<lparr>sa_loader = loader, sa_shim = shim, sa_trusted = True\<rparr> else None)"

fun first_some :: "('a \<Rightarrow> 'b option) \<Rightarrow> 'a list \<Rightarrow> 'b option" where
  "first_some f [] = None"
| "first_some f (x # xs) = (case f x of None \<Rightarrow> first_some f xs | Some y \<Rightarrow> Some y)"

definition systemdBootAsset :: "stage_source \<Rightarrow> esp_error + systemd_assets" where
  "systemdBootAsset src =
     (let efi = win_join (sg_exe_dir src) [''efi''];
          plain = [win_join (sg_exe_dir src) [''efi'', ''systemd-bootx64.efi''],
                   win_join (sg_install_dir src) [''systemd-bootx64.efi'']]
      in case first_some (debian_assets src) [efi, sg_install_dir src] of
           Some a \<Rightarrow> Inr a
         | None \<Rightarrow>
             (case List.find (\<lambda>p. sg_size src p \<noteq> None) plain of
                Some p \<Rightarrow> Inr \<lparr>sa_loader = p, sa_shim = [], sa_trusted = False\<rparr>
              | None \<Rightarrow> Inl SystemdBootMissing))"

definition secure_boot_gate :: "stage_source \<Rightarrow> systemd_assets \<Rightarrow> esp_error option" where
  "secure_boot_gate src asset =
     (let (on, known) = sg_secure_boot src
      in if (on \<or> \<not> known) \<and> \<not> sa_trusted asset
         then Some (SecureBootRefused (if \<not> known then ''unknown'' else ''enabled'')) else None)"

definition systemd_destinations :: "string list" where
  "systemd_destinations =
     map esp_rel [systemd_dir @ [''shimx64.efi''], systemd_dir @ [''grubx64.efi''],
       systemd_dir @ [''systemd-bootx64.efi''], wootc_dir @ [''deployer-vmlinuz''],
       wootc_dir @ [''deployer-initramfs.img'']]"

fun copy_own :: "stage_source \<Rightarrow> string list \<Rightarrow> esp_state \<Rightarrow> esp_error option \<times> esp_state" where
  "copy_own src [] s = (None, s)"
| "copy_own src (name # names) s =
     (case copyFile (sg_file src name) (wootc_dir @ [name]) s of
        (Some e, s1) \<Rightarrow> (Some (StageFailed name (Os e)), s1)
      | (None, s1) \<Rightarrow> copy_own src names s1)"

fun stage_assets ::
  "stage_source \<Rightarrow> (string \<times> string) list \<Rightarrow> esp_state \<Rightarrow> esp_error option \<times> esp_state" where
  "stage_assets src [] s = (None, s)"
| "stage_assets src ((file, rel) # items) s =
     (case stageESPFile rel (copy_payload (\<lambda>e. e) (sg_file src file) rel) s of
        (Some e, s1) \<Rightarrow> (Some e, s1)
      | (None, s1) \<Rightarrow> stage_assets src items s1)"

definition systemd_items :: "systemd_assets \<Rightarrow> (string \<times> string) list" where
  "systemd_items asset =
     (if sa_trusted asset
      then [(sa_shim asset, esp_rel (systemd_dir @ [''shimx64.efi''])),
            (sa_loader asset, esp_rel (systemd_dir @ [''grubx64.efi'']))]
      else [(sa_loader asset, esp_rel (systemd_dir @ [''systemd-bootx64.efi'']))])"

definition write_config :: "string list \<Rightarrow> string \<Rightarrow> esp_state \<Rightarrow> esp_error option \<times> esp_state" where
  "write_config path data s =
     (case os_write_file path data s of
        (Some e, s1) \<Rightarrow> (Some (Os e), s1)
      | (None, s1) \<Rightarrow> (None, s1))"

definition loader_conf :: string where
  "loader_conf =
     ''# wootc'' @ lf @ ''default wootc-deployer.conf'' @ lf @ ''timeout 5'' @ lf @ ''console-mode keep'' @ lf"

definition loader_entry :: "stage_source \<Rightarrow> install_config \<Rightarrow> string" where
  "loader_entry src cfg =
     deployerLoaderEntry (bootMenuLabel (sg_brand src)) (ic_image cfg) (ic_hostname cfg)
       (luksCmdline cfg @ (if ic_composefs cfg then '' wootc.composefs=1'' else []))"

definition setupSystemdBoot ::
  "stage_source \<Rightarrow> install_config \<Rightarrow> esp_state \<Rightarrow> esp_error option \<times> esp_state" where
  "setupSystemdBoot src cfg s =
     (case systemdBootAsset src of
        Inl e \<Rightarrow> (Some e, s)
      | Inr asset \<Rightarrow>
          andthen (\<lambda>s. (secure_boot_gate src asset, s))
          (andthen (marker_guard [''loader'', ''loader.conf''] ForeignSystemdBoot)
          (andthen (guardESPDestinations systemd_destinations)
          (andthen (mkdirs [systemd_dir, [''loader'', ''entries''], wootc_dir])
          (andthen (copy_own src [''deployer-vmlinuz'', ''deployer-initramfs.img''])
          (andthen (stage_assets src (systemd_items asset))
          (andthen (write_config [''loader'', ''loader.conf''] loader_conf)
            (write_config [''loader'', ''entries'', ''wootc-deployer.conf''] (loader_entry src cfg)))))))) s)"

definition setupESP ::
  "stage_source \<Rightarrow> install_config \<Rightarrow> esp_state \<Rightarrow> esp_error option \<times> esp_state" where
  "setupESP src cfg =
     (if ic_bootloader cfg = ''systemd-boot'' then setupSystemdBoot src cfg else setupSignedChain src cfg)"

end
