(* ===== verification/Esp_Ownership_Props.thy ===== *)
theory Esp_Ownership_Props
  imports Esp_Ownership
begin

text \<open>
  What the ownership manifest guarantees: its text reads back as the claims that were
  written, replacing it is atomic and outlasts the faults, a claim is recorded before the
  file it names, and the guard refuses destinations that nobody of ours wrote.
\<close>

subsection \<open>The manifest reads back\<close>

definition clean_claim :: "string \<Rightarrow> bool" where
  "clean_claim p \<longleftrightarrow> validateESPRelativeFile p = None \<and> normalizeESPPath p = p \<and>
     trim_space p = p \<and> \<not> comment_or_blank p \<and> \<not> too_long p"

lemma in_some_part: "c \<in> set s \<Longrightarrow> c = sep \<or> (\<exists>w\<in>set (split_on sep s). c \<in> set w)"
proof (induction s)
  case Nil
  then show ?case by simp
next
  case (Cons a s)
  then show ?case by (cases "split_on sep s") (auto split: list.splits if_splits)
qed

lemma valid_no_bad_char:
  assumes "validateESPRelativeFile p = None" "c \<in> set bad_path_chars" "c \<noteq> slash" "c \<noteq> backslash"
  shows "c \<notin> set p"
proof
  assume "c \<in> set p"
  with assms(4) have "c \<in> set (to_slashes p)"
    by (force simp: to_slashes_def replace_char_def)
  then obtain w where "w \<in> set (path_parts p)" "c \<in> set w"
    using in_some_part [of c "to_slashes p" slash] assms(3) by (auto simp: path_parts_def)
  with assms(1,2) show False
    by (auto simp: validateESPRelativeFile_def list_ex_iff bad_path_part_def contains_any_def split: if_splits)
qed

lemma clean_claim_chars:
  assumes "clean_claim p"
  shows "CHR 0x0A \<notin> set p" "CHR 0x0D \<notin> set p"
  using assms
  by (auto simp: clean_claim_def bad_path_chars_def slash_def backslash_def dest: valid_no_bad_char)

lemma split_on_lines:
  "\<forall>l\<in>set ls. sep \<notin> set l \<Longrightarrow> split_on sep (concat (map (\<lambda>l. l @ [sep]) ls)) = ls @ [[]]"
  by (induction ls) (auto simp: split_on_append)

lemma header_lines: "l \<in> set manifest_header \<Longrightarrow> CHR 0x0A \<notin> set l"
  by (auto simp: manifest_header_def)

lemma scan_render:
  assumes "list_all clean_claim owned"
  shows "scan_lines (render_manifest owned) = manifest_header @ sort (remdups owned)"
proof -
  have "\<forall>l\<in>set (manifest_header @ sort (remdups owned)). CHR 0x0A \<notin> set l"
    using assms clean_claim_chars(1) header_lines by (auto simp: list_all_iff)
  from split_on_lines [OF this]
  have "split_on (CHR 0x0A) (render_manifest owned) = (manifest_header @ sort (remdups owned)) @ [[]]"
    by (simp only: render_manifest_def lf_def)
  then show ?thesis by (simp only: scan_lines_def Let_def last_snoc butlast_snoc if_True simp_thms)
qed

lemma drop_cr_id: "CHR 0x0D \<notin> set l \<Longrightarrow> drop_cr l = l"
  using last_in_set by (force simp: drop_cr_def)

lemma read_clean:
  "list_all clean_claim ps \<Longrightarrow> read_claims owned ps = Inr (rev ps @ owned)"
proof (induction ps arbitrary: owned)
  case (Cons p ps)
  then have "clean_claim p" by simp
  then have "drop_cr p = p" "\<not> too_long p" "trim_space p = p" "\<not> comment_or_blank p"
    "validateESPRelativeFile p = None" "normalizeESPPath p = p"
    using clean_claim_chars(2) drop_cr_id by (auto simp: clean_claim_def)
  then show ?case using Cons by (simp add: Let_def)
qed simp

lemma read_comments:
  "list_all (\<lambda>l. \<not> too_long l \<and> comment_or_blank (trim_space (drop_cr l))) hs \<Longrightarrow>
     read_claims owned (hs @ ls) = read_claims owned ls"
  by (induction hs) (simp_all add: Let_def)

lemma header_comments:
  "list_all (\<lambda>l. \<not> too_long l \<and> comment_or_blank (trim_space (drop_cr l))) manifest_header"
  by code_simp

lemmas read_header = read_comments [OF header_comments]

lemma parse_render:
  assumes "list_all clean_claim owned"
  shows "parse_manifest (render_manifest owned) = Inr (rev (sort (remdups owned)))"
proof -
  have "list_all clean_claim (sort (remdups owned))" using assms by (simp add: list_all_iff)
  from read_clean [OF this] show ?thesis
    by (simp add: parse_manifest_def scan_render [OF assms] read_header)
qed

subsection \<open>Counting faults\<close>

definition trouble :: "esp_state \<Rightarrow> nat" where
  "trouble s = length (filter (\<lambda>f. f \<noteq> Fine) (es_script s))"

lemma trouble_mono: "keeps P s s' \<Longrightarrow> trouble s' \<le> trouble s"
  by (auto simp: keeps_def trouble_def suffix_def)

lemma trouble_next: "next_fault s = (f, s1) \<Longrightarrow> f \<noteq> Fine \<Longrightarrow> trouble s1 < trouble s"
  by (cases "es_script s") (auto simp: next_fault_def trouble_def)

lemma trouble_put [simp]: "trouble (put_at ps v s) = trouble s"
  by (simp add: trouble_def)

lemma trouble_create:
  assumes "os_create ps s = (Some e, s')" "can_write (es_root s) ps"
  shows "trouble s' < trouble s"
proof -
  obtain f s1 where n: "next_fault s = (f, s1)" by (metis surj_pair)
  have "f \<noteq> Fine" "s' = s1"
    using assms n next_root [OF n] by (auto simp: os_create_def split: fault.splits if_splits)
  then show ?thesis using trouble_next [OF n] by simp
qed

lemma trouble_write:
  assumes "os_write ps d s = (Some e, s')"
  shows "trouble s' < trouble s"
proof -
  obtain f s1 where n: "next_fault s = (f, s1)" by (metis surj_pair)
  have "f \<noteq> Fine" "trouble s' = trouble s1"
    using assms n by (auto simp: os_write_def split: fault.splits)
  then show ?thesis using trouble_next [OF n] by simp
qed

lemma trouble_flush: "os_flush s = (Some e, s') \<Longrightarrow> trouble s' < trouble s"
  by (auto simp: os_flush_def split: prod.splits fault.splits dest: trouble_next)

lemma trouble_rename:
  assumes "os_rename a b s = (Some e, s')" "file_at (es_root s) a = Some d" "can_write (es_root s) b"
  shows "trouble s' < trouble s"
proof -
  obtain f s1 where n: "next_fault s = (f, s1)" by (metis surj_pair)
  have m: "\<exists>s2. move_file a b s1 = (None, s2) \<and> trouble s2 = trouble s1"
    using assms(2,3) next_root [OF n] by (simp add: move_file_def)
  then have "f \<noteq> Fine" "trouble s' = trouble s1"
    using assms(1,2) n next_root [OF n]
    by (auto simp: os_rename_def split: fault.splits option.splits)
  then show ?thesis using trouble_next [OF n] by simp
qed

subsection \<open>Replacing the manifest\<close>

text \<open>
  The two places that \<open>persistManifest\<close> works with. The laws below hold for any two distinct
  paths; they are used for the manifest and its temporary sibling.
\<close>

locale manifest_slot =
  fixes tmp final :: "string list"
  assumes distinct_paths: "\<not> same_path tmp final"
    and tmp_path: "tmp \<noteq> []"
begin

definition ready :: "esp_state \<Rightarrow> bool" where
  "ready s \<longleftrightarrow> can_write (es_root s) tmp \<and> can_write (es_root s) final"

definition tmp_ok :: "string \<Rightarrow> esp_state \<Rightarrow> bool" where
  "tmp_ok content s \<longleftrightarrow> file_at (es_root s) tmp = None \<or> file_at (es_root s) tmp = Some content"

definition touched :: "string list \<Rightarrow> bool" where
  "touched qs \<longleftrightarrow> only tmp qs \<or> only final qs"

lemma ready_kept: "ready s \<Longrightarrow> writes_kept s s' \<Longrightarrow> ready s'"
  by (simp add: ready_def writes_kept_def)

lemma keeps_touched: "keeps (only tmp) s s' \<Longrightarrow> keeps touched s s'"
  "keeps (\<lambda>qs. only tmp qs \<or> only final qs) s s' \<Longrightarrow> keeps touched s s'"
  by (erule keeps_mono; simp add: touched_def)+

lemma final_kept: "keeps (only tmp) s s' \<Longrightarrow> file_at (es_root s') final = file_at (es_root s) final"
  by (erule keepsD(1)) (simp add: only_def distinct_paths)

lemma remove_tmp:
  assumes "os_remove tmp s = (r, s')" "ready s"
  shows "keeps (only tmp) s s'" "writes_kept s s'" "ready s'"
    "removals_work s \<Longrightarrow> locate (es_root s') tmp = None"
    "removals_work s \<Longrightarrow> file_at (es_root s') tmp = None"
proof -
  show k: "keeps (only tmp) s s'" using assms(1) by (rule keeps_remove)
  have c: "can_write (es_root s) tmp" using assms(2) by (simp add: ready_def)
  show "writes_kept s s'" using assms(1) c by (rule writes_kept_remove)
  then show "ready s'" using assms(2) ready_kept by blast
  assume "removals_work s"
  with removed [OF assms(1) this tmp_path] can_writeD [OF c] show "locate (es_root s') tmp = None"
    by (simp add: dir_at_def)
  then show "file_at (es_root s') tmp = None" by (simp add: file_at_def)
qed

lemma synced:
  assumes "writeFileSynced tmp content s = (r, s')" "ready s"
  shows "keeps (only tmp) s s' \<and> writes_kept s s' \<and>
    (r = None \<longrightarrow> file_at (es_root s') tmp = Some content) \<and>
    (removals_work s \<longrightarrow> tmp_ok content s \<longrightarrow> tmp_ok content s')"
proof -
  obtain r1 s1 where c: "os_create tmp s = (r1, s1)" by (metis surj_pair)
  have k1: "keeps (only tmp) s s1" "writes_kept s s1"
    using c keeps_create writes_kept_create by blast+
  have rdy1: "ready s1" using ready_kept assms(2) k1(2) by blast
  show ?thesis
  proof (cases r1)
    case (Some e)
    then have s': "s' = s1" "r = Some e" using assms(1) c by (simp_all add: writeFileSynced_def)
    from c have "es_root s1 = es_root s"
      by (cases rule: create_cases) (use Some in simp_all)
    then show ?thesis using s' k1 by (simp add: tmp_ok_def)
  next
    case None
    have f1: "file_at (es_root s1) tmp = Some []" using c None created_file by blast
    obtain r2 s2 where w: "os_write tmp content s1 = (r2, s2)" by (metis surj_pair)
    from write_cases [OF w f1 tmp_path] have k2: "keeps (only tmp) s1 s2"
      and v2: "r2 = None \<Longrightarrow> file_at (es_root s2) tmp = Some content" by (auto split: option.splits)
    have wk2: "writes_kept s1 s2" using w f1 tmp_path by (rule writes_kept_write)
    have rdy2: "ready s2" using ready_kept rdy1 wk2 by blast
    have k02: "keeps (only tmp) s s2" "writes_kept s s2"
      using k1 k2 wk2 keeps_trans writes_kept_trans by blast+
    have gone: ?thesis if "es_root s3 = es_root s2" "keeps (only tmp) s2 s3" "r = Some e"
      "s' = snd (os_remove tmp s3)" for e s3
    proof -
      obtain q s4 where rm: "os_remove tmp s3 = (q, s4)" by (metis surj_pair)
      have rdy3: "ready s3" using rdy2 that(1) by (simp add: ready_def)
      note m = remove_tmp [OF rm rdy3]
      have k3: "keeps (only tmp) s s3" "writes_kept s s3"
        using k02 that(1,2) keeps_trans writes_kept_trans writes_kept_refl by metis+
      have "removals_work s \<longrightarrow> removals_work s3" using removals_work_keeps k3(1) by blast
      with m k3 that(3,4) rm show ?thesis
        using keeps_trans writes_kept_trans by (simp add: tmp_ok_def; blast)
    qed
    show ?thesis
    proof (cases r2)
      case (Some e)
      then have "r = Some e" "s' = snd (os_remove tmp s2)"
        using assms(1) c None w by (simp_all add: writeFileSynced_def)
      then show ?thesis using gone [of s2] by simp
    next
      case n2: None
      obtain r3 s3 where fl: "os_flush s2 = (r3, s3)" by (metis surj_pair)
      note fk = flush_root [OF fl] keeps_flush [OF fl]
      show ?thesis
      proof (cases r3)
        case (Some e)
        then have "r = Some e" "s' = snd (os_remove tmp s3)"
          using assms(1) c None w n2 fl by (simp_all add: writeFileSynced_def)
        then show ?thesis using gone [OF fk(1) fk(2)] by blast
      next
        case n3: None
        then have cl: "os_flush s3 = (r, s')"
          using assms(1) c None w n2 fl by (simp add: writeFileSynced_def)
        note ck = flush_root [OF cl] keeps_flush [OF cl]
        have "keeps (only tmp) s s'" using keeps_trans [OF keeps_trans [OF k02(1) fk(2)] ck(2)] .
        moreover have "writes_kept s s'" using k02(2) fk(1) ck(1) by (simp add: writes_kept_def)
        moreover have "file_at (es_root s') tmp = Some content" using v2 [OF n2] fk(1) ck(1) by simp
        ultimately show ?thesis by (simp add: tmp_ok_def)
      qed
    qed
  qed
qed

text \<open>One pass: success means the manifest holds the content, failure leaves it old or new.\<close>

lemma landed_value:
  assumes "manifestLanded p content s = (b, s1)"
  shows "es_root s1 = es_root s" "keeps P s s1" "b \<Longrightarrow> file_at (es_root s) p = Some content"
  using assms
  by (auto simp: manifestLanded_def split: prod.splits dest: read_root keeps_read read_value)

definition settled :: "string \<Rightarrow> esp_state \<Rightarrow> esp_state \<Rightarrow> bool" where
  "settled content s s' \<longleftrightarrow> keeps touched s s' \<and> writes_kept s s' \<and>
     (removals_work s \<longrightarrow> tmp_ok content s \<longrightarrow> tmp_ok content s' \<and>
        (file_at (es_root s') final = file_at (es_root s) final \<or>
         file_at (es_root s') final = Some content))"

lemma settled_trans: "settled content s s1 \<Longrightarrow> settled content s1 s2 \<Longrightarrow> settled content s s2"
  unfolding settled_def using keeps_trans writes_kept_trans removals_work_keeps by metis

lemma settled_read:
  "es_root s' = es_root s \<Longrightarrow> keeps touched s s' \<Longrightarrow> settled content s s'"
  by (simp add: settled_def tmp_ok_def)

lemma settled_tmp:
  assumes "keeps (only tmp) s s'" "writes_kept s s'"
    "removals_work s \<Longrightarrow> tmp_ok content s \<Longrightarrow> tmp_ok content s'"
  shows "settled content s s'"
  using assms final_kept keeps_touched(1) by (simp add: settled_def)

lemma settled_remove:
  assumes "os_remove tmp s = (r, s')" "ready s"
  shows "settled content s s'"
  using remove_tmp [OF assms] by (intro settled_tmp) (auto simp: tmp_ok_def)

lemma settled_rename:
  assumes "os_rename tmp final s = (r, s')" "ready s"
  shows "settled content s s'"
    "r = None \<Longrightarrow> removals_work s \<Longrightarrow> tmp_ok content s \<Longrightarrow> file_at (es_root s') final = Some content"
proof -
  have k: "keeps touched s s'" using keeps_touched(2) [OF keeps_rename [OF assms(1)]] .
  show "settled content s s'"
    using assms(1) distinct_paths tmp_path
  proof (cases rule: rename_cases)
    case moved
    then show ?thesis using k by (auto simp: settled_def tmp_ok_def file_at_def [of _ tmp])
  next
    case stayed
    then show ?thesis using k by (auto intro: settled_read)
  next
    case eaten
    then show ?thesis using k by (simp add: settled_def tmp_ok_def file_at_def [of _ tmp])
  qed
  assume r: "r = None" "tmp_ok content s"
  show "file_at (es_root s') final = Some content"
    using assms(1) distinct_paths tmp_path
    by (cases rule: rename_cases) (use r in \<open>auto simp: tmp_ok_def\<close>)
qed

lemma persist_pass:
  assumes "persist_pass tmp final content s = (r, s')" "ready s"
  shows "settled content s s'"
    "r = Inr () \<Longrightarrow> removals_work s \<Longrightarrow> tmp_ok content s \<Longrightarrow> file_at (es_root s') final = Some content"
proof -
  obtain b s1 where l: "manifestLanded final content s = (b, s1)" by (metis surj_pair)
  note lv = landed_value [OF l]
  have s1: "settled content s s1" using lv by (intro settled_read)
  have rdy1: "ready s1" using assms(2) lv(1) by (simp add: ready_def)
  have "settled content s s' \<and>
    (r = Inr () \<longrightarrow> removals_work s \<longrightarrow> tmp_ok content s \<longrightarrow> file_at (es_root s') final = Some content)"
  proof (cases b)
    case True
    obtain q s2 where rm: "os_remove tmp s1 = (q, s2)" by (metis surj_pair)
    have "s' = s2" using assms(1) l True rm by (simp add: persist_pass_def)
    moreover have "file_at (es_root s2) final = Some content"
      using final_kept [OF keeps_remove [OF rm]] lv(1,3) True by simp
    ultimately show ?thesis using settled_trans [OF s1 settled_remove [OF rm rdy1]] by simp
  next
    case False
    obtain st s2 where t: "os_stat tmp s1 = (st, s2)" by (metis surj_pair)
    have s2: "settled content s1 s2" using stat_root [OF t] keeps_stat [OF t] by (intro settled_read)
    have rdy2: "ready s2" using rdy1 stat_root [OF t] by (simp add: ready_def)
    obtain w s3 where w: "(case st of Found n \<Rightarrow> (None, s2) | _ \<Rightarrow> writeFileSynced tmp content s2) = (w, s3)"
      by (metis surj_pair)
    have s3: "settled content s2 s3" and full: "w = None \<Longrightarrow> (\<forall>n. st \<noteq> Found n) \<Longrightarrow>
        file_at (es_root s3) tmp = Some content"
    proof -
      have sync: "settled content s2 s3 \<and> (w = None \<longrightarrow> file_at (es_root s3) tmp = Some content)"
        if "writeFileSynced tmp content s2 = (w, s3)"
        using synced [OF that rdy2] settled_tmp by blast
      show "settled content s2 s3" using w sync by (cases st) (auto intro: settled_read)
      show "w = None \<Longrightarrow> (\<forall>n. st \<noteq> Found n) \<Longrightarrow> file_at (es_root s3) tmp = Some content"
        using w sync by (cases st) auto
    qed
    have s03: "settled content s s3" using s1 s2 s3 settled_trans by blast
    show ?thesis
    proof (cases w)
      case (Some e)
      then have "r = Inl (WritingTmp (Os e))" "s' = s3"
        using assms(1) l False t w by (simp_all add: persist_pass_def Let_def)
      then show ?thesis using s03 by simp
    next
      case None
      have rdy3: "ready s3" using s3 rdy2 ready_kept by (auto simp: settled_def)
      obtain q s4 where rn: "os_rename tmp final s3 = (q, s4)" by (metis surj_pair)
      note s4 = settled_rename [OF rn rdy3]
      have "s' = s4" "r = Inr () \<longleftrightarrow> q = None"
        using assms(1) l False t w None rn
        by (cases q; auto simp: persist_pass_def Let_def)+
      moreover have "removals_work s \<Longrightarrow> tmp_ok content s \<Longrightarrow> removals_work s3 \<and> tmp_ok content s3"
        using s03 removals_work_keeps by (auto simp: settled_def)
      ultimately show ?thesis using settled_trans [OF s03 s4(1)] s4(2) by blast
    qed
  qed
  then show "settled content s s'"
    "r = Inr () \<Longrightarrow> removals_work s \<Longrightarrow> tmp_ok content s \<Longrightarrow> file_at (es_root s') final = Some content"
    by blast+
qed

lemma persist_loop:
  assumes "persist_loop k tmp final content errs s = (r, s')" "ready s"
  shows "settled content s s' \<and>
    (removals_work s \<longrightarrow> tmp_ok content s \<longrightarrow> r = None \<longrightarrow> file_at (es_root s') final = Some content)"
  using assms
proof (induction k arbitrary: errs s)
  case 0
  obtain b s1 where l: "manifestLanded final content s = (b, s1)" by (metis surj_pair)
  note lv = landed_value [OF l]
  have rdy1: "ready s1" using 0 lv(1) by (simp add: ready_def)
  obtain q s2 where rm: "os_remove tmp s1 = (q, s2)" by (metis surj_pair)
  have "settled content s s1" using lv by (intro settled_read)
  then have "settled content s s2" using settled_trans settled_remove [OF rm rdy1] by blast
  moreover have "b \<Longrightarrow> file_at (es_root s2) final = Some content"
    using final_kept [OF keeps_remove [OF rm]] lv(1,3) by simp
  ultimately show ?case using 0(1) l rm by (cases b) (auto simp: persist_end_def)
next
  case (Suc k)
  obtain p s1 where p: "persist_pass tmp final content s = (p, s1)" by (metis surj_pair)
  note pp = persist_pass [OF p Suc.prems(2)]
  show ?case
  proof (cases p)
    case (Inl e)
    then have "persist_loop k tmp final content (note_error e errs) s1 = (r, s')"
      using Suc.prems(1) p by simp
    moreover have "ready s1" using pp(1) Suc.prems(2) ready_kept by (auto simp: settled_def)
    ultimately have "settled content s1 s' \<and>
      (removals_work s1 \<longrightarrow> tmp_ok content s1 \<longrightarrow> r = None \<longrightarrow> file_at (es_root s') final = Some content)"
      by (rule Suc.IH)
    moreover have "removals_work s \<Longrightarrow> tmp_ok content s \<Longrightarrow> removals_work s1 \<and> tmp_ok content s1"
      using pp(1) removals_work_keeps by (auto simp: settled_def)
    ultimately show ?thesis using pp(1) settled_trans by blast
  next
    case (Inr u)
    then have "r = None" "s' = s1" "p = Inr ()" using Suc.prems(1) p by simp_all
    then show ?thesis using pp by blast
  qed
qed

text \<open>A pass that fails met a fault, so forty passes outlast any thirty-nine.\<close>

lemma synced_trouble:
  assumes "writeFileSynced tmp content s = (Some e, s')" "ready s"
  shows "trouble s' < trouble s"
proof -
  have c: "can_write (es_root s) tmp" using assms(2) by (simp add: ready_def)
  have rm: "trouble (snd (os_remove tmp s1)) \<le> trouble s1" for s1
    using keeps_remove [of tmp s1] trouble_mono by (metis prod.collapse)
  have cr: "os_create tmp s = (r, s1) \<Longrightarrow> trouble s1 \<le> trouble s" for r s1
    using keeps_create trouble_mono by blast
  obtain r1 s1 where c1: "os_create tmp s = (r1, s1)" by (metis surj_pair)
  show ?thesis
  proof (cases r1)
    case (Some x)
    then show ?thesis using assms(1) c1 trouble_create c by (auto simp: writeFileSynced_def)
  next
    case None
    note le1 = cr [OF c1]
    obtain r2 s2 where wr: "os_write tmp content s1 = (r2, s2)" by (metis surj_pair)
    have "keeps (only tmp) s1 s2"
      using write_cases [OF wr _ tmp_path] created_file c1 None by blast
    then have le2: "trouble s2 \<le> trouble s1" by (rule trouble_mono)
    obtain r3 s3 where fl: "os_flush s2 = (r3, s3)" by (metis surj_pair)
    have le3: "trouble s3 \<le> trouble s2" using keeps_flush [OF fl] by (rule trouble_mono)
    consider (torn) x where "r2 = Some x" "s' = snd (os_remove tmp s2)"
      | (flush) x where "r3 = Some x" "s' = snd (os_remove tmp s3)"
      | (close) "os_flush s3 = (Some e, s')"
      using assms(1) c1 None wr fl
      by (cases r2; cases r3) (auto simp: writeFileSynced_def)
    then show ?thesis
    proof cases
      case torn
      then show ?thesis using trouble_write rm [of s2] le1 wr
        by fastforce
    next
      case flush
      then show ?thesis using trouble_flush rm [of s3] le1 le2 fl by fastforce
    next
      case close
      then show ?thesis using trouble_flush le1 le2 le3 by fastforce
    qed
  qed
qed

lemma persist_pass_trouble:
  assumes "persist_pass tmp final content s = (Inl e, s')" "ready s"
  shows "trouble s' < trouble s"
proof -
  obtain b s1 where l: "manifestLanded final content s = (b, s1)" by (metis surj_pair)
  note lv = landed_value [OF l]
  have b: "\<not> b" using assms(1) l by (auto simp: persist_pass_def)
  have rdy1: "ready s1" using assms(2) lv(1) by (simp add: ready_def)
  obtain st s2 where t: "os_stat tmp s1 = (st, s2)" by (metis surj_pair)
  have rdy2: "ready s2" using rdy1 stat_root [OF t] by (simp add: ready_def)
  have le: "trouble s2 \<le> trouble s"
    using trouble_mono [OF lv(2)] trouble_mono [OF keeps_stat [OF t]] by (meson order_trans)
  obtain w s3 where w: "(case st of Found n \<Rightarrow> (None, s2) | _ \<Rightarrow> writeFileSynced tmp content s2) = (w, s3)"
    by (metis surj_pair)
  show ?thesis
  proof (cases w)
    case (Some x)
    then have "writeFileSynced tmp content s2 = (Some x, s3)" using w by (cases st) auto
    from synced_trouble [OF this rdy2] have "trouble s3 < trouble s2" .
    moreover have "s' = s3" using assms(1) l b t w Some by (simp add: persist_pass_def Let_def)
    ultimately show ?thesis using le by simp
  next
    case None
    obtain q s4 where rn: "os_rename tmp final s3 = (q, s4)" by (metis surj_pair)
    have q: "q \<noteq> None" "s' = s4"
      using assms(1) l b t w None rn by (cases q; auto simp: persist_pass_def Let_def)+
    have "ready s3 \<and> (\<exists>d. file_at (es_root s3) tmp = Some d) \<and> trouble s3 \<le> trouble s2"
    proof (cases "\<exists>n. st = Found n")
      case True
      then obtain n where "st = Found n" by blast
      with w None t rdy1 stat_root [OF t] stat_value(1) [of tmp s1 n s2] rdy2 show ?thesis
        by (auto simp: ready_def can_write_alt)
    next
      case False
      then have "writeFileSynced tmp content s2 = (None, s3)" using w None by (cases st) auto
      from synced [OF this rdy2] show ?thesis using ready_kept [OF rdy2] trouble_mono by blast
    qed
    then show ?thesis using q rn le trouble_rename [of tmp final s3 _ s4] by (fastforce simp: ready_def)
  qed
qed

lemma persist_loop_outlasts:
  assumes "persist_loop k tmp final content errs s = (r, s')" "ready s" "trouble s < k"
  shows "r = None"
  using assms
proof (induction k arbitrary: errs s)
  case 0
  then show ?case by simp
next
  case (Suc k)
  obtain p s1 where p: "persist_pass tmp final content s = (p, s1)" by (metis surj_pair)
  show ?case
  proof (cases p)
    case (Inl e)
    have "ready s1"
      using persist_pass(1) [OF p Suc.prems(2)] Suc.prems(2) ready_kept by (auto simp: settled_def)
    moreover have "trouble s1 < k"
      using persist_pass_trouble [of content s e s1] p Inl Suc.prems(2,3) by simp
    ultimately show ?thesis using Suc.IH Suc.prems(1) p Inl by simp
  next
    case (Inr u)
    then show ?thesis using Suc.prems(1) p by simp
  qed
qed

text \<open>Whatever the outcome, no temporary file is left when removals work.\<close>

lemma persist_pass_no_tmp:
  assumes "persist_pass tmp final content s = (Inr u, s')" "ready s" "removals_work s"
  shows "locate (es_root s') tmp = None"
proof -
  obtain b s1 where l: "manifestLanded final content s = (b, s1)" by (metis surj_pair)
  note lv = landed_value [OF l]
  show ?thesis
  proof (cases b)
    case True
    obtain q s2 where rm: "os_remove tmp s1 = (q, s2)" by (metis surj_pair)
    have "ready s1" "removals_work s1"
      using assms(2,3) lv(1) removals_work_keeps [OF assms(3) lv(2)] by (simp_all add: ready_def)
    then show ?thesis using remove_tmp(4) [OF rm] assms(1) l True rm by (simp add: persist_pass_def)
  next
    case False
    then obtain s3 where "os_rename tmp final s3 = (None, s')"
      using assms(1) l by (auto simp: persist_pass_def Let_def split: prod.splits option.splits)
    then show ?thesis using distinct_paths tmp_path by (rule rename_cases) auto
  qed
qed

lemma persist_no_tmp:
  assumes "persist_loop k tmp final content errs s = (r, s')" "ready s" "removals_work s"
  shows "locate (es_root s') tmp = None"
  using assms
proof (induction k arbitrary: errs s)
  case 0
  obtain b s1 where l: "manifestLanded final content s = (b, s1)" by (metis surj_pair)
  note lv = landed_value [OF l]
  obtain q s2 where rm: "os_remove tmp s1 = (q, s2)" by (metis surj_pair)
  have "ready s1" "removals_work s1"
    using 0 lv(1) removals_work_keeps [OF _ lv(2)] by (auto simp: ready_def)
  from remove_tmp(4) [OF rm this] have "locate (es_root s2) tmp = None" .
  moreover have "s' = s2" using 0(1) l rm by (cases b) (auto simp: persist_end_def)
  ultimately show ?case by simp
next
  case (Suc k)
  obtain p s1 where p: "persist_pass tmp final content s = (p, s1)" by (metis surj_pair)
  show ?case
  proof (cases p)
    case (Inl e)
    have "settled content s s1" using persist_pass(1) [OF p Suc.prems(2)] .
    then have "ready s1" "removals_work s1"
      using Suc.prems(2,3) ready_kept removals_work_keeps by (auto simp: settled_def)
    then show ?thesis using Suc.IH Suc.prems(1) p Inl by simp
  next
    case (Inr u)
    then show ?thesis using persist_pass_no_tmp [of content s u s1] p Suc.prems by simp
  qed
qed

end

interpretation slot: manifest_slot manifest_tmp manifest_path
  by unfold_locales code_simp+

subsection \<open>The claims on the volume\<close>

definition recorded :: "esp_state \<Rightarrow> string list" where
  "recorded s =
     (case file_at (es_root s) manifest_path of
        Some d \<Rightarrow> (case parse_manifest d of Inr ps \<Rightarrow> ps | Inl e \<Rightarrow> [])
      | None \<Rightarrow> [])"

text \<open>A manifest in the program's own hands: readable, no temporary left, removals work.\<close>

definition in_order :: "esp_state \<Rightarrow> bool" where
  "in_order s \<longleftrightarrow> removals_work s \<and> locate (es_root s) manifest_tmp = None \<and>
     (case file_at (es_root s) manifest_path of
        None \<Rightarrow> locate (es_root s) manifest_path = None
      | Some d \<Rightarrow> (case parse_manifest d of Inl e \<Rightarrow> False | Inr ps \<Rightarrow> list_all clean_claim ps))"

definition bookkeeping :: "string list \<Rightarrow> bool" where
  "bookkeeping qs \<longleftrightarrow> only manifest_tmp qs \<or> only manifest_path qs"

lemma manifest_places:
  "manifest_tmp = butlast manifest_path @ [last manifest_tmp]"
  "manifest_path = butlast manifest_path @ [last manifest_path]"
  "butlast manifest_tmp = butlast manifest_path" "manifest_path \<noteq> []" "manifest_tmp \<noteq> []"
  by code_simp+

lemma readESPOwnership_value:
  assumes "readESPOwnership s = (r, s')"
  shows "es_root s' = es_root s" "keeps P s s'"
    "r = Inr owned \<Longrightarrow> owned = recorded s"
proof -
  obtain q s1 where rd: "os_read_file manifest_path s = (q, s1)" by (metis surj_pair)
  have s': "s' = s1" using assms rd
    by (auto simp: readESPOwnership_def readESPOwnershipFile_def split: file_read.splits)
  show "es_root s' = es_root s" "keeps P s s'" using read_root [OF rd] keeps_read [OF rd] s' by simp_all
  assume r: "r = Inr owned"
  show "owned = recorded s"
  proof (cases q)
    case Missing
    with read_value(2) rd have "file_at (es_root s) manifest_path = None" by (simp add: file_at_def)
    then show ?thesis using assms rd r Missing
      by (simp add: readESPOwnership_def readESPOwnershipFile_def recorded_def)
  next
    case (Found d)
    with read_value(1) rd have "file_at (es_root s) manifest_path = Some d" by simp
    then show ?thesis using assms rd r Found
      by (simp add: readESPOwnership_def readESPOwnershipFile_def recorded_def)
  qed (use assms rd r in \<open>simp add: readESPOwnership_def readESPOwnershipFile_def\<close>)
qed

lemma recorded_clean: "in_order s \<Longrightarrow> list_all clean_claim (recorded s)"
  by (auto simp: in_order_def recorded_def split: option.splits sum.splits)

lemma recorded_render:
  assumes "file_at (es_root s) manifest_path = Some (render_manifest ps)" "list_all clean_claim ps"
  shows "set (recorded s) = set ps"
  using assms by (simp add: recorded_def parse_render)

lemma recorded_same:
  "file_at (es_root s') manifest_path = file_at (es_root s) manifest_path \<Longrightarrow> recorded s' = recorded s"
  by (simp add: recorded_def)

lemma in_order_after:
  assumes "removals_work s" "locate (es_root s) manifest_tmp = None"
    "file_at (es_root s) manifest_path = Some (render_manifest ps)" "list_all clean_claim ps"
  shows "in_order s"
  using assms parse_render [OF assms(4)] by (simp add: in_order_def list_all_iff)

text \<open>Recording claims: the laws of the ledger, for every script in which removals work.\<close>

lemma record_ownership:
  assumes "recordESPOwnership rels s = (r, s')" "in_order s"
    "list_all (\<lambda>rel. clean_claim (normalizeESPPath rel)) rels"
  shows "in_order s' \<and> keeps bookkeeping s s' \<and> set (recorded s) \<subseteq> set (recorded s') \<and>
    set (recorded s') \<subseteq> set (recorded s) \<union> normalizeESPPath ` set rels \<and>
    (r = None \<longrightarrow> set (recorded s') = set (recorded s) \<union> normalizeESPPath ` set rels)"
proof -
  obtain q s1 where rd: "readESPOwnership s = (q, s1)" by (metis surj_pair)
  note rv = readESPOwnership_value [OF rd]
  have k1: "keeps P s s1" for P by (rule rv(2))
  have rw1: "removals_work s1" using removals_work_keeps [OF _ k1] assms(2) by (simp add: in_order_def)
  have same: ?thesis if "r \<noteq> None" "s' = s2" "keeps (\<lambda>_. False) s1 s2"
    "locate (es_root s2) manifest_path = locate (es_root s1) manifest_path"
    "locate (es_root s2) manifest_tmp = locate (es_root s1) manifest_tmp" for s2
  proof -
    have f: "file_at (es_root s2) manifest_path = file_at (es_root s) manifest_path"
      using that(4) rv(1) by (simp add: file_at_def)
    have "in_order s2"
      using assms(2) f that(4,5) rv(1) removals_work_keeps [OF rw1 that(3)]
      by (simp add: in_order_def split: option.splits)
    moreover have "keeps bookkeeping s s2"
      using keeps_trans [OF k1 keeps_mono [OF that(3), of bookkeeping]] by blast
    ultimately show ?thesis using that(1,2) recorded_same [OF f] by auto
  qed
  show ?thesis
  proof (cases q)
    case (Inl e)
    then show ?thesis using assms(1) rd by (intro same [of s1]) (auto simp: recordESPOwnership_def)
  next
    case (Inr owned)
    have owned: "owned = recorded s" using rv(3) Inr by blast
    show ?thesis
    proof (cases "List.find (\<lambda>rel. validateESPRelativeFile rel \<noteq> None) rels")
      case (Some rel)
      then show ?thesis using assms(1) rd Inr
        by (intro same [of s1]) (auto simp: recordESPOwnership_def)
    next
      case None
      obtain m s2 where mk: "os_mkdir_all (butlast manifest_path) s1 = (m, s2)" by (metis surj_pair)
      note mv = mkdir_cases [OF mk]
      have loc: "locate (es_root s2) manifest_path = locate (es_root s) manifest_path"
        "locate (es_root s2) manifest_tmp = locate (es_root s) manifest_tmp"
        using mv rv(1) manifest_places(1,2) by metis+
      show ?thesis
      proof (cases m)
        case (Some e)
        then show ?thesis using assms(1) rd Inr None mk mv loc rv(1)
          by (intro same [of s2]) (auto simp: recordESPOwnership_def)
      next
        case no_err: None
        let ?new = "map normalizeESPPath rels @ owned"
        let ?content = "render_manifest ?new"
        have clean: "list_all clean_claim ?new"
          using assms(3) recorded_clean [OF assms(2)] owned by (auto simp: list_all_iff)
        have w: "persist_loop persist_attempts manifest_tmp manifest_path ?content None s2 = (r, s')"
          using assms(1) rd Inr None mk no_err
          by (simp add: recordESPOwnership_def writeESPManifest_def persistManifest_def)
        have dir: "dir_at (es_root s2) (butlast manifest_path)" using mv no_err by simp
        have k2: "keeps P s s2" for P using keeps_trans [OF k1] mv by blast
        have rw2: "removals_work s2" using removals_work_keeps [OF _ k2] assms(2) by (simp add: in_order_def)
        have fin: "locate (es_root s) manifest_path = None \<or> file_at (es_root s) manifest_path \<noteq> None"
          using assms(2) by (auto simp: in_order_def split: option.splits)
        have fm: "file_at (es_root s2) manifest_path = file_at (es_root s) manifest_path"
          using loc by (simp add: file_at_def)
        have rdy: "slot.ready s2"
          unfolding slot.ready_def can_write_alt manifest_places(3)
          using dir loc fin fm assms(2) manifest_places(4,5) by (simp add: in_order_def)
        have tok: "slot.tmp_ok ?content s2"
          using loc assms(2) by (simp add: slot.tmp_ok_def in_order_def file_at_def [of _ manifest_tmp])
        from slot.persist_loop [OF w rdy] have st: "slot.settled ?content s2 s'"
          and ok: "r = None \<Longrightarrow> file_at (es_root s') manifest_path = Some ?content"
          using rw2 tok by blast+
        have ks: "keeps bookkeeping s s'"
          using st keeps_trans [OF k2] by (simp add: slot.settled_def slot.touched_def [abs_def] bookkeeping_def [abs_def])
        have gone: "locate (es_root s') manifest_tmp = None"
          using slot.persist_no_tmp [OF w rdy rw2] .
        have rw': "removals_work s'" using removals_work_keeps [OF _ ks] assms(2) by (simp add: in_order_def)
        have "file_at (es_root s') manifest_path = file_at (es_root s) manifest_path \<or>
            file_at (es_root s') manifest_path = Some ?content"
          using st rw2 tok fm by (simp add: slot.settled_def)
        then show ?thesis
        proof
          assume f: "file_at (es_root s') manifest_path = file_at (es_root s) manifest_path"
          show ?thesis
          proof (cases r)
            case None
            from ok [OF None] clean owned show ?thesis
              using in_order_after [OF rw' gone] recorded_render ks by auto
          next
            case (Some e)
            have "slot.ready s'" using st rdy slot.ready_kept by (auto simp: slot.settled_def)
            then have "locate (es_root s') manifest_path = None \<or> file_at (es_root s') manifest_path \<noteq> None"
              by (simp add: slot.ready_def can_write_alt)
            then have "in_order s'"
              using assms(2) f gone rw' by (auto simp: in_order_def split: option.splits)
            with Some ks recorded_same [OF f] show ?thesis by simp
          qed
        next
          assume f: "file_at (es_root s') manifest_path = Some ?content"
          from recorded_render [OF f clean] in_order_after [OF rw' gone f clean] ks owned
          show ?thesis by auto
        qed
      qed
    qed
  qed
qed

subsection \<open>Claiming before writing\<close>

text \<open>
  The contract that staging relies on, stated for any ledger of claims: a claim only adds
  names, a successful claim has added its own, and nothing but the internal files of the
  ledger changes.
\<close>

locale claim_store =
  fixes claim :: "string list \<Rightarrow> 's \<Rightarrow> 'e option \<times> 's"
    and claims :: "'s \<Rightarrow> string set"
    and good :: "'s \<Rightarrow> bool"
    and nameable :: "string \<Rightarrow> bool"
    and contents :: "'s \<Rightarrow> string list \<Rightarrow> string option"
    and internal :: "string list \<Rightarrow> bool"
  assumes claim_good: "good s \<Longrightarrow> nameable rel \<Longrightarrow> claim [rel] s = (r, s') \<Longrightarrow> good s'"
    and claim_keeps: "good s \<Longrightarrow> nameable rel \<Longrightarrow> claim [rel] s = (r, s') \<Longrightarrow> claims s \<subseteq> claims s'"
    and claim_names: "good s \<Longrightarrow> nameable rel \<Longrightarrow> claim [rel] s = (None, s') \<Longrightarrow>
      normalizeESPPath rel \<in> claims s'"
    and claim_internal: "good s \<Longrightarrow> nameable rel \<Longrightarrow> claim [rel] s = (r, s') \<Longrightarrow> \<not> internal qs \<Longrightarrow>
      contents s' qs = contents s qs"
begin

definition stage :: "('e \<Rightarrow> 'x) \<Rightarrow> string \<Rightarrow> ('s \<Rightarrow> 'x option \<times> 's) \<Rightarrow> 's \<Rightarrow> 'x option \<times> 's" where
  "stage wrap rel write s =
     (case claim [rel] s of
        (Some e, s1) \<Rightarrow> (Some (wrap e), s1)
      | (None, s1) \<Rightarrow> write s1)"

text \<open>Every watched file that exists is claimed.\<close>

definition attributed :: "string set \<Rightarrow> 's \<Rightarrow> bool" where
  "attributed watched s \<longleftrightarrow>
     (\<forall>w\<in>watched. contents s (path_parts w) \<noteq> None \<longrightarrow> normalizeESPPath w \<in> claims s)"

text \<open>A call that writes the file \<open>rel\<close> and nothing else, whether it succeeds or not.\<close>

definition writes_only :: "string \<Rightarrow> ('s \<Rightarrow> 'x option \<times> 's) \<Rightarrow> bool" where
  "writes_only rel write \<longleftrightarrow>
     (\<forall>s r s'. good s \<longrightarrow> write s = (r, s') \<longrightarrow> good s' \<and> claims s' = claims s \<and>
        (\<forall>qs. \<not> same_path (path_parts rel) qs \<longrightarrow> contents s' qs = contents s qs))"

lemma stage_result:
  assumes "stage wrap rel write s = (r, s')" "good s" "nameable rel" "writes_only rel write"
    "attributed watched s" "\<And>w. w \<in> watched \<Longrightarrow> \<not> internal (path_parts w)"
  shows "good s' \<and> attributed watched s' \<and> claims s \<subseteq> claims s' \<and>
    (r = None \<longrightarrow> normalizeESPPath rel \<in> claims s')"
proof -
  obtain c s1 where c: "claim [rel] s = (c, s1)" by (metis surj_pair)
  have s1: "good s1" "claims s \<subseteq> claims s1"
    using claim_good [OF assms(2,3) c] claim_keeps [OF assms(2,3) c] by auto
  have a1: "attributed watched s1"
    using assms(5,6) claim_internal [OF assms(2,3) c] s1(2) by (fastforce simp: attributed_def)
  show ?thesis
  proof (cases c)
    case (Some e)
    then show ?thesis using assms(1) c s1 a1 by (auto simp: stage_def)
  next
    case None
    then have w: "write s1 = (r, s')" using assms(1) c by (simp add: stage_def)
    with assms(4) s1(1) have s': "good s'" "claims s' = claims s1"
      "\<And>qs. \<not> same_path (path_parts rel) qs \<Longrightarrow> contents s' qs = contents s1 qs"
      unfolding writes_only_def by blast+
    have named: "normalizeESPPath rel \<in> claims s1" using claim_names [OF assms(2,3)] c None by simp
    have "attributed watched s'"
      unfolding attributed_def
    proof (intro ballI impI)
      fix w assume w: "w \<in> watched" "contents s' (path_parts w) \<noteq> None"
      show "normalizeESPPath w \<in> claims s'"
      proof (cases "same_path (path_parts rel) (path_parts w)")
        case True
        then show ?thesis using named s'(2) same_path_normalize by metis
      next
        case False
        then show ?thesis using a1 w s'(2,3) by (simp add: attributed_def)
      qed
    qed
    then show ?thesis using s' s1 named by auto
  qed
qed

end

text \<open>The manifest is such a ledger.\<close>

definition staged_name :: "string \<Rightarrow> bool" where
  "staged_name rel \<longleftrightarrow> clean_claim (normalizeESPPath rel)"

interpretation ledger: claim_store recordESPOwnership "\<lambda>s. set (recorded s)" in_order staged_name
  "\<lambda>s. file_at (es_root s)" bookkeeping
proof
  fix s s' :: esp_state and rel r qs
  assume g: "in_order s" "staged_name rel"
  then have n: "list_all (\<lambda>rel. clean_claim (normalizeESPPath rel)) [rel]" by (simp add: staged_name_def)
  show "recordESPOwnership [rel] s = (r, s') \<Longrightarrow> in_order s'"
    using record_ownership [OF _ g(1) n] by blast
  show "recordESPOwnership [rel] s = (r, s') \<Longrightarrow> set (recorded s) \<subseteq> set (recorded s')"
    using record_ownership [OF _ g(1) n] by blast
  show "recordESPOwnership [rel] s = (None, s') \<Longrightarrow> normalizeESPPath rel \<in> set (recorded s')"
    using record_ownership [OF _ g(1) n] by auto
  assume c: "recordESPOwnership [rel] s = (r, s')" and q: "\<not> bookkeeping qs"
  have "keeps bookkeeping s s'" using record_ownership [OF c g(1) n] by (rule conjunct1 [OF conjunct2])
  from keepsD(1) [OF this q] show "file_at (es_root s') qs = file_at (es_root s) qs" .
qed

lemma stageESPFile_stage: "stageESPFile rel write s = ledger.stage (Recording rel) rel write s"
  unfolding stageESPFile_def ledger.stage_def ..

subsection \<open>The guard\<close>

definition calls_work :: "esp_state \<Rightarrow> bool" where
  "calls_work s \<longleftrightarrow> list_all (\<lambda>f. case f of Fails e \<Rightarrow> False | _ \<Rightarrow> True) (es_script s)"

lemma calls_work_keeps: "calls_work s \<Longrightarrow> keeps P s s' \<Longrightarrow> calls_work s'"
  unfolding calls_work_def list_all_iff using keepsD(3) by blast

definition fedora_marked :: "node \<Rightarrow> bool" where
  "fedora_marked n \<longleftrightarrow>
     (case file_at n [''EFI'', ''fedora'', ''grub.cfg''] of
        Some d \<Rightarrow> contains_str d wootcGrubOwnership
      | None \<Rightarrow> False)"

definition excused :: "node \<Rightarrow> string list \<Rightarrow> string \<Rightarrow> bool" where
  "excused n claims rel \<longleftrightarrow> locate n (path_parts rel) = None \<or> isOwnNamespace rel \<or>
     normalizeESPPath rel \<in> set claims \<or> fedora_marked n"

lemma fedora_value:
  assumes "ownsFedoraNamespace s = (b, s')"
  shows "es_root s' = es_root s" "keeps P s s'" "b \<Longrightarrow> fedora_marked (es_root s)"
proof -
  obtain q s1 where rd: "os_read_file [''EFI'', ''fedora'', ''grub.cfg''] s = (q, s1)" by (metis surj_pair)
  have s': "s' = s1" using assms rd by (auto simp: ownsFedoraNamespace_def split: file_read.splits)
  show "es_root s' = es_root s" "keeps P s s'" using read_root [OF rd] keeps_read [OF rd] s' by simp_all
  assume b
  with assms rd obtain d where "q = Found d" "contains_str d wootcGrubOwnership"
    by (auto simp: ownsFedoraNamespace_def split: file_read.splits)
  with read_value(1) rd show "fedora_marked (es_root s)" by (simp add: fedora_marked_def)
qed

lemma stat_absent:
  assumes "os_stat ps s = (r, s')" "calls_work s" "\<And>n. r \<noteq> Found n"
  shows "locate (es_root s) ps = None"
proof -
  obtain f s1 where n: "next_fault s = (f, s1)" by (metis surj_pair)
  have "\<forall>e. f \<noteq> Fails e"
    using n assms(2) by (cases "es_script s") (auto simp: next_fault_def calls_work_def)
  with assms(1,3) n next_root [OF n] show ?thesis
    by (cases f; cases "locate (es_root s1) ps") (auto simp: os_stat_def)
qed

lemma guard_dests:
  assumes "guard_dests owned ours rels s = (r, s')" "owned = recorded s" "ours \<Longrightarrow> fedora_marked (es_root s)"
  shows "es_root s' = es_root s \<and> keeps P s s' \<and>
    (r = None \<longrightarrow> calls_work s \<longrightarrow> list_all (excused (es_root s) (recorded s)) rels) \<and>
    (\<forall>e. r = Some e \<longrightarrow> (\<exists>rel\<in>set rels. e = ForeignFile rel \<and> locate (es_root s) (path_parts rel) \<noteq> None \<and>
       \<not> isOwnNamespace rel \<and> normalizeESPPath rel \<notin> set (recorded s)))"
  using assms
proof (induction rels arbitrary: s)
  case Nil
  then show ?case by simp
next
  case (Cons rel rels)
  obtain st s1 where t: "os_stat (path_parts rel) s = (st, s1)" by (metis surj_pair)
  note tv = stat_root [OF t] keeps_stat [OF t]
  have rec1: "recorded s1 = recorded s" using tv(1) by (simp add: recorded_def)
  have go: ?case if "guard_dests owned ours rels s2 = (r, s')" "es_root s2 = es_root s" "keeps P s s2"
    "calls_work s \<Longrightarrow> excused (es_root s) (recorded s) rel" for s2
  proof -
    have rec2: "recorded s2 = recorded s" using that(2) by (simp add: recorded_def)
    from Cons.IH [OF that(1)] Cons.prems(2,3) rec2 that(2)
    have "es_root s' = es_root s \<and> keeps P s2 s' \<and>
      (r = None \<longrightarrow> calls_work s2 \<longrightarrow> list_all (excused (es_root s) (recorded s)) rels) \<and>
      (\<forall>e. r = Some e \<longrightarrow> (\<exists>rel\<in>set rels. e = ForeignFile rel \<and> locate (es_root s) (path_parts rel) \<noteq> None \<and>
         \<not> isOwnNamespace rel \<and> normalizeESPPath rel \<notin> set (recorded s)))"
      by simp
    then show ?thesis using that(3,4) keeps_trans calls_work_keeps by auto
  qed
  show ?case
  proof (cases "\<exists>n. st = Found n")
    case False
    then have "guard_dests owned ours rels s1 = (r, s')" using Cons.prems(1) t by (cases st) auto
    moreover have "calls_work s \<Longrightarrow> excused (es_root s) (recorded s) rel"
      using stat_absent [OF t] False by (auto simp: excused_def)
    ultimately show ?thesis using tv by (intro go)
  next
    case True
    then obtain n where n: "st = Found n" by blast
    show ?thesis
    proof (cases "isOwnNamespace rel \<or> normalizeESPPath rel \<in> set owned \<or> ours")
      case True
      then have "guard_dests owned ours rels s1 = (r, s')" using Cons.prems(1) t n by simp
      moreover have "excused (es_root s) (recorded s) rel"
        using True Cons.prems(2,3) by (auto simp: excused_def)
      ultimately show ?thesis using tv by (intro go)
    next
      case not_ours: False
      obtain q s2 where rd: "readESPOwnership s1 = (q, s2)" by (metis surj_pair)
      note rv = readESPOwnership_value [OF rd]
      have k2: "keeps P s s2" using keeps_trans [OF tv(2) rv(2)] .
      show ?thesis
      proof (cases "\<exists>fresh. q = Inr fresh \<and> normalizeESPPath rel \<in> set fresh")
        case True
        then show ?thesis using rv(3) rec1 not_ours Cons.prems(2) by auto
      next
        case False
        then have "r = Some (ForeignFile rel)" "s' = s2"
          using Cons.prems(1) t n not_ours rd by (cases q; auto)+
        then show ?thesis using k2 tv(1) rv(1) stat_value(1) t n not_ours Cons.prems(2) by auto
      qed
    qed
  qed
qed

lemma guard_result:
  assumes "guardESPDestinations rels s = (r, s')"
  shows "es_root s' = es_root s \<and> keeps P s s' \<and>
    (r = None \<longrightarrow> calls_work s \<longrightarrow> list_all (excused (es_root s) (recorded s)) rels) \<and>
    (\<forall>rel. r = Some (ForeignFile rel) \<longrightarrow> rel \<in> set rels \<and> locate (es_root s) (path_parts rel) \<noteq> None \<and>
       \<not> isOwnNamespace rel \<and> normalizeESPPath rel \<notin> set (recorded s))"
proof -
  obtain q s1 where rd: "readESPOwnership s = (q, s1)" by (metis surj_pair)
  note rv = readESPOwnership_value [OF rd]
  show ?thesis
  proof (cases q)
    case (Inl e)
    then show ?thesis using assms rd rv by (auto simp: guardESPDestinations_def)
  next
    case (Inr owned)
    obtain b s2 where fd: "ownsFedoraNamespace s1 = (b, s2)" by (metis surj_pair)
    note fv = fedora_value [OF fd]
    have root: "es_root s2 = es_root s" using rv(1) fv(1) by simp
    then have rec: "recorded s2 = recorded s" by (simp add: recorded_def)
    have g: "guard_dests owned b rels s2 = (r, s')"
      using assms rd Inr fd by (simp add: guardESPDestinations_def)
    have "calls_work s \<Longrightarrow> calls_work s2"
      using calls_work_keeps [OF calls_work_keeps [OF _ rv(2)] fv(2)] .
    moreover have "keeps P s s2" using keeps_trans [OF rv(2) fv(2)] .
    ultimately show ?thesis
      using guard_dests [OF g, of P] rv(3) [OF Inr] fv(3) root rec rv(1) keeps_trans by auto
  qed
qed

subsection \<open>Properties\<close>

text \<open>
  C39: the manifest reads back as it was written. Any list of claims that are valid, in normal
  form, without surrounding blanks and not comments is recovered, as a set, from its rendered
  text by the line scanner.
\<close>

theorem manifest_roundtrip:
  assumes "list_all clean_claim owned"
  shows "parse_manifest (render_manifest owned) = Inr (rev (sort (remdups owned)))"
  using assms by (rule parse_render)

theorem manifest_roundtrip_witness:
  "parse_manifest (render_manifest [''efi/wootc/deployer-vmlinuz'', ''efi/fedora/shimx64.efi'']) =
     Inr (rev (sort (remdups [''efi/wootc/deployer-vmlinuz'', ''efi/fedora/shimx64.efi''])))"
  by (rule manifest_roundtrip) code_simp


text \<open>A volume with an empty product directory, on which a rename lies and a write is torn.\<close>

definition sample_esp :: esp_state where
  "sample_esp =
     \<lparr>es_root = Dir [(''EFI'', Dir [(''wootc'', Dir [])])],
      es_script = [Fine, Fine, Fine, Torn 3 ''disk full'', Fine, Fine, Fine, Fine, Fine, Fine, Fine,
        Reported ''The system cannot find the file specified.'']\<rparr>"


text \<open>
  The condition on the temporary file is needed. When an interrupted run left
  \<open>wootc-owned.txt.tmp\<close> behind, \<open>persistManifest\<close> renames that file over the manifest
  without rewriting it and reports success: the claim of the shim is lost.
\<close>

definition interrupted_esp :: esp_state where
  "interrupted_esp =
     \<lparr>es_root = Dir [(''EFI'', Dir [(''wootc'', Dir [(''wootc-owned.txt.tmp'',
         File (render_manifest [''efi/systemd/shimx64.efi'']))])])],
      es_script = []\<rparr>"

theorem stale_tmp_promoted:
  "(case recordESPOwnership [''EFI/fedora/shimx64.efi''] interrupted_esp of
      (r, s') \<Rightarrow> r = None \<and> recorded s' = [''efi/systemd/shimx64.efi''])"
  by code_simp

text \<open>
  The guard changes nothing and lets an existing file be replaced only with a reason.
  Unless a call fails, every destination it accepts is absent, in the product's own directory,
  claimed by the manifest, or excused by the marker in EFI/fedora/grub.cfg; and a refusal
  always names a destination that exists, is not in the own directory and is not claimed.
\<close>

theorem guard_sound:
  assumes "guardESPDestinations rels s = (r, s')"
  shows "es_root s' = es_root s \<and>
    (r = None \<longrightarrow> calls_work s \<longrightarrow> list_all (excused (es_root s) (recorded s)) rels) \<and>
    (\<forall>rel. r = Some (ForeignFile rel) \<longrightarrow> rel \<in> set rels \<and> locate (es_root s) (path_parts rel) \<noteq> None \<and>
       \<not> isOwnNamespace rel \<and> normalizeESPPath rel \<notin> set (recorded s))"
  using guard_result [OF assms] by blast

definition guarded_esp :: esp_state where
  "guarded_esp =
     \<lparr>es_root = Dir [(''EFI'', Dir [(''fedora'', Dir [(''SHIMX64.EFI'', File ''foreign'')])])],
      es_script = []\<rparr>"

theorem guard_sound_witness:
  "guardESPDestinations [''EFI/fedora/shimx64.efi''] guarded_esp =
     (Some (ForeignFile ''EFI/fedora/shimx64.efi''), guarded_esp) \<and>
   normalizeESPPath ''EFI/fedora/shimx64.efi'' \<notin> set (recorded guarded_esp)"
proof -
  have g: "guardESPDestinations [''EFI/fedora/shimx64.efi''] guarded_esp =
     (Some (ForeignFile ''EFI/fedora/shimx64.efi''), guarded_esp)" by code_simp
  from guard_sound [OF this] g show ?thesis by blast
qed

text \<open>
  The marker in EFI/fedora excuses destinations outside EFI/fedora. With a wootc menu in
  EFI/fedora/grub.cfg and the systemd-boot binary of another system in EFI/systemd, the guard
  accepts the systemd-boot destination although nothing attributes that file to wootc.
\<close>

definition other_vendor_esp :: esp_state where
  "other_vendor_esp =
     \<lparr>es_root = Dir [(''EFI'', Dir [(''fedora'', Dir [(''grub.cfg'', File ''# wootc deployer'')]),
        (''systemd'', Dir [(''systemd-bootx64.efi'', File ''foreign'')])])],
      es_script = []\<rparr>"

theorem guard_excuses_other_vendors:
  "fst (guardESPDestinations [''EFI/systemd/systemd-bootx64.efi''] other_vendor_esp) = None \<and>
   recorded other_vendor_esp = [] \<and>
   file_at (es_root other_vendor_esp) (path_parts ''EFI/systemd/systemd-bootx64.efi'') = Some ''foreign''"
  by code_simp

end
