(* ===== verification/Esp_Staging_Props.thy ===== *)
theory Esp_Staging_Props
  imports Esp_Staging Esp_Ownership_Props
begin

text \<open>
  What staging guarantees, for every script of faults: every shared file that exists is
  claimed at every return, nothing outside the fixed set of files changes, a refusal comes
  before the first change, and success means that every file has its intended contents.
\<close>

subsection \<open>The safe relation between two states\<close>

definition menu_path :: "string list \<Rightarrow> bool" where
  "menu_path qs \<longleftrightarrow> (\<exists>d\<in>set menu_dirs. only (d @ [''grub.cfg'']) qs)"

definition destination :: "string list \<Rightarrow> bool" where
  "destination qs \<longleftrightarrow> (\<exists>rel\<in>set signed_destinations. only (path_parts rel) qs)"

definition chain_path :: "string list \<Rightarrow> bool" where
  "chain_path qs \<longleftrightarrow> bookkeeping qs \<or> destination qs \<or> menu_path qs"

text \<open>Every file of the chain that exists is named in the manifest.\<close>

definition claimed :: "esp_state \<Rightarrow> bool" where
  "claimed s \<longleftrightarrow> list_all (\<lambda>rel. file_at (es_root s) (path_parts rel) = None \<or>
     normalizeESPPath rel \<in> set (recorded s)) signed_destinations"

lemma claimed_attributed: "claimed s = ledger.attributed (set signed_destinations) s"
  by (auto simp: claimed_def ledger.attributed_def list_all_iff)

definition safe :: "esp_state \<Rightarrow> esp_state \<Rightarrow> bool" where
  "safe s s' \<longleftrightarrow> (in_order s \<longrightarrow> in_order s' \<and> keeps chain_path s s' \<and>
     set (recorded s) \<subseteq> set (recorded s') \<and> (claimed s \<longrightarrow> claimed s'))"

lemma safe_refl [simp]: "safe s s"
  by (simp add: safe_def)

lemma safe_trans: "safe s s1 \<Longrightarrow> safe s1 s2 \<Longrightarrow> safe s s2"
  unfolding safe_def using keeps_trans by blast

lemma along_code [code]: "along ps qs \<longleftrightarrow> list_ex (\<lambda>p. same_path p qs) (prefixes ps)"
proof -
  have "(\<exists>k. same_path (take k ps) qs) \<longleftrightarrow> (\<exists>p. prefix p ps \<and> same_path p qs)"
    using take_is_prefix append_eq_conv_conj by (metis prefix_def)
  then show ?thesis by (simp add: along_def list_ex_iff in_set_prefixes Bex_def)
qed

text \<open>The paths of the chain are apart from the manifest, from each other and from the menus.\<close>

lemma chain_places:
  "list_all (\<lambda>rel. \<not> bookkeeping (path_parts rel) \<and> path_parts rel \<noteq> [] \<and> staged_name rel \<and>
     \<not> menu_path (path_parts rel)) signed_destinations"
  "list_all (\<lambda>d. \<not> bookkeeping (d @ [''grub.cfg'']) \<and> \<not> destination (d @ [''grub.cfg'']) \<and>
     \<not> along d manifest_path \<and> \<not> along d manifest_tmp) menu_dirs"
  "distinct (map (\<lambda>item. map to_lower (path_parts (fst (snd item)))) signed_chain)"
  "distinct (map (\<lambda>d. map to_lower (d @ [''grub.cfg''])) menu_dirs)"
  "set [fedora_dir, wootc_dir] \<subseteq> set menu_dirs"
  by code_simp+

lemma destinationD:
  assumes "rel \<in> set signed_destinations"
  shows "\<not> bookkeeping (path_parts rel)" "path_parts rel \<noteq> []" "staged_name rel"
    "\<not> menu_path (path_parts rel)" "destination qs \<longleftrightarrow> (\<exists>rel\<in>set signed_destinations. only (path_parts rel) qs)"
  using chain_places(1) assms by (auto simp: list_all_iff destination_def)

lemma bookkeeping_same: "same_path ps qs \<Longrightarrow> bookkeeping ps = bookkeeping qs"
  unfolding bookkeeping_def only_def using same_path_trans same_path_sym by blast

subsection \<open>Each part is safe\<close>

lemma in_order_steady:
  assumes "steady P s s'" "\<not> P manifest_path" "\<not> P manifest_tmp" "in_order s"
  shows "in_order s'" "recorded s' = recorded s"
proof -
  have f: "file_at (es_root s') manifest_path = file_at (es_root s) manifest_path"
    using assms(1,2) keepsD(1) unfolding steady_def by blast
  then show "recorded s' = recorded s" by (rule recorded_same)
  have "removals_work s'"
    using assms(1,4) removals_work_keeps unfolding steady_def in_order_def by blast
  moreover have "(locate (es_root s') manifest_tmp = None) = (locate (es_root s) manifest_tmp = None)"
    "(locate (es_root s') manifest_path = None) = (locate (es_root s) manifest_path = None)"
    using assms(1-3) unfolding steady_def by blast+
  ultimately show "in_order s'"
    using assms(4) f by (auto simp: in_order_def split: option.splits)
qed

lemma safe_steady:
  assumes "steady P s s'" "\<not> P manifest_path" "\<not> P manifest_tmp" "keeps chain_path s s'"
    "\<And>w. w \<in> set signed_destinations \<Longrightarrow> file_at (es_root s') (path_parts w) = file_at (es_root s) (path_parts w)"
  shows "safe s s'"
  using in_order_steady [OF assms(1-3)] assms(4,5)
  by (auto simp: safe_def claimed_attributed ledger.attributed_def)

lemma safe_root:
  assumes "es_root s' = es_root s" "\<And>P. keeps P s s'"
  shows "safe s s'"
  using assms by (intro safe_steady [of "\<lambda>_. False"] steady_root) simp_all

lemma safe_mkdir:
  assumes "os_mkdir_all d s = (r, s')" "d \<in> set menu_dirs"
  shows "safe s s'"
proof (rule safe_steady [of "along d"])
  show "steady (along d) s s'" using assms(1) by (rule steady_mkdir)
  show "\<not> along d manifest_path" "\<not> along d manifest_tmp"
    using chain_places(2) assms(2) by (auto simp: list_all_iff)
  show "keeps chain_path s s'" using mkdir_cases [OF assms(1)] by blast
  fix w
  show "file_at (es_root s') (path_parts w) = file_at (es_root s) (path_parts w)"
    using mkdir_cases [OF assms(1), of "\<lambda>_. True" "[]"] by simp
qed

lemma safe_menu:
  assumes "os_write_file (d @ [''grub.cfg'']) menu s = (r, s')" "d \<in> set menu_dirs"
  shows "safe s s'"
proof -
  let ?p = "d @ [''grub.cfg'']"
  have st: "steady (only ?p) s s'" using steady_write_file [OF assms(1)] by simp
  have menu: "menu_path qs" if "only ?p qs" for qs using that assms(2) by (auto simp: menu_path_def)
  have apart: "\<not> bookkeeping ?p" "\<not> destination ?p"
    using chain_places(2) assms(2) by (auto simp: list_all_iff)
  show ?thesis
  proof (rule safe_steady [OF st])
    show "\<not> only ?p manifest_path" "\<not> only ?p manifest_tmp"
      using apart(1) by (auto simp: bookkeeping_def only_def same_path_sym)
    show "keeps chain_path s s'"
      using st keeps_mono [of "only ?p" s s' chain_path] menu by (auto simp: steady_def chain_path_def)
    fix w assume w: "w \<in> set signed_destinations"
    then have "\<not> only ?p (path_parts w)" using destinationD(4) menu by blast
    then show "file_at (es_root s') (path_parts w) = file_at (es_root s) (path_parts w)"
      using st keepsD(1) unfolding steady_def by blast
  qed
qed

lemma copy_payload_steady:
  assumes "copy_payload wrap data rel s = (r, s')" "path_parts rel \<noteq> []"
  shows "steady (only (path_parts rel)) s s' \<and>
    (r = None \<longrightarrow> (\<exists>d. data = Found d \<and> file_at (es_root s') (path_parts rel) = Some d))"
proof -
  obtain q s1 where c: "copyFile data (path_parts rel) s = (q, s1)" by (metis surj_pair)
  from steady_copy [OF c assms(2)] assms(1) c show ?thesis
    by (auto simp: copy_payload_def split: option.splits)
qed

text \<open>Staging one file: claimed first, then written; the rest of the volume is left alone.\<close>

definition staged :: "stage_source \<Rightarrow> esp_state \<Rightarrow> string \<times> string \<Rightarrow> bool" where
  "staged src s item \<longleftrightarrow>
     (case item of (name, rel) \<Rightarrow> normalizeESPPath rel \<in> set (recorded s) \<and>
        (\<exists>d. sg_file src name = Found d \<and> file_at (es_root s) (path_parts rel) = Some d))"

lemma stage_one:
  assumes "stageESPFile rel (copy_payload wrap data rel) s = (r, s')" "in_order s"
    "rel \<in> set signed_destinations"
  shows "safe s s' \<and> keeps (\<lambda>qs. bookkeeping qs \<or> only (path_parts rel) qs) s s' \<and>
    (r = None \<longrightarrow> normalizeESPPath rel \<in> set (recorded s') \<and>
       (\<exists>d. data = Found d \<and> file_at (es_root s') (path_parts rel) = Some d))"
proof -
  note dest = destinationD(1-3) [OF assms(3)]
  let ?k = "\<lambda>qs. bookkeeping qs \<or> only (path_parts rel) qs"
  let ?copy = "copy_payload wrap data rel"
  have wo: "ledger.writes_only rel ?copy"
    unfolding ledger.writes_only_def
  proof (intro allI impI)
    fix t q t' assume t: "in_order t" "?copy t = (q, t')"
    from copy_payload_steady [OF t(2) dest(2)] have st: "steady (only (path_parts rel)) t t'" by blast
    have "\<not> only (path_parts rel) manifest_path" "\<not> only (path_parts rel) manifest_tmp"
      using dest(1) by (auto simp: bookkeeping_def only_def same_path_sym)
    from in_order_steady [OF st this t(1)] st
    show "in_order t' \<and> set (recorded t') = set (recorded t) \<and>
      (\<forall>qs. \<not> same_path (path_parts rel) qs \<longrightarrow> file_at (es_root t') qs = file_at (es_root t) qs)"
      by (auto simp: steady_def keeps_def only_def)
  qed
  have "ledger.stage (Recording rel) rel ?copy s = (r, s')"
    using assms(1) by (simp only: stageESPFile_stage)
  note res = ledger.stage_result [OF this assms(2) dest(3) wo]
  have empty: "ledger.attributed {} s" by (simp add: ledger.attributed_def)
  obtain c s1 where c: "recordESPOwnership [rel] s = (c, s1)" by (metis surj_pair)
  have "list_all (\<lambda>rel. clean_claim (normalizeESPPath rel)) [rel]"
    using dest(3) by (simp add: staged_name_def)
  from record_ownership [OF c assms(2) this] have rec: "keeps bookkeeping s s1" by blast
  have k: "keeps ?k s s1" using rec by (rule keeps_mono) simp
  have copied: "keeps ?k s s' \<and>
      (r = None \<longrightarrow> (\<exists>d. data = Found d \<and> file_at (es_root s') (path_parts rel) = Some d))"
  proof (cases c)
    case (Some e)
    then show ?thesis using assms(1) c k by (auto simp: stageESPFile_def)
  next
    case None
    then have "?copy s1 = (r, s')" using assms(1) c by (simp add: stageESPFile_def)
    from copy_payload_steady [OF this dest(2)]
    have "keeps (only (path_parts rel)) s1 s'"
      and d: "r = None \<longrightarrow> (\<exists>d. data = Found d \<and> file_at (es_root s') (path_parts rel) = Some d)"
      by (auto simp: steady_def)
    then have "keeps ?k s1 s'" by (auto elim: keeps_mono)
    then show ?thesis using keeps_trans [OF k] d by blast
  qed
  have "keeps chain_path s s'"
    using copied keeps_mono [of ?k s s' chain_path] assms(3) by (auto simp: chain_path_def destination_def)
  moreover have "claimed s \<longrightarrow> claimed s'"
    using res [of "set signed_destinations"] destinationD(1) by (auto simp: claimed_attributed)
  ultimately show ?thesis
    using res [OF empty] copied by (auto simp: safe_def)
qed

definition item_path :: "string \<times> string \<times> bool \<Rightarrow> string list" where
  "item_path item = path_parts (fst (snd item))"

definition item_done :: "stage_source \<Rightarrow> esp_state \<Rightarrow> string \<times> string \<times> bool \<Rightarrow> bool" where
  "item_done src s item \<longleftrightarrow>
     (case item of (name, rel, optional) \<Rightarrow>
        (optional \<and> sg_size src name = None) \<or> staged src s (name, rel))"

lemma item_done_kept:
  assumes "item_done src s item" "keeps P s s'" "\<not> P (item_path item)"
    "set (recorded s) \<subseteq> set (recorded s')"
  shows "item_done src s' item"
proof -
  obtain name rel opt where item: "item = (name, rel, opt)" by (cases item)
  then have "file_at (es_root s') (path_parts rel) = file_at (es_root s) (path_parts rel)"
    using keepsD(1) [OF assms(2)] assms(3) by (simp add: item_path_def)
  with assms(1,4) item show ?thesis by (auto simp: item_done_def staged_def)
qed

lemma stage_chain_result:
  assumes "stage_chain src items s = (r, s')" "in_order s"
    "fst ` snd ` set items \<subseteq> set signed_destinations"
    "distinct (map (\<lambda>item. map to_lower (item_path item)) items)"
  shows "safe s s' \<and>
    keeps (\<lambda>qs. bookkeeping qs \<or> (\<exists>item\<in>set items. only (item_path item) qs)) s s' \<and>
    (r = None \<longrightarrow> list_all (item_done src s') items)"
  using assms
proof (induction items arbitrary: s)
  case Nil
  then show ?case by simp
next
  case (Cons item items)
  obtain name rel opt where item: "item = (name, rel, opt)" by (cases item)
  let ?K = "\<lambda>qs. bookkeeping qs \<or> (\<exists>item\<in>set items. only (item_path item) qs)"
  let ?K' = "\<lambda>qs. bookkeeping qs \<or> (\<exists>item\<in>set (item # items). only (item_path item) qs)"
  have dest: "rel \<in> set signed_destinations" using Cons.prems(3) item by simp
  have apart: "\<not> ?K (item_path item)"
    using destinationD(1) [OF dest] Cons.prems(4) item
    by (force simp: item_path_def only_def same_path_def)
  note IH = Cons.IH [OF _ _ _ _, simplified]
  have rest: ?case if st: "stage_chain src items s1 = (r, s')" "in_order s1" "safe s s1" "keeps ?K' s s1"
    "r = None \<Longrightarrow> item_done src s1 item" for s1
  proof -
    have IH: "safe s1 s'" "keeps ?K s1 s'" "r = None \<longrightarrow> list_all (item_done src s') items"
      using Cons.IH [OF st(1,2)] Cons.prems(3,4) by auto
    have "keeps ?K' s1 s'" using IH(2) by (rule keeps_mono) auto
    moreover have "set (recorded s1) \<subseteq> set (recorded s')" using IH(1) st(2) by (simp add: safe_def)
    ultimately show ?thesis
      using IH safe_trans [OF st(3)] keeps_trans [OF st(4)] st(5) item_done_kept [OF _ IH(2) apart] by auto
  qed
  show ?case
  proof (cases "opt \<and> sg_size src name = None")
    case True
    then show ?thesis
      using Cons.prems(1,2) item by (intro rest [of s]) (simp_all add: item_done_def)
  next
    case False
    obtain q s1 where sf: "stageESPFile rel (copy_payload (CopyFailed name) (sg_file src name) rel) s = (q, s1)"
      by (metis surj_pair)
    note one = stage_one [OF sf Cons.prems(2) dest]
    have k: "keeps ?K' s s1" using one item by (auto simp: item_path_def elim: keeps_mono)
    show ?thesis
    proof (cases q)
      case (Some e)
      then show ?thesis using Cons.prems(1) item False sf one k by auto
    next
      case None
      then have "stage_chain src items s1 = (r, s')" using Cons.prems(1) item False sf by auto
      moreover have "in_order s1" using one Cons.prems(2) by (simp add: safe_def)
      moreover have "item_done src s1 item" using one None item by (auto simp: item_done_def staged_def)
      ultimately show ?thesis using one k by (intro rest) auto
    qed
  qed
qed

lemma write_menus_result:
  assumes "write_menus menu ds s = (r, s')" "set ds \<subseteq> set menu_dirs"
    "distinct (map (\<lambda>d. map to_lower (d @ [''grub.cfg''])) ds)"
  shows "safe s s' \<and> keeps (\<lambda>qs. \<exists>d\<in>set ds. only (d @ [''grub.cfg'']) qs) s s' \<and>
    (r = None \<longrightarrow> list_all (\<lambda>d. file_at (es_root s') (d @ [''grub.cfg'']) = Some menu) ds)"
  using assms
proof (induction ds arbitrary: s)
  case Nil
  then show ?case by simp
next
  case (Cons d ds)
  let ?K = "\<lambda>qs. \<exists>d\<in>set ds. only (d @ [''grub.cfg'']) qs"
  let ?K' = "\<lambda>qs. \<exists>d\<in>set (d # ds). only (d @ [''grub.cfg'']) qs"
  obtain q s1 where mk: "os_mkdir_all d s = (q, s1)" by (metis surj_pair)
  have m: "safe s s1" "keeps ?K' s s1"
    using safe_mkdir [OF mk] mkdir_cases [OF mk] Cons.prems(2) by auto
  show ?case
  proof (cases q)
    case (Some e)
    then show ?thesis using Cons.prems(1) mk m by auto
  next
    case q: None
    obtain w s2 where wr: "os_write_file (d @ [''grub.cfg'']) menu s1 = (w, s2)" by (metis surj_pair)
    have st: "steady (only (d @ [''grub.cfg''])) s1 s2"
      and wrote: "w = None \<longrightarrow> file_at (es_root s2) (d @ [''grub.cfg'']) = Some menu"
      using steady_write_file [OF wr] by auto
    have k2: "keeps ?K' s1 s2" using st unfolding steady_def by (auto elim: keeps_mono)
    have s2: "safe s s2" using safe_trans [OF m(1) safe_menu [OF wr]] Cons.prems(2) by simp
    show ?thesis
    proof (cases w)
      case (Some e)
      then show ?thesis using Cons.prems(1) mk q wr s2 keeps_trans [OF m(2) k2] by auto
    next
      case None
      then have "write_menus menu ds s2 = (r, s')" using Cons.prems(1) mk q wr by simp
      from Cons.IH [OF this] Cons.prems(2,3)
      have IH: "safe s2 s'" "keeps ?K s2 s'"
        "r = None \<longrightarrow> list_all (\<lambda>d. file_at (es_root s') (d @ [''grub.cfg'']) = Some menu) ds"
        by auto
      have "\<not> ?K (d @ [''grub.cfg''])"
      proof
        let ?f = "\<lambda>d. map to_lower (d @ [''grub.cfg''])"
        assume "?K (d @ [''grub.cfg''])"
        then obtain e where e: "e \<in> set ds" "?f e = ?f d" unfolding only_def same_path_def by blast
        have "?f e \<in> set (map ?f ds)" unfolding set_map using e(1) by (rule imageI)
        with Cons.prems(3) show False unfolding list.map distinct.simps e(2) by (elim conjE notE)
      qed
      then have "file_at (es_root s') (d @ [''grub.cfg'']) = file_at (es_root s2) (d @ [''grub.cfg''])"
        using keepsD(1) [OF IH(2)] by blast
      moreover have "keeps ?K' s2 s'" using IH(2) by (rule keeps_mono) auto
      ultimately show ?thesis
        using IH safe_trans [OF s2] keeps_trans [OF keeps_trans [OF m(2) k2]] wrote None by auto
    qed
  qed
qed

lemma mkdirs_result:
  "mkdirs ds s = (r, s') \<Longrightarrow> set ds \<subseteq> set menu_dirs \<Longrightarrow> safe s s'"
proof (induction ds arbitrary: s)
  case (Cons d ds)
  obtain q s1 where mk: "os_mkdir_all d s = (q, s1)" by (metis surj_pair)
  then have "safe s s1" using safe_mkdir Cons.prems(2) by simp
  with Cons mk show ?case using safe_trans by (cases q) auto
qed simp

text \<open>The gates read and never write.\<close>

lemma marker_guard_reads:
  assumes "marker_guard path refusal s = (r, s')"
  shows "es_root s' = es_root s" "keeps P s s'"
proof -
  obtain q s1 where rd: "os_read_file path s = (q, s1)" by (metis surj_pair)
  have "s' = s1" using assms rd by (auto simp: marker_guard_def split: file_read.splits)
  then show "es_root s' = es_root s" "keeps P s s'" using read_root [OF rd] keeps_read [OF rd] by simp_all
qed

lemma andthen_cases:
  assumes "andthen f g s = (r, s')"
  obtains (stop) e where "f s = (Some e, s')" "r = Some e"
  | (go) s1 where "f s = (None, s1)" "g s1 = (r, s')"
  using assms by (cases "f s") (auto simp: andthen_def split: option.splits)

subsection \<open>The whole chain\<close>

lemma marker_guard_passed:
  assumes "marker_guard path refusal s = (None, s')" "calls_work s" "file_at (es_root s) path = Some d"
  shows "contains_str d wootcGrubOwnership"
proof -
  obtain st s1 where t: "os_stat path s = (st, s1)" by (metis surj_pair)
  have "locate (es_root s) path = Some (File d)"
    using assms(3) by (auto simp: file_at_def split: option.splits node.splits)
  moreover from this have "\<exists>n. st = Found n" using stat_absent [OF t assms(2)] by fastforce
  ultimately have "st = Found (File d)" using stat_value(1) t by fastforce
  then show ?thesis
    using assms(1) t by (auto simp: marker_guard_def os_read_file_def split: if_splits)
qed

definition unmarked :: "node \<Rightarrow> string list \<Rightarrow> bool" where
  "unmarked n path \<longleftrightarrow>
     (case file_at n path of None \<Rightarrow> False | Some d \<Rightarrow> \<not> contains_str d wootcGrubOwnership)"

lemma gates_result:
  assumes "signed_gates src s = (r, s')"
  shows "es_root s' = es_root s \<and> keeps P s s' \<and>
    (r = None \<longrightarrow> space_gate src = None \<and> (calls_work s \<longrightarrow>
       list_all (excused (es_root s) (recorded s)) signed_destinations \<and>
       \<not> unmarked (es_root s) (fedora_dir @ [''grub.cfg'']) \<and>
       \<not> unmarked (es_root s) (redhat_dir @ [''grub.cfg''])))"
  using assms unfolding signed_gates_def
proof (cases rule: andthen_cases)
  case (stop e)
  then show ?thesis using marker_guard_reads [OF stop(1)] by simp
next
  case (go s1)
  note m1 = marker_guard_reads [OF go(1)]
  have p1: "calls_work s \<Longrightarrow> \<not> unmarked (es_root s) (fedora_dir @ [''grub.cfg''])"
    using marker_guard_passed [OF go(1)] by (auto simp: unmarked_def split: option.splits)
  have c1: "calls_work s \<Longrightarrow> calls_work s1" using calls_work_keeps m1(2) by blast
  have rec1: "recorded s1 = recorded s" using m1(1) by (simp add: recorded_def)
  from go(2) show ?thesis
  proof (cases rule: andthen_cases)
    case (stop e)
    have "es_root s' = es_root s1" "keeps P s1 s'" using guard_result [OF stop(1), of P] by blast+
    with stop(2) m1 keeps_trans [OF m1(2)] show ?thesis by simp
  next
    case (go s2)
    note g = guard_result [OF go(1)]
    have k2: "keeps P s s2" for P using g m1(2) keeps_trans by blast
    have root2: "es_root s2 = es_root s" using g m1(1) by simp
    have c2: "calls_work s \<Longrightarrow> calls_work s2" using calls_work_keeps k2 by blast
    from go(2) show ?thesis
    proof (cases rule: andthen_cases)
      case (stop e)
      then show ?thesis using marker_guard_reads [OF stop(1)] root2 keeps_trans [OF k2] by simp
    next
      case (go s3)
      note m3 = marker_guard_reads [OF go(1)]
      have "calls_work s \<Longrightarrow> \<not> unmarked (es_root s) (redhat_dir @ [''grub.cfg''])"
        using marker_guard_passed [OF go(1) c2] root2 by (auto simp: unmarked_def split: option.splits)
      then show ?thesis
        using go(2) m3 root2 keeps_trans [OF k2 m3(2)] p1 c1 g m1(1) rec1 by auto
    qed
  qed
qed

lemma chain_result:
  assumes "setupSignedChain src cfg s = (r, s')" "in_order s"
  shows "safe s s' \<and> (r = None \<longrightarrow> list_all (item_done src s') signed_chain \<and>
    list_all (\<lambda>d. file_at (es_root s') (d @ [''grub.cfg'']) = Some (signed_menu src cfg)) menu_dirs)"
  using assms(1) unfolding setupSignedChain_def
proof (cases rule: andthen_cases)
  case (stop e)
  then show ?thesis using gates_result [OF stop(1)] safe_root by blast
next
  case (go s1)
  have s1: "safe s s1" using gates_result [OF go(1)] safe_root by blast
  from go(2) show ?thesis
  proof (cases rule: andthen_cases)
    case (stop e)
    then show ?thesis using mkdirs_result [OF stop(1) chain_places(5)] safe_trans [OF s1] by simp
  next
    case (go s2)
    have s2: "safe s s2" using mkdirs_result [OF go(1) chain_places(5)] safe_trans [OF s1] by blast
    have o2: "in_order s2" using s2 assms(2) by (simp add: safe_def)
    have places: "fst ` snd ` set signed_chain \<subseteq> set signed_destinations"
      "distinct (map (\<lambda>item. map to_lower (item_path item)) signed_chain)"
      using chain_places(3) by (simp_all add: signed_destinations_def item_path_def image_image)
    from go(2) show ?thesis
    proof (cases rule: andthen_cases)
      case (stop e)
      then show ?thesis
        using stage_chain_result [OF stop(1) o2 places] safe_trans [OF s2] by simp
    next
      case (go s3)
      note st = stage_chain_result [OF go(1) o2 places]
      note mn = write_menus_result [OF go(2) subset_refl chain_places(4)]
      have "list_all (item_done src s') signed_chain"
      proof -
        have k: "keeps menu_path s3 s'" using mn by (auto simp: menu_path_def [abs_def])
        have r: "set (recorded s3) \<subseteq> set (recorded s')" using mn st o2 by (auto simp: safe_def)
        have "\<not> menu_path (item_path item)" if "item \<in> set signed_chain" for item
          using that places(1) destinationD(4) by (auto simp: item_path_def)
        then show ?thesis using st item_done_kept [OF _ k _ r] by (auto simp: list_all_iff)
      qed
      then show ?thesis using st mn safe_trans [OF s2 safe_trans] by blast
    qed
  qed
qed

subsection \<open>Properties\<close>


text \<open>
  A refusal comes before the first change. When a gate refuses, \<open>setupSignedChain\<close> returns
  that error and the volume is as it was; when all pass and no call failed, every destination
  was absent or attributable and neither grub.cfg belonged to another system.
\<close>

theorem staging_refuses_first:
  "case signed_gates src s of
     (Some e, s1) \<Rightarrow> setupSignedChain src cfg s = (Some e, s1) \<and> es_root s1 = es_root s
   | (None, s1) \<Rightarrow> es_root s1 = es_root s \<and> space_gate src = None \<and>
       (if calls_work s
        then list_all (excused (es_root s) (recorded s)) signed_destinations \<and>
          \<not> unmarked (es_root s) (fedora_dir @ [''grub.cfg'']) \<and>
          \<not> unmarked (es_root s) (redhat_dir @ [''grub.cfg''])
        else True)"
proof -
  obtain r s1 where g: "signed_gates src s = (r, s1)" by (metis surj_pair)
  from gates_result [OF g] g show ?thesis
    by (cases r) (simp_all add: setupSignedChain_def andthen_def)
qed

text \<open>
  Success is complete. When \<open>setupSignedChain\<close> returns no error, every file of the chain
  is on the ESP with the downloaded contents and claimed, only the optional one may be
  missing when it was never downloaded, and all three menus hold the rendered text.
\<close>

theorem staging_complete:
  assumes "in_order s"
  shows "case setupSignedChain src cfg s of
     (None, s') \<Rightarrow> list_all (item_done src s') signed_chain \<and>
       list_all (\<lambda>d. file_at (es_root s') (d @ [''grub.cfg'']) = Some (signed_menu src cfg)) menu_dirs
   | (Some e, s') \<Rightarrow> True"
proof -
  obtain r s' where c: "setupSignedChain src cfg s = (r, s')" by (metis surj_pair)
  from chain_result [OF c assms] c show ?thesis by (cases r) simp_all
qed

subsection \<open>Witnesses\<close>

definition sample_source :: stage_source where
  "sample_source =
     \<lparr>sg_size = (\<lambda>n. if n = ''mmx64.efi'' then None else Some 4),
      sg_file = (\<lambda>n. Found (''data of '' @ n)), sg_free = Some 0x40000000,
      sg_brand = \<lparr>br_name = ''Bazzite'', br_product = ''Bazzite''\<rparr>,
      sg_needs_mok = (\<lambda>i. False), sg_e2e = False, sg_secure_boot = (False, True),
      sg_exe_dir = ''C:'', sg_install_dir = ''D:'', sg_authentic = (\<lambda>p. False)\<rparr>"

definition sample_config :: install_config where
  "sample_config =
     \<lparr>ic_image = ''img'', ic_disk_gb = 40, ic_username = ''u'', ic_password = ''p'',
      ic_hostname = ''h'', ic_bootloader = ''auto'', ic_composefs = False, ic_drive = ''C'',
      ic_encryption = ''none'', ic_luks_passphrase = [], ic_windows_look = False,
      ic_session_consent = [], ic_fault = []\<rparr>"

text \<open>A fresh ESP on which, for a while, every rename reports an error after it happened.\<close>

definition fresh_esp :: esp_state where
  "fresh_esp =
     \<lparr>es_root = Dir [(''EFI'', Dir [(''Microsoft'', Dir [(''bootmgfw.efi'', File ''windows'')])])],
      es_script = replicate 40 (Reported ''The system cannot find the file specified.'')\<rparr>"

lemma fresh_in_order: "in_order fresh_esp" "claimed fresh_esp"
  by code_simp+


lemma fresh_succeeds: "fst (setupSignedChain sample_source sample_config fresh_esp) = None"
  by code_simp

theorem staging_complete_witness:
  "case setupSignedChain sample_source sample_config fresh_esp of
     (None, s') \<Rightarrow> list_all (item_done sample_source s') signed_chain \<and>
       list_all (\<lambda>d. file_at (es_root s') (d @ [''grub.cfg'']) =
         Some (signed_menu sample_source sample_config)) menu_dirs
   | (Some e, s') \<Rightarrow> False"
  using staging_complete [OF fresh_in_order(1), of sample_source sample_config] fresh_succeeds
  by (auto split: prod.splits option.splits)

end
