(* ===== verification/Esp_Cleanup_Props.thy ===== *)
theory Esp_Cleanup_Props
  imports Esp_Cleanup Esp_Staging_Props
begin

text \<open>
  What the cleanup of the ESP guarantees for every script of faults: it touches only files that
  the allow-list permits, success means that every claimed file and the manifest are gone,
  and a failure keeps the manifest as the plan of the next attempt.
\<close>

subsection \<open>Resolution reads and names the claim\<close>

lemma read_dir_value:
  assumes "os_read_dir ps s = (r, s')"
  shows "es_root s' = es_root s" "keeps P s s'"
    "r = Inr names \<Longrightarrow> \<exists>es. locate (es_root s) ps = Some (Dir es) \<and> names = map fst es"
proof -
  obtain st s1 where t: "os_stat ps s = (st, s1)" by (metis surj_pair)
  have s': "s' = s1" using assms t
    by (auto simp: os_read_dir_def split: file_read.splits node.splits)
  then show "es_root s' = es_root s" "keeps P s s'" using stat_root [OF t] keeps_stat [OF t] by simp_all
  assume "r = Inr names"
  then obtain es where "st = Found (Dir es)" "names = map fst es"
    using assms t by (auto simp: os_read_dir_def split: file_read.splits node.splits)
  then show "\<exists>es. locate (es_root s) ps = Some (Dir es) \<and> names = map fst es"
    using stat_value(1) t by blast
qed

lemma locate_append:
  "locate n (ps @ qs) = (case locate n ps of None \<Rightarrow> None | Some m \<Rightarrow> locate m qs)"
proof (induction ps arbitrary: n)
  case (Cons p ps)
  show ?case
  proof (cases n)
    case (Dir es)
    then show ?thesis using Cons by (cases "get_entry p es") simp_all
  qed simp_all
qed simp

lemma get_entry_absent: "filter (\<lambda>n. equal_fold n p) (map fst es) = [] \<Longrightarrow> get_entry p es = None"
  by (induction es) (auto simp: get_entry_def split: if_splits)

lemma same_path_append:
  "same_path ps qs \<Longrightarrow> same_path rs ts \<Longrightarrow> same_path (ps @ rs) (qs @ ts)"
  by (simp add: same_path_def)

lemma resolve_parts_value:
  assumes "resolve_parts rel current parts s = (r, s')"
  shows "es_root s' = es_root s \<and> keeps P s s' \<and>
    (\<forall>path exists. r = Inr (path, exists) \<longrightarrow> same_path path (current @ parts) \<and>
       (\<not> exists \<longrightarrow> locate (es_root s) (current @ parts) = None))"
  using assms
proof (induction rel current parts s rule: resolve_parts.induct)
  case (1 rel current s)
  then show ?case by auto
next
  case (2 rel current part parts s)
  obtain q s1 where rd: "os_read_dir current s = (q, s1)" by (metis surj_pair)
  note rv = read_dir_value [OF rd]
  show ?case
  proof (cases q)
    case (Inl e)
    then show ?thesis using 2(2) rd rv by auto
  next
    case (Inr names)
    from rv(3) [OF this] obtain es where es: "locate (es_root s) current = Some (Dir es)" "names = map fst es"
      by blast
    consider (none) "filter (\<lambda>n. equal_fold n part) names = []"
      | (one) m where "filter (\<lambda>n. equal_fold n part) names = [m]"
      | (more) a b c where "filter (\<lambda>n. equal_fold n part) names = a # b # c"
      by (cases "filter (\<lambda>n. equal_fold n part) names" rule: list.exhaust; metis list.exhaust)
    then show ?thesis
    proof cases
      case none
      then have "locate (es_root s) (current @ part # parts) = None"
        using es get_entry_absent by (simp add: locate_append)
      then show ?thesis using 2(2) rd rv(1,2) Inr none by auto
    next
      case more
      then show ?thesis using 2(2) rd rv(1,2) Inr by auto
    next
      case one
      have "m \<in> set (filter (\<lambda>n. equal_fold n part) names)" unfolding one by simp
      then have fold: "equal_fold m part" by simp
      obtain st s2 where t: "os_stat (current @ [m]) s1 = (st, s2)" by (metis surj_pair)
      have k2: "es_root s2 = es_root s" "keeps P s s2"
        using stat_root [OF t] keeps_trans [OF rv(2) keeps_stat [OF t]] rv(1) by simp_all
      show ?thesis
      proof (cases "\<exists>n. st = Found n \<and> entry_refusal rel (parts = []) n = None")
        case False
        then show ?thesis using 2(2) rd Inr one t k2 by (cases st) (auto split: option.splits)
      next
        case True
        then obtain n where n: "st = Found n" "entry_refusal rel (parts = []) n = None" by blast
        have rest: "resolve_parts rel (current @ [m]) parts s2 = (r, s')"
          using 2(2) rd Inr one t n by simp
        have same: "same_path ((current @ [m]) @ parts) (current @ part # parts)"
          using fold by (simp add: same_path_def equal_fold_def)
        from 2(1) [OF rd [symmetric] Inr one refl t [symmetric] n rest]
        have IH: "es_root s' = es_root s2 \<and> keeps P s2 s' \<and>
          (\<forall>path exists. r = Inr (path, exists) \<longrightarrow> same_path path ((current @ [m]) @ parts) \<and>
             (\<not> exists \<longrightarrow> locate (es_root s2) ((current @ [m]) @ parts) = None))"
          by auto
        show ?thesis
          using IH k2 keeps_trans [OF k2(2)] same_path_trans [OF _ same] locate_same [OF same] by auto
      qed
    qed
  qed
qed

lemma resolve_value:
  assumes "resolveESPCleanupPath rel s = (r, s')"
  shows "es_root s' = es_root s" "keeps P s s'"
    "r = Inr (path, exists) \<Longrightarrow> same_path path (path_parts rel)"
    "r = Inr (path, False) \<Longrightarrow> locate (es_root s) (path_parts rel) = None"
proof -
  have "es_root s' = es_root s \<and> keeps P s s' \<and> (\<forall>path exists. r = Inr (path, exists) \<longrightarrow>
      same_path path (path_parts rel) \<and> (\<not> exists \<longrightarrow> locate (es_root s) (path_parts rel) = None))"
  proof (cases "validateESPRelativeFile rel")
    case (Some p)
    then show ?thesis using assms by (auto simp: resolveESPCleanupPath_def)
  next
    case None
    obtain st s1 where t: "os_stat [] s = (st, s1)" by (metis surj_pair)
    note tv = stat_root [OF t] keeps_stat [OF t]
    show ?thesis
    proof (cases "\<exists>es. st = Found (Dir es)")
      case True
      then have "resolve_parts rel [] (path_parts rel) s1 = (r, s')"
        using assms None t by (auto simp: resolveESPCleanupPath_def)
      from resolve_parts_value [OF this, of P] tv show ?thesis
        using keeps_trans [OF tv(2)] by auto
    next
      case False
      then have "s' = s1" "\<exists>e. r = Inl e"
        using assms None t by (auto simp: resolveESPCleanupPath_def split: file_read.splits node.splits)
      then show ?thesis using tv by auto
    qed
  qed
  then show "es_root s' = es_root s" "keeps P s s'"
    "r = Inr (path, exists) \<Longrightarrow> same_path path (path_parts rel)"
    "r = Inr (path, False) \<Longrightarrow> locate (es_root s) (path_parts rel) = None"
    by blast+
qed

subsection \<open>The claims are read, never written\<close>

lemma marked_config_reads:
  assumes "marked_config rel s = (r, s')"
  shows "es_root s' = es_root s \<and> keeps P s s'"
proof -
  obtain q s1 where rs: "resolveESPCleanupPath rel s = (q, s1)" by (metis surj_pair)
  note rv = resolve_value(1,2) [OF rs]
  show ?thesis
  proof (cases "\<exists>path. q = Inr (path, True)")
    case True
    then obtain path where q: "q = Inr (path, True)" by blast
    obtain c s2 where rd: "os_read_file path s1 = (c, s2)" by (metis surj_pair)
    have "s' = s2" using assms rs q rd by (auto simp: marked_config_def split: file_read.splits)
    then show ?thesis using rv read_root [OF rd] keeps_trans [OF rv(2) keeps_read [OF rd]] by simp
  next
    case False
    then have "s' = s1" using assms rs by (auto simp: marked_config_def split: sum.splits bool.splits)
    then show ?thesis using rv by simp
  qed
qed

lemma marked_claims_reads:
  "marked_claims cs s = (r, s') \<Longrightarrow> es_root s' = es_root s \<and> keeps P s s' \<and>
     (\<forall>ps. r = Inr ps \<longrightarrow> set ps \<subseteq> \<Union> (set ` snd ` set cs))"
proof (induction cs arbitrary: s r s')
  case Nil
  then show ?case by auto
next
  case (Cons c cs)
  obtain rel claims where c: "c = (rel, claims)" by (cases c)
  obtain q s1 where mc: "marked_config rel s = (q, s1)" by (metis surj_pair)
  note mv = marked_config_reads [OF mc]
  obtain q2 s2 where rest: "marked_claims cs s1 = (q2, s2)" by (metis surj_pair)
  have IH: "es_root s2 = es_root s1 \<and> keeps P s1 s2 \<and>
      (\<forall>ps. q2 = Inr ps \<longrightarrow> set ps \<subseteq> \<Union> (set ` snd ` set cs))"
    using rest by (rule Cons.IH)
  show ?case
  proof (cases q)
    case (Inl e)
    then show ?thesis using Cons.prems c mc mv by auto
  next
    case (Inr m)
    have k: "keeps P s s2" using IH mv keeps_trans by blast
    show ?thesis
    proof (cases q2)
      case (Inl e)
      then show ?thesis using Cons.prems c mc Inr rest mv IH k by auto
    next
      case q2: (Inr ps)
      then have "s' = s2" "r = Inr ((if m then claims else []) @ ps)"
        using Cons.prems c mc Inr rest by simp_all
      then show ?thesis using mv IH k q2 c by auto
    qed
  qed
qed

definition normal_claim :: "string \<Rightarrow> bool" where
  "normal_claim p \<longleftrightarrow> normalizeESPPath p = p"

lemma read_claims_normal:
  "read_claims owned ls = Inr ps \<Longrightarrow> list_all normal_claim owned \<Longrightarrow> list_all normal_claim ps"
proof (induction owned ls rule: read_claims.induct)
  case (1 owned)
  then show ?case by simp
next
  case (2 owned raw rest)
  let ?line = "trim_space (drop_cr raw)"
  show ?case
  proof (cases "comment_or_blank ?line")
    case True
    then show ?thesis using 2 by (simp add: Let_def split: if_splits)
  next
    case False
    then have "read_claims (normalizeESPPath ?line # owned) rest = Inr ps"
      "\<not> too_long raw" "?line = drop_cr raw" "validateESPRelativeFile ?line = None"
      using 2(3) by (auto simp: Let_def split: if_splits option.splits)
    moreover have "list_all normal_claim (normalizeESPPath ?line # owned)"
      using 2(4) normal_claim_def [of "normalizeESPPath (trim_space (drop_cr raw))"] by simp
    ultimately show ?thesis using 2(2) False by simp
  qed
qed

lemma legacy_normal:
  "list_all (\<lambda>c. list_all normal_claim (snd c)) legacy_configs" "list_all normal_claim product_files"
  by code_simp+

lemma cleanup_claims_value:
  assumes "espCleanupClaims s = (r, s')"
  shows "es_root s' = es_root s \<and> keeps P s s' \<and>
    (\<forall>claims manifest has. r = Inr (claims, manifest, has) \<longrightarrow>
       list_all (\<lambda>rel. normal_claim rel \<and> rel \<noteq> normalizeESPPath espOwnershipManifest) claims \<and>
       same_path manifest manifest_path \<and> (\<not> has \<longrightarrow> locate (es_root s) manifest_path = None))"
proof -
  obtain q s1 where rs: "resolveESPCleanupPath espOwnershipManifest s = (q, s1)" by (metis surj_pair)
  note rv = resolve_value [OF rs]
  show ?thesis
  proof (cases q)
    case (Inl e)
    then show ?thesis using assms rs rv(1,2) by (auto simp: espCleanupClaims_def)
  next
    case (Inr me)
    obtain manifest ex where me: "me = (manifest, ex)" by (cases me)
    obtain c s2 where rd: "os_read_file manifest s1 = (c, s2)" by (metis surj_pair)
    have k2: "es_root s2 = es_root s" "keeps P s s2"
      using read_root [OF rd] rv(1) keeps_trans [OF rv(2) keeps_read [OF rd]] by simp_all
    obtain ow s2' where ow: "readESPOwnershipFile manifest s1 = (ow, s2')" by (metis surj_pair)
    have s2': "s2' = s2" using ow rd by (auto simp: readESPOwnershipFile_def split: file_read.splits)
    have normal: "list_all normal_claim owned" if "ow = Inr owned" for owned
      using ow rd that read_claims_normal [of "[]"]
      by (auto simp: readESPOwnershipFile_def parse_manifest_def split: file_read.splits)
    show ?thesis
    proof (cases ow)
      case (Inl e)
      then show ?thesis using assms rs Inr me ow s2' k2 \<open>q = Inr me\<close> by (auto simp: espCleanupClaims_def)
    next
      case owned: (Inr owned)
      obtain lg s3 where lg: "marked_claims legacy_configs s2 = (lg, s3)" by (metis surj_pair)
      note lv = marked_claims_reads [OF lg, of P]
      have k3: "es_root s3 = es_root s" "keeps P s s3" using lv k2 keeps_trans by auto
      show ?thesis
      proof (cases lg)
        case (Inl e)
        then show ?thesis using assms rs \<open>q = Inr me\<close> me ow s2' owned lg k3
          by (auto simp: espCleanupClaims_def legacyESPCleanupClaims_def)
      next
        case (Inr cs)
        have "list_all normal_claim cs" using lv Inr legacy_normal(1) by (fastforce simp: list_all_iff)
        then have "list_all normal_claim (owned @ cs @ product_files)"
          using normal [OF owned] legacy_normal(2) by simp
        then show ?thesis
          using assms rs \<open>q = Inr me\<close> me ow s2' owned lg Inr k3 rv(3,4)
          by (auto simp: espCleanupClaims_def legacyESPCleanupClaims_def Let_def list_all_iff
              manifest_path_def [symmetric])
      qed
    qed
  qed
qed

subsection \<open>Plan, removal and recheck\<close>

lemma plan_paths_value:
  "plan_paths rels s = (r, s') \<Longrightarrow> es_root s' = es_root s \<and> keeps P s s' \<and>
     (\<forall>ps. r = Inr ps \<longrightarrow> (\<forall>p\<in>set ps. \<exists>rel\<in>set rels. same_path p (path_parts rel)))"
proof (induction rels arbitrary: s r s')
  case Nil
  then show ?case by auto
next
  case (Cons rel rels)
  obtain q s1 where rs: "resolveESPCleanupPath rel s = (q, s1)" by (metis surj_pair)
  note rv = resolve_value [OF rs]
  show ?case
  proof (cases q)
    case (Inl e)
    then show ?thesis using Cons.prems rs rv(1,2) by auto
  next
    case (Inr pe)
    obtain path ex where pe: "pe = (path, ex)" by (cases pe)
    obtain q2 s2 where rest: "plan_paths rels s1 = (q2, s2)" by (metis surj_pair)
    note IH = Cons.IH [OF rest]
    have k: "es_root s2 = es_root s" "keeps P s s2" using IH rv(1) keeps_trans [OF rv(2)] by auto
    show ?thesis
    proof (cases q2)
      case (Inl e)
      then show ?thesis using Cons.prems rs Inr pe rest k \<open>q = Inr pe\<close> by auto
    next
      case q2: (Inr ps)
      then have "s' = s2" "r = Inr (if ex then path # ps else ps)"
        using Cons.prems rs Inr pe rest by simp_all
      moreover have "same_path path (path_parts rel)" using rv(3) Inr pe by blast
      ultimately show ?thesis using IH k q2 by auto
    qed
  qed
qed

lemma absent_value:
  assumes "confirmed_absent path s = (b, s')"
  shows "es_root s' = es_root s" "keeps P s s'" "b \<Longrightarrow> locate (es_root s) path = None"
proof -
  obtain st s1 where t: "os_stat path s = (st, s1)" by (metis surj_pair)
  have "s' = s1" "b \<Longrightarrow> st = Missing"
    using assms t by (auto simp: confirmed_absent_def split: file_read.splits)
  then show "es_root s' = es_root s" "keeps P s s'" "b \<Longrightarrow> locate (es_root s) path = None"
    using stat_root [OF t] keeps_stat [OF t] stat_value(2) t by simp_all
qed

lemma remove_absent:
  assumes "os_remove ps s = (r, s')" "locate (es_root s) qs = None"
  shows "locate (es_root s') qs = None"
proof -
  obtain f s1 where n: "next_fault s = (f, s1)" by (metis surj_pair)
  note root = next_root [OF n]
  have "es_root s' = es_root s \<or>
      not_dir (locate (es_root s) ps) \<and> locate (es_root s) ps \<noteq> None \<and> es_root s' = alter ps None (es_root s)"
    using assms(1) n root by (auto simp: os_remove_def split: fault.splits option.splits node.splits)
  then show ?thesis
  proof
    assume "es_root s' = es_root s"
    then show ?thesis using assms(2) by simp
  next
    assume a: "not_dir (locate (es_root s) ps) \<and> locate (es_root s) ps \<noteq> None \<and>
      es_root s' = alter ps None (es_root s)"
    then have "\<not> same_path ps qs" using assms(2) locate_same by metis
    from alter_other [OF _ _ this, of "es_root s" None] a assms(2) show ?thesis
      by (simp add: shows_at_def split: option.splits)
  qed
qed

lemma remove_paths_value:
  "remove_paths os_remove ps s = (r, s') \<Longrightarrow> keeps (\<lambda>qs. \<exists>p\<in>set ps. only p qs) s s' \<and>
     (\<forall>qs. locate (es_root s) qs = None \<longrightarrow> locate (es_root s') qs = None)"
proof (induction ps arbitrary: s)
  case Nil
  then show ?case by simp
next
  case (Cons p ps)
  let ?K = "\<lambda>qs. \<exists>p\<in>set ps. only p qs" and ?K' = "\<lambda>qs. \<exists>p\<in>set (p # ps). only p qs"
  obtain q s1 where rm: "os_remove p s = (q, s1)" by (metis surj_pair)
  have k1: "keeps ?K' s s1" using keeps_remove [OF rm] by (rule keeps_mono) simp
  note a1 = remove_absent [OF rm]
  show ?case
  proof (cases q)
    case (Some e)
    then show ?thesis using Cons.prems rm k1 a1 by auto
  next
    case None
    obtain b s2 where ab: "confirmed_absent p s1 = (b, s2)" by (metis surj_pair)
    note av = absent_value(1,2) [OF ab]
    have k2: "keeps ?K' s s2" using keeps_trans [OF k1 av(2)] .
    show ?thesis
    proof (cases b)
      case False
      then show ?thesis using Cons.prems rm None ab k2 av(1) a1 by auto
    next
      case True
      then have "remove_paths os_remove ps s2 = (r, s')" using Cons.prems rm None ab by simp
      from Cons.IH [OF this] have IH: "keeps ?K s2 s'"
        "\<forall>qs. locate (es_root s2) qs = None \<longrightarrow> locate (es_root s') qs = None" by auto
      have "keeps ?K' s2 s'" using IH(1) by (rule keeps_mono) auto
      then show ?thesis using keeps_trans [OF k2] IH(2) av(1) a1 by simp
    qed
  qed
qed

lemma recheck_value:
  "recheck_claims rels s = (r, s') \<Longrightarrow> es_root s' = es_root s \<and> keeps P s s' \<and>
     (r = None \<longrightarrow> list_all (\<lambda>rel. locate (es_root s) (path_parts rel) = None) rels)"
proof (induction rels arbitrary: s)
  case Nil
  then show ?case by simp
next
  case (Cons rel rels)
  obtain q s1 where rs: "resolveESPCleanupPath rel s = (q, s1)" by (metis surj_pair)
  note rv = resolve_value [OF rs]
  show ?case
  proof (cases "\<exists>path. q = Inr (path, False)")
    case True
    then obtain path where q: "q = Inr (path, False)" by blast
    then have "recheck_claims rels s1 = (r, s')" using Cons.prems rs by simp
    from Cons.IH [OF this] rv(1,2) rv(4) [OF q] keeps_trans [OF rv(2)] show ?thesis by simp
  next
    case False
    then have "s' = s1" "r \<noteq> None"
      using Cons.prems rs by (auto split: sum.splits prod.splits if_splits)
    then show ?thesis using rv(1,2) by auto
  qed
qed

lemma forget_value:
  assumes "forget_manifest os_remove manifest s = (r, s')"
  shows "keeps (only manifest) s s'"
    "\<And>qs. locate (es_root s) qs = None \<Longrightarrow> locate (es_root s') qs = None"
    "r = None \<Longrightarrow> locate (es_root s') manifest = None"
    "r = Some e \<Longrightarrow> e \<noteq> ManifestUnverified \<Longrightarrow> es_root s' = es_root s"
proof -
  obtain q s1 where rm: "os_remove manifest s = (q, s1)" by (metis surj_pair)
  note k1 = keeps_remove [OF rm] remove_absent [OF rm]
  obtain b s2 where ab: "confirmed_absent manifest s1 = (b, s2)" by (metis surj_pair)
  note av = absent_value [OF ab]
  have failed: "es_root s1 = es_root s" if "q = Some x" for x
  proof -
    obtain f t where n: "next_fault s = (f, t)" by (metis surj_pair)
    show ?thesis using rm n next_root [OF n] that
      by (auto simp: os_remove_def split: fault.splits option.splits node.splits)
  qed
  have c: "(q \<noteq> None \<and> s' = s1 \<and> r \<noteq> None) \<or>
      (q = None \<and> s' = s2 \<and> (r = None) = b \<and> (r = None \<or> r = Some ManifestUnverified))"
    using assms rm ab by (cases q; cases b) (auto simp: forget_manifest_def)
  show "keeps (only manifest) s s'" using c k1(1) keeps_trans [OF k1(1) av(2)] by auto
  show "\<And>qs. locate (es_root s) qs = None \<Longrightarrow> locate (es_root s') qs = None"
    using c k1(2) av(1) by auto
  show "r = None \<Longrightarrow> locate (es_root s') manifest = None" using c av by auto
  show "r = Some e \<Longrightarrow> e \<noteq> ManifestUnverified \<Longrightarrow> es_root s' = es_root s" using c failed by auto
qed

subsection \<open>What a cleanup may touch\<close>

definition permitted :: "string list \<Rightarrow> bool" where
  "permitted qs \<longleftrightarrow> allowedESPCleanupClaim (join_with [slash] qs)"

lemma lower_join: "to_lower (join_with [slash] ws) = join_with [slash] (map to_lower ws)"
proof (induction "[slash]" ws rule: join_with.induct)
  case (3 w v vs)
  have "to_lower (slash # s) = slash # to_lower s" for s by (simp add: to_lower_def)
  with 3 show ?case by (simp add: to_lower_append)
qed simp_all

lemma parts_normal: "same_path (path_parts rel) qs \<Longrightarrow> normalizeESPPath (join_with [slash] qs) = normalizeESPPath rel"
proof -
  assume "same_path (path_parts rel) qs"
  then have eq: "map to_lower qs = map to_lower (path_parts rel)" by (simp add: same_path_def)
  have lower: "to_lower (join_with [slash] qs) = to_lower (to_slashes rel)"
    unfolding lower_join eq by (simp only: lower_join [symmetric] path_parts_def join_split)
  have "backslash \<notin> set (to_lower (to_slashes rel))"
    using to_slashes_no_backslash backslash_in_to_lower by blast
  then have "backslash \<notin> set (join_with [slash] qs)"
    unfolding lower [symmetric] backslash_in_to_lower .
  then show ?thesis by (simp add: normalize_lower to_slashes_id lower)
qed

lemma permitted_claim:
  assumes "allowedESPCleanupClaim rel" "same_path (path_parts rel) qs"
  shows "permitted qs"
  unfolding permitted_def using parts_normal [OF assms(2)] allowed_normalize assms(1) by metis

lemma permitted_manifest: "same_path manifest_path qs \<Longrightarrow> permitted qs"
proof -
  have "allowedESPCleanupClaim espOwnershipManifest" by code_simp
  moreover assume "same_path manifest_path qs"
  ultimately show ?thesis unfolding manifest_path_def by (rule permitted_claim)
qed

lemma cleanup_result:
  assumes "cleanupESPOwnedFiles s = (r, s')" "espCleanupClaims s = (c, s0)"
  shows "keeps permitted s s' \<and>
    (r = None \<longrightarrow> (\<exists>claims manifest has. c = Inr (claims, manifest, has) \<and>
       locate (es_root s') manifest_path = None \<and>
       list_all (\<lambda>rel. locate (es_root s') (path_parts rel) = None) claims)) \<and>
    (\<forall>e. r = Some e \<longrightarrow> e \<noteq> ManifestUnverified \<longrightarrow>
       file_at (es_root s') manifest_path = file_at (es_root s) manifest_path)"
proof -
  note cv = cleanup_claims_value [OF assms(2)]
  have unchanged: ?thesis if "es_root s' = es_root s" "keeps permitted s s'" "r \<noteq> None"
    using that by auto
  note run = assms(1) [unfolded cleanupESPOwnedFiles_def cleanupESPOwnedFilesWithRemove_def]
  show ?thesis
  proof (cases c)
    case (Inl e)
    show ?thesis using run assms(2) Inl cv [of permitted] by (intro unchanged) auto
  next
    case (Inr cmh)
    obtain claims manifest has where cmh: "cmh = (claims, manifest, has)" by (cases cmh)
    let ?rels = "sort (remdups claims)"
    have claims: "list_all (\<lambda>rel. normal_claim rel \<and> rel \<noteq> normalizeESPPath espOwnershipManifest) claims"
      and man: "same_path manifest manifest_path" "\<not> has \<longrightarrow> locate (es_root s) manifest_path = None"
      using cv [of permitted] Inr cmh by auto
    have k0: "es_root s0 = es_root s" "keeps permitted s s0" using cv by auto
    show ?thesis
    proof (cases "List.find (\<lambda>rel. \<not> allowedESPCleanupClaim rel) ?rels")
      case (Some rel)
      show ?thesis using run assms(2) Inr cmh Some k0 by (intro unchanged) auto
    next
      case None
      then have allowed: "\<forall>rel\<in>set ?rels. allowedESPCleanupClaim rel" by (simp add: find_None_iff_all)
      obtain q s2 where pl: "plan_paths ?rels s0 = (q, s2)" by (metis surj_pair)
      note pv = plan_paths_value [OF pl]
      have k2: "es_root s2 = es_root s" "keeps permitted s s2"
        using pv [of permitted] k0 keeps_trans [OF k0(2)] by auto
      show ?thesis
      proof (cases q)
        case (Inl e)
        show ?thesis using run assms(2) \<open>c = Inr cmh\<close> cmh None pl Inl k2 by (intro unchanged) auto
      next
        case q: (Inr paths)
        have named: "\<forall>p\<in>set paths. \<exists>rel\<in>set claims. same_path p (path_parts rel)"
          using pv [of permitted] q by simp
        obtain x s3 where rm: "remove_paths os_remove paths s2 = (x, s3)" by (metis surj_pair)
        note rv = remove_paths_value [OF rm]
        have "permitted qs" if "p \<in> set paths" "only p qs" for p qs
          using named that allowed permitted_claim same_path_trans same_path_sym
          by (metis only_def set_remdups set_sort)
        then have "keeps permitted s2 s3" using rv by (auto elim: keeps_mono)
        then have k3: "keeps permitted s s3" using keeps_trans [OF k2(2)] by blast
        have "\<not> only p manifest_path" if "p \<in> set paths" for p
        proof
          assume "only p manifest_path"
          with named that obtain rel where rel: "rel \<in> set claims" "same_path (path_parts rel) (path_parts espOwnershipManifest)"
            using same_path_trans same_path_sym by (metis manifest_path_def only_def)
          then have "normalizeESPPath rel = normalizeESPPath espOwnershipManifest"
            using same_path_normalize by blast
          then show False using claims rel(1) by (auto simp: list_all_iff normal_claim_def)
        qed
        then have man3: "file_at (es_root s3) manifest_path = file_at (es_root s) manifest_path"
          using keepsD(1) rv k2(1) by fastforce
        show ?thesis
        proof (cases x)
          case (Some e)
          then show ?thesis using run assms(2) Inr cmh None pl q rm k3 man3 by auto
        next
          case x: None
          obtain y s4 where rc: "recheck_claims ?rels s3 = (y, s4)" by (metis surj_pair)
          note cvv = recheck_value [OF rc]
          have k4: "es_root s4 = es_root s3" "keeps permitted s s4" using cvv [of permitted] keeps_trans [OF k3] by auto
          show ?thesis
          proof (cases y)
            case (Some e)
            then show ?thesis using run assms(2) Inr cmh None pl q rm x rc k4 man3 by auto
          next
            case y: None
            have gone: "\<forall>rel\<in>set claims. locate (es_root s4) (path_parts rel) = None"
              using cvv [of permitted] y k4(1) by (simp add: list_all_iff)
            show ?thesis
            proof (cases has)
              case False
              have "locate (es_root s4) manifest_path = None"
                using man(2) False rv k2(1) k4(1) by simp
              then show ?thesis using run assms(2) Inr cmh None pl q rm x rc y False k4 gone
                by (auto simp: list_all_iff)
            next
              case True
              then have fg: "forget_manifest os_remove manifest s4 = (r, s')"
                using run assms(2) Inr cmh None pl q rm x rc y by simp
              note fv = forget_value [OF fg]
              have "permitted qs" if "only manifest qs" for qs
                using that permitted_manifest man(1) same_path_trans same_path_sym by (metis only_def)
              then have "keeps permitted s4 s'" using fv(1) by (auto elim: keeps_mono)
              then have "keeps permitted s s'" using keeps_trans [OF k4(2)] by blast
              moreover have "locate (es_root s') manifest_path = None" if "r = None"
                using fv(3) [OF that] locate_same [OF man(1)] by metis
              moreover have "file_at (es_root s') manifest_path = file_at (es_root s) manifest_path"
                if "r = Some e" "e \<noteq> ManifestUnverified" for e
                using fv(4) [OF that] man3 k4(1) by simp
              ultimately show ?thesis using fv(2) gone Inr cmh by (auto simp: list_all_iff)
            qed
          qed
        qed
      qed
    qed
  qed
qed

subsection \<open>Properties\<close>

text \<open>
  C32: a cleanup touches nothing but product files. For every volume, manifest and script of
  faults, and whatever the outcome, a file whose path the allow-list does not permit keeps its
  contents, and no directory disappears.
\<close>

theorem cleanup_touches_permitted:
  "let (r, s') = cleanupESPOwnedFiles s in keeps permitted s s'"
proof -
  obtain r s' where c: "cleanupESPOwnedFiles s = (r, s')" by (metis surj_pair)
  obtain cl s0 where cl: "espCleanupClaims s = (cl, s0)" by (metis surj_pair)
  from cleanup_result [OF c cl] c show ?thesis by simp
qed

text \<open>
  C33: success means gone, and failure keeps the plan. When the cleanup returns no error,
  nothing is left at any claimed path nor at the manifest's; when it fails, the manifest has
  the contents it had, unless its own removal could not be confirmed.
\<close>

theorem cleanup_complete_or_retryable:
  "case (cleanupESPOwnedFiles s, espCleanupClaims s) of
     ((None, s'), (Inr (claims, manifest, has), s0)) \<Rightarrow>
       list_all (\<lambda>rel. locate (es_root s') (path_parts rel) = None) (''EFI/wootc/wootc-owned.txt'' # claims)
   | ((None, s'), (Inl e, s0)) \<Rightarrow> False
   | ((Some e, s'), _) \<Rightarrow>
       (if e = ManifestUnverified then True
        else file_at (es_root s') manifest_path = file_at (es_root s) manifest_path)"
proof -
  obtain r s' where c: "cleanupESPOwnedFiles s = (r, s')" by (metis surj_pair)
  obtain cl s0 where cl: "espCleanupClaims s = (cl, s0)" by (metis surj_pair)
  have "manifest_path = path_parts ''EFI/wootc/wootc-owned.txt''" by code_simp
  with cleanup_result [OF c cl] c cl show ?thesis by (cases r) auto
qed

text \<open>
  The loader entry of a systemd-boot installation survives its cleanup. After
  \<open>setupSystemdBoot\<close> succeeded and \<open>cleanupESPOwnedFiles\<close> reported success,
  loader/entries/wootc-deployer.conf is still on the ESP although it was written by the
  installer and boots files that are gone, and \<open>hasESPOwnedFiles\<close> answers that nothing is left.
\<close>

definition systemd_config :: install_config where
  "systemd_config = sample_config\<lparr>ic_bootloader := ''systemd-boot''\<rparr>"

definition quiet_esp :: esp_state where
  "quiet_esp = \<lparr>es_root = Dir [(''EFI'', Dir [])], es_script = []\<rparr>"

theorem cleanup_leaves_loader_entry:
  "case setupESP sample_source systemd_config quiet_esp of
     (installed, s1) \<Rightarrow>
       (case cleanupESPOwnedFiles s1 of
          (cleaned, s2) \<Rightarrow> installed = None \<and> cleaned = None \<and> fst (hasESPOwnedFiles s2) = Inr False \<and>
            file_at (es_root s2) [''loader'', ''entries'', ''wootc-deployer.conf''] =
              Some (loader_entry sample_source systemd_config))"
  by code_simp

end
