(* ===== verification/Bcd_Listing.thy ===== *)
theory Bcd_Listing
  imports Go_Strings
begin

text \<open>
  The transaction's reader of \<open>bcdedit /enum firmware\<close> (\<open>app/boot_txn.go\<close>): objects
  of the listing, the shape of a GUID, the line parser and the look-ups on its result.
  A Go \<open>map[string][]string\<close> of fields is an association list in order of first use.
\<close>

record bcd_object =
  bo_id :: string
  bo_fields :: "string list smap"

definition obj_field :: "bcd_object \<Rightarrow> string \<Rightarrow> string list" where
  "obj_field ob key = lookup_or [] (bo_fields ob) key"

definition first_field :: "bcd_object \<Rightarrow> string \<Rightarrow> string" where
  "first_field ob key = (case obj_field ob key of [] \<Rightarrow> [] | v # _ \<Rightarrow> v)"

text \<open>\<open>m[key] = append(m[key], v)\<close>.\<close>

fun append_field :: "string \<Rightarrow> string \<Rightarrow> string list smap \<Rightarrow> string list smap" where
  "append_field key v [] = [(key, [v])]"
| "append_field key v ((k, vs) # m) =
     (if k = key then (k, vs @ [v]) # m else (k, vs) # append_field key v m)"

lemma map_of_append_field:
  "map_of (append_field key v m) k =
     (if k = key then Some (lookup_or [] m key @ [v]) else map_of m k)"
  by (induction m) (auto simp: lookup_or_def)

lemma lookup_append_field:
  "lookup_or [] (append_field key v m) k =
     (if k = key then lookup_or [] m key @ [v] else lookup_or [] m k)"
  by (simp add: lookup_or_def map_of_append_field)

subsection \<open>GUIDs\<close>

text \<open>
  \<open>bcdGUIDRe\<close>: a braced 8-4-4-4-12 hexadecimal GUID. \<open>validBCDGUID\<close> is the anchored
  match, \<open>find_bcd_guid\<close> is \<open>FindString\<close>: the leftmost match, or the empty string.
\<close>

definition validBCDGUID :: "string \<Rightarrow> bool" where
  "validBCDGUID g \<longleftrightarrow>
     length g = 38 \<and> hd g = CHR ''{'' \<and> last g = CHR ''}'' \<and>
     uuid_shape is_hex (butlast (tl g))"

fun find_bcd_guid :: "string \<Rightarrow> string" where
  "find_bcd_guid [] = []"
| "find_bcd_guid (c # cs) =
     (if validBCDGUID (take 38 (c # cs)) then take 38 (c # cs) else find_bcd_guid cs)"

lemma validBCDGUID_not_Nil [simp]: "\<not> validBCDGUID []"
  by (simp add: validBCDGUID_def)

lemma lower_char_braces [simp]:
  "lower_char c = CHR ''{'' \<longleftrightarrow> c = CHR ''{''" "lower_char c = CHR ''}'' \<longleftrightarrow> c = CHR ''}''"
  by (rule lower_char_fixed; simp add: code_of_def)+

lemma validBCDGUID_lower: "validBCDGUID (to_lower g) \<longleftrightarrow> validBCDGUID g"
proof (cases "g = []")
  case False
  then have "hd (to_lower g) = lower_char (hd g)" "last (to_lower g) = lower_char (last g)"
    by (simp_all add: to_lower_def hd_map last_map)
  moreover have "butlast (tl (to_lower g)) = to_lower (butlast (tl g))"
    by (simp add: to_lower_def map_tl map_butlast)
  ultimately show ?thesis
    by (simp add: validBCDGUID_def uuid_shape_lower)
qed simp

lemma validBCDGUID_fold: "equal_fold i j \<Longrightarrow> validBCDGUID i \<longleftrightarrow> validBCDGUID j"
  by (metis equal_fold_def validBCDGUID_lower)

lemma find_bcd_guid_valid: "find_bcd_guid s \<noteq> [] \<Longrightarrow> validBCDGUID (find_bcd_guid s)"
  by (induction s) (auto split: if_splits)

lemma find_bcd_guid_sublist: "sublist (find_bcd_guid s) s"
proof (induction s)
  case Nil
  then show ?case by simp
next
  case (Cons c s)
  have "sublist (take 38 (c # s)) (c # s)"
    by (rule prefix_imp_sublist) (rule take_is_prefix)
  with Cons show ?case by (auto simp del: take_Suc_Cons simp: sublist_Cons_right)
qed

lemma find_bcd_guid_leftmost: "validBCDGUID g \<Longrightarrow> find_bcd_guid (g @ rest) = g"
proof -
  assume v: "validBCDGUID g"
  then have len: "length g = 38" by (simp add: validBCDGUID_def)
  then obtain c cs where g: "g = c # cs" by (cases g) auto
  from len have "take 38 (g @ rest) = g" by simp
  with v g show ?thesis by (simp del: take_Suc_Cons)
qed

subsection \<open>Look-ups\<close>

definition findBCDObject :: "bcd_object list \<Rightarrow> string \<Rightarrow> bcd_object option" where
  "findBCDObject objs i = List.find (\<lambda>ob. equal_fold (bo_id ob) i) objs"

definition containsID :: "string list \<Rightarrow> string \<Rightarrow> bool" where
  "containsID xs i \<longleftrightarrow> list_ex (\<lambda>v. equal_fold v i) xs"

lemma containsID_iff: "containsID xs i \<longleftrightarrow> (\<exists>v\<in>set xs. equal_fold v i)"
  by (simp add: containsID_def list_ex_iff)

lemma containsID_Nil [simp]: "\<not> containsID [] i"
  by (simp add: containsID_def)

lemma containsID_append [simp]: "containsID (xs @ ys) i \<longleftrightarrow> containsID xs i \<or> containsID ys i"
  by (simp add: containsID_def)

lemma containsID_member: "i \<in> set xs \<Longrightarrow> containsID xs i"
  unfolding containsID_iff by (rule bexI [of _ i]) simp_all

lemma containsID_fold: "equal_fold i j \<Longrightarrow> containsID xs i \<longleftrightarrow> containsID xs j"
  by (auto simp: containsID_iff equal_fold_def)

lemma findBCDObject_Some:
  "findBCDObject objs i = Some ob \<Longrightarrow> ob \<in> set objs \<and> equal_fold (bo_id ob) i"
  unfolding findBCDObject_def by (drule find_Some_in)

lemma findBCDObject_None:
  "findBCDObject objs i = None \<longleftrightarrow> (\<forall>ob\<in>set objs. \<not> equal_fold (bo_id ob) i)"
  by (auto simp: findBCDObject_def find_None_iff_all)

lemma findBCDObject_fold: "equal_fold i j \<Longrightarrow> findBCDObject objs i = findBCDObject objs j"
  by (simp add: findBCDObject_def equal_fold_def)

definition wootc_described :: "bcd_object \<Rightarrow> bool" where
  "wootc_described ob \<longleftrightarrow> equal_fold (first_field ob ''description'') ''wootc''"

definition wootcEntryIDs :: "bcd_object list \<Rightarrow> string \<Rightarrow> string list" where
  "wootcEntryIDs objs guid =
     (let ids = map bo_id (filter (\<lambda>ob. validBCDGUID (bo_id ob) \<and>
            (wootc_described ob \<or> (guid \<noteq> [] \<and> equal_fold (bo_id ob) guid))) objs)
      in if validBCDGUID guid \<and> \<not> containsID ids guid then ids @ [guid] else ids)"

text \<open>Nothing but a full GUID is ever attributed to wootc: no well-known alias.\<close>

lemma wootcEntryIDs_valid: "i \<in> set (wootcEntryIDs objs guid) \<Longrightarrow> validBCDGUID i"
  by (auto simp: wootcEntryIDs_def Let_def split: if_splits)

lemma wootcEntryIDs_attributed:
  "i \<in> set (wootcEntryIDs objs guid) \<Longrightarrow>
     (\<exists>ob\<in>set objs. bo_id ob = i \<and> (wootc_described ob \<or> equal_fold i guid)) \<or> i = guid"
  by (auto simp: wootcEntryIDs_def Let_def split: if_splits)

lemma wootcEntryIDs_complete:
  "ob \<in> set objs \<Longrightarrow> validBCDGUID (bo_id ob) \<Longrightarrow> wootc_described ob \<Longrightarrow>
     bo_id ob \<in> set (wootcEntryIDs objs guid)"
  by (auto simp: wootcEntryIDs_def Let_def)

lemma wootcEntryIDs_guid: "validBCDGUID guid \<Longrightarrow> containsID (wootcEntryIDs objs guid) guid"
  by (auto simp: wootcEntryIDs_def Let_def containsID_member)

subsection \<open>The line parser\<close>

text \<open>
  \<open>bcdFieldLine\<close> is \<open>^(\S+)\s{2,}(\S.*)$\<close>. The classes \<open>\s\<close> and \<open>\S\<close> of the
  regular expression do not count the vertical tab. The match is unique: the key is the
  longest run of non-spaces, and the value starts at the next non-space.
\<close>

definition re_space :: "char \<Rightarrow> bool" where
  "re_space c \<longleftrightarrow> (let n = code_of c in n = 32 \<or> n = 9 \<or> n = 10 \<or> n = 12 \<or> n = 13)"

lemma re_space_code [code]: "re_space c \<longleftrightarrow> is_space c \<and> c \<noteq> CHR 0x0B"
proof -
  have "c = CHR 0x0B \<longleftrightarrow> code_of c = 11" by (simp add: code_of_inject [symmetric] code_of_def)
  then show ?thesis by (auto simp: re_space_def is_space_def Let_def)
qed

definition match_field_line :: "string \<Rightarrow> (string \<times> string) option" where
  "match_field_line line =
     (let key = takeWhile (\<lambda>c. \<not> re_space c) line;
          rest = dropWhile (\<lambda>c. \<not> re_space c) line;
          gap = takeWhile re_space rest;
          val = dropWhile re_space rest
      in if key \<noteq> [] \<and> 2 \<le> length gap \<and> val \<noteq> [] then Some (key, val) else None)"

record parse_state =
  ps_objs :: "bcd_object list"
  ps_cur :: "nat option"
  ps_last_key :: string

definition parse_init :: parse_state where
  "parse_init = \<lparr>ps_objs = [], ps_cur = None, ps_last_key = []\<rparr>"

definition add_to_object :: "nat \<Rightarrow> string \<Rightarrow> string \<Rightarrow> bcd_object list \<Rightarrow> bcd_object list" where
  "add_to_object i key v objs =
     objs[i := (objs ! i)\<lparr>bo_fields := append_field key v (bo_fields (objs ! i))\<rparr>]"

definition blank_trim :: "string \<Rightarrow> string" where
  "blank_trim raw = trim_right_set raw [CHR '' '', CHR 0x09, CHR 0x0D]"

definition parse_line :: "parse_state \<Rightarrow> string \<Rightarrow> parse_state" where
  "parse_line s raw =
     (let line = blank_trim raw in
      if trim_space line = [] then s\<lparr>ps_cur := None, ps_last_key := []\<rparr>
      else if trim_set line ''-'' = [] then s
      else if hd line = CHR '' '' \<or> hd line = CHR 0x09 then
        (case ps_cur s of
           Some i \<Rightarrow> if ps_last_key s \<noteq> []
             then s\<lparr>ps_objs := add_to_object i (ps_last_key s) (trim_space line) (ps_objs s)\<rparr> else s
         | None \<Rightarrow> s)
      else (case match_field_line line of
          None \<Rightarrow> s\<lparr>ps_cur := None, ps_last_key := []\<rparr>
        | Some (k, v) \<Rightarrow>
            (let key = to_lower k; val = trim_space v;
                 s1 = (if key = ''identifier''
                       then s\<lparr>ps_objs := ps_objs s @ [\<lparr>bo_id = val, bo_fields = []\<rparr>],
                              ps_cur := Some (length (ps_objs s))\<rparr> else s)
             in case ps_cur s1 of
                  None \<Rightarrow> s1
                | Some i \<Rightarrow> s1\<lparr>ps_objs := add_to_object i key val (ps_objs s1), ps_last_key := key\<rparr>)))"

definition listing_lines :: "string \<Rightarrow> string list" where
  "listing_lines out = split_on (CHR 0x0A) (crlf_to_lf out)"

definition parseBCDEnum :: "string \<Rightarrow> bcd_object list" where
  "parseBCDEnum out = ps_objs (foldl parse_line parse_init (listing_lines out))"

text \<open>The index of the current object always names an object: the slice access is in range.\<close>

definition parse_ok :: "parse_state \<Rightarrow> bool" where
  "parse_ok s \<longleftrightarrow> (case ps_cur s of None \<Rightarrow> True | Some i \<Rightarrow> i < length (ps_objs s))"

lemma length_add_to_object [simp]: "length (add_to_object i k v objs) = length objs"
  by (simp add: add_to_object_def)

lemma parse_ok_init: "parse_ok parse_init"
  by (simp add: parse_ok_def parse_init_def)

lemma parse_line_ok: "parse_ok s \<Longrightarrow> parse_ok (parse_line s raw)"
  by (simp add: parse_line_def parse_ok_def Let_def split: option.splits prod.splits)

lemma parse_lines_ok: "parse_ok s \<Longrightarrow> parse_ok (foldl parse_line s ls)"
  by (induction ls arbitrary: s) (auto intro: parse_line_ok)

text \<open>Every object starts with its own identifier field, so a listing never loses a name.\<close>

definition obj_named :: "bcd_object \<Rightarrow> bool" where
  "obj_named ob \<longleftrightarrow> first_field ob ''identifier'' = bo_id ob"

lemma first_field_append:
  "first_field (ob\<lparr>bo_fields := append_field k v (bo_fields ob)\<rparr>) key =
     (if key = k \<and> obj_field ob k = [] then v else first_field ob key)"
  by (auto simp: first_field_def obj_field_def lookup_append_field split: list.splits)

lemma obj_named_append:
  "obj_named ob \<Longrightarrow> bo_id ob \<noteq> [] \<Longrightarrow> obj_named (ob\<lparr>bo_fields := append_field k v (bo_fields ob)\<rparr>)"
  by (auto simp: obj_named_def first_field_append) (auto simp: first_field_def)

definition objs_named :: "parse_state \<Rightarrow> bool" where
  "objs_named s \<longleftrightarrow> parse_ok s \<and> (\<forall>ob\<in>set (ps_objs s). obj_named ob \<and> obj_field ob ''identifier'' \<noteq> [])"

lemma add_to_object_all:
  assumes "\<forall>ob\<in>set objs. P ob" and "\<And>ob. P ob \<Longrightarrow> P (ob\<lparr>bo_fields := append_field k v (bo_fields ob)\<rparr>)"
    and "i < length objs"
  shows "\<forall>ob\<in>set (add_to_object i k v objs). P ob"
  using assms by (auto simp: add_to_object_def dest!: set_update_subset_insert [THEN subsetD])

lemma named_append:
  "obj_named ob \<and> obj_field ob ''identifier'' \<noteq> [] \<Longrightarrow>
     (let ob' = ob\<lparr>bo_fields := append_field k v (bo_fields ob)\<rparr>
      in obj_named ob' \<and> obj_field ob' ''identifier'' \<noteq> [])"
  by (auto simp: obj_named_def first_field_append obj_field_def lookup_append_field Let_def)

lemma add_new_object:
  "add_to_object (length objs) k v (objs @ [ob]) =
     objs @ [ob\<lparr>bo_fields := append_field k v (bo_fields ob)\<rparr>]"
  by (simp add: add_to_object_def)

lemma parse_line_named: "objs_named s \<Longrightarrow> objs_named (parse_line s raw)"
proof -
  assume s: "objs_named s"
  then have ok: "parse_ok (parse_line s raw)"
    by (simp add: objs_named_def parse_line_ok)
  have old: "\<And>i k v. i < length (ps_objs s) \<Longrightarrow>
    \<forall>ob\<in>set (add_to_object i k v (ps_objs s)). obj_named ob \<and> obj_field ob ''identifier'' \<noteq> []"
    using s named_append by (intro add_to_object_all) (auto simp: objs_named_def Let_def)
  have fresh: "\<And>v. let ob = \<lparr>bo_id = v, bo_fields = append_field ''identifier'' v []\<rparr>
    in obj_named ob \<and> obj_field ob ''identifier'' \<noteq> []"
    by (simp add: obj_named_def first_field_def obj_field_def lookup_or_def)
  show ?thesis
    using s old fresh ok
    by (auto simp: objs_named_def parse_line_def parse_ok_def Let_def add_new_object
        split: option.splits prod.splits if_splits)
qed

lemma parse_lines_named: "objs_named s \<Longrightarrow> objs_named (foldl parse_line s ls)"
  by (induction ls arbitrary: s) (auto intro: parse_line_named)

lemma parseBCDEnum_named:
  assumes "ob \<in> set (parseBCDEnum out)"
  shows "first_field ob ''identifier'' = bo_id ob"
proof -
  have "objs_named parse_init" by (simp add: objs_named_def parse_ok_init) (simp add: parse_init_def)
  then have "objs_named (foldl parse_line parse_init (listing_lines out))"
    by (rule parse_lines_named)
  with assms show ?thesis by (auto simp: objs_named_def obj_named_def parseBCDEnum_def)
qed

subsection \<open>Printing a listing and reading it back\<close>

text \<open>
  The two-column form \<open>bcdedit\<close> prints: a title, its dashes, one line per field, the
  further values of a field on indented lines, and a blank line. Reading a printed listing
  gives the printed objects, so the parser loses no object, field or value.
\<close>

definition render_field :: "string \<times> string list \<Rightarrow> string list" where
  "render_field f =
     (case f of (k, []) \<Rightarrow> []
      | (k, v # vs) \<Rightarrow> (k @ ''  '' @ v) # map (\<lambda>w. ''  '' @ w) vs)"

definition render_object :: "bcd_object \<Rightarrow> string list" where
  "render_object ob =
     [''Firmware Application'', ''--------------------''] @
     concat (map render_field (bo_fields ob)) @ [[]]"

definition render_listing :: "bcd_object list \<Rightarrow> string" where
  "render_listing objs = join_with [CHR 0x0A] (concat (map render_object objs))"

definition printable_text :: "string \<Rightarrow> bool" where
  "printable_text v \<longleftrightarrow> v \<noteq> [] \<and> \<not> is_space (hd v) \<and> \<not> is_space (last v) \<and>
     CHR 0x0A \<notin> set v \<and> CHR 0x0D \<notin> set v"

definition printable_key :: "string \<Rightarrow> bool" where
  "printable_key k \<longleftrightarrow> k \<noteq> [] \<and> (\<forall>c\<in>set k. \<not> is_space c) \<and> to_lower k = k"

definition printable_object :: "bcd_object \<Rightarrow> bool" where
  "printable_object ob \<longleftrightarrow> printable_text (bo_id ob) \<and>
     (\<exists>rest. bo_fields ob = (''identifier'', [bo_id ob]) # rest \<and>
        distinct (map fst (bo_fields ob)) \<and>
        (\<forall>(k, vs)\<in>set rest. printable_key k \<and> vs \<noteq> [] \<and> (\<forall>v\<in>set vs. printable_text v)))"

lemma re_space_is_space: "re_space c \<Longrightarrow> is_space c"
  by (auto simp: re_space_def is_space_def Let_def)

lemma code_space: "code_of CHR '' '' = 32" "code_of CHR 0x09 = 9" "code_of CHR 0x0D = 13"
  "code_of CHR 0x0A = 10" "code_of CHR ''-'' = 45"
  by (simp_all add: code_of_def)

lemma space_chars [simp]:
  "is_space CHR '' ''" "is_space CHR 0x09" "is_space CHR 0x0D" "is_space CHR 0x0A"
  "re_space CHR '' ''"
  by (simp_all add: is_space_def re_space_def code_space)

lemma dash_no_space [simp]: "\<not> is_space CHR ''-''"
  by (simp add: is_space_def code_space)

lemma trim_space_text: "printable_text v \<Longrightarrow> trim_space v = v"
  by (simp add: trim_space_def trim_by_id printable_text_def)

lemma trim_space_indented: "printable_text v \<Longrightarrow> trim_space (''  '' @ v) = v"
  by (cases v) (auto simp: trim_space_def trim_by_def trim_left_by_def printable_text_def
      intro!: trim_right_by_id)

lemma blank_trim_id: "line \<noteq> [] \<Longrightarrow> \<not> is_space (last line) \<Longrightarrow> blank_trim line = line"
  unfolding blank_trim_def trim_right_set_def
  by (rule trim_right_by_id) (auto simp del: space_chars simp: is_space_def code_space)

lemma trim_space_ne: "\<exists>c\<in>set line. \<not> is_space c \<Longrightarrow> trim_space line \<noteq> []"
  unfolding trim_space_def by (rule trim_by_ne)

end
