(* ===== verification/Boot_Chain.thy ===== *)
theory Boot_Chain
  imports Bcd_Listing Esp_Paths
begin

text \<open>
  What the boot-chain transaction checks (\<open>app/boot_txn.go\<close>): the staged ESP files, the
  firmware entry in its prepared and its armed shape, and the residue of a rollback. Each
  formatted problem of the code is a constructor carrying the arguments of its format string.
  For each check an abstract predicate says what an empty list of problems means.
\<close>

subsection \<open>The journal record\<close>

definition txnBegun :: string where "txnBegun = ''begun''"
definition txnCreatingEntry :: string where "txnCreatingEntry = ''creating-entry''"
definition txnEntryCreated :: string where "txnEntryCreated = ''entry-created''"
definition txnPrepared :: string where "txnPrepared = ''prepared''"
definition txnArming :: string where "txnArming = ''arming''"
definition txnCommitted :: string where "txnCommitted = ''committed''"
definition txnRollingBack :: string where "txnRollingBack = ''rolling-back''"
definition txnRolledBack :: string where "txnRolledBack = ''rolled-back''"
definition txnRollbackUnconfirmed :: string where
  "txnRollbackUnconfirmed = ''rollback-unconfirmed''"

lemmas txn_phases = txnBegun_def txnCreatingEntry_def txnEntryCreated_def txnPrepared_def
  txnArming_def txnCommitted_def txnRollingBack_def txnRolledBack_def txnRollbackUnconfirmed_def

lemma txn_phases_distinct:
  "distinct [txnBegun, txnCreatingEntry, txnEntryCreated, txnPrepared, txnArming, txnCommitted,
     txnRollingBack, txnRolledBack, txnRollbackUnconfirmed]"
  by (simp add: txn_phases)

datatype chain_problem =
    NoStagedFiles
  | LoaderNotStaged string
  | EspFileMissing string
  | EspFileChanged string
  | FirmwareNotVisible
  | NotAGuid string
  | EntryMissing string
  | WrongDescription string string
  | WrongPath string string string
  | StaleEntry string
  | InBootOrder string
  | NotArmedFirst "string list" string
  | ArmedTooEarly string
  | EntryStillExists string
  | StillInBootsequence string
  | StillInDisplayOrder string

text \<open>The errors of the transaction; strings are error texts of the environment.\<close>

datatype boot_error =
    EnumFailed string string
  | NoFirmwareManager nat
  | JournalFailed string string
  | CopyFailed string string
  | NoGuidInOutput string
  | SetPathFailed string string
  | OnEntryFailed string string
  | EntryNotVerified "chain_problem list"
  | StagedNotVerified "chain_problem list"
  | BcdUnchanged boot_error
  | CreatingEntry boot_error
  | BootsequenceFailed string string
  | ArmedNotVerified "chain_problem list"
  | ArmingFailed boot_error
  | NotPrepared string
  | RolledBack boot_error
  | RollbackAlsoFailed boot_error boot_error
  | ResidueSeen "chain_problem list"
  | RollbackNotConfirmed boot_error
  | BothErrors boot_error boot_error

record boot_txn =
  tx_phase :: string
  tx_guid :: string
  tx_efi_path :: string
  tx_hashes :: "string smap"
  tx_started :: string
  tx_updated :: string
  tx_error :: "boot_error option"

subsection \<open>The staged ESP files\<close>

definition espChainProblems :: "string \<Rightarrow> string smap \<Rightarrow> string smap \<Rightarrow> chain_problem list" where
  "espChainProblems efiPath staged observed =
     (if staged = [] then [NoStagedFiles]
      else
        (let loader = normalizeESPPath efiPath;
             found = list_ex (\<lambda>kv. normalizeESPPath (fst kv) = loader) staged
         in note_if (\<not> found) (LoaderNotStaged efiPath) @
            concat (map (\<lambda>rel.
               case map_of observed rel of
                 None \<Rightarrow> [EspFileMissing rel]
               | Some got \<Rightarrow> note_if (\<not> equal_fold got (lookup_or [] staged rel)) (EspFileChanged rel))
             (sorted_keys staged))))"

definition stagedRels :: "string smap \<Rightarrow> string list" where
  "stagedRels staged = sorted_keys staged"

text \<open>
  The meaning of no problem: the loader is one of the staged files, and every staged file was
  read back with its staged hash.
\<close>

definition esp_chain_ok :: "string \<Rightarrow> string smap \<Rightarrow> string smap \<Rightarrow> bool" where
  "esp_chain_ok efiPath staged observed \<longleftrightarrow>
     (\<exists>rel\<in>fst ` set staged. normalizeESPPath rel = normalizeESPPath efiPath) \<and>
     (\<forall>rel\<in>fst ` set staged. \<exists>got. map_of observed rel = Some got \<and>
        equal_fold got (lookup_or [] staged rel))"

lemma espChainProblems_Nil: "espChainProblems p staged obs = [] \<longleftrightarrow> esp_chain_ok p staged obs"
proof (cases "staged = []")
  case True
  then show ?thesis by (simp add: espChainProblems_def esp_chain_ok_def)
next
  case False
  have "(\<forall>rel\<in>fst ` set staged.
     (case map_of obs rel of None \<Rightarrow> [EspFileMissing rel]
      | Some got \<Rightarrow> note_if (\<not> equal_fold got (lookup_or [] staged rel)) (EspFileChanged rel)) = []) \<longleftrightarrow>
    (\<forall>rel\<in>fst ` set staged. \<exists>got. map_of obs rel = Some got \<and> equal_fold got (lookup_or [] staged rel))"
    by (intro ball_cong) (auto split: option.splits)
  with False show ?thesis
    by (simp add: espChainProblems_def esp_chain_ok_def Let_def concat_map_Nil list_ex_iff)
qed

subsection \<open>The firmware entry\<close>

definition fwbootmgr :: string where
  "fwbootmgr = ''{fwbootmgr}''"

definition bootRepairDescription :: string where
  "bootRepairDescription = ''wootc''"

definition entry_problems :: "bcd_object list \<Rightarrow> boot_txn \<Rightarrow> chain_problem list" where
  "entry_problems objs txn =
     (case findBCDObject objs (tx_guid txn) of
        None \<Rightarrow> [EntryMissing (tx_guid txn)]
      | Some entry \<Rightarrow>
          (let d = first_field entry ''description''; p = first_field entry ''path''
           in note_if (\<not> equal_fold d ''wootc'') (WrongDescription (tx_guid txn) d) @
              note_if (\<not> equal_fold p (tx_efi_path txn)) (WrongPath (tx_guid txn) p (tx_efi_path txn))))"

definition stale_problems :: "bcd_object list \<Rightarrow> string \<Rightarrow> chain_problem list" where
  "stale_problems objs guid =
     map StaleEntry (filter (\<lambda>i. \<not> equal_fold i guid) (wootcEntryIDs objs []))"

definition sequence_problems :: "string list \<Rightarrow> string \<Rightarrow> bool \<Rightarrow> chain_problem list" where
  "sequence_problems sq guid wantArmed =
     (if wantArmed
      then note_if (sq = [] \<or> \<not> equal_fold (hd sq) guid) (NotArmedFirst sq guid)
      else note_if (containsID sq guid) (ArmedTooEarly guid))"

definition bootChainProblems ::
  "bcd_object list \<Rightarrow> boot_txn \<Rightarrow> string smap \<Rightarrow> bool \<Rightarrow> chain_problem list" where
  "bootChainProblems objs txn observedESP wantArmed =
     (case findBCDObject objs fwbootmgr of
        None \<Rightarrow> [FirmwareNotVisible]
      | Some fw \<Rightarrow>
          if \<not> validBCDGUID (tx_guid txn) then [NotAGuid (tx_guid txn)]
          else
            entry_problems objs txn @
            stale_problems objs (tx_guid txn) @
            note_if (containsID (obj_field fw ''displayorder'') (tx_guid txn))
              (InBootOrder (tx_guid txn)) @
            sequence_problems (obj_field fw ''bootsequence'') (tx_guid txn) wantArmed @
            espChainProblems (tx_efi_path txn) (tx_hashes txn) observedESP)"

text \<open>
  The abstract chain: one wootc entry, the journaled one, pointing at the loader and outside
  the permanent order; heading the one-shot when armed, and absent from it when prepared.
\<close>

definition entry_as_intended :: "bcd_object list \<Rightarrow> boot_txn \<Rightarrow> bool" where
  "entry_as_intended objs txn \<longleftrightarrow> validBCDGUID (tx_guid txn) \<and>
     (\<exists>entry. findBCDObject objs (tx_guid txn) = Some entry \<and> wootc_described entry \<and>
        equal_fold (first_field entry ''path'') (tx_efi_path txn))"

definition only_entry :: "bcd_object list \<Rightarrow> string \<Rightarrow> bool" where
  "only_entry objs guid \<longleftrightarrow>
     (\<forall>ob\<in>set objs. validBCDGUID (bo_id ob) \<longrightarrow> wootc_described ob \<longrightarrow> equal_fold (bo_id ob) guid)"

definition sequence_as_intended :: "string list \<Rightarrow> string \<Rightarrow> bool \<Rightarrow> bool" where
  "sequence_as_intended sq guid wantArmed \<longleftrightarrow>
     (if wantArmed then sq \<noteq> [] \<and> equal_fold (hd sq) guid else \<not> containsID sq guid)"

definition chain_as_intended ::
  "bcd_object list \<Rightarrow> boot_txn \<Rightarrow> string smap \<Rightarrow> bool \<Rightarrow> bool" where
  "chain_as_intended objs txn esp wantArmed \<longleftrightarrow>
     (\<exists>fw. findBCDObject objs fwbootmgr = Some fw \<and>
        \<not> containsID (obj_field fw ''displayorder'') (tx_guid txn) \<and>
        sequence_as_intended (obj_field fw ''bootsequence'') (tx_guid txn) wantArmed) \<and>
     entry_as_intended objs txn \<and> only_entry objs (tx_guid txn) \<and>
     esp_chain_ok (tx_efi_path txn) (tx_hashes txn) esp"

lemma entry_problems_Nil:
  "validBCDGUID (tx_guid txn) \<Longrightarrow> entry_problems objs txn = [] \<longleftrightarrow> entry_as_intended objs txn"
  by (auto simp: entry_problems_def entry_as_intended_def wootc_described_def Let_def
      split: option.splits)

lemma stale_problems_Nil: "stale_problems objs guid = [] \<longleftrightarrow> only_entry objs guid"
  by (auto simp: stale_problems_def only_entry_def filter_empty_conv wootcEntryIDs_def Let_def)

lemma sequence_problems_Nil: "sequence_problems sq g w = [] \<longleftrightarrow> sequence_as_intended sq g w"
  by (auto simp: sequence_problems_def sequence_as_intended_def)

lemma bootChainProblems_Nil:
  "bootChainProblems objs txn esp w = [] \<longleftrightarrow> chain_as_intended objs txn esp w"
proof (cases "findBCDObject objs fwbootmgr")
  case None
  then show ?thesis by (simp add: bootChainProblems_def chain_as_intended_def)
next
  case (Some fw)
  show ?thesis
  proof (cases "validBCDGUID (tx_guid txn)")
    case True
    with Some show ?thesis
      by (auto simp: bootChainProblems_def chain_as_intended_def entry_problems_Nil
          stale_problems_Nil sequence_problems_Nil espChainProblems_Nil)
  next
    case False
    with Some show ?thesis
      by (simp add: bootChainProblems_def chain_as_intended_def entry_as_intended_def)
  qed
qed

subsection \<open>The residue of a rollback\<close>

definition residue_of :: "bcd_object list \<Rightarrow> string \<Rightarrow> chain_problem list" where
  "residue_of objs i =
     note_if (findBCDObject objs i \<noteq> None) (EntryStillExists i) @
     (case findBCDObject objs fwbootmgr of
        None \<Rightarrow> []
      | Some fw \<Rightarrow> note_if (containsID (obj_field fw ''bootsequence'') i) (StillInBootsequence i) @
                  note_if (containsID (obj_field fw ''displayorder'') i) (StillInDisplayOrder i))"

definition bootChainResidue :: "bcd_object list \<Rightarrow> string \<Rightarrow> chain_problem list" where
  "bootChainResidue objs guid = concat (map (residue_of objs) (wootcEntryIDs objs guid))"

text \<open>
  What a confirmed rollback means: no object is a wootc entry, and the journaled entry is gone
  from the store, from the one-shot and from the permanent order.
\<close>

definition windows_clean :: "bcd_object list \<Rightarrow> string \<Rightarrow> bool" where
  "windows_clean objs guid \<longleftrightarrow>
     (\<forall>ob\<in>set objs. validBCDGUID (bo_id ob) \<longrightarrow> \<not> wootc_described ob) \<and>
     (validBCDGUID guid \<longrightarrow> findBCDObject objs guid = None \<and>
        (\<forall>fw. findBCDObject objs fwbootmgr = Some fw \<longrightarrow>
           \<not> containsID (obj_field fw ''bootsequence'') guid \<and>
           \<not> containsID (obj_field fw ''displayorder'') guid))"

lemma residue_of_fold: "equal_fold i j \<Longrightarrow> residue_of objs i = [] \<longleftrightarrow> residue_of objs j = []"
  by (auto simp: residue_of_def findBCDObject_fold [of i j] containsID_fold [of i j]
      split: option.splits)

lemma residue_of_object:
  assumes "ob \<in> set objs"
  shows "residue_of objs (bo_id ob) \<noteq> []"
proof -
  from assms have "findBCDObject objs (bo_id ob) \<noteq> None"
    unfolding findBCDObject_None using equal_fold_refl by blast
  then show ?thesis by (simp add: residue_of_def)
qed

lemma bootChainResidue_Nil: "bootChainResidue objs guid = [] \<longleftrightarrow> windows_clean objs guid"
proof
  assume "bootChainResidue objs guid = []"
  then have none: "\<forall>i\<in>set (wootcEntryIDs objs guid). residue_of objs i = []"
    by (simp add: bootChainResidue_def concat_map_Nil)
  have "\<not> wootc_described ob" if "ob \<in> set objs" "validBCDGUID (bo_id ob)" for ob
    using that none residue_of_object wootcEntryIDs_complete by blast
  moreover have "residue_of objs guid = []" if "validBCDGUID guid"
  proof -
    from wootcEntryIDs_guid [OF that, of objs] obtain v where
      "v \<in> set (wootcEntryIDs objs guid)" "equal_fold v guid" by (auto simp: containsID_iff)
    with none residue_of_fold show ?thesis by blast
  qed
  ultimately show "windows_clean objs guid"
    by (auto simp: windows_clean_def residue_of_def split: option.splits)
next
  assume clean: "windows_clean objs guid"
  have "residue_of objs i = []" if i: "i \<in> set (wootcEntryIDs objs guid)" for i
  proof -
    have vi: "validBCDGUID i" using i by (rule wootcEntryIDs_valid)
    have fold: "equal_fold i guid"
      using wootcEntryIDs_attributed [OF i] clean vi by (auto simp: windows_clean_def)
    with vi have "validBCDGUID guid" by (simp add: validBCDGUID_fold [symmetric])
    with clean have "residue_of objs guid = []"
      by (auto simp: windows_clean_def residue_of_def split: option.splits)
    with fold residue_of_fold show ?thesis by blast
  qed
  then show "bootChainResidue objs guid = []"
    by (simp add: bootChainResidue_def concat_map_Nil)
qed

end
