(* ===== verification/Boot_Txn.thy ===== *)
theory Boot_Txn
  imports Boot_Chain Lifecycle
begin

text \<open>
  The boot-chain transaction (\<open>app/boot_txn.go\<close>): journal, entry creation, arming,
  rollback and the start-up decision. \<open>bootChainEnv\<close> is a record of functions in the code,
  and it is one here: bcdedit, the ESP, the journal file and the clock are external, so every
  theorem holds for whatever they answer. The machine is the state type \<open>'s\<close> that each
  call returns updated. An error is \<open>Some\<close> text.
\<close>

record 's boot_chain_env =
  bcdedit :: "string list \<Rightarrow> 's \<Rightarrow> (string \<times> string option) \<times> 's"
  hashESP :: "string list \<Rightarrow> 's \<Rightarrow> string smap \<times> 's"
  saveTxn :: "boot_txn \<Rightarrow> 's \<Rightarrow> string option \<times> 's"
  onEntry :: "string \<Rightarrow> 's \<Rightarrow> string option \<times> 's"
  sleepFor :: "nat \<Rightarrow> 's \<Rightarrow> 's"
  clockNow :: "'s \<Rightarrow> string \<times> 's"

text \<open>Most steps return the error, if any, and the transaction they updated in place.\<close>

type_synonym 's txn_result = "(boot_error option \<times> boot_txn) \<times> 's"

definition env_save :: "'s boot_chain_env \<Rightarrow> boot_txn \<Rightarrow> string \<Rightarrow> 's \<Rightarrow> 's txn_result" where
  "env_save env txn phase s =
     (let (now, s1) = clockNow env s;
          txn1 = txn\<lparr>tx_phase := phase, tx_updated := now\<rparr>;
          (r, s2) = saveTxn env txn1 s1
      in ((map_option (JournalFailed phase) r, txn1), s2))"

text \<open>The last \<open>n\<close> bytes of a command's output.\<close>

definition tail_bytes :: "string \<Rightarrow> nat \<Rightarrow> string" where
  "tail_bytes t n = (if length t \<le> n then t else ''...'' @ drop (length t - n) t)"

definition enum_command :: "string list" where
  "enum_command = [''/enum'', ''firmware'']"

definition observeFirmware ::
  "'s boot_chain_env \<Rightarrow> 's \<Rightarrow> (boot_error + bcd_object list) \<times> 's" where
  "observeFirmware env s =
     (case bcdedit env enum_command s of
        ((out, Some e), s1) \<Rightarrow> (Inl (EnumFailed e (tail_bytes out 400)), s1)
      | ((out, None), s1) \<Rightarrow>
          (let objs = parseBCDEnum out
           in if findBCDObject objs fwbootmgr = None
              then (Inl (NoFirmwareManager (length out)), s1)
              else (Inr objs, s1)))"

subsection \<open>Removing wootc entries\<close>

definition drop_from_sequence :: "string \<Rightarrow> string list" where
  "drop_from_sequence i = [''/set'', fwbootmgr, ''bootsequence'', i, ''/remove'']"

definition drop_from_order :: "string \<Rightarrow> string list" where
  "drop_from_order i = [''/set'', fwbootmgr, ''displayorder'', i, ''/remove'']"

definition delete_entry :: "string \<Rightarrow> string list" where
  "delete_entry i = [''/delete'', i]"

definition clear_sequence :: "string list" where
  "clear_sequence = [''/deletevalue'', fwbootmgr, ''bootsequence'']"

definition sequence_commands :: "string list \<Rightarrow> string list \<Rightarrow> string list list" where
  "sequence_commands ids sq =
     (if sq \<noteq> [] \<and> list_all (containsID ids) sq then [clear_sequence]
      else map drop_from_sequence (filter (containsID ids) sq))"

definition sweep_commands :: "bcd_object list \<Rightarrow> string \<Rightarrow> string list list" where
  "sweep_commands objs guid =
     (let ids = wootcEntryIDs objs guid
      in (case findBCDObject objs fwbootmgr of
            None \<Rightarrow> []
          | Some fw \<Rightarrow> sequence_commands ids (obj_field fw ''bootsequence'')) @
         concat (map (\<lambda>i. [drop_from_order i, delete_entry i]) ids))"

definition blind_sweep_commands :: "string \<Rightarrow> string list list" where
  "blind_sweep_commands guid =
     (if validBCDGUID guid
      then [drop_from_sequence guid, drop_from_order guid, delete_entry guid] else [])"

text \<open>Command results are ignored on purpose; the caller observes afterwards.\<close>

definition run_commands :: "'s boot_chain_env \<Rightarrow> string list list \<Rightarrow> 's \<Rightarrow> 's" where
  "run_commands env cmds s = foldl (\<lambda>s c. snd (bcdedit env c s)) s cmds"

definition sweepWootcEntries :: "'s boot_chain_env \<Rightarrow> string \<Rightarrow> 's \<Rightarrow> 's" where
  "sweepWootcEntries env guid s =
     (case observeFirmware env s of
        (Inl _, s1) \<Rightarrow> run_commands env (blind_sweep_commands guid) s1
      | (Inr objs, s1) \<Rightarrow> run_commands env (sweep_commands objs guid) s1)"

subsection \<open>Building an inert entry\<close>

definition menu_command :: "string list" where
  "menu_command = [''/displayorder'', ''{current}'', ''/addfirst'']"

definition copy_command :: "string list" where
  "copy_command = [''/copy'', ''{bootmgr}'', ''/d'', ''wootc'']"

definition path_command :: "string \<Rightarrow> string \<Rightarrow> string list" where
  "path_command guid p = [''/set'', guid, ''path'', p]"

definition verify_entry :: "'s boot_chain_env \<Rightarrow> boot_txn \<Rightarrow> 's \<Rightarrow> 's txn_result" where
  "verify_entry env txn s =
     (case observeFirmware env s of
        (Inl e, s1) \<Rightarrow> ((Some e, txn), s1)
      | (Inr objs, s1) \<Rightarrow>
          (let (hashes, s2) = hashESP env (stagedRels (tx_hashes txn)) s1;
               p = bootChainProblems objs txn hashes False
           in ((if p = [] then None else Some (EntryNotVerified p), txn), s2)))"

text \<open>From the created entry on: journal its GUID, point it at the loader, record it, look.\<close>

definition finish_entry :: "'s boot_chain_env \<Rightarrow> boot_txn \<Rightarrow> 's \<Rightarrow> 's txn_result" where
  "finish_entry env txn s =
     (case env_save env txn txnEntryCreated s of
        ((Some e, txn1), s1) \<Rightarrow> ((Some e, txn1), s1)
      | ((None, txn1), s1) \<Rightarrow>
        (case bcdedit env (path_command (tx_guid txn1) (tx_efi_path txn1)) s1 of
           ((out, Some e), s2) \<Rightarrow> ((Some (SetPathFailed e out), txn1), s2)
         | ((out, None), s2) \<Rightarrow>
           (let s3 = snd (bcdedit env (drop_from_order (tx_guid txn1)) s2)
            in case onEntry env (tx_guid txn1) s3 of
                 (Some e, s4) \<Rightarrow> ((Some (OnEntryFailed (tx_guid txn1) e), txn1), s4)
               | (None, s4) \<Rightarrow> verify_entry env txn1 s4)))"

definition buildBootEntry :: "'s boot_chain_env \<Rightarrow> boot_txn \<Rightarrow> 's \<Rightarrow> 's txn_result" where
  "buildBootEntry env txn s =
     (let s1 = sweepWootcEntries env (tx_guid txn) s;
          txn1 = txn\<lparr>tx_guid := []\<rparr>;
          s2 = snd (bcdedit env menu_command s1)
      in case env_save env txn1 txnCreatingEntry s2 of
           ((Some e, txn2), s3) \<Rightarrow> ((Some e, txn2), s3)
         | ((None, txn2), s3) \<Rightarrow>
           (case bcdedit env copy_command s3 of
              ((out, Some e), s4) \<Rightarrow> ((Some (CopyFailed e out), txn2), s4)
            | ((out, None), s4) \<Rightarrow>
                (let guid = find_bcd_guid out
                 in if guid = [] then ((Some (NoGuidInOutput out), txn2), s4)
                    else finish_entry env (txn2\<lparr>tx_guid := guid\<rparr>) s4)))"

subsection \<open>Rollback\<close>

definition rollback_attempt :: "'s boot_chain_env \<Rightarrow> boot_txn \<Rightarrow> 's \<Rightarrow> boot_error option \<times> 's" where
  "rollback_attempt env txn s =
     (case observeFirmware env (sweepWootcEntries env (tx_guid txn) s) of
        (Inl e, s1) \<Rightarrow> (Some e, s1)
      | (Inr objs, s1) \<Rightarrow>
          (let p = bootChainResidue objs (tx_guid txn)
           in (if p = [] then None else Some (ResidueSeen p), s1)))"

definition rollback_give_up ::
  "'s boot_chain_env \<Rightarrow> boot_txn \<Rightarrow> boot_error \<Rightarrow> 's \<Rightarrow> 's txn_result" where
  "rollback_give_up env txn problems s =
     (let msg = RollbackNotConfirmed problems;
          txn1 = txn\<lparr>tx_error := Some (case tx_error txn of Some e \<Rightarrow> BothErrors e msg | None \<Rightarrow> msg)\<rparr>;
          ((_, txn2), s1) = env_save env txn1 txnRollbackUnconfirmed s
      in ((Some msg, txn2), s1))"

text \<open>
  \<open>left\<close> counts the attempts after this one: the code makes two, with a pause in between.
\<close>

fun rollback_attempts :: "'s boot_chain_env \<Rightarrow> nat \<Rightarrow> boot_txn \<Rightarrow> 's \<Rightarrow> 's txn_result" where
  "rollback_attempts env left txn s =
     (case rollback_attempt env txn s of
        (None, s1) \<Rightarrow> env_save env txn txnRolledBack s1
      | (Some e, s1) \<Rightarrow>
          (case left of
             0 \<Rightarrow> rollback_give_up env txn e s1
           | Suc n \<Rightarrow> rollback_attempts env n txn (sleepFor env 2 s1)))"

declare rollback_attempts.simps [simp del]

definition rollbackBootChainTxn :: "'s boot_chain_env \<Rightarrow> boot_txn \<Rightarrow> 's \<Rightarrow> 's txn_result" where
  "rollbackBootChainTxn env txn s =
     (let ((_, txn1), s1) = env_save env txn txnRollingBack s
      in rollback_attempts env 1 txn1 s1)"

definition rollbackAfter ::
  "'s boot_chain_env \<Rightarrow> boot_txn \<Rightarrow> boot_error \<Rightarrow> 's \<Rightarrow> 's txn_result" where
  "rollbackAfter env txn cause s =
     (case rollbackBootChainTxn env (txn\<lparr>tx_error := Some cause\<rparr>) s of
        ((Some e, txn1), s1) \<Rightarrow> ((Some (RollbackAlsoFailed cause e), txn1), s1)
      | ((None, txn1), s1) \<Rightarrow> ((Some (RolledBack cause), txn1), s1))"

subsection \<open>Begin and arm\<close>

definition begin_attempt :: "'s boot_chain_env \<Rightarrow> boot_txn \<Rightarrow> 's \<Rightarrow> 's txn_result" where
  "begin_attempt env txn s =
     (case buildBootEntry env txn s of
        ((Some e, txn1), s1) \<Rightarrow> ((Some e, txn1), s1)
      | ((None, txn1), s1) \<Rightarrow> env_save env txn1 txnPrepared s1)"

text \<open>\<open>a\<close> is the attempt's number, \<open>left\<close> how many may follow it.\<close>

fun begin_attempts :: "'s boot_chain_env \<Rightarrow> nat \<Rightarrow> nat \<Rightarrow> boot_txn \<Rightarrow> 's \<Rightarrow> 's txn_result" where
  "begin_attempts env a left txn s =
     (case begin_attempt env txn s of
        ((None, txn1), s1) \<Rightarrow> ((None, txn1), s1)
      | ((Some e, txn1), s1) \<Rightarrow>
          (case left of
             0 \<Rightarrow> ((Some e, txn1), s1)
           | Suc n \<Rightarrow> begin_attempts env (Suc a) n txn1 (sleepFor env (2 * a) s1)))"

declare begin_attempts.simps [simp del]

definition new_txn :: "string \<Rightarrow> string smap \<Rightarrow> string \<Rightarrow> boot_txn" where
  "new_txn efiPath staged now =
     \<lparr>tx_phase = [], tx_guid = [], tx_efi_path = efiPath, tx_hashes = staged, tx_started = now,
      tx_updated = [], tx_error = None\<rparr>"

definition beginBootChainTxn ::
  "'s boot_chain_env \<Rightarrow> string \<Rightarrow> string smap \<Rightarrow> 's \<Rightarrow> 's txn_result" where
  "beginBootChainTxn env efiPath staged s =
     (let (now, s1) = clockNow env s;
          txn = new_txn efiPath staged now;
          (hashes, s2) = hashESP env (stagedRels staged) s1;
          p = espChainProblems efiPath staged hashes
      in if p \<noteq> [] then ((Some (StagedNotVerified p), txn), s2)
         else (case env_save env txn txnBegun s2 of
             ((Some e, txn1), s3) \<Rightarrow> ((Some (BcdUnchanged e), txn1), s3)
           | ((None, txn1), s3) \<Rightarrow>
             (case begin_attempts env 1 2 txn1 s3 of
                ((None, txn2), s4) \<Rightarrow> ((None, txn2), s4)
              | ((Some e, txn2), s4) \<Rightarrow> rollbackAfter env txn2 (CreatingEntry e) s4)))"

definition arm_command :: "string \<Rightarrow> string list" where
  "arm_command guid = [''/set'', fwbootmgr, ''bootsequence'', guid, ''/addfirst'']"

text \<open>One attempt at the commit point, once the entry is in place.\<close>

definition arm_now :: "'s boot_chain_env \<Rightarrow> boot_txn \<Rightarrow> 's \<Rightarrow> 's txn_result" where
  "arm_now env txn s =
     (case env_save env txn txnArming s of
        ((Some e, txn1), s1) \<Rightarrow> ((Some e, txn1), s1)
      | ((None, txn1), s1) \<Rightarrow>
        (case bcdedit env (arm_command (tx_guid txn1)) s1 of
           ((out, Some e), s2) \<Rightarrow> ((Some (BootsequenceFailed e out), txn1), s2)
         | ((out, None), s2) \<Rightarrow>
           (case observeFirmware env s2 of
              (Inl e, s3) \<Rightarrow> ((Some e, txn1), s3)
            | (Inr objs, s3) \<Rightarrow>
              (let (hashes, s4) = hashESP env (stagedRels (tx_hashes txn1)) s3;
                   p = bootChainProblems objs txn1 hashes True
               in if p \<noteq> [] then ((Some (ArmedNotVerified p), txn1), s4)
                  else env_save env txn1 txnCommitted s4))))"

definition arm_attempt :: "'s boot_chain_env \<Rightarrow> nat \<Rightarrow> boot_txn \<Rightarrow> 's \<Rightarrow> 's txn_result" where
  "arm_attempt env a txn s =
     (if 1 < a
      then (case buildBootEntry env txn (sleepFor env (2 * a) s) of
              ((Some e, txn1), s1) \<Rightarrow> ((Some e, txn1), s1)
            | ((None, txn1), s1) \<Rightarrow> arm_now env txn1 s1)
      else arm_now env txn s)"

fun arm_attempts :: "'s boot_chain_env \<Rightarrow> nat \<Rightarrow> nat \<Rightarrow> boot_txn \<Rightarrow> 's \<Rightarrow> 's txn_result" where
  "arm_attempts env a left txn s =
     (case arm_attempt env a txn s of
        ((None, txn1), s1) \<Rightarrow> ((None, txn1), s1)
      | ((Some e, txn1), s1) \<Rightarrow>
          (case left of
             0 \<Rightarrow> ((Some e, txn1), s1)
           | Suc n \<Rightarrow> arm_attempts env (Suc a) n txn1 s1))"

declare arm_attempts.simps [simp del]

definition armBootChainTxn :: "'s boot_chain_env \<Rightarrow> boot_txn \<Rightarrow> 's \<Rightarrow> 's txn_result" where
  "armBootChainTxn env txn s =
     (if tx_phase txn \<noteq> txnPrepared \<and> tx_phase txn \<noteq> txnArming
      then ((Some (NotPrepared (tx_phase txn)), txn), s)
      else (case arm_attempts env 1 2 txn s of
              ((None, txn1), s1) \<Rightarrow> ((None, txn1), s1)
            | ((Some e, txn1), s1) \<Rightarrow> rollbackAfter env txn1 (ArmingFailed e) s1))"

subsection \<open>Startup recovery\<close>

definition bootTxnKeep :: string where "bootTxnKeep = ''keep''"
definition bootTxnRollback :: string where "bootTxnRollback = ''rollback''"
definition bootTxnMarkCommitted :: string where "bootTxnMarkCommitted = ''mark-committed''"

definition bootTxnStartupAction :: "boot_txn \<Rightarrow> bool \<Rightarrow> lifecycle_state \<Rightarrow> string" where
  "bootTxnStartupAction txn deployerStarted ls =
     (if tx_phase txn = txnCommitted \<or> tx_phase txn = txnRolledBack then bootTxnKeep
      else if tx_phase txn = txnArming then
        (if deployerStarted \<or> ls_state ls = StateDeploying \<or> ls_state ls = StateDeployed \<or>
            ls_state ls = StateHealthy
         then bootTxnMarkCommitted else bootTxnRollback)
      else bootTxnRollback)"

end
