(* ===== verification/Boot_Trace.thy ===== *)
theory Boot_Trace
  imports Boot_Txn
begin

text \<open>
  What the transaction does to the machine, as a sequence of observable events. \<open>traced env\<close>
  answers like \<open>env\<close> and records every call with its answer, newest first. The lemmas say
  which events each step may add, and that tracing changes no result.
\<close>

datatype boot_event =
    Bcd "string list" "string \<times> string option"
  | Hashed "string list" "string smap"
  | Saved boot_txn "string option"
  | Recorded string "string option"
  | Slept nat

definition traced :: "'s boot_chain_env \<Rightarrow> ('s \<times> boot_event list) boot_chain_env" where
  "traced env =
     \<lparr>bcdedit = (\<lambda>c (s, tr). let (r, s1) = bcdedit env c s in (r, s1, Bcd c r # tr)),
      hashESP = (\<lambda>rels (s, tr). let (h, s1) = hashESP env rels s in (h, s1, Hashed rels h # tr)),
      saveTxn = (\<lambda>t (s, tr). let (r, s1) = saveTxn env t s in (r, s1, Saved t r # tr)),
      onEntry = (\<lambda>g (s, tr). let (r, s1) = onEntry env g s in (r, s1, Recorded g r # tr)),
      sleepFor = (\<lambda>n (s, tr). (sleepFor env n s, Slept n # tr)),
      clockNow = (\<lambda>(s, tr). let (t, s1) = clockNow env s in (t, s1, tr))\<rparr>"

subsection \<open>Steps that only add events of one kind\<close>

definition adds :: "(boot_event \<Rightarrow> bool) \<Rightarrow> 's \<times> boot_event list \<Rightarrow> 's \<times> boot_event list \<Rightarrow> bool" where
  "adds Q w w' \<longleftrightarrow> (\<exists>evs. snd w' = evs @ snd w \<and> (\<forall>e\<in>set evs. Q e))"

lemma adds_refl [simp]: "adds Q w w"
  by (simp add: adds_def)

lemma adds_trans: "adds Q w w1 \<Longrightarrow> adds Q w1 w2 \<Longrightarrow> adds Q w w2"
proof -
  assume "adds Q w w1" "adds Q w1 w2"
  then obtain e1 e2 where "snd w1 = e1 @ snd w" "\<forall>e\<in>set e1. Q e"
    "snd w2 = e2 @ snd w1" "\<forall>e\<in>set e2. Q e"
    unfolding adds_def by blast
  then show ?thesis unfolding adds_def by (intro exI [of _ "e2 @ e1"]) auto
qed

lemma adds_mono: "adds Q w w' \<Longrightarrow> (\<And>e. Q e \<Longrightarrow> R e) \<Longrightarrow> adds R w w'"
  by (auto simp: adds_def)

lemma adds_bcdedit:
  "bcdedit (traced env) c w = (r, w') \<Longrightarrow> (\<And>r. Q (Bcd c r)) \<Longrightarrow> adds Q w w'"
  by (cases w; cases r) (auto simp: traced_def adds_def split: prod.splits)

lemma adds_hash: "hashESP (traced env) rels w = (r, w') \<Longrightarrow> (\<And>h. Q (Hashed rels h)) \<Longrightarrow> adds Q w w'"
  by (cases w) (auto simp: traced_def adds_def split: prod.splits)

lemma adds_record: "onEntry (traced env) g w = (r, w') \<Longrightarrow> (\<And>r. Q (Recorded g r)) \<Longrightarrow> adds Q w w'"
  by (cases w) (auto simp: traced_def adds_def split: prod.splits)

lemma adds_sleep: "(\<And>n. Q (Slept n)) \<Longrightarrow> adds Q w (sleepFor (traced env) n w)"
  by (cases w) (auto simp: traced_def adds_def)

lemma adds_clock: "clockNow (traced env) w = (t, w') \<Longrightarrow> adds Q w w'"
  by (cases w) (auto simp: traced_def adds_def split: prod.splits)

lemma env_save_traced:
  assumes "env_save (traced env) txn phase w = ((r, txn'), w')"
  obtains q where "snd w' = Saved txn' q # snd w" "r = map_option (JournalFailed phase) q"
    "tx_phase txn' = phase" "tx_guid txn' = tx_guid txn" "tx_efi_path txn' = tx_efi_path txn"
    "tx_hashes txn' = tx_hashes txn" "tx_error txn' = tx_error txn"
    "tx_started txn' = tx_started txn"
  using assms
  by (cases w) (auto simp: env_save_def traced_def Let_def split: prod.splits)

lemma adds_save:
  "env_save (traced env) txn phase w = (x, w') \<Longrightarrow>
     (\<And>t q. tx_phase t = phase \<Longrightarrow> Q (Saved t q)) \<Longrightarrow> adds Q w w'"
  by (cases w) (auto simp: env_save_def traced_def adds_def Let_def split: prod.splits)

lemma observe_traced:
  assumes "observeFirmware (traced env) w = (x, w')"
  obtains out r where "snd w' = Bcd enum_command (out, r) # snd w"
    "\<And>objs. x = Inr objs \<Longrightarrow> r = None \<and> objs = parseBCDEnum out \<and> findBCDObject objs fwbootmgr \<noteq> None"
  using assms
  by (cases w) (auto simp: observeFirmware_def traced_def Let_def split: prod.splits option.splits
      if_splits)

lemma adds_observe:
  "observeFirmware (traced env) w = (x, w') \<Longrightarrow> (\<And>r. Q (Bcd enum_command r)) \<Longrightarrow> adds Q w w'"
  by (erule observe_traced) (auto simp: adds_def)

lemma adds_commands:
  "\<forall>c\<in>set cmds. \<forall>r. Q (Bcd c r) \<Longrightarrow> adds Q w (run_commands (traced env) cmds w)"
proof (induction cmds arbitrary: w)
  case Nil
  then show ?case by (simp add: run_commands_def)
next
  case (Cons c cmds)
  let ?w1 = "snd (bcdedit (traced env) c w)"
  have "adds Q w ?w1"
    by (rule adds_bcdedit [of env c w "fst (bcdedit (traced env) c w)"]) (use Cons.prems in auto)
  moreover have "adds Q ?w1 (run_commands (traced env) cmds ?w1)"
    using Cons by simp
  ultimately show ?case
    unfolding run_commands_def by (simp add: adds_trans)
qed

subsection \<open>Sweeping touches only attributable entries\<close>

text \<open>
  An entry is attributable when it has a full GUID and either an object of that name is
  described as wootc or it is the journaled GUID.
\<close>

definition attributable :: "bcd_object list \<Rightarrow> string \<Rightarrow> string \<Rightarrow> bool" where
  "attributable objs guid i \<longleftrightarrow> validBCDGUID i \<and>
     (equal_fold i guid \<or> (\<exists>ob\<in>set objs. equal_fold (bo_id ob) i \<and> wootc_described ob))"

definition removal_of :: "(string \<Rightarrow> bool) \<Rightarrow> string list \<Rightarrow> bool" where
  "removal_of ours c \<longleftrightarrow>
     (\<exists>i. ours i \<and> (c = drop_from_sequence i \<or> c = drop_from_order i \<or> c = delete_entry i))"

lemma entry_ids_attributable:
  assumes "i \<in> set (wootcEntryIDs objs guid)"
  shows "attributable objs guid i"
proof -
  have "validBCDGUID i" using assms by (rule wootcEntryIDs_valid)
  with wootcEntryIDs_attributed [OF assms] show ?thesis
    by (auto simp: attributable_def)
qed

lemma contained_attributable:
  assumes "containsID (wootcEntryIDs objs guid) i"
  shows "attributable objs guid i"
proof -
  from assms obtain v where v: "v \<in> set (wootcEntryIDs objs guid)" "equal_fold v i"
    by (auto simp: containsID_iff)
  then have "attributable objs guid v" by (simp add: entry_ids_attributable)
  with v(2) show ?thesis
    using validBCDGUID_fold [of v i] equal_fold_trans equal_fold_sym
    unfolding attributable_def by blast
qed

lemma sequence_commands_ours:
  assumes "\<And>i. containsID ids i \<Longrightarrow> ours i" "c \<in> set (sequence_commands ids sq)"
  shows "removal_of ours c \<or> (c = clear_sequence \<and> sq \<noteq> [] \<and> (\<forall>i\<in>set sq. ours i))"
  using assms by (auto simp: sequence_commands_def removal_of_def list_all_iff split: if_splits)

lemma sweep_commands_ours:
  assumes "c \<in> set (sweep_commands objs guid)"
  shows "removal_of (attributable objs guid) c \<or>
     (c = clear_sequence \<and> (\<exists>fw. findBCDObject objs fwbootmgr = Some fw \<and>
        obj_field fw ''bootsequence'' \<noteq> [] \<and>
        (\<forall>i\<in>set (obj_field fw ''bootsequence''). attributable objs guid i)))"
proof -
  let ?ids = "wootcEntryIDs objs guid"
  from assms consider
      i where "i \<in> set ?ids" "c = drop_from_order i \<or> c = delete_entry i"
    | fw where "findBCDObject objs fwbootmgr = Some fw"
        "c \<in> set (sequence_commands ?ids (obj_field fw ''bootsequence''))"
    by (cases "findBCDObject objs fwbootmgr") (auto simp: sweep_commands_def Let_def)
  then show ?thesis
  proof cases
    case (1 i)
    then have "removal_of (attributable objs guid) c"
      unfolding removal_of_def using entry_ids_attributable by blast
    then show ?thesis ..
  next
    case (2 fw)
    from sequence_commands_ours [of ?ids "attributable objs guid" c, OF contained_attributable 2(2)]
    have "removal_of (attributable objs guid) c \<or> (c = clear_sequence \<and>
        obj_field fw ''bootsequence'' \<noteq> [] \<and>
        (\<forall>i\<in>set (obj_field fw ''bootsequence''). attributable objs guid i))" .
    with 2(1) show ?thesis by blast
  qed
qed

lemma blind_commands_ours:
  "c \<in> set (blind_sweep_commands guid) \<Longrightarrow> removal_of (attributable objs guid) c"
  by (auto simp: blind_sweep_commands_def removal_of_def attributable_def split: if_splits)

text \<open>The trace of a sweep: one listing, then exactly the planned commands.\<close>

lemma run_commands_traced:
  "\<exists>rs. length rs = length cmds \<and>
     snd (run_commands (traced env) cmds w) = rev (map2 Bcd cmds rs) @ snd w"
proof (induction cmds arbitrary: w)
  case Nil
  then show ?case by (simp add: run_commands_def)
next
  case (Cons c cmds)
  obtain s tr where w: "w = (s, tr)" by (cases w)
  obtain r s1 where b: "bcdedit env c s = (r, s1)" by (cases "bcdedit env c s")
  from Cons.IH [of "(s1, Bcd c r # tr)"] obtain rs where
    "length rs = length cmds"
    "snd (run_commands (traced env) cmds (s1, Bcd c r # tr)) =
       rev (map2 Bcd cmds rs) @ Bcd c r # tr" by auto
  then show ?case
    using w b by (intro exI [of _ "r # rs"]) (simp add: run_commands_def traced_def)
qed

subsection \<open>Nothing but \<open>armBootChainTxn\<close> arms\<close>

definition is_arm :: "string list \<Rightarrow> bool" where
  "is_arm c \<longleftrightarrow> (\<exists>g. c = arm_command g)"

definition quiet :: "boot_event \<Rightarrow> bool" where
  "quiet e \<longleftrightarrow> (\<forall>c r. e = Bcd c r \<longrightarrow> \<not> is_arm c)"

lemma quiet_events [simp]:
  "quiet (Bcd c r) \<longleftrightarrow> \<not> is_arm c" "quiet (Hashed rels h)" "quiet (Saved t q)"
  "quiet (Recorded g q)" "quiet (Slept n)"
  by (auto simp: quiet_def)

lemma commands_not_arm [simp]:
  "\<not> is_arm enum_command" "\<not> is_arm (drop_from_sequence i)" "\<not> is_arm (drop_from_order i)"
  "\<not> is_arm (delete_entry i)" "\<not> is_arm clear_sequence" "\<not> is_arm menu_command"
  "\<not> is_arm copy_command" "\<not> is_arm (path_command g p)" "is_arm (arm_command g)"
  by (auto simp: is_arm_def arm_command_def enum_command_def drop_from_sequence_def
      drop_from_order_def delete_entry_def clear_sequence_def menu_command_def copy_command_def
      path_command_def)

lemma sweep_commands_not_arm: "c \<in> set (sweep_commands objs guid) \<Longrightarrow> \<not> is_arm c"
  by (drule sweep_commands_ours) (auto simp: removal_of_def)

lemma blind_commands_not_arm: "c \<in> set (blind_sweep_commands guid) \<Longrightarrow> \<not> is_arm c"
  by (drule blind_commands_ours) (auto simp: removal_of_def)

lemma adds_sweep:
  assumes "\<And>r. Q (Bcd enum_command r)"
    and "\<And>objs c r. c \<in> set (sweep_commands objs guid) \<Longrightarrow> Q (Bcd c r)"
    and "\<And>c r. c \<in> set (blind_sweep_commands guid) \<Longrightarrow> Q (Bcd c r)"
  shows "adds Q w (sweepWootcEntries (traced env) guid w)"
proof -
  obtain x w1 where ob: "observeFirmware (traced env) w = (x, w1)"
    by (cases "observeFirmware (traced env) w")
  then have "adds Q w w1" using assms(1) by (rule adds_observe)
  moreover have "adds Q w1 (sweepWootcEntries (traced env) guid w)"
    using ob assms(2,3) by (auto simp: sweepWootcEntries_def split: sum.splits intro!: adds_commands)
  ultimately show ?thesis by (rule adds_trans)
qed

lemma quiet_sweep: "adds quiet w (sweepWootcEntries (traced env) guid w)"
  by (rule adds_sweep) (auto dest: sweep_commands_not_arm blind_commands_not_arm)

lemma quiet_env_save: "env_save (traced env) txn phase w = (x, w') \<Longrightarrow> adds quiet w w'"
  by (erule adds_save) simp

lemma quiet_observe: "observeFirmware (traced env) w = (x, w') \<Longrightarrow> adds quiet w w'"
  by (erule adds_observe) simp

lemma quiet_hash: "hashESP (traced env) rels w = (h, w') \<Longrightarrow> adds quiet w w'"
  by (erule adds_hash) simp

lemma quiet_record: "onEntry (traced env) g w = (r, w') \<Longrightarrow> adds quiet w w'"
  by (erule adds_record) simp

lemma quiet_bcdedit: "bcdedit (traced env) c w = (r, w') \<Longrightarrow> \<not> is_arm c \<Longrightarrow> adds quiet w w'"
  by (erule adds_bcdedit) simp

lemma quiet_bcdedit_snd: "\<not> is_arm c \<Longrightarrow> adds quiet w (snd (bcdedit (traced env) c w))"
  by (rule quiet_bcdedit [of env c w "fst (bcdedit (traced env) c w)"]) simp_all

lemma quiet_sleep: "adds quiet w (sleepFor (traced env) n w)"
  by (rule adds_sleep) simp

lemma quiet_verify: "verify_entry (traced env) txn w = (x, w') \<Longrightarrow> adds quiet w w'"
  by (auto simp: verify_entry_def Let_def split: prod.splits sum.splits
      dest!: quiet_observe quiet_hash intro: adds_trans)

lemma quiet_finish:
  assumes "finish_entry (traced env) txn w = (x, w')"
  shows "adds quiet w w'"
proof -
  obtain r txn1 w1 where save: "env_save (traced env) txn txnEntryCreated w = ((r, txn1), w1)"
    by (metis surj_pair)
  obtain out q w2 where path:
    "bcdedit (traced env) (path_command (tx_guid txn1) (tx_efi_path txn1)) w1 = ((out, q), w2)"
    by (metis surj_pair)
  let ?w3 = "snd (bcdedit (traced env) (drop_from_order (tx_guid txn1)) w2)"
  obtain r4 w4 where rec: "onEntry (traced env) (tx_guid txn1) ?w3 = (r4, w4)" by (metis surj_pair)
  have a1: "adds quiet w w1" using save by (rule quiet_env_save)
  have "adds quiet w1 w2" using path by (rule quiet_bcdedit) simp
  with a1 have a2: "adds quiet w w2" by (rule adds_trans)
  have "adds quiet w2 ?w3" by (rule quiet_bcdedit_snd) simp
  with a2 have "adds quiet w ?w3" by (rule adds_trans)
  from adds_trans [OF this quiet_record [OF rec]] have a4: "adds quiet w w4" .
  from a1 a2 a4 show ?thesis
    using assms save path rec
    by (auto simp: finish_entry_def Let_def split: option.splits dest!: quiet_verify
        intro: adds_trans)
qed

lemma quiet_build:
  assumes "buildBootEntry (traced env) txn w = (x, w')"
  shows "adds quiet w w'"
proof -
  let ?w1 = "sweepWootcEntries (traced env) (tx_guid txn) w"
  let ?w2 = "snd (bcdedit (traced env) menu_command ?w1)"
  obtain r txn2 w3 where save:
    "env_save (traced env) (txn\<lparr>tx_guid := []\<rparr>) txnCreatingEntry ?w2 = ((r, txn2), w3)"
    by (metis surj_pair)
  obtain out q w4 where copy: "bcdedit (traced env) copy_command w3 = ((out, q), w4)"
    by (metis surj_pair)
  have "adds quiet w ?w1" by (rule quiet_sweep)
  moreover have "adds quiet ?w1 ?w2" by (rule quiet_bcdedit_snd) simp
  ultimately have "adds quiet w ?w2" by (rule adds_trans)
  from adds_trans [OF this quiet_env_save [OF save]] have a3: "adds quiet w w3" .
  have "adds quiet w3 w4" using copy by (rule quiet_bcdedit) simp
  with a3 have a4: "adds quiet w w4" by (rule adds_trans)
  from a3 a4 show ?thesis
    using assms save copy
    by (auto simp: buildBootEntry_def Let_def split: option.splits if_splits dest!: quiet_finish
        intro: adds_trans)
qed

lemma quiet_rollback_attempt:
  "rollback_attempt (traced env) txn w = (x, w') \<Longrightarrow> adds quiet w w'"
  using quiet_sweep [of w env "tx_guid txn"]
  by (auto simp: rollback_attempt_def Let_def split: prod.splits sum.splits dest!: quiet_observe
      intro: adds_trans)

lemma quiet_give_up: "rollback_give_up (traced env) txn e w = (x, w') \<Longrightarrow> adds quiet w w'"
  by (auto simp: rollback_give_up_def Let_def split: prod.splits dest!: quiet_env_save)

lemma quiet_rollback_attempts:
  "rollback_attempts (traced env) left txn w = (x, w') \<Longrightarrow> adds quiet w w'"
proof (induction left arbitrary: w)
  case 0
  then show ?case
    by (auto simp: rollback_attempts.simps [of _ 0] split: prod.splits option.splits
        dest!: quiet_rollback_attempt quiet_env_save quiet_give_up intro: adds_trans)
next
  case (Suc n)
  obtain r w1 where att: "rollback_attempt (traced env) txn w = (r, w1)" by (metis surj_pair)
  then have "adds quiet w w1" by (rule quiet_rollback_attempt)
  moreover have "adds quiet w1 w'"
  proof (cases r)
    case None
    with Suc.prems att show ?thesis
      by (auto simp: rollback_attempts.simps [of _ "Suc n"] dest: quiet_env_save)
  next
    case (Some e)
    with Suc.prems att have "adds quiet (sleepFor (traced env) 2 w1) w'"
      by (intro Suc.IH) (simp add: rollback_attempts.simps [of _ "Suc n"])
    with quiet_sleep show ?thesis by (rule adds_trans)
  qed
  ultimately show ?case by (rule adds_trans)
qed

lemma quiet_rollback: "rollbackBootChainTxn (traced env) txn w = (x, w') \<Longrightarrow> adds quiet w w'"
  by (auto simp: rollbackBootChainTxn_def Let_def split: prod.splits
      dest!: quiet_env_save quiet_rollback_attempts intro: adds_trans)

lemma quiet_rollbackAfter: "rollbackAfter (traced env) txn c w = (x, w') \<Longrightarrow> adds quiet w w'"
  by (auto simp: rollbackAfter_def split: prod.splits option.splits dest!: quiet_rollback)

lemma quiet_begin_attempt: "begin_attempt (traced env) txn w = (x, w') \<Longrightarrow> adds quiet w w'"
  by (auto simp: begin_attempt_def split: prod.splits option.splits
      dest!: quiet_build quiet_env_save intro: adds_trans)

lemma quiet_begin_attempts:
  "begin_attempts (traced env) a left txn w = (x, w') \<Longrightarrow> adds quiet w w'"
proof (induction left arbitrary: a txn w)
  case 0
  then show ?case
    by (auto simp: begin_attempts.simps [of _ _ 0] split: prod.splits option.splits
        dest!: quiet_begin_attempt)
next
  case (Suc n)
  obtain r txn1 w1 where att: "begin_attempt (traced env) txn w = ((r, txn1), w1)"
    by (metis surj_pair)
  then have first: "adds quiet w w1" by (rule quiet_begin_attempt)
  show ?case
  proof (cases r)
    case None
    with Suc.prems att first show ?thesis by (simp add: begin_attempts.simps [of _ _ "Suc n"])
  next
    case (Some e)
    with Suc.prems att have "adds quiet (sleepFor (traced env) (2 * a) w1) w'"
      by (intro Suc.IH [of "Suc a" txn1]) (simp add: begin_attempts.simps [of _ _ "Suc n"])
    with first quiet_sleep show ?thesis by (blast intro: adds_trans)
  qed
qed

lemma quiet_begin:
  assumes "beginBootChainTxn (traced env) p staged w = (x, w')"
  shows "adds quiet w w'"
proof -
  obtain now w1 where c: "clockNow (traced env) w = (now, w1)" by (metis surj_pair)
  obtain h w2 where h: "hashESP (traced env) (stagedRels staged) w1 = (h, w2)" by (metis surj_pair)
  obtain r txn1 w3 where save:
    "env_save (traced env) (new_txn p staged now) txnBegun w2 = ((r, txn1), w3)"
    by (metis surj_pair)
  obtain r4 txn2 w4 where att: "begin_attempts (traced env) 1 2 txn1 w3 = ((r4, txn2), w4)"
    by (metis surj_pair)
  have a2: "adds quiet w w2" using adds_clock [OF c] quiet_hash [OF h] by (rule adds_trans)
  from adds_trans [OF a2 quiet_env_save [OF save]] have a3: "adds quiet w w3" .
  from adds_trans [OF a3 quiet_begin_attempts [OF att]] have a4: "adds quiet w w4" .
  from a2 a3 a4 show ?thesis
    using assms c h save att
    by (auto simp: beginBootChainTxn_def Let_def split: option.splits if_splits
        dest!: quiet_rollbackAfter intro: adds_trans)
qed

end
