(* ===== verification/Bcd_Roundtrip.thy ===== *)
theory Bcd_Roundtrip
  imports Bcd_Listing
begin

text \<open>
  Reading back what \<open>render_listing\<close> prints: the effect of the line parser on each kind of
  printed line, then on a field, an object and a whole listing.
\<close>

lemma printable_value_last: "printable_text v \<Longrightarrow> last (p @ v) = last v"
  by (simp add: printable_text_def)

lemma blank_trim_text: "printable_text v \<Longrightarrow> blank_trim (p @ v) = p @ v"
  by (rule blank_trim_id) (auto simp: printable_text_def)

lemma trim_space_line: "printable_text v \<Longrightarrow> trim_space (p @ v) \<noteq> []"
  by (rule trim_space_ne) (auto simp: printable_text_def intro!: bexI [of _ "last v"])

lemma trim_dashes_space: "\<exists>c\<in>set line. c \<noteq> CHR ''-'' \<Longrightarrow> trim_set line ''-'' \<noteq> []"
  unfolding trim_set_def by (rule trim_by_ne) simp

lemma trim_dashes_prefixed: "trim_set (k @ ''  '' @ v) ''-'' \<noteq> []"
  by (rule trim_dashes_space, rule bexI [of _ "CHR '' ''"]) simp_all

lemma match_field_line_key:
  assumes "printable_key k" and "printable_text v"
  shows "match_field_line (k @ ''  '' @ v) = Some (k, v)"
proof -
  have k: "\<forall>c\<in>set k. \<not> re_space c"
    using assms(1) re_space_is_space by (auto simp: printable_key_def)
  have v: "v \<noteq> []" "\<not> re_space (hd v)"
    using assms(2) re_space_is_space by (auto simp: printable_text_def)
  obtain c cs where cv: "v = c # cs" using v(1) by (cases v) auto
  have "takeWhile (\<lambda>c. \<not> re_space c) (k @ ''  '' @ v) = k"
    using k by (simp add: takeWhile_append2)
  moreover have "dropWhile (\<lambda>c. \<not> re_space c) (k @ ''  '' @ v) = ''  '' @ v"
    using k by (simp add: dropWhile_append2)
  ultimately show ?thesis
    using assms(1) v cv by (simp add: match_field_line_def printable_key_def Let_def)
qed

lemma hd_key:
  assumes "printable_key k"
  shows "hd (k @ r) \<noteq> CHR '' ''" "hd (k @ r) \<noteq> CHR 0x09"
proof -
  obtain c cs where "k = c # cs" using assms by (cases k) (auto simp: printable_key_def)
  with assms have "\<not> is_space (hd (k @ r))" by (simp add: printable_key_def)
  then show "hd (k @ r) \<noteq> CHR '' ''" "hd (k @ r) \<noteq> CHR 0x09" by auto
qed

text \<open>The branch of a field line, for any line the regular expression matches.\<close>

lemma parse_line_match:
  assumes "blank_trim line = line" "trim_space line \<noteq> []" "trim_set line ''-'' \<noteq> []"
    and "hd line \<noteq> CHR '' ''" "hd line \<noteq> CHR 0x09" and "match_field_line line = Some (k, v)"
  shows "parse_line s line =
    (let s1 = (if to_lower k = ''identifier''
               then s\<lparr>ps_objs := ps_objs s @ [\<lparr>bo_id = trim_space v, bo_fields = []\<rparr>],
                      ps_cur := Some (length (ps_objs s))\<rparr> else s)
     in case ps_cur s1 of None \<Rightarrow> s1
        | Some i \<Rightarrow> s1\<lparr>ps_objs := add_to_object i (to_lower k) (trim_space v) (ps_objs s1),
                     ps_last_key := to_lower k\<rparr>)"
  unfolding parse_line_def Let_def using assms by (simp del: to_lower_Nil_iff)

lemma parse_key_line:
  assumes "printable_key k" and "printable_text v"
  shows "parse_line s (k @ ''  '' @ v) =
    (let s1 = (if k = ''identifier''
               then s\<lparr>ps_objs := ps_objs s @ [\<lparr>bo_id = v, bo_fields = []\<rparr>],
                      ps_cur := Some (length (ps_objs s))\<rparr> else s)
     in case ps_cur s1 of None \<Rightarrow> s1
        | Some i \<Rightarrow> s1\<lparr>ps_objs := add_to_object i k v (ps_objs s1), ps_last_key := k\<rparr>)"
proof -
  have k: "to_lower k = k" using assms(1) by (simp add: printable_key_def)
  have "parse_line s (k @ ''  '' @ v) =
    (let s1 = (if to_lower k = ''identifier''
               then s\<lparr>ps_objs := ps_objs s @ [\<lparr>bo_id = trim_space v, bo_fields = []\<rparr>],
                      ps_cur := Some (length (ps_objs s))\<rparr> else s)
     in case ps_cur s1 of None \<Rightarrow> s1
        | Some i \<Rightarrow> s1\<lparr>ps_objs := add_to_object i (to_lower k) (trim_space v) (ps_objs s1),
                     ps_last_key := to_lower k\<rparr>)"
  proof (rule parse_line_match)
    show "blank_trim (k @ ''  '' @ v) = k @ ''  '' @ v"
      using assms(2) blank_trim_text [of v "k @ ''  ''"] by simp
    show "trim_space (k @ ''  '' @ v) \<noteq> []"
      using assms(2) trim_space_line [of v "k @ ''  ''"] by simp
  qed (rule trim_dashes_prefixed hd_key [OF assms(1)] match_field_line_key [OF assms])+
  then show ?thesis by (simp only: k trim_space_text [OF assms(2)])
qed

lemma parse_identifier_line:
  assumes "printable_text v"
  shows "parse_line s (''identifier'' @ ''  '' @ v) =
    s\<lparr>ps_objs := ps_objs s @ [\<lparr>bo_id = v, bo_fields = [(''identifier'', [v])]\<rparr>],
      ps_cur := Some (length (ps_objs s)), ps_last_key := ''identifier''\<rparr>"
proof -
  have "printable_key ''identifier''" by (simp add: printable_key_def) code_simp
  from parse_key_line [OF this assms, of s] show ?thesis
    by (simp add: add_new_object)
qed

text \<open>The state in the middle of an object: its list of fields is the last object's.\<close>

definition in_object :: "bcd_object list \<Rightarrow> string \<Rightarrow> string list smap \<Rightarrow> string \<Rightarrow> parse_state" where
  "in_object done_objs i fs key =
     \<lparr>ps_objs = done_objs @ [\<lparr>bo_id = i, bo_fields = fs\<rparr>], ps_cur = Some (length done_objs),
      ps_last_key = key\<rparr>"

lemma append_field_new: "k \<notin> fst ` set fs \<Longrightarrow> append_field k v fs = fs @ [(k, [v])]"
  by (induction fs) auto

lemma append_field_last:
  "k \<notin> fst ` set fs \<Longrightarrow> append_field k v (fs @ [(k, vs)]) = fs @ [(k, vs @ [v])]"
  by (induction fs) auto

lemma parse_field_line:
  assumes "printable_key k" "printable_text v" "k \<noteq> ''identifier''" "k \<notin> fst ` set fs"
  shows "parse_line (in_object d i fs key) (k @ ''  '' @ v) = in_object d i (fs @ [(k, [v])]) k"
  using parse_key_line [OF assms(1,2)] assms(3,4)
  by (simp add: in_object_def add_new_object append_field_new)

lemma parse_continuation:
  assumes "printable_text w" "k \<noteq> []" "k \<notin> fst ` set fs"
  shows "parse_line (in_object d i (fs @ [(k, vs)]) k) (''  '' @ w) =
           in_object d i (fs @ [(k, vs @ [w])]) k"
proof -
  have "blank_trim (''  '' @ w) = ''  '' @ w"
    using assms(1) by (rule blank_trim_text)
  moreover have "trim_space (''  '' @ w) = w" using assms(1) by (rule trim_space_indented)
  moreover have "trim_set (''  '' @ w) ''-'' \<noteq> []"
    using trim_dashes_prefixed [of "[]" w] by simp
  moreover have "w \<noteq> []" using assms(1) by (simp add: printable_text_def)
  ultimately show ?thesis
    using assms(2,3) unfolding parse_line_def in_object_def Let_def
    by (simp add: add_new_object append_field_last)
qed

lemma parse_continuations:
  assumes "\<forall>w\<in>set ws. printable_text w" "k \<noteq> []" "k \<notin> fst ` set fs"
  shows "foldl parse_line (in_object d i (fs @ [(k, vs)]) k) (map ((@) ''  '') ws) =
           in_object d i (fs @ [(k, vs @ ws)]) k"
  using assms(1)
proof (induction ws arbitrary: vs)
  case Nil
  then show ?case by simp
next
  case (Cons w ws)
  then have "parse_line (in_object d i (fs @ [(k, vs)]) k) (''  '' @ w) =
           in_object d i (fs @ [(k, vs @ [w])]) k"
    using assms by (intro parse_continuation) auto
  with Cons show ?case by simp
qed

definition printable_field :: "string \<times> string list \<Rightarrow> bool" where
  "printable_field f \<longleftrightarrow> printable_key (fst f) \<and> fst f \<noteq> ''identifier'' \<and> snd f \<noteq> [] \<and>
     (\<forall>v\<in>set (snd f). printable_text v)"

lemma parse_render_field:
  assumes "printable_field (k, vs)" "k \<notin> fst ` set fs"
  shows "foldl parse_line (in_object d i fs key) (render_field (k, vs)) =
           in_object d i (fs @ [(k, vs)]) k"
proof -
  obtain v ws where vs: "vs = v # ws" using assms(1) by (cases vs) (auto simp: printable_field_def)
  have "parse_line (in_object d i fs key) (k @ ''  '' @ v) = in_object d i (fs @ [(k, [v])]) k"
    using assms vs by (intro parse_field_line) (auto simp: printable_field_def)
  moreover have "k \<noteq> []" using assms(1) by (simp add: printable_field_def printable_key_def)
  ultimately show ?thesis
    using assms vs parse_continuations [of ws k fs d i "[v]"]
    by (simp add: render_field_def printable_field_def)
qed

lemma parse_render_fields:
  "\<forall>f\<in>set gs. printable_field f \<Longrightarrow> distinct (map fst (fs @ gs)) \<Longrightarrow>
   \<exists>key'. foldl parse_line (in_object d i fs key) (concat (map render_field gs)) =
           in_object d i (fs @ gs) key'"
proof (induction gs arbitrary: fs key)
  case Nil
  then show ?case by auto
next
  case (Cons g gs)
  obtain k vs where g: "g = (k, vs)" by (cases g)
  have "foldl parse_line (in_object d i fs key) (render_field (k, vs)) =
           in_object d i (fs @ [(k, vs)]) k"
    using Cons.prems g by (intro parse_render_field) auto
  with Cons.IH [of "fs @ [(k, vs)]" k] Cons.prems g show ?case by simp
qed

lemma parse_title: "parse_line s ''Firmware Application'' = s\<lparr>ps_cur := None, ps_last_key := []\<rparr>"
proof -
  have "match_field_line ''Firmware Application'' = None" by code_simp
  moreover have "blank_trim ''Firmware Application'' = ''Firmware Application''" by code_simp
  moreover have "trim_space ''Firmware Application'' \<noteq> []" by code_simp
  moreover have "trim_set ''Firmware Application'' ''-'' \<noteq> []" by code_simp
  ultimately show ?thesis unfolding parse_line_def Let_def by simp
qed

lemma parse_dashes: "parse_line s ''--------------------'' = s"
proof -
  have "blank_trim ''--------------------'' = ''--------------------''" by code_simp
  moreover have "trim_space ''--------------------'' \<noteq> []" by code_simp
  moreover have "trim_set ''--------------------'' ''-'' = []" by code_simp
  ultimately show ?thesis unfolding parse_line_def Let_def by simp
qed

lemma parse_blank: "parse_line s [] = s\<lparr>ps_cur := None, ps_last_key := []\<rparr>"
  by (simp add: parse_line_def blank_trim_def trim_right_set_def trim_space_def trim_by_def
      trim_left_by_def)

definition between :: "bcd_object list \<Rightarrow> parse_state" where
  "between objs = \<lparr>ps_objs = objs, ps_cur = None, ps_last_key = []\<rparr>"

lemma parse_render_object:
  assumes "printable_object ob"
  shows "foldl parse_line (between objs) (render_object ob) = between (objs @ [ob])"
proof -
  from assms obtain rest where
    fs: "bo_fields ob = (''identifier'', [bo_id ob]) # rest" and
    dist: "distinct (map fst (bo_fields ob))" and
    rest: "\<forall>(k, vs)\<in>set rest. printable_key k \<and> vs \<noteq> [] \<and> (\<forall>v\<in>set vs. printable_text v)"
    and idt: "printable_text (bo_id ob)"
    by (auto simp: printable_object_def)
  have pf: "\<forall>f\<in>set rest. printable_field f"
    using rest dist fs by (force simp: printable_field_def)
  have start: "parse_line (between objs) (''identifier'' @ ''  '' @ bo_id ob) =
     in_object objs (bo_id ob) [(''identifier'', [bo_id ob])] ''identifier''"
    using parse_identifier_line [OF idt, of "between objs"] by (simp add: between_def in_object_def)
  obtain key' where
    "foldl parse_line (in_object objs (bo_id ob) [(''identifier'', [bo_id ob])] ''identifier'')
       (concat (map render_field rest)) = in_object objs (bo_id ob) (bo_fields ob) key'"
    using parse_render_fields [OF pf, of "[(''identifier'', [bo_id ob])]" objs "bo_id ob"
        "''identifier''"] dist fs by auto
  with start show ?thesis
    by (simp add: render_object_def fs parse_title parse_dashes parse_blank render_field_def
        between_def [of objs, symmetric])
       (simp add: between_def in_object_def parse_title parse_dashes parse_blank fs [symmetric])
qed

lemma parse_render_objects:
  "\<forall>ob\<in>set gs. printable_object ob \<Longrightarrow>
   foldl parse_line (between objs) (concat (map render_object gs)) = between (objs @ gs)"
  by (induction gs arbitrary: objs) (simp_all add: parse_render_object)

subsection \<open>A whole listing\<close>

definition clean_line :: "string \<Rightarrow> bool" where
  "clean_line l \<longleftrightarrow> CHR 0x0A \<notin> set l \<and> CHR 0x0D \<notin> set l"

lemma clean_text: "printable_text v \<Longrightarrow> clean_line v"
  by (simp add: printable_text_def clean_line_def)

lemma clean_key: "printable_key k \<Longrightarrow> clean_line k"
  using space_chars(3,4) by (auto simp: printable_key_def clean_line_def simp del: space_chars)

lemma clean_append [simp]: "clean_line (a @ b) \<longleftrightarrow> clean_line a \<and> clean_line b"
  by (auto simp: clean_line_def)

lemma clean_constants [simp]:
  "clean_line []" "clean_line ''  ''" "clean_line ''Firmware Application''"
  "clean_line ''--------------------''" "clean_line ''identifier''"
  by (simp_all add: clean_line_def)

lemma render_field_clean:
  assumes "clean_line k" "\<forall>v\<in>set vs. clean_line v" "l \<in> set (render_field (k, vs))"
  shows "clean_line l"
proof (cases vs)
  case Nil
  with assms(3) show ?thesis by (simp add: render_field_def)
next
  case (Cons v ws)
  with assms(3) have "l = k @ ''  '' @ v \<or> (\<exists>w\<in>set ws. l = ''  '' @ w)"
    by (simp add: render_field_def image_iff)
  with assms(1,2) Cons show ?thesis by (auto simp del: append.simps)
qed

lemma render_object_clean:
  assumes "printable_object ob" "l \<in> set (render_object ob)"
  shows "clean_line l"
proof -
  from assms(1) obtain rest where
    fs: "bo_fields ob = (''identifier'', [bo_id ob]) # rest" and
    rest: "\<forall>(k, vs)\<in>set rest. printable_key k \<and> vs \<noteq> [] \<and> (\<forall>v\<in>set vs. printable_text v)"
    and idt: "printable_text (bo_id ob)"
    by (auto simp: printable_object_def)
  have field: "clean_line k \<and> (\<forall>v\<in>set vs. clean_line v)" if "(k, vs) \<in> set (bo_fields ob)" for k vs
    using that fs rest idt clean_key clean_text by auto
  from assms(2) consider "l = ''Firmware Application''" | "l = ''--------------------''" | "l = []"
    | k vs where "(k, vs) \<in> set (bo_fields ob)" "l \<in> set (render_field (k, vs))"
    by (auto simp: render_object_def)
  then show ?thesis
  proof cases
    case 4
    with field [of k vs] show ?thesis by (intro render_field_clean [of k vs l]) auto
  qed simp_all
qed

lemma listing_lines_join:
  assumes "ls \<noteq> []" "\<forall>l\<in>set ls. clean_line l"
  shows "listing_lines (join_with [CHR 0x0A] ls) = ls"
proof -
  have "CHR 0x0D \<notin> set (join_with [CHR 0x0A] ls)"
    using assms(2) by (induction "[CHR 0x0A]" ls rule: join_with.induct) (auto simp: clean_line_def)
  then have "crlf_to_lf (join_with [CHR 0x0A] ls) = join_with [CHR 0x0A] ls"
    by (rule crlf_to_lf_id)
  moreover have "split_on (CHR 0x0A) (join_with [CHR 0x0A] ls) = ls"
    using assms by (intro split_join) (auto simp: clean_line_def)
  ultimately show ?thesis by (simp add: listing_lines_def)
qed

lemma parse_render_listing:
  assumes "\<forall>ob\<in>set objs. printable_object ob"
  shows "parseBCDEnum (render_listing objs) = objs"
proof (cases "objs = []")
  case True
  then show ?thesis
    by (simp add: parseBCDEnum_def render_listing_def listing_lines_def parse_blank parse_init_def)
next
  case False
  let ?ls = "concat (map render_object objs)"
  have "?ls \<noteq> []" using False by (cases objs) (auto simp: render_object_def)
  moreover have "\<forall>l\<in>set ?ls. clean_line l"
    using assms render_object_clean by auto
  ultimately have "listing_lines (render_listing objs) = ?ls"
    unfolding render_listing_def by (rule listing_lines_join)
  moreover have "parse_init = between []" by (simp add: parse_init_def between_def)
  ultimately show ?thesis
    using parse_render_objects [OF assms, of "[]"] by (simp add: parseBCDEnum_def between_def)
qed

end
