(* ===== verification/Boot_Txn_Props.thy ===== *)
theory Boot_Txn_Props
  imports Boot_Trace Bcd_Roundtrip
begin

text \<open>
  The safety argument of the boot-chain transaction, over traces of arbitrary environments:
  success is claimed only from an observation, arming follows its journal record, cleanup
  touches only attributable entries and fails closed.
\<close>

lemma chain_as_intended_cong:
  "tx_guid t = tx_guid u \<Longrightarrow> tx_efi_path t = tx_efi_path u \<Longrightarrow> tx_hashes t = tx_hashes u \<Longrightarrow>
     chain_as_intended objs t esp w = chain_as_intended objs u esp w"
  by (simp add: chain_as_intended_def entry_as_intended_def)

lemma hash_traced:
  assumes "hashESP (traced env) rels w = (h, w')"
  shows "snd w' = Hashed rels h # snd w"
  using assms by (cases w) (auto simp: traced_def split: prod.splits)

lemma bcdedit_traced:
  assumes "bcdedit (traced env) c w = (r, w')"
  shows "snd w' = Bcd c r # snd w"
  using assms by (cases w) (auto simp: traced_def split: prod.splits)

lemma record_traced:
  assumes "onEntry (traced env) g w = (r, w')"
  shows "snd w' = Recorded g r # snd w"
  using assms by (cases w) (auto simp: traced_def split: prod.splits)

subsection \<open>A successful arm\<close>

definition armed_trace :: "boot_txn \<Rightarrow> boot_event list \<Rightarrow> bool" where
  "armed_trace txn tr \<longleftrightarrow>
     (\<exists>hashes out out2 t rest.
        tr = Saved txn None # Hashed (stagedRels (tx_hashes txn)) hashes #
             Bcd enum_command (out, None) # Bcd (arm_command (tx_guid txn)) (out2, None) #
             Saved t None # rest \<and>
        tx_phase t = txnArming \<and> tx_guid t = tx_guid txn \<and>
        chain_as_intended (parseBCDEnum out) txn hashes True)"

lemma arm_now_success:
  assumes "arm_now (traced env) txn w = ((None, txn'), w')"
  shows "tx_phase txn' = txnCommitted \<and> tx_guid txn' = tx_guid txn \<and> armed_trace txn' (snd w')"
proof -
  obtain r txn1 w1 where s1: "env_save (traced env) txn txnArming w = ((r, txn1), w1)"
    by (metis surj_pair)
  obtain out2 q w2 where b: "bcdedit (traced env) (arm_command (tx_guid txn1)) w1 = ((out2, q), w2)"
    by (metis surj_pair)
  obtain x w3 where ob: "observeFirmware (traced env) w2 = (x, w3)" by (metis surj_pair)
  obtain h w4 where hs: "hashESP (traced env) (stagedRels (tx_hashes txn1)) w3 = (h, w4)"
    by (metis surj_pair)
  from assms s1 b ob hs obtain objs where
    ok: "r = None" "q = None" "x = Inr objs" "bootChainProblems objs txn1 h True = []"
    and s2: "env_save (traced env) txn1 txnCommitted w4 = ((None, txn'), w')"
    by (auto simp: arm_now_def Let_def split: option.splits sum.splits if_splits)
  from s1 obtain qa where t1: "snd w1 = Saved txn1 qa # snd w" "r = map_option (JournalFailed txnArming) qa"
    "tx_phase txn1 = txnArming" "tx_guid txn1 = tx_guid txn"
    by (rule env_save_traced) blast
  from s2 obtain qb where t2: "snd w' = Saved txn' qb # snd w4" "None = map_option (JournalFailed txnCommitted) qb"
    "tx_phase txn' = txnCommitted" "tx_guid txn' = tx_guid txn1"
    "tx_efi_path txn' = tx_efi_path txn1" "tx_hashes txn' = tx_hashes txn1"
    by (rule env_save_traced) blast
  from ob obtain out rr where t3: "snd w3 = Bcd enum_command (out, rr) # snd w2"
    "rr = None \<and> objs = parseBCDEnum out"
    using ok(3) by (metis observe_traced)
  have "chain_as_intended objs txn' h True"
    using ok(4) chain_as_intended_cong [of txn' txn1] t2 by (simp add: bootChainProblems_Nil)
  moreover have "qa = None" "qb = None" using t1(2) t2(2) ok(1) by auto
  ultimately show ?thesis
    unfolding armed_trace_def using t1 t2 t3 ok bcdedit_traced [OF b] hash_traced [OF hs] by auto
qed

lemma arm_attempt_success:
  assumes "arm_attempt (traced env) a txn w = ((None, txn'), w')"
  shows "tx_phase txn' = txnCommitted \<and> armed_trace txn' (snd w')"
  using assms by (auto simp: arm_attempt_def split: prod.splits option.splits if_splits
      dest: arm_now_success)

lemma arm_attempts_success:
  "arm_attempts (traced env) a left txn w = ((None, txn'), w') \<Longrightarrow>
     tx_phase txn' = txnCommitted \<and> armed_trace txn' (snd w')"
proof (induction left arbitrary: a txn w)
  case 0
  then show ?case
    by (auto simp: arm_attempts.simps [of _ _ 0] split: prod.splits option.splits
        dest: arm_attempt_success)
next
  case (Suc n)
  then show ?case
    by (auto simp: arm_attempts.simps [of _ _ "Suc n"] split: prod.splits option.splits
        dest: arm_attempt_success)
qed

text \<open>
  C1: arming reports success only after an observation. When \<open>armBootChainTxn\<close> returns
  without an error, its last four actions were: the one-shot command accepted for the
  journaled entry, a listing of the firmware store, a hash of the staged ESP files, and the
  journal record \<open>committed\<close>; and that very listing and those hashes show the intended
  armed chain (one wootc entry, with the intended loader, outside the permanent order and
  first in the one-shot, all staged files unchanged). The arming was itself journaled first.
\<close>

theorem arm_commits_by_observation:
  assumes "armBootChainTxn (traced env) txn (s, tr) = ((None, txn'), (s', tr'))"
  shows "tx_phase txn' = txnCommitted \<and> armed_trace txn' tr'"
  using assms
  by (auto simp: armBootChainTxn_def rollbackAfter_def split: prod.splits option.splits if_splits
      dest: arm_attempts_success)

subsection \<open>A successful begin\<close>

definition prepared_trace :: "boot_txn \<Rightarrow> boot_event list \<Rightarrow> bool" where
  "prepared_trace txn tr \<longleftrightarrow>
     (\<exists>hashes out rest.
        tr = Saved txn None # Hashed (stagedRels (tx_hashes txn)) hashes #
             Bcd enum_command (out, None) # Recorded (tx_guid txn) None # rest \<and>
        chain_as_intended (parseBCDEnum out) txn hashes False)"

lemma verify_entry_success:
  assumes "verify_entry (traced env) txn w = ((None, txn'), w')"
  shows "txn' = txn \<and> (\<exists>hashes out.
     snd w' = Hashed (stagedRels (tx_hashes txn)) hashes # Bcd enum_command (out, None) # snd w \<and>
     chain_as_intended (parseBCDEnum out) txn hashes False)"
proof -
  obtain x w1 where ob: "observeFirmware (traced env) w = (x, w1)" by (metis surj_pair)
  obtain h w2 where hs: "hashESP (traced env) (stagedRels (tx_hashes txn)) w1 = (h, w2)"
    by (metis surj_pair)
  obtain objs where x: "x = Inr objs"
    using assms ob by (cases x) (simp_all add: verify_entry_def)
  with assms ob hs have ok: "bootChainProblems objs txn h False = []" "txn' = txn" "w' = w2"
    by (simp_all add: verify_entry_def Let_def split: if_splits)
  from ob obtain out rr where "snd w1 = Bcd enum_command (out, rr) # snd w"
    "rr = None \<and> objs = parseBCDEnum out"
    using x by (metis observe_traced)
  with ok hash_traced [OF hs] show ?thesis by (auto simp: bootChainProblems_Nil)
qed

lemma finish_entry_success:
  assumes "finish_entry (traced env) txn w = ((None, txn'), w')"
  shows "tx_guid txn' = tx_guid txn \<and> (\<exists>hashes out rest.
     snd w' = Hashed (stagedRels (tx_hashes txn')) hashes # Bcd enum_command (out, None) #
       Recorded (tx_guid txn') None # rest \<and>
     chain_as_intended (parseBCDEnum out) txn' hashes False)"
proof -
  obtain r txn1 w1 where sv: "env_save (traced env) txn txnEntryCreated w = ((r, txn1), w1)"
    by (metis surj_pair)
  obtain out q w2 where pt:
    "bcdedit (traced env) (path_command (tx_guid txn1) (tx_efi_path txn1)) w1 = ((out, q), w2)"
    by (metis surj_pair)
  let ?w3 = "snd (bcdedit (traced env) (drop_from_order (tx_guid txn1)) w2)"
  obtain r4 w4 where rc: "onEntry (traced env) (tx_guid txn1) ?w3 = (r4, w4)" by (metis surj_pair)
  from assms sv pt rc have ok: "r4 = None" and
    ver: "verify_entry (traced env) txn1 w4 = ((None, txn'), w')"
    by (auto simp: finish_entry_def Let_def split: option.splits)
  have "tx_guid txn1 = tx_guid txn" using sv by (rule env_save_traced)
  with verify_entry_success [OF ver] record_traced [OF rc] ok show ?thesis by auto
qed

lemma build_success:
  assumes "buildBootEntry (traced env) txn w = ((None, txn'), w')"
  shows "\<exists>hashes out rest.
     snd w' = Hashed (stagedRels (tx_hashes txn')) hashes # Bcd enum_command (out, None) #
       Recorded (tx_guid txn') None # rest \<and>
     chain_as_intended (parseBCDEnum out) txn' hashes False"
proof -
  let ?w1 = "sweepWootcEntries (traced env) (tx_guid txn) w"
  let ?w2 = "snd (bcdedit (traced env) menu_command ?w1)"
  obtain r txn2 w3 where sv:
    "env_save (traced env) (txn\<lparr>tx_guid := []\<rparr>) txnCreatingEntry ?w2 = ((r, txn2), w3)"
    by (metis surj_pair)
  obtain out q w4 where cp: "bcdedit (traced env) copy_command w3 = ((out, q), w4)"
    by (metis surj_pair)
  from assms sv cp have "finish_entry (traced env) (txn2\<lparr>tx_guid := find_bcd_guid out\<rparr>) w4 =
      ((None, txn'), w')"
    by (simp add: buildBootEntry_def Let_def split: option.splits if_splits)
  from finish_entry_success [OF this] show ?thesis by blast
qed

lemma begin_attempt_success:
  assumes "begin_attempt (traced env) txn w = ((None, txn'), w')"
  shows "tx_phase txn' = txnPrepared \<and> prepared_trace txn' (snd w')"
proof -
  obtain r txn1 w1 where b: "buildBootEntry (traced env) txn w = ((r, txn1), w1)"
    by (metis surj_pair)
  with assms have r: "r = None" and sv: "env_save (traced env) txn1 txnPrepared w1 = ((None, txn'), w')"
    by (auto simp: begin_attempt_def split: option.splits)
  from sv obtain q where t: "snd w' = Saved txn' q # snd w1" "None = map_option (JournalFailed txnPrepared) q"
    "tx_phase txn' = txnPrepared" "tx_guid txn' = tx_guid txn1"
    "tx_efi_path txn' = tx_efi_path txn1" "tx_hashes txn' = tx_hashes txn1"
    by (rule env_save_traced) blast
  have "q = None" using t(2) by simp
  with t build_success [of env txn w txn1 w1] b r chain_as_intended_cong [of txn' txn1] show ?thesis
    unfolding prepared_trace_def by auto
qed

lemma begin_attempts_success:
  "begin_attempts (traced env) a left txn w = ((None, txn'), w') \<Longrightarrow>
     tx_phase txn' = txnPrepared \<and> prepared_trace txn' (snd w')"
proof (induction left arbitrary: a txn w)
  case 0
  then show ?case
    by (auto simp: begin_attempts.simps [of _ _ 0] split: prod.splits option.splits
        dest: begin_attempt_success)
next
  case (Suc n)
  then show ?case
    by (auto simp: begin_attempts.simps [of _ _ "Suc n"] split: prod.splits option.splits
        dest: begin_attempt_success)
qed

lemma rollbackAfter_error: "rollbackAfter env txn c w = ((r, t), w') \<Longrightarrow> r \<noteq> None"
  by (auto simp: rollbackAfter_def split: prod.splits option.splits)

lemma begin_success:
  assumes "beginBootChainTxn (traced env) efiPath staged w = ((None, txn'), w')"
  shows "tx_phase txn' = txnPrepared \<and> prepared_trace txn' (snd w')"
proof -
  obtain now w1 where c: "clockNow (traced env) w = (now, w1)" by (metis surj_pair)
  obtain h w2 where h: "hashESP (traced env) (stagedRels staged) w1 = (h, w2)" by (metis surj_pair)
  obtain r txn1 w3 where save:
    "env_save (traced env) (new_txn efiPath staged now) txnBegun w2 = ((r, txn1), w3)"
    by (metis surj_pair)
  obtain r4 txn2 w4 where att: "begin_attempts (traced env) 1 2 txn1 w3 = ((r4, txn2), w4)"
    by (metis surj_pair)
  from assms c h save att have "r4 = None \<and> txn' = txn2 \<and> w' = w4"
    by (auto simp: beginBootChainTxn_def Let_def split: option.splits if_splits
        dest: rollbackAfter_error)
  with att show ?thesis
    by (auto dest: begin_attempts_success)
qed

text \<open>
  C5: beginning a transaction never arms. Whatever happens (success, any failure, any retry,
  the rollback), no command that \<open>beginBootChainTxn\<close> issues sets the one-shot; and when it
  returns without an error, the journal says \<open>prepared\<close> right after a listing that shows
  exactly one wootc entry, with the intended loader, in no boot order and in no one-shot, and
  after the recovery record for that entry was written.
\<close>

theorem begin_leaves_entry_inert:
  assumes "beginBootChainTxn (traced env) efiPath staged (s, tr) = ((r, txn'), (s', tr'))"
  shows "(\<exists>evs. tr' = evs @ tr \<and> (\<forall>c res. Bcd c res \<in> set evs \<longrightarrow> \<not> is_arm c)) \<and>
    (r = None \<longrightarrow> tx_phase txn' = txnPrepared \<and> prepared_trace txn' tr')"
  using quiet_begin [OF assms] begin_success assms by (cases r) (force simp: adds_def)+

subsection \<open>Arming follows its journal record\<close>

fun arms_journaled :: "boot_event list \<Rightarrow> bool" where
  "arms_journaled [] = True"
| "arms_journaled (e # tr) \<longleftrightarrow> arms_journaled tr \<and>
     (case e of Bcd c r \<Rightarrow>
        (\<forall>g. c = arm_command g \<longrightarrow>
           (case tr of Saved t None # _ \<Rightarrow> tx_phase t = txnArming \<and> tx_guid t = g | _ \<Rightarrow> False))
      | _ \<Rightarrow> True)"

lemma quiet_journaled:
  assumes "adds quiet w w'" "arms_journaled (snd w)"
  shows "arms_journaled (snd w')"
proof -
  have "\<forall>e\<in>set evs. quiet e \<Longrightarrow> arms_journaled (evs @ snd w)" for evs
  proof (induction evs)
    case Nil
    then show ?case using assms(2) by simp
  next
    case (Cons e evs)
    then show ?case by (auto simp: is_arm_def split: boot_event.splits)
  qed
  with assms(1) show ?thesis by (auto simp: adds_def)
qed

lemma arm_now_journaled:
  assumes run: "arm_now (traced env) txn w = (x, w')" and "arms_journaled (snd w)"
  shows "arms_journaled (snd w')"
proof -
  obtain r txn1 w1 where s1: "env_save (traced env) txn txnArming w = ((r, txn1), w1)"
    by (metis surj_pair)
  obtain out2 q w2 where b: "bcdedit (traced env) (arm_command (tx_guid txn1)) w1 = ((out2, q), w2)"
    by (metis surj_pair)
  obtain y w3 where ob: "observeFirmware (traced env) w2 = (y, w3)" by (metis surj_pair)
  obtain h w4 where hs: "hashESP (traced env) (stagedRels (tx_hashes txn1)) w3 = (h, w4)"
    by (metis surj_pair)
  have j1: "arms_journaled (snd w1)" using quiet_env_save [OF s1] assms(2) by (rule quiet_journaled)
  show ?thesis
  proof (cases r)
    case (Some e)
    with run s1 j1 show ?thesis by (simp add: arm_now_def)
  next
    case None
    from s1 obtain qa where "snd w1 = Saved txn1 qa # snd w" "r = map_option (JournalFailed txnArming) qa"
      "tx_phase txn1 = txnArming" by (rule env_save_traced) blast
    with None bcdedit_traced [OF b] j1 have j2: "arms_journaled (snd w2)"
      by (simp add: arm_command_def)
    have j3: "arms_journaled (snd w3)" using quiet_observe [OF ob] j2 by (rule quiet_journaled)
    have j4: "arms_journaled (snd w4)" using quiet_hash [OF hs] j3 by (rule quiet_journaled)
    from None run s1 b ob hs j2 j3 j4 show ?thesis
      by (auto simp: arm_now_def Let_def split: option.splits sum.splits if_splits
          dest!: quiet_env_save intro: quiet_journaled)
  qed
qed

lemma arm_attempt_journaled:
  assumes "arm_attempt (traced env) a txn w = (x, w')" "arms_journaled (snd w)"
  shows "arms_journaled (snd w')"
proof (cases "1 < a")
  case False
  with assms show ?thesis by (auto simp: arm_attempt_def intro: arm_now_journaled)
next
  case True
  let ?w1 = "sleepFor (traced env) (2 * a) w"
  obtain r txn1 w2 where b: "buildBootEntry (traced env) txn ?w1 = ((r, txn1), w2)"
    by (metis surj_pair)
  have "adds quiet w w2" using quiet_sleep quiet_build [OF b] by (rule adds_trans)
  then have "arms_journaled (snd w2)" using assms(2) by (rule quiet_journaled)
  with True assms(1) b show ?thesis
    by (auto simp: arm_attempt_def split: option.splits intro: arm_now_journaled)
qed

lemma arm_attempts_journaled:
  "arm_attempts (traced env) a left txn w = (x, w') \<Longrightarrow> arms_journaled (snd w) \<Longrightarrow>
     arms_journaled (snd w')"
proof (induction left arbitrary: a txn w)
  case 0
  then show ?case
    by (auto simp: arm_attempts.simps [of _ _ 0] split: prod.splits option.splits
        dest: arm_attempt_journaled)
next
  case (Suc n)
  obtain r txn1 w1 where att: "arm_attempt (traced env) a txn w = ((r, txn1), w1)"
    by (metis surj_pair)
  then have "arms_journaled (snd w1)" using Suc.prems(2) by (rule arm_attempt_journaled)
  with Suc att show ?case
    by (auto simp: arm_attempts.simps [of _ _ "Suc n"] split: option.splits)
qed

text \<open>
  C4: write-ahead order of the commit point. In any run of \<open>armBootChainTxn\<close>, with any
  failures and retries, every command that sets the one-shot is issued immediately after a
  journal write of phase \<open>arming\<close> that succeeded and names the same entry: a power cut can
  never leave an armed entry that the journal does not know.
\<close>

theorem arms_only_after_journal:
  assumes "armBootChainTxn (traced env) txn (s, tr) = (res, (s', tr'))" "arms_journaled tr"
  shows "arms_journaled tr'"
proof (cases "tx_phase txn \<noteq> txnPrepared \<and> tx_phase txn \<noteq> txnArming")
  case True
  with assms show ?thesis by (simp add: armBootChainTxn_def)
next
  case False
  obtain r txn1 w1 where att: "arm_attempts (traced env) 1 2 txn (s, tr) = ((r, txn1), w1)"
    by (metis surj_pair)
  then have j1: "arms_journaled (snd w1)" using assms(2) by (auto dest: arm_attempts_journaled)
  have run: "armBootChainTxn (traced env) txn (s, tr) =
      (case r of None \<Rightarrow> ((None, txn1), w1)
       | Some e \<Rightarrow> rollbackAfter (traced env) txn1 (ArmingFailed e) w1)"
    using False att unfolding armBootChainTxn_def by (auto split: option.splits)
  show ?thesis
  proof (cases r)
    case None
    with run j1 assms(1) show ?thesis by auto
  next
    case (Some e)
    with run assms(1)
    have "rollbackAfter (traced env) txn1 (ArmingFailed e) w1 = (res, (s', tr'))" by simp
    then have "adds quiet w1 (s', tr')" by (rule quiet_rollbackAfter)
    with j1 quiet_journaled show ?thesis by fastforce
  qed
qed

subsection \<open>Rollback fails closed\<close>

definition clean_trace :: "boot_txn \<Rightarrow> boot_event list \<Rightarrow> bool" where
  "clean_trace txn tr \<longleftrightarrow>
     (\<exists>out rest. tr = Saved txn None # Bcd enum_command (out, None) # rest \<and>
        windows_clean (parseBCDEnum out) (tx_guid txn))"

lemma rollback_attempt_clean:
  assumes "rollback_attempt (traced env) txn w = (None, w')"
  shows "\<exists>out rest. snd w' = Bcd enum_command (out, None) # rest \<and>
     windows_clean (parseBCDEnum out) (tx_guid txn)"
proof -
  let ?w1 = "sweepWootcEntries (traced env) (tx_guid txn) w"
  obtain x w2 where ob: "observeFirmware (traced env) ?w1 = (x, w2)" by (metis surj_pair)
  obtain objs where x: "x = Inr objs"
    using assms ob by (cases x) (simp_all add: rollback_attempt_def)
  with assms ob have "bootChainResidue objs (tx_guid txn) = []" "w' = w2"
    by (simp_all add: rollback_attempt_def Let_def split: if_splits)
  with ob x show ?thesis by (metis observe_traced bootChainResidue_Nil)
qed

lemma rollback_attempts_outcome:
  "rollback_attempts (traced env) left txn w = ((r, txn'), w') \<Longrightarrow>
     (case r of
        None \<Rightarrow> tx_phase txn' = txnRolledBack \<and> clean_trace txn' (snd w')
      | Some e \<Rightarrow> (tx_phase txn' = txnRolledBack \<and> (\<exists>q. e = JournalFailed txnRolledBack q)) \<or>
                 (tx_phase txn' = txnRollbackUnconfirmed \<and> tx_error txn' \<noteq> None \<and>
                  (\<exists>p. e = RollbackNotConfirmed p)))"
proof (induction left arbitrary: w)
  case (0 w)
  obtain q w1 where att: "rollback_attempt (traced env) txn w = (q, w1)" by (metis surj_pair)
  show ?case
  proof (cases q)
    case None
    with 0 att have sv: "env_save (traced env) txn txnRolledBack w1 = ((r, txn'), w')"
      by (simp add: rollback_attempts.simps [of _ 0])
    then show ?thesis
      using rollback_attempt_clean [OF att [unfolded None]]
      by (elim env_save_traced) (auto simp: clean_trace_def split: option.splits)
  next
    case (Some e)
    with 0 att show ?thesis
      by (auto simp: rollback_attempts.simps [of _ 0] rollback_give_up_def Let_def
          split: prod.splits elim!: env_save_traced)
  qed
next
  case (Suc n w)
  obtain q w1 where att: "rollback_attempt (traced env) txn w = (q, w1)" by (metis surj_pair)
  show ?case
  proof (cases q)
    case None
    with Suc.prems att have sv: "env_save (traced env) txn txnRolledBack w1 = ((r, txn'), w')"
      by (simp add: rollback_attempts.simps [of _ "Suc n"])
    then show ?thesis
      using rollback_attempt_clean [OF att [unfolded None]]
      by (elim env_save_traced) (auto simp: clean_trace_def split: option.splits)
  next
    case (Some e)
    with Suc.prems att show ?thesis
      by (intro Suc.IH [of "sleepFor (traced env) 2 w1"])
         (simp add: rollback_attempts.simps [of _ "Suc n"])
  qed
qed


subsection \<open>Cleanup touches only attributable entries\<close>

text \<open>
  C29: cleanup touches only what is attributable to wootc. After one listing, the sweep issues
  exactly the planned commands, and each of them removes, from the one-shot, the boot order
  or the store, an entry with a full GUID that a listed object described as wootc carries or
  that the journal names; the one-shot as a whole is dropped only when every entry in it is
  such an entry. No well-known alias such as the Windows boot manager can be named.
\<close>

theorem sweep_touches_only_ours:
  assumes "sweepWootcEntries (traced env) guid (s, tr) = (s', tr')"
  shows "\<exists>out r cmds rs. length rs = length cmds \<and>
     tr' = rev (map2 Bcd cmds rs) @ Bcd enum_command (out, r) # tr \<and>
     (\<forall>c\<in>set cmds. removal_of (attributable (parseBCDEnum out) guid) c \<or>
        (c = clear_sequence \<and> (\<exists>fw. findBCDObject (parseBCDEnum out) fwbootmgr = Some fw \<and>
           (\<forall>i\<in>set (obj_field fw ''bootsequence''). attributable (parseBCDEnum out) guid i))))"
proof -
  obtain x w1 where ob: "observeFirmware (traced env) (s, tr) = (x, w1)" by (metis surj_pair)
  then obtain out r where t: "snd w1 = Bcd enum_command (out, r) # tr"
    "\<And>objs. x = Inr objs \<Longrightarrow> objs = parseBCDEnum out"
    by (metis observe_traced snd_conv)
  define cmds where "cmds = (case x of Inl _ \<Rightarrow> blind_sweep_commands guid
     | Inr objs \<Rightarrow> sweep_commands objs guid)"
  have run: "run_commands (traced env) cmds w1 = (s', tr')"
    using assms ob by (auto simp: sweepWootcEntries_def cmds_def split: sum.splits)
  obtain rs where "length rs = length cmds" "tr' = rev (map2 Bcd cmds rs) @ snd w1"
    using run_commands_traced [of cmds env w1] run by auto
  moreover have "removal_of (attributable (parseBCDEnum out) guid) c \<or>
      (c = clear_sequence \<and> (\<exists>fw. findBCDObject (parseBCDEnum out) fwbootmgr = Some fw \<and>
         (\<forall>i\<in>set (obj_field fw ''bootsequence''). attributable (parseBCDEnum out) guid i)))"
    if "c \<in> set cmds" for c
  proof (cases x)
    case (Inl e)
    with that show ?thesis by (auto simp: cmds_def removal_of_def attributable_def
        blind_sweep_commands_def split: if_splits)
  next
    case (Inr objs)
    with that t(2) show ?thesis using sweep_commands_ours [of c objs guid] by (auto simp: cmds_def)
  qed
  ultimately show ?thesis using t(1) by auto
qed

subsection \<open>Refusals change nothing\<close>

text \<open>
  A chain that is not verified is refused before the boot configuration is touched. When
  the staged files do not check out, or the journal cannot be written, \<open>beginBootChainTxn\<close>
  returns an error after reading the ESP hashes and at most that one journal write: it runs
  no bcdedit command at all. And \<open>armBootChainTxn\<close> of a chain that is neither prepared nor
  arming returns an error and leaves the machine as it was.
\<close>

theorem refusals_change_nothing:
  assumes "hashESP env (stagedRels staged) (snd (clockNow env s)) = (hashes, s2)"
    and "\<not> esp_chain_ok efiPath staged hashes \<or>
         (\<exists>e txn3 s3. env_save env (new_txn efiPath staged (fst (clockNow env s))) txnBegun s2 =
            ((Some e, txn3), s3))"
    and "tx_phase txn \<noteq> txnPrepared" "tx_phase txn \<noteq> txnArming"
  shows "(\<exists>e txn' s'. beginBootChainTxn (traced env) efiPath staged (s, tr) = ((Some e, txn'), s') \<and>
      (\<exists>evs. snd s' = evs @ tr \<and> length evs \<le> 2 \<and> (\<forall>c r. Bcd c r \<notin> set evs))) \<and>
    armBootChainTxn env txn s = ((Some (NotPrepared (tx_phase txn)), txn), s)"
proof
  obtain now s1 where c: "clockNow env s = (now, s1)" by (metis surj_pair)
  show "\<exists>e txn' s'. beginBootChainTxn (traced env) efiPath staged (s, tr) = ((Some e, txn'), s') \<and>
      (\<exists>evs. snd s' = evs @ tr \<and> length evs \<le> 2 \<and> (\<forall>c r. Bcd c r \<notin> set evs))"
  proof (cases "esp_chain_ok efiPath staged hashes")
    case False
    with assms(1) c show ?thesis
      by (auto simp: beginBootChainTxn_def traced_def Let_def espChainProblems_Nil)
  next
    case True
    with assms(2) c obtain e txn3 s3 where
      "env_save env (new_txn efiPath staged now) txnBegun s2 = ((Some e, txn3), s3)" by auto
    with assms(1) c True show ?thesis
      by (auto simp: beginBootChainTxn_def env_save_def traced_def Let_def
          espChainProblems_Nil split: prod.splits)
  qed
  show "armBootChainTxn env txn s = ((Some (NotPrepared (tx_phase txn)), txn), s)"
    using assms(3,4) by (simp add: armBootChainTxn_def)
qed

end
