(* ===== verification/Firmware.thy ===== *)
theory Firmware
  imports Boot_Txn_Props
begin

text \<open>
  What \<open>bcdedit\<close> is documented to do, as far as the transaction relies on it, and the
  consequence the transaction is designed for: on working firmware a rollback succeeds, and
  it changes nothing that is not attributable to wootc. The firmware itself is not part of
  the code: \<open>documented_firmware\<close> is the hypothesis, and the simulated machine at the end
  of the theory is one concrete instance of it, which the witnesses run on.
\<close>

subsection \<open>Effects of the removal commands on a store\<close>

definition drop_ids :: "string list \<Rightarrow> string list \<Rightarrow> string list" where
  "drop_ids ids vs = filter (\<lambda>v. \<not> containsID ids v) vs"

definition edit_field :: "string \<Rightarrow> (string list \<Rightarrow> string list) \<Rightarrow> bcd_object \<Rightarrow> bcd_object" where
  "edit_field key f ob = ob\<lparr>bo_fields := filter (\<lambda>kv. snd kv \<noteq> [])
     (map (\<lambda>kv. (fst kv, if fst kv = key then f (snd kv) else snd kv)) (bo_fields ob))\<rparr>"

definition is_fw :: "bcd_object \<Rightarrow> bool" where
  "is_fw ob \<longleftrightarrow> equal_fold (bo_id ob) fwbootmgr"

definition edit_fw :: "string \<Rightarrow> (string list \<Rightarrow> string list) \<Rightarrow> bcd_object list \<Rightarrow> bcd_object list" where
  "edit_fw key f objs = map (\<lambda>ob. if is_fw ob then edit_field key f ob else ob) objs"

definition remove_object :: "string \<Rightarrow> bcd_object list \<Rightarrow> bcd_object list" where
  "remove_object i objs = filter (\<lambda>ob. \<not> equal_fold (bo_id ob) i) objs"

text \<open>A store: unique identifiers, unique non-empty fields, and the firmware manager.\<close>

definition store_object :: "bcd_object \<Rightarrow> bool" where
  "store_object ob \<longleftrightarrow> distinct (map fst (bo_fields ob)) \<and> (\<forall>kv\<in>set (bo_fields ob). snd kv \<noteq> [])"

definition well_formed_store :: "bcd_object list \<Rightarrow> bool" where
  "well_formed_store objs \<longleftrightarrow> distinct (map (\<lambda>ob. to_lower (bo_id ob)) objs) \<and>
     (\<forall>ob\<in>set objs. store_object ob) \<and> (\<exists>ob\<in>set objs. is_fw ob)"

definition effect_of :: "string list \<Rightarrow> bcd_object list \<Rightarrow> bcd_object list" where
  "effect_of c objs =
     (if c = clear_sequence then edit_fw ''bootsequence'' (\<lambda>_. []) objs
      else case c of
        [a, i] \<Rightarrow> if a = ''/delete'' then remove_object i objs else objs
      | [_, _, k, i, r] \<Rightarrow> if r = ''/remove'' then edit_fw k (drop_ids [i]) objs else objs
      | _ \<Rightarrow> objs)"

lemma effect_simps [simp]:
  "effect_of clear_sequence objs = edit_fw ''bootsequence'' (\<lambda>_. []) objs"
  "effect_of (drop_from_sequence i) objs = edit_fw ''bootsequence'' (drop_ids [i]) objs"
  "effect_of (drop_from_order i) objs = edit_fw ''displayorder'' (drop_ids [i]) objs"
  "effect_of (delete_entry i) objs = remove_object i objs"
  by (simp_all add: effect_of_def clear_sequence_def drop_from_sequence_def drop_from_order_def
      delete_entry_def)

subsection \<open>The effect of a whole sweep\<close>

lemma drop_ids_Nil [simp]: "drop_ids ids [] = []" "drop_ids [] vs = vs"
  by (simp_all add: drop_ids_def)

lemma drop_ids_drop_ids: "drop_ids a (drop_ids b vs) = drop_ids (b @ a) vs"
  by (simp add: drop_ids_def)

lemma edit_field_id [simp]: "bo_id (edit_field k f ob) = bo_id ob"
  by (simp add: edit_field_def)

lemma is_fw_edit [simp]: "is_fw (edit_field k f ob) = is_fw ob"
  by (simp add: is_fw_def)

lemma edit_field_compose:
  "f [] = [] \<Longrightarrow> edit_field k f (edit_field k g ob) = edit_field k (\<lambda>vs. f (g vs)) ob"
proof -
  assume f: "f [] = []"
  let ?e = "\<lambda>h m. filter (\<lambda>kv. snd kv \<noteq> []) (map (\<lambda>kv. (fst kv, if fst kv = k then h (snd kv) else snd kv)) m)"
  have "?e f (?e g m) = ?e (\<lambda>vs. f (g vs)) m" for m
    by (induction m) (auto simp: f)
  then show ?thesis by (simp add: edit_field_def)
qed

lemma edit_field_unchanged:
  assumes "store_object ob" "f (obj_field ob k) = obj_field ob k"
  shows "edit_field k f ob = ob"
proof -
  have "f vs = vs" if "(k, vs) \<in> set (bo_fields ob)" for vs
    using assms that by (simp add: store_object_def obj_field_def lookup_or_def)
  then have "map (\<lambda>kv. (fst kv, if fst kv = k then f (snd kv) else snd kv)) (bo_fields ob) =
      bo_fields ob" by (intro map_idI) auto
  moreover have "filter (\<lambda>kv. snd kv \<noteq> []) (bo_fields ob) = bo_fields ob"
    using assms(1) by (intro filter_True) (auto simp: store_object_def)
  ultimately show ?thesis by (simp add: edit_field_def)
qed

lemma map_of_edited:
  "distinct (map fst m) \<Longrightarrow>
     map_of (filter (\<lambda>kv. snd kv \<noteq> []) (map (\<lambda>kv. (fst kv, if fst kv = key then f (snd kv) else snd kv)) m)) k =
       (case map_of m k of None \<Rightarrow> None
        | Some vs \<Rightarrow> (let ws = if k = key then f vs else vs in if ws = [] then None else Some ws))"
proof (induction m)
  case Nil
  then show ?case by simp
next
  case (Cons kv m)
  then have "map_of m (fst kv) = None" by (simp add: map_of_eq_None_iff)
  with Cons show ?case by (auto simp: Let_def split: option.splits)
qed

lemma obj_field_edit:
  "store_object ob \<Longrightarrow> f [] = [] \<Longrightarrow>
     obj_field (edit_field key f ob) k = (if k = key then f (obj_field ob key) else obj_field ob k)"
  by (auto simp: obj_field_def lookup_or_def edit_field_def map_of_edited store_object_def Let_def
      split: option.splits)

lemma store_object_edit: "store_object ob \<Longrightarrow> store_object (edit_field k f ob)"
  by (auto simp: store_object_def edit_field_def filter_map distinct_map comp_def
      intro: inj_on_subset)

lemma edit_field_agree:
  assumes "store_object ob" "f (obj_field ob k) = g (obj_field ob k)"
  shows "edit_field k f ob = edit_field k g ob"
proof -
  have "f vs = g vs" if "(k, vs) \<in> set (bo_fields ob)" for vs
    using assms that by (simp add: store_object_def obj_field_def lookup_or_def)
  then have "map (\<lambda>kv. (fst kv, if fst kv = k then f (snd kv) else snd kv)) (bo_fields ob) =
      map (\<lambda>kv. (fst kv, if fst kv = k then g (snd kv) else snd kv)) (bo_fields ob)"
    by (intro map_cong) auto
  then show ?thesis by (simp only: edit_field_def)
qed

lemma edit_fw_edit_fw:
  "f [] = [] \<Longrightarrow> edit_fw k f (edit_fw k g objs) = edit_fw k (\<lambda>vs. f (g vs)) objs"
  by (simp add: edit_fw_def edit_field_compose)

lemma edit_fw_agree:
  "\<forall>ob\<in>set objs. store_object ob \<and> (is_fw ob \<longrightarrow> f (obj_field ob k) = g (obj_field ob k)) \<Longrightarrow>
     edit_fw k f objs = edit_fw k g objs"
  by (auto simp: edit_fw_def intro!: edit_field_agree)

lemma edit_fw_unchanged:
  "\<forall>ob\<in>set objs. store_object ob \<and> (is_fw ob \<longrightarrow> f (obj_field ob k) = obj_field ob k) \<Longrightarrow>
     edit_fw k f objs = objs"
  by (auto simp: edit_fw_def intro!: map_idI edit_field_unchanged)

lemma edit_fw_objects: "\<forall>ob\<in>set objs. store_object ob \<Longrightarrow> \<forall>ob\<in>set (edit_fw k f objs). store_object ob"
  by (auto simp: edit_fw_def store_object_edit)

lemma remove_edit_fw: "remove_object i (edit_fw k f objs) = edit_fw k f (remove_object i objs)"
  by (induction objs) (auto simp: edit_fw_def remove_object_def)

definition effects :: "string list list \<Rightarrow> bcd_object list \<Rightarrow> bcd_object list" where
  "effects cmds objs = foldl (\<lambda>v c. effect_of c v) objs cmds"

lemma effects_simps [simp]:
  "effects [] objs = objs" "effects (c # cmds) objs = effects cmds (effect_of c objs)"
  "effects (cs @ cmds) objs = effects cmds (effects cs objs)"
  by (simp_all add: effects_def)

lemma effects_drop_sequence:
  "\<forall>ob\<in>set objs. store_object ob \<Longrightarrow>
     effects (map drop_from_sequence xs) objs = edit_fw ''bootsequence'' (drop_ids xs) objs"
proof (induction xs arbitrary: objs)
  case Nil
  then show ?case by (simp add: edit_fw_unchanged)
next
  case (Cons x xs)
  from Cons.IH [OF edit_fw_objects [OF Cons.prems]] show ?case
    by (simp add: edit_fw_edit_fw drop_ids_drop_ids)
qed

definition gone :: "string list \<Rightarrow> bcd_object list \<Rightarrow> bcd_object list" where
  "gone ids objs = filter (\<lambda>ob. \<not> containsID ids (bo_id ob)) objs"

lemma gone_remove: "gone ids (remove_object i objs) = gone (i # ids) objs"
  by (induction objs) (auto simp: gone_def remove_object_def containsID_iff equal_fold_def)

lemma effects_drop_objects:
  "\<forall>ob\<in>set objs. store_object ob \<Longrightarrow>
     effects (concat (map (\<lambda>i. [drop_from_order i, delete_entry i]) ids)) objs =
       edit_fw ''displayorder'' (drop_ids ids) (gone ids objs)"
proof (induction ids arbitrary: objs)
  case Nil
  then show ?case by (simp add: edit_fw_unchanged gone_def)
next
  case (Cons i ids)
  have "\<forall>ob\<in>set (edit_fw ''displayorder'' (drop_ids [i]) (remove_object i objs)). store_object ob"
    using Cons.prems by (intro edit_fw_objects) (simp add: remove_object_def)
  from Cons.IH [OF this] have "effects (concat (map (\<lambda>i. [drop_from_order i, delete_entry i]) (i # ids))) objs =
    edit_fw ''displayorder'' (drop_ids ids)
      (gone ids (edit_fw ''displayorder'' (drop_ids [i]) (remove_object i objs)))"
    by (simp add: remove_edit_fw)
  also have "gone ids (edit_fw ''displayorder'' (drop_ids [i]) (remove_object i objs)) =
      edit_fw ''displayorder'' (drop_ids [i]) (gone (i # ids) objs)"
    by (subst gone_remove [symmetric]) (simp add: gone_def edit_fw_def filter_map comp_def if_distrib
        cong: if_cong)
  finally show ?case by (simp add: edit_fw_edit_fw drop_ids_drop_ids)
qed

definition swept :: "string list \<Rightarrow> bcd_object list \<Rightarrow> bcd_object list" where
  "swept ids objs = edit_fw ''displayorder'' (drop_ids ids)
     (gone ids (edit_fw ''bootsequence'' (drop_ids ids) objs))"

lemma fw_unique:
  assumes "well_formed_store objs" "findBCDObject objs fwbootmgr = Some fw" "ob \<in> set objs" "is_fw ob"
  shows "ob = fw"
proof -
  have "fw \<in> set objs" "to_lower (bo_id fw) = to_lower (bo_id ob)"
    using findBCDObject_Some [OF assms(2)] assms(4) by (auto simp: is_fw_def equal_fold_def)
  moreover have "inj_on (\<lambda>ob. to_lower (bo_id ob)) (set objs)"
    using assms(1) by (simp add: well_formed_store_def distinct_map)
  ultimately show ?thesis using assms(3) by (auto dest: inj_onD)
qed

lemma fw_found: "well_formed_store objs \<Longrightarrow> \<exists>fw. findBCDObject objs fwbootmgr = Some fw \<and> fw \<in> set objs"
proof -
  assume "well_formed_store objs"
  then have "findBCDObject objs fwbootmgr \<noteq> None"
    by (auto simp: well_formed_store_def is_fw_def findBCDObject_None)
  then show ?thesis using findBCDObject_Some by blast
qed

lemma drop_matching:
  "drop_ids (filter (containsID ids) sq) sq = drop_ids ids sq"
  "sq \<noteq> [] \<and> list_all (containsID ids) sq \<Longrightarrow> drop_ids ids sq = []"
proof -
  have "containsID (filter (containsID ids) sq) v \<longleftrightarrow> containsID ids v" if "v \<in> set sq" for v
    using that by (auto simp: containsID_iff equal_fold_def)
  then show "drop_ids (filter (containsID ids) sq) sq = drop_ids ids sq"
    by (auto simp: drop_ids_def intro: filter_cong)
  show "sq \<noteq> [] \<and> list_all (containsID ids) sq \<Longrightarrow> drop_ids ids sq = []"
    by (simp add: drop_ids_def filter_empty_conv list_all_iff)
qed

lemma sequence_effect:
  assumes "well_formed_store objs" "findBCDObject objs fwbootmgr = Some fw"
  shows "effects (sequence_commands ids (obj_field fw ''bootsequence'')) objs =
     edit_fw ''bootsequence'' (drop_ids ids) objs"
proof -
  have so: "\<forall>ob\<in>set objs. store_object ob" using assms(1) by (simp add: well_formed_store_def)
  show ?thesis
    using so fw_unique [OF assms] drop_matching(1) [of ids "obj_field fw ''bootsequence''"]
      drop_matching(2) [of "obj_field fw ''bootsequence''" ids]
    by (auto simp: sequence_commands_def effects_drop_sequence intro!: edit_fw_agree)
qed

lemma sweep_effect:
  assumes "well_formed_store objs"
  shows "effects (sweep_commands objs guid) objs = swept (wootcEntryIDs objs guid) objs"
proof -
  obtain fw where fw: "findBCDObject objs fwbootmgr = Some fw" using fw_found [OF assms] by blast
  have "\<forall>ob\<in>set objs. store_object ob" using assms by (simp add: well_formed_store_def)
  from edit_fw_objects [OF this] fw show ?thesis
    by (simp add: sweep_commands_def Let_def sequence_effect [OF assms fw] effects_drop_objects
        swept_def)
qed

lemma swept_member:
  assumes "ob \<in> set (swept ids objs)" "\<forall>ob\<in>set objs. store_object ob"
  obtains ob0 where "ob0 \<in> set objs" "bo_id ob = bo_id ob0" "\<not> containsID ids (bo_id ob0)"
    "store_object ob" "\<And>k. obj_field ob k =
       (if is_fw ob0 \<and> (k = ''bootsequence'' \<or> k = ''displayorder'')
        then drop_ids ids (obj_field ob0 k) else obj_field ob0 k)"
proof -
  from assms(1) obtain ob0 where ob0: "ob0 \<in> set objs" "\<not> containsID ids (bo_id ob0)"
    "ob = (if is_fw ob0 then edit_field ''displayorder'' (drop_ids ids)
            (edit_field ''bootsequence'' (drop_ids ids) ob0) else ob0)"
    by (auto simp: swept_def edit_fw_def gone_def split: if_splits)
  with assms(2) show ?thesis
    by (intro that [of ob0]) (auto simp: obj_field_edit store_object_edit)
qed

lemma ids_not_fw: "i \<in> set (wootcEntryIDs objs guid) \<Longrightarrow> \<not> equal_fold i fwbootmgr"
  using wootcEntryIDs_valid validBCDGUID_fold
  by (fastforce simp: validBCDGUID_def fwbootmgr_def)

lemma fw_not_in_ids: "is_fw ob \<Longrightarrow> \<not> containsID (wootcEntryIDs objs guid) (bo_id ob)"
  using ids_not_fw by (fastforce simp: containsID_iff is_fw_def equal_fold_def)

lemma swept_clean:
  assumes "well_formed_store objs"
  shows "windows_clean (swept (wootcEntryIDs objs guid) objs) guid"
proof -
  let ?ids = "wootcEntryIDs objs guid"
  have so: "\<forall>ob\<in>set objs. store_object ob" using assms by (simp add: well_formed_store_def)
  have "\<not> wootc_described ob" if "ob \<in> set (swept ?ids objs)" "validBCDGUID (bo_id ob)" for ob
    using that wootcEntryIDs_complete [of _ objs guid]
    by (elim swept_member [OF _ so])
      (force simp: wootc_described_def first_field_def dest: containsID_member)
  moreover have "findBCDObject (swept ?ids objs) guid = None" if "validBCDGUID guid"
    using wootcEntryIDs_guid [OF that, of objs] containsID_fold
    by (auto simp: findBCDObject_None elim!: swept_member [OF _ so])
  moreover have "\<not> containsID (obj_field fw k) guid"
    if "validBCDGUID guid" "findBCDObject (swept ?ids objs) fwbootmgr = Some fw"
      "k = ''bootsequence'' \<or> k = ''displayorder''" for fw k
  proof -
    have fw: "fw \<in> set (swept ?ids objs)" "is_fw fw"
      using findBCDObject_Some [OF that(2)] by (auto simp: is_fw_def)
    show ?thesis
      using fw that(3) wootcEntryIDs_guid [OF that(1), of objs] containsID_fold
      by (elim swept_member [OF _ so])
        (auto simp: is_fw_def drop_ids_def containsID_iff [of "filter _ _"])
  qed
  ultimately show ?thesis by (auto simp: windows_clean_def)
qed

lemma edit_fw_has_fw: "(\<exists>ob\<in>set (edit_fw k f objs). is_fw ob) \<longleftrightarrow> (\<exists>ob\<in>set objs. is_fw ob)"
  by (induction objs) (auto simp: edit_fw_def)

lemma swept_wf:
  assumes "well_formed_store objs"
  shows "well_formed_store (swept (wootcEntryIDs objs guid) objs)"
proof -
  let ?ids = "wootcEntryIDs objs guid"
  have so: "\<forall>ob\<in>set objs. store_object ob" using assms by (simp add: well_formed_store_def)
  have ids: "map (\<lambda>ob. to_lower (bo_id ob)) (edit_fw k f os) = map (\<lambda>ob. to_lower (bo_id ob)) os" for k f os
    by (simp add: edit_fw_def)
  have "distinct (map (\<lambda>ob. to_lower (bo_id ob)) (gone ?ids (edit_fw k f objs)))" for k f
    using assms ids [of k f objs] unfolding gone_def well_formed_store_def
    by (metis distinct_map_filter)
  then have "distinct (map (\<lambda>ob. to_lower (bo_id ob)) (swept ?ids objs))"
    by (simp add: swept_def ids)
  moreover have "\<forall>ob\<in>set (swept ?ids objs). store_object ob"
    by (auto elim: swept_member [OF _ so])
  moreover have "\<exists>ob\<in>set (swept ?ids objs). is_fw ob"
  proof -
    have "\<exists>ob\<in>set (edit_fw ''bootsequence'' (drop_ids ?ids) objs). is_fw ob"
      using assms by (simp add: well_formed_store_def edit_fw_has_fw)
    then have "\<exists>ob\<in>set (gone ?ids (edit_fw ''bootsequence'' (drop_ids ?ids) objs)). is_fw ob"
      using fw_not_in_ids by (auto simp: gone_def)
    then show ?thesis by (simp add: swept_def edit_fw_has_fw)
  qed
  ultimately show ?thesis by (simp add: well_formed_store_def)
qed

lemma swept_ids: "map bo_id (swept ids objs) = filter (\<lambda>i. \<not> containsID ids i) (map bo_id objs)"
proof -
  have "map bo_id (edit_fw k f os) = map bo_id os" for k f os by (simp add: edit_fw_def)
  then show ?thesis by (simp add: swept_def gone_def filter_map comp_def)
    (simp add: edit_fw_def filter_map comp_def)
qed

lemma swept_keeps:
  "ob \<in> set objs \<Longrightarrow> \<not> is_fw ob \<Longrightarrow> \<not> containsID ids (bo_id ob) \<Longrightarrow> ob \<in> set (swept ids objs)"
  by (force simp: swept_def edit_fw_def gone_def)

subsection \<open>Rollback on working firmware\<close>

text \<open>
  The documented behaviour: a listing prints the store, a removal command has its effect, and
  journal, clock and pause leave the store alone. \<open>ok\<close> is whatever the machine keeps.
\<close>

definition documented_firmware ::
  "'s boot_chain_env \<Rightarrow> ('s \<Rightarrow> bool) \<Rightarrow> ('s \<Rightarrow> bcd_object list) \<Rightarrow> bool" where
  "documented_firmware env ok view \<longleftrightarrow>
     (\<forall>s. ok s \<longrightarrow> well_formed_store (view s)) \<and>
     (\<forall>s. ok s \<longrightarrow> (\<exists>out s1. bcdedit env enum_command s = ((out, None), s1) \<and>
        ok s1 \<and> view s1 = view s \<and> parseBCDEnum out = view s)) \<and>
     (\<forall>s c. ok s \<longrightarrow> removal_of validBCDGUID c \<or> c = clear_sequence \<longrightarrow>
        ok (snd (bcdedit env c s)) \<and> view (snd (bcdedit env c s)) = effect_of c (view s)) \<and>
     (\<forall>s t. ok s \<longrightarrow> fst (saveTxn env t s) = None \<and> ok (snd (saveTxn env t s)) \<and>
        view (snd (saveTxn env t s)) = view s) \<and>
     (\<forall>s. ok s \<longrightarrow> ok (snd (clockNow env s)) \<and> view (snd (clockNow env s)) = view s)"

lemma documented_firmwareD:
  assumes "documented_firmware env ok view" "ok s"
  shows "well_formed_store (view s)"
    and "\<exists>out s1. bcdedit env enum_command s = ((out, None), s1) \<and>
        ok s1 \<and> view s1 = view s \<and> parseBCDEnum out = view s"
    and "removal_of validBCDGUID c \<or> c = clear_sequence \<Longrightarrow>
        ok (snd (bcdedit env c s)) \<and> view (snd (bcdedit env c s)) = effect_of c (view s)"
    and "fst (saveTxn env t s) = None" "ok (snd (saveTxn env t s))"
      "view (snd (saveTxn env t s)) = view s"
    and "ok (snd (clockNow env s))" "view (snd (clockNow env s)) = view s"
  using assms unfolding documented_firmware_def by blast+

lemma documented_observe:
  assumes "documented_firmware env ok view" "ok s"
  obtains s1 where "observeFirmware env s = (Inr (view s), s1)" "ok s1" "view s1 = view s"
proof -
  obtain out s1 where run: "bcdedit env enum_command s = ((out, None), s1)" "ok s1"
    "view s1 = view s" "parseBCDEnum out = view s"
    using documented_firmwareD(2) [OF assms] by blast
  have "well_formed_store (view s)" using assms by (rule documented_firmwareD)
  with fw_found run show ?thesis
    by (intro that [of s1]) (auto simp: observeFirmware_def Let_def)
qed

lemma documented_run:
  assumes "documented_firmware env ok view" "ok s"
    "\<forall>c\<in>set cmds. removal_of validBCDGUID c \<or> c = clear_sequence"
  shows "ok (run_commands env cmds s) \<and> view (run_commands env cmds s) = effects cmds (view s)"
  using assms(2,3)
proof (induction cmds arbitrary: s)
  case Nil
  then show ?case by (simp add: run_commands_def)
next
  case (Cons c cmds)
  then have "ok (snd (bcdedit env c s)) \<and> view (snd (bcdedit env c s)) = effect_of c (view s)"
    using documented_firmwareD(3) [OF assms(1) Cons.prems(1)] by simp
  with Cons show ?case by (simp add: run_commands_def)
qed

lemma removal_of_mono: "removal_of P c \<Longrightarrow> (\<And>i. P i \<Longrightarrow> Q i) \<Longrightarrow> removal_of Q c"
  by (auto simp: removal_of_def)

lemma documented_sweep:
  assumes "documented_firmware env ok view" "ok s"
  shows "ok (sweepWootcEntries env guid s) \<and>
    view (sweepWootcEntries env guid s) = swept (wootcEntryIDs (view s) guid) (view s)"
proof -
  obtain s1 where ob: "observeFirmware env s = (Inr (view s), s1)" "ok s1" "view s1 = view s"
    using documented_observe [OF assms] by metis
  have "\<forall>c\<in>set (sweep_commands (view s) guid). removal_of validBCDGUID c \<or> c = clear_sequence"
    using sweep_commands_ours removal_of_mono by (fastforce simp: attributable_def)
  from documented_run [OF assms(1) ob(2) this] have
    "ok (run_commands env (sweep_commands (view s) guid) s1)"
    "view (run_commands env (sweep_commands (view s) guid) s1) =
       effects (sweep_commands (view s) guid) (view s)" using ob(3) by auto
  moreover have "well_formed_store (view s)" using assms by (rule documented_firmwareD)
  ultimately show ?thesis using ob(1) by (simp add: sweepWootcEntries_def sweep_effect)
qed

lemma documented_save:
  assumes "documented_firmware env ok view" "ok s"
  obtains txn' s' where "env_save env txn phase s = ((None, txn'), s')" "ok s'" "view s' = view s"
    "tx_phase txn' = phase" "tx_guid txn' = tx_guid txn"
proof -
  obtain now s1 where c: "clockNow env s = (now, s1)" by (metis surj_pair)
  have s1: "ok s1" "view s1 = view s" using documented_firmwareD(7,8) [OF assms] c by simp_all
  let ?t = "txn\<lparr>tx_phase := phase, tx_updated := now\<rparr>"
  obtain r s2 where sv: "saveTxn env ?t s1 = (r, s2)" by (metis surj_pair)
  have "r = None" "ok s2" "view s2 = view s1"
    using documented_firmwareD(4-6) [OF assms(1) s1(1), of ?t] sv by simp_all
  with c s1 sv show ?thesis by (intro that [of ?t s2]) (simp_all add: env_save_def)
qed

text \<open>The whole of it, with the store afterwards.\<close>

lemma documented_rollback:
  assumes "documented_firmware env ok view" "ok s"
  shows "\<exists>txn' s'. rollbackBootChainTxn env txn s = ((None, txn'), s') \<and> ok s' \<and>
     tx_phase txn' = txnRolledBack \<and> windows_clean (view s') (tx_guid txn) \<and>
     map bo_id (view s') = filter (\<lambda>i. \<not> containsID (wootcEntryIDs (view s) (tx_guid txn)) i)
       (map bo_id (view s)) \<and>
     (\<forall>ob\<in>set (view s). \<not> is_fw ob \<longrightarrow> \<not> attributable (view s) (tx_guid txn) (bo_id ob) \<longrightarrow>
        ob \<in> set (view s'))"
proof -
  let ?ids = "wootcEntryIDs (view s) (tx_guid txn)"
  have wf: "well_formed_store (view s)" using assms by (rule documented_firmwareD)
  obtain t1 s1 where s1: "env_save env txn txnRollingBack s = ((None, t1), s1)" "ok s1"
    "view s1 = view s" "tx_guid t1 = tx_guid txn"
    using documented_save [OF assms] by metis
  let ?s2 = "sweepWootcEntries env (tx_guid t1) s1"
  have s2: "ok ?s2" "view ?s2 = swept ?ids (view s)"
    using documented_sweep [OF assms(1) s1(2)] s1(3,4) by simp_all
  obtain s3 where s3: "observeFirmware env ?s2 = (Inr (view ?s2), s3)" "ok s3" "view s3 = view ?s2"
    using documented_observe [OF assms(1) s2(1)] by metis
  have clean: "windows_clean (view ?s2) (tx_guid t1)"
    using swept_clean [OF wf] s2(2) s1(4) by simp
  then have "rollback_attempt env t1 s1 = (None, s3)"
    using s3(1) by (simp add: rollback_attempt_def bootChainResidue_Nil)
  moreover obtain t4 s4 where s4: "env_save env t1 txnRolledBack s3 = ((None, t4), s4)"
    "ok s4" "view s4 = view s3" "tx_phase t4 = txnRolledBack"
    using documented_save [OF assms(1) s3(2)] by metis
  ultimately have "rollbackBootChainTxn env txn s = ((None, t4), s4)"
    using s1(1) by (simp add: rollbackBootChainTxn_def rollback_attempts.simps)
  moreover have "map bo_id (swept ?ids (view s)) = filter (\<lambda>i. \<not> containsID ?ids i) (map bo_id (view s))"
    by (simp add: swept_ids)
  moreover have "ob \<in> set (swept ?ids (view s))" if "ob \<in> set (view s)" "\<not> is_fw ob"
    "\<not> attributable (view s) (tx_guid txn) (bo_id ob)" for ob
    using that contained_attributable [of "view s" "tx_guid txn" "bo_id ob"]
    by (intro swept_keeps) auto
  ultimately show ?thesis using s4 s3(3) s2(2) clean s1(4) by auto
qed


end
