(* ===== verification/Simulated_Machine.thy ===== *)
theory Simulated_Machine
  imports Firmware
begin

text \<open>
  A concrete machine for the witnesses: a store that \<open>bcdedit\<close> lists and edits, an ESP, a
  journal, and a list of commands the firmware refuses. It is an instance of
  \<open>documented_firmware\<close> whenever it refuses nothing.
\<close>

record machine =
  m_store :: "bcd_object list"
  m_esp :: "string smap"
  m_journal :: "boot_txn list"
  m_fresh :: string
  m_refused :: "string list list"

definition set_path :: "string \<Rightarrow> string \<Rightarrow> bcd_object list \<Rightarrow> bcd_object list" where
  "set_path g p objs = map (\<lambda>ob. if equal_fold (bo_id ob) g
     then ob\<lparr>bo_fields := filter (\<lambda>kv. fst kv \<noteq> ''path'') (bo_fields ob) @ [(''path'', [p])]\<rparr> else ob) objs"

definition arm_first :: "string \<Rightarrow> bcd_object list \<Rightarrow> bcd_object list" where
  "arm_first g objs = map (\<lambda>ob. if is_fw ob
     then ob\<lparr>bo_fields := filter (\<lambda>kv. fst kv \<noteq> ''bootsequence'') (bo_fields ob) @
            [(''bootsequence'', g # drop_ids [g] (obj_field ob ''bootsequence''))]\<rparr> else ob) objs"

definition new_entry :: "string \<Rightarrow> bcd_object" where
  "new_entry g = \<lparr>bo_id = g, bo_fields = [(''identifier'', [g]), (''path'', [''bootmgfw.efi'']),
     (''description'', [''wootc''])]\<rparr>"

definition accepted :: "string list \<Rightarrow> machine \<Rightarrow> (string \<times> string option) \<times> machine" where
  "accepted c m =
     (if c = copy_command
      then ((''copied to '' @ m_fresh m, None), m\<lparr>m_store := m_store m @ [new_entry (m_fresh m)]\<rparr>)
      else case c of
        [_, g, f, p] \<Rightarrow> if f = ''path'' then (([], None), m\<lparr>m_store := set_path g p (m_store m)\<rparr>)
                        else (([], None), m)
      | [_, _, f, g, r] \<Rightarrow>
          if r = ''/addfirst'' \<and> f = ''bootsequence''
          then (([], None), m\<lparr>m_store := arm_first g (m_store m)\<rparr>)
          else (([], None), m\<lparr>m_store := effect_of c (m_store m)\<rparr>)
      | _ \<Rightarrow> (([], None), m\<lparr>m_store := effect_of c (m_store m)\<rparr>))"

definition machine_bcdedit :: "string list \<Rightarrow> machine \<Rightarrow> (string \<times> string option) \<times> machine" where
  "machine_bcdedit c m =
     (if c = enum_command then ((render_listing (m_store m), None), m)
      else if c \<in> set (m_refused m) then ((''Access is denied.'', Some ''exit status 1''), m)
      else accepted c m)"

definition machine_env :: "machine boot_chain_env" where
  "machine_env =
     \<lparr>bcdedit = machine_bcdedit,
      hashESP = (\<lambda>rels m. (filter (\<lambda>kv. fst kv \<in> set rels) (m_esp m), m)),
      saveTxn = (\<lambda>t m. (None, m\<lparr>m_journal := t # m_journal m\<rparr>)),
      onEntry = (\<lambda>g m. (None, m)),
      sleepFor = (\<lambda>n m. m),
      clockNow = (\<lambda>m. (''2025-01-01T00:00:00Z'', m))\<rparr>"

definition store_ok :: "bcd_object list \<Rightarrow> bool" where
  "store_ok objs \<longleftrightarrow> well_formed_store objs \<and> (\<forall>ob\<in>set objs. printable_object ob)"

definition machine_ok :: "machine \<Rightarrow> bool" where
  "machine_ok m \<longleftrightarrow> m_refused m = [] \<and> store_ok (m_store m)"

subsection \<open>The machine behaves as documented\<close>

lemma printable_objectI:
  assumes "printable_text (bo_id ob)" "bo_fields ob = (''identifier'', [bo_id ob]) # rest"
    "distinct (map fst (bo_fields ob))"
    "\<forall>kv\<in>set rest. printable_key (fst kv) \<and> snd kv \<noteq> [] \<and> (\<forall>v\<in>set (snd kv). printable_text v)"
  shows "printable_object ob"
  unfolding printable_object_def split_beta using assms by blast

lemma printable_edit:
  assumes "printable_object ob" "k \<noteq> ''identifier''" "\<And>vs. set (f vs) \<subseteq> set vs"
  shows "printable_object (edit_field k f ob)"
proof -
  from assms(1) obtain rest where rest: "printable_text (bo_id ob)"
    "bo_fields ob = (''identifier'', [bo_id ob]) # rest" "distinct (map fst (bo_fields ob))"
    "\<forall>kv\<in>set rest. printable_key (fst kv) \<and> snd kv \<noteq> [] \<and> (\<forall>v\<in>set (snd kv). printable_text v)"
    unfolding printable_object_def split_beta by blast
  let ?g = "\<lambda>kv. (fst kv, if fst kv = k then f (snd kv) else snd kv)"
  let ?rest = "filter (\<lambda>kv. snd kv \<noteq> []) (map ?g rest)"
  have fields: "bo_fields (edit_field k f ob) = (''identifier'', [bo_id ob]) # ?rest"
    using rest(2) assms(2) by (auto simp: edit_field_def)
  show ?thesis
  proof (rule printable_objectI)
    show "printable_text (bo_id (edit_field k f ob))" using rest(1) by simp
    show "bo_fields (edit_field k f ob) = (''identifier'', [bo_id (edit_field k f ob)]) # ?rest"
      unfolding fields edit_field_id ..
    have "store_object ob" using rest by (simp add: store_object_def)
    then show "distinct (map fst (bo_fields (edit_field k f ob)))"
      using store_object_edit unfolding store_object_def by blast
    show "\<forall>kv\<in>set ?rest. printable_key (fst kv) \<and> snd kv \<noteq> [] \<and> (\<forall>v\<in>set (snd kv). printable_text v)"
      using rest(4) assms(3) by (fastforce split: if_splits)
  qed
qed

lemma set_drop_ids: "set (drop_ids ids vs) \<subseteq> set vs"
  by (auto simp: drop_ids_def)

lemma edit_fw_ok:
  assumes "store_ok objs" "k = ''bootsequence'' \<or> k = ''displayorder''" "\<And>vs. set (f vs) \<subseteq> set vs"
  shows "store_ok (edit_fw k f objs)"
proof -
  have "map (\<lambda>ob. to_lower (bo_id ob)) (edit_fw k f objs) = map (\<lambda>ob. to_lower (bo_id ob)) objs"
    by (simp add: edit_fw_def)
  with assms(1) have "well_formed_store (edit_fw k f objs)"
    using edit_fw_objects edit_fw_has_fw unfolding well_formed_store_def store_ok_def by metis
  moreover have "printable_object (edit_field k f ob)" if "ob \<in> set objs" for ob
    using assms that by (intro printable_edit) (auto simp: store_ok_def)
  ultimately show ?thesis
    using assms(1) by (auto simp: edit_fw_def store_ok_def)
qed

lemma remove_ok:
  assumes "store_ok objs" "validBCDGUID i"
  shows "store_ok (remove_object i objs)"
proof -
  have "\<not> equal_fold (bo_id ob) i" if "is_fw ob" for ob
    using that assms(2) validBCDGUID_fold [of "bo_id ob" i] validBCDGUID_fold [of "bo_id ob" fwbootmgr]
    by (auto simp: is_fw_def validBCDGUID_def fwbootmgr_def)
  with assms(1) show ?thesis
    by (auto simp: store_ok_def well_formed_store_def remove_object_def distinct_map_filter)
qed

lemma machine_accepts:
  assumes "m_refused m = []" "removal_of P c \<or> c = clear_sequence"
  shows "machine_bcdedit c m = (([], None), m\<lparr>m_store := effect_of c (m_store m)\<rparr>)"
proof -
  have "accepted c m = (([], None), m\<lparr>m_store := effect_of c (m_store m)\<rparr>)" "c \<noteq> enum_command"
    using assms(2) by (auto simp: removal_of_def accepted_def copy_command_def enum_command_def
        drop_from_sequence_def drop_from_order_def delete_entry_def clear_sequence_def)
  with assms(1) show ?thesis by (simp add: machine_bcdedit_def)
qed

lemma machine_removal:
  assumes "machine_ok m" "removal_of validBCDGUID c \<or> c = clear_sequence"
  shows "machine_ok (m\<lparr>m_store := effect_of c (m_store m)\<rparr>)"
proof -
  have m: "m_refused m = []" "store_ok (m_store m)"
    using assms(1) by (simp_all add: machine_ok_def)
  have drop: "store_ok (edit_fw k (drop_ids ids) (m_store m))"
    if "k = ''bootsequence'' \<or> k = ''displayorder''" for k ids
    using m(2) that set_drop_ids by (rule edit_fw_ok)
  have clear: "store_ok (edit_fw ''bootsequence'' (\<lambda>_. []) (m_store m))"
    using m(2) by (rule edit_fw_ok) simp_all
  from assms(2) consider i where "c = drop_from_sequence i" | i where "c = drop_from_order i"
    | i where "c = delete_entry i" "validBCDGUID i" | "c = clear_sequence"
    by (auto simp: removal_of_def)
  then show ?thesis
    using m drop clear remove_ok by cases (simp_all add: machine_ok_def)
qed

lemma machine_documented: "documented_firmware machine_env machine_ok m_store"
  unfolding documented_firmware_def
proof (intro conjI allI impI)
  show "well_formed_store (m_store m)" if "machine_ok m" for m
    using that by (simp add: machine_ok_def store_ok_def)
  show "\<exists>out s1. bcdedit machine_env enum_command m = ((out, None), s1) \<and>
      machine_ok s1 \<and> m_store s1 = m_store m \<and> parseBCDEnum out = m_store m" if "machine_ok m" for m
    using that by (auto simp: machine_env_def machine_bcdedit_def machine_ok_def store_ok_def parse_render_listing)
next
  fix m c
  assume m: "machine_ok m" and c: "removal_of validBCDGUID c \<or> c = clear_sequence"
  from m have "m_refused m = []" by (simp add: machine_ok_def)
  then have "bcdedit machine_env c m = (([], None), m\<lparr>m_store := effect_of c (m_store m)\<rparr>)"
    using machine_accepts [OF _ c] by (simp add: machine_env_def)
  with machine_removal [OF m c] show "machine_ok (snd (bcdedit machine_env c m))"
    "m_store (snd (bcdedit machine_env c m)) = effect_of c (m_store m)" by simp_all
qed (simp_all add: machine_env_def machine_ok_def)

subsection \<open>Example state\<close>

definition windows_id :: string where
  "windows_id = ''{9dea862c-5cdd-4e70-acc1-f32b344d4795}''"

definition wootc_id :: string where
  "wootc_id = ''{0a1b2c3d-1111-2222-3333-444455556666}''"

definition loader_rel :: string where "loader_rel = ''EFI/wootc/shimx64.efi''"
definition loader_path :: string where "loader_path = backslash # ''EFI'' @ backslash # ''wootc'' @ backslash # ''shimx64.efi''"

definition firmware_object :: "string list \<Rightarrow> bcd_object" where
  "firmware_object sq = \<lparr>bo_id = fwbootmgr, bo_fields = (''identifier'', [fwbootmgr]) #
     (''displayorder'', [''{bootmgr}'', windows_id]) #
     (if sq = [] then [] else [(''bootsequence'', sq)])\<rparr>"

definition windows_object :: bcd_object where
  "windows_object = \<lparr>bo_id = windows_id, bo_fields = [(''identifier'', [windows_id]),
     (''description'', [''Windows Boot Manager''])]\<rparr>"

definition wootc_object :: bcd_object where
  "wootc_object = \<lparr>bo_id = wootc_id, bo_fields = [(''identifier'', [wootc_id]),
     (''description'', [''wootc'']), (''path'', [loader_path])]\<rparr>"

definition staged_files :: "string smap" where
  "staged_files = [(loader_rel, ''ABC1'')]"

definition machine_with :: "bcd_object list \<Rightarrow> machine" where
  "machine_with objs = \<lparr>m_store = objs, m_esp = [(loader_rel, ''abc1'')], m_journal = [],
     m_fresh = wootc_id, m_refused = []\<rparr>"

definition txn_in :: "string \<Rightarrow> boot_txn" where
  "txn_in phase = \<lparr>tx_phase = phase, tx_guid = wootc_id, tx_efi_path = loader_path,
     tx_hashes = staged_files, tx_started = [], tx_updated = [], tx_error = None\<rparr>"

definition fresh_machine :: machine where
  "fresh_machine = machine_with [firmware_object [], windows_object]"

definition prepared_machine :: machine where
  "prepared_machine = machine_with [firmware_object [], windows_object, wootc_object]"

definition armed_machine :: machine where
  "armed_machine = machine_with [firmware_object [wootc_id], windows_object, wootc_object]"

lemma printable_constants:
  "printable_text windows_id" "printable_text wootc_id" "printable_text fwbootmgr"
  "printable_text ''{bootmgr}''" "printable_text loader_path"
  "printable_text ''Windows Boot Manager''" "printable_text ''wootc''"
  "printable_key ''description''" "printable_key ''displayorder''"
  "printable_key ''bootsequence''" "printable_key ''path''"
  by code_simp+

lemma machine_with_ok:
  "machine_ok fresh_machine" "machine_ok prepared_machine" "machine_ok armed_machine"
proof -
  have printable: "printable_object (firmware_object [])" "printable_object (firmware_object [wootc_id])"
    "printable_object windows_object" "printable_object wootc_object"
    by (simp_all add: printable_object_def firmware_object_def windows_object_def wootc_object_def
        printable_constants)
  have "well_formed_store [firmware_object [], windows_object]"
    "well_formed_store [firmware_object [], windows_object, wootc_object]"
    "well_formed_store [firmware_object [wootc_id], windows_object, wootc_object]"
    by code_simp+
  with printable show "machine_ok fresh_machine" "machine_ok prepared_machine" "machine_ok armed_machine"
    by (simp_all add: machine_ok_def store_ok_def fresh_machine_def prepared_machine_def
        armed_machine_def machine_with_def)
qed

subsection \<open>Witnesses\<close>

theorem arm_commits_witness:
  "\<exists>txn' s' tr'. armBootChainTxn (traced machine_env) (txn_in txnPrepared) (prepared_machine, []) =
       ((None, txn'), (s', tr')) \<and> tx_phase txn' = txnCommitted \<and> armed_trace txn' tr'"
proof -
  have "fst (fst (armBootChainTxn (traced machine_env) (txn_in txnPrepared) (prepared_machine, []))) = None"
    by code_simp
  then obtain txn' s' tr' where run: "armBootChainTxn (traced machine_env) (txn_in txnPrepared)
      (prepared_machine, []) = ((None, txn'), (s', tr'))" by (metis prod.exhaust_sel)
  from arm_commits_by_observation [OF run] run show ?thesis by blast
qed

theorem begin_inert_witness:
  "\<exists>txn' s' tr'. beginBootChainTxn (traced machine_env) loader_path staged_files (fresh_machine, []) =
       ((None, txn'), (s', tr')) \<and> prepared_trace txn' tr' \<and> (\<forall>c res. Bcd c res \<in> set tr' \<longrightarrow> \<not> is_arm c)"
proof -
  have "fst (fst (beginBootChainTxn (traced machine_env) loader_path staged_files (fresh_machine, []))) = None"
    by code_simp
  then obtain txn' s' tr' where run: "beginBootChainTxn (traced machine_env) loader_path staged_files
      (fresh_machine, []) = ((None, txn'), (s', tr'))" by (metis prod.exhaust_sel)
  from begin_leaves_entry_inert [OF run] run show ?thesis by auto
qed

theorem arms_after_journal_witness:
  "arms_journaled (snd (snd (armBootChainTxn (traced machine_env) (txn_in txnPrepared) (prepared_machine, []))))"
proof -
  obtain res s' tr' where run: "armBootChainTxn (traced machine_env) (txn_in txnPrepared)
      (prepared_machine, []) = (res, (s', tr'))" by (metis surj_pair)
  from arms_only_after_journal [OF run] run show ?thesis by simp
qed


theorem sweep_ours_witness:
  "\<exists>out r cmds rs. length rs = length cmds \<and>
     snd (sweepWootcEntries (traced machine_env) wootc_id (armed_machine, [])) =
       rev (map2 Bcd cmds rs) @ [Bcd enum_command (out, r)]"
proof -
  obtain s' tr' where run: "sweepWootcEntries (traced machine_env) wootc_id (armed_machine, []) = (s', tr')"
    by (metis surj_pair)
  from sweep_touches_only_ours [OF run] run show ?thesis by auto
qed

theorem refusals_witness:
  "armBootChainTxn machine_env (txn_in txnBegun) fresh_machine =
     ((Some (NotPrepared txnBegun), txn_in txnBegun), fresh_machine)"
proof -
  let ?c = "snd (clockNow machine_env fresh_machine)"
  obtain hashes s2 where h: "hashESP machine_env (stagedRels []) ?c = (hashes, s2)" by (metis surj_pair)
  have "\<not> esp_chain_ok loader_path [] hashes" by (simp add: esp_chain_ok_def)
  moreover have "tx_phase (txn_in txnBegun) \<noteq> txnPrepared" "tx_phase (txn_in txnBegun) \<noteq> txnArming"
    by (simp_all add: txn_in_def txn_phases)
  ultimately show ?thesis
    using refusals_change_nothing [OF h, of loader_path "txn_in txnBegun" "[]"] by (simp add: txn_in_def)
qed


end
