(* ===== verification/Journal_Disk.thy ===== *)
theory Journal_Disk
  imports Install_Journal
begin

text \<open>
  The writer of the install journal on a disk that can fail at any operation and lose power
  between any two. A file holds a complete journal or a truncated one, and is durable once it
  was synced. The history keeps every state the disk went through, newest first.
\<close>

datatype file_content = Truncated | Whole install_journal

record disk =
  d_final :: "(file_content \<times> bool) option"
  d_tmp :: "(file_content \<times> bool) option"

datatype file_step = Mkdir | Open_Tmp | Write_Tmp | Sync_Tmp | Close_Tmp | Remove_Tmp | Rename_Tmp

type_synonym disk_run = "disk \<times> disk list"

definition disk_step ::
  "(file_step \<Rightarrow> string option) \<Rightarrow> file_step \<Rightarrow> (disk \<Rightarrow> disk) \<Rightarrow> (disk \<Rightarrow> disk) \<Rightarrow>
     disk_run \<Rightarrow> string option \<times> disk_run" where
  "disk_step fail st good bad r =
     (let d = (if fail st = None then good (fst r) else bad (fst r)) in (fail st, d, fst r # snd r))"

text \<open>A failed write may leave any part of the data, so it leaves a truncated file.\<close>

definition disk_ops :: "(file_step \<Rightarrow> string option) \<Rightarrow> disk_run file_ops" where
  "disk_ops fail =
     \<lparr>fo_mkdir = disk_step fail Mkdir (\<lambda>d. d) (\<lambda>d. d),
      fo_open = disk_step fail Open_Tmp (\<lambda>d. d\<lparr>d_tmp := Some (Truncated, False)\<rparr>) (\<lambda>d. d),
      fo_write = (\<lambda>j. disk_step fail Write_Tmp (\<lambda>d. d\<lparr>d_tmp := Some (Whole j, False)\<rparr>)
                        (\<lambda>d. d\<lparr>d_tmp := Some (Truncated, False)\<rparr>)),
      fo_sync = disk_step fail Sync_Tmp
                  (\<lambda>d. d\<lparr>d_tmp := map_option (\<lambda>f. (fst f, True)) (d_tmp d)\<rparr>) (\<lambda>d. d),
      fo_close = disk_step fail Close_Tmp (\<lambda>d. d) (\<lambda>d. d),
      fo_remove = disk_step fail Remove_Tmp (\<lambda>d. d\<lparr>d_tmp := None\<rparr>) (\<lambda>d. d),
      fo_rename = disk_step fail Rename_Tmp (\<lambda>d. d\<lparr>d_final := d_tmp d, d_tmp := None\<rparr>) (\<lambda>d. d)\<rparr>"

lemmas disk_run_simps = disk_ops_def disk_step_def writeJournalAt_def discard_tmp_def Let_def

lemma writer_final:
  assumes "writeJournalAt (disk_ops fail) j (d, []) = (r, (d', h))"
  shows "d_final d' = (if r = None then Some (Whole j, True) else d_final d)"
  using assms
  by (cases "fail Mkdir"; cases "fail Open_Tmp"; cases "fail Write_Tmp"; cases "fail Sync_Tmp";
      cases "fail Close_Tmp"; cases "fail Rename_Tmp"; cases "fail Remove_Tmp")
    (auto simp: disk_run_simps)

lemma writer_history:
  assumes "writeJournalAt (disk_ops fail) j (d, []) = (r, (d', h))"
  shows "\<forall>x\<in>set h. d_final x = d_final d"
  using assms
  by (cases "fail Mkdir"; cases "fail Open_Tmp"; cases "fail Write_Tmp"; cases "fail Sync_Tmp";
      cases "fail Close_Tmp"; cases "fail Rename_Tmp"; cases "fail Remove_Tmp")
    (auto simp: disk_run_simps)

lemma writer_no_litter:
  assumes "writeJournalAt (disk_ops fail) j (d, []) = (r, (d', h))"
    "fail Remove_Tmp = None" "fail Rename_Tmp = None" "d_tmp d = None"
  shows "d_tmp d' = None"
  using assms
  by (cases "fail Mkdir"; cases "fail Open_Tmp"; cases "fail Write_Tmp"; cases "fail Sync_Tmp";
      cases "fail Close_Tmp")
    (auto simp: disk_run_simps)

text \<open>
  C38: the install journal survives faults and power cuts. Whichever operation of
  \<open>writeJournalAt\<close> fails, and whenever the power is cut, \<open>journal.json\<close> is either the
  previous journal or the complete, synced new one: every intermediate state of the disk still
  holds the previous one, a reported error leaves it in place, and a reported success means
  the new one is durable.
\<close>

theorem journal_write_atomic:
  "let (r, (d', h)) = writeJournalAt (disk_ops fail) j (d, [])
   in list_all (\<lambda>x. d_final x = d_final d) h \<and>
      d_final d' = (if r = None then Some (Whole j, True) else d_final d)"
proof -
  obtain r d' h where run: "writeJournalAt (disk_ops fail) j (d, []) = (r, (d', h))"
    by (metis surj_pair)
  with writer_history [OF run] writer_final [OF run] show ?thesis by (simp add: list_all_iff)
qed

end
