(* ===== verification/Go_Time.thy ===== *)
theory Go_Time
  imports Go_Strings
begin

text \<open>
  \<open>time.Parse(time.RFC3339, s)\<close> of Go's standard library, as the code relies on it: the hour
  may have one digit, the seconds may carry a fraction, the zone is \<open>Z\<close> or an offset, and
  the day must exist in its month. An instant is its Unix seconds and its nanoseconds.
\<close>

record instant =
  in_sec :: int
  in_nsec :: int

definition instant_before :: "instant \<Rightarrow> instant \<Rightarrow> bool" where
  "instant_before a b \<longleftrightarrow> in_sec a < in_sec b \<or> (in_sec a = in_sec b \<and> in_nsec a < in_nsec b)"

definition add_seconds :: "instant \<Rightarrow> int \<Rightarrow> instant" where
  "add_seconds t n = t\<lparr>in_sec := in_sec t + n\<rparr>"

subsection \<open>Calendar\<close>

definition leap_year :: "int \<Rightarrow> bool" where
  "leap_year y \<longleftrightarrow> y mod 4 = 0 \<and> (y mod 100 \<noteq> 0 \<or> y mod 400 = 0)"

definition month_days :: "int \<Rightarrow> int list" where
  "month_days y = [31, if leap_year y then 29 else 28, 31, 30, 31, 30, 31, 31, 30, 31, 30, 31]"

definition days_in_month :: "int \<Rightarrow> int \<Rightarrow> int" where
  "days_in_month y m = month_days y ! nat (m - 1)"

text \<open>Days of the year before a month, and days since 1 January 1970.\<close>

definition days_before_month :: "int \<Rightarrow> int \<Rightarrow> int" where
  "days_before_month y m = sum_list (take (nat (m - 1)) (month_days y))"

definition days_before_year :: "int \<Rightarrow> int" where
  "days_before_year y = (let p = y - 1 in 365 * p + p div 4 - p div 100 + p div 400)"

definition epoch_days :: "int \<Rightarrow> int \<Rightarrow> int \<Rightarrow> int" where
  "epoch_days y m d = days_before_year y + days_before_month y m + (d - 1) - 719162"

subsection \<open>Scanning\<close>

text \<open>\<open>getnum\<close>: one or two digits, two when \<open>fixed\<close>.\<close>

definition digit_int :: "char \<Rightarrow> int" where
  "digit_int c = int (digit_val c)"

definition digits_int :: "string \<Rightarrow> int" where
  "digits_int ds = foldl (\<lambda>n c. 10 * n + digit_int c) 0 ds"

definition getnum :: "bool \<Rightarrow> string \<Rightarrow> (int \<times> string) option" where
  "getnum fixed s =
     (case s of
        [] \<Rightarrow> None
      | a # r \<Rightarrow>
          if \<not> is_digit a then None
          else (case r of
              b # q \<Rightarrow> if is_digit b then Some (10 * digit_int a + digit_int b, q)
                       else if fixed then None else Some (digit_int a, r)
            | [] \<Rightarrow> if fixed then None else Some (digit_int a, r)))"

definition lit :: "char \<Rightarrow> string \<Rightarrow> string option" where
  "lit c s = (case s of [] \<Rightarrow> None | a # r \<Rightarrow> if a = c then Some r else None)"

definition get_year :: "string \<Rightarrow> (int \<times> string) option" where
  "get_year s =
     (if 4 \<le> length s \<and> list_all is_digit (take 4 s)
      then Some (digits_int (take 4 s), drop 4 s) else None)"

text \<open>A fraction of a second, cut to nanoseconds, when one follows.\<close>

definition get_fraction :: "string \<Rightarrow> int \<times> string" where
  "get_fraction s =
     (case s of
        c # a # r \<Rightarrow>
          if (c = CHR ''.'' \<or> c = CHR '','') \<and> is_digit a
          then (digits_int (take 9 (takeWhile is_digit (a # r) @ replicate 9 CHR ''0'')),
                dropWhile is_digit (a # r))
          else (0, s)
      | _ \<Rightarrow> (0, s))"

definition get_zone :: "string \<Rightarrow> (int \<times> string) option" where
  "get_zone s =
     (case s of
        [] \<Rightarrow> None
      | c # r \<Rightarrow>
          if c = CHR ''Z'' then Some (0, r)
          else if c \<noteq> CHR ''+'' \<and> c \<noteq> CHR ''-'' then None
          else do { (h, r1) \<leftarrow> getnum True r;
                    r2 \<leftarrow> lit CHR '':'' r1;
                    (m, r3) \<leftarrow> getnum True r2;
                    if 24 < h \<or> 60 < m then None
                    else Some ((if c = CHR ''-'' then -1 else 1) * (h * 3600 + m * 60), r3) })"

definition parse_rfc3339 :: "string \<Rightarrow> instant option" where
  "parse_rfc3339 s =
     do { (y, s1) \<leftarrow> get_year s;
          s2 \<leftarrow> lit CHR ''-'' s1;
          (mo, s3) \<leftarrow> getnum True s2;
          s4 \<leftarrow> lit CHR ''-'' s3;
          (d, s5) \<leftarrow> getnum True s4;
          s6 \<leftarrow> lit CHR ''T'' s5;
          (h, s7) \<leftarrow> getnum False s6;
          s8 \<leftarrow> lit CHR '':'' s7;
          (mi, s9) \<leftarrow> getnum True s8;
          s10 \<leftarrow> lit CHR '':'' s9;
          (sc, s11) \<leftarrow> getnum True s10;
          let (ns, s12) = get_fraction s11;
          (z, s13) \<leftarrow> get_zone s12;
          if mo < 1 \<or> 12 < mo \<or> 23 < h \<or> 59 < mi \<or> 59 < sc \<or> s13 \<noteq> [] then None
          else if d < 1 \<or> days_in_month y mo < d then None
          else Some \<lparr>in_sec = epoch_days y mo d * 86400 + h * 3600 + mi * 60 + sc - z, in_nsec = ns\<rparr> }"

lemma parse_examples:
  "parse_rfc3339 ''1970-01-01T00:00:00Z'' = Some \<lparr>in_sec = 0, in_nsec = 0\<rparr>"
  "parse_rfc3339 ''2026-02-28T23:59:59.5+01:00'' = Some \<lparr>in_sec = 1772319599, in_nsec = 500000000\<rparr>"
  "parse_rfc3339 ''2026-02-29T00:00:00Z'' = None"
  by code_simp+

lemma instant_before_irrefl [simp]: "\<not> instant_before t t"
  by (simp add: instant_before_def)

lemma instant_before_trans: "instant_before a b \<Longrightarrow> instant_before b c \<Longrightarrow> instant_before a c"
  by (auto simp: instant_before_def)

lemma instant_before_linear: "\<not> instant_before a b \<Longrightarrow> \<not> instant_before b a \<Longrightarrow> a = b"
  by (cases a; cases b) (auto simp: instant_before_def)

end
