(* ===== verification/Install_Recovery.thy ===== *)
theory Install_Recovery
  imports Install_Journal Go_Time
begin

text \<open>
  Classification of an interrupted installation (\<open>app/install_recovery.go\<close>): the
  observation, the decision table of \<open>classifyInstall\<close>, its evidence lines, and the
  preparation of a resume. \<open>brand\<close> stands for \<open>productName()\<close>, which the branding fixes.
\<close>

definition InstallClassNone :: string where "InstallClassNone = ''none''"
definition InstallClassComplete :: string where "InstallClassComplete = ''complete''"
definition InstallClassInProgress :: string where "InstallClassInProgress = ''in-progress''"
definition InstallClassResumable :: string where "InstallClassResumable = ''resumable''"
definition InstallClassFailed :: string where "InstallClassFailed = ''failed''"
definition InstallClassNeedsRepair :: string where "InstallClassNeedsRepair = ''needs-repair''"

lemmas install_classes = InstallClassNone_def InstallClassComplete_def InstallClassInProgress_def
  InstallClassResumable_def InstallClassFailed_def InstallClassNeedsRepair_def

definition CauseCancelled :: string where "CauseCancelled = ''cancelled''"
definition CauseInterrupted :: string where "CauseInterrupted = ''interrupted''"
definition CauseStepFailed :: string where "CauseStepFailed = ''step-failed''"
definition CauseNeverBooted :: string where "CauseNeverBooted = ''never-booted''"
definition CauseDeployerInterrupted :: string where "CauseDeployerInterrupted = ''deployer-interrupted''"
definition CauseDeployerFailed :: string where "CauseDeployerFailed = ''deployer-failed''"
definition CauseAwaitingRestart :: string where "CauseAwaitingRestart = ''awaiting-restart''"
definition CauseDeployed :: string where "CauseDeployed = ''deployed''"
definition CauseHealthy :: string where "CauseHealthy = ''healthy''"
definition CauseUnknown :: string where "CauseUnknown = ''unknown''"

lemmas install_causes = CauseCancelled_def CauseInterrupted_def CauseStepFailed_def
  CauseNeverBooted_def CauseDeployerInterrupted_def CauseDeployerFailed_def
  CauseAwaitingRestart_def CauseDeployed_def CauseHealthy_def CauseUnknown_def

text \<open>\<open>partialRootDiskSlack\<close>, in seconds.\<close>

definition partialRootDiskSlack :: int where "partialRootDiskSlack = 120"

record bundle_evidence =
  be_complete :: bool
  be_image :: string
  be_blobs :: int
  be_bytes :: int
  be_partial :: int
  be_error :: string

record install_observation =
  io_journal :: "install_journal option"
  io_journal_error :: string
  io_owner_up :: bool
  io_state :: "lifecycle_state option"
  io_armed_file :: bool
  io_deployer_started :: bool
  io_verdict_file :: bool
  io_bundle :: bundle_evidence
  io_root_disk :: bool
  io_root_disk_time :: string

record recovery_actions =
  ra_resume :: bool
  ra_retry :: bool
  ra_repair :: bool
  ra_remove :: bool

text \<open>The evidence lines, one constructor per format string.\<close>

datatype evidence =
    JournalLine string string nat "string option" "(int \<times> bool) option"
  | JournalUnreadable string
  | JournalAbsent
  | StateLine string "string option"
  | StateAbsent
  | ArmedLine bool
  | DeployerLine bool
  | VerdictLine bool
  | DownloadComplete string
  | DownloadUnreadable string
  | DownloadIncomplete int int int
  | RootDiskPresent string
  | RootDiskAbsent

record install_recovery =
  ir_class :: string
  ir_cause :: string
  ir_image :: string
  ir_last :: string
  ir_stopped :: string
  ir_error :: string
  ir_title :: string
  ir_message :: string
  ir_actions :: recovery_actions
  ir_recommended :: string
  ir_discards :: bool
  ir_blobs :: int
  ir_bytes :: int
  ir_evidence :: "evidence list"
  ir_observation :: install_observation

subsection \<open>What the attempt reached\<close>

definition bootChainTouched :: "install_journal \<Rightarrow> bool" where
  "bootChainTouched j \<longleftrightarrow>
     list_ex (\<lambda>s. ij_current j = s \<or> Completed j s)
       [StepInstallerGettingLinuxPrepared, StepInstallerMakingLinuxBootableOnYourMachine]"

definition rootDiskStepReached :: "install_journal \<Rightarrow> bool" where
  "rootDiskStepReached j \<longleftrightarrow>
     ij_current j = StepInstallerMakingRoomForLinux \<or> Completed j StepInstallerMakingRoomForLinux"

definition state_name :: "install_observation \<Rightarrow> string" where
  "state_name ob = (case io_state ob of None \<Rightarrow> [] | Some st \<Rightarrow> ls_state st)"

definition partialRootDiskOwned :: "install_observation \<Rightarrow> bool" where
  "partialRootDiskOwned ob =
     (case io_journal ob of
        None \<Rightarrow> False
      | Some j \<Rightarrow>
          if \<not> io_root_disk ob \<or> io_deployer_started ob \<or> io_armed_file ob \<or> \<not> rootDiskStepReached j
          then False
          else if state_name ob = StateDeploying \<or> state_name ob = StateDeployed \<or>
                  state_name ob = StateHealthy then False
          else (case parse_rfc3339 (ij_started j) of
                  None \<Rightarrow> False
                | Some started \<Rightarrow>
                    (case parse_rfc3339 (io_root_disk_time ob) of
                       None \<Rightarrow> False
                     | Some modified \<Rightarrow>
                         \<not> instant_before modified (add_seconds started (- partialRootDiskSlack)))))"

subsection \<open>Evidence\<close>

definition journal_evidence :: "install_observation \<Rightarrow> evidence" where
  "journal_evidence ob =
     (case io_journal ob of
        Some j \<Rightarrow> JournalLine (ij_attempt j) (ij_outcome j) (length (ij_completed j))
          (if ij_current j = [] then None else Some (ij_current j))
          (if ij_outcome j = JournalRunning then Some (ij_pid j, io_owner_up ob) else None)
      | None \<Rightarrow> if io_journal_error ob \<noteq> [] then JournalUnreadable (io_journal_error ob) else JournalAbsent)"

definition bundle_evidence_line :: "bundle_evidence \<Rightarrow> evidence" where
  "bundle_evidence_line b =
     (if be_complete b then DownloadComplete (be_image b)
      else if be_error b \<noteq> [] then DownloadUnreadable (be_error b)
      else DownloadIncomplete (be_blobs b) (be_bytes b) (be_partial b))"

definition installEvidence :: "install_observation \<Rightarrow> evidence list" where
  "installEvidence ob =
     [journal_evidence ob,
      (case io_state ob of
         None \<Rightarrow> StateAbsent
       | Some st \<Rightarrow> StateLine (ls_state st) (if ls_phase st = [] then None else Some (ls_phase st))),
      ArmedLine (io_armed_file ob), DeployerLine (io_deployer_started ob),
      VerdictLine (io_verdict_file ob), bundle_evidence_line (io_bundle ob),
      if io_root_disk ob then RootDiskPresent (io_root_disk_time ob) else RootDiskAbsent]"

subsection \<open>The decision table\<close>

definition no_actions :: recovery_actions where
  "no_actions = \<lparr>ra_resume = False, ra_retry = False, ra_repair = False, ra_remove = False\<rparr>"

definition start_recovery :: "install_observation \<Rightarrow> install_recovery" where
  "start_recovery ob =
     \<lparr>ir_class = [], ir_cause = [],
      ir_image = (case io_journal ob of None \<Rightarrow> [] | Some j \<Rightarrow> ij_image j),
      ir_last = (case io_journal ob of None \<Rightarrow> [] | Some j \<Rightarrow> LastCompletedStep j),
      ir_stopped = [], ir_error = [], ir_title = [], ir_message = [], ir_actions = no_actions,
      ir_recommended = [], ir_discards = False, ir_blobs = 0, ir_bytes = 0,
      ir_evidence = installEvidence ob, ir_observation = ob\<rparr>"

definition armed_actions :: "install_observation \<Rightarrow> install_recovery \<Rightarrow> install_recovery" where
  "armed_actions ob r = r\<lparr>
     ir_actions := (ir_actions r)\<lparr>ra_retry := io_armed_file ob, ra_repair := io_armed_file ob, ra_remove := True\<rparr>,
     ir_recommended := if io_armed_file ob then ''retry-deploy'' else ''remove''\<rparr>"

definition only_remove :: "install_recovery \<Rightarrow> install_recovery" where
  "only_remove r = r\<lparr>ir_actions := (ir_actions r)\<lparr>ra_remove := True\<rparr>\<rparr>"

definition verdict_is ::
  "string \<Rightarrow> string \<Rightarrow> string \<Rightarrow> string \<Rightarrow> install_recovery \<Rightarrow> install_recovery" where
  "verdict_is cls cause title msg r =
     r\<lparr>ir_class := cls, ir_cause := cause, ir_title := title, ir_message := msg\<rparr>"

text \<open>The step the deployer's record names: its phase identifier, else its phase.\<close>

definition stopped_by :: "lifecycle_state \<Rightarrow> string" where
  "stopped_by st =
     (let p = observedStepID (ls_phase_id st) in if p = [] then observedStepID (ls_phase st) else p)"

definition classify_phase2 :: "install_observation \<Rightarrow> lifecycle_state \<Rightarrow> install_recovery option" where
  "classify_phase2 ob st =
     (let r = start_recovery ob in
      if ls_state st = StateHealthy then
        Some (verdict_is InstallClassComplete CauseHealthy ''Linux is installed''
          ''The new system started and reported that it is healthy.'' r)
      else if ls_state st = StateDeployed then
        Some (only_remove (verdict_is InstallClassComplete CauseDeployed ''Linux is installed''
          ''The new system is ready. It finishes setting up the next time it starts.'' r))
      else if ls_state st = StateDeploying then
        Some (armed_actions ob ((verdict_is InstallClassResumable CauseDeployerInterrupted
          ''Setup stopped while installing Linux''
          ''The computer restarted or lost power while the installer was running. Windows is still the default system. Try again to run the installer once more.'' r)
          \<lparr>ir_stopped := stopped_by st\<rparr>))
      else if ls_state st = StateFailed \<and> io_deployer_started ob then
        Some (armed_actions ob ((verdict_is InstallClassFailed CauseDeployerFailed
          ''The Linux installer reported an error''
          ''Windows is still the default system. Try again, repair the startup entry, or remove the installation.'' r)
          \<lparr>ir_stopped := stopped_by st, ir_error := ls_error st\<rparr>))
      else None)"

definition armed_reached :: "install_observation \<Rightarrow> bool" where
  "armed_reached ob \<longleftrightarrow>
     (case io_journal ob of
        Some j \<Rightarrow> ij_outcome j = JournalArmed
      | None \<Rightarrow> state_name ob = StateArmed)"

definition classify_armed :: "install_observation \<Rightarrow> install_recovery" where
  "classify_armed ob =
     (let r = start_recovery ob in
      if io_verdict_file ob \<and> \<not> io_deployer_started ob then
        armed_actions ob (verdict_is InstallClassResumable CauseNeverBooted
          ''Windows started instead of the Linux installer''
          ''The computer did not start the installer after the restart. Nothing was installed yet. Try again to restart into it.'' r)
      else only_remove (verdict_is InstallClassComplete CauseAwaitingRestart ''Ready to restart''
          ''Preparation finished. Restart the computer to install Linux.'' r))"

definition classifyWithoutJournal :: "string \<Rightarrow> install_recovery \<Rightarrow> install_observation \<Rightarrow> install_recovery" where
  "classifyWithoutJournal brand r ob =
     (case io_state ob of
        None \<Rightarrow> r\<lparr>ir_class := InstallClassNone\<rparr>
      | Some st \<Rightarrow>
          if ls_state st = StateFailed \<or> ls_state st = StateStaged then
            (let cancelled = (ls_state st = StateStaged \<and> ls_phase st = ''cancelled'');
                 resume = (\<not> io_root_disk ob \<and> \<not> io_armed_file ob)
             in r\<lparr>ir_stopped := if cancelled then [] else observedStepID (ls_phase_id st),
                  ir_error := ls_error st,
                  ir_cause := if cancelled then CauseCancelled
                              else if ls_state st = StateStaged then CauseUnknown else CauseStepFailed,
                  ir_class := if cancelled then InstallClassResumable else InstallClassFailed,
                  ir_title := ''The last installation did not finish'',
                  ir_message := ''This record comes from an older version of '' @ brand @
                    ''. Remove the installation if a new install will not start.'',
                  ir_actions := (ir_actions r)\<lparr>ra_remove := True, ra_resume := resume\<rparr>,
                  ir_recommended := if resume then ''resume'' else ''remove'',
                  ir_blobs := be_blobs (io_bundle ob), ir_bytes := be_bytes (io_bundle ob)\<rparr>)
          else r\<lparr>ir_class := InstallClassNone\<rparr>)"

definition touched_message :: "string \<Rightarrow> string \<Rightarrow> string" where
  "touched_message brand cause =
     (if cause = CauseInterrupted then
        ''The computer restarted or '' @ brand @ '' closed unexpectedly while it was changing the startup files. Remove the installation to put the startup files back, then install again.''
      else if cause = CauseCancelled then
        ''You cancelled after '' @ brand @ '' changed the startup files. The one-time Linux start was turned off. Remove the installation to clean up the startup files, then install again.''
      else
        ''A step failed after '' @ brand @ '' changed the startup files. The one-time Linux start was turned off. Remove the installation to clean up the startup files, then install again.'')"

definition classify_touched ::
  "string \<Rightarrow> install_observation \<Rightarrow> string \<Rightarrow> install_recovery \<Rightarrow> install_recovery" where
  "classify_touched brand ob cause r =
     (verdict_is InstallClassNeedsRepair cause ''Setup stopped while changing the startup files''
        (touched_message brand cause) r)
     \<lparr>ir_actions := (ir_actions r)\<lparr>ra_remove := True, ra_repair := io_armed_file ob\<rparr>,
      ir_recommended := ''remove''\<rparr>"

definition unchanged_text :: string where
  "unchanged_text = ''Nothing outside the installation folder changed, and Windows starts as usual.''"

definition untouched_verdict :: "string \<Rightarrow> string \<Rightarrow> install_recovery \<Rightarrow> install_recovery" where
  "untouched_verdict brand cause r =
     (if cause = CauseInterrupted then
        verdict_is InstallClassResumable cause ''Setup stopped unexpectedly''
          (brand @ '' closed or the computer lost power before setup finished. '' @ unchanged_text) r
      else if cause = CauseCancelled then
        verdict_is InstallClassResumable cause ''You cancelled the last installation'' unchanged_text r
      else
        verdict_is InstallClassFailed cause ''The last installation did not finish''
          (''A step failed. '' @ unchanged_text) r)"

definition classify_untouched ::
  "string \<Rightarrow> install_observation \<Rightarrow> string \<Rightarrow> install_recovery \<Rightarrow> install_recovery" where
  "classify_untouched brand ob cause r =
     (let owned = partialRootDiskOwned ob; resume = (\<not> io_root_disk ob \<or> owned)
      in (untouched_verdict brand cause r)
         \<lparr>ir_actions := (ir_actions r)\<lparr>ra_resume := resume, ra_remove := True\<rparr>,
          ir_recommended := if resume then ''resume'' else ''remove'',
          ir_blobs := be_blobs (io_bundle ob), ir_bytes := be_bytes (io_bundle ob),
          ir_discards := io_root_disk ob \<and> owned\<rparr>)"

definition classify_journal :: "string \<Rightarrow> install_observation \<Rightarrow> install_journal \<Rightarrow> install_recovery" where
  "classify_journal brand ob j =
     (let r = (start_recovery ob)\<lparr>ir_stopped := ij_current j, ir_error := ij_error j\<rparr>;
          known = (\<lambda>cause. if bootChainTouched j then classify_touched brand ob cause r
                           else classify_untouched brand ob cause r)
      in if ij_outcome j = JournalRunning then
           (if io_owner_up ob then
              verdict_is InstallClassInProgress [] ''An installation is running''
                (''Another '' @ brand @ '' window is installing right now. Wait for it to finish.'') r
            else known CauseInterrupted)
         else if ij_outcome j = JournalCancelled then known CauseCancelled
         else if ij_outcome j = JournalFailed then known CauseStepFailed
         else (only_remove (verdict_is InstallClassNeedsRepair CauseUnknown
                ''The last installation left an unknown record''
                ''Remove the installation before you try again.'' r))\<lparr>ir_recommended := ''remove''\<rparr>)"

definition classifyInstall :: "string \<Rightarrow> install_observation \<Rightarrow> install_recovery" where
  "classifyInstall brand ob =
     (case Option.bind (io_state ob) (classify_phase2 ob) of
        Some r \<Rightarrow> r
      | None \<Rightarrow>
          if armed_reached ob then classify_armed ob
          else (case io_journal ob of
                  None \<Rightarrow> classifyWithoutJournal brand (start_recovery ob) ob
                | Some j \<Rightarrow> classify_journal brand ob j))"

subsection \<open>Observation\<close>

record dir_entry =
  de_name :: string
  de_is_dir :: bool
  de_size :: "int option"

text \<open>Digest-named files are verified pieces; \<open>*.part\<close> files are not. \<open>de_size\<close> is \<open>None\<close>
  when the entry vanished before it could be inspected.\<close>

definition digest_name :: "string \<Rightarrow> bool" where
  "digest_name name \<longleftrightarrow> length name = 64 \<and> trim_set name ''0123456789abcdef'' = []"

definition count_entry :: "bundle_evidence \<Rightarrow> dir_entry \<Rightarrow> bundle_evidence" where
  "count_entry ev e =
     (if de_is_dir e then ev
      else if has_suffix (de_name e) ''.part'' then ev\<lparr>be_partial := be_partial ev + 1\<rparr>
      else if \<not> digest_name (de_name e) then ev
      else case de_size e of
             None \<Rightarrow> ev
           | Some n \<Rightarrow> ev\<lparr>be_blobs := be_blobs ev + 1, be_bytes := be_bytes ev + n\<rparr>)"

definition observeBundleAt :: "string option \<Rightarrow> dir_entry list file_read \<Rightarrow> string \<Rightarrow> bundle_evidence" where
  "observeBundleAt info blobs imageRef =
     (let ev = (case info of
            None \<Rightarrow> \<lparr>be_complete = False, be_image = [], be_blobs = 0, be_bytes = 0, be_partial = 0,
                     be_error = []\<rparr>
          | Some img \<Rightarrow> \<lparr>be_complete = (imageRef = [] \<or> img = imageRef), be_image = img,
                     be_blobs = 0, be_bytes = 0, be_partial = 0, be_error = []\<rparr>)
      in case blobs of
           Missing \<Rightarrow> ev
         | Unreadable e \<Rightarrow> ev\<lparr>be_error := e\<rparr>
         | Found es \<Rightarrow> foldl count_entry ev es)"

text \<open>
  What the wootc directory holds. \<open>wf_state\<close> is \<open>state.json\<close> when it could be read; the
  journal is unreadable when it exists but does not parse.
\<close>

record wootc_files =
  wf_journal :: "install_journal file_read"
  wf_state :: "lifecycle_state option"
  wf_armed :: bool
  wf_deployer_started :: bool
  wf_verdict :: bool
  wf_bundle_image :: "string option"
  wf_blobs :: "dir_entry list file_read"
  wf_root_disk :: "string option"

definition observeInstallAt ::
  "(lifecycle_state \<Rightarrow> lifecycle_state) \<Rightarrow> wootc_files \<Rightarrow> (int \<Rightarrow> bool) \<Rightarrow> install_observation" where
  "observeInstallAt verified f alive =
     \<lparr>io_journal = (case wf_journal f of Found j \<Rightarrow> Some j | _ \<Rightarrow> None),
      io_journal_error = (case wf_journal f of Unreadable e \<Rightarrow> e | _ \<Rightarrow> []),
      io_owner_up = (case wf_journal f of
          Found j \<Rightarrow> ij_outcome j = JournalRunning \<and> 0 < ij_pid j \<and> alive (ij_pid j) | _ \<Rightarrow> False),
      io_state = map_option verified (wf_state f),
      io_armed_file = wf_armed f, io_deployer_started = wf_deployer_started f,
      io_verdict_file = wf_verdict f,
      io_bundle = observeBundleAt (wf_bundle_image f) (wf_blobs f)
        (case wf_journal f of Found j \<Rightarrow> ij_image j | _ \<Rightarrow> []),
      io_root_disk = (wf_root_disk f \<noteq> None),
      io_root_disk_time = (case wf_root_disk f of None \<Rightarrow> [] | Some t \<Rightarrow> t)\<rparr>"

subsection \<open>Preparing a resume\<close>

record resume_preparation =
  rp_discarded :: bool
  rp_blobs :: int
  rp_bytes :: int
  rp_image :: string

datatype resume_error =
    ResumeNotSafe string string
  | RemovingRootDisk string

definition no_preparation :: resume_preparation where
  "no_preparation = \<lparr>rp_discarded = False, rp_blobs = 0, rp_bytes = 0, rp_image = []\<rparr>"

text \<open>\<open>os.Remove\<close> answers for an existing file: no error, or the reason.\<close>

definition remove_root_disk :: "string option \<Rightarrow> wootc_files \<Rightarrow> string option \<times> wootc_files" where
  "remove_root_disk fault f =
     (case wf_root_disk f of
        None \<Rightarrow> (None, f)
      | Some _ \<Rightarrow> (case fault of None \<Rightarrow> (None, f\<lparr>wf_root_disk := None\<rparr>) | Some e \<Rightarrow> (Some e, f)))"

definition prepareResumeAt ::
  "string \<Rightarrow> (lifecycle_state \<Rightarrow> lifecycle_state) \<Rightarrow> (int \<Rightarrow> bool) \<Rightarrow> string option \<Rightarrow> wootc_files \<Rightarrow>
     (resume_error option \<times> resume_preparation) \<times> wootc_files" where
  "prepareResumeAt brand verified alive fault f =
     (let r = classifyInstall brand (observeInstallAt verified f alive);
          p = \<lparr>rp_discarded = False, rp_blobs = ir_blobs r, rp_bytes = ir_bytes r, rp_image = ir_image r\<rparr>
      in if \<not> ra_resume (ir_actions r)
         then ((Some (ResumeNotSafe (ir_class r) (ir_cause r)), no_preparation), f)
         else if ir_discards r then
           (case remove_root_disk fault f of
              (Some e, f1) \<Rightarrow> ((Some (RemovingRootDisk e), p), f1)
            | (None, f1) \<Rightarrow> ((None, p\<lparr>rp_discarded := True\<rparr>), f1))
         else ((None, p), f))"

end
