(* ===== verification/Install_Engine_Props.thy ===== *)
theory Install_Engine_Props
  imports Install_Engine "HOL-Library.Sublist"
begin

text \<open>
  What a run of the install engine does, as a sequence of events, whatever the platform, the
  steps, the cancellation and the injected fault do: which steps ran, what the journal said
  before each, and how every exit leaves the machine.
\<close>

datatype engine_event =
    Prepared "string option"
  | Released
  | Journaled install_journal
  | Stated string string string
  | Disarmed
  | Emitted progress_event
  | Polled "string option"
  | Ran string "string option"

type_synonym 's traced_state = "'s \<times> engine_event list"

definition traced_step :: "'s install_step \<Rightarrow> 's traced_state install_step" where
  "traced_step st = \<lparr>st_name = st_name st, st_percent = st_percent st,
     st_fn = (\<lambda>(s, tr). let (r, s1) = st_fn st s in (r, s1, Ran (st_name st) r # tr))\<rparr>"

definition traced_recorder :: "'s recorder_env \<Rightarrow> 's traced_state recorder_env" where
  "traced_recorder env =
     \<lparr>rj_now = (\<lambda>(s, tr). let (t, s1) = rj_now env s in (t, s1, tr)),
      rj_write = (\<lambda>j (s, tr). let (r, s1) = rj_write env j s in (r, s1, Journaled j # tr))\<rparr>"

definition traced_platform :: "'s install_platform \<Rightarrow> 's traced_state install_platform" where
  "traced_platform p =
     \<lparr>ip_prepare = (\<lambda>d (s, tr). let (r, s1) = ip_prepare p d s in (r, s1, Prepared r # tr)),
      ip_release = (\<lambda>(s, tr). (ip_release p s, Released # tr)),
      ip_steps = (\<lambda>cfg. map traced_step (ip_steps p cfg)),
      ip_recorder = traced_recorder (ip_recorder p),
      ip_pid = ip_pid p,
      ip_writeState = (\<lambda>a b c (s, tr). (ip_writeState p a b c s, Stated a b c # tr)),
      ip_disarm = (\<lambda>(s, tr). (ip_disarm p s, Disarmed # tr)),
      ip_emit = (\<lambda>e (s, tr). (ip_emit p e s, Emitted e # tr)),
      ip_cancelled = (\<lambda>(s, tr). let (r, s1) = ip_cancelled p s in (r, s1, Polled r # tr)),
      ip_env_fault = ip_env_fault p\<rparr>"

abbreviation bootable :: string where
  "bootable \<equiv> StepInstallerMakingLinuxBootableOnYourMachine"

text \<open>The steps that ran, in order, with their results.\<close>

fun runs :: "engine_event list \<Rightarrow> (string \<times> string option) list" where
  "runs [] = []"
| "runs (e # tr) = (case e of Ran n r \<Rightarrow> runs tr @ [(n, r)] | _ \<Rightarrow> runs tr)"

text \<open>
  Each step was journaled as the current one and announced right before it ran, and each
  journal names every step run so far, as completed or as the current one.
\<close>

fun announced :: "engine_event list \<Rightarrow> bool" where
  "announced [] = True"
| "announced (e # tr) \<longleftrightarrow> announced tr \<and>
     (case e of
        Ran n r \<Rightarrow> (case tr of Emitted pe # Journaled j # _ \<Rightarrow>
                      pe_step pe = n \<and> ij_current j = n \<and> ij_outcome j = JournalRunning \<and>
                      ij_completed j = map fst (runs tr)
                    | _ \<Rightarrow> False)
      | Journaled j \<Rightarrow> set (map fst (runs tr)) \<subseteq> insert (ij_current j) (set (ij_completed j))
      | _ \<Rightarrow> True)"

text \<open>An exit: disarmed if armed, then the lifecycle state, then the closed journal.\<close>

definition left_cleanly :: "bool \<Rightarrow> install_journal \<Rightarrow> engine_event list \<Rightarrow> bool" where
  "left_cleanly armed j tr \<longleftrightarrow>
     (\<exists>state phase msg rest. tr = Journaled j # Stated state phase msg #
        (if armed then Disarmed # rest else rest) \<and>
      (state = StateFailed \<and> ij_outcome j = JournalFailed \<or>
       state = StateStaged \<and> ij_outcome j = JournalCancelled))"

subsection \<open>The operations\<close>

lemma flush_traced:
  assumes "journal_flush (traced_recorder env) j w = (j', w')"
  shows "snd w' = Journaled j' # snd w" "ij_completed j' = ij_completed j"
    "ij_outcome j' = ij_outcome j" "ij_current j' = ij_current j"
  using assms by (cases w; auto simp: journal_flush_def traced_recorder_def Let_def split: prod.splits)+

lemma stepStarted_traced:
  assumes "stepStarted (traced_recorder env) n j w = (j', w')"
  shows "snd w' = Journaled j' # snd w" "ij_completed j' = ij_completed j"
    "ij_outcome j' = ij_outcome j" "ij_current j' = n"
  using flush_traced [OF assms [unfolded stepStarted_def]] by simp_all

lemma stepDone_traced:
  assumes "stepDone (traced_recorder env) n j w = (j', w')"
  shows "snd w' = Journaled j' # snd w" "ij_completed j' = ij_completed j @ [n]"
    "ij_outcome j' = ij_outcome j"
  using flush_traced [OF assms [unfolded stepDone_def]] by simp_all

lemma end_traced:
  assumes "journal_end (traced_recorder env) outcome err j w = (j', w')"
  shows "snd w' = Journaled j' # snd w" "ij_completed j' = ij_completed j"
    "ij_outcome j' = outcome" "ij_current j' = ij_current j"
proof -
  obtain t w1 where t: "rj_now (traced_recorder env) w = (t, w1)" by (metis surj_pair)
  then have "snd w1 = snd w"
    by (cases w) (auto simp: traced_recorder_def Let_def split: prod.splits)
  with t flush_traced [of env _ w1 j' w'] assms
  show "snd w' = Journaled j' # snd w" "ij_completed j' = ij_completed j"
    "ij_outcome j' = outcome" "ij_current j' = ij_current j"
    unfolding journal_end_def by (simp_all add: Let_def)
qed

lemma traced_platform_simps [simp]:
  "ip_recorder (traced_platform p) = traced_recorder (ip_recorder p)"
  "ip_steps (traced_platform p) cfg = map traced_step (ip_steps p cfg)"
  "ip_pid (traced_platform p) = ip_pid p" "ip_env_fault (traced_platform p) = ip_env_fault p"
  "snd (ip_writeState (traced_platform p) a b c w) = Stated a b c # snd w"
  "snd (ip_disarm (traced_platform p) w) = Disarmed # snd w"
  "snd (ip_emit (traced_platform p) e w) = Emitted e # snd w"
  "snd (ip_release (traced_platform p) w) = Released # snd w"
  "st_name (traced_step st) = st_name st" "st_percent (traced_step st) = st_percent st"
  by (cases w; simp add: traced_platform_def traced_step_def)+

lemma poll_traced: "ip_cancelled (traced_platform p) w = (r, w') \<Longrightarrow> snd w' = Polled r # snd w"
  by (cases w) (auto simp: traced_platform_def Let_def split: prod.splits)

lemma prepare_traced: "ip_prepare (traced_platform p) d w = (r, w') \<Longrightarrow> snd w' = Prepared r # snd w"
  by (cases w) (auto simp: traced_platform_def Let_def split: prod.splits)

lemma fn_traced: "st_fn (traced_step st) w = (r, w') \<Longrightarrow> snd w' = Ran (st_name st) r # snd w"
  by (cases w) (auto simp: traced_step_def Let_def split: prod.splits)

lemma leave_traced:
  assumes "leave (traced_platform p) armed state phase msg outcome j w = (j', w')"
  shows "snd w' = Journaled j' # Stated state phase msg # (if armed then Disarmed # snd w else snd w)"
    "ij_completed j' = ij_completed j" "ij_outcome j' = outcome" "ij_current j' = ij_current j"
  using end_traced [of "ip_recorder p" outcome msg j _ j' w'] assms
  by (auto simp: leave_def Let_def)

lemma runs_left: "left_cleanly armed j tr \<Longrightarrow> \<exists>rest. runs tr = runs rest"
  by (auto simp: left_cleanly_def)

text \<open>What holds between two steps.\<close>

definition loop_inv :: "bool \<Rightarrow> install_journal \<Rightarrow> engine_event list \<Rightarrow> bool" where
  "loop_inv armed j tr \<longleftrightarrow> announced tr \<and> ij_outcome j = JournalRunning \<and>
     ij_completed j = map fst (runs tr) \<and> (\<forall>x\<in>set (runs tr). snd x = None) \<and>
     armed = (bootable \<in> fst ` set (runs tr)) \<and> Disarmed \<notin> set tr"

text \<open>What holds after a step that ended the run: \<open>tr\<close> is the trace before it.\<close>

definition step_ended ::
  "string \<Rightarrow> bool \<Rightarrow> install_journal \<Rightarrow> engine_event list \<Rightarrow> engine_event list \<Rightarrow> bool" where
  "step_ended name armed j tr tr' \<longleftrightarrow> announced tr' \<and> left_cleanly armed j tr' \<and>
     ij_completed j = map fst (runs tr) \<and> ij_current j = name \<and>
     armed = (bootable \<in> fst ` set (runs tr')) \<and>
     (runs tr' = runs tr \<or> (\<exists>m. runs tr' = runs tr @ [(name, Some m)]))"

lemma step_failed_traced:
  assumes "step_failed (traced_platform p) armed name msg j w = ((r, armed', j'), w')"
  shows "r \<noteq> None" "armed' = armed" "left_cleanly armed j' (snd w')" "runs (snd w') = runs (snd w)"
    "announced (snd w) \<Longrightarrow> fst ` set (runs (snd w)) \<subseteq> insert (ij_current j) (set (ij_completed j)) \<Longrightarrow>
      announced (snd w')" "ij_completed j' = ij_completed j"
    "ij_current j' = ij_current j"
proof -
  obtain j1 w1 where l: "leave (traced_platform p) armed StateFailed name msg JournalFailed j w = (j1, w1)"
    by (metis surj_pair)
  with assms have eq: "j' = j1" "w' = w1" "armed' = armed" "r \<noteq> None"
    by (auto simp: step_failed_def)
  show "r \<noteq> None" "armed' = armed" using eq by simp_all
  note tr = leave_traced [OF l]
  show "left_cleanly armed j' (snd w')" using tr eq by (auto simp: left_cleanly_def)
  show "runs (snd w') = runs (snd w)" using tr eq by auto
  show "announced (snd w')" if "announced (snd w)" "fst ` set (runs (snd w)) \<subseteq> insert (ij_current j) (set (ij_completed j))"
    using tr eq that by simp
  show "ij_completed j' = ij_completed j" "ij_current j' = ij_current j" using tr eq by simp_all
qed

lemma run_step_traced:
  assumes "run_step (traced_platform p) fault (traced_step st) armed j w = ((r, armed', j'), w')"
    and "loop_inv armed j (snd w)"
  shows "(r = None \<longrightarrow> loop_inv armed' j' (snd w') \<and> runs (snd w') = runs (snd w) @ [(st_name st, None)]) \<and>
    (r \<noteq> None \<longrightarrow> step_ended (st_name st) armed' j' (snd w) (snd w'))"
proof -
  obtain j1 w1 where s: "stepStarted (traced_recorder (ip_recorder p)) (st_name st) j w = (j1, w1)"
    by (metis surj_pair)
  note s1 = stepStarted_traced [OF s]
  let ?w2 = "ip_emit (traced_platform p) (installStepProgress (st_name st) (st_percent st)) w1"
  have ann: "announced (snd ?w2)" "runs (snd ?w2) = runs (snd w)" "Disarmed \<notin> set (snd ?w2)"
    using assms(2) s1 by (auto simp: loop_inv_def)
  show ?thesis
  proof (cases "step_fault fault (st_name st)")
    case (Some msg)
    with assms(1) s have "step_failed (traced_platform p) armed (st_name st) msg j1 ?w2 = ((r, armed', j'), w')"
      by (simp add: run_step_def)
    note f = step_failed_traced [OF this]
    show ?thesis using f ann s1 assms(2) by (auto simp: step_ended_def loop_inv_def)
  next
    case None
    obtain q w3 where fn: "st_fn (traced_step st) ?w2 = (q, w3)" by (metis surj_pair)
    note w3 = fn_traced [OF fn]
    have ran: "announced (snd w3)" "runs (snd w3) = runs (snd w) @ [(st_name st, q)]"
      "Disarmed \<notin> set (snd w3)"
      using ann s1 w3 assms(2) by (simp_all add: loop_inv_def installStepProgress_def progress_at_def)
    let ?armed = "armed \<or> st_name st = bootable"
    show ?thesis
    proof (cases q)
      case (Some e)
      with None fn assms(1) s have
        "step_failed (traced_platform p) ?armed (st_name st) e j1 w3 = ((r, armed', j'), w')"
        by (simp add: run_step_def)
      note f = step_failed_traced [OF this]
      show ?thesis using f ran s1 assms(2) Some by (auto simp: step_ended_def loop_inv_def)
    next
      case q: None
      obtain j2 w4 where d: "stepDone (traced_recorder (ip_recorder p)) (st_name st) j1 w3 = (j2, w4)"
        by (metis surj_pair)
      note d1 = stepDone_traced [OF d]
      have "r = None" "armed' = ?armed" "j' = j2" "w' = w4"
        using None fn assms(1) s q d by (simp_all add: run_step_def)
      then show ?thesis using d1 ran s1 assms(2) q by (auto simp: loop_inv_def)
    qed
  qed
qed

subsection \<open>The loop\<close>

definition loop_ended ::
  "string list \<Rightarrow> bool \<Rightarrow> install_journal \<Rightarrow> engine_event list \<Rightarrow> engine_event list \<Rightarrow> bool" where
  "loop_ended names armed j tr tr' \<longleftrightarrow> announced tr' \<and> left_cleanly armed j tr' \<and>
     armed = (bootable \<in> fst ` set (runs tr')) \<and>
     (\<exists>k tail. k \<le> length names \<and> ij_completed j = map fst (runs tr) @ take k names \<and>
        runs tr' = runs tr @ map (\<lambda>n. (n, None)) (take k names) @ tail \<and>
        (tail = [] \<or> (\<exists>m. k < length names \<and> tail = [(names ! k, Some m)])))"

lemma loop_ended_Cons:
  assumes "loop_ended names armed j tr1 tr'" "runs tr1 = runs tr @ [(n, None)]"
  shows "loop_ended (n # names) armed j tr tr'"
proof -
  from assms obtain k tail where k: "k \<le> length names"
    "ij_completed j = map fst (runs tr1) @ take k names"
    "runs tr' = runs tr1 @ map (\<lambda>n. (n, None)) (take k names) @ tail"
    "tail = [] \<or> (\<exists>m. k < length names \<and> tail = [(names ! k, Some m)])"
    unfolding loop_ended_def by blast
  have "\<exists>k' tail. k' \<le> length (n # names) \<and> ij_completed j = map fst (runs tr) @ take k' (n # names) \<and>
      runs tr' = runs tr @ map (\<lambda>n. (n, None)) (take k' (n # names)) @ tail \<and>
      (tail = [] \<or> (\<exists>m. k' < length (n # names) \<and> tail = [((n # names) ! k', Some m)]))"
    by (rule exI [of _ "Suc k"], rule exI [of _ tail]) (use k assms(2) in auto)
  with assms(1) show ?thesis unfolding loop_ended_def by blast
qed

lemma run_steps_traced:
  "run_steps (traced_platform p) fault (map traced_step sts) armed j w = ((r, armed', j'), w') \<Longrightarrow>
   loop_inv armed j (snd w) \<Longrightarrow>
     (r = None \<longrightarrow> loop_inv armed' j' (snd w') \<and>
        runs (snd w') = runs (snd w) @ map (\<lambda>st. (st_name st, None)) sts) \<and>
     (r \<noteq> None \<longrightarrow> loop_ended (map st_name sts) armed' j' (snd w) (snd w'))"
proof (induction sts arbitrary: armed j w)
  case Nil
  then show ?case by simp
next
  case (Cons st sts)
  obtain q w1 where poll: "ip_cancelled (traced_platform p) w = (q, w1)" by (metis surj_pair)
  note w1 = poll_traced [OF poll]
  have inv1: "loop_inv armed j (snd w1)" "runs (snd w1) = runs (snd w)"
    using Cons.prems(2) w1 by (simp_all add: loop_inv_def)
  show ?case
  proof (cases q)
    case (Some e)
    obtain j1 w2 where l: "leave (traced_platform p) armed StateStaged ''cancelled'' [] JournalCancelled j w1 = (j1, w2)"
      by (metis surj_pair)
    with Some poll Cons.prems(1) have eq: "r = Some (Interrupted e)" "armed' = armed" "j' = j1" "w' = w2"
      by (auto split: prod.splits)
    note tr = leave_traced [OF l]
    have "announced (snd w')" "left_cleanly armed' j' (snd w')" "runs (snd w') = runs (snd w)"
      "ij_completed j' = ij_completed j"
      using tr eq inv1 by (auto simp: loop_inv_def left_cleanly_def)
    moreover have "armed' = (bootable \<in> fst ` set (runs (snd w)))" "ij_completed j = map fst (runs (snd w))"
      using eq Cons.prems(2) by (simp_all add: loop_inv_def)
    ultimately have "loop_ended (map st_name (st # sts)) armed' j' (snd w) (snd w')"
      unfolding loop_ended_def by (intro conjI exI [of _ 0] exI [of _ "[]"]) simp_all
    with eq show ?thesis by simp
  next
    case None
    obtain q2 armed1 j1 w2 where st: "run_step (traced_platform p) fault (traced_step st) armed j w1 = ((q2, armed1, j1), w2)"
      by (metis surj_pair)
    note st1 = run_step_traced [OF st inv1(1)]
    show ?thesis
    proof (cases q2)
      case (Some e)
      with None poll st Cons.prems(1) have eq: "r = Some e" "armed' = armed1" "j' = j1" "w' = w2"
        by simp_all
      have se: "step_ended (st_name st) armed1 j1 (snd w1) (snd w2)" using st1 Some by simp
      then obtain tail where tail: "runs (snd w2) = runs (snd w) @ tail"
        "tail = [] \<or> (\<exists>m. tail = [(st_name st, Some m)])"
        using inv1(2) by (auto simp: step_ended_def)
      have "loop_ended (map st_name (st # sts)) armed1 j1 (snd w) (snd w2)"
        unfolding loop_ended_def
        by (intro conjI exI [of _ 0] exI [of _ tail]) (use se tail inv1(2) in \<open>auto simp: step_ended_def\<close>)
      with eq show ?thesis by simp
    next
      case q2: None
      with None poll st Cons.prems(1) have
        rec: "run_steps (traced_platform p) fault (map traced_step sts) armed1 j1 w2 = ((r, armed', j'), w')"
        by simp
      have inv2: "loop_inv armed1 j1 (snd w2)" "runs (snd w2) = runs (snd w) @ [(st_name st, None)]"
        using st1 q2 inv1(2) by simp_all
      from Cons.IH [OF rec inv2(1)] inv2(2) loop_ended_Cons show ?thesis by auto
    qed
  qed
qed

subsection \<open>A whole run\<close>

lemma recorder_traced:
  assumes "newInstallJournalRecorder (traced_recorder env) img drv pid w = (j, w')"
  shows "snd w' = Journaled j # snd w" "ij_completed j = []" "ij_outcome j = JournalRunning"
proof -
  obtain t w1 where t: "rj_now (traced_recorder env) w = (t, w1)" by (metis surj_pair)
  then have "snd w1 = snd w"
    by (cases w) (auto simp: traced_recorder_def Let_def split: prod.splits)
  with t flush_traced [of env _ w1 j w'] assms
  show "snd w' = Journaled j # snd w" "ij_completed j = []" "ij_outcome j = JournalRunning"
    unfolding newInstallJournalRecorder_def by (simp_all add: Let_def)
qed

lemma run_end_traced:
  assumes "run_end (traced_platform p) fault armed j w = (r, w')" "loop_inv armed j (snd w)"
  shows "(r = None \<longrightarrow> (\<exists>j'. snd w' = Journaled j' # Stated StateArmed [] [] # Polled None # snd w \<and>
            ij_outcome j' = JournalArmed \<and> ij_completed j' = ij_completed j)) \<and>
    (r \<noteq> None \<longrightarrow> (\<exists>j'. announced (snd w') \<and> left_cleanly armed j' (snd w') \<and>
            runs (snd w') = runs (snd w) \<and> ij_completed j' = ij_completed j))"
proof (cases "fault = ''pre-reboot''")
  case True
  obtain j1 w1 where l: "leave (traced_platform p) armed StateStaged ''cancelled'' reboot_fault JournalCancelled j w = (j1, w1)"
    by (metis surj_pair)
  note tr = leave_traced [OF l]
  have "r \<noteq> None" "w' = w1" using True l assms(1) by (auto simp: run_end_def)
  moreover have "announced (snd w1)" "left_cleanly armed j1 (snd w1)" "runs (snd w1) = runs (snd w)"
    using tr assms(2) by (auto simp: loop_inv_def left_cleanly_def)
  ultimately show ?thesis using tr(2) by blast
next
  case False
  obtain q w1 where poll: "ip_cancelled (traced_platform p) w = (q, w1)" by (metis surj_pair)
  note w1 = poll_traced [OF poll]
  show ?thesis
  proof (cases q)
    case (Some e)
    define w2 where "w2 = ip_writeState (traced_platform p) StateStaged ''cancelled'' []
        (if armed then ip_disarm (traced_platform p) w1 else w1)"
    obtain j3 w3 where j3: "journal_end (traced_recorder (ip_recorder p)) JournalCancelled [] j w2 = (j3, w3)"
      by (metis surj_pair)
    note tr = end_traced [OF j3]
    have "r \<noteq> None" "w' = w3" using False poll Some j3 assms(1)
      by (auto simp: run_end_def finishInstallPipeline_def w2_def Let_def)
    moreover have "announced (snd w3)" "left_cleanly armed j3 (snd w3)" "runs (snd w3) = runs (snd w)"
      using tr assms(2) w1 by (auto simp: loop_inv_def left_cleanly_def w2_def)
    ultimately show ?thesis using tr(2) by blast
  next
    case None
    obtain j3 w3 where j3: "journal_end (traced_recorder (ip_recorder p)) JournalArmed [] j
        (ip_writeState (traced_platform p) StateArmed [] [] w1) = (j3, w3)"
      by (metis surj_pair)
    note tr = end_traced [OF j3]
    have "r = None" "w' = w3" using False poll None j3 assms(1)
      by (auto simp: run_end_def finishInstallPipeline_def)
    with tr w1 None show ?thesis by simp
  qed
qed

lemma run_steps_not_refused: "run_steps p fault sts armed j w = ((Some e, a, j'), w') \<Longrightarrow> e \<noteq> Refused m"
  by (induction sts arbitrary: armed j w)
    (auto simp: run_step_def step_failed_def Let_def split: prod.splits option.splits)

lemma run_end_not_refused: "run_end p fault armed j w = (Some e, w') \<Longrightarrow> e \<noteq> Refused m"
  by (auto simp: run_end_def finishInstallPipeline_def Let_def split: prod.splits option.splits if_splits)

definition finished_run :: "string list \<Rightarrow> engine_event list \<Rightarrow> bool" where
  "finished_run names tr' \<longleftrightarrow>
     (\<exists>j tr. tr' = Released # Journaled j # Stated StateArmed [] [] # Polled None # tr \<and>
        ij_outcome j = JournalArmed \<and> ij_completed j = names \<and>
        runs tr = map (\<lambda>n. (n, None)) names \<and> Disarmed \<notin> set tr)"

definition aborted_run :: "string list \<Rightarrow> engine_event list \<Rightarrow> bool" where
  "aborted_run names tr' \<longleftrightarrow>
     (\<exists>j tr k tail. tr' = Released # tr \<and> left_cleanly (bootable \<in> fst ` set (runs tr)) j tr \<and>
        k \<le> length names \<and> ij_completed j = take k names \<and>
        runs tr = map (\<lambda>n. (n, None)) (take k names) @ tail \<and>
        (tail = [] \<or> (\<exists>m. k < length names \<and> tail = [(names ! k, Some m)])))"

lemma loop_ended_aborted:
  assumes "loop_ended names armed j tr0 tr" "runs tr0 = []"
  shows "aborted_run names (Released # tr)"
proof -
  from assms obtain k tail where
    k: "left_cleanly armed j tr" "armed = (bootable \<in> fst ` set (runs tr))" "k \<le> length names"
    "ij_completed j = take k names" "runs tr = map (\<lambda>n. (n, None)) (take k names) @ tail"
    "tail = [] \<or> (\<exists>m. k < length names \<and> tail = [(names ! k, Some m)])"
    unfolding loop_ended_def assms(2) list.map append_Nil by blast
  show ?thesis
    unfolding aborted_run_def
    using k by (intro exI [of _ j] exI [of _ tr] exI [of _ k] exI [of _ tail]) simp
qed

lemma Run_outcome:
  assumes "Run (traced_platform p) cfg (s, []) = (r, (s', tr'))"
  shows "(case r of
        None \<Rightarrow> finished_run (map st_name (ip_steps p cfg)) tr'
      | Some (Refused e) \<Rightarrow> tr' = [Prepared (Some e)]
      | Some _ \<Rightarrow> aborted_run (map st_name (ip_steps p cfg)) tr') \<and> announced tr'"
proof -
  let ?names = "map st_name (ip_steps p cfg)" and ?tp = "traced_platform p"
  obtain q w1 where prep: "ip_prepare ?tp (ic_drive cfg) (s, []) = (q, w1)" by (metis surj_pair)
  note w1 = prepare_traced [OF prep]
  show ?thesis
  proof (cases q)
    case (Some e)
    with prep w1 assms show ?thesis by (auto simp: Run_def)
  next
    case None
    obtain j w2 where rec: "newInstallJournalRecorder (traced_recorder (ip_recorder p)) (ic_image cfg)
        (ic_drive cfg) (ip_pid p) w1 = (j, w2)" by (metis surj_pair)
    note w2 = recorder_traced [OF rec]
    have inv: "loop_inv False j (snd w2)" "runs (snd w2) = []"
      using w1 w2 None by (simp_all add: loop_inv_def)
    let ?f = "effective_fault ?tp cfg"
    obtain q2 armed j1 w3 where lp: "run_steps ?tp ?f (map traced_step (ip_steps p cfg)) False j w2 = ((q2, armed, j1), w3)"
      by (metis surj_pair)
    note l = run_steps_traced [OF lp inv(1)]
    show ?thesis
    proof (cases q2)
      case (Some e)
      with None prep rec lp assms have eq: "r = Some e" "(s', tr') = ip_release ?tp w3"
        by (simp_all add: Run_def)
      have "snd (ip_release ?tp w3) = Released # snd w3" by simp
      with eq(2) have tr': "tr' = Released # snd w3" by (metis snd_conv)
      have le: "loop_ended ?names armed j1 (snd w2) (snd w3)" using l Some by simp
      then have "aborted_run ?names tr'" unfolding tr' by (rule loop_ended_aborted [OF _ inv(2)])
      moreover have "announced tr'" using le tr' by (simp add: loop_ended_def)
      moreover have "\<forall>m. e \<noteq> Refused m" using run_steps_not_refused [OF lp [unfolded Some]] by simp
      ultimately show ?thesis using eq(1) by (cases e) auto
    next
      case q2: None
      obtain q4 w4 where en: "run_end ?tp ?f armed j1 w3 = (q4, w4)" by (metis surj_pair)
      with None prep rec lp q2 assms have eq: "r = q4" "(s', tr') = ip_release ?tp w4"
        by (simp_all add: Run_def)
      have "snd (ip_release ?tp w4) = Released # snd w4" by simp
      with eq(2) have tr': "tr' = Released # snd w4" by (metis snd_conv)
      have inv3: "loop_inv armed j1 (snd w3)" "runs (snd w3) = map (\<lambda>n. (n, None)) ?names"
        using l q2 inv(2) by (simp_all add: comp_def)
      note e = run_end_traced [OF en inv3(1)]
      have comp: "ij_completed j1 = ?names" using inv3 by (simp add: loop_inv_def comp_def)
      show ?thesis
      proof (cases q4)
        case None
        with e comp inv3 eq(1) tr' show ?thesis
          by (auto simp: finished_run_def loop_inv_def)
      next
        case (Some x)
        with e obtain j' where j': "announced (snd w4)" "left_cleanly armed j' (snd w4)"
          "runs (snd w4) = runs (snd w3)" "ij_completed j' = ij_completed j1" by blast
        have "armed = (bootable \<in> fst ` set (runs (snd w4)))"
          using inv3(1) j'(3) by (simp add: loop_inv_def)
        with j' comp inv3(2) have "aborted_run ?names tr'"
          unfolding aborted_run_def tr'
          by (intro exI [of _ j'] exI [of _ "snd w4"] exI [of _ "length ?names"] exI [of _ "[]"]) auto
        moreover have "\<forall>m. x \<noteq> Refused m" using run_end_not_refused [OF en [unfolded Some]] by simp
        ultimately show ?thesis using eq(1) Some j'(1) tr' by (cases x) auto
      qed
    qed
  qed
qed

text \<open>
  Success means everything. When \<open>Run\<close> returns without an error, every step of the
  pipeline ran exactly once, in order, and succeeded; nothing was disarmed; the context was
  not cancelled at the last check; the lifecycle state is \<open>armed\<close> and the closed journal says
  \<open>armed\<close> with all steps completed; and the lease is released last.
\<close>

theorem run_success_complete:
  assumes "Run (traced_platform p) cfg (s, []) = (None, (s', tr'))"
  shows "finished_run (map st_name (ip_steps p cfg)) tr'"
  using Run_outcome [OF assms] by simp

text \<open>
  C36: every other exit is clean. A refused preparation touches neither state nor journal. Any
  other error (a failed step, an injected fault, a cancellation before a step or inside the
  last one) leaves a trace that ends, before the release, in: the one-shot disarmed if the
  step that makes the machine bootable was ever started, then the state \<open>failed\<close> or
  \<open>staged\<close>, then the closed journal \<open>failed\<close> or \<open>cancelled\<close>, whose completed steps are
  exactly the prefix of the pipeline that succeeded.
\<close>

theorem run_failure_clean:
  assumes "Run (traced_platform p) cfg (s, []) = (Some e, (s', tr'))"
  shows "(\<exists>m. e = Refused m \<and> tr' = [Prepared (Some m)]) \<or>
    aborted_run (map st_name (ip_steps p cfg)) tr'"
  using Run_outcome [OF assms] by (cases e) auto


end
