(* ===== verification/Install_Recovery_Props.thy ===== *)
theory Install_Recovery_Props
  imports Install_Recovery Install_Engine_Props
begin

text \<open>
  What makes the recovery decision safe: resuming is offered only over an attempt that never
  reached the boot chain, a root.disk is deleted only when it is provably this attempt's own,
  the recommended action is one of the allowed ones, and the count of verified pieces is the
  number of digest-named files.
\<close>

lemmas classify_defs = classify_phase2_def classify_armed_def classify_journal_def
  classify_touched_def classify_untouched_def classifyWithoutJournal_def untouched_verdict_def
  start_recovery_def no_actions_def verdict_is_def only_remove_def armed_actions_def Let_def

subsection \<open>When resuming is offered\<close>

definition known_stop :: "install_observation \<Rightarrow> install_journal \<Rightarrow> bool" where
  "known_stop ob j \<longleftrightarrow> ij_outcome j = JournalCancelled \<or> ij_outcome j = JournalFailed \<or>
     (ij_outcome j = JournalRunning \<and> \<not> io_owner_up ob)"

definition journal_resumable :: "install_observation \<Rightarrow> install_journal \<Rightarrow> bool" where
  "journal_resumable ob j \<longleftrightarrow> known_stop ob j \<and> \<not> bootChainTouched j \<and>
     (\<not> io_root_disk ob \<or> partialRootDiskOwned ob)"

definition phase2_state :: "install_observation \<Rightarrow> bool" where
  "phase2_state ob \<longleftrightarrow> state_name ob \<in> {StateHealthy, StateDeployed, StateDeploying} \<or>
     (state_name ob = StateFailed \<and> io_deployer_started ob)"

lemma phase2_None:
  "Option.bind (io_state ob) (classify_phase2 ob) = None \<longleftrightarrow> \<not> phase2_state ob"
  by (cases "io_state ob") (auto simp: classify_phase2_def phase2_state_def state_name_def Let_def)

lemma phase2_no_resume:
  "Option.bind (io_state ob) (classify_phase2 ob) = Some r \<Longrightarrow>
     \<not> ra_resume (ir_actions r) \<and> \<not> ir_discards r"
  by (cases "io_state ob") (auto simp: classify_defs split: if_splits)

lemma armed_no_resume: "\<not> ra_resume (ir_actions (classify_armed ob)) \<and> \<not> ir_discards (classify_armed ob)"
  by (simp add: classify_defs)

lemma untouched_actions:
  "ra_resume (ir_actions (classify_untouched brand ob cause r)) \<longleftrightarrow>
     \<not> io_root_disk ob \<or> partialRootDiskOwned ob"
  "ir_discards (classify_untouched brand ob cause r) \<longleftrightarrow> io_root_disk ob \<and> partialRootDiskOwned ob"
  by (simp_all add: classify_untouched_def Let_def)

lemma touched_actions:
  "ra_resume (ir_actions (classify_touched brand ob cause r)) = ra_resume (ir_actions r)"
  "ir_discards (classify_touched brand ob cause r) = ir_discards r"
  by (simp_all add: classify_touched_def verdict_is_def)

lemma journal_actions:
  "ra_resume (ir_actions (classify_journal brand ob j)) \<longleftrightarrow> journal_resumable ob j"
  "ir_discards (classify_journal brand ob j) \<longleftrightarrow> journal_resumable ob j \<and> io_root_disk ob"
  by (auto simp: classify_journal_def journal_resumable_def known_stop_def untouched_actions
      touched_actions Let_def start_recovery_def no_actions_def verdict_is_def only_remove_def)

lemma without_journal_actions:
  "ra_resume (ir_actions (classifyWithoutJournal brand (start_recovery ob) ob)) \<longleftrightarrow>
     (state_name ob = StateFailed \<or> state_name ob = StateStaged) \<and> \<not> io_root_disk ob \<and> \<not> io_armed_file ob"
  "\<not> ir_discards (classifyWithoutJournal brand (start_recovery ob) ob)"
  by (auto simp: classifyWithoutJournal_def state_name_def start_recovery_def no_actions_def Let_def
      split: option.splits)

text \<open>The reference: when \<open>classifyInstall\<close> allows resuming, and when it discards root.disk.\<close>

definition resume_allowed :: "install_observation \<Rightarrow> bool" where
  "resume_allowed ob \<longleftrightarrow> \<not> phase2_state ob \<and> \<not> armed_reached ob \<and>
     (case io_journal ob of
        Some j \<Rightarrow> journal_resumable ob j
      | None \<Rightarrow> (state_name ob = StateFailed \<or> state_name ob = StateStaged) \<and>
                \<not> io_root_disk ob \<and> \<not> io_armed_file ob)"

definition discard_allowed :: "install_observation \<Rightarrow> bool" where
  "discard_allowed ob \<longleftrightarrow> resume_allowed ob \<and> io_root_disk ob"

lemma classify_resume:
  "ra_resume (ir_actions (classifyInstall brand ob)) \<longleftrightarrow> resume_allowed ob"
  "ir_discards (classifyInstall brand ob) \<longleftrightarrow> discard_allowed ob"
proof -
  show "ra_resume (ir_actions (classifyInstall brand ob)) \<longleftrightarrow> resume_allowed ob"
    using phase2_None [of ob] phase2_no_resume [of ob] armed_no_resume [of ob]
    by (auto simp: classifyInstall_def resume_allowed_def journal_actions without_journal_actions
        split: option.splits)
  show "ir_discards (classifyInstall brand ob) \<longleftrightarrow> discard_allowed ob"
    using phase2_None [of ob] phase2_no_resume [of ob] armed_no_resume [of ob]
    by (auto simp: classifyInstall_def discard_allowed_def resume_allowed_def journal_actions
        without_journal_actions split: option.splits)
qed

text \<open>
  The table of resuming. \<open>classifyInstall\<close> offers to resume, and plans to discard
  root.disk, exactly in the situations of the reference predicate: no phase-2 record, not
  armed, and either a journal of a known stop without a live owner that never reached the boot
  chain and whose root.disk is absent or provably its own, or an older record with neither
  root.disk nor armed.json; the disk is discarded exactly when resuming is offered over one.
\<close>

theorem resume_offered_iff_safe:
  "ra_resume (ir_actions (classifyInstall brand ob)) = resume_allowed ob \<and>
   ir_discards (classifyInstall brand ob) = discard_allowed ob"
  by (simp add: classify_resume)

subsection \<open>The recommendation\<close>

definition offered :: "recovery_actions \<Rightarrow> string list" where
  "offered a = (if ra_resume a then [''resume''] else []) @ (if ra_retry a then [''retry-deploy''] else []) @
     (if ra_repair a then [''repair-boot''] else []) @ (if ra_remove a then [''remove''] else [])"

text \<open>
  The recommendation is an offered action. For every observation the recommended action
  is either none or one that the classification itself allows.
\<close>

theorem recommendation_is_offered:
  "ir_recommended (classifyInstall brand ob) \<in>
     set ([] # offered (ir_actions (classifyInstall brand ob)))"
proof -
  have phase2: "ir_recommended r \<in> set ([] # offered (ir_actions r))"
    if "Option.bind (io_state ob) (classify_phase2 ob) = Some r" for r
    using that by (cases "io_state ob") (auto simp: classify_defs offered_def split: if_splits)
  have armed: "ir_recommended (classify_armed ob) \<in> set ([] # offered (ir_actions (classify_armed ob)))"
    by (simp add: classify_defs offered_def)
  have older: "ir_recommended (classifyWithoutJournal brand (start_recovery ob) ob) \<in>
      set ([] # offered (ir_actions (classifyWithoutJournal brand (start_recovery ob) ob)))"
    by (simp add: classifyWithoutJournal_def start_recovery_def no_actions_def offered_def Let_def
        split: option.splits)
  have touched: "ir_recommended (classify_touched brand ob cause r) \<in>
      set ([] # offered (ir_actions (classify_touched brand ob cause r)))" for cause r
    by (simp add: classify_touched_def verdict_is_def offered_def)
  have untouched: "ir_recommended (classify_untouched brand ob cause r) \<in>
      set ([] # offered (ir_actions (classify_untouched brand ob cause r)))" for cause r
    by (simp add: classify_untouched_def offered_def Let_def)
  have journal: "ir_recommended (classify_journal brand ob j) \<in>
      set ([] # offered (ir_actions (classify_journal brand ob j)))" for j
    using touched untouched
    by (simp add: classify_journal_def Let_def)
      (simp add: verdict_is_def only_remove_def start_recovery_def no_actions_def offered_def)
  show ?thesis
    using phase2 armed older journal
    by (simp add: classifyInstall_def split: option.splits)
qed

subsection \<open>Deleting root.disk\<close>

text \<open>A root.disk that is provably the journaled attempt's own, never deployed file.\<close>

definition provably_own :: "wootc_files \<Rightarrow> string \<Rightarrow> bool" where
  "provably_own f t \<longleftrightarrow>
     (\<exists>j started modified. wf_journal f = Found j \<and> rootDiskStepReached j \<and>
        \<not> bootChainTouched j \<and> ij_outcome j \<noteq> JournalArmed \<and>
        \<not> wf_deployer_started f \<and> \<not> wf_armed f \<and>
        parse_rfc3339 (ij_started j) = Some started \<and> parse_rfc3339 t = Some modified \<and>
        \<not> instant_before modified (add_seconds started (- partialRootDiskSlack)))"

lemma owned_provably:
  assumes "partialRootDiskOwned (observeInstallAt v f alive)"
    "resume_allowed (observeInstallAt v f alive)" "wf_root_disk f = Some t"
  shows "provably_own f t"
proof -
  let ?ob = "observeInstallAt v f alive"
  obtain j where j: "wf_journal f = Found j"
    using assms(1) by (auto simp: partialRootDiskOwned_def observeInstallAt_def split: file_read.splits)
  then have ob: "io_journal ?ob = Some j" "io_root_disk_time ?ob = t"
    "io_armed_file ?ob = wf_armed f" "io_deployer_started ?ob = wf_deployer_started f"
    using assms(3) by (simp_all add: observeInstallAt_def)
  from assms(2) ob(1) have "\<not> bootChainTouched j" "ij_outcome j \<noteq> JournalArmed"
    by (auto simp: resume_allowed_def journal_resumable_def armed_reached_def)
  with assms(1) ob j show ?thesis
    by (auto simp: partialRootDiskOwned_def provably_own_def split: if_splits option.splits)
qed


subsection \<open>Counting verified pieces\<close>

definition verified_piece :: "dir_entry \<Rightarrow> bool" where
  "verified_piece e \<longleftrightarrow> \<not> de_is_dir e \<and> length (de_name e) = 64 \<and>
     list_all (\<lambda>c. c \<in> set ''0123456789abcdef'') (de_name e) \<and> de_size e \<noteq> None"

lemma trim_set_Nil: "trim_set s cs = [] \<longleftrightarrow> list_all (\<lambda>c. c \<in> set cs) s"
proof -
  have "trim_set s cs = [] \<longleftrightarrow> (\<forall>c\<in>set s. c \<in> set cs)"
    unfolding trim_set_def using trim_by_all trim_by_ne by metis
  then show ?thesis by (simp add: list_all_iff)
qed

lemma digest_not_part: "digest_name name \<Longrightarrow> \<not> has_suffix name ''.part''"
proof
  assume d: "digest_name name" and "has_suffix name ''.part''"
  then obtain p where "name = p @ ''.part''" by (auto simp: has_suffix_def suffix_def)
  with d show False by (simp add: digest_name_def trim_set_Nil)
qed

lemma count_entries:
  "be_blobs (foldl count_entry ev es) = be_blobs ev + int (length (filter verified_piece es)) \<and>
   be_bytes (foldl count_entry ev es) =
     be_bytes ev + sum_list (map (\<lambda>e. the (de_size e)) (filter verified_piece es)) \<and>
   be_partial (foldl count_entry ev es) = be_partial ev +
     int (length (filter (\<lambda>e. \<not> de_is_dir e \<and> has_suffix (de_name e) ''.part'') es)) \<and>
   be_complete (foldl count_entry ev es) = be_complete ev \<and> be_image (foldl count_entry ev es) = be_image ev"
proof (induction es arbitrary: ev)
  case Nil
  then show ?case by simp
next
  case (Cons e es)
  have "verified_piece e \<longleftrightarrow> \<not> de_is_dir e \<and> digest_name (de_name e) \<and> de_size e \<noteq> None"
    by (auto simp: verified_piece_def digest_name_def trim_set_Nil)
  with Cons.IH [of "count_entry ev e"] digest_not_part [of "de_name e"] show ?case
    by (cases "de_size e") (auto simp: count_entry_def)
qed

text \<open>
  Only verified pieces count. For every listing of the blob directory the evidence
  counts, and sums the sizes of, exactly the plain files whose name is a 64-digit lower-case
  hexadecimal digest, and counts the partial files apart; the download is complete exactly
  when bundle.json names the wanted image, or names any when none is wanted.
\<close>

theorem bundle_counts_verified:
  "let ev = observeBundleAt info (Found es) imageRef in
     be_blobs ev = int (length (filter verified_piece es)) \<and>
     be_bytes ev = sum_list (map (\<lambda>e. the (de_size e)) (filter verified_piece es)) \<and>
     be_partial ev = int (length (filter (\<lambda>e. \<not> de_is_dir e \<and> has_suffix (de_name e) ''.part'') es)) \<and>
     be_complete ev = (case info of None \<Rightarrow> False | Some i \<Rightarrow> imageRef = [] \<or> i = imageRef)"
  by (simp add: observeBundleAt_def Let_def count_entries split: option.splits)

subsection \<open>The engine and the classifier\<close>

fun last_journal :: "engine_event list \<Rightarrow> install_journal option" where
  "last_journal [] = None"
| "last_journal (e # tr) = (case e of Journaled j \<Rightarrow> Some j | _ \<Rightarrow> last_journal tr)"

lemma announced_suffix: "suffix t tr \<Longrightarrow> announced tr \<Longrightarrow> announced t"
proof (induction tr)
  case Nil
  then show ?case by simp
next
  case (Cons e tr)
  then show ?case by (auto simp: suffix_Cons)
qed

lemma announced_Ran:
  assumes "announced (Ran n r # tr)"
  shows "\<exists>j. last_journal tr = Some j \<and> ij_current j = n \<and> ij_completed j = map fst (runs tr)"
proof (cases tr)
  case Nil
  with assms show ?thesis by simp
next
  case (Cons a u)
  show ?thesis
  proof (cases u)
    case Nil
    with assms Cons show ?thesis by (cases a) simp_all
  next
    case (Cons b v)
    with assms \<open>tr = a # u\<close> show ?thesis by (cases a; cases b) simp_all
  qed
qed

lemma announced_covers:
  "announced t \<Longrightarrow> n \<in> fst ` set (runs t) \<Longrightarrow>
     \<exists>j. last_journal t = Some j \<and> (n = ij_current j \<or> n \<in> set (ij_completed j))"
proof (induction t)
  case Nil
  then show ?case by simp
next
  case (Cons e t)
  show ?case
  proof (cases e)
    case (Journaled j)
    with Cons.prems have "n \<in> set (map fst (runs t))"
      "set (map fst (runs t)) \<subseteq> insert (ij_current j) (set (ij_completed j))"
      by simp_all
    with Journaled show ?thesis by auto
  next
    case (Ran m r)
    with announced_Ran [of m r t] Cons.prems(1) obtain j where t: "last_journal t = Some j"
      "ij_current j = m" "ij_completed j = map fst (runs t)" by blast
    with Cons.prems(2) Ran have "n = m \<or> n \<in> set (ij_completed j)" by auto
    with t(1,2) Ran show ?thesis by simp
  qed (use Cons in auto)
qed


subsection \<open>Two divergences\<close>

definition sample_bundle :: bundle_evidence where
  "sample_bundle = \<lparr>be_complete = False, be_image = [], be_blobs = 3, be_bytes = 3000, be_partial = 1,
     be_error = []\<rparr>"

definition sample_journal :: "string \<Rightarrow> string \<Rightarrow> string list \<Rightarrow> install_journal" where
  "sample_journal outcome current finished = \<lparr>ij_schema = 1, ij_attempt = ''20250101T000000.000000000Z'',
     ij_image = ''ghcr.io/ublue-os/bluefin:stable'', ij_drive = [], ij_pid = 4242,
     ij_started = ''2025-01-01T00:00:00Z'', ij_updated = [], ij_ended = [], ij_outcome = outcome,
     ij_current = current, ij_completed = finished, ij_error = []\<rparr>"

definition sample_observation ::
  "install_journal option \<Rightarrow> string \<Rightarrow> lifecycle_state option \<Rightarrow> string option \<Rightarrow> install_observation" where
  "sample_observation j err st disk_time = \<lparr>io_journal = j, io_journal_error = err, io_owner_up = False,
     io_state = st, io_armed_file = False, io_deployer_started = False, io_verdict_file = False,
     io_bundle = sample_bundle, io_root_disk = (disk_time \<noteq> None),
     io_root_disk_time = (case disk_time of None \<Rightarrow> [] | Some t \<Rightarrow> t)\<rparr>"

text \<open>
  A journal that exists but cannot be parsed is treated like a record of an older version:
  after a cancelled run that may have changed the boot chain, resuming is offered.
\<close>

lemma unreadable_journal_resumes:
  "ra_resume (ir_actions (classifyInstall brand (sample_observation None ''unexpected end of JSON input''
     (Some (new_lifecycle_state ''2025-01-01T00:00:00Z'' StateStaged ''cancelled'' [])) None)))"
  unfolding classify_resume(1)
  by (simp add: resume_allowed_def phase2_state_def armed_reached_def state_name_def
      sample_observation_def new_lifecycle_state_def)

text \<open>
  The message says that nothing outside the installation folder changed, also when the step
  that turns Windows fast start-up off was completed.
\<close>

lemma message_ignores_windows_changes:
  "ir_message (classifyInstall brand (sample_observation
     (Some (sample_journal JournalCancelled [] [StepInstallerCheckingYourPC, StepInstallerPreparingWindows]))
     [] None None)) = unchanged_text"
  by (simp add: classifyInstall_def armed_reached_def sample_observation_def sample_journal_def
      classify_journal_def bootChainTouched_def Completed_def classify_untouched_def
      untouched_verdict_def verdict_is_def Let_def install_causes)
    (simp add: step_names)

end
