(* ===== verification/Install_Pipeline.thy ===== *)
theory Install_Pipeline
  imports Install_Engine
begin

text \<open>
  The production pipeline (\<open>productionInstallSteps\<close> in \<open>app/install_engine.go\<close>): its ordered
  steps, with what each step does around the Windows operations it calls. Those operations
  are the record \<open>install_ops\<close>: each returns its error, if any. Writing to stderr is not
  modelled.
\<close>

record 's install_ops =
  po_emit :: "progress_event \<Rightarrow> 's \<Rightarrow> 's"
  po_checkSystem :: "'s \<Rightarrow> string option \<times> 's"
  po_disableFastStartup :: "'s \<Rightarrow> string option \<times> 's"
  po_createDirectories :: "'s \<Rightarrow> string option \<times> 's"
  po_recordKnownFolders :: "'s \<Rightarrow> 's"
  po_createRootDisk :: "int \<Rightarrow> 's \<Rightarrow> string option \<times> 's"
  po_downloadDeployer :: "(rat \<Rightarrow> 's \<Rightarrow> 's) \<Rightarrow> 's \<Rightarrow> string option \<times> 's"
  po_preload_env :: string
  po_preload_brand :: bool
  po_stageImageBundle :: "string \<Rightarrow> (int \<Rightarrow> int \<Rightarrow> 's \<Rightarrow> 's) \<Rightarrow> 's \<Rightarrow> string option \<times> 's"
  po_assessHardware :: "'s \<Rightarrow> (string list \<times> string option) \<times> 's"
  po_writeGrubConfig :: "install_config \<Rightarrow> 's \<Rightarrow> string option \<times> 's"
  po_setupESP :: "install_config \<Rightarrow> 's \<Rightarrow> string option \<times> 's"
  po_configureBCD :: "install_config \<Rightarrow> 's \<Rightarrow> string option \<times> 's"
  po_writeVault :: "install_config \<Rightarrow> 's \<Rightarrow> string option \<times> 's"
  po_captureKey :: "string \<Rightarrow> 's \<Rightarrow> string \<times> 's"
  po_writeKey :: "string \<Rightarrow> 's \<Rightarrow> string option \<times> 's"
  po_collectPrograms :: "'s \<Rightarrow> string option \<times> 's"
  po_collectSessions :: "'s \<Rightarrow> (string + string list) \<times> 's"
  po_exportSessions :: "string list \<Rightarrow> bool smap \<Rightarrow> string \<Rightarrow> 's \<Rightarrow> string \<times> 's"
  po_mkdirLedger :: "'s \<Rightarrow> string option \<times> 's"
  po_writeLedger :: "string \<Rightarrow> 's \<Rightarrow> string option \<times> 's"
  po_recordCloudDrives :: "'s \<Rightarrow> 's"
  po_collectWifi :: "'s \<Rightarrow> string option \<times> 's"
  po_collectLook :: "'s \<Rightarrow> string option \<times> 's"
  po_registerUninstall :: "'s \<Rightarrow> 's"
  po_pause :: "'s \<Rightarrow> 's"
  po_armBootChain :: "'s \<Rightarrow> string option \<times> 's"

subsection \<open>Numbers in progress messages\<close>

text \<open>\<open>%.0f\<close> and \<open>%.1f\<close>: the nearest decimal, ties to even.\<close>

definition round_even :: "rat \<Rightarrow> int" where
  "round_even q =
     (let n = \<lfloor>q\<rfloor>; f = q - of_int n
      in if f < 1/2 then n else if f > 1/2 then n + 1 else if even n then n else n + 1)"

definition fixed0 :: "rat \<Rightarrow> string" where
  "fixed0 q = dec_int (round_even q)"

definition fixed1 :: "rat \<Rightarrow> string" where
  "fixed1 q = (let n = round_even (10 * q); a = \<bar>n\<bar>
     in (if n < 0 then ''-'' else []) @ dec_int (a div 10) @ ''.'' @ dec_int (a mod 10))"

subsection \<open>The steps with a body of their own\<close>

definition download_progress :: "'s install_ops \<Rightarrow> rat \<Rightarrow> 's \<Rightarrow> 's" where
  "download_progress ops q =
     po_emit ops (progress_at StepInstallerDownloadingLinux StepInstallerDownloadingLinux
       (displayStepLabel StepInstallerDownloadingLinux @ ellipsis @ '' '' @ fixed0 (q * 35) @ ''%'')
       (15 + q * 35))"

definition shouldPreloadImage :: "'s install_ops \<Rightarrow> bool" where
  "shouldPreloadImage ops =
     (if po_preload_env ops = ''0'' then False
      else if po_preload_env ops = [] then po_preload_brand ops else True)"

definition bundle_progress :: "'s install_ops \<Rightarrow> int \<Rightarrow> int \<Rightarrow> 's \<Rightarrow> 's" where
  "bundle_progress ops dn full =
     (let sid = StepInstallerDownloadingYourLinuxSystem; label = displayStepLabel sid @ ellipsis
      in po_emit ops
           (if 0 < full
            then progress_at sid sid
              (label @ '' '' @ fixed1 (of_int dn / 1000000000) @ '' of '' @
               fixed1 (of_int full / 1000000000) @ '' GB'')
              (50 + 4 * of_int dn / of_int full)
            else progress_at sid sid label 50))"

text \<open>\<open>enforceHardwareCompatibility\<close> (\<open>app/hardware_preflight.go\<close>): warn, then refuse.\<close>

definition enforceHardwareCompatibility ::
  "'s install_ops \<Rightarrow> string list \<times> string option \<Rightarrow> string \<Rightarrow> rat \<Rightarrow> 's \<Rightarrow> string option \<times> 's" where
  "enforceHardwareCompatibility ops report step percent s =
     (let s1 = (if fst report \<noteq> []
                then po_emit ops ((progress_at step step
                       ''The hardware compatibility check found items to review.'' percent)
                     \<lparr>pe_warnings := fst report\<rparr>) s
                else s)
      in (snd report, s1))"

definition checking_message :: string where
  "checking_message = ''Checking the Linux image for this PC'' @ [CHR 0x27] @ ''s hardware support'' @ ellipsis"

definition preload_step :: "'s install_ops \<Rightarrow> install_config \<Rightarrow> 's \<Rightarrow> string option \<times> 's" where
  "preload_step ops cfg s =
     (if \<not> shouldPreloadImage ops then (None, s)
      else case po_stageImageBundle ops (ic_image cfg) (bundle_progress ops) s of
             (Some e, s1) \<Rightarrow> (Some e, s1)
           | (None, s1) \<Rightarrow>
               (let sid = StepInstallerDownloadingYourLinuxSystem;
                    s2 = po_emit ops (progress_at sid sid checking_message 54) s1;
                    (report, s3) = po_assessHardware ops s2
                in enforceHardwareCompatibility ops report sid 54 s3))"

definition bitlocker_step :: "'s install_ops \<Rightarrow> 's \<Rightarrow> string option \<times> 's" where
  "bitlocker_step ops s =
     (let (key, s1) = po_captureKey ops ''C:'' s
      in (None, if key \<noteq> [] then snd (po_writeKey ops key s1) else s1))"

definition sessions_step :: "'s install_ops \<Rightarrow> install_config \<Rightarrow> 's \<Rightarrow> string option \<times> 's" where
  "sessions_step ops cfg s =
     (case po_collectSessions ops s of
        (Inl e, s1) \<Rightarrow> (None, s1)
      | (Inr candidates, s1) \<Rightarrow>
          (let (summary, s2) = po_exportSessions ops candidates (ic_session_consent cfg) (ic_password cfg) s1
           in case po_mkdirLedger ops s2 of
                (Some e, s3) \<Rightarrow> (None, s3)
              | (None, s3) \<Rightarrow> (None, snd (po_writeLedger ops summary s3))))"

definition look_step :: "'s install_ops \<Rightarrow> install_config \<Rightarrow> 's \<Rightarrow> string option \<times> 's" where
  "look_step ops cfg s =
     (let s1 = snd (po_collectWifi ops s)
      in (None, if ic_windows_look cfg then snd (po_collectLook ops s1) else s1))"

definition finish_step :: "'s install_ops \<Rightarrow> 's \<Rightarrow> string option \<times> 's" where
  "finish_step ops s = po_armBootChain ops (po_pause ops (po_registerUninstall ops s))"

subsection \<open>The ordered pipeline\<close>

definition pipeline_step :: "string \<Rightarrow> rat \<Rightarrow> ('s \<Rightarrow> string option \<times> 's) \<Rightarrow> 's install_step" where
  "pipeline_step n q f = \<lparr>st_name = n, st_percent = q, st_fn = f\<rparr>"

lemma pipeline_step_simps [simp]:
  "st_name (pipeline_step n q f) = n" "st_percent (pipeline_step n q f) = q"
  "st_fn (pipeline_step n q f) = f"
  by (simp_all add: pipeline_step_def)

definition productionInstallSteps :: "'s install_ops \<Rightarrow> install_config \<Rightarrow> 's install_step list" where
  "productionInstallSteps ops cfg =
     [pipeline_step StepInstallerCheckingYourPC 2 (po_checkSystem ops),
      pipeline_step StepInstallerPreparingWindows 5 (po_disableFastStartup ops),
      pipeline_step StepInstallerSettingThingsUp 8 (po_createDirectories ops),
      pipeline_step StepInstallerFindingYourFiles 9 (\<lambda>s. (None, po_recordKnownFolders ops s)),
      pipeline_step StepInstallerMakingRoomForLinux 15 (po_createRootDisk ops (ic_disk_gb cfg)),
      pipeline_step StepInstallerDownloadingLinux 50 (po_downloadDeployer ops (download_progress ops)),
      pipeline_step StepInstallerDownloadingYourLinuxSystem 54 (preload_step ops cfg),
      pipeline_step StepInstallerPreparingTheStartupMenu 55 (po_writeGrubConfig ops cfg),
      pipeline_step StepInstallerGettingLinuxPrepared 65 (po_setupESP ops cfg),
      pipeline_step StepInstallerMakingLinuxBootableOnYourMachine 80 (po_configureBCD ops cfg),
      pipeline_step StepInstallerSavingYourSettings 85 (po_writeVault ops cfg),
      pipeline_step StepInstallerSavingYourBitLockerRecoveryKey 87 (bitlocker_step ops),
      pipeline_step StepInstallerLookingAtYourInstalledApps 82 (\<lambda>s. (None, snd (po_collectPrograms ops s))),
      pipeline_step StepInstallerCheckingYourSignedInApps 90 (sessions_step ops cfg),
      pipeline_step StepInstallerLookingForYourCloudDrives 88 (\<lambda>s. (None, po_recordCloudDrives ops s)),
      pipeline_step StepInstallerCollectingYourLookAndWiFi 92 (look_step ops cfg),
      pipeline_step StepInstallerFinishingUp 96 (finish_step ops)]"

subsection \<open>The pipeline against the catalogue\<close>

lemma pipeline_names: "map st_name (productionInstallSteps ops cfg) = map sd_id InstallerSteps"
  by (simp add: productionInstallSteps_def InstallerSteps_def StepCatalogue_def)

lemma sessions_step_ok: "fst (sessions_step ops cfg s) = None"
  by (simp add: sessions_step_def split: prod.splits sum.splits option.splits)

definition best_effort_steps :: "string list" where
  "best_effort_steps = [StepInstallerFindingYourFiles, StepInstallerSavingYourBitLockerRecoveryKey,
     StepInstallerLookingAtYourInstalledApps, StepInstallerCheckingYourSignedInApps,
     StepInstallerLookingForYourCloudDrives, StepInstallerCollectingYourLookAndWiFi]"

text \<open>
  The pipeline is the catalogue. For every configuration and whatever the Windows
  operations do, the engine runs exactly the steps that the installer shows, in the order it
  shows them, ending in the commit point; and each of the six migration steps is best
  effort: it succeeds in every state.
\<close>

theorem pipeline_is_catalogue:
  "map st_name (productionInstallSteps ops cfg) = map sd_id InstallerSteps \<and>
   last (productionInstallSteps ops cfg) = pipeline_step StepInstallerFinishingUp 96 (finish_step ops) \<and>
   list_all (\<lambda>st. \<forall>s. fst (st_fn st s) = None)
     (filter (\<lambda>st. st_name st \<in> set best_effort_steps) (productionInstallSteps ops cfg))"
proof (intro conjI)
  show "list_all (\<lambda>st. \<forall>s. fst (st_fn st s) = None)
     (filter (\<lambda>st. st_name st \<in> set best_effort_steps) (productionInstallSteps ops cfg))"
    unfolding productionInstallSteps_def best_effort_steps_def
    by (simp add: sessions_step_ok bitlocker_step_def look_step_def Let_def split_beta step_names)
qed (rule pipeline_names, simp add: productionInstallSteps_def)

end
