(* ===== verification/Install_Witness.thy ===== *)
theory Install_Witness
  imports Install_Recovery_Props Install_Pipeline
begin

text \<open>
  A concrete installation for the witnesses: the production pipeline on a machine whose
  Windows operations succeed, except the ones named in its list of faults.
\<close>

definition answer :: "string list \<Rightarrow> string \<Rightarrow> unit \<Rightarrow> string option \<times> unit" where
  "answer bad name s = (if name \<in> set bad then Some ''Access is denied.'' else None, s)"

definition sample_ops :: "string list \<Rightarrow> unit install_ops" where
  "sample_ops bad =
     \<lparr>po_emit = (\<lambda>_ s. s),
      po_checkSystem = answer bad ''checkSystem'',
      po_disableFastStartup = answer bad ''disableFastStartup'',
      po_createDirectories = answer bad ''createDirectories'',
      po_recordKnownFolders = (\<lambda>s. s),
      po_createRootDisk = (\<lambda>_. answer bad ''createRootDisk''),
      po_downloadDeployer = (\<lambda>_. answer bad ''downloadDeployer''),
      po_preload_env = [],
      po_preload_brand = True,
      po_stageImageBundle = (\<lambda>_ _. answer bad ''stageImageBundle''),
      po_assessHardware = (\<lambda>s. (([], None), s)),
      po_writeGrubConfig = (\<lambda>_. answer bad ''writeGrubConfig''),
      po_setupESP = (\<lambda>_. answer bad ''setupESP''),
      po_configureBCD = (\<lambda>_. answer bad ''configureBCD''),
      po_writeVault = (\<lambda>_. answer bad ''writeVault''),
      po_captureKey = (\<lambda>_ s. ([], s)),
      po_writeKey = (\<lambda>_. answer bad ''writeKey''),
      po_collectPrograms = answer bad ''collectPrograms'',
      po_collectSessions = (\<lambda>s. (Inl ''none'', s)),
      po_exportSessions = (\<lambda>_ _ _ s. ([], s)),
      po_mkdirLedger = answer bad ''mkdirLedger'',
      po_writeLedger = (\<lambda>_. answer bad ''writeLedger''),
      po_recordCloudDrives = (\<lambda>s. s),
      po_collectWifi = answer bad ''collectWifi'',
      po_collectLook = answer bad ''collectLook'',
      po_registerUninstall = (\<lambda>s. s),
      po_pause = (\<lambda>s. s),
      po_armBootChain = answer bad ''armBootChain''\<rparr>"

definition sample_config :: "string \<Rightarrow> install_config" where
  "sample_config fault = \<lparr>ic_image = ''ghcr.io/ublue-os/bluefin:stable'', ic_disk_gb = 64,
     ic_username = ''user'', ic_password = ''secret'', ic_hostname = ''pc'', ic_bootloader = ''auto'',
     ic_composefs = False, ic_drive = [], ic_encryption = ''none'', ic_luks_passphrase = [],
     ic_windows_look = True, ic_session_consent = [], ic_fault = fault\<rparr>"

definition sample_platform :: "string list \<Rightarrow> unit install_platform" where
  "sample_platform bad =
     \<lparr>ip_prepare = (\<lambda>_. answer bad ''prepare''), ip_release = (\<lambda>s. s),
      ip_steps = productionInstallSteps (sample_ops bad),
      ip_recorder = \<lparr>rj_now = (\<lambda>s. ((''20250101T000000.000000000Z'', ''2025-01-01T00:00:00Z''), s)),
                     rj_write = (\<lambda>_ s. (None, s))\<rparr>,
      ip_pid = 4242, ip_writeState = (\<lambda>_ _ _ s. s), ip_disarm = (\<lambda>s. s), ip_emit = (\<lambda>_ s. s),
      ip_cancelled = (\<lambda>s. (None, s)), ip_env_fault = []\<rparr>"

lemma unit_run: "fst x = r \<Longrightarrow> \<exists>tr. x = (r, ((), tr))" for x :: "'a \<times> unit \<times> 'b"
  by (cases x) simp

theorem run_success_witness:
  "\<exists>tr. Run (traced_platform (sample_platform [])) (sample_config []) ((), []) = (None, ((), tr)) \<and>
     finished_run (map sd_id InstallerSteps) tr"
proof -
  have ok: "fst (Run (traced_platform (sample_platform [])) (sample_config []) ((), [])) = None"
    by code_simp
  from unit_run [OF ok] obtain tr where
    run: "Run (traced_platform (sample_platform [])) (sample_config []) ((), []) = (None, ((), tr))" ..
  have "map st_name (ip_steps (sample_platform []) (sample_config [])) = map sd_id InstallerSteps"
    unfolding sample_platform_def install_platform.simps by (rule pipeline_names)
  with run_success_complete [OF run] have "finished_run (map sd_id InstallerSteps) tr" by simp
  with run show ?thesis by blast
qed

theorem run_failure_witness:
  "\<exists>e tr. Run (traced_platform (sample_platform [''writeVault''])) (sample_config []) ((), []) =
       (Some e, ((), tr)) \<and> aborted_run (map sd_id InstallerSteps) tr \<and> Disarmed \<in> set tr"
proof -
  let ?run = "Run (traced_platform (sample_platform [''writeVault''])) (sample_config []) ((), [])"
  let ?e = "StepError ''Saving your settings'' ''Access is denied.''"
  have ok: "fst ?run = Some ?e" by code_simp
  from unit_run [OF ok] obtain tr where run: "?run = (Some ?e, ((), tr))" ..
  have "Disarmed \<in> set (snd (snd ?run))" by code_simp
  moreover have "map st_name (ip_steps (sample_platform [''writeVault'']) (sample_config [])) = map sd_id InstallerSteps"
    unfolding sample_platform_def install_platform.simps by (rule pipeline_names)
  with run_failure_clean [OF run] have "aborted_run (map sd_id InstallerSteps) tr" by simp
  ultimately show ?thesis using run by auto
qed

definition sample_files :: wootc_files where
  "sample_files = \<lparr>wf_journal = Found (sample_journal JournalFailed StepInstallerMakingRoomForLinux
       [StepInstallerCheckingYourPC]),
     wf_state = None, wf_armed = False, wf_deployer_started = False, wf_verdict = False,
     wf_bundle_image = None, wf_blobs = Missing, wf_root_disk = Some ''2025-01-01T00:05:00Z''\<rparr>"


definition resumable_after :: "engine_event list \<Rightarrow> bool" where
  "resumable_after tr = (case last_journal tr of None \<Rightarrow> False
     | Some j \<Rightarrow> ra_resume (ir_actions (classifyInstall ''wootc'' (sample_observation (Some j) [] None None))))"


end
