(* ===== verification/Startup_Recovery.thy ===== *)
theory Startup_Recovery
  imports Install_Recovery
begin

text \<open>
  The startup verdict (\<open>app/recovery.go\<close>): what \<open>recover --startup\<close> concludes from the
  armed record, the deployer's marker and the lifecycle state, and the log tail it attaches.
\<close>

definition VerdictNeverBooted :: string where "VerdictNeverBooted = ''one-shot-never-booted''"
definition VerdictInterrupted :: string where "VerdictInterrupted = ''interrupted''"
definition VerdictFailed :: string where "VerdictFailed = ''failed''"
definition VerdictDeployed :: string where "VerdictDeployed = ''deployed''"
definition VerdictHealthy :: string where "VerdictHealthy = ''healthy''"

lemmas verdict_names = VerdictNeverBooted_def VerdictInterrupted_def VerdictFailed_def
  VerdictDeployed_def VerdictHealthy_def

record prior_power_state =
  pp_hibernate :: string
  pp_hiberboot :: string

record armed_state =
  as_guid :: string
  as_partition :: string
  as_files :: "string list"
  as_hashes :: "string smap"
  as_power :: prior_power_state
  as_drive :: string
  as_image :: string
  as_bootloader :: string
  as_timestamp :: string
  as_exe_hash :: string

record recovery_verdict =
  rv_phase_id :: string
  rv_verdict :: string
  rv_phase :: string
  rv_title :: string
  rv_message :: string
  rv_details :: string
  rv_log :: "string list"
  rv_untouched :: bool
  rv_try_again :: bool
  rv_remove :: bool
  rv_repair :: bool
  rv_timestamp :: string

definition friendlySplashMessageForPhase :: "string \<Rightarrow> string \<times> string" where
  "friendlySplashMessageForPhase phase =
     (if phase = StepDeployerNtfsMounted \<or> phase = StepDeployerScratchSetup then
        (displayStepLabel phase, ''Setup stopped while preparing the disk workspace.'')
      else if phase = StepDeployerNetworkWait then
        (displayStepLabel phase, ''Setup stopped while waiting for a network connection.'')
      else if phase = StepDeployerBundleIngest then
        (displayStepLabel phase, ''Setup stopped while loading the downloaded system image.'')
      else if phase = StepDeployerRegistryPreflight then
        (displayStepLabel phase, ''Setup stopped while connecting to the software registry.'')
      else if phase = StepDeployerFisherman then
        (displayStepLabel phase, ''Setup stopped while downloading and installing the system.'')
      else if phase = StepDeployerVerification then
        (displayStepLabel phase, ''Setup stopped while verifying the installed system.'')
      else if phase = StepDeployerReboot then
        (displayStepLabel phase, ''Setup stopped before restarting into the new system.'')
      else if observedStepID phase \<noteq> [] then
        (displayStepLabel phase, ''Setup could not finish this time.'')
      else (''Setting up Linux'', ''Setup could not finish this time.''))"

subsection \<open>The log tail\<close>

text \<open>
  The candidates are read in order until one has contents. A read that fails returns no data.
\<close>

fun first_contents :: "string file_read list \<Rightarrow> string" where
  "first_contents [] = []"
| "first_contents (Found t # cs) = (if t = [] then first_contents cs else t)"
| "first_contents (_ # cs) = first_contents cs"

definition last_lines :: "nat \<Rightarrow> string list \<Rightarrow> string list" where
  "last_lines n ls = (if n < length ls then drop (length ls - n) ls else ls)"

definition readLastLogLines :: "string file_read list \<Rightarrow> nat \<Rightarrow> string list" where
  "readLastLogLines candidates n =
     (let t = first_contents candidates
      in if t = [] then []
         else last_lines n (filter (\<lambda>l. l \<noteq> []) (map trim_space (split_on (CHR 0x0A) t))))"

subsection \<open>The decision table\<close>

definition safe_actions :: recovery_verdict where
  "safe_actions = \<lparr>rv_phase_id = [], rv_verdict = [], rv_phase = [], rv_title = [], rv_message = [],
     rv_details = [], rv_log = [], rv_untouched = True, rv_try_again = True, rv_remove = True,
     rv_repair = True, rv_timestamp = []\<rparr>"

definition EvaluateRecovery ::
  "string \<Rightarrow> bool \<Rightarrow> lifecycle_state \<Rightarrow> string file_read list \<Rightarrow> recovery_verdict" where
  "EvaluateRecovery now startedExists ls logs =
     (let phaseID = stopped_by ls; v = safe_actions\<lparr>rv_timestamp := now\<rparr>
      in if \<not> startedExists \<and> ls_state ls \<noteq> StateDeployed \<and> ls_state ls \<noteq> StateHealthy then
           v\<lparr>rv_verdict := VerdictNeverBooted, rv_phase := VerdictNeverBooted,
             rv_title := ''Windows started instead of the Linux installer'',
             rv_message := ''Your computer restarted directly into Windows without starting the Linux installer.'',
             rv_details := ''The one-time boot was not selected by firmware. Your Windows installation and all files remain completely safe and untouched.''\<rparr>
         else if ls_state ls = StateDeploying then
           v\<lparr>rv_verdict := VerdictInterrupted, rv_phase := StateDeploying, rv_phase_id := phaseID,
             rv_title := ''Installation was interrupted unexpectedly'',
             rv_message := ''The setup process was interrupted before it could finish (for example, by a power loss or unexpected restart).'',
             rv_details := ''The deployer started but did not reach cleanup. Your Windows installation and all files remain completely safe and untouched.''\<rparr>
         else if ls_state ls = StateFailed then
           (let phase = (if phaseID \<noteq> [] then phaseID else ls_phase ls);
                (title, msg) = friendlySplashMessageForPhase phase
            in v\<lparr>rv_verdict := VerdictFailed, rv_phase := ls_phase ls, rv_phase_id := phaseID,
                 rv_title := title, rv_message := msg, rv_details := ls_error ls,
                 rv_log := readLastLogLines logs 30\<rparr>)
         else if ls_state ls = StateDeployed then
           v\<lparr>rv_verdict := VerdictDeployed, rv_phase := StateDeployed, rv_phase_id := phaseID,
             rv_title := ''Linux setup completed'',
             rv_message := ''Phase-2 Linux system is staged and ready to boot.'',
             rv_details := ''The installer finished successfully. Phase-2 boot is pending.'',
             rv_repair := False\<rparr>
         else if ls_state ls = StateHealthy then
           v\<lparr>rv_verdict := VerdictHealthy, rv_phase := StateHealthy, rv_phase_id := phaseID,
             rv_title := ''Linux installation complete'',
             rv_message := ''Phase-2 userspace reached and healthy.'',
             rv_untouched := False, rv_try_again := False, rv_remove := False, rv_repair := False\<rparr>
         else
           v\<lparr>rv_verdict := VerdictNeverBooted, rv_title := ''Windows started normally'',
             rv_message := ''Your computer restarted back into Windows.''\<rparr>)"

subsection \<open>Properties\<close>

lemma last_lines_length: "length (last_lines n ls) \<le> n"
  by (simp add: last_lines_def)

lemma last_lines_suffix: "suffix (last_lines n ls) ls"
  by (simp add: last_lines_def suffix_drop)

lemma stopped_by_observed: "observedStepID (stopped_by ls) = stopped_by ls"
  by (simp add: stopped_by_def Let_def)

lemma verdict_neq [simp]:
  "VerdictNeverBooted \<noteq> VerdictInterrupted" "VerdictNeverBooted \<noteq> VerdictFailed"
  "VerdictNeverBooted \<noteq> VerdictDeployed" "VerdictNeverBooted \<noteq> VerdictHealthy"
  "VerdictInterrupted \<noteq> VerdictFailed" "VerdictInterrupted \<noteq> VerdictDeployed"
  "VerdictInterrupted \<noteq> VerdictHealthy" "VerdictFailed \<noteq> VerdictDeployed"
  "VerdictFailed \<noteq> VerdictHealthy" "VerdictDeployed \<noteq> VerdictHealthy"
  by (simp_all add: verdict_names)

lemmas verdict_neq_sym [simp] = verdict_neq [symmetric]

text \<open>
  The startup verdict claims only what is recorded. For every input, a finished
  installation (\<open>deployed\<close>, \<open>healthy\<close>) is reported exactly when the lifecycle state says so,
  an interruption or a failure only when the deployer's marker exists beside that state; the
  user can remove and try again in every other case than \<open>healthy\<close>, and repair is withheld
  exactly once the new system's boot files are in place; the reported step is a catalogue step
  or empty; and the attached log has at most 30 lines, and only for a failure.
\<close>

theorem startup_verdict_sound:
  "let v = EvaluateRecovery now started ls logs in
     (rv_verdict v = VerdictHealthy \<longleftrightarrow> ls_state ls = StateHealthy) \<and>
     (rv_verdict v = VerdictDeployed \<longleftrightarrow> ls_state ls = StateDeployed) \<and>
     (rv_verdict v = VerdictInterrupted \<longleftrightarrow> started \<and> ls_state ls = StateDeploying) \<and>
     (rv_verdict v = VerdictFailed \<longleftrightarrow> started \<and> ls_state ls = StateFailed) \<and>
     (rv_remove v \<longleftrightarrow> rv_verdict v \<noteq> VerdictHealthy) \<and> rv_try_again v = rv_remove v \<and>
     (rv_repair v \<longleftrightarrow> ls_state ls \<notin> {StateDeployed, StateHealthy}) \<and>
     observedStepID (rv_phase_id v) = rv_phase_id v \<and> length (rv_log v) \<le> 30"
proof -
  have log: "length (readLastLogLines logs 30) \<le> 30"
    by (simp add: readLastLogLines_def last_lines_length Let_def)
  have nil: "observedStepID [] = []" using observedStepID_cases [of "[]"] by simp
  show ?thesis
    by (cases "friendlySplashMessageForPhase (if stopped_by ls \<noteq> [] then stopped_by ls else ls_phase ls)")
      (simp add: EvaluateRecovery_def safe_actions_def Let_def stopped_by_observed nil log)
qed

text \<open>
  The log tail is the end of the log. For every number of lines and every contents,
  what \<open>readLastLogLines\<close> returns is a suffix of the trimmed non-empty lines of the first
  log that has contents, and no shorter than the limit allows.
\<close>

theorem log_tail_is_suffix:
  "let ls = filter (\<lambda>l. l \<noteq> []) (map trim_space (split_on (CHR 0x0A) (first_contents candidates)));
       tail = readLastLogLines candidates n
   in suffix tail ls \<and> length tail = min n (length ls)"
proof (cases "first_contents candidates = []")
  case True
  then have "filter (\<lambda>l. l \<noteq> []) (map trim_space (split_on (CHR 0x0A) (first_contents candidates))) = []"
    by (simp add: trim_space_def trim_by_all)
  then show ?thesis using True by (simp add: readLastLogLines_def Let_def)
next
  case False
  then show ?thesis
    by (simp add: readLastLogLines_def Let_def last_lines_suffix) (simp add: last_lines_def)
qed

end
