(* ===== verification/Boot_Repair.thy ===== *)
theory Boot_Repair
  imports Boot_Chain Startup_Recovery
begin

text \<open>
  Boot repair (\<open>app/boot_repair.go\<close>): the parser of a whole \<open>bcdedit /enum\<close> dump, the
  decision table \<open>planBootRepair\<close> over an observation, the commands that restore a
  Windows-only boot, and the two checks of the observation made afterwards. Each finding
  and each refusal is a constructor carrying the arguments of its format string.
\<close>

definition BootStateWindowsOnly :: string where "BootStateWindowsOnly = ''windows-only''"
definition BootStateOneShotArmed :: string where "BootStateOneShotArmed = ''one-shot-armed''"
definition BootStateWootcDefault :: string where "BootStateWootcDefault = ''wootc-default''"
definition BootStateWootcListed :: string where "BootStateWootcListed = ''wootc-listed''"
definition BootStateForeignNext :: string where "BootStateForeignNext = ''foreign-next''"
definition BootStateUnknown :: string where "BootStateUnknown = ''unknown''"

lemmas boot_state_names = BootStateWindowsOnly_def BootStateOneShotArmed_def BootStateWootcDefault_def
  BootStateWootcListed_def BootStateForeignNext_def BootStateUnknown_def

definition OwnershipCertain :: string where "OwnershipCertain = ''certain''"
definition OwnershipUncertain :: string where "OwnershipUncertain = ''uncertain''"
definition OwnershipNone :: string where "OwnershipNone = ''none''"

lemmas ownership_names = OwnershipCertain_def OwnershipUncertain_def OwnershipNone_def

definition BootActionNone :: string where "BootActionNone = ''none''"
definition BootActionRestoreWindows :: string where "BootActionRestoreWindows = ''restore-windows''"
definition BootActionRepairBoot :: string where "BootActionRepairBoot = ''repair-boot''"
definition BootActionManual :: string where "BootActionManual = ''manual''"

lemmas boot_action_names = BootActionNone_def BootActionRestoreWindows_def BootActionRepairBoot_def
  BootActionManual_def

definition windowsBootManagerID :: string where "windowsBootManagerID = ''{bootmgr}''"

record boot_observation =
  ob_at :: string
  ob_enum :: string
  ob_enum_err :: string
  ob_armed_present :: bool
  ob_armed_err :: string
  ob_armed :: armed_state
  ob_guid :: string
  ob_esp_found :: bool
  ob_esp_err :: string
  ob_manifest_err :: string
  ob_owned_files :: "string list"
  ob_hashes :: "string smap"
  ob_lifecycle_present :: bool
  ob_lifecycle :: lifecycle_state
  ob_deployer_started :: bool

datatype repair_finding =
    LifecycleIs string string string
  | NoLifecycle
  | DeployerRan
  | RecordedGone string string
  | Duplicates nat
  | NextForeign string
  | OwnedInOrder string
  | OwnedAhead
  | FirstForeign string
  | EspNotLocated string
  | EspMissing string
  | EspChanged string

datatype repair_refusal =
    ArmedUnreadable string
  | EnumUnreadable string
  | FwbootmgrMissing
  | BootmgrMissing
  | RecordedCollision string string string
  | RecordsDiffer string string
  | ManifestUntrusted string
  | EspUnclaimed string
  | NeedsArmed
  | AlreadyReached string
  | EspUnverified

record boot_report =
  rr_at :: string
  rr_state :: string
  rr_ownership :: string
  rr_lifecycle :: string
  rr_sequence :: "string list"
  rr_order :: "string list"
  rr_entries :: "string list"
  rr_findings :: "repair_finding list"
  rr_refusals :: "repair_refusal list"
  rr_can_restore :: bool
  rr_can_repair :: bool
  rr_recommended :: string

subsection \<open>The dump parser\<close>

record bcd_entry =
  ce_id :: string
  ce_description :: string
  ce_fields :: "string list smap"

definition header_underline :: "string \<Rightarrow> bool" where
  "header_underline l \<longleftrightarrow> l \<noteq> [] \<and> list_all (\<lambda>c. c = CHR ''-'') l"

definition entry_field :: "string \<Rightarrow> string \<Rightarrow> bcd_entry \<Rightarrow> bcd_entry" where
  "entry_field key val e = e\<lparr>ce_fields := append_field key val (ce_fields e)\<rparr>"

definition set_entry_field :: "string \<Rightarrow> string \<Rightarrow> bcd_entry \<Rightarrow> bcd_entry" where
  "set_entry_field key val e =
     (let e1 = entry_field key val e
      in if key = ''identifier'' then e1\<lparr>ce_id := to_lower val\<rparr>
         else if key = ''description'' then e1\<lparr>ce_description := val\<rparr> else e1)"

text \<open>The current entry, when there is one, is the last of the list.\<close>

definition update_last :: "('a \<Rightarrow> 'a) \<Rightarrow> 'a list \<Rightarrow> 'a list" where
  "update_last f xs = (if xs = [] then [] else butlast xs @ [f (last xs)])"

definition next_underline :: "string list \<Rightarrow> bool" where
  "next_underline rest = (case rest of [] \<Rightarrow> False | l # _ \<Rightarrow> header_underline (trim_space l))"

text \<open>One content line of the current entry; \<open>line\<close> is right-trimmed and not blank.\<close>

definition entry_line :: "string \<Rightarrow> bcd_entry list \<times> string \<Rightarrow> bcd_entry list \<times> string" where
  "entry_line line st =
     (let (es, lastKey) = st; trimmed = trim_space line
      in if es = [] then st
         else if hd line = CHR '' '' \<or> hd line = CHR 0x09 then
           (if lastKey \<noteq> [] then (update_last (entry_field lastKey trimmed) es, lastKey) else st)
         else (let w = hd (str_fields trimmed); key = to_lower w;
                   val = trim_space (trim_prefix trimmed w)
               in (update_last (set_entry_field key val) es, key)))"

fun parse_entry_lines :: "bcd_entry list \<times> string \<Rightarrow> string list \<Rightarrow> bcd_entry list" where
  "parse_entry_lines st [] = fst st"
| "parse_entry_lines st (raw # rest) =
     (let line = trim_right_set raw [CHR '' '', CHR 0x09]; trimmed = trim_space line
      in if trimmed = [] \<or> header_underline trimmed then parse_entry_lines st rest
         else if next_underline rest then
           parse_entry_lines (fst st @ [\<lparr>ce_id = [], ce_description = [], ce_fields = []\<rparr>], []) rest
         else parse_entry_lines (entry_line line st) rest)"

definition parseBCDEntries :: "string \<Rightarrow> bcd_entry list" where
  "parseBCDEntries out = parse_entry_lines ([], []) (split_on (CHR 0x0A) (crlf_to_lf out))"

definition normalizeGUID :: "string \<Rightarrow> string" where
  "normalizeGUID g = to_lower (trim_space g)"

definition entry_values :: "bcd_entry \<Rightarrow> string \<Rightarrow> string list" where
  "entry_values e key = lookup_or [] (ce_fields e) key"

text \<open>\<open>byID\<close> keeps the last entry of an identifier, and so does the search for \<open>fw\<close>.\<close>

definition entry_by_id :: "bcd_entry list \<Rightarrow> string \<Rightarrow> bcd_entry option" where
  "entry_by_id es i = List.find (\<lambda>e. ce_id e = i) (rev es)"

definition owned_ids :: "bcd_entry list \<Rightarrow> string list" where
  "owned_ids es = sort (remdups (map ce_id
     (filter (\<lambda>e. ce_description e = bootRepairDescription \<and> ce_id e \<noteq> []) es)))"

subsection \<open>The decision table\<close>

definition armed_refusals :: "boot_observation \<Rightarrow> repair_refusal list" where
  "armed_refusals obs = note_if (ob_armed_err obs \<noteq> []) (ArmedUnreadable (ob_armed_err obs))"

definition lifecycle_findings :: "boot_observation \<Rightarrow> repair_finding list" where
  "lifecycle_findings obs =
     (let ls = ob_lifecycle obs
      in [if ob_lifecycle_present obs
          then LifecycleIs (ls_state ls) (ls_updated_by ls) (ls_updated_at ls) else NoLifecycle] @
         note_if (ob_deployer_started obs) DeployerRan)"

definition recorded_check ::
  "bcd_entry list \<Rightarrow> string \<times> string \<Rightarrow> repair_finding list \<times> repair_refusal list" where
  "recorded_check es rec =
     (let (name, raw) = rec; i = normalizeGUID raw
      in if i = [] then ([], [])
         else case entry_by_id es i of
                None \<Rightarrow> ([RecordedGone name i], [])
              | Some e \<Rightarrow> ([], note_if (ce_description e \<noteq> bootRepairDescription)
                              (RecordedCollision name i (ce_description e))))"

definition recorded_checks ::
  "bcd_entry list \<Rightarrow> boot_observation \<Rightarrow> repair_finding list \<times> repair_refusal list" where
  "recorded_checks es obs =
     (let (f1, r1) = recorded_check es (''armed.json'', as_guid (ob_armed obs));
          (f2, r2) = recorded_check es (''bcd-guid.txt'', ob_guid obs);
          a = normalizeGUID (as_guid (ob_armed obs)); b = normalizeGUID (ob_guid obs)
      in (f1 @ f2, r1 @ r2 @ note_if (a \<noteq> [] \<and> b \<noteq> [] \<and> a \<noteq> b) (RecordsDiffer a b)))"

text \<open>The boot sequence and order, and who comes first in the order.\<close>

definition windows_index :: "string list \<Rightarrow> nat option" where
  "windows_index order = index_from 0 (\<lambda>v. v = windowsBootManagerID) order"

definition owned_index :: "string list \<Rightarrow> string list \<Rightarrow> nat option" where
  "owned_index owned order = index_from 0 (\<lambda>v. v \<in> set owned) order"

definition owned_ahead :: "string list \<Rightarrow> string list \<Rightarrow> bool" where
  "owned_ahead owned order =
     (case owned_index owned order of
        None \<Rightarrow> False
      | Some i \<Rightarrow> (case windows_index order of None \<Rightarrow> True | Some w \<Rightarrow> i < w))"

definition foreign_next :: "string list \<Rightarrow> string list \<Rightarrow> bool" where
  "foreign_next owned sq \<longleftrightarrow> list_ex (\<lambda>i. i \<notin> set owned) sq"

definition boot_state_of :: "string list \<Rightarrow> string list \<Rightarrow> string list \<Rightarrow> string" where
  "boot_state_of owned sq order =
     (if foreign_next owned sq then BootStateForeignNext
      else if sq \<noteq> [] then BootStateOneShotArmed
      else if owned_ahead owned order then BootStateWootcDefault
      else if owned_index owned order \<noteq> None then BootStateWootcListed
      else BootStateWindowsOnly)"

definition order_findings :: "string list \<Rightarrow> string list \<Rightarrow> string list \<Rightarrow> repair_finding list" where
  "order_findings owned sq order =
     map NextForeign (filter (\<lambda>i. i \<notin> set owned) sq) @
     map OwnedInOrder (filter (\<lambda>i. i \<in> set owned) order) @
     note_if (owned_ahead owned order) OwnedAhead @
     (case order of
        [] \<Rightarrow> []
      | i # _ \<Rightarrow> note_if (i \<noteq> windowsBootManagerID \<and> i \<notin> set owned) (FirstForeign i))"

definition esp_located :: "boot_observation \<Rightarrow> bool" where
  "esp_located obs \<longleftrightarrow> ob_esp_err obs = [] \<and> ob_manifest_err obs = []"

definition esp_location_notes :: "boot_observation \<Rightarrow> repair_finding list \<times> repair_refusal list" where
  "esp_location_notes obs =
     (if ob_esp_err obs \<noteq> [] then ([EspNotLocated (ob_esp_err obs)], [])
      else ([], note_if (ob_manifest_err obs \<noteq> []) (ManifestUntrusted (ob_manifest_err obs))))"

definition esp_file_check :: "boot_observation \<Rightarrow> string \<Rightarrow> repair_finding list \<times> repair_refusal list" where
  "esp_file_check obs f =
     (if normalizeESPPath f \<notin> normalizeESPPath ` set (ob_owned_files obs) then ([], [EspUnclaimed f])
      else (let cur = lookup_or [] (ob_hashes obs) f; want = lookup_or [] (as_hashes (ob_armed obs)) f
            in (if cur = [] then [EspMissing f] else note_if (want \<noteq> [] \<and> cur \<noteq> want) (EspChanged f), [])))"

definition esp_checks :: "boot_observation \<Rightarrow> repair_finding list \<times> repair_refusal list" where
  "esp_checks obs =
     (let (f0, r0) = esp_location_notes obs;
          cs = (if esp_located obs \<and> ob_armed_present obs
                then map (esp_file_check obs) (as_files (ob_armed obs)) else [])
      in (f0 @ concat (map fst cs), r0 @ concat (map snd cs)))"

definition healthy_or_deployed :: "boot_observation \<Rightarrow> bool" where
  "healthy_or_deployed obs \<longleftrightarrow>
     ls_state (ob_lifecycle obs) = StateHealthy \<or> ls_state (ob_lifecycle obs) = StateDeployed"

definition repair_refusals :: "boot_observation \<Rightarrow> repair_refusal list" where
  "repair_refusals obs =
     (if \<not> ob_armed_present obs then [NeedsArmed]
      else if healthy_or_deployed obs then [AlreadyReached (ls_state (ob_lifecycle obs))]
      else note_if (\<not> esp_located obs) EspUnverified)"

text \<open>The report when the boot manager cannot be read: every action stays forbidden.\<close>

definition unknown_report :: "boot_observation \<Rightarrow> repair_refusal \<Rightarrow> boot_report" where
  "unknown_report obs refusal =
     \<lparr>rr_at = ob_at obs, rr_state = BootStateUnknown,
      rr_ownership = (if ob_armed_err obs \<noteq> [] then OwnershipUncertain else OwnershipNone),
      rr_lifecycle = ls_state (ob_lifecycle obs), rr_sequence = [], rr_order = [], rr_entries = [],
      rr_findings = lifecycle_findings obs, rr_refusals = armed_refusals obs @ [refusal],
      rr_can_restore = False, rr_can_repair = False, rr_recommended = BootActionManual\<rparr>"

definition known_report :: "boot_observation \<Rightarrow> bcd_entry list \<Rightarrow> bcd_entry \<Rightarrow> boot_report" where
  "known_report obs es fw =
     (let owned = owned_ids es;
          windows = (entry_by_id es windowsBootManagerID \<noteq> None);
          (recf, recr) = recorded_checks es obs;
          (espf, espr) = esp_checks obs;
          sq = map normalizeGUID (entry_values fw ''bootsequence'');
          order = map normalizeGUID (entry_values fw ''displayorder'');
          uncertain = (ob_armed_err obs \<noteq> [] \<or> recr \<noteq> [] \<or> espr \<noteq> []);
          ownership = (if uncertain then OwnershipUncertain
                       else if owned \<noteq> [] then OwnershipCertain else OwnershipNone);
          trusted = (recr = [] \<and> windows);
          foreign = foreign_next owned sq;
          state = boot_state_of owned sq order;
          restore = (trusted \<and> \<not> foreign \<and>
            (sq \<noteq> [] \<or> owned_index owned order \<noteq> None \<or> windows_index order = None));
          repair = (trusted \<and> \<not> uncertain \<and> \<not> foreign \<and> ob_armed_present obs \<and>
            \<not> healthy_or_deployed obs \<and> esp_located obs \<and> ob_armed_err obs = [])
      in \<lparr>rr_at = ob_at obs, rr_state = state, rr_ownership = ownership,
          rr_lifecycle = ls_state (ob_lifecycle obs), rr_sequence = sq, rr_order = order,
          rr_entries = owned,
          rr_findings = lifecycle_findings obs @ recf @
            note_if (1 < length owned) (Duplicates (length owned)) @
            order_findings owned sq order @ espf,
          rr_refusals = armed_refusals obs @ note_if (\<not> windows) BootmgrMissing @ recr @ espr @
            repair_refusals obs,
          rr_can_restore = restore, rr_can_repair = repair,
          rr_recommended =
            (if restore then BootActionRestoreWindows
             else if state = BootStateWindowsOnly \<and> windows_index order \<noteq> None \<and> \<not> uncertain
                  then BootActionNone
             else if repair then BootActionRepairBoot else BootActionManual)\<rparr>)"

definition planBootRepair :: "boot_observation \<Rightarrow> boot_report" where
  "planBootRepair obs =
     (if ob_enum_err obs \<noteq> [] then unknown_report obs (EnumUnreadable (ob_enum_err obs))
      else (let es = parseBCDEntries (ob_enum obs)
            in case entry_by_id es fwbootmgr of
                 None \<Rightarrow> unknown_report obs FwbootmgrMissing
               | Some fw \<Rightarrow> known_report obs es fw))"

subsection \<open>Restoring a Windows-only boot\<close>

datatype repair_error =
    RestoreNotSafe "repair_refusal list"
  | NextNotOwned string
  | WrongStateAfter string
  | WindowsNotInOrder "string list"
  | NotArmedAfter string
  | WrongEntryAfter "string list" string
  | HashMismatchAfter string
  | RepairCommandFailed "string list" string string

definition add_windows_first :: "string list" where
  "add_windows_first = [''/set'', fwbootmgr, ''displayorder'', windowsBootManagerID, ''/addfirst'']"

definition order_removal :: "string \<Rightarrow> string list" where
  "order_removal i = [''/set'', fwbootmgr, ''displayorder'', i, ''/remove'']"

definition sequence_clear :: "string list" where
  "sequence_clear = [''/deletevalue'', fwbootmgr, ''bootsequence'']"

definition restoreWindowsCommands :: "boot_report \<Rightarrow> repair_error + string list list" where
  "restoreWindowsCommands r =
     (if \<not> rr_can_restore r then Inl (RestoreNotSafe (rr_refusals r))
      else case List.find (\<lambda>i. i \<notin> set (rr_entries r)) (rr_sequence r) of
             Some i \<Rightarrow> Inl (NextNotOwned i)
           | None \<Rightarrow> Inr ((if rr_sequence r \<noteq> [] then [sequence_clear] else []) @
               map order_removal (filter (\<lambda>i. i \<in> set (rr_entries r)) (rr_order r)) @
               (if windows_index (rr_order r) = None then [add_windows_first] else [])))"

definition verifyWindowsOnly :: "boot_report \<Rightarrow> repair_error option" where
  "verifyWindowsOnly r =
     (if rr_state r \<noteq> BootStateWindowsOnly then Some (WrongStateAfter (rr_state r))
      else if windows_index (rr_order r) = None then Some (WindowsNotInOrder (rr_order r))
      else None)"

definition verifyRepairArmed :: "boot_report \<Rightarrow> boot_observation \<Rightarrow> repair_error option" where
  "verifyRepairArmed r obs =
     (if rr_state r \<noteq> BootStateOneShotArmed then Some (NotArmedAfter (rr_state r))
      else (let want = normalizeGUID (as_guid (ob_armed obs))
            in if rr_sequence r \<noteq> [want] then Some (WrongEntryAfter (rr_sequence r) want)
               else map_option HashMismatchAfter (List.find
                 (\<lambda>f. let w = lookup_or [] (as_hashes (ob_armed obs)) f
                      in w = [] \<or> lookup_or [] (ob_hashes obs) f \<noteq> w) (as_files (ob_armed obs)))))"

text \<open>
  \<open>restoreWindowsBoot\<close> over the machine: \<open>observe\<close> is \<open>observeBoot\<close>, \<open>run\<close> is \<open>runBCDEdit\<close>,
  and writing the evidence bundle, which changes nothing the report depends on, is left out.
\<close>

fun run_repair ::
  "(string list \<Rightarrow> 's \<Rightarrow> (string \<times> string option) \<times> 's) \<Rightarrow> string list list \<Rightarrow> 's \<Rightarrow> repair_error option \<times> 's" where
  "run_repair run [] s = (None, s)"
| "run_repair run (c # cs) s =
     (case run c s of
        ((out, Some e), s1) \<Rightarrow> (Some (RepairCommandFailed c e (trim_space out)), s1)
      | ((_, None), s1) \<Rightarrow> run_repair run cs s1)"

definition restoreWindowsBoot ::
  "('s \<Rightarrow> boot_observation \<times> 's) \<Rightarrow> (string list \<Rightarrow> 's \<Rightarrow> (string \<times> string option) \<times> 's) \<Rightarrow>
     's \<Rightarrow> (repair_error option \<times> boot_report) \<times> 's" where
  "restoreWindowsBoot observe run s =
     (let (obs, s1) = observe s; before = planBootRepair obs
      in case restoreWindowsCommands before of
           Inl e \<Rightarrow>
             (if rr_state before = BootStateWindowsOnly \<and> rr_ownership before \<noteq> OwnershipUncertain
              then ((None, before), s1) else ((Some e, before), s1))
         | Inr cmds \<Rightarrow>
             (case run_repair run cmds s1 of
                (Some e, s2) \<Rightarrow> ((Some e, before), s2)
              | (None, s2) \<Rightarrow>
                  (let (obs2, s3) = observe s2; after = planBootRepair obs2
                   in ((verifyWindowsOnly after, after), s3))))"

end
