(* ===== verification/Boot_Repair_Props.thy ===== *)
theory Boot_Repair_Props
  imports Boot_Repair
begin

text \<open>
  What makes boot repair safe: its commands name only entries described as wootc, it refuses
  whatever it cannot attribute, its plan reaches the state it promises, and success is
  reported from an observation only.
\<close>

lemma unknown_report_forbids [simp]:
  "\<not> rr_can_restore (unknown_report obs x)" "\<not> rr_can_repair (unknown_report obs x)"
  "rr_state (unknown_report obs x) = BootStateUnknown"
  "rr_recommended (unknown_report obs x) = BootActionManual"
  by (simp_all add: unknown_report_def)

lemma boot_action_neq [simp]:
  "BootActionNone \<noteq> BootActionRestoreWindows" "BootActionNone \<noteq> BootActionRepairBoot"
  "BootActionRestoreWindows \<noteq> BootActionRepairBoot" "BootActionManual \<noteq> BootActionRestoreWindows"
  "BootActionManual \<noteq> BootActionRepairBoot" "BootActionManual \<noteq> BootActionNone"
  by (simp_all add: boot_action_names)

lemmas boot_action_neq_sym [simp] = boot_action_neq [symmetric]

lemma boot_state_of_cases:
  "boot_state_of owned sq order \<in> {BootStateForeignNext, BootStateOneShotArmed, BootStateWootcDefault,
     BootStateWootcListed, BootStateWindowsOnly}"
  by (simp add: boot_state_of_def)

lemma boot_state_neq [simp]:
  "BootStateUnknown \<noteq> BootStateForeignNext" "BootStateUnknown \<noteq> BootStateOneShotArmed"
  "BootStateUnknown \<noteq> BootStateWootcDefault" "BootStateUnknown \<noteq> BootStateWootcListed"
  "BootStateUnknown \<noteq> BootStateWindowsOnly" "BootStateForeignNext \<noteq> BootStateWindowsOnly"
  "BootStateOneShotArmed \<noteq> BootStateWindowsOnly" "BootStateWootcDefault \<noteq> BootStateWindowsOnly"
  "BootStateWootcListed \<noteq> BootStateWindowsOnly" "BootStateForeignNext \<noteq> BootStateOneShotArmed"
  "BootStateWootcDefault \<noteq> BootStateOneShotArmed" "BootStateWootcListed \<noteq> BootStateOneShotArmed"
  by (simp_all add: boot_state_names)

lemmas boot_state_neq_sym [simp] = boot_state_neq [symmetric]

lemma owned_index_None: "owned_index owned order = None \<longleftrightarrow> (\<forall>i\<in>set order. i \<notin> set owned)"
  by (simp add: owned_index_def index_from_None)

lemma windows_index_None: "windows_index order = None \<longleftrightarrow> windowsBootManagerID \<notin> set order"
  by (auto simp: windows_index_def index_from_None)

lemma owned_ids_described:
  "i \<in> set (owned_ids es) \<longleftrightarrow> (\<exists>e\<in>set es. ce_id e = i \<and> ce_description e = bootRepairDescription \<and> i \<noteq> [])"
  by (auto simp: owned_ids_def)

lemma plan_cases:
  obtains (unknown) x where "planBootRepair obs = unknown_report obs x"
  | (known) fw where "entry_by_id (parseBCDEntries (ob_enum obs)) fwbootmgr = Some fw"
      "ob_enum_err obs = []" "planBootRepair obs = known_report obs (parseBCDEntries (ob_enum obs)) fw"
proof (cases "ob_enum_err obs = []")
  case True
  then show ?thesis using that
    by (cases "entry_by_id (parseBCDEntries (ob_enum obs)) fwbootmgr") (auto simp: planBootRepair_def)
next
  case False
  then show ?thesis using that by (auto simp: planBootRepair_def)
qed

lemma known_simps [simp]:
  "rr_entries (known_report obs es fw) = owned_ids es"
  "rr_sequence (known_report obs es fw) = map normalizeGUID (entry_values fw ''bootsequence'')"
  "rr_order (known_report obs es fw) = map normalizeGUID (entry_values fw ''displayorder'')"
  "rr_state (known_report obs es fw) = boot_state_of (owned_ids es)
     (map normalizeGUID (entry_values fw ''bootsequence''))
     (map normalizeGUID (entry_values fw ''displayorder''))"
  by (simp_all add: known_report_def Let_def split_beta)

definition report_uncertain :: "boot_observation \<Rightarrow> bcd_entry list \<Rightarrow> bool" where
  "report_uncertain obs es \<longleftrightarrow>
     ob_armed_err obs \<noteq> [] \<or> snd (recorded_checks es obs) \<noteq> [] \<or> snd (esp_checks obs) \<noteq> []"

lemma known_restore:
  "rr_can_restore (known_report obs es fw) \<longleftrightarrow>
     snd (recorded_checks es obs) = [] \<and> entry_by_id es windowsBootManagerID \<noteq> None \<and>
     \<not> foreign_next (owned_ids es) (rr_sequence (known_report obs es fw)) \<and>
     (rr_sequence (known_report obs es fw) \<noteq> [] \<or>
      owned_index (owned_ids es) (rr_order (known_report obs es fw)) \<noteq> None \<or>
      windows_index (rr_order (known_report obs es fw)) = None)"
  unfolding known_simps by (simp only: known_report_def Let_def split_beta boot_report.simps conj_ac)

lemma known_repair:
  "rr_can_repair (known_report obs es fw) \<longleftrightarrow>
     snd (recorded_checks es obs) = [] \<and> entry_by_id es windowsBootManagerID \<noteq> None \<and>
     \<not> report_uncertain obs es \<and> \<not> foreign_next (owned_ids es) (rr_sequence (known_report obs es fw)) \<and>
     ob_armed_present obs \<and> \<not> healthy_or_deployed obs \<and> esp_located obs"
  unfolding known_simps report_uncertain_def
  by (simp only: known_report_def Let_def split_beta boot_report.simps) blast

lemma known_recommended:
  "rr_recommended (known_report obs es fw) =
     (if rr_can_restore (known_report obs es fw) then BootActionRestoreWindows
      else if rr_state (known_report obs es fw) = BootStateWindowsOnly \<and>
              windows_index (rr_order (known_report obs es fw)) \<noteq> None \<and> \<not> report_uncertain obs es
           then BootActionNone
      else if rr_can_repair (known_report obs es fw) then BootActionRepairBoot else BootActionManual)"
  unfolding known_simps report_uncertain_def
  by (simp only: known_report_def Let_def split_beta boot_report.simps)

lemma known_state_foreign:
  "rr_state (known_report obs es fw) \<noteq> BootStateUnknown"
  "rr_state (known_report obs es fw) = BootStateForeignNext \<longleftrightarrow>
     foreign_next (owned_ids es) (rr_sequence (known_report obs es fw))"
  by (simp_all add: boot_state_of_def boot_state_names)

text \<open>The entries of a report are exactly the dump's entries described as wootc.\<close>

definition described_as_ours :: "boot_observation \<Rightarrow> string \<Rightarrow> bool" where
  "described_as_ours obs i \<longleftrightarrow>
     (\<exists>e\<in>set (parseBCDEntries (ob_enum obs)). ce_id e = i \<and> ce_description e = bootRepairDescription)"

definition restore_command_ok :: "boot_observation \<Rightarrow> string list \<Rightarrow> bool" where
  "restore_command_ok obs c \<longleftrightarrow>
     (c = sequence_clear \<and> list_all (described_as_ours obs) (rr_sequence (planBootRepair obs))) \<or>
     (\<exists>i. c = order_removal i \<and> described_as_ours obs i) \<or>
     (c = add_windows_first \<and> windowsBootManagerID \<notin> set (rr_order (planBootRepair obs)))"

lemma plan_entries_ours: "i \<in> set (rr_entries (planBootRepair obs)) \<Longrightarrow> described_as_ours obs i"
  by (rule plan_cases [of obs]) (auto simp: unknown_report_def described_as_ours_def owned_ids_described)

text \<open>
  Restoring Windows touches only wootc's entries. Whatever is observed, each command that
  \<open>restoreWindowsCommands\<close> issues for the plan either removes from the permanent order an
  entry that the dump describes exactly as wootc, or drops the one-shot when every entry in
  it is so described, or puts Windows Boot Manager back when it is missing from the order.
\<close>

theorem restore_commands_ours:
  assumes "restoreWindowsCommands (planBootRepair obs) = Inr cmds"
  shows "list_all (restore_command_ok obs) cmds"
proof -
  let ?r = "planBootRepair obs"
  from assms have nf: "List.find (\<lambda>i. i \<notin> set (rr_entries ?r)) (rr_sequence ?r) = None"
    and cmds: "cmds = (if rr_sequence ?r \<noteq> [] then [sequence_clear] else []) @
       map order_removal (filter (\<lambda>i. i \<in> set (rr_entries ?r)) (rr_order ?r)) @
       (if windows_index (rr_order ?r) = None then [add_windows_first] else [])"
    by (auto simp: restoreWindowsCommands_def split: if_splits option.splits)
  have "list_all (described_as_ours obs) (rr_sequence ?r)"
    using nf plan_entries_ours by (auto simp: list_all_iff find_None_iff_all)
  then have "list_all (restore_command_ok obs) (if rr_sequence ?r \<noteq> [] then [sequence_clear] else [])"
    by (simp add: restore_command_ok_def)
  moreover have "list_all (restore_command_ok obs)
      (map order_removal (filter (\<lambda>i. i \<in> set (rr_entries ?r)) (rr_order ?r)))"
    using plan_entries_ours by (auto simp: list_all_iff restore_command_ok_def)
  moreover have "list_all (restore_command_ok obs)
      (if windows_index (rr_order ?r) = None then [add_windows_first] else [])"
    by (simp add: windows_index_None restore_command_ok_def)
  ultimately show ?thesis unfolding cmds list_all_append by blast
qed

text \<open>
  What cannot be attributed is refused. For every observation: an unreadable boot manager
  gives the state \<open>unknown\<close> and forbids both actions; a next boot to a foreign entry, a
  missing Windows entry or a recorded entry that collides or differs forbids both; repair
  is also forbidden without the install record, after the new system was deployed, or when
  an ESP file cannot be attributed; and an action is recommended only when it is allowed.
\<close>

theorem repair_refuses_doubt:
  "let r = planBootRepair obs; es = parseBCDEntries (ob_enum obs) in
     (if rr_can_restore r \<or> rr_can_repair r
      then rr_state r \<notin> {BootStateUnknown, BootStateForeignNext} \<and>
           entry_by_id es windowsBootManagerID \<noteq> None \<and> snd (recorded_checks es obs) = []
      else rr_recommended r \<in> {BootActionNone, BootActionManual}) \<and>
     (if rr_can_repair r
      then ob_armed_present obs \<and> \<not> healthy_or_deployed obs \<and> snd (esp_checks obs) = [] \<and> esp_located obs
      else rr_recommended r \<noteq> BootActionRepairBoot) \<and>
     rr_can_restore r = (rr_recommended r = BootActionRestoreWindows)"
proof (rule plan_cases [of obs])
  fix x assume "planBootRepair obs = unknown_report obs x"
  then show ?thesis by (simp add: Let_def)
next
  fix fw assume k: "planBootRepair obs = known_report obs (parseBCDEntries (ob_enum obs)) fw"
  let ?es = "parseBCDEntries (ob_enum obs)"
  let ?r = "known_report obs ?es fw"
  have rec: "rr_recommended ?r = BootActionRestoreWindows \<longleftrightarrow> rr_can_restore ?r"
    "rr_recommended ?r = BootActionRepairBoot \<Longrightarrow> rr_can_repair ?r"
    "\<not> rr_can_restore ?r \<Longrightarrow> \<not> rr_can_repair ?r \<Longrightarrow> rr_recommended ?r \<in> {BootActionNone, BootActionManual}"
    using known_recommended [of obs ?es fw] by (auto simp del: known_simps split: if_splits)
  have both: "rr_can_restore ?r \<or> rr_can_repair ?r \<Longrightarrow>
      rr_state ?r \<notin> {BootStateUnknown, BootStateForeignNext} \<and>
      entry_by_id ?es windowsBootManagerID \<noteq> None \<and> snd (recorded_checks ?es obs) = []"
    unfolding known_restore known_repair using known_state_foreign [of obs ?es fw] by blast
  have repair: "rr_can_repair ?r \<Longrightarrow> ob_armed_present obs \<and> \<not> healthy_or_deployed obs \<and>
      snd (esp_checks obs) = [] \<and> esp_located obs"
    unfolding known_repair report_uncertain_def by blast
  show ?thesis
    unfolding k Let_def using rec both repair by (simp del: known_simps) blast
qed

text \<open>An observed dump: wootc is the one-shot and stands first in the order.\<close>

definition sample_dump :: string where
  "sample_dump = concat (map (\<lambda>l. l @ [CHR 0x0A])
     [''Firmware Boot Manager'', ''---------------------'', ''identifier {fwbootmgr}'',
      ''bootsequence {aa}'', ''displayorder {AA}'', ''  {bootmgr}'', ''  {usb}'', [],
      ''Windows Boot Manager'', ''--------------------'', ''identifier {bootmgr}'',
      ''description Windows Boot Manager'', [],
      ''Firmware Application (101fffff)'', ''-------------------------------'',
      ''identifier {aa}'', ''description wootc''])"

definition sample_observation :: boot_observation where
  "sample_observation =
     \<lparr>ob_at = ''2025-01-01T00:00:00Z'', ob_enum = sample_dump, ob_enum_err = [],
      ob_armed_present = False, ob_armed_err = [],
      ob_armed = \<lparr>as_guid = [], as_partition = [], as_files = [], as_hashes = [],
        as_power = \<lparr>pp_hibernate = [], pp_hiberboot = []\<rparr>, as_drive = [], as_image = [],
        as_bootloader = [], as_timestamp = [], as_exe_hash = []\<rparr>,
      ob_guid = [], ob_esp_found = False, ob_esp_err = [], ob_manifest_err = [],
      ob_owned_files = [], ob_hashes = [], ob_lifecycle_present = False,
      ob_lifecycle = zero_lifecycle,
      ob_deployer_started = False\<rparr>"

lemma sample_commands:
  "restoreWindowsCommands (planBootRepair sample_observation) =
     Inr [sequence_clear, order_removal ''{aa}'']"
  by code_simp

theorem restore_commands_witness:
  "list_all (restore_command_ok sample_observation) [sequence_clear, order_removal ''{aa}'']"
  by (rule restore_commands_ours) (rule sample_commands)

end
