(* ===== verification/Install_Space.thy ===== *)
theory Install_Space
  imports Boot_Menu "HOL-Library.Word"
begin

text \<open>
  The free-space gate (\<open>app/install_space.go\<close>): how much room the deployer needs beside
  root.disk, where the size of the image comes from, and the refusal with its advice. Go's
  \<open>int\<close>, \<open>int64\<close> and \<open>uint64\<close> are 64-bit words; a signed comparison reads the word with
  \<open>sint\<close>. The divisions only meet values that are not negative.
\<close>

type_synonym i64 = "64 word"
type_synonym u64 = "64 word"

definition gib :: "64 word" where "gib = 0x40000000"
definition scratchMinGiB :: i64 where "scratchMinGiB = 20"
definition scratchDriveSlackGiB :: i64 where "scratchDriveSlackGiB = 1"
definition deployerArtifactsGiB :: i64 where "deployerArtifactsGiB = 1"
definition scratchDefaultCompressedBytes :: i64 where "scratchDefaultCompressedBytes = 7 * gib"
definition largest_compressed :: i64 where "largest_compressed = 0x4000000000000"

definition scratchNeedGiB :: "i64 \<Rightarrow> i64" where
  "scratchNeedGiB compressed =
     (if sint compressed \<le> 0 then scratchMinGiB
      else (let c = (if sint largest_compressed < sint compressed then largest_compressed else compressed);
                need = (c * 7 div 2 + gib - 1) div gib + 4
            in if sint need < sint scratchMinGiB then scratchMinGiB else need))"

record install_space =
  is_image :: string
  is_compressed :: i64
  is_source :: string
  is_scratch :: i64
  is_bundle :: i64
  is_reserve :: i64

definition newInstallSpace :: "string \<Rightarrow> i64 \<Rightarrow> string \<Rightarrow> bool \<Rightarrow> install_space" where
  "newInstallSpace img compressed source bundlePending =
     (let scratch = scratchNeedGiB compressed;
          bundle = (if bundlePending \<and> 0 < sint compressed
                    then signed_drop_bit 30 (compressed + gib - 1) else 0)
      in \<lparr>is_image = img, is_compressed = compressed, is_source = source, is_scratch = scratch,
          is_bundle = bundle, is_reserve = scratch + bundle + scratchDriveSlackGiB + deployerArtifactsGiB\<rparr>)"

subsection \<open>The size of the image\<close>

datatype size_error = ParseManifest | NegativeLayer | NoLayers | LookupFailed string

text \<open>The sum of the layers of a parsed manifest; \<open>None\<close> is a manifest that does not parse.\<close>

fun layer_total :: "i64 list \<Rightarrow> i64 \<Rightarrow> size_error + i64" where
  "layer_total [] acc = (if acc = 0 then Inl NoLayers else Inr acc)"
| "layer_total (l # ls) acc =
     (if sint l < 0 then Inl NegativeLayer else layer_total ls (acc + l))"

definition manifestLayerBytes :: "i64 list option \<Rightarrow> size_error + i64" where
  "manifestLayerBytes raw =
     (case raw of None \<Rightarrow> Inl ParseManifest | Some layers \<Rightarrow> layer_total layers 0)"

text \<open>
  What is read below the bundle directory: the image of a usable bundle.json, the digests of
  the index (\<open>None\<close> when it cannot be read or parsed), and each blob as a manifest.
\<close>

record staged_bundle =
  sb_image :: "string option"
  sb_index :: "string list option"
  sb_blob :: "string \<Rightarrow> i64 list option option"

definition cut_prefix :: "string \<Rightarrow> string \<Rightarrow> string option" where
  "cut_prefix s p = (if has_prefix s p then Some (drop (length p) s) else None)"

definition stagedBundleCompressedBytes :: "staged_bundle \<Rightarrow> string \<Rightarrow> i64" where
  "stagedBundleCompressedBytes b img =
     (if sb_image b \<noteq> Some img then 0
      else case sb_index b of
             Some (digest # _) \<Rightarrow>
               (case cut_prefix digest ''sha256:'' of
                  None \<Rightarrow> 0
                | Some hex \<Rightarrow>
                    if hex = [] \<or> contains_any hex [slash, backslash, CHR ''.''] then 0
                    else (case sb_blob b hex of
                            None \<Rightarrow> 0
                          | Some raw \<Rightarrow>
                              (case manifestLayerBytes raw of Inl e \<Rightarrow> 0 | Inr n \<Rightarrow> n)))
           | _ \<Rightarrow> 0)"

definition bundleStagedFor :: "staged_bundle \<Rightarrow> string \<Rightarrow> bool" where
  "bundleStagedFor b img \<longleftrightarrow> sb_image b = Some img"

type_synonym size_cache = "i64 smap"

text \<open>The size, where it came from, and the cache afterwards.\<close>

definition imageCompressedBytes ::
  "staged_bundle \<Rightarrow> (string \<Rightarrow> size_error + i64) \<Rightarrow> string \<Rightarrow> size_cache \<Rightarrow> (i64 \<times> string) \<times> size_cache"
where
  "imageCompressedBytes b lookup img cache =
     (if img = [] then ((scratchDefaultCompressedBytes, ''default''), cache)
      else (let n = stagedBundleCompressedBytes b img
            in if 0 < sint n then ((n, ''bundle''), cache)
               else case map_of cache img of
                      Some m \<Rightarrow> ((m, ''registry''), cache)
                    | None \<Rightarrow>
                        (case lookup img of
                           Inr m \<Rightarrow>
                             if 0 < sint m then ((m, ''registry''), (img, m) # cache)
                             else ((scratchDefaultCompressedBytes, ''default''), cache)
                         | Inl e \<Rightarrow> ((scratchDefaultCompressedBytes, ''default''), cache))))"

definition installSpaceAt ::
  "bool \<Rightarrow> staged_bundle \<Rightarrow> (string \<Rightarrow> size_error + i64) \<Rightarrow> string \<Rightarrow> size_cache \<Rightarrow> install_space \<times> size_cache"
where
  "installSpaceAt preload b lookup img cache =
     (let ((compressed, source), cache1) = imageCompressedBytes b lookup img cache
      in (newInstallSpace img compressed source (preload \<and> \<not> bundleStagedFor b img), cache1))"

subsection \<open>The decision\<close>

datatype space_advice = FreeUp | ChooseAtMost i64

datatype space_error = NotEnoughSpace string string i64 i64 i64 space_advice

definition space_reserve :: "i64 \<Rightarrow> install_space \<Rightarrow> u64" where
  "space_reserve existingScratch space =
     (let reserve = is_reserve space * gib
      in if 0 < sint existingScratch
         then (let most = is_scratch space * gib
               in reserve - (if most < existingScratch then most else existingScratch))
         else reserve)"

definition largest_disk :: "u64 \<Rightarrow> u64 \<Rightarrow> u64" where
  "largest_disk free reserve = (free - min free reserve) div gib"

definition checkInstallSpaceWith ::
  "string \<Rightarrow> i64 \<Rightarrow> u64 \<Rightarrow> i64 \<Rightarrow> install_space \<Rightarrow> string \<Rightarrow> space_error option" where
  "checkInstallSpaceWith drive diskSizeGB free existingScratch space distro =
     (if sint diskSizeGB \<le> 0 then None
      else (let reserve = space_reserve existingScratch space; need = diskSizeGB * gib + reserve
            in if need \<le> free then None
               else (let largest = largest_disk free reserve
                     in Some (NotEnoughSpace (drive @ '':'') (if distro = [] then ''Linux'' else distro)
                          diskSizeGB (is_reserve space) (free div gib)
                          (if sint (20::64 word) \<le> sint largest then ChooseAtMost largest else FreeUp)))))"

text \<open>ASCII upper case, for drive letters.\<close>

definition upper_char :: "char \<Rightarrow> char" where
  "upper_char c = (let n = code_of c in if 97 \<le> n \<and> n \<le> 122 then char_of (n - 32) else c)"

definition storage_drive :: "string \<Rightarrow> string" where
  "storage_drive raw =
     (let d = map upper_char (trim_suffix (trim_space raw) '':'') in if d = [] then ''C'' else d)"

text \<open>\<open>free\<close> reads a drive, \<open>scratch\<close> is the size of a regular scratch file left on it.\<close>

definition checkInstallSpace ::
  "(string \<Rightarrow> u64 option) \<Rightarrow> (string \<Rightarrow> i64 option) \<Rightarrow> (string \<Rightarrow> staged_bundle) \<Rightarrow> bool \<Rightarrow>
     (string \<Rightarrow> size_error + i64) \<Rightarrow> string \<Rightarrow> string \<Rightarrow> i64 \<Rightarrow> string \<Rightarrow> size_cache \<Rightarrow>
     space_error option \<times> size_cache" where
  "checkInstallSpace free scratch bundle preload lookup rawDrive img diskSizeGB distro cache =
     (let drive = storage_drive rawDrive
      in case free drive of
           None \<Rightarrow> (None, cache)
         | Some f \<Rightarrow>
             (let existing = (case scratch drive of None \<Rightarrow> 0 | Some n \<Rightarrow> n);
                  (space, cache1) = installSpaceAt preload (bundle drive) lookup img cache
              in (checkInstallSpaceWith drive diskSizeGB f existing space distro, cache1)))"

subsection \<open>The reference\<close>

text \<open>The same in unbounded integers: the scratch in GiB is \<open>3.5\<close> times the image, rounded up.\<close>

definition scratch_reference :: "int \<Rightarrow> int" where
  "scratch_reference bytes = max 20 ((bytes * 7 div 2 + 2 ^ 30 - 1) div 2 ^ 30 + 4)"

definition need_reference :: "int \<Rightarrow> int \<Rightarrow> int \<Rightarrow> int \<Rightarrow> int" where
  "need_reference disk reserve scratch existing =
     (disk + reserve) * 2 ^ 30 - min (max existing 0) (scratch * 2 ^ 30)"

lemma sint_shift: "sint (w :: 64 word) = (uint w + 2 ^ 63) mod 2 ^ 64 - 2 ^ 63"
  by (simp add: sint_uint signed_take_bit_eq_take_bit_shift take_bit_eq_mod)

lemma uint_64: "0 \<le> uint (w :: 64 word)" "uint (w :: 64 word) < 2 ^ 64"
  using uint_bounded [of w] by simp_all

lemma sint_small: "uint (w :: 64 word) < 2 ^ 63 \<Longrightarrow> sint w = uint w"
  using uint_64 [of w] unfolding sint_shift by (simp add: mod_pos_pos_trivial)

lemma sint_big: "2 ^ 63 \<le> uint (w :: 64 word) \<Longrightarrow> sint w = uint w - 2 ^ 64"
proof -
  assume a: "2 ^ 63 \<le> uint w"
  have "(uint w + 2 ^ 63) mod 2 ^ 64 = (uint w - 2 ^ 63 + 2 ^ 64) mod 2 ^ 64" by (simp add: ac_simps)
  also have "\<dots> = uint w - 2 ^ 63"
    unfolding mod_add_self2 using a uint_64 [of w] by (intro mod_pos_pos_trivial) simp_all
  finally show ?thesis by (simp add: sint_shift)
qed

lemma uint_sint: "0 \<le> sint (w :: 64 word) \<Longrightarrow> uint w = sint w"
  using sint_small [of w] sint_big [of w] uint_64 [of w] by (cases "uint w < 2 ^ 63") auto

lemma sint_less_63: "sint (w :: 64 word) < 2 ^ 63"
  using sint_lt [of w] by simp

text \<open>Sums and products that stay below the width do not wrap.\<close>

lemma uint_plus: "uint a + uint b < 2 ^ 64 \<Longrightarrow> uint (a + b :: 64 word) = uint a + uint b"
  using uint_64 [of a] uint_64 [of b] by (simp add: uint_word_ariths mod_pos_pos_trivial)

lemma uint_times: "uint a * uint b < 2 ^ 64 \<Longrightarrow> uint (a * b :: 64 word) = uint a * uint b"
  using uint_64 [of a] uint_64 [of b] by (simp add: uint_word_ariths mod_pos_pos_trivial)

lemma uint_minus: "uint b \<le> uint a \<Longrightarrow> uint (a - b :: 64 word) = uint a - uint b"
proof -
  assume "uint b \<le> uint a"
  then have "0 \<le> uint a - uint b" "uint a - uint b < 2 ^ LENGTH(64)"
    using uint_bounded [of a] uint_nonnegative [of b] by linarith+
  then show ?thesis unfolding uint_word_ariths by (rule mod_pos_pos_trivial)
qed

lemma uint_quot: "uint (a div b :: 64 word) = uint a div uint b"
  by (simp add: uint_div)

lemma uint_gib: "uint gib = 2 ^ 30"
  by (simp add: gib_def)

subsection \<open>Properties\<close>

lemma scratch_value:
  assumes "0 < sint compressed" "sint compressed \<le> 2 ^ 50"
  shows "sint (scratchNeedGiB compressed) = scratch_reference (sint compressed)"
    "uint (scratchNeedGiB compressed) = scratch_reference (sint compressed)"
    "20 \<le> scratch_reference (sint compressed)" "scratch_reference (sint compressed) < 2 ^ 22"
proof -
  let ?c = "sint compressed"
  let ?need = "(compressed * 7 div 2 + gib - 1) div gib + 4"
  let ?ref = "(?c * 7 div 2 + 2 ^ 30 - 1) div 2 ^ 30 + 4"
  have c: "uint compressed = ?c" using assms(1) by (intro uint_sint) simp
  have t7: "uint (compressed * 7) = ?c * 7" using assms c by (subst uint_times) simp_all
  have half: "uint (compressed * 7 div 2) = ?c * 7 div 2" using t7 by (simp add: uint_quot)
  have sum: "uint (compressed * 7 div 2 + gib) = ?c * 7 div 2 + 2 ^ 30"
    using half assms by (subst uint_plus) (simp_all add: uint_gib)
  have "uint (compressed * 7 div 2 + gib - 1) = ?c * 7 div 2 + 2 ^ 30 - 1"
    using sum assms by (subst uint_minus) simp_all
  then have quot: "uint ((compressed * 7 div 2 + gib - 1) div gib) = (?c * 7 div 2 + 2 ^ 30 - 1) div 2 ^ 30"
    by (simp add: uint_quot uint_gib)
  have "?c * 7 div 2 \<le> (2 ^ 50 * 7) div 2" using assms by (intro zdiv_mono1) simp_all
  then have "(?c * 7 div 2 + 2 ^ 30 - 1) div 2 ^ 30 \<le> ((2 ^ 50 * 7) div 2 + 2 ^ 30 - 1) div 2 ^ 30"
    by (intro zdiv_mono1) simp_all
  moreover have "0 \<le> (?c * 7 div 2 + 2 ^ 30 - 1) div 2 ^ 30" using assms by (intro pos_imp_zdiv_nonneg_iff [THEN iffD2]) simp_all
  ultimately have small: "0 \<le> ?ref" "?ref < 2 ^ 22" by simp_all
  have need: "uint ?need = ?ref" using quot small by (subst uint_plus) simp_all
  then have sneed: "sint ?need = ?ref" using small by (subst sint_small) simp_all
  have "scratchNeedGiB compressed = (if ?ref < 20 then scratchMinGiB else ?need)"
    using assms sneed by (simp add: scratchNeedGiB_def Let_def scratchMinGiB_def largest_compressed_def)
  then show "uint (scratchNeedGiB compressed) = scratch_reference ?c"
    using need by (simp add: scratch_reference_def scratchMinGiB_def max_def)
  moreover show "20 \<le> scratch_reference ?c" "scratch_reference ?c < 2 ^ 22"
    using small by (simp_all add: scratch_reference_def)
  ultimately show "sint (scratchNeedGiB compressed) = scratch_reference ?c"
    by (subst sint_small) simp_all
qed

text \<open>The reserve of a plausible space, with the credit of a scratch file that is already there.\<close>

definition plausible_space :: "install_space \<Rightarrow> bool" where
  "plausible_space space \<longleftrightarrow> 0 \<le> sint (is_scratch space) \<and> sint (is_scratch space) \<le> sint (is_reserve space) \<and>
     sint (is_reserve space) < 2 ^ 24"

definition reserve_reference :: "install_space \<Rightarrow> int \<Rightarrow> int" where
  "reserve_reference space existing =
     sint (is_reserve space) * 2 ^ 30 - min (max existing 0) (sint (is_scratch space) * 2 ^ 30)"

lemma space_reserve_value:
  assumes "plausible_space space"
  shows "uint (space_reserve existing space) = reserve_reference space (sint existing)"
    "0 \<le> reserve_reference space (sint existing)" "reserve_reference space (sint existing) < 2 ^ 54"
proof -
  let ?r = "sint (is_reserve space)" and ?s = "sint (is_scratch space)"
  have b: "0 \<le> ?s" "?s \<le> ?r" "?r < 2 ^ 24" using assms by (simp_all add: plausible_space_def)
  have ur: "uint (is_reserve space) = ?r" "uint (is_scratch space) = ?s"
    using b by (auto intro!: uint_sint)
  have rg: "uint (is_reserve space * gib) = ?r * 2 ^ 30"
    using b ur by (subst uint_times) (simp_all add: uint_gib)
  have sg: "uint (is_scratch space * gib) = ?s * 2 ^ 30"
    using b ur by (subst uint_times) (simp_all add: uint_gib)
  show "0 \<le> reserve_reference space (sint existing)" "reserve_reference space (sint existing) < 2 ^ 54"
    using b by (simp_all add: reserve_reference_def min_def max_def)
  show "uint (space_reserve existing space) = reserve_reference space (sint existing)"
  proof (cases "0 < sint existing")
    case False
    then show ?thesis using rg b by (simp add: space_reserve_def Let_def reserve_reference_def)
  next
    case True
    then have e: "uint existing = sint existing" by (intro uint_sint) simp
    have less: "is_scratch space * gib < existing \<longleftrightarrow> ?s * 2 ^ 30 < sint existing"
      by (simp add: word_less_def sg e)
    have "uint (is_reserve space * gib - is_scratch space * gib) = ?r * 2 ^ 30 - ?s * 2 ^ 30"
      using b rg sg by (subst uint_minus) simp_all
    moreover have "uint (is_reserve space * gib - existing) = ?r * 2 ^ 30 - sint existing"
      if "sint existing \<le> ?s * 2 ^ 30"
      using b rg e that by (subst uint_minus) simp_all
    ultimately show ?thesis
      using True less by (simp add: space_reserve_def Let_def reserve_reference_def)
  qed
qed

lemma space_check_value:
  assumes "plausible_space space" "0 < sint disk" "sint disk < 2 ^ 24"
  shows "checkInstallSpaceWith drive disk free existing space distro = None \<longleftrightarrow>
     sint disk * 2 ^ 30 + reserve_reference space (sint existing) \<le> uint free"
proof -
  note r = space_reserve_value [OF assms(1), of existing]
  have d: "uint disk = sint disk" using assms(2) by (intro uint_sint) simp
  have dg: "uint (disk * gib) = sint disk * 2 ^ 30"
    using assms(2,3) d by (subst uint_times) (simp_all add: uint_gib)
  have "uint (disk * gib + space_reserve existing space) =
      sint disk * 2 ^ 30 + reserve_reference space (sint existing)"
    using dg r assms(3) by (subst uint_plus) simp_all
  then show ?thesis
    using assms(2) by (simp add: checkInstallSpaceWith_def Let_def word_le_def)
qed

text \<open>
  C40: the free-space gate is exact. For a space whose reserve is plausible and a disk below
  2^24 GB, \<open>checkInstallSpaceWith\<close> accepts exactly when the drive has room, in unbounded
  integers, for the disk and the reserve less the scratch file that is already there.
\<close>

theorem space_gate_exact:
  assumes "plausible_space space" "0 < sint disk" "sint disk < 2 ^ 24"
  shows "checkInstallSpaceWith drive disk free existing space distro = None \<longleftrightarrow>
     sint disk * 2 ^ 30 + reserve_reference space (sint existing) \<le> uint free"
  using assms by (rule space_check_value)

text \<open>
  The advice of a refusal can be followed and is the best possible. When the gate refuses
  and recommends a disk of at most \<open>n\<close> GB, then \<open>n\<close> is at least 20, the gate accepts \<open>n\<close> GB
  on the same drive and still refuses one GB more.
\<close>

theorem space_advice_sound:
  assumes "plausible_space space" "0 < sint disk" "sint disk < 2 ^ 23"
    "checkInstallSpaceWith drive disk free existing space distro =
       Some (NotEnoughSpace dr di disk re fr (ChooseAtMost n))"
  shows "20 \<le> sint n \<and> checkInstallSpaceWith drive n free existing space distro = None \<and>
     checkInstallSpaceWith drive (n + 1) free existing space distro \<noteq> None"
proof -
  let ?R = "reserve_reference space (sint existing)" and ?F = "uint free"
  note r = space_reserve_value [OF assms(1), of existing]
  have n: "n = largest_disk free (space_reserve existing space)" "20 \<le> sint n"
    using assms(4) by (auto simp: checkInstallSpaceWith_def Let_def split: if_splits)
  have "\<not> sint disk * 2 ^ 30 + ?R \<le> ?F"
    using space_check_value [OF assms(1,2), of drive free existing distro] assms(3,4) by simp
  then have refused: "?F < sint disk * 2 ^ 30 + ?R" by simp
  have un: "uint n = (?F - min ?F ?R) div 2 ^ 30"
  proof -
    have m: "uint (min free (space_reserve existing space)) = min ?F ?R"
      using r(1) by (simp add: min_def word_le_def)
    then have "uint (free - min free (space_reserve existing space)) = ?F - min ?F ?R"
      by (subst uint_minus) simp_all
    then show ?thesis by (simp add: n(1) largest_disk_def uint_quot uint_gib)
  qed
  have sn: "sint n = uint n" using n(2) uint_sint [of n] by simp
  then have pos: "20 \<le> (?F - min ?F ?R) div 2 ^ 30" using n(2) un by simp
  then have room: "?R \<le> ?F" by (cases "?R \<le> ?F") (auto simp: min_def)
  then have val: "sint n = (?F - ?R) div 2 ^ 30" using un sn by (simp add: min_def)
  define X where "X = ?F - ?R"
  have split: "X = sint n * 2 ^ 30 + X mod 2 ^ 30" unfolding val X_def by simp
  have md: "0 \<le> X mod 2 ^ 30" "X mod 2 ^ 30 < 2 ^ 30" by simp_all
  have lo: "sint n * 2 ^ 30 \<le> X" using split md(1) by linarith
  have hi: "X < (sint n + 1) * 2 ^ 30" using split md(2) unfolding distrib_right by linarith
  have "X < sint disk * 2 ^ 30" using refused unfolding X_def by simp
  with lo have "sint n * 2 ^ 30 < sint disk * 2 ^ 30" by linarith
  then have small: "sint n < 2 ^ 23" using assms(3) by simp
  have sn1: "sint (n + 1) = sint n + 1"
  proof -
    have "uint (n + 1) = uint n + 1" using sn small by (subst uint_plus) simp_all
    then show ?thesis using sn small by (subst sint_small) simp_all
  qed
  show ?thesis
    using n(2) lo [unfolded X_def] hi [unfolded X_def] small sn1 space_check_value [OF assms(1), of n drive free existing distro]
      space_check_value [OF assms(1), of "n + 1" drive free existing distro]
    by simp
qed

definition bundle_reference :: "int \<Rightarrow> int" where
  "bundle_reference bytes = (bytes + 2 ^ 30 - 1) div 2 ^ 30"

text \<open>
  The reserve never wraps for an image of up to 2^50 bytes: it is 3.5 times the image plus
  4 GiB, at least 20, plus the offline copy still to be downloaded, rounded up, plus 2 GiB; and
  such a space meets the condition under which the gate is exact.
\<close>

theorem install_space_exact:
  assumes "0 < sint compressed" "sint compressed \<le> 2 ^ 50"
  shows "plausible_space (newInstallSpace img compressed source pending) \<and>
    sint (is_reserve (newInstallSpace img compressed source pending)) =
      scratch_reference (sint compressed) +
      (if pending then bundle_reference (sint compressed) else 0) + 2"
proof -
  let ?c = "sint compressed" and ?s = "scratchNeedGiB compressed"
  let ?b = "if pending then signed_drop_bit 30 (compressed + gib - 1) else 0"
  note s = scratch_value [OF assms]
  have c: "uint compressed = ?c" using assms(1) by (intro uint_sint) simp
  have "uint (compressed + gib) = ?c + 2 ^ 30" using c assms by (subst uint_plus) (simp_all add: uint_gib)
  then have u: "uint (compressed + gib - 1) = ?c + 2 ^ 30 - 1" using assms by (subst uint_minus) simp_all
  then have "sint (compressed + gib - 1) = ?c + 2 ^ 30 - 1" using assms by (subst sint_small) simp_all
  then have b: "sint (signed_drop_bit 30 (compressed + gib - 1)) = bundle_reference ?c"
    by (simp only: sint_signed_drop_bit_eq drop_bit_eq_div bundle_reference_def)
  have "bundle_reference ?c \<le> (2 ^ 50 + 2 ^ 30 - 1) div 2 ^ 30"
    unfolding bundle_reference_def using assms by (intro zdiv_mono1) simp_all
  moreover have "0 \<le> bundle_reference ?c"
    unfolding bundle_reference_def using assms by (intro pos_imp_zdiv_nonneg_iff [THEN iffD2]) simp_all
  ultimately have br: "0 \<le> bundle_reference ?c" "bundle_reference ?c \<le> 2 ^ 20" by simp_all
  have sb: "sint ?b = (if pending then bundle_reference ?c else 0)" using b by simp
  then have ub: "uint ?b = (if pending then bundle_reference ?c else 0)"
    using br uint_sint [of ?b] by (auto split: if_splits)
  have "uint (?s + ?b) = uint ?s + uint ?b" using s ub br by (subst uint_plus) auto
  moreover from this have "uint (?s + ?b + 1) = uint ?s + uint ?b + 1"
    using s ub br by (subst uint_plus) auto
  moreover from this have "uint (?s + ?b + 1 + 1) = uint ?s + uint ?b + 2"
    using s ub br by (subst uint_plus) auto
  ultimately have ur: "uint (?s + ?b + 1 + 1) = uint ?s + uint ?b + 2" by blast
  then have "sint (?s + ?b + 1 + 1) = uint ?s + uint ?b + 2"
    using s ub br by (subst sint_small) (auto split: if_splits)
  then have r: "sint (?s + ?b + 1 + 1) = scratch_reference ?c + (if pending then bundle_reference ?c else 0) + 2"
    using s(2) ub by simp
  have "newInstallSpace img compressed source pending =
      \<lparr>is_image = img, is_compressed = compressed, is_source = source, is_scratch = ?s, is_bundle = ?b,
       is_reserve = ?s + ?b + 1 + 1\<rparr>"
    using assms(1)
    by (simp add: newInstallSpace_def Let_def scratchDriveSlackGiB_def deployerArtifactsGiB_def)
  then show ?thesis using r s br by (simp add: plausible_space_def)
qed

text \<open>
  The bundle size is not protected against a manifest's absurd sizes as the scratch is: for
  an image that claims 2^63 - 1 bytes the offline copy is counted as a negative number of GiB.
\<close>

lemma bundle_size_wraps:
  "sint (is_bundle (newInstallSpace img 0x7FFFFFFFFFFFFFFF source True)) < 0"
  by (simp add: newInstallSpace_def Let_def gib_def sint_signed_drop_bit_eq drop_bit_eq_div)

text \<open>A 6 GiB image beside a 40 GB disk, on a drive with 60 GiB free.\<close>

definition sample_space :: install_space where
  "sample_space =
     \<lparr>is_image = ''img'', is_compressed = 0x180000000, is_source = ''registry'', is_scratch = 25,
      is_bundle = 6, is_reserve = 33\<rparr>"

lemma sample_plausible: "plausible_space sample_space"
  by (simp add: plausible_space_def sample_space_def)

theorem space_gate_exact_witness:
  "checkInstallSpaceWith ''C'' 40 0xF00000000 0 sample_space ''Bazzite'' = None \<longleftrightarrow>
     sint (40::64 word) * 2 ^ 30 + reserve_reference sample_space (sint (0::64 word)) \<le> uint (0xF00000000::64 word)"
  by (rule space_gate_exact [OF sample_plausible]) simp_all

lemma sample_refused:
  "checkInstallSpaceWith ''C'' 40 0xF00000000 0 sample_space ''Bazzite'' =
     Some (NotEnoughSpace ''C:'' ''Bazzite'' 40 33 60 (ChooseAtMost 27))"
  by (simp add: checkInstallSpaceWith_def Let_def space_reserve_def sample_space_def gib_def
      largest_disk_def min_def)

theorem space_advice_sound_witness:
  "20 \<le> sint (27::64 word) \<and> checkInstallSpaceWith ''C'' 27 0xF00000000 0 sample_space ''Bazzite'' = None \<and>
     checkInstallSpaceWith ''C'' (27 + 1) 0xF00000000 0 sample_space ''Bazzite'' \<noteq> None"
  by (rule space_advice_sound [OF sample_plausible _ _ sample_refused]) simp_all

theorem install_space_exact_witness:
  "plausible_space (newInstallSpace ''img'' 0x180000000 ''registry'' True) \<and>
    sint (is_reserve (newInstallSpace ''img'' 0x180000000 ''registry'' True)) =
      scratch_reference (sint (0x180000000::64 word)) +
      (if True then bundle_reference (sint (0x180000000::64 word)) else 0) + 2"
  by (rule install_space_exact) simp_all

end
