(* ===== verification/Json_Strict.thy ===== *)
theory Json_Strict
  imports Go_Time
begin

text \<open>
  Strict decoding of JSON records (\<open>app/firstboot_evidence.go\<close>, \<open>app/status_records.go\<close>).
  \<open>encoding/json\<close> lets the last of repeated keys win, matches keys without regard to case and
  takes null for anything; the checkers here walk the token stream of a \<open>json.Decoder\<close> and
  refuse all of that. The stream is a list of the tokens that \<open>Decoder.Token\<close> delivers, with
  \<open>BadToken\<close> where the text stops being JSON; the end of the list is \<open>io.EOF\<close>. The nesting of
  the values is followed with fuel, one unit for each call; the number of tokens is enough.
\<close>

datatype json_token =
  ObjOpen | ObjClose | ArrOpen | ArrClose
  | StrToken string | NumToken string | BoolToken bool | NullToken | BadToken

datatype json = JNull | JBool bool | JNum string | JStr string
  | JArr "json list" | JObj "(string \<times> json) list"

text \<open>The tokens of a value.\<close>

fun json_tokens :: "json \<Rightarrow> json_token list"
  and items_tokens :: "json list \<Rightarrow> json_token list"
  and members_tokens :: "(string \<times> json) list \<Rightarrow> json_token list" where
  "json_tokens JNull = [NullToken]"
| "json_tokens (JBool b) = [BoolToken b]"
| "json_tokens (JNum s) = [NumToken s]"
| "json_tokens (JStr s) = [StrToken s]"
| "json_tokens (JArr vs) = ArrOpen # items_tokens vs @ [ArrClose]"
| "json_tokens (JObj ms) = ObjOpen # members_tokens ms @ [ObjClose]"
| "items_tokens [] = []"
| "items_tokens (v # vs) = json_tokens v @ items_tokens vs"
| "members_tokens [] = []"
| "members_tokens ((k, v) # ms) = StrToken k # json_tokens v @ members_tokens ms"

text \<open>\<open>Decoder.More\<close>, \<open>Decoder.Token\<close> compared with a delimiter, and \<open>Decoder.Token\<close> as a key.\<close>

definition has_more :: "json_token list \<Rightarrow> bool" where
  "has_more ts \<longleftrightarrow> (case ts of [] \<Rightarrow> False | t # r \<Rightarrow> t \<noteq> ObjClose \<and> t \<noteq> ArrClose)"

definition expect :: "json_token \<Rightarrow> json_token list \<Rightarrow> json_token list option" where
  "expect t ts = (case ts of [] \<Rightarrow> None | u # r \<Rightarrow> if u = t then Some r else None)"

definition take_key :: "json_token list \<Rightarrow> (string \<times> json_token list) option" where
  "take_key ts = (case ts of StrToken k # r \<Rightarrow> Some (k, r) | _ \<Rightarrow> None)"

text \<open>\<open>Decoder.Decode\<close> into a \<open>json.RawMessage\<close>: one complete value of any kind.\<close>

definition scalar :: "json_token \<Rightarrow> json option" where
  "scalar t =
     (case t of
        NullToken \<Rightarrow> Some JNull | BoolToken b \<Rightarrow> Some (JBool b)
      | NumToken s \<Rightarrow> Some (JNum s) | StrToken s \<Rightarrow> Some (JStr s) | _ \<Rightarrow> None)"

fun read_value :: "nat \<Rightarrow> json_token list \<Rightarrow> (json \<times> json_token list) option"
  and read_items :: "nat \<Rightarrow> json_token list \<Rightarrow> (json list \<times> json_token list) option"
  and read_members :: "nat \<Rightarrow> json_token list \<Rightarrow> ((string \<times> json) list \<times> json_token list) option" where
  "read_value 0 ts = None"
| "read_value (Suc n) ts =
     (case ts of
        [] \<Rightarrow> None
      | t # r \<Rightarrow>
          if t = ArrOpen then map_option (apfst JArr) (read_items n r)
          else if t = ObjOpen then map_option (apfst JObj) (read_members n r)
          else map_option (\<lambda>v. (v, r)) (scalar t))"
| "read_items 0 ts = None"
| "read_items (Suc n) ts =
     (if \<not> has_more ts then map_option (Pair []) (expect ArrClose ts)
      else (case read_value n ts of
              None \<Rightarrow> None
            | Some (v, r) \<Rightarrow> map_option (apfst (Cons v)) (read_items n r)))"
| "read_members 0 ts = None"
| "read_members (Suc n) ts =
     (if \<not> has_more ts then map_option (Pair []) (expect ObjClose ts)
      else (case take_key ts of
              None \<Rightarrow> None
            | Some (k, r) \<Rightarrow>
                (case read_value n r of
                   None \<Rightarrow> None
                 | Some (v, r1) \<Rightarrow> map_option (apfst (Cons (k, v))) (read_members n r1))))"

text \<open>\<open>json.Unmarshal\<close> of a number literal into an \<open>int64\<close>.\<close>

definition json_int :: "string \<Rightarrow> int option" where
  "json_int s =
     (let negative = has_prefix s ''-''; ds = trim_prefix s ''-'';
          n = (if negative then - digits_int ds else digits_int ds)
      in if ds = [] \<or> \<not> list_all is_digit ds \<or> n < - (2 ^ 63) \<or> 2 ^ 63 \<le> n then None else Some n)"

subsection \<open>The schema checker\<close>

datatype strictKind = strictString | strictBool | strictInt | strictStrings | strictObject | strictObjects

datatype strictField =
  StrictField (field_kind: strictKind) (field_required: bool) (field_object: "(string \<times> strictField) list")

type_synonym schema = "(string \<times> strictField) list"

datatype strict_error =
  NotAnObject string | UnsupportedField string | NotAList string | BadValue string
  | MissingField string | Malformed | TrailingData | OutOfFuel

fun checkStrictValue :: "json \<Rightarrow> strictKind \<Rightarrow> bool" where
  "checkStrictValue (JStr s) k \<longleftrightarrow> k = strictString"
| "checkStrictValue (JBool b) k \<longleftrightarrow> k = strictBool"
| "checkStrictValue (JNum s) k \<longleftrightarrow> k = strictInt \<and> json_int s \<noteq> None"
| "checkStrictValue (JArr vs) k \<longleftrightarrow> k = strictStrings \<and> list_all (\<lambda>v. case v of JStr s \<Rightarrow> True | _ \<Rightarrow> False) vs"
| "checkStrictValue (JObj ms) k \<longleftrightarrow> False"
| "checkStrictValue JNull k \<longleftrightarrow> False"

definition missing_fields :: "schema \<Rightarrow> string list \<Rightarrow> string list" where
  "missing_fields schema seen =
     map fst (filter (\<lambda>(k, f). field_required f \<and> k \<notin> set seen) schema)"

definition known_field :: "schema \<Rightarrow> string list \<Rightarrow> string \<Rightarrow> strictField option" where
  "known_field schema seen key =
     (case map_of schema key of None \<Rightarrow> None | Some f \<Rightarrow> if key \<in> set seen then None else Some f)"

function (sequential) checkStrictObject :: "nat \<Rightarrow> json_token list \<Rightarrow> schema \<Rightarrow> string \<Rightarrow> strict_error + json_token list"
  and strict_members :: "nat \<Rightarrow> string list \<Rightarrow> json_token list \<Rightarrow> schema \<Rightarrow> string \<Rightarrow> strict_error + json_token list"
  and strict_items :: "nat \<Rightarrow> json_token list \<Rightarrow> schema \<Rightarrow> string \<Rightarrow> strict_error + json_token list" where
  "checkStrictObject 0 ts schema path = Inl OutOfFuel"
| "checkStrictObject (Suc n) ts schema path =
     (case expect ObjOpen ts of
        None \<Rightarrow> Inl (NotAnObject (trim_suffix (''record.'' @ path) ''.''))
      | Some r \<Rightarrow> strict_members n [] r schema path)"
| "strict_members 0 seen ts schema path = Inl OutOfFuel"
| "strict_members (Suc n) seen ts schema path =
     (if \<not> has_more ts
      then (case expect ObjClose ts of
              None \<Rightarrow> Inl Malformed
            | Some r \<Rightarrow>
                (case missing_fields schema seen of
                   [] \<Rightarrow> Inr r
                 | k # _ \<Rightarrow> Inl (MissingField (path @ k))))
      else (case take_key ts of
              None \<Rightarrow> Inl (UnsupportedField path)
            | Some (key, r) \<Rightarrow>
                (case known_field schema seen key of
                   None \<Rightarrow> Inl (UnsupportedField (path @ key))
                 | Some field \<Rightarrow>
                     if field_kind field = strictObject
                     then (case checkStrictObject n r (field_object field) (path @ key @ ''.'') of
                             Inl e \<Rightarrow> Inl e
                           | Inr r1 \<Rightarrow> strict_members n (key # seen) r1 schema path)
                     else if field_kind field = strictObjects
                     then (case expect ArrOpen r of
                             None \<Rightarrow> Inl (NotAList (path @ key))
                           | Some r1 \<Rightarrow>
                               (case strict_items n r1 (field_object field) (path @ key @ ''[].'') of
                                  Inl e \<Rightarrow> Inl e
                                | Inr r2 \<Rightarrow> strict_members n (key # seen) r2 schema path))
                     else (case read_value n r of
                             None \<Rightarrow> Inl Malformed
                           | Some (v, r1) \<Rightarrow>
                               if checkStrictValue v (field_kind field)
                               then strict_members n (key # seen) r1 schema path
                               else Inl (BadValue (path @ key))))))"
| "strict_items 0 ts schema path = Inl OutOfFuel"
| "strict_items (Suc n) ts schema path =
     (if \<not> has_more ts
      then (case expect ArrClose ts of None \<Rightarrow> Inl Malformed | Some r \<Rightarrow> Inr r)
      else (case checkStrictObject n ts schema path of
              Inl e \<Rightarrow> Inl e
            | Inr r \<Rightarrow> strict_items n r schema path))"
  by pat_completeness auto

termination
  by (relation "measure (case_sum fst (case_sum fst fst))") simp_all

definition checkStrictJSON :: "json_token list \<Rightarrow> schema \<Rightarrow> strict_error option" where
  "checkStrictJSON ts schema =
     (case checkStrictObject (Suc (length ts)) ts schema [] of
        Inl e \<Rightarrow> Some e
      | Inr r \<Rightarrow> if r = [] then None else Some TrailingData)"

subsection \<open>The flat checker\<close>

text \<open>
  \<open>decodeStrictStatusRecord\<close> of \<open>app/status_records.go\<close>: kinds by name, no nesting. Unlike the
  schema checker it lets \<open>json.Unmarshal\<close> read a null item of a list of strings.
\<close>

definition status_value_ok :: "string \<Rightarrow> json \<Rightarrow> bool" where
  "status_value_ok kind v =
     (if kind = ''string'' then (case v of JStr s \<Rightarrow> True | _ \<Rightarrow> False)
      else if kind = ''bool'' then (case v of JBool b \<Rightarrow> True | _ \<Rightarrow> False)
      else if kind = ''int'' then (case v of JNum s \<Rightarrow> json_int s \<noteq> None | _ \<Rightarrow> False)
      else if kind = ''strings''
      then (case v of
              JArr vs \<Rightarrow> list_all (\<lambda>w. case w of JStr s \<Rightarrow> True | JNull \<Rightarrow> True | _ \<Rightarrow> False) vs
            | _ \<Rightarrow> False)
      else False)"

fun status_members ::
  "nat \<Rightarrow> string list \<Rightarrow> json_token list \<Rightarrow> string smap \<Rightarrow> strict_error + ((string \<times> json) list \<times> json_token list)" where
  "status_members 0 seen ts flds = Inl OutOfFuel"
| "status_members (Suc n) seen ts flds =
     (if \<not> has_more ts
      then (case expect ObjClose ts of None \<Rightarrow> Inl Malformed | Some r \<Rightarrow> Inr ([], r))
      else (case take_key ts of
              None \<Rightarrow> Inl (UnsupportedField [])
            | Some (key, r) \<Rightarrow>
                (case map_of flds key of
                   None \<Rightarrow> Inl (UnsupportedField key)
                 | Some kind \<Rightarrow>
                     if key \<in> set seen then Inl (UnsupportedField key)
                     else (case read_value n r of
                             None \<Rightarrow> Inl Malformed
                           | Some (v, r1) \<Rightarrow>
                               if status_value_ok kind v
                               then (case status_members n (key # seen) r1 flds of
                                       Inl e \<Rightarrow> Inl e
                                     | Inr (ms, r2) \<Rightarrow> Inr ((key, v) # ms, r2))
                               else Inl (BadValue key)))))"

text \<open>The members of the record, from which the caller's target is filled.\<close>

definition decodeStrictStatusRecord ::
  "json_token list \<Rightarrow> string smap \<Rightarrow> string list \<Rightarrow> strict_error + (string \<times> json) list" where
  "decodeStrictStatusRecord ts flds required =
     (case expect ObjOpen ts of
        None \<Rightarrow> Inl (NotAnObject [])
      | Some r \<Rightarrow>
          (case status_members (length ts) [] r flds of
             Inl e \<Rightarrow> Inl e
           | Inr (ms, r1) \<Rightarrow>
               if r1 \<noteq> [] then Inl TrailingData
               else (case filter (\<lambda>k. k \<notin> fst ` set ms) required of
                       k # _ \<Rightarrow> Inl (MissingField k)
                     | [] \<Rightarrow> Inr ms)))"

subsection \<open>What \<open>json.Unmarshal\<close> stores\<close>

text \<open>A member that is absent leaves the zero value.\<close>

definition str_member :: "(string \<times> json) list \<Rightarrow> string \<Rightarrow> string" where
  "str_member ms k = (case map_of ms k of Some (JStr s) \<Rightarrow> s | _ \<Rightarrow> [])"

definition bool_member :: "(string \<times> json) list \<Rightarrow> string \<Rightarrow> bool" where
  "bool_member ms k = (case map_of ms k of Some (JBool b) \<Rightarrow> b | _ \<Rightarrow> False)"

definition int_member :: "(string \<times> json) list \<Rightarrow> string \<Rightarrow> int" where
  "int_member ms k =
     (case map_of ms k of
        Some (JNum s) \<Rightarrow> (case json_int s of Some n \<Rightarrow> n | None \<Rightarrow> 0)
      | _ \<Rightarrow> 0)"

definition json_text :: "json \<Rightarrow> string" where
  "json_text v = (case v of JStr s \<Rightarrow> s | _ \<Rightarrow> [])"

definition strings_member :: "(string \<times> json) list \<Rightarrow> string \<Rightarrow> string list" where
  "strings_member ms k = (case map_of ms k of Some (JArr vs) \<Rightarrow> map json_text vs | _ \<Rightarrow> [])"

definition object_member :: "(string \<times> json) list \<Rightarrow> string \<Rightarrow> (string \<times> json) list" where
  "object_member ms k = (case map_of ms k of Some (JObj m) \<Rightarrow> m | _ \<Rightarrow> [])"

definition json_members :: "json \<Rightarrow> (string \<times> json) list" where
  "json_members v = (case v of JObj m \<Rightarrow> m | _ \<Rightarrow> [])"

definition objects_member :: "(string \<times> json) list \<Rightarrow> string \<Rightarrow> (string \<times> json) list list" where
  "objects_member ms k = (case map_of ms k of Some (JArr vs) \<Rightarrow> map json_members vs | _ \<Rightarrow> [])"

end
