(* ===== verification/Status_Records.thy ===== *)
theory Status_Records
  imports Json_Strict Install_Recovery Startup_Recovery
begin

text \<open>
  The persisted records a status reader trusts only after strict checks
  (\<open>app/status_records.go\<close>, \<open>app/status_location.go\<close>, \<open>app/status_install_recovery.go\<close>,
  \<open>app/install_evidence.go\<close>, \<open>app/bundle.go\<close>). The file system is what its calls answer: a
  \<open>file_probe\<close> holds the answers to \<open>Lstat\<close>, \<open>Open\<close>, \<open>Stat\<close> and reading for one path, in that
  order, so a file swapped between two calls is a probe whose answers differ. The contents of
  a record are its length and its JSON tokens after an optional byte order mark.
\<close>

datatype os_fault = NotExist | OsFault string

record stat_info =
  st_regular :: bool
  st_length :: int
  st_ident :: int

record file_probe =
  fp_lstat :: "os_fault + stat_info"
  fp_open :: "os_fault option"
  fp_fstat :: "os_fault + stat_info"
  fp_data :: "os_fault + int \<times> json_token list"

datatype record_error = RecordOs os_fault | NotBoundedRegular | IdentityChanged | RecordTooLarge

definition readBoundedRecord :: "file_probe \<Rightarrow> int \<Rightarrow> record_error + json_token list" where
  "readBoundedRecord p limit =
     (case fp_lstat p of
        Inl e \<Rightarrow> Inl (RecordOs e)
      | Inr before \<Rightarrow>
          if \<not> st_regular before \<or> limit < st_length before then Inl NotBoundedRegular
          else (case fp_open p of
                  Some e \<Rightarrow> Inl (RecordOs e)
                | None \<Rightarrow>
                    (case fp_fstat p of
                       Inl e \<Rightarrow> Inl (RecordOs e)
                     | Inr opened \<Rightarrow>
                         if \<not> st_regular opened \<or> st_ident before \<noteq> st_ident opened then Inl IdentityChanged
                         else (case fp_data p of
                                 Inl e \<Rightarrow> Inl (RecordOs e)
                               | Inr (n, ts) \<Rightarrow> if limit < n then Inl RecordTooLarge else Inr ts))))"

definition readBoundedStatusRecord :: "file_probe \<Rightarrow> record_error + json_token list" where
  "readBoundedStatusRecord p = readBoundedRecord p (64 * 1024)"

datatype status_error =
    Unread record_error
  | NotStrict strict_error
  | UnknownLifecycle string | InvalidUpdateDate | MissingWriter
  | UnsupportedVerdict | MissingTitle | InvalidVerdictTime
  | UnsupportedJournal | UnsupportedOutcome | InvalidJournalTime | UnsupportedStep
  | NotRegularMarker | BlobNotRegular | MarkerOs os_fault

subsection \<open>The lifecycle state\<close>

definition lifecycle_fields :: "string smap" where
  "lifecycle_fields =
     [(''phaseId'', ''string''), (''state'', ''string''), (''phase'', ''string''), (''error'', ''string''),
      (''updatedAt'', ''string''), (''updatedBy'', ''string'')]"

definition lifecycle_required :: "string list" where
  "lifecycle_required = [''state'', ''updatedAt'', ''updatedBy'']"

definition lifecycle_of :: "(string \<times> json) list \<Rightarrow> lifecycle_state" where
  "lifecycle_of ms =
     \<lparr>ls_phase_id = str_member ms ''phaseId'', ls_state = str_member ms ''state'',
      ls_phase = str_member ms ''phase'', ls_error = str_member ms ''error'',
      ls_updated_at = str_member ms ''updatedAt'', ls_updated_by = str_member ms ''updatedBy''\<rparr>"

definition known_states :: "string list" where
  "known_states = [StateStaged, StateArmed, StateDeploying, StateDeployed, StateHealthy, StateFailed]"

definition loadStatusState :: "file_probe \<Rightarrow> status_error + lifecycle_state" where
  "loadStatusState p =
     (case readBoundedStatusRecord p of
        Inl e \<Rightarrow> Inl (Unread e)
      | Inr ts \<Rightarrow>
          (case decodeStrictStatusRecord ts lifecycle_fields lifecycle_required of
             Inl e \<Rightarrow> Inl (NotStrict e)
           | Inr ms \<Rightarrow>
               (let st = lifecycle_of ms
                in if \<not> List.member known_states (ls_state st) then Inl (UnknownLifecycle (ls_state st))
                   else if parse_rfc3339 (ls_updated_at st) = None then Inl InvalidUpdateDate
                   else if trim_space (ls_updated_by st) = [] then Inl MissingWriter
                   else Inr st)))"

subsection \<open>Which directory holds an installation\<close>

text \<open>\<open>os.Stat\<close> of a path below the root: no error, or the reason.\<close>

definition attempt_outputs :: "string list" where
  "attempt_outputs =
     [''state.json'', ''known-folders.json'', ''disks/root.disk'', ''disks/root.vhdx'',
      ''install/prior-power.txt'', ''install/vault.json'', ''install/grub.install.cfg'',
      ''install/bcd-before.bak'', ''install/bcd-guid.txt'', ''install/armed.json'', ''install/boot-txn.json'',
      ''install/deployer-started.json'', ''install/recovery-verdict.json'',
      ''install/installed-linux-boot.json'', ''logs/deployer.log'', ''logs/deployer-last-journal.log'']"

definition hasInstallAttempt :: "(string \<Rightarrow> os_fault option) \<Rightarrow> bool" where
  "hasInstallAttempt stat \<longleftrightarrow> list_ex (\<lambda>rel. stat rel \<noteq> Some NotExist) attempt_outputs"

text \<open>What a candidate root answers; \<open>ro_audit\<close> is the verdict of the audit of its tree.\<close>

record status_root =
  ro_name :: string
  ro_lstat :: "os_fault option"
  ro_audit :: "string option"
  ro_stat :: "string \<Rightarrow> os_fault option"
  ro_state :: file_probe

datatype discovery_error =
  InspectFailed string string | AuditFailed string | Ambiguous string string | NoValidState string status_error

fun discover_from ::
  "status_root list \<Rightarrow> (lifecycle_state \<times> string) option \<Rightarrow>
     discovery_error + (lifecycle_state \<times> string) option" where
  "discover_from [] selected = Inr selected"
| "discover_from (r # rs) selected =
     (case ro_lstat r of
        Some NotExist \<Rightarrow> discover_from rs selected
      | Some (OsFault e) \<Rightarrow> Inl (InspectFailed (ro_name r) e)
      | None \<Rightarrow>
          (case ro_audit r of
             Some e \<Rightarrow> Inl (AuditFailed e)
           | None \<Rightarrow>
               if \<not> hasInstallAttempt (ro_stat r) then discover_from rs selected
               else (case selected of
                       Some (_, other) \<Rightarrow> Inl (Ambiguous other (ro_name r))
                     | None \<Rightarrow>
                         (case loadStatusState (ro_state r) of
                            Inl e \<Rightarrow> Inl (NoValidState (ro_name r) e)
                          | Inr st \<Rightarrow> discover_from rs (Some (st, ro_name r))))))"

definition discoverStatusState ::
  "status_root list \<Rightarrow> discovery_error + (lifecycle_state \<times> string) option" where
  "discoverStatusState rs = discover_from rs None"

definition initializeStateTrustForInvocationWith ::
  "string list \<Rightarrow> string option \<Rightarrow> string option" where
  "initializeStateTrustForInvocationWith args initialize =
     (if 1 < length args \<and> args ! 1 = ''status'' then None else initialize)"

subsection \<open>The recovery verdict\<close>

definition verdict_fields :: "string smap" where
  "verdict_fields =
     [(''phaseId'', ''string''), (''verdict'', ''string''), (''phase'', ''string''), (''title'', ''string''),
      (''message'', ''string''), (''details'', ''string''), (''logTail'', ''strings''), (''untouched'', ''bool''),
      (''canTryAgain'', ''bool''), (''canRemove'', ''bool''), (''canRepairBoot'', ''bool''), (''timestamp'', ''string'')]"

definition verdict_required :: "string list" where
  "verdict_required =
     [''verdict'', ''title'', ''message'', ''untouched'', ''canTryAgain'', ''canRemove'', ''canRepairBoot'', ''timestamp'']"

definition verdict_of :: "(string \<times> json) list \<Rightarrow> recovery_verdict" where
  "verdict_of ms =
     \<lparr>rv_phase_id = str_member ms ''phaseId'', rv_verdict = str_member ms ''verdict'',
      rv_phase = str_member ms ''phase'', rv_title = str_member ms ''title'',
      rv_message = str_member ms ''message'', rv_details = str_member ms ''details'',
      rv_log = strings_member ms ''logTail'', rv_untouched = bool_member ms ''untouched'',
      rv_try_again = bool_member ms ''canTryAgain'', rv_remove = bool_member ms ''canRemove'',
      rv_repair = bool_member ms ''canRepairBoot'', rv_timestamp = str_member ms ''timestamp''\<rparr>"

definition known_verdicts :: "string list" where
  "known_verdicts = [VerdictNeverBooted, VerdictInterrupted, VerdictFailed, VerdictDeployed, VerdictHealthy]"

text \<open>\<open>None\<close> is the zero verdict, when there is no file.\<close>

definition readNativeStartupRecovery :: "file_probe \<Rightarrow> status_error + recovery_verdict option" where
  "readNativeStartupRecovery p =
     (case readBoundedStatusRecord p of
        Inl e \<Rightarrow> if e = RecordOs NotExist then Inr None else Inl (Unread e)
      | Inr ts \<Rightarrow>
          (case decodeStrictStatusRecord ts verdict_fields verdict_required of
             Inl e \<Rightarrow> Inl (NotStrict e)
           | Inr ms \<Rightarrow>
               (let v = verdict_of ms
                in if \<not> List.member known_verdicts (rv_verdict v) then Inl UnsupportedVerdict
                   else if trim_space (rv_title v) = [] then Inl MissingTitle
                   else if parse_rfc3339 (rv_timestamp v) = None then Inl InvalidVerdictTime
                   else Inr (Some v))))"

subsection \<open>The journal\<close>

definition journal_fields :: "string smap" where
  "journal_fields =
     [(''schema'', ''int''), (''attemptId'', ''string''), (''imageRef'', ''string''), (''storageDrive'', ''string''),
      (''pid'', ''int''), (''startedAt'', ''string''), (''updatedAt'', ''string''), (''endedAt'', ''string''),
      (''outcome'', ''string''), (''currentStep'', ''string''), (''completedSteps'', ''strings''), (''error'', ''string'')]"

definition journal_required :: "string list" where
  "journal_required =
     [''schema'', ''attemptId'', ''pid'', ''startedAt'', ''updatedAt'', ''outcome'', ''completedSteps'']"

definition journal_of :: "(string \<times> json) list \<Rightarrow> install_journal" where
  "journal_of ms =
     \<lparr>ij_schema = int_member ms ''schema'', ij_attempt = str_member ms ''attemptId'',
      ij_image = str_member ms ''imageRef'', ij_drive = str_member ms ''storageDrive'',
      ij_pid = int_member ms ''pid'', ij_started = str_member ms ''startedAt'',
      ij_updated = str_member ms ''updatedAt'', ij_ended = str_member ms ''endedAt'',
      ij_outcome = str_member ms ''outcome'', ij_current = str_member ms ''currentStep'',
      ij_completed = strings_member ms ''completedSteps'', ij_error = str_member ms ''error''\<rparr>"

definition known_outcomes :: "string list" where
  "known_outcomes = [JournalRunning, JournalCancelled, JournalFailed, JournalArmed]"

definition validate_journal :: "install_journal \<Rightarrow> status_error option" where
  "validate_journal j =
     (if ij_schema j \<noteq> 1 \<or> ij_pid j < 0 \<or> trim_space (ij_attempt j) = [] \<or> 512 < length (ij_image j) \<or>
         contains_any (ij_image j) [CHR 0x0D, CHR 0x0A, CHR 0x09] then Some UnsupportedJournal
      else if \<not> List.member known_outcomes (ij_outcome j) then Some UnsupportedOutcome
      else if \<not> list_all (\<lambda>t. parse_rfc3339 t \<noteq> None) [ij_started j, ij_updated j] then Some InvalidJournalTime
      else if 64 < length (ij_completed j) \<or> (ij_current j \<noteq> [] \<and> observedStepID (ij_current j) = [])
        then Some UnsupportedStep
      else if \<not> list_all (\<lambda>s. observedStepID s \<noteq> []) (ij_completed j) then Some UnsupportedStep
      else None)"

definition readNativeInstallJournal :: "file_probe \<Rightarrow> status_error + install_journal option" where
  "readNativeInstallJournal p =
     (case readBoundedStatusRecord p of
        Inl e \<Rightarrow> if e = RecordOs NotExist then Inr None else Inl (Unread e)
      | Inr ts \<Rightarrow>
          (case decodeStrictStatusRecord ts journal_fields journal_required of
             Inl e \<Rightarrow> Inl (NotStrict e)
           | Inr ms \<Rightarrow>
               (case validate_journal (journal_of ms) of
                  Some e \<Rightarrow> Inl e
                | None \<Rightarrow> Inr (Some (journal_of ms)))))"

definition journalOwnerSlack :: int where "journalOwnerSlack = 120"

text \<open>\<open>created\<close> is \<open>processCreationTime\<close>.\<close>

definition journalOwnerRunning :: "(int \<Rightarrow> instant option) \<Rightarrow> install_journal \<Rightarrow> bool" where
  "journalOwnerRunning created j =
     (case parse_rfc3339 (ij_started j) of
        None \<Rightarrow> False
      | Some started \<Rightarrow>
          (case created (ij_pid j) of
             None \<Rightarrow> False
           | Some c \<Rightarrow> \<not> instant_before (add_seconds started journalOwnerSlack) c))"

subsection \<open>Markers and pieces of the download\<close>

definition nativeRegularFile :: "(os_fault + stat_info) \<Rightarrow> status_error + stat_info option" where
  "nativeRegularFile lstat =
     (case lstat of
        Inl NotExist \<Rightarrow> Inr None
      | Inl e \<Rightarrow> Inl (MarkerOs e)
      | Inr info \<Rightarrow> if st_regular info then Inr (Some info) else Inl NotRegularMarker)"

definition no_bundle :: bundle_evidence where
  "no_bundle = \<lparr>be_complete = False, be_image = [], be_blobs = 0, be_bytes = 0, be_partial = 0, be_error = []\<rparr>"

text \<open>An entry of the directory is its name and what \<open>Lstat\<close> answers for it.\<close>

fun count_native :: "(string \<times> (os_fault + stat_info)) list \<Rightarrow> bundle_evidence \<Rightarrow> status_error + bundle_evidence" where
  "count_native [] ev = Inr ev"
| "count_native ((name, lstat) # es) ev =
     (if has_suffix name ''.part'' then count_native es (ev\<lparr>be_partial := be_partial ev + 1\<rparr>)
      else if \<not> digest_name name then count_native es ev
      else (case lstat of
              Inl e \<Rightarrow> Inl (MarkerOs e)
            | Inr info \<Rightarrow>
                if \<not> st_regular info then Inl BlobNotRegular
                else count_native es (ev\<lparr>be_blobs := be_blobs ev + 1, be_bytes := be_bytes ev + st_length info\<rparr>)))"

definition countNativeVerifiedBlobs ::
  "(os_fault + (string \<times> (os_fault + stat_info)) list) \<Rightarrow> status_error + bundle_evidence" where
  "countNativeVerifiedBlobs dir =
     (case dir of
        Inl NotExist \<Rightarrow> Inr no_bundle
      | Inl e \<Rightarrow> Inl (MarkerOs e)
      | Inr es \<Rightarrow> count_native es no_bundle)"

subsection \<open>The staged bundle\<close>

record bundle_info =
  bi_image :: string
  bi_digest :: string
  bi_store_bytes :: int
  bi_created :: string
  bi_source :: string

text \<open>bundle.json as it unmarshals (\<open>None\<close> when it cannot), and whether the two payloads are there.\<close>

definition readBundleInfoAt :: "bundle_info option \<Rightarrow> bool \<Rightarrow> bool \<Rightarrow> bundle_info option" where
  "readBundleInfoAt parsed store layout =
     (case parsed of
        None \<Rightarrow> None
      | Some b \<Rightarrow> if bi_image b = [] then None else if store then Some b else if layout then Some b else None)"

end
