(* ===== verification/First_Boot.thy ===== *)
theory First_Boot
  imports Status_Records "HOL-Library.Word"
begin

text \<open>
  First-boot evidence (\<open>app/firstboot_evidence.go\<close>, \<open>app/boot_evidence.go\<close>): the identity of an
  installation, the strict record the installed system writes, and the cross-check that decides
  whether Windows may call the installation healthy.
\<close>

subsection \<open>The identity of an installation\<close>

record installation_identity =
  id_schema :: int
  id_installation :: string
  id_armed_at :: string
  id_image :: string
  id_esp :: string
  id_loader :: string
  id_host :: string
  id_root_disk :: string

definition canonicalGUID :: "string \<Rightarrow> string" where
  "canonicalGUID s = to_lower (trim_set (trim_space s) ''{}'')"

definition canonicalLoader :: "string \<Rightarrow> string" where
  "canonicalLoader s = to_lower (replace_char slash backslash s)"

definition sourceImage :: "string \<Rightarrow> string" where
  "sourceImage s = trim_prefix s ''docker://''"

text \<open>A path from its parts, each after a backslash.\<close>

definition bs :: "string list \<Rightarrow> string" where
  "bs parts = concat (map (\<lambda>p. backslash # p) parts)"

definition known_loaders :: "string list" where
  "known_loaders =
     [bs [''efi'', ''fedora'', ''shimx64.efi''], bs [''efi'', ''systemd'', ''shimx64.efi''],
      bs [''efi'', ''systemd'', ''systemd-bootx64.efi'']]"

definition firstBootRootDiskPath :: string where "firstBootRootDiskPath = ''/wootc/disks/root.disk''"

definition validateInstallationIdentity :: "installation_identity \<Rightarrow> string option" where
  "validateInstallationIdentity p =
     (if id_schema p \<noteq> 1 \<or> \<not> (list_all is_hex (id_installation p) \<and> length (id_installation p) = 32) \<or>
         id_installation p \<noteq> to_lower (id_installation p)
      then Some ''invalid installation identity''
      else if parse_rfc3339 (id_armed_at p) = None then Some ''invalid arm time''
      else if trim_space (id_image p) = [] \<or> \<not> uuid_shape is_lower_hex (canonicalGUID (id_esp p)) \<or>
              \<not> (length (id_host p) = 16 \<and> list_all is_hex (id_host p)) \<or>
              id_host p = replicate 16 (CHR ''0'') \<or>
              canonicalGUID (id_esp p) = ''00000000-0000-0000-0000-000000000000'' \<or>
              id_root_disk p \<noteq> firstBootRootDiskPath
      then Some ''incomplete installation identity''
      else if \<not> List.member known_loaders (canonicalLoader (id_loader p))
      then Some ''unrecognized installation loader''
      else None)"

text \<open>\<open>rand.Read\<close> gives the identifier (already in hexadecimal) or fails; \<open>now\<close> is the clock.\<close>

definition upper_hex_char :: "char \<Rightarrow> char" where
  "upper_hex_char c =
     (let n = code_of c in if 97 \<le> n \<and> n \<le> 122 then char_of (n - 32) else c)"

definition newInstallationIdentity ::
  "string option \<Rightarrow> string \<Rightarrow> string \<Rightarrow> string \<Rightarrow> string \<Rightarrow> string \<Rightarrow> string + installation_identity" where
  "newInstallationIdentity random now img esp loader host =
     (case random of
        None \<Rightarrow> Inl ''rand''
      | Some ident \<Rightarrow>
          (let p = \<lparr>id_schema = 1, id_installation = ident, id_armed_at = now, id_image = img,
                    id_esp = canonicalGUID esp, id_loader = loader, id_host = map upper_hex_char host,
                    id_root_disk = firstBootRootDiskPath\<rparr>
           in case validateInstallationIdentity p of Some e \<Rightarrow> Inl e | None \<Rightarrow> Inr p))"

subsection \<open>The record\<close>

record first_boot_image =
  fi_ref :: string
  fi_digest :: string
  fi_source :: string

record first_boot_current =
  fc_number :: string
  fc_esp :: string
  fc_loader :: string
  fc_source :: string

record first_boot_binding =
  fb_source :: string
  fb_target :: string
  fb_user :: string

record first_boot_bridge =
  fg_folders :: int
  fg_users :: int
  fg_unlocked :: bool

record first_boot_evidence =
  fe_schema :: int
  fe_installation :: string
  fe_state :: string
  fe_phase_id :: string
  fe_sequence :: int
  fe_boot_id :: string
  fe_kernel :: string
  fe_image :: first_boot_image
  fe_current :: first_boot_current
  fe_disk_path :: string
  fe_disk_host :: string
  fe_bridge :: first_boot_bridge
  fe_bindings :: "first_boot_binding list"
  fe_secure :: bool
  fe_failed :: "string list"
  fe_written :: string
  fe_updated_by :: string
  fe_has_bindings :: bool

definition leaf :: "strictKind \<Rightarrow> bool \<Rightarrow> strictField" where
  "leaf k required = StrictField k required []"

definition image_schema :: schema where
  "image_schema =
     [(''ref'', leaf strictString True), (''digest'', leaf strictString True), (''sourceRef'', leaf strictString False)]"

definition current_schema :: schema where
  "current_schema =
     [(''bootNumber'', leaf strictString False), (''espPartitionGuid'', leaf strictString False),
      (''loaderPath'', leaf strictString False), (''source'', leaf strictString True)]"

definition disk_schema :: schema where
  "disk_schema = [(''path'', leaf strictString True), (''hostUuid'', leaf strictString True)]"

definition binding_schema :: schema where
  "binding_schema =
     [(''source'', leaf strictString True), (''target'', leaf strictString True), (''user'', leaf strictString True)]"

definition bridge_schema :: schema where
  "bridge_schema =
     [(''boundFolders'', leaf strictInt True), (''matchedUsers'', leaf strictInt True),
      (''bitlockerUnlocked'', leaf strictBool True), (''bindings'', StrictField strictObjects False binding_schema)]"

definition firstBootEvidenceSchema :: schema where
  "firstBootEvidenceSchema =
     [(''schema'', leaf strictInt True), (''installationId'', leaf strictString False),
      (''state'', leaf strictString True), (''phaseId'', leaf strictString False),
      (''sequence'', leaf strictInt True), (''bootId'', leaf strictString True),
      (''kernel'', leaf strictString True), (''image'', StrictField strictObject True image_schema),
      (''bootCurrent'', StrictField strictObject True current_schema),
      (''rootDisk'', StrictField strictObject True disk_schema),
      (''bridge'', StrictField strictObject True bridge_schema), (''secureBoot'', leaf strictBool True),
      (''failedUnits'', leaf strictStrings False), (''writtenAt'', leaf strictString True),
      (''updatedBy'', leaf strictString True)]"

text \<open>\<open>json.Unmarshal\<close> of a record that conforms: every key names its field exactly.\<close>

definition binding_of :: "(string \<times> json) list \<Rightarrow> first_boot_binding" where
  "binding_of ms =
     \<lparr>fb_source = str_member ms ''source'', fb_target = str_member ms ''target'', fb_user = str_member ms ''user''\<rparr>"

definition evidence_of :: "(string \<times> json) list \<Rightarrow> first_boot_evidence" where
  "evidence_of ms =
     (let img = object_member ms ''image''; cur = object_member ms ''bootCurrent'';
          disk = object_member ms ''rootDisk''; bridge = object_member ms ''bridge''
      in \<lparr>fe_schema = int_member ms ''schema'', fe_installation = str_member ms ''installationId'',
          fe_state = str_member ms ''state'', fe_phase_id = str_member ms ''phaseId'',
          fe_sequence = int_member ms ''sequence'', fe_boot_id = str_member ms ''bootId'',
          fe_kernel = str_member ms ''kernel'',
          fe_image = \<lparr>fi_ref = str_member img ''ref'', fi_digest = str_member img ''digest'',
                      fi_source = str_member img ''sourceRef''\<rparr>,
          fe_current = \<lparr>fc_number = str_member cur ''bootNumber'', fc_esp = str_member cur ''espPartitionGuid'',
                        fc_loader = str_member cur ''loaderPath'', fc_source = str_member cur ''source''\<rparr>,
          fe_disk_path = str_member disk ''path'', fe_disk_host = str_member disk ''hostUuid'',
          fe_bridge = \<lparr>fg_folders = int_member bridge ''boundFolders'', fg_users = int_member bridge ''matchedUsers'',
                       fg_unlocked = bool_member bridge ''bitlockerUnlocked''\<rparr>,
          fe_bindings = map binding_of (objects_member bridge ''bindings''),
          fe_secure = bool_member ms ''secureBoot'', fe_failed = strings_member ms ''failedUnits'',
          fe_written = str_member ms ''writtenAt'', fe_updated_by = str_member ms ''updatedBy'',
          fe_has_bindings = (map_of bridge ''bindings'' \<noteq> None)\<rparr>)"

subsection \<open>Validation\<close>

definition firstBootText :: "string \<Rightarrow> nat \<Rightarrow> bool" where
  "firstBootText s limit \<longleftrightarrow> s \<noteq> [] \<and> length s \<le> limit \<and> list_all (\<lambda>c. 32 \<le> code_of c \<and> code_of c \<noteq> 127) s"

definition firstBootUUIDPattern :: "string \<Rightarrow> bool" where
  "firstBootUUIDPattern s \<longleftrightarrow> uuid_shape is_lower_hex s"

definition firstBootDigestPattern :: "string \<Rightarrow> bool" where
  "firstBootDigestPattern s \<longleftrightarrow> has_prefix s ''sha256:'' \<and> length s = 71 \<and> list_all is_lower_hex (drop 7 s)"

definition firstBootHostPattern :: "string \<Rightarrow> bool" where
  "firstBootHostPattern s \<longleftrightarrow> length s = 16 \<and> list_all is_upper_hex s"

definition firstBootNumberPattern :: "string \<Rightarrow> bool" where
  "firstBootNumberPattern s \<longleftrightarrow> length s = 4 \<and> list_all is_upper_hex s"

definition firstBootInstallationIDPattern :: "string \<Rightarrow> bool" where
  "firstBootInstallationIDPattern s \<longleftrightarrow> length s = 32 \<and> list_all is_lower_hex s"

definition firstBootUnitPattern :: "string \<Rightarrow> bool" where
  "firstBootUnitPattern s \<longleftrightarrow> s \<noteq> [] \<and> length s \<le> 128 \<and>
     list_all (\<lambda>c. is_letter c \<or> is_digit c \<or> c \<in> set ''@._:-'' \<or> c = backslash) s"

fun bindings_valid :: "first_boot_binding list \<Rightarrow> string list \<Rightarrow> bool" where
  "bindings_valid [] targets \<longleftrightarrow> True"
| "bindings_valid (b # rest) targets \<longleftrightarrow>
     firstBootText (fb_user b) 64 \<and> \<not> contains_any (fb_user b) [slash] \<and>
     firstBootText (fb_source b) 1024 \<and> has_prefix (fb_source b) ''/'' \<and>
     firstBootText (fb_target b) 1024 \<and> has_prefix (fb_target b) (''/home/'' @ fb_user b @ ''/'') \<and>
     fb_target b \<notin> set targets \<and> bindings_valid rest (fb_target b # targets)"

definition validateFirstBootBindings :: "first_boot_evidence \<Rightarrow> string option" where
  "validateFirstBootBindings ev =
     (if \<not> fe_has_bindings ev
      then (if fe_installation ev \<noteq> [] then Some ''bridge bindings are missing'' else None)
      else if int (length (fe_bindings ev)) \<noteq> fg_folders (fe_bridge ev)
      then Some ''bridge folder count differs from its bindings''
      else if \<not> bindings_valid (fe_bindings ev) [] then Some ''invalid bridge binding''
      else if int (length (remdups (map fb_user (fe_bindings ev)))) \<noteq> fg_users (fe_bridge ev)
      then Some ''bridge user count differs from its bindings''
      else None)"

definition current_valid :: "first_boot_current \<Rightarrow> string option" where
  "current_valid bc =
     (if \<not> List.member [''efivarfs'', ''efibootmgr'', ''unavailable''] (fc_source bc)
      then Some ''unsupported BootCurrent source''
      else if (fc_number bc \<noteq> [] \<and> \<not> firstBootNumberPattern (fc_number bc)) \<or>
              (fc_esp bc \<noteq> [] \<and> \<not> firstBootUUIDPattern (fc_esp bc)) \<or>
              (fc_loader bc \<noteq> [] \<and>
                 (\<not> firstBootText (fc_loader bc) 260 \<or> \<not> has_prefix (fc_loader bc) (bs [''EFI'', []])))
      then Some ''invalid BootCurrent'' else None)"

definition validateFirstBootEvidence :: "first_boot_evidence \<Rightarrow> string option" where
  "validateFirstBootEvidence ev =
     (let img = fe_image ev; bridge = fe_bridge ev in
      if fe_schema ev \<noteq> 1 then Some (''unsupported schema '' @ dec_int (fe_schema ev))
      else if fe_state ev \<noteq> StateHealthy then Some ''unsupported state''
      else if fe_phase_id ev \<noteq> [] \<and> fe_phase_id ev \<noteq> StepFirstbootFirstbootEvidence then Some ''unsupported phase''
      else if fe_sequence ev < 1 \<or> 2 ^ 20 < fe_sequence ev then Some ''invalid sequence''
      else if \<not> firstBootUUIDPattern (fe_boot_id ev) then Some ''invalid boot ID''
      else if fe_installation ev \<noteq> [] \<and> \<not> firstBootInstallationIDPattern (fe_installation ev)
      then Some ''invalid installation ID''
      else if \<not> firstBootText (fe_kernel ev) 128 then Some ''invalid kernel release''
      else if \<not> firstBootText (fi_ref img) 512 then Some ''invalid image reference''
      else if \<not> firstBootDigestPattern (fi_digest img) then Some ''invalid image digest''
      else if fi_source img \<noteq> [] \<and> \<not> firstBootText (fi_source img) 512 then Some ''invalid source image reference''
      else if fe_disk_path ev \<noteq> firstBootRootDiskPath then Some ''unsupported root.disk path''
      else if \<not> firstBootHostPattern (fe_disk_host ev) then Some ''invalid host volume identity''
      else if fg_folders bridge < 0 \<or> 4096 < fg_folders bridge \<or> fg_users bridge < 0 \<or>
              fg_folders bridge < fg_users bridge then Some ''invalid bridge summary''
      else if 64 < length (fe_failed ev) then Some ''too many failed units''
      else if fe_updated_by ev \<noteq> ''wootc-firstboot'' then Some ''unsupported writer''
      else if parse_rfc3339 (fe_written ev) = None then Some ''invalid write time''
      else if \<not> list_all firstBootUnitPattern (fe_failed ev) then Some ''invalid failed unit name''
      else (case validateFirstBootBindings ev of
              Some e \<Rightarrow> Some e
            | None \<Rightarrow> current_valid (fe_current ev)))"

text \<open>The bound on the length is the reader's, see \<open>assessFirstBootAt\<close>.\<close>

datatype evidence_error = NotStrictRecord strict_error | InvalidRecord string

definition parseFirstBootEvidence :: "json_token list \<Rightarrow> evidence_error + first_boot_evidence" where
  "parseFirstBootEvidence ts =
     (case checkStrictJSON ts firstBootEvidenceSchema of
        Some e \<Rightarrow> Inl (NotStrictRecord e)
      | None \<Rightarrow>
          (case read_value (length ts) ts of
             None \<Rightarrow> Inl (NotStrictRecord Malformed)
           | Some (v, r) \<Rightarrow>
               (let ev = evidence_of (json_members v)
                in case validateFirstBootEvidence ev of
                     Some e \<Rightarrow> Inl (InvalidRecord e)
                   | None \<Rightarrow> Inr ev)))"

subsection \<open>This installation\<close>

record volume_serial =
  vs_serial64 :: "64 word"
  vs_have64 :: bool
  vs_serial32 :: "32 word"
  vs_have32 :: bool

record first_boot_expectation =
  xp_image :: string
  xp_digest :: string
  xp_volume :: volume_serial
  xp_identity :: "installation_identity option"

text \<open>
  What the audited root holds. installation.json is read with \<open>json.Unmarshal\<close>, which is not
  strict: \<open>rt_identity\<close> is what it yields from the tokens, or that it fails.
\<close>

record audited_root =
  rt_identity_file :: file_probe
  rt_identity :: "json_token list \<Rightarrow> installation_identity option"
  rt_journal_file :: file_probe
  rt_bundle :: "bundle_info option"
  rt_bundle_store :: bool
  rt_bundle_layout :: bool
  rt_root_disk :: "os_fault + stat_info"
  rt_volume :: "string + volume_serial"
  rt_evidence_file :: file_probe

datatype expectation_error =
    IdentityUnread record_error | IdentityUnparsed | IdentityInvalid string
  | JournalRefused status_error | SelectionConflict string string | NoSelection
  | DiskRefused status_error | DiskAbsent | VolumeUnknown string

definition read_identity :: "audited_root \<Rightarrow> expectation_error + installation_identity option" where
  "read_identity rt =
     (case readBoundedStatusRecord (rt_identity_file rt) of
        Inl e \<Rightarrow> if e = RecordOs NotExist then Inr None else Inl (IdentityUnread e)
      | Inr ts \<Rightarrow>
          (case rt_identity rt ts of
             None \<Rightarrow> Inl IdentityUnparsed
           | Some p \<Rightarrow>
               (case validateInstallationIdentity p of
                  Some e \<Rightarrow> Inl (IdentityInvalid e)
                | None \<Rightarrow> Inr (Some p))))"

definition select_image ::
  "installation_identity option \<Rightarrow> string \<Rightarrow> bundle_info option \<Rightarrow> expectation_error + string" where
  "select_image identity journaled bundle =
     (case identity of
        Some p \<Rightarrow>
          if journaled \<noteq> [] \<and> sourceImage journaled \<noteq> sourceImage (id_image p)
          then Inl (SelectionConflict journaled (id_image p))
          else (let img = (if journaled = [] then id_image p else journaled);
                    img1 = (case bundle of Some b \<Rightarrow> if img = [] then bi_image b else img | None \<Rightarrow> img)
                in if img1 = [] then Inl NoSelection else Inr img1)
      | None \<Rightarrow>
          (let img1 = (case bundle of Some b \<Rightarrow> if journaled = [] then bi_image b else journaled | None \<Rightarrow> journaled)
           in if img1 = [] then Inl NoSelection else Inr img1))"

definition bundle_digest :: "bundle_info option \<Rightarrow> string \<Rightarrow> string" where
  "bundle_digest bundle img =
     (case bundle of
        Some b \<Rightarrow> if bi_image b = img \<and> firstBootDigestPattern (bi_digest b) then bi_digest b else []
      | None \<Rightarrow> [])"

definition expectFirstBootIdentity :: "audited_root \<Rightarrow> expectation_error + first_boot_expectation" where
  "expectFirstBootIdentity rt =
     (case read_identity rt of
        Inl e \<Rightarrow> Inl e
      | Inr identity \<Rightarrow>
          (case readNativeInstallJournal (rt_journal_file rt) of
             Inl e \<Rightarrow> Inl (JournalRefused e)
           | Inr journal \<Rightarrow>
               (let bundle = readBundleInfoAt (rt_bundle rt) (rt_bundle_store rt) (rt_bundle_layout rt);
                    journaled = (case journal of Some j \<Rightarrow> ij_image j | None \<Rightarrow> [])
                in case select_image identity journaled bundle of
                     Inl e \<Rightarrow> Inl e
                   | Inr img \<Rightarrow>
                       (case nativeRegularFile (rt_root_disk rt) of
                          Inl e \<Rightarrow> Inl (DiskRefused e)
                        | Inr None \<Rightarrow> Inl DiskAbsent
                        | Inr (Some info) \<Rightarrow>
                            (case rt_volume rt of
                               Inl e \<Rightarrow> Inl (VolumeUnknown e)
                             | Inr vol \<Rightarrow>
                                 Inr \<lparr>xp_image = img, xp_digest = bundle_digest bundle img,
                                      xp_volume = vol, xp_identity = identity\<rparr>)))))"

subsection \<open>The cross-check\<close>

datatype mismatch =
    UnknownInstallation string | OtherInstallation string string | Predates
  | OtherStart string string | OtherDisk string string | OtherSource string string
  | FailedUnit string | OtherSelection string string | OtherImage string string | OtherDigest string string
  | InvalidHost | OtherVolume | NoVolumeIdentity

text \<open>A time that does not parse is Go's zero time, the first day of year 1.\<close>

definition zero_time :: instant where
  "zero_time = \<lparr>in_sec = -62135596800, in_nsec = 0\<rparr>"

definition go_time :: "string \<Rightarrow> instant" where
  "go_time s = (case parse_rfc3339 s of Some t \<Rightarrow> t | None \<Rightarrow> zero_time)"

definition checkFirstBootInstallation ::
  "first_boot_evidence \<Rightarrow> installation_identity option \<Rightarrow> mismatch option" where
  "checkFirstBootInstallation ev identity =
     (case identity of
        None \<Rightarrow> if fe_installation ev \<noteq> [] then Some (UnknownInstallation (fe_installation ev)) else None
      | Some p \<Rightarrow>
          (let bc = fe_current ev in
           if fe_installation ev \<noteq> id_installation p
           then Some (OtherInstallation (fe_installation ev) (id_installation p))
           else if instant_before (go_time (fe_written ev)) (go_time (id_armed_at p)) then Some Predates
           else if (fc_esp bc \<noteq> [] \<or> fc_loader bc \<noteq> []) \<and>
                   (canonicalGUID (fc_esp bc) \<noteq> canonicalGUID (id_esp p) \<or>
                    canonicalLoader (fc_loader bc) \<noteq> canonicalLoader (id_loader p))
           then Some (OtherStart (fc_loader bc) (fc_esp bc))
           else if fe_disk_path ev \<noteq> id_root_disk p \<or> \<not> equal_fold (fe_disk_host ev) (id_host p)
           then Some (OtherDisk (fe_disk_path ev) (fe_disk_host ev))
           else if fi_source (fe_image ev) = [] \<or> sourceImage (fi_source (fe_image ev)) \<noteq> sourceImage (id_image p)
           then Some (OtherSource (fi_source (fe_image ev)) (id_image p))
           else map_option FailedUnit (List.find (\<lambda>u. has_prefix u ''wootc-'') (fe_failed ev))))"

text \<open>\<open>strconv.ParseUint(s, 16, 64)\<close>.\<close>

definition hex_int :: "string \<Rightarrow> int" where
  "hex_int s = foldl (\<lambda>n c. 16 * n + int (hex_val c)) 0 s"

definition parse_hex64 :: "string \<Rightarrow> 64 word option" where
  "parse_hex64 s =
     (if s = [] \<or> \<not> list_all is_hex s \<or> 2 ^ 64 \<le> hex_int s then None else Some (word_of_int (hex_int s)))"

definition check_volume :: "64 word \<Rightarrow> volume_serial \<Rightarrow> mismatch option" where
  "check_volume host vol =
     (if vs_have64 vol then (if host \<noteq> vs_serial64 vol then Some OtherVolume else None)
      else if vs_have32 vol then (if (ucast host :: 32 word) \<noteq> vs_serial32 vol then Some OtherVolume else None)
      else Some NoVolumeIdentity)"

definition checkFirstBootEvidence ::
  "first_boot_evidence \<Rightarrow> first_boot_expectation \<Rightarrow> mismatch option" where
  "checkFirstBootEvidence ev xp =
     (let img = fe_image ev in
      case checkFirstBootInstallation ev (xp_identity xp) of
        Some e \<Rightarrow> Some e
      | None \<Rightarrow>
          if fi_source img \<noteq> [] \<and> fi_source img \<noteq> xp_image xp
          then Some (OtherSelection (fi_source img) (xp_image xp))
          else if fi_ref img \<noteq> xp_image xp \<and> fi_source img \<noteq> xp_image xp
          then Some (OtherImage (fi_ref img) (xp_image xp))
          else if xp_digest xp \<noteq> [] \<and> fi_ref img = xp_image xp \<and> fi_digest img \<noteq> xp_digest xp
          then Some (OtherDigest (fi_digest img) (xp_digest xp))
          else (case parse_hex64 (fe_disk_host ev) of
                  None \<Rightarrow> Some InvalidHost
                | Some host \<Rightarrow> check_volume host (xp_volume xp)))"

subsection \<open>The verdict\<close>

definition FirstBootWaiting :: string where "FirstBootWaiting = ''waiting''"
definition FirstBootVerified :: string where "FirstBootVerified = ''verified''"
definition FirstBootMismatch :: string where "FirstBootMismatch = ''mismatch''"
definition FirstBootInvalid :: string where "FirstBootInvalid = ''invalid''"
definition FirstBootUnverifiable :: string where "FirstBootUnverifiable = ''unverifiable''"

lemmas first_boot_verdicts = FirstBootWaiting_def FirstBootVerified_def FirstBootMismatch_def
  FirstBootInvalid_def FirstBootUnverifiable_def

datatype first_boot_reason =
    NoReason | RecordUnread record_error | RecordInvalid evidence_error
  | InstallUnverifiable expectation_error | DoesNotMatch mismatch

record first_boot_assessment =
  fa_verdict :: string
  fa_message :: string
  fa_reason :: first_boot_reason
  fa_kernel :: string
  fa_image :: string
  fa_digest :: string
  fa_source :: string
  fa_boot_id :: string
  fa_secure :: "bool option"
  fa_bridge :: "first_boot_bridge option"
  fa_written :: string

definition unproven :: "string \<Rightarrow> string \<Rightarrow> first_boot_reason \<Rightarrow> first_boot_assessment" where
  "unproven verdict msg reason =
     \<lparr>fa_verdict = verdict, fa_message = msg, fa_reason = reason, fa_kernel = [], fa_image = [],
      fa_digest = [], fa_source = [], fa_boot_id = [], fa_secure = None, fa_bridge = None, fa_written = []\<rparr>"

text \<open>\<open>name\<close> is \<open>installedSystemName\<close>, which the branding fixes.\<close>

definition assessFirstBootAt :: "string \<Rightarrow> audited_root \<Rightarrow> first_boot_assessment" where
  "assessFirstBootAt name rt =
     (let invalid = (\<lambda>r. unproven FirstBootInvalid
            (name @ '' is installed, but the report from its first boot could not be read.'') r)
      in case readBoundedRecord (rt_evidence_file rt) (64 * 1024) of
           Inl e \<Rightarrow>
             if e = RecordOs NotExist
             then unproven FirstBootWaiting (name @ '' is installed, waiting for its first boot.'') NoReason
             else invalid (RecordUnread e)
         | Inr ts \<Rightarrow>
             (case parseFirstBootEvidence ts of
                Inl e \<Rightarrow> invalid (RecordInvalid e)
              | Inr ev \<Rightarrow>
                  (case expectFirstBootIdentity rt of
                     Inl e \<Rightarrow> unproven FirstBootUnverifiable
                       (name @ '' is installed, but this PC''@[CHR 0x27]@''s record of the installation cannot confirm its first boot.'')
                       (InstallUnverifiable e)
                   | Inr xp \<Rightarrow>
                       (case checkFirstBootEvidence ev xp of
                          Some e \<Rightarrow> unproven FirstBootMismatch
                            (name @ '' is installed, but the report from its first boot does not match this installation.'')
                            (DoesNotMatch e)
                        | None \<Rightarrow>
                            \<lparr>fa_verdict = FirstBootVerified,
                             fa_message = name @ '' started and reported that it is healthy.'',
                             fa_reason = NoReason, fa_kernel = fe_kernel ev, fa_image = fi_ref (fe_image ev),
                             fa_digest = fi_digest (fe_image ev), fa_source = fi_source (fe_image ev),
                             fa_boot_id = fe_boot_id ev, fa_secure = Some (fe_secure ev),
                             fa_bridge = Some (fe_bridge ev), fa_written = fe_written ev\<rparr>))))"

definition verifiedLifecycleAt ::
  "string \<Rightarrow> audited_root \<Rightarrow> lifecycle_state \<Rightarrow> lifecycle_state \<times> first_boot_assessment option" where
  "verifiedLifecycleAt name rt st =
     (if ls_state st \<noteq> StateDeployed \<and> ls_state st \<noteq> StateHealthy then (st, None)
      else (let a = assessFirstBootAt name rt
            in (if ls_state st = StateHealthy \<and> fa_verdict a \<noteq> FirstBootVerified
                then st\<lparr>ls_state := StateDeployed\<rparr> else st, Some a)))"

record status_report =
  sr_state :: lifecycle_state
  sr_recorded :: string
  sr_first_boot :: "first_boot_assessment option"

definition statusReportAt :: "string \<Rightarrow> audited_root \<Rightarrow> lifecycle_state \<Rightarrow> status_report" where
  "statusReportAt name rt recorded =
     (let (st, a) = verifiedLifecycleAt name rt recorded
      in \<lparr>sr_state = st, sr_recorded = (if ls_state st \<noteq> ls_state recorded then ls_state recorded else []),
          sr_first_boot = a\<rparr>)"

definition readVerifiedState ::
  "string \<Rightarrow> audited_root \<Rightarrow> lifecycle_state option \<Rightarrow> lifecycle_state option" where
  "readVerifiedState name rt st = map_option (\<lambda>s. fst (verifiedLifecycleAt name rt s)) st"

text \<open>\<open>os.Remove\<close> of the record: no error, or the reason.\<close>

definition discardStaleFirstBootEvidence :: "os_fault option \<Rightarrow> string option" where
  "discardStaleFirstBootEvidence removed =
     (case removed of
        Some (OsFault e) \<Rightarrow> Some (''remove the previous installation''@[CHR 0x27]@''s first-boot record: '' @ e)
      | _ \<Rightarrow> None)"

end
