(* ===== verification/Json_Strict_Props.thy ===== *)
theory Json_Strict_Props
  imports Json_Strict
begin

text \<open>
  The strict checkers against what a record has to look like. \<open>conforms\<close> says it as a typing
  relation on trees of values; both checkers accept exactly the token streams of one conforming
  object, so repeated, unknown, missing, null and mistyped fields and trailing data are refused
  at every depth, and the fuel is never the reason.
\<close>

inductive conforms :: "schema \<Rightarrow> (string \<times> json) list \<Rightarrow> bool"
  and conforms_field :: "strictField \<Rightarrow> json \<Rightarrow> bool" where
  conforms_record: "distinct (map fst ms) \<Longrightarrow>
     (\<forall>(k, v)\<in>set ms. \<exists>f. map_of schema k = Some f \<and> conforms_field f v) \<Longrightarrow>
     (\<forall>(k, f)\<in>set schema. field_required f \<longrightarrow> k \<in> fst ` set ms) \<Longrightarrow> conforms schema ms"
| field_string: "field_kind f = strictString \<Longrightarrow> conforms_field f (JStr s)"
| field_bool: "field_kind f = strictBool \<Longrightarrow> conforms_field f (JBool b)"
| field_int: "field_kind f = strictInt \<Longrightarrow> json_int s \<noteq> None \<Longrightarrow> conforms_field f (JNum s)"
| field_strings: "field_kind f = strictStrings \<Longrightarrow> conforms_field f (JArr (map JStr ss))"
| field_object: "field_kind f = strictObject \<Longrightarrow> conforms (field_object f) ms \<Longrightarrow> conforms_field f (JObj ms)"
| field_objects: "field_kind f = strictObjects \<Longrightarrow> (\<forall>ms\<in>set mss. conforms (field_object f) ms) \<Longrightarrow>
     conforms_field f (JArr (map JObj mss))"

inductive_cases conforms_objectE: "conforms schema ms"
inductive_cases conforms_fieldE: "conforms_field f v"

lemma conforms_iff:
  "conforms schema ms \<longleftrightarrow> distinct (map fst ms) \<and>
     (\<forall>(k, v)\<in>set ms. \<exists>f. map_of schema k = Some f \<and> conforms_field f v) \<and>
     (\<forall>(k, f)\<in>set schema. field_required f \<longrightarrow> k \<in> fst ` set ms)"
  by (auto elim!: conforms_objectE intro!: conforms_record)

text \<open>On the simple kinds the relation is the value check.\<close>

lemma strings_items:
  "list_all (\<lambda>v. case v of JStr s \<Rightarrow> True | _ \<Rightarrow> False) vs \<longleftrightarrow> (\<exists>ss. vs = map JStr ss)"
proof (induction vs)
  case Nil
  then show ?case by simp
next
  case (Cons v vs)
  then show ?case by (cases v) (auto simp: Cons_eq_map_conv)
qed

lemma checkStrictValue_conforms:
  "field_kind f \<noteq> strictObject \<Longrightarrow> field_kind f \<noteq> strictObjects \<Longrightarrow>
     checkStrictValue v (field_kind f) \<longleftrightarrow> conforms_field f v"
  by (cases v) (auto simp: strings_items elim!: conforms_fieldE
      intro: field_string field_bool field_int field_strings)

lemma conforms_object_field:
  "field_kind f = strictObject \<Longrightarrow> conforms_field f v \<longleftrightarrow> (\<exists>ms. v = JObj ms \<and> conforms (field_object f) ms)"
  by (auto elim!: conforms_fieldE intro: field_object)

lemma conforms_objects_field:
  "field_kind f = strictObjects \<Longrightarrow>
     conforms_field f v \<longleftrightarrow> (\<exists>mss. v = JArr (map JObj mss) \<and> (\<forall>ms\<in>set mss. conforms (field_object f) ms))"
  by (auto elim!: conforms_fieldE intro: field_objects)

subsection \<open>Tokens\<close>

lemma expect_iff [simp]: "expect t ts = Some r \<longleftrightarrow> ts = t # r"
  by (auto simp: expect_def split: list.splits if_splits)

lemma take_key_iff [simp]: "take_key ts = Some (k, r) \<longleftrightarrow> ts = StrToken k # r"
  by (auto simp: take_key_def split: list.splits json_token.splits)

lemma expect_simps [simp]: "expect t (t # r) = Some r" "take_key (StrToken k # r) = Some (k, r)"
  by simp_all

lemma scalar_tokens: "scalar t = Some v \<Longrightarrow> json_tokens v = [t]"
  by (auto simp: scalar_def split: json_token.splits)

lemma json_tokens_head:
  obtains t r where "json_tokens v = t # r" "t \<noteq> ObjClose" "t \<noteq> ArrClose"
  by (cases v) auto

lemma has_more_simps [simp]:
  "\<not> has_more []" "\<not> has_more (ObjClose # r)" "\<not> has_more (ArrClose # r)" "has_more (StrToken k # r)" "has_more (ObjOpen # r)"
  by (simp_all add: has_more_def)

lemma has_more_value [simp]: "has_more (json_tokens v @ r)"
  by (rule json_tokens_head [of v]) (simp add: has_more_def)

subsection \<open>Reading any value\<close>

lemma read_sound:
  "read_value n ts = Some (v, r) \<Longrightarrow> ts = json_tokens v @ r"
  "read_items n ts = Some (vs, r) \<Longrightarrow> ts = items_tokens vs @ ArrClose # r"
  "read_members n ts = Some (ms, r) \<Longrightarrow> ts = members_tokens ms @ ObjClose # r"
proof (induction n ts and n ts and n ts arbitrary: v r and vs r and ms r
    rule: read_value_read_items_read_members.induct)
  case (2 n ts)
  then show ?case by (auto split: list.splits if_splits dest: scalar_tokens)
next
  case (4 n ts)
  then show ?case by (auto split: if_splits option.splits prod.splits)
next
  case (6 n ts)
  then show ?case by (fastforce split: if_splits option.splits prod.splits)
qed simp_all

lemma read_complete:
  "length (json_tokens v) \<le> n \<Longrightarrow> read_value n (json_tokens v @ r) = Some (v, r)"
  "length (items_tokens vs) < n \<Longrightarrow> read_items n (items_tokens vs @ ArrClose # r) = Some (vs, r)"
  "length (members_tokens ms) < n \<Longrightarrow> read_members n (members_tokens ms @ ObjClose # r) = Some (ms, r)"
proof (induction v and vs and ms arbitrary: n r and n r and n r
    rule: json_tokens_items_tokens_members_tokens.induct)
  case (5 vs)
  then show ?case by (cases n) auto
next
  case (6 ms)
  then show ?case by (cases n) auto
next
  case 7
  then show ?case by (cases n) auto
next
  case (8 v vs)
  obtain k where "length (json_tokens v) = Suc k" by (rule json_tokens_head [of v]) simp
  with 8 show ?case by (cases n) auto
next
  case 9
  then show ?case by (cases n) auto
next
  case (10 k v ms)
  then show ?case by (cases n) auto
qed (case_tac [!] n; simp add: scalar_def)+

lemma json_tokens_inj: "json_tokens (JObj ms) = json_tokens (JObj ms') \<Longrightarrow> ms = ms'"
  using read_complete(1) [of "JObj ms" "length (json_tokens (JObj ms))" "[]"]
    read_complete(1) [of "JObj ms'" "length (json_tokens (JObj ms))" "[]"]
  by simp

subsection \<open>The schema checker\<close>

lemma known_field_iff [simp]:
  "known_field schema seen key = Some f \<longleftrightarrow> map_of schema key = Some f \<and> key \<notin> set seen"
  by (auto simp: known_field_def split: option.splits)

lemma missing_fields_Nil:
  "missing_fields schema seen = [] \<longleftrightarrow> (\<forall>(k, f)\<in>set schema. field_required f \<longrightarrow> k \<in> set seen)"
  by (auto simp: missing_fields_def filter_empty_conv)

text \<open>What the members still to be read owe, when the keys \<open>seen\<close> have been read.\<close>

definition members_ok :: "schema \<Rightarrow> string list \<Rightarrow> (string \<times> json) list \<Rightarrow> bool" where
  "members_ok schema seen ms \<longleftrightarrow> distinct (map fst ms) \<and> set seen \<inter> fst ` set ms = {} \<and>
     (\<forall>(k, v)\<in>set ms. \<exists>f. map_of schema k = Some f \<and> conforms_field f v) \<and>
     (\<forall>(k, f)\<in>set schema. field_required f \<longrightarrow> k \<in> set seen \<union> fst ` set ms)"

lemma members_ok_Nil: "members_ok schema seen [] \<longleftrightarrow> missing_fields schema seen = []"
  by (simp add: members_ok_def missing_fields_Nil)

lemma members_ok_Cons:
  "members_ok schema seen ((k, v) # ms) \<longleftrightarrow>
     (\<exists>f. known_field schema seen k = Some f \<and> conforms_field f v) \<and> members_ok schema (k # seen) ms"
  by (auto simp: members_ok_def)

lemma members_ok_conforms: "members_ok schema [] ms \<longleftrightarrow> conforms schema ms"
  by (simp add: members_ok_def conforms_iff)

text \<open>One field of the checker, whatever its kind.\<close>

lemma strict_sound:
  "checkStrictObject n ts schema path = Inr r \<Longrightarrow> \<exists>ms. ts = json_tokens (JObj ms) @ r \<and> conforms schema ms"
  "strict_members n seen ts schema path = Inr r \<Longrightarrow>
     \<exists>ms. ts = members_tokens ms @ ObjClose # r \<and> members_ok schema seen ms"
  "strict_items n ts schema path = Inr r \<Longrightarrow>
     \<exists>mss. ts = items_tokens (map JObj mss) @ ArrClose # r \<and> (\<forall>ms\<in>set mss. conforms schema ms)"
proof (induction n ts schema path and n seen ts schema path and n ts schema path arbitrary: r and r and r
    rule: checkStrictObject_strict_members_strict_items.induct)
  case (2 n ts schema path)
  then show ?case by (auto split: option.splits simp: members_ok_conforms)
next
  case (4 n seen ts schema path)
  show ?case
  proof (cases "has_more ts")
    case False
    then show ?thesis using "4.prems"
      by (auto split: option.splits list.splits simp: members_ok_Nil intro!: exI [of _ "[]"])
  next
    case True
    then obtain key r0 f where kf: "take_key ts = Some (key, r0)" "known_field schema seen key = Some f"
      using "4.prems" by (auto split: option.splits)
    obtain v r1 where v: "r0 = json_tokens v @ r1" "conforms_field f v"
      and rest: "\<exists>ms. r1 = members_tokens ms @ ObjClose # r \<and> members_ok schema (key # seen) ms"
    proof (cases "field_kind f = strictObject")
      case obj: True
      then obtain r1 where c: "checkStrictObject n r0 (field_object f) (path @ key @ ''.'') = Inr r1"
        "strict_members n (key # seen) r1 schema path = Inr r"
        using "4.prems" True kf by (auto split: sum.splits)
      from "4.IH"(1) [OF _ kf(1) _ kf(2) obj c(1)] True
      obtain ms where "r0 = json_tokens (JObj ms) @ r1" "conforms (field_object f) ms" by auto
      with "4.IH"(2) [OF _ kf(1) _ kf(2) obj c(1) c(2)] True obj show ?thesis
        by (intro that [of "JObj ms" r1]) (auto intro: field_object)
    next
      case nobj: False
      show ?thesis
      proof (cases "field_kind f = strictObjects")
        case objs: True
        then obtain r1 r2 where c: "expect ArrOpen r0 = Some r1"
          "strict_items n r1 (field_object f) (path @ key @ ''[].'') = Inr r2"
          "strict_members n (key # seen) r2 schema path = Inr r"
          using "4.prems" True kf by (auto split: sum.splits option.splits)
        from "4.IH"(3) [OF _ kf(1) _ kf(2) nobj objs c(1,2)] True
        obtain mss where "r1 = items_tokens (map JObj mss) @ ArrClose # r2"
          "\<forall>ms\<in>set mss. conforms (field_object f) ms" by auto
        with "4.IH"(4) [OF _ kf(1) _ kf(2) nobj objs c] True objs c(1) show ?thesis
          by (intro that [of "JArr (map JObj mss)" r2]) (auto intro: field_objects)
      next
        case nobjs: False
        then obtain v r1 where c: "read_value n r0 = Some (v, r1)" "checkStrictValue v (field_kind f)"
          "strict_members n (key # seen) r1 schema path = Inr r"
          using "4.prems" True kf nobj by (auto split: option.splits if_splits)
        with "4.IH"(5) [OF _ kf(1) _ kf(2) nobj nobjs c(1) _ c(2,3)] True nobj nobjs read_sound(1) [OF c(1)]
        show ?thesis by (intro that [of v r1]) (auto simp: checkStrictValue_conforms)
      qed
    qed
    from rest obtain ms where "r1 = members_tokens ms @ ObjClose # r" "members_ok schema (key # seen) ms"
      by blast
    with kf v show ?thesis by (intro exI [of _ "(key, v) # ms"]) (simp add: members_ok_Cons)
  qed
next
  case (6 n ts schema path)
  show ?case
  proof (cases "has_more ts")
    case False
    then show ?thesis using "6.prems" by (auto split: option.splits intro!: exI [of _ "[]"])
  next
    case True
    then obtain r1 where c: "checkStrictObject n ts schema path = Inr r1" "strict_items n r1 schema path = Inr r"
      using "6.prems" by (auto split: sum.splits)
    from "6.IH"(1) [OF _ c(1)] "6.IH"(2) [OF _ c] True obtain ms mss where
      "ts = json_tokens (JObj ms) @ r1" "conforms schema ms"
      "r1 = items_tokens (map JObj mss) @ ArrClose # r" "\<forall>ms\<in>set mss. conforms schema ms" by auto
    then show ?thesis by (intro exI [of _ "ms # mss"]) simp
  qed
qed simp_all

lemma json_tokens_nonempty: "0 < length (json_tokens v)"
  by (rule json_tokens_head [of v]) simp

lemma strict_complete:
  "(conforms schema ms \<longrightarrow> length (json_tokens (JObj ms)) \<le> n \<longrightarrow>
      checkStrictObject n (json_tokens (JObj ms) @ r) schema path = Inr r) \<and>
   (members_ok schema seen ms \<longrightarrow> length (members_tokens ms) < n \<longrightarrow>
      strict_members n seen (members_tokens ms @ ObjClose # r) schema path = Inr r) \<and>
   ((\<forall>ms\<in>set mss. conforms schema ms) \<longrightarrow> length (items_tokens (map JObj mss)) < n \<longrightarrow>
      strict_items n (items_tokens (map JObj mss) @ ArrClose # r) schema path = Inr r)"
proof (induction n arbitrary: schema ms seen mss path r)
  case 0
  show ?case by simp
next
  case (Suc n)
  note object = Suc.IH [THEN conjunct1, rule_format]
    and members = Suc.IH [THEN conjunct2, THEN conjunct1, rule_format]
    and items = Suc.IH [THEN conjunct2, THEN conjunct2, rule_format]
  have "strict_members (Suc n) seen (members_tokens ms @ ObjClose # r) schema path = Inr r"
    if ok: "members_ok schema seen ms" and len: "length (members_tokens ms) < Suc n"
  proof (cases ms)
    case Nil
    with ok show ?thesis by (simp add: members_ok_Nil)
  next
    case (Cons m ms')
    obtain k v where m: "m = (k, v)" by (cases m)
    with ok Cons obtain f where f: "known_field schema seen k = Some f" "conforms_field f v"
      and rest: "members_ok schema (k # seen) ms'" by (auto simp: members_ok_Cons)
    have len': "length (json_tokens v) \<le> n" "length (members_tokens ms') < n"
      using len Cons m json_tokens_nonempty [of v] by simp_all
    note go = members [OF rest len'(2), of r path]
    have key: "expect ObjClose (StrToken k # xs) = None" for xs by (simp add: expect_def)
    show ?thesis
    proof (cases "field_kind f = strictObject")
      case True
      with f(2) obtain ms1 where v: "v = JObj ms1" "conforms (field_object f) ms1"
        by (auto simp: conforms_object_field)
      show ?thesis
        using object [OF v(2), of "members_tokens ms' @ ObjClose # r" "path @ k @ ''.''"] True f(1) go len' v Cons m
        by (simp del: known_field_iff)
    next
      case nobj: False
      show ?thesis
      proof (cases "field_kind f = strictObjects")
        case True
        with f(2) obtain mss1 where v: "v = JArr (map JObj mss1)" "\<forall>ms\<in>set mss1. conforms (field_object f) ms"
          by (auto simp: conforms_objects_field)
        show ?thesis
          using items [of mss1 "field_object f" "members_tokens ms' @ ObjClose # r" "path @ k @ ''[].''"] True f(1) go len' v Cons m
          by (simp del: known_field_iff)
      next
        case False
        then have "checkStrictValue v (field_kind f)" using f(2) nobj by (simp add: checkStrictValue_conforms)
        then show ?thesis
          using nobj False f(1) go read_complete(1) [OF len'(1), of "members_tokens ms' @ ObjClose # r"] Cons m
          by (simp del: known_field_iff)
      qed
    qed
  qed
  moreover have "checkStrictObject (Suc n) (json_tokens (JObj ms) @ r) schema path = Inr r"
    if "conforms schema ms" "length (json_tokens (JObj ms)) \<le> Suc n"
    using that members [of schema "[]" ms r path] by (simp add: members_ok_conforms)
  moreover have "strict_items (Suc n) (items_tokens (map JObj mss) @ ArrClose # r) schema path = Inr r"
    if ok: "\<forall>ms\<in>set mss. conforms schema ms" and len: "length (items_tokens (map JObj mss)) < Suc n"
  proof (cases mss)
    case Nil
    then show ?thesis by simp
  next
    case (Cons ms1 mss1)
    then show ?thesis
      using ok len object [of schema ms1 "items_tokens (map JObj mss1) @ ArrClose # r" path] items [of mss1 schema r path]
      by simp
  qed
  ultimately show ?case by blast
qed

lemma strict_json_iff:
  "checkStrictJSON ts schema = None \<longleftrightarrow> (\<exists>ms. ts = json_tokens (JObj ms) \<and> conforms schema ms)"
proof
  assume "checkStrictJSON ts schema = None"
  then have "checkStrictObject (Suc (length ts)) ts schema [] = Inr []"
    by (auto simp: checkStrictJSON_def split: sum.splits if_splits)
  from strict_sound(1) [OF this] show "\<exists>ms. ts = json_tokens (JObj ms) \<and> conforms schema ms" by simp
next
  assume "\<exists>ms. ts = json_tokens (JObj ms) \<and> conforms schema ms"
  then obtain ms where ms: "ts = json_tokens (JObj ms)" "conforms schema ms" by blast
  then have "checkStrictObject (Suc (length ts)) (ts @ []) schema [] = Inr []"
    using strict_complete [of schema ms "Suc (length ts)" "[]" "[]"] by (simp del: json_tokens.simps)
  then show "checkStrictJSON ts schema = None" by (simp add: checkStrictJSON_def)
qed

text \<open>
  C19: strictness at every depth. \<open>checkStrictJSON\<close> accepts a token stream exactly when it is one
  object that conforms to the schema: every key known and unrepeated, every value of its kind,
  every required key there, in the record and in every object nested in it, and nothing after.
\<close>

theorem strict_checker_exact:
  "checkStrictJSON ts schema = None \<longleftrightarrow> (\<exists>ms. ts = json_tokens (JObj ms) \<and> conforms schema ms)"
  by (rule strict_json_iff)

subsection \<open>The flat checker\<close>

definition status_conforms :: "string smap \<Rightarrow> string list \<Rightarrow> (string \<times> json) list \<Rightarrow> bool" where
  "status_conforms flds required ms \<longleftrightarrow> distinct (map fst ms) \<and>
     (\<forall>(k, v)\<in>set ms. \<exists>kind. map_of flds k = Some kind \<and> status_value_ok kind v) \<and>
     set required \<subseteq> fst ` set ms"

definition status_owes :: "string smap \<Rightarrow> string list \<Rightarrow> (string \<times> json) list \<Rightarrow> bool" where
  "status_owes flds seen ms \<longleftrightarrow> distinct (map fst ms) \<and> set seen \<inter> fst ` set ms = {} \<and>
     (\<forall>(k, v)\<in>set ms. \<exists>kind. map_of flds k = Some kind \<and> status_value_ok kind v)"

lemma status_owes_Nil [simp]: "status_owes flds seen []"
  by (simp add: status_owes_def)

lemma status_owes_Cons [simp]:
  "status_owes flds seen ((k, v) # ms) \<longleftrightarrow>
     (\<exists>kind. map_of flds k = Some kind \<and> status_value_ok kind v) \<and> k \<notin> set seen \<and> status_owes flds (k # seen) ms"
  by (auto simp: status_owes_def)

lemma status_members_sound:
  "status_members n seen ts flds = Inr (ms, r) \<Longrightarrow>
     ts = members_tokens ms @ ObjClose # r \<and> status_owes flds seen ms"
proof (induction n seen ts flds arbitrary: ms r rule: status_members.induct)
  case (2 n seen ts flds)
  show ?case
  proof (cases "has_more ts")
    case False
    then show ?thesis using "2.prems" by (auto split: option.splits)
  next
    case True
    then obtain key r0 kind v r1 ms1 where c: "take_key ts = Some (key, r0)" "map_of flds key = Some kind"
      "key \<notin> set seen" "read_value n r0 = Some (v, r1)" "status_value_ok kind v"
      "status_members n (key # seen) r1 flds = Inr (ms1, r)" "ms = (key, v) # ms1"
      using "2.prems" by (auto split: option.splits if_splits sum.splits prod.splits)
    show ?thesis using "2.IH" [OF _ c(1) _ c(2,3,4) _ c(5,6)] True c read_sound(1) [OF c(4)] by auto
  qed
qed simp

lemma status_members_complete:
  "status_owes flds seen ms \<Longrightarrow> length (members_tokens ms) < n \<Longrightarrow>
     status_members n seen (members_tokens ms @ ObjClose # r) flds = Inr (ms, r)"
proof (induction ms arbitrary: seen n)
  case Nil
  then show ?case by (cases n) simp_all
next
  case (Cons m ms)
  obtain k v where m: "m = (k, v)" by (cases m)
  obtain n' where n: "n = Suc n'" using Cons.prems by (cases n) auto
  have len: "length (json_tokens v) \<le> n'" "length (members_tokens ms) < n'"
    using Cons.prems m n json_tokens_nonempty [of v] by simp_all
  show ?case
    using Cons.prems(1) m n Cons.IH [OF _ len(2), of "k # seen"] read_complete(1) [OF len(1)] by auto
qed

lemma status_record_iff:
  "decodeStrictStatusRecord ts flds required = Inr ms \<longleftrightarrow>
     ts = json_tokens (JObj ms) \<and> status_conforms flds required ms"
proof
  assume a: "decodeStrictStatusRecord ts flds required = Inr ms"
  obtain r where o: "expect ObjOpen ts = Some r"
    using a by (cases "expect ObjOpen ts") (simp_all add: decodeStrictStatusRecord_def)
  obtain ms1 r1 where m: "status_members (length ts) [] r flds = Inr (ms1, r1)"
    using a o by (cases "status_members (length ts) [] r flds") (auto simp: decodeStrictStatusRecord_def)
  have f: "r1 = []" "filter (\<lambda>k. k \<notin> fst ` set ms1) required = [] \<and> ms1 = ms"
    using a o m by (simp_all add: decodeStrictStatusRecord_def split: if_splits list.splits)
  from status_members_sound [OF m] o f show "ts = json_tokens (JObj ms) \<and> status_conforms flds required ms"
    by (auto simp: status_owes_def status_conforms_def filter_empty_conv)
next
  assume a: "ts = json_tokens (JObj ms) \<and> status_conforms flds required ms"
  then have "status_owes flds [] ms" "filter (\<lambda>k. k \<notin> fst ` set ms) required = []"
    by (auto simp: status_owes_def status_conforms_def filter_empty_conv)
  then show "decodeStrictStatusRecord ts flds required = Inr ms"
    using a status_members_complete [of flds "[]" ms "length ts" "[]"]
    by (simp add: decodeStrictStatusRecord_def)
qed

text \<open>
  \<open>decodeStrictStatusRecord\<close> yields members exactly from the text of one flat object with
  these members, all keys known and unrepeated, all values of their kind, all required keys there.
\<close>

theorem status_checker_exact:
  "decodeStrictStatusRecord ts flds required = Inr ms \<longleftrightarrow>
     ts = json_tokens (JObj ms) \<and> status_conforms flds required ms"
  by (rule status_record_iff)

end
