(* ===== verification/First_Boot_Props.thy ===== *)
theory First_Boot_Props
  imports First_Boot Json_Strict_Props
begin

text \<open>
  When Windows may call an installation healthy: exactly when the record conforms to the strict
  schema, is valid, and matches everything this PC recorded. Consequences: a record speaks for
  one attempt only, and the status report never hides what state.json said.
\<close>

subsection \<open>A record that proves an installation\<close>

definition same_start :: "first_boot_current \<Rightarrow> installation_identity \<Rightarrow> bool" where
  "same_start bc p \<longleftrightarrow> fc_esp bc = [] \<and> fc_loader bc = [] \<or>
     canonicalGUID (fc_esp bc) = canonicalGUID (id_esp p) \<and>
     canonicalLoader (fc_loader bc) = canonicalLoader (id_loader p)"

definition proves_attempt :: "first_boot_evidence \<Rightarrow> installation_identity \<Rightarrow> bool" where
  "proves_attempt ev p \<longleftrightarrow> fe_installation ev = id_installation p \<and>
     \<not> instant_before (go_time (fe_written ev)) (go_time (id_armed_at p)) \<and>
     same_start (fe_current ev) p \<and> fe_disk_path ev = id_root_disk p \<and>
     equal_fold (fe_disk_host ev) (id_host p) \<and> fi_source (fe_image ev) \<noteq> [] \<and>
     sourceImage (fi_source (fe_image ev)) = sourceImage (id_image p) \<and>
     (\<forall>u\<in>set (fe_failed ev). \<not> has_prefix u ''wootc-'')"

definition proves_selection :: "first_boot_image \<Rightarrow> first_boot_expectation \<Rightarrow> bool" where
  "proves_selection img xp \<longleftrightarrow> (fi_source img = [] \<or> fi_source img = xp_image xp) \<and>
     (fi_ref img = xp_image xp \<or> fi_source img = xp_image xp) \<and>
     (xp_digest xp = [] \<or> fi_ref img \<noteq> xp_image xp \<or> fi_digest img = xp_digest xp)"

definition proves_volume :: "string \<Rightarrow> volume_serial \<Rightarrow> bool" where
  "proves_volume host vol \<longleftrightarrow>
     (\<exists>w. parse_hex64 host = Some w \<and>
        (if vs_have64 vol then w = vs_serial64 vol else vs_have32 vol \<and> ucast w = vs_serial32 vol))"

definition proves_installation :: "first_boot_evidence \<Rightarrow> first_boot_expectation \<Rightarrow> bool" where
  "proves_installation ev xp \<longleftrightarrow>
     (case xp_identity xp of None \<Rightarrow> fe_installation ev = [] | Some p \<Rightarrow> proves_attempt ev p) \<and>
     proves_selection (fe_image ev) xp \<and> proves_volume (fe_disk_host ev) (xp_volume xp)"

lemma find_None: "List.find P xs = None \<longleftrightarrow> (\<forall>x\<in>set xs. \<not> P x)"
  by (auto simp: find_None_iff)

lemma checkFirstBootInstallation_None:
  "checkFirstBootInstallation ev identity = None \<longleftrightarrow>
     (case identity of None \<Rightarrow> fe_installation ev = [] | Some p \<Rightarrow> proves_attempt ev p)"
  by (cases identity)
    (auto simp: checkFirstBootInstallation_def proves_attempt_def same_start_def Let_def find_None)

lemma check_volume_None:
  "check_volume w vol = None \<longleftrightarrow>
     (if vs_have64 vol then w = vs_serial64 vol else vs_have32 vol \<and> ucast w = vs_serial32 vol)"
  by (simp add: check_volume_def)

lemma checkFirstBootEvidence_None:
  "checkFirstBootEvidence ev xp = None \<longleftrightarrow> proves_installation ev xp"
proof (cases "checkFirstBootInstallation ev (xp_identity xp)")
  case (Some e)
  then have "\<not> (case xp_identity xp of None \<Rightarrow> fe_installation ev = [] | Some p \<Rightarrow> proves_attempt ev p)"
    using checkFirstBootInstallation_None [of ev "xp_identity xp"] by simp
  then show ?thesis using Some by (simp add: checkFirstBootEvidence_def Let_def proves_installation_def)
next
  case None
  then have "case xp_identity xp of None \<Rightarrow> fe_installation ev = [] | Some p \<Rightarrow> proves_attempt ev p"
    using checkFirstBootInstallation_None [of ev "xp_identity xp"] by simp
  then show ?thesis using None
    by (auto simp: checkFirstBootEvidence_def Let_def proves_installation_def proves_selection_def
        proves_volume_def check_volume_None split: option.splits)
qed

text \<open>Parsing: the strict check leaves one object, which is what is decoded.\<close>

lemma parseFirstBootEvidence_iff:
  "parseFirstBootEvidence ts = Inr ev \<longleftrightarrow>
     (\<exists>ms. ts = json_tokens (JObj ms) \<and> conforms firstBootEvidenceSchema ms \<and> ev = evidence_of ms \<and>
        validateFirstBootEvidence ev = None)"
proof (cases "checkStrictJSON ts firstBootEvidenceSchema")
  case (Some e)
  then show ?thesis using strict_json_iff [of ts firstBootEvidenceSchema]
    by (simp add: parseFirstBootEvidence_def) blast
next
  case None
  then obtain ms where ms: "ts = json_tokens (JObj ms)" "conforms firstBootEvidenceSchema ms"
    unfolding strict_json_iff by blast
  have read: "read_value (length ts) ts = Some (JObj ms, [])"
    using read_complete(1) [of "JObj ms" "length ts" "[]"] ms(1) by simp
  have "json_tokens (JObj ms') = json_tokens (JObj ms) \<Longrightarrow> ms' = ms" for ms'
    by (rule json_tokens_inj)
  then show ?thesis
    using None ms read
    by (auto simp: parseFirstBootEvidence_def Let_def json_members_def split: option.splits simp del: json_tokens.simps)
qed

definition proven_healthy :: "audited_root \<Rightarrow> bool" where
  "proven_healthy rt \<longleftrightarrow>
     (\<exists>ms xp. readBoundedRecord (rt_evidence_file rt) (64 * 1024) = Inr (json_tokens (JObj ms)) \<and>
        conforms firstBootEvidenceSchema ms \<and> validateFirstBootEvidence (evidence_of ms) = None \<and>
        expectFirstBootIdentity rt = Inr xp \<and> proves_installation (evidence_of ms) xp)"

lemma first_verdict_neq:
  "FirstBootWaiting \<noteq> FirstBootVerified" "FirstBootMismatch \<noteq> FirstBootVerified"
  "FirstBootInvalid \<noteq> FirstBootVerified" "FirstBootUnverifiable \<noteq> FirstBootVerified"
  by (simp_all add: first_boot_verdicts)

lemma assess_verified:
  "fa_verdict (assessFirstBootAt name rt) = FirstBootVerified \<longleftrightarrow> proven_healthy rt"
proof (cases "readBoundedRecord (rt_evidence_file rt) (64 * 1024)")
  case (Inl e)
  then show ?thesis by (simp add: assessFirstBootAt_def proven_healthy_def unproven_def Let_def first_verdict_neq)
next
  case read: (Inr ts)
  show ?thesis
  proof (cases "parseFirstBootEvidence ts")
    case (Inl e)
    then have "\<nexists>ms. ts = json_tokens (JObj ms) \<and> conforms firstBootEvidenceSchema ms \<and>
        validateFirstBootEvidence (evidence_of ms) = None"
      using parseFirstBootEvidence_iff [of ts] by auto
    then show ?thesis using Inl read
      by (auto simp: assessFirstBootAt_def proven_healthy_def unproven_def Let_def first_verdict_neq)
  next
    case ev: (Inr ev)
    then obtain ms where ms: "ts = json_tokens (JObj ms)" "conforms firstBootEvidenceSchema ms"
      "ev = evidence_of ms" "validateFirstBootEvidence ev = None" by (auto simp: parseFirstBootEvidence_iff)
    have uniq: "evidence_of ms' = ev" if "json_tokens (JObj ms') = ts" "conforms firstBootEvidenceSchema ms'"
        "validateFirstBootEvidence (evidence_of ms') = None" for ms'
      using that parseFirstBootEvidence_iff [of ts "evidence_of ms'"] ev by auto
    show ?thesis
    proof (cases "expectFirstBootIdentity rt")
      case (Inl e)
      then show ?thesis using read ev
        by (simp add: assessFirstBootAt_def proven_healthy_def unproven_def Let_def first_verdict_neq)
    next
      case xp: (Inr xp)
      have "proven_healthy rt \<longleftrightarrow> proves_installation ev xp"
      proof
        assume "proven_healthy rt"
        then obtain ms' where "json_tokens (JObj ms') = ts" "conforms firstBootEvidenceSchema ms'"
          "validateFirstBootEvidence (evidence_of ms') = None" "proves_installation (evidence_of ms') xp"
          unfolding proven_healthy_def read xp by blast
        with uniq show "proves_installation ev xp" by metis
      next
        assume "proves_installation ev xp"
        with ms show "proven_healthy rt" unfolding proven_healthy_def read xp by blast
      qed
      then show ?thesis using read ev xp
        by (auto simp: assessFirstBootAt_def unproven_def Let_def first_verdict_neq
            checkFirstBootEvidence_None [symmetric] split: option.splits)
    qed
  qed
qed

lemma verified_state:
  "fst (verifiedLifecycleAt name rt st) =
     (if ls_state st = StateHealthy \<and> \<not> proven_healthy rt then st\<lparr>ls_state := StateDeployed\<rparr> else st)"
  by (auto simp: verifiedLifecycleAt_def Let_def assess_verified)

text \<open>
  C18: Windows reports an installation healthy exactly when state.json says so and the first boot
  left a record that conforms to the strict schema, is valid, and matches all that this PC
  recorded of the installation (attempt, arm time, ESP and loader, root.disk, image, volume, no
  failed unit of the installer); otherwise the state reported is the recorded one, except that
  an unproven healthy becomes deployed.
\<close>

theorem healthy_only_proven:
  "(ls_state (fst (verifiedLifecycleAt name rt st)) = StateHealthy \<longleftrightarrow>
      ls_state st = StateHealthy \<and> proven_healthy rt) \<and>
   fst (verifiedLifecycleAt name rt st) =
      (if ls_state st = StateHealthy \<and> \<not> proven_healthy rt then st\<lparr>ls_state := StateDeployed\<rparr> else st)"
  by (auto simp: verified_state)

text \<open>The identity an expectation carries is the one the root's installation.json holds.\<close>

lemma expect_identity:
  "expectFirstBootIdentity rt = Inr xp \<Longrightarrow> read_identity rt = Inr (xp_identity xp)"
  by (auto simp: expectFirstBootIdentity_def Let_def split: sum.splits option.splits)

lemma proven_attempt:
  assumes "proven_healthy rt" "read_identity rt = Inr (Some p)"
    "readBoundedRecord (rt_evidence_file rt) (64 * 1024) = Inr ts" "parseFirstBootEvidence ts = Inr ev"
  shows "proves_attempt ev p"
proof -
  obtain ms xp where ms: "ts = json_tokens (JObj ms)" "conforms firstBootEvidenceSchema ms"
    "validateFirstBootEvidence (evidence_of ms) = None" "expectFirstBootIdentity rt = Inr xp"
    "proves_installation (evidence_of ms) xp"
    using assms(1,3) unfolding proven_healthy_def by (auto simp del: json_tokens.simps)
  then have "parseFirstBootEvidence ts = Inr (evidence_of ms)" by (auto simp: parseFirstBootEvidence_iff)
  then have "ev = evidence_of ms" using assms(4) by simp
  moreover have "xp_identity xp = Some p" using expect_identity [OF ms(4)] assms(2) by simp
  ultimately show ?thesis using ms(5) by (simp add: proves_installation_def)
qed

text \<open>
  A record speaks for one attempt. When the same record makes two installations healthy and
  both have their identity on disk, the identities name the same attempt on the same volume, the
  same root.disk and the same image; so the record of an earlier installation never vouches for
  a later one.
\<close>

theorem evidence_names_one_attempt:
  assumes "proven_healthy rt" "proven_healthy rt'"
    "read_identity rt = Inr (Some p)" "read_identity rt' = Inr (Some p')"
    "rt_evidence_file rt' = rt_evidence_file rt"
  shows "id_installation p' = id_installation p \<and> equal_fold (id_host p') (id_host p) \<and>
    id_root_disk p' = id_root_disk p \<and> sourceImage (id_image p') = sourceImage (id_image p)"
proof -
  from assms(1) obtain ms where
    r: "readBoundedRecord (rt_evidence_file rt) (64 * 1024) = Inr (json_tokens (JObj ms))"
    and c: "conforms firstBootEvidenceSchema ms" "validateFirstBootEvidence (evidence_of ms) = None"
    unfolding proven_healthy_def by blast
  from c have p: "parseFirstBootEvidence (json_tokens (JObj ms)) = Inr (evidence_of ms)"
    unfolding parseFirstBootEvidence_iff by blast
  from proven_attempt [OF assms(1,3) r p] proven_attempt [OF assms(2,4) _ p] r assms(5) show ?thesis
    by (auto simp: proves_attempt_def equal_fold_def)
qed

lemma verifiedLifecycle_keeps:
  "fst (verifiedLifecycleAt name rt st) = st \<or>
     fst (verifiedLifecycleAt name rt st) = st\<lparr>ls_state := StateDeployed\<rparr> \<and> ls_state st = StateHealthy"
  by (simp add: verified_state)

text \<open>
  The status report is honest about an overruled state: it names the recorded state exactly
  when the cross-check overruled it, which it only does from healthy to deployed, and carries an
  assessment exactly for the states deployed and healthy.
\<close>

theorem report_names_overruled:
  "sr_recorded (statusReportAt name rt st) =
     (if ls_state st = StateHealthy \<and> \<not> proven_healthy rt then StateHealthy else []) \<and>
   ls_state (sr_state (statusReportAt name rt st)) =
     (if sr_recorded (statusReportAt name rt st) = [] then ls_state st else StateDeployed) \<and>
   (sr_first_boot (statusReportAt name rt st) \<noteq> None \<longleftrightarrow>
      ls_state st = StateDeployed \<or> ls_state st = StateHealthy)"
proof -
  have s: "sr_state (statusReportAt name rt st) = fst (verifiedLifecycleAt name rt st)"
    "sr_first_boot (statusReportAt name rt st) = snd (verifiedLifecycleAt name rt st)"
    "sr_recorded (statusReportAt name rt st) =
       (if ls_state (fst (verifiedLifecycleAt name rt st)) \<noteq> ls_state st then ls_state st else [])"
    by (simp_all add: statusReportAt_def case_prod_beta)
  have "StateHealthy \<noteq> []" "StateDeployed \<noteq> StateHealthy" by (simp_all add: state_names)
  moreover have "snd (verifiedLifecycleAt name rt st) \<noteq> None \<longleftrightarrow>
      ls_state st = StateDeployed \<or> ls_state st = StateHealthy"
    by (simp add: verifiedLifecycleAt_def Let_def)
  ultimately show ?thesis by (simp add: s verified_state)
qed

end
