(* ===== verification/First_Boot_Witness.thy ===== *)
theory First_Boot_Witness
  imports First_Boot_Props
begin

text \<open>
  A first boot that proves its installation: a concrete root and record, evaluated, for the
  witnesses of \<open>First_Boot_Props\<close>.
\<close>

definition sample_identity :: installation_identity where
  "sample_identity =
     \<lparr>id_schema = 1, id_installation = ''00112233445566778899aabbccddeeff'',
      id_armed_at = ''2026-01-01T10:00:00Z'', id_image = ''ghcr.io/x:1'',
      id_esp = ''0a0b0c0d-1111-2222-3333-444455556666'', id_loader = bs [''EFI'', ''fedora'', ''shimx64.efi''],
      id_host = ''0123456789ABCDEF'', id_root_disk = firstBootRootDiskPath\<rparr>"

definition sample_members :: "(string \<times> json) list" where
  "sample_members =
     [(''schema'', JNum ''1''), (''installationId'', JStr ''00112233445566778899aabbccddeeff''),
      (''state'', JStr ''healthy''), (''sequence'', JNum ''1''),
      (''bootId'', JStr ''0a0b0c0d-1111-2222-3333-444455556666''), (''kernel'', JStr ''6.1''),
      (''image'', JObj [(''ref'', JStr ''ghcr.io/x:1''),
         (''digest'', JStr (''sha256:'' @ replicate 64 (CHR ''a''))), (''sourceRef'', JStr ''ghcr.io/x:1'')]),
      (''bootCurrent'', JObj [(''source'', JStr ''efivarfs'')]),
      (''rootDisk'', JObj [(''path'', JStr ''/wootc/disks/root.disk''), (''hostUuid'', JStr ''0123456789ABCDEF'')]),
      (''bridge'', JObj [(''boundFolders'', JNum ''1''), (''matchedUsers'', JNum ''1''),
         (''bitlockerUnlocked'', JBool False),
         (''bindings'', JArr [JObj [(''source'', JStr ''/w''), (''target'', JStr ''/home/u/D''), (''user'', JStr ''u'')]])]),
      (''secureBoot'', JBool True), (''failedUnits'', JArr []),
      (''writtenAt'', JStr ''2026-01-01T11:00:00Z''), (''updatedBy'', JStr ''wootc-firstboot'')]"

definition record_probe :: "json_token list \<Rightarrow> file_probe" where
  "record_probe ts =
     \<lparr>fp_lstat = Inr \<lparr>st_regular = True, st_length = 900, st_ident = 7\<rparr>, fp_open = None,
      fp_fstat = Inr \<lparr>st_regular = True, st_length = 900, st_ident = 7\<rparr>, fp_data = Inr (900, ts)\<rparr>"

definition absent_probe :: file_probe where
  "absent_probe =
     \<lparr>fp_lstat = Inl NotExist, fp_open = None, fp_fstat = Inl NotExist, fp_data = Inl NotExist\<rparr>"

definition full_serial :: volume_serial where
  "full_serial =
     \<lparr>vs_serial64 = 0x123456789ABCDEF, vs_have64 = True, vs_serial32 = 0, vs_have32 = False\<rparr>"

definition short_serial :: volume_serial where
  "short_serial = \<lparr>vs_serial64 = 0, vs_have64 = False, vs_serial32 = 0x89ABCDEF, vs_have32 = True\<rparr>"

definition sample_root :: "volume_serial \<Rightarrow> audited_root" where
  "sample_root vol =
     \<lparr>rt_identity_file = record_probe [], rt_identity = (\<lambda>ts. Some sample_identity),
      rt_journal_file = absent_probe, rt_bundle = None, rt_bundle_store = False, rt_bundle_layout = False,
      rt_root_disk = Inr \<lparr>st_regular = True, st_length = 1, st_ident = 8\<rparr>,
      rt_volume = Inr vol,
      rt_evidence_file = record_probe (json_tokens (JObj sample_members))\<rparr>"

definition sample_expectation :: "volume_serial \<Rightarrow> first_boot_expectation" where
  "sample_expectation vol =
     \<lparr>xp_image = ''ghcr.io/x:1'', xp_digest = [], xp_volume = vol,
      xp_identity = Some sample_identity\<rparr>"

lemma sample_strict: "checkStrictJSON (json_tokens (JObj sample_members)) firstBootEvidenceSchema = None"
  by code_simp

lemma sample_valid: "validateFirstBootEvidence (evidence_of sample_members) = None"
  by code_simp

lemma sample_identity_valid: "validateInstallationIdentity sample_identity = None"
  by code_simp

lemma sample_attempt: "checkFirstBootInstallation (evidence_of sample_members) (Some sample_identity) = None"
  by code_simp

lemma sample_host: "parse_hex64 ''0123456789ABCDEF'' = Some 0x123456789ABCDEF"
proof -
  have "hex_int ''0123456789ABCDEF'' = 0x123456789ABCDEF" "list_all is_hex ''0123456789ABCDEF''"
    by code_simp+
  then show ?thesis unfolding parse_hex64_def by (simp only:) simp
qed

lemma sample_volumes: "check_volume 0x123456789ABCDEF full_serial = None" "check_volume 0x123456789ABCDEF short_serial = None"
  by (simp_all add: check_volume_def full_serial_def short_serial_def)

lemma sample_proves:
  "check_volume 0x123456789ABCDEF vol = None \<Longrightarrow>
     checkFirstBootEvidence (evidence_of sample_members) (sample_expectation vol) = None"
proof -
  assume v: "check_volume 0x123456789ABCDEF vol = None"
  have "fe_image (evidence_of sample_members) =
      \<lparr>fi_ref = ''ghcr.io/x:1'', fi_digest = ''sha256:'' @ replicate 64 (CHR ''a''), fi_source = ''ghcr.io/x:1''\<rparr>"
    by code_simp
  moreover have "fe_disk_host (evidence_of sample_members) = ''0123456789ABCDEF''" by code_simp
  ultimately show ?thesis
    by (simp add: checkFirstBootEvidence_def sample_expectation_def sample_attempt sample_host v Let_def)
qed

lemma sample_read_identity: "read_identity (sample_root vol) = Inr (Some sample_identity)"
  by (simp add: read_identity_def sample_root_def record_probe_def readBoundedStatusRecord_def
      readBoundedRecord_def sample_identity_valid)

lemma sample_expected: "expectFirstBootIdentity (sample_root vol) = Inr (sample_expectation vol)"
proof -
  have "readNativeInstallJournal (rt_journal_file (sample_root vol)) = Inr None"
    by (simp add: sample_root_def readNativeInstallJournal_def readBoundedStatusRecord_def
        readBoundedRecord_def absent_probe_def)
  then show ?thesis
    by (simp add: expectFirstBootIdentity_def sample_read_identity Let_def)
      (simp add: sample_root_def select_image_def sample_identity_def readBundleInfoAt_def
        nativeRegularFile_def bundle_digest_def sample_expectation_def)
qed

lemma sample_healthy:
  assumes "check_volume 0x123456789ABCDEF vol = None"
  shows "proven_healthy (sample_root vol)"
proof -
  have "readBoundedRecord (rt_evidence_file (sample_root vol)) (64 * 1024) = Inr (json_tokens (JObj sample_members))"
    by (simp add: sample_root_def record_probe_def readBoundedRecord_def)
  moreover have "conforms firstBootEvidenceSchema sample_members"
  proof -
    obtain ms where ms: "json_tokens (JObj sample_members) = json_tokens (JObj ms)"
      "conforms firstBootEvidenceSchema ms"
      using sample_strict unfolding strict_json_iff by blast
    show ?thesis using json_tokens_inj [OF ms(1)] ms(2) by simp
  qed
  moreover note sample_valid sample_expected
  moreover have "proves_installation (evidence_of sample_members) (sample_expectation vol)"
    using sample_proves [OF assms] by (simp add: checkFirstBootEvidence_None)
  ultimately show ?thesis unfolding proven_healthy_def by blast
qed

theorem evidence_names_one_attempt_witness:
  "id_installation sample_identity = id_installation sample_identity \<and>
    equal_fold (id_host sample_identity) (id_host sample_identity) \<and>
    id_root_disk sample_identity = id_root_disk sample_identity \<and>
    sourceImage (id_image sample_identity) = sourceImage (id_image sample_identity)"
  by (rule evidence_names_one_attempt
      [of "sample_root full_serial" "sample_root short_serial", OF sample_healthy sample_healthy
        sample_read_identity sample_read_identity])
    (simp_all add: sample_volumes, simp add: sample_root_def)

text \<open>
  The selection is compared without the transport prefix in the attempt check and with it in the
  selection check: a first boot of this very attempt is refused when the identity names the image
  with \<open>docker://\<close>.
\<close>

lemma prefixed_selection_refused:
  "checkFirstBootInstallation (evidence_of sample_members)
     (Some (sample_identity\<lparr>id_image := ''docker://ghcr.io/x:1''\<rparr>)) = None"
  "checkFirstBootEvidence (evidence_of sample_members)
     ((sample_expectation full_serial)\<lparr>xp_image := ''docker://ghcr.io/x:1'',
        xp_identity := Some (sample_identity\<lparr>id_image := ''docker://ghcr.io/x:1''\<rparr>)\<rparr>) =
     Some (OtherSelection ''ghcr.io/x:1'' ''docker://ghcr.io/x:1'')"
  by code_simp+

end
