(* ===== verification/Native_Consent.thy ===== *)
theory Native_Consent
  imports Json_Strict Boot_Repair Install_Engine
begin

text \<open>
  One-shot consent of the native install-purpose session: the plans a shell may send and their
  strict decoding, the admission of a plan from the engine's own observations, and the three
  authorities that run a granted plan at most once (\<open>app/native_maintenance.go\<close>,
  \<open>app/native_vm.go\<close>, \<open>app/native_install_authorization_windows.go\<close>,
  \<open>app/native_install_plan.go\<close>). The engine's callbacks act on a world of any type: a callback
  takes the world and returns its answer and the world after it, so everything that happens on
  the machine between two calls is part of what the callbacks return. Every run of a granted
  plan is returned as an event.
\<close>

subsection \<open>Parameters of a request\<close>

text \<open>The length of the raw text and its tokens; \<open>NullParams\<close> is the text null.\<close>

datatype rpc_params = NoParams | NullParams | Params int "json_token list"

definition raw_params :: "rpc_params \<Rightarrow> int \<times> json_token list" where
  "raw_params p = (case p of NoParams \<Rightarrow> (0, []) | NullParams \<Rightarrow> (4, [NullToken]) | Params n ts \<Rightarrow> (n, ts))"

definition given_params :: "rpc_params \<Rightarrow> bool" where
  "given_params p \<longleftrightarrow> (case p of Params n ts \<Rightarrow> True | _ \<Rightarrow> False)"

fun object_members ::
  "(string \<Rightarrow> json \<Rightarrow> bool) \<Rightarrow> nat \<Rightarrow> string list \<Rightarrow> json_token list \<Rightarrow> ((string \<times> json) list \<times> json_token list) option"
where
  "object_members ok 0 seen ts = None"
| "object_members ok (Suc n) seen ts =
     (if \<not> has_more ts then map_option (Pair []) (expect ObjClose ts)
      else (case take_key ts of
              None \<Rightarrow> None
            | Some (key, r) \<Rightarrow>
                if key \<in> set seen then None
                else (case read_value n r of
                        None \<Rightarrow> None
                      | Some (v, r1) \<Rightarrow>
                          if ok key v then map_option (apfst (Cons (key, v))) (object_members ok n (key # seen) r1)
                          else None)))"

definition one_object :: "(string \<Rightarrow> json \<Rightarrow> bool) \<Rightarrow> json_token list \<Rightarrow> (string \<times> json) list option" where
  "one_object ok ts =
     (case expect ObjOpen ts of
        None \<Rightarrow> None
      | Some r \<Rightarrow> (case object_members ok (length ts) [] r of Some (ms, []) \<Rightarrow> Some ms | _ \<Rightarrow> None))"

definition strictJSONObject ::
  "int \<times> json_token list \<Rightarrow> int \<Rightarrow> string list \<Rightarrow> string list \<Rightarrow> (string \<times> json) list option" where
  "strictJSONObject raw limit allowed required =
     (if fst raw = 0 \<or> limit < fst raw then None
      else (case one_object (\<lambda>k v. k \<in> set allowed \<and> v \<noteq> JNull) (snd raw) of
              None \<Rightarrow> None
            | Some ms \<Rightarrow> if list_all (\<lambda>k. k \<in> fst ` set ms) required then Some ms else None))"

text \<open>\<open>Decoder.Decode\<close> into a struct with fields of these kinds; a null leaves the zero value.\<close>

definition decodes :: "string smap \<Rightarrow> (string \<times> json) list \<Rightarrow> bool" where
  "decodes kinds ms \<longleftrightarrow>
     list_all (\<lambda>(k, v). v = JNull \<or>
       (case map_of kinds k of Some kind \<Rightarrow> status_value_ok kind v | None \<Rightarrow> False)) ms"

definition lowerHexLength :: "string \<Rightarrow> nat \<Rightarrow> bool" where
  "lowerHexLength s n \<longleftrightarrow> length s = n \<and> list_all is_lower_hex s"

datatype refusal_text = Text string | RepairRefused "repair_refusal list" | RestoreRefused "repair_refusal list"

definition show_bool :: "bool \<Rightarrow> string" where
  "show_bool b = (if b then ''true'' else ''false'')"

subsection \<open>The install plan\<close>

definition install_plan_kinds :: "string smap" where
  "install_plan_kinds =
     [(''imageRef'', ''string''), (''diskSizeGB'', ''int''), (''username'', ''string''), (''password'', ''string''),
      (''hostname'', ''string''), (''bootloader'', ''string''), (''composeFs'', ''bool''),
      (''storageDrive'', ''string''), (''encryption'', ''string''), (''luksPassphrase'', ''string''),
      (''windowsLook'', ''bool'')]"

definition install_plan_of :: "(string \<times> json) list \<Rightarrow> install_config" where
  "install_plan_of ms =
     \<lparr>ic_image = str_member ms ''imageRef'', ic_disk_gb = int_member ms ''diskSizeGB'',
      ic_username = str_member ms ''username'', ic_password = str_member ms ''password'',
      ic_hostname = str_member ms ''hostname'', ic_bootloader = str_member ms ''bootloader'',
      ic_composefs = bool_member ms ''composeFs'', ic_drive = str_member ms ''storageDrive'',
      ic_encryption = str_member ms ''encryption'', ic_luks_passphrase = str_member ms ''luksPassphrase'',
      ic_windows_look = bool_member ms ''windowsLook'', ic_session_consent = [], ic_fault = []\<rparr>"

definition decodeNativeInstallPlan :: "rpc_params \<Rightarrow> string + install_config" where
  "decodeNativeInstallPlan p =
     (let raw = raw_params p in
      if fst raw = 0 \<or> 16384 < fst raw then Inl ''install plan refused''
      else (case one_object (\<lambda>k v. k \<in> fst ` set install_plan_kinds \<and> v \<noteq> JNull) (snd raw) of
              None \<Rightarrow> Inl ''install plan refused''
            | Some ms \<Rightarrow>
                if \<not> decodes install_plan_kinds ms then Inl ''install plan refused''
                else (let cfg = install_plan_of ms
                      in if ic_image cfg = [] \<or> ic_username cfg = [] \<or> ic_password cfg = [] \<or>
                            ic_drive cfg = [] \<or> ic_disk_gb cfg \<le> 0
                         then Inl ''install plan is incomplete'' else Inr cfg)))"

text \<open>What an intent stays bound to: one observed volume and one admitted image.\<close>

record native_storage =
  ns_id :: string
  ns_letter :: string
  ns_disk_guid :: string
  ns_partition_guid :: string
  ns_serial :: string
  ns_free :: int
  ns_maximum :: int

record native_image =
  ni_ref :: string
  ni_admitted :: bool
  ni_blocked :: string

record native_snapshot =
  nn_storage_status :: string
  nn_storage :: "native_storage list"
  nn_images :: "native_image list"

record plan_binding =
  pb_volume :: native_storage
  pb_image :: string

definition bindNativeInstallPlan :: "native_snapshot \<Rightarrow> install_config \<Rightarrow> string + plan_binding" where
  "bindNativeInstallPlan snap plan =
     (if nn_storage_status snap \<noteq> ''observed''
      then Inl (''the engine did not observe this computer'' @ [CHR 0x27] @ ''s storage; read the Linux configuration again'')
      else (case filter (\<lambda>v. ns_letter v = ic_drive plan) (nn_storage snap) of
              [vol] \<Rightarrow>
                if ic_disk_gb plan < 20 \<or> ns_maximum vol < ic_disk_gb plan
                then Inl (''the chosen volume does not have room for a '' @ dec_int (ic_disk_gb plan) @ '' GB Linux disk'')
                else (case filter (\<lambda>c. ni_ref c = ic_image plan) (nn_images snap) of
                        [img] \<Rightarrow>
                          if \<not> ni_admitted img then Inl (ni_blocked img)
                          else Inr \<lparr>pb_volume = vol, pb_image = ni_ref img\<rparr>
                      | _ \<Rightarrow> Inl ''the chosen image is not in the catalogue the engine observed'')
            | _ \<Rightarrow> Inl ''the chosen storage volume is not one the engine observed''))"

definition unchangedIn :: "plan_binding \<Rightarrow> native_snapshot \<Rightarrow> install_config \<Rightarrow> string option" where
  "unchangedIn b snap plan =
     (case bindNativeInstallPlan snap plan of
        Inl e \<Rightarrow> Some e
      | Inr current \<Rightarrow>
          (let v = pb_volume b; c = pb_volume current in
           if ns_id c \<noteq> ns_id v \<or> ns_disk_guid c \<noteq> ns_disk_guid v \<or>
              ns_partition_guid c \<noteq> ns_partition_guid v \<or> ns_serial c \<noteq> ns_serial v \<or> pb_image current \<noteq> pb_image b
           then Some ''the chosen storage volume changed since the plan was checked'' else None))"

subsection \<open>The maintenance plan\<close>

record maintenance_plan =
  mp_action :: string
  mp_delete :: bool
  mp_remove :: bool

definition maintenance_kinds :: "string smap" where
  "maintenance_kinds = [(''action'', ''string''), (''deleteRootDisk'', ''bool''), (''removePartition'', ''bool'')]"

definition nativeMaintenanceUninstall :: string where "nativeMaintenanceUninstall = ''uninstall''"
definition nativeMaintenanceRepairBoot :: string where "nativeMaintenanceRepairBoot = ''repair-boot''"
definition nativeMaintenanceRestoreWindows :: string where "nativeMaintenanceRestoreWindows = ''restore-windows-boot''"
definition nativeMaintenanceTryAgain :: string where "nativeMaintenanceTryAgain = ''try-again''"
definition nativeMaintenanceBootLinux :: string where "nativeMaintenanceBootLinux = ''boot-linux''"

lemmas maintenance_actions = nativeMaintenanceUninstall_def nativeMaintenanceRepairBoot_def
  nativeMaintenanceRestoreWindows_def nativeMaintenanceTryAgain_def nativeMaintenanceBootLinux_def

definition decodeNativeMaintenancePlan :: "rpc_params \<Rightarrow> maintenance_plan option" where
  "decodeNativeMaintenancePlan p =
     (case strictJSONObject (raw_params p) 1024 (map fst maintenance_kinds) [''action''] of
        None \<Rightarrow> None
      | Some ms \<Rightarrow>
          if \<not> decodes maintenance_kinds ms then None
          else (let plan = \<lparr>mp_action = str_member ms ''action'', mp_delete = bool_member ms ''deleteRootDisk'',
                            mp_remove = bool_member ms ''removePartition''\<rparr>
                in if mp_action plan = nativeMaintenanceUninstall then Some plan
                   else if mp_action plan \<in> {nativeMaintenanceRepairBoot, nativeMaintenanceRestoreWindows,
                             nativeMaintenanceTryAgain, nativeMaintenanceBootLinux}
                   then (if mp_delete plan \<or> mp_remove plan then None else Some plan)
                   else None))"

record uninstall_info =
  un_found :: bool
  un_drive :: string
  un_disk_path :: string
  un_removal_reason :: string
  un_dedicated :: bool
  un_reclaim :: rat
  un_label :: string
  un_orphaned :: bool
  un_deployed :: bool

record maintenance_observation =
  mo_running :: bool
  mo_info :: uninstall_info
  mo_boot :: boot_report
  mo_verdict :: recovery_verdict

definition bar :: "string list \<Rightarrow> string" where
  "bar xs = join_with ''|'' xs"

definition admitNativeMaintenance ::
  "maintenance_plan \<Rightarrow> maintenance_observation \<Rightarrow> refusal_text + string" where
  "admitNativeMaintenance plan ob =
     (let info = mo_info ob; boot = mo_boot ob; action = mp_action plan;
          boot_facts = bar [action, rr_state boot, rr_ownership boot, join_with '','' (rr_entries boot),
            show_bool (rr_can_repair boot), show_bool (rr_can_restore boot)]
      in if mo_running ob then Inl (Text ''an installation is running; wait for it to finish or cancel it first'')
         else if action = nativeMaintenanceUninstall then
           (if \<not> un_found info \<and> \<not> un_orphaned info
            then Inl (Text ''no installation was found on this PC, so there is nothing to remove'')
            else if mp_delete plan \<and> un_orphaned info
            then Inl (Text ''the Linux disk file is already gone, so there is no Linux data to delete'')
            else if mp_remove plan \<and> \<not> (un_dedicated info \<and> 0 < un_reclaim info)
            then Inl (Text (if un_removal_reason info \<noteq> [] then un_removal_reason info
              else ''the storage volume was not created for this installation, so it cannot be removed''))
            else Inr (bar [''uninstall'', show_bool (un_found info), show_bool (un_orphaned info), un_disk_path info,
              un_drive info, show_bool (un_dedicated info), un_label info]))
         else if action = nativeMaintenanceRepairBoot then
           (if \<not> rr_can_repair boot then Inl (RepairRefused (rr_refusals boot)) else Inr boot_facts)
         else if action = nativeMaintenanceRestoreWindows then
           (if \<not> rr_can_restore boot then Inl (RestoreRefused (rr_refusals boot)) else Inr boot_facts)
         else if action = nativeMaintenanceTryAgain then
           (if \<not> rv_try_again (mo_verdict ob)
            then Inl (Text ''there is no recorded installation attempt to try again'')
            else Inr (bar [''try-again'', rv_verdict (mo_verdict ob), rv_timestamp (mo_verdict ob)]))
         else if action = nativeMaintenanceBootLinux then
           (if \<not> un_deployed info
            then Inl (Text ''the installation has not finished on this PC, so there is nothing to start'')
            else Inr (bar [''boot-linux'', show_bool (un_deployed info), un_disk_path info]))
         else Inl (Text ''maintenance plan refused''))"

subsection \<open>The plan of a VM action\<close>

record vm_plan =
  vp_action :: string
  vp_image :: string
  vp_username :: string
  vp_password :: string

definition vm_kinds :: "string smap" where
  "vm_kinds = [(''action'', ''string''), (''imageRef'', ''string''), (''username'', ''string''), (''password'', ''string'')]"

definition nativeVMInstallRuntime :: string where "nativeVMInstallRuntime = ''install-runtime''"
definition nativeVMPrepare :: string where "nativeVMPrepare = ''prepare''"
definition nativeVMBoot :: string where "nativeVMBoot = ''boot''"
definition nativeVMStop :: string where "nativeVMStop = ''stop''"
definition nativeVMForceStop :: string where "nativeVMForceStop = ''force-stop''"

lemmas vm_actions = nativeVMInstallRuntime_def nativeVMPrepare_def nativeVMBoot_def nativeVMStop_def
  nativeVMForceStop_def

definition vm_name_char :: "char \<Rightarrow> bool" where
  "vm_name_char c \<longleftrightarrow> (let n = code_of c in (97 \<le> n \<and> n \<le> 122) \<or> c = CHR ''_'')"

definition vmUsernamePattern :: "string \<Rightarrow> bool" where
  "vmUsernamePattern s \<longleftrightarrow>
     (case s of
        [] \<Rightarrow> False
      | c # r \<Rightarrow> vm_name_char c \<and> length r \<le> 31 \<and>
          list_all (\<lambda>d. vm_name_char d \<or> is_digit d \<or> d = CHR ''-'') r)"

definition validateVMInstallConfig :: "string \<Rightarrow> string \<Rightarrow> string \<Rightarrow> string option" where
  "validateVMInstallConfig img username password =
     (if img = [] \<or> contains_any img [CHR '' '', CHR 0x09, CHR 0x0D, CHR 0x0A, CHR 0x00]
      then Some ''select a valid operating system image''
      else if \<not> vmUsernamePattern username \<or> username = ''root''
      then Some ''choose a Linux username of up to 32 lowercase letters, digits, underscores or hyphens, beginning with a letter or underscore; root is reserved''
      else if password = [] \<or> 1024 < length password \<or> contains_any password [CHR 0x00, CHR 0x0D, CHR 0x0A]
      then Some ''enter a password without line breaks, up to 1024 bytes''
      else None)"

definition decodeNativeVMPlan :: "rpc_params \<Rightarrow> string + vm_plan" where
  "decodeNativeVMPlan p =
     (case strictJSONObject (raw_params p) 4096 (map fst vm_kinds) [''action''] of
        None \<Rightarrow> Inl ''VM action refused''
      | Some ms \<Rightarrow>
          if \<not> decodes vm_kinds ms then Inl ''VM action refused''
          else (let plan = \<lparr>vp_action = str_member ms ''action'', vp_image = str_member ms ''imageRef'',
                            vp_username = str_member ms ''username'', vp_password = str_member ms ''password''\<rparr>
                in if vp_action plan = nativeVMPrepare
                   then (case validateVMInstallConfig (vp_image plan) (vp_username plan) (vp_password plan) of
                           Some e \<Rightarrow> Inl e | None \<Rightarrow> Inr plan)
                   else if vp_action plan \<in> {nativeVMInstallRuntime, nativeVMBoot, nativeVMStop, nativeVMForceStop}
                   then (if vp_image plan \<noteq> [] \<or> vp_username plan \<noteq> [] \<or> vp_password plan \<noteq> []
                         then Inl ''VM action refused'' else Inr plan)
                   else Inl ''VM action refused''))"

record vm_capability =
  vc_available :: bool
  vc_reason :: string
  vc_accelerator :: string
  vc_runtime_needed :: bool

record vm_view =
  vw_phase :: string
  vw_image :: string
  vw_username :: string
  vw_ready :: bool
  vw_error :: string

record vm_observation =
  vo_installing :: bool
  vo_state :: vm_view
  vo_launch :: vm_capability
  vo_prepare :: vm_capability

definition no_capability :: vm_capability where
  "no_capability = \<lparr>vc_available = False, vc_reason = [], vc_accelerator = [], vc_runtime_needed = False\<rparr>"

definition vmReady :: string where "vmReady = ''ready''"
definition vmStopped :: string where "vmStopped = ''stopped''"
definition vmRunning :: string where "vmRunning = ''running''"
definition vmStarting :: string where "vmStarting = ''starting''"
definition vmStopping :: string where "vmStopping = ''stopping''"
definition vmPreparing :: string where "vmPreparing = ''preparing''"

lemmas vm_phases = vmReady_def vmStopped_def vmRunning_def vmStarting_def vmStopping_def vmPreparing_def

definition vm_phase :: "vm_observation \<Rightarrow> string" where
  "vm_phase ob = (if vw_phase (vo_state ob) = [] then ''absent'' else vw_phase (vo_state ob))"

definition nonEmpty :: "string \<Rightarrow> string \<Rightarrow> string" where
  "nonEmpty s fallback = (if s \<noteq> [] then s else fallback)"

definition admitNativeVMAction :: "vm_plan \<Rightarrow> vm_observation \<Rightarrow> string + string" where
  "admitNativeVMAction plan ob =
     (let phase = vm_phase ob; action = vp_action plan; facts = bar [action, phase, vw_image (vo_state ob)]
      in if vo_installing ob then Inl ''an installation is running; wait for it to finish or cancel it first''
         else if action = nativeVMInstallRuntime then
           (if phase \<noteq> ''absent'' \<or> \<not> vc_runtime_needed (vo_prepare ob)
            then Inl ''the Linux window runtime is not needed now'' else Inr facts)
         else if action = nativeVMPrepare then
           (if phase \<noteq> ''absent''
            then Inl ''a Linux system is already prepared on this PC; start it or remove it first''
            else if \<not> vc_available (vo_prepare ob)
            then Inl (nonEmpty (vc_reason (vo_prepare ob)) ''Linux in a window cannot be prepared on this PC'')
            else Inr (bar [facts, vp_image plan, vp_username plan]))
         else if action = nativeVMBoot then
           (if phase \<noteq> vmReady \<and> phase \<noteq> vmStopped
            then Inl (''the Linux system cannot start from '' @ phase @ ''; resolve that first'')
            else if \<not> vc_available (vo_launch ob)
            then Inl (nonEmpty (vc_reason (vo_launch ob)) ''Linux in a window cannot start on this PC'')
            else Inr facts)
         else if action = nativeVMStop then
           (if phase \<noteq> vmRunning \<and> phase \<noteq> vmStarting
            then Inl ''no running Linux system is owned by this session'' else Inr facts)
         else if action = nativeVMForceStop then
           (if phase \<noteq> vmRunning \<and> phase \<noteq> vmStarting \<and> phase \<noteq> vmStopping \<and> phase \<noteq> vmPreparing
            then Inl ''no active Linux system is owned by this session'' else Inr facts)
         else Inl ''VM action refused'')"

end
