(* ===== verification/Native_Session.thy ===== *)
theory Native_Session
  imports Native_Consent
begin

text \<open>
  The authorities and the session that holds them (\<open>app/native_install_session.go\<close>,
  \<open>app/native_install_session_windows.go\<close>, \<open>app/native_install_authorization_windows.go\<close>,
  \<open>app/native_maintenance.go\<close>, \<open>app/native_vm.go\<close>). The server handles one request at a time,
  so a dispatch is one step of the session.
\<close>

subsection \<open>Checks on a world\<close>

text \<open>A step answers with an error or a value and leaves a world.\<close>

type_synonym ('w, 'e, 'a) step = "'w \<Rightarrow> ('e + 'a) \<times> 'w"

definition and_then :: "('w, 'e, 'a) step \<Rightarrow> ('a \<Rightarrow> ('w, 'e, 'b) step) \<Rightarrow> ('w, 'e, 'b) step" where
  "and_then m f w = (case m w of (Inl e, w1) \<Rightarrow> (Inl e, w1) | (Inr x, w1) \<Rightarrow> f x w1)"

definition passes :: "('w \<Rightarrow> string option \<times> 'w) \<Rightarrow> ('w, refusal_text, unit) step" where
  "passes check w = (case check w of (Some e, w1) \<Rightarrow> (Inl (Text e), w1) | (None, w1) \<Rightarrow> (Inr (), w1))"

definition observed :: "('w \<Rightarrow> 'a \<times> 'w) \<Rightarrow> ('w, 'e, 'a) step" where
  "observed ob w = (let (x, w1) = ob w in (Inr x, w1))"

definition decided :: "'e + 'a \<Rightarrow> ('w, 'e, 'a) step" where
  "decided r w = (r, w)"

definition required :: "bool \<Rightarrow> 'e \<Rightarrow> ('w, 'e, unit) step" where
  "required b e w = (if b then Inr () else Inl e, w)"

text \<open>A fallible callback whose error is replaced.\<close>

definition or_refuse :: "string \<Rightarrow> ('w \<Rightarrow> (string + 'a) \<times> 'w) \<Rightarrow> ('w, refusal_text, 'a) step" where
  "or_refuse msg m w = (case m w of (Inl e, w1) \<Rightarrow> (Inl (Text msg), w1) | (Inr x, w1) \<Rightarrow> (Inr x, w1))"

definition text_error :: "string + 'a \<Rightarrow> refusal_text + 'a" where
  "text_error r = (case r of Inl e \<Rightarrow> Inl (Text e) | Inr x \<Rightarrow> Inr x)"

subsection \<open>Confirmations\<close>

text \<open>The members a confirmation must have, and the binding to session, brand and intent.\<close>

definition install_confirmation_kinds :: "string smap" where
  "install_confirmation_kinds =
     [(''kind'', ''string''), (''protocolVersion'', ''int''), (''session'', ''string''), (''brandId'', ''string''),
      (''intentId'', ''string'')]"

definition confirmation_kinds :: "string smap" where
  "confirmation_kinds = install_confirmation_kinds @ [(''action'', ''string'')]"

definition decodeNativeInstallConfirmation :: "int \<times> json_token list \<Rightarrow> (string \<times> json) list option" where
  "decodeNativeInstallConfirmation raw =
     (if fst raw = 0 \<or> 4096 < fst raw then None
      else (case one_object (\<lambda>k v. k \<in> fst ` set install_confirmation_kinds) (snd raw) of
              None \<Rightarrow> None
            | Some ms \<Rightarrow>
                if list_all (\<lambda>k. k \<in> fst ` set ms) (map fst install_confirmation_kinds) \<and>
                   decodes install_confirmation_kinds ms
                then Some ms else None))"

definition decode_confirmation :: "int \<times> json_token list \<Rightarrow> (string \<times> json) list option" where
  "decode_confirmation raw =
     (case strictJSONObject raw 4096 (map fst confirmation_kinds) (map fst confirmation_kinds) of
        None \<Rightarrow> None
      | Some ms \<Rightarrow> if decodes confirmation_kinds ms then Some ms else None)"

definition confirms :: "string \<Rightarrow> string \<Rightarrow> string \<Rightarrow> string \<Rightarrow> (string \<times> json) list \<Rightarrow> bool" where
  "confirms kind session brand intent ms \<longleftrightarrow>
     str_member ms ''kind'' = kind \<and> int_member ms ''protocolVersion'' = 1 \<and>
     str_member ms ''session'' = session \<and> str_member ms ''brandId'' = brand \<and>
     str_member ms ''intentId'' = intent \<and> lowerHexLength (str_member ms ''intentId'') 32"

subsection \<open>Maintenance\<close>

record 'w maintenance_host =
  mh_session :: string
  mh_brand :: string
  mh_complete :: bool
  mh_running :: "'w \<Rightarrow> bool \<times> 'w"
  mh_info :: "'w \<Rightarrow> uninstall_info \<times> 'w"
  mh_boot :: "'w \<Rightarrow> boot_report \<times> 'w"
  mh_inspect :: "'w \<Rightarrow> boot_report \<times> 'w"
  mh_verdict :: "'w \<Rightarrow> recovery_verdict \<times> 'w"
  mh_user :: "'w \<Rightarrow> string option \<times> 'w"
  mh_nonce :: "'w \<Rightarrow> (string + string) \<times> 'w"
  mh_run :: "maintenance_plan \<Rightarrow> 'w \<Rightarrow> string option \<times> 'w"

definition maintenance_usable :: "'w maintenance_host \<Rightarrow> bool" where
  "maintenance_usable h \<longleftrightarrow> lowerHexLength (mh_session h) 32 \<and> mh_brand h \<noteq> [] \<and> mh_complete h"

definition observe_maintenance :: "'w maintenance_host \<Rightarrow> 'w \<Rightarrow> maintenance_observation \<times> 'w" where
  "observe_maintenance h w =
     (let (running, w1) = mh_running h w; (info, w2) = mh_info h w1; (boot, w3) = mh_boot h w2;
          (verdict, w4) = mh_verdict h w3
      in (\<lparr>mo_running = running, mo_info = info, mo_boot = boot, mo_verdict = verdict\<rparr>, w4))"

record maintenance_auth =
  ma_intent :: string
  ma_plan :: maintenance_plan
  ma_facts :: string
  ma_used :: bool

record maintenance_grant =
  mg_session :: string
  mg_brand :: string
  mg_intent :: string
  mg_plan :: maintenance_plan
  mg_disk_path :: string
  mg_drive :: string
  mg_label :: string
  mg_orphaned :: bool
  mg_boot_state :: string

definition prepare_maintenance ::
  "'w maintenance_host \<Rightarrow> maintenance_plan \<Rightarrow> ('w, refusal_text, maintenance_auth \<times> maintenance_grant) step" where
  "prepare_maintenance h plan =
     and_then (required (maintenance_usable h) (Text ''native maintenance unavailable'')) (\<lambda>_.
     and_then (passes (mh_user h)) (\<lambda>_.
     and_then (observed (observe_maintenance h)) (\<lambda>ob.
     and_then (decided (admitNativeMaintenance plan ob)) (\<lambda>facts.
     and_then (passes (mh_user h)) (\<lambda>_.
     and_then (or_refuse ''native maintenance intent unavailable'' (mh_nonce h)) (\<lambda>intent.
     decided (Inr (\<lparr>ma_intent = intent, ma_plan = plan, ma_facts = facts, ma_used = False\<rparr>,
       \<lparr>mg_session = mh_session h, mg_brand = mh_brand h, mg_intent = intent, mg_plan = plan,
        mg_disk_path = un_disk_path (mo_info ob), mg_drive = un_drive (mo_info ob),
        mg_label = un_label (mo_info ob), mg_orphaned = un_orphaned (mo_info ob),
        mg_boot_state = rr_state (mo_boot ob)\<rparr>))))))))"

definition no_maintenance_plan :: maintenance_plan where
  "no_maintenance_plan = \<lparr>mp_action = [], mp_delete = False, mp_remove = False\<rparr>"

text \<open>What must hold again before a granted plan runs.\<close>

definition recheck_maintenance ::
  "'w maintenance_host \<Rightarrow> maintenance_auth \<Rightarrow> int \<times> json_token list \<Rightarrow> ('w, refusal_text, unit) step" where
  "recheck_maintenance h a data =
     (case decode_confirmation data of
        None \<Rightarrow> decided (Inl (Text ''native maintenance confirmation refused''))
      | Some ms \<Rightarrow>
          and_then (required (maintenance_usable h \<and>
              confirms ''confirm-maintenance'' (mh_session h) (mh_brand h) (ma_intent a) ms \<and>
              str_member ms ''action'' = mp_action (ma_plan a))
            (Text ''native maintenance confirmation binding refused'')) (\<lambda>_.
          and_then (passes (mh_user h)) (\<lambda>_.
          and_then (observed (observe_maintenance h)) (\<lambda>ob.
          and_then (decided (admitNativeMaintenance (ma_plan a) ob)) (\<lambda>current.
          and_then (required (current = ma_facts a)
            (Text ''this PC changed since the plan was checked; nothing was changed'')) (\<lambda>_.
          passes (mh_user h)))))))"

definition confirm_maintenance ::
  "'w maintenance_host \<Rightarrow> int \<times> json_token list \<Rightarrow> maintenance_auth \<Rightarrow> 'w \<Rightarrow>
     ((refusal_text option \<times> maintenance_plan list) \<times> maintenance_auth) \<times> 'w" where
  "confirm_maintenance h data a w =
     (if ma_used a then (((Some (Text ''native maintenance intent already consumed''), []), a), w)
      else (let spent = a\<lparr>ma_used := True, ma_plan := no_maintenance_plan, ma_facts := []\<rparr>
            in case recheck_maintenance h a data w of
                 (Inl e, w1) \<Rightarrow> (((Some e, []), spent), w1)
               | (Inr _, w1) \<Rightarrow>
                   (let (e, w2) = mh_run h (ma_plan a) w1
                    in (((map_option Text e, [ma_plan a]), spent), w2))))"

subsection \<open>The virtual machine\<close>

record 'w vm_host =
  vh_session :: string
  vh_brand :: string
  vh_complete :: bool
  vh_installing :: "'w \<Rightarrow> bool \<times> 'w"
  vh_state :: "'w \<Rightarrow> vm_view \<times> 'w"
  vh_launch :: "'w \<Rightarrow> vm_capability \<times> 'w"
  vh_prepare :: "'w \<Rightarrow> vm_capability \<times> 'w"
  vh_user :: "'w \<Rightarrow> string option \<times> 'w"
  vh_nonce :: "'w \<Rightarrow> (string + string) \<times> 'w"
  vh_run :: "vm_plan \<Rightarrow> 'w \<Rightarrow> string option \<times> 'w"

definition vm_usable :: "'w vm_host \<Rightarrow> bool" where
  "vm_usable h \<longleftrightarrow> lowerHexLength (vh_session h) 32 \<and> vh_brand h \<noteq> [] \<and> vh_complete h"

definition observe_vm :: "'w vm_host \<Rightarrow> 'w \<Rightarrow> vm_observation \<times> 'w" where
  "observe_vm h w =
     (let (installing, w1) = vh_installing h w; (state, w2) = vh_state h w1;
          ob = \<lparr>vo_installing = installing, vo_state = state, vo_launch = no_capability, vo_prepare = no_capability\<rparr>
      in if vw_phase state = ''absent'' \<or> vw_phase state = [] then
           (let (c, w3) = vh_prepare h w2 in (ob\<lparr>vo_prepare := c\<rparr>, w3))
         else if vw_phase state = vmReady \<or> vw_phase state = vmStopped then
           (let (c, w3) = vh_launch h w2 in (ob\<lparr>vo_launch := c\<rparr>, w3))
         else (ob, w2))"

record vm_auth =
  va_intent :: string
  va_plan :: vm_plan
  va_facts :: string
  va_used :: bool

record vm_grant =
  vg_session :: string
  vg_brand :: string
  vg_intent :: string
  vg_action :: string
  vg_image :: string
  vg_username :: string
  vg_phase :: string

definition grant_vm :: "'w vm_host \<Rightarrow> vm_plan \<Rightarrow> ('w, refusal_text, vm_auth \<times> vm_grant) step" where
  "grant_vm h plan =
     and_then (required (vm_usable h) (Text ''native VM control unavailable'')) (\<lambda>_.
     and_then (passes (vh_user h)) (\<lambda>_.
     and_then (observed (observe_vm h)) (\<lambda>ob.
     and_then (decided (text_error (admitNativeVMAction plan ob))) (\<lambda>facts.
     and_then (passes (vh_user h)) (\<lambda>_.
     and_then (or_refuse ''native VM intent unavailable'' (vh_nonce h)) (\<lambda>intent.
     decided (Inr (\<lparr>va_intent = intent, va_plan = plan, va_facts = facts, va_used = False\<rparr>,
       \<lparr>vg_session = vh_session h, vg_brand = vh_brand h, vg_intent = intent, vg_action = vp_action plan,
        vg_image = (if vp_action plan = nativeVMPrepare then vp_image plan else vw_image (vo_state ob)),
        vg_username = (if vp_action plan = nativeVMPrepare then vp_username plan else vw_username (vo_state ob)),
        vg_phase = vm_phase ob\<rparr>))))))))"

definition no_vm_plan :: vm_plan where
  "no_vm_plan = \<lparr>vp_action = [], vp_image = [], vp_username = [], vp_password = []\<rparr>"

definition recheck_vm :: "'w vm_host \<Rightarrow> vm_auth \<Rightarrow> int \<times> json_token list \<Rightarrow> ('w, refusal_text, unit) step" where
  "recheck_vm h a data =
     (case decode_confirmation data of
        None \<Rightarrow> decided (Inl (Text ''native VM confirmation refused''))
      | Some ms \<Rightarrow>
          and_then (required (vm_usable h \<and>
              confirms ''confirm-vm'' (vh_session h) (vh_brand h) (va_intent a) ms \<and>
              str_member ms ''action'' = vp_action (va_plan a))
            (Text ''native VM confirmation binding refused'')) (\<lambda>_.
          and_then (passes (vh_user h)) (\<lambda>_.
          and_then (observed (observe_vm h)) (\<lambda>ob.
          and_then (decided (text_error (admitNativeVMAction (va_plan a) ob))) (\<lambda>current.
          and_then (required (current = va_facts a)
            (Text ''the Linux system changed since this action was checked; nothing was changed'')) (\<lambda>_.
          passes (vh_user h)))))))"

definition confirm_vm ::
  "'w vm_host \<Rightarrow> int \<times> json_token list \<Rightarrow> vm_auth \<Rightarrow> 'w \<Rightarrow>
     ((refusal_text option \<times> vm_plan list) \<times> vm_auth) \<times> 'w" where
  "confirm_vm h data a w =
     (if va_used a then (((Some (Text ''native VM intent already consumed''), []), a), w)
      else (let spent = a\<lparr>va_used := True, va_plan := no_vm_plan, va_facts := []\<rparr>
            in case recheck_vm h a data w of
                 (Inl e, w1) \<Rightarrow> (((Some e, []), spent), w1)
               | (Inr _, w1) \<Rightarrow>
                   (let (e, w2) = vh_run h (va_plan a) w1
                    in (((map_option Text e, [va_plan a]), spent), w2))))"

subsection \<open>Installation\<close>

text \<open>What the grant discloses of the machine.\<close>

record disclosed =
  di_bitlocker :: bool
  di_key_warning :: bool
  di_fast_startup :: bool
  di_chain_warning :: string

text \<open>
  \<open>ih_validate\<close> is the configuration check that \<open>StartInstall\<close> runs too; \<open>ih_selection\<close>
  re-audits the selected state root.
\<close>

record 'w install_host =
  ih_session :: string
  ih_brand :: string
  ih_user :: "'w \<Rightarrow> string option \<times> 'w"
  ih_validate :: "install_config \<Rightarrow> 'w \<Rightarrow> (string + install_config) \<times> 'w"
  ih_observe :: "'w \<Rightarrow> (string + native_snapshot) \<times> 'w"
  ih_selection :: "'w \<Rightarrow> string option \<times> 'w"
  ih_nonce :: "'w \<Rightarrow> (string + string) \<times> 'w"
  ih_info :: "'w \<Rightarrow> disclosed \<times> 'w"
  ih_start :: "install_config \<Rightarrow> 'w \<Rightarrow> string option \<times> 'w"

record install_auth =
  ia_session :: string
  ia_brand :: string
  ia_intent :: string
  ia_config :: install_config
  ia_binding :: plan_binding
  ia_used :: bool

record install_grant =
  ig_session :: string
  ig_brand :: string
  ig_intent :: string
  ig_image :: string
  ig_drive :: string
  ig_disk_gb :: int
  ig_encryption :: string
  ig_disclosed :: disclosed

definition revalidate_binding ::
  "'w install_host \<Rightarrow> plan_binding \<Rightarrow> install_config \<Rightarrow> 'w \<Rightarrow> string option \<times> 'w" where
  "revalidate_binding h b cfg w =
     (case ih_selection h w of
        (Some e, w1) \<Rightarrow> (Some e, w1)
      | (None, w1) \<Rightarrow>
          (case ih_observe h w1 of
             (Inl e, w2) \<Rightarrow> (Some e, w2)
           | (Inr snap, w2) \<Rightarrow> (unchangedIn b snap cfg, w2)))"

definition replaced :: "string \<Rightarrow> string option \<times> 'w \<Rightarrow> string option \<times> 'w" where
  "replaced msg r = (map_option (\<lambda>_. msg) (fst r), snd r)"

definition prepareNativeInstallAuthorization ::
  "'w install_host \<Rightarrow> install_config \<Rightarrow> plan_binding \<Rightarrow> ('w, refusal_text, install_auth) step" where
  "prepareNativeInstallAuthorization h cfg b =
     and_then (required (lowerHexLength (ih_session h) 32 \<and> ih_brand h \<noteq> [])
       (Text ''native install preparation unavailable'')) (\<lambda>_.
     and_then (passes (ih_user h)) (\<lambda>_.
     and_then (or_refuse ''native install configuration refused'' (ih_validate h cfg)) (\<lambda>_.
     and_then (passes (\<lambda>w. replaced ''native install observations refused'' (revalidate_binding h b cfg w))) (\<lambda>_.
     and_then (passes (ih_user h)) (\<lambda>_.
     and_then (or_refuse ''native install intent unavailable'' (ih_nonce h)) (\<lambda>intent.
     decided (Inr \<lparr>ia_session = ih_session h, ia_brand = ih_brand h, ia_intent = intent, ia_config = cfg,
       ia_binding = b, ia_used = False\<rparr>)))))))"

definition prepare_install ::
  "'w install_host \<Rightarrow> install_config \<Rightarrow> ('w, refusal_text, install_auth \<times> install_grant) step" where
  "prepare_install h plan =
     and_then (\<lambda>w. case ih_validate h plan w of (r, w1) \<Rightarrow> (text_error r, w1)) (\<lambda>cfg.
     and_then (\<lambda>w. case ih_observe h w of
        (Inl e, w1) \<Rightarrow> (Inl (Text (''the engine could not observe this computer'' @ [CHR 0x27] @ ''s storage; try again'')), w1)
      | (Inr snap, w1) \<Rightarrow> (text_error (bindNativeInstallPlan snap cfg), w1)) (\<lambda>b.
     and_then (prepareNativeInstallAuthorization h cfg b) (\<lambda>a.
     and_then (observed (ih_info h)) (\<lambda>info.
     decided (Inr (a, \<lparr>ig_session = ih_session h, ig_brand = ih_brand h, ig_intent = ia_intent a,
       ig_image = ic_image cfg, ig_drive = ic_drive cfg, ig_disk_gb = ic_disk_gb cfg,
       ig_encryption = ic_encryption cfg, ig_disclosed = info\<rparr>))))))"

definition no_install_config :: install_config where
  "no_install_config =
     \<lparr>ic_image = [], ic_disk_gb = 0, ic_username = [], ic_password = [], ic_hostname = [], ic_bootloader = [],
      ic_composefs = False, ic_drive = [], ic_encryption = [], ic_luks_passphrase = [],
      ic_windows_look = False, ic_session_consent = [], ic_fault = []\<rparr>"

definition recheck_install ::
  "'w install_host \<Rightarrow> install_auth \<Rightarrow> int \<times> json_token list \<Rightarrow> ('w, refusal_text, unit) step" where
  "recheck_install h a data =
     (case decodeNativeInstallConfirmation data of
        None \<Rightarrow> decided (Inl (Text ''native install confirmation refused''))
      | Some ms \<Rightarrow>
          and_then (required (confirms ''confirm-install'' (ia_session a) (ia_brand a) (ia_intent a) ms)
            (Text ''native install confirmation binding refused'')) (\<lambda>_.
          and_then (passes (ih_user h)) (\<lambda>_.
          and_then (passes (\<lambda>w. replaced ''native install observations changed''
            (revalidate_binding h (ia_binding a) (ia_config a) w))) (\<lambda>_.
          passes (ih_user h)))))"

definition confirm_install ::
  "'w install_host \<Rightarrow> int \<times> json_token list \<Rightarrow> install_auth \<Rightarrow> 'w \<Rightarrow>
     ((refusal_text option \<times> install_config list) \<times> install_auth) \<times> 'w" where
  "confirm_install h data a w =
     (if ia_used a then (((Some (Text ''native install intent already consumed''), []), a), w)
      else (let spent = a\<lparr>ia_used := True, ia_config := no_install_config\<rparr>
            in case recheck_install h a data w of
                 (Inl e, w1) \<Rightarrow> (((Some e, []), spent), w1)
               | (Inr _, w1) \<Rightarrow>
                   (let (e, w2) = ih_start h (ia_config a) w1
                    in (((map_option Text e, [ia_config a]), spent), w2))))"

subsection \<open>The session\<close>

record native_session =
  se_install :: "install_auth option"
  se_maintenance :: "maintenance_auth option"
  se_vm :: "vm_auth option"
  se_vm_used :: bool
  se_prepared :: bool
  se_confirmed :: bool
  se_started :: bool

definition newNativeInstallSession :: native_session where
  "newNativeInstallSession =
     \<lparr>se_install = None, se_maintenance = None, se_vm = None, se_vm_used = False, se_prepared = False,
      se_confirmed = False, se_started = False\<rparr>"

text \<open>What the session was built with; \<open>None\<close> is a part that was not set.\<close>

record 'w session_hosts =
  sh_install :: "'w install_host option"
  sh_maintenance :: "'w maintenance_host option"
  sh_vm :: "'w vm_host option"
  sh_reboot :: "('w \<Rightarrow> string option \<times> 'w) option"

datatype session_event =
  RanInstall install_config | RanMaintenance maintenance_plan | RanVM vm_plan | RanReboot

datatype rpc_error =
    ParseError refusal_text | InvalidRequest refusal_text | MethodNotFound refusal_text
  | InvalidParams refusal_text | Internal refusal_text

datatype rpc_reply =
    EmptyReply | InstallGranted install_grant | MaintenanceGranted maintenance_grant | VMGranted vm_grant
  | BootInspected boot_report | UninstallShown uninstall_info | VMShown vm_observation | AppAnswer string

text \<open>Each handler: the reply with the events, then the session, then the world.\<close>

type_synonym 'w handler =
  "native_session \<Rightarrow> 'w \<Rightarrow> (((rpc_error + rpc_reply) \<times> session_event list) \<times> native_session) \<times> 'w"

definition answer ::
  "rpc_error + rpc_reply \<Rightarrow> native_session \<Rightarrow> 'w \<Rightarrow>
     (((rpc_error + rpc_reply) \<times> session_event list) \<times> native_session) \<times> 'w" where
  "answer r s w = (((r, []), s), w)"

definition holds_plan :: string where
  "holds_plan = ''this install session already holds a plan; start a new session for a changed plan''"

definition handle_prepare_install :: "'w session_hosts \<Rightarrow> rpc_params \<Rightarrow> 'w handler" where
  "handle_prepare_install hs p s w =
     (if se_prepared s \<or> se_vm_used s then answer (Inl (Internal (Text holds_plan))) s w
      else (let s1 = s\<lparr>se_prepared := True\<rparr>
            in case decodeNativeInstallPlan p of
                 Inl e \<Rightarrow> answer (Inl (InvalidParams (Text e))) s1 w
               | Inr plan \<Rightarrow>
                   (case sh_install hs of
                      None \<Rightarrow> answer (Inl (Internal (Text ''native install preparation unavailable''))) s1 w
                    | Some h \<Rightarrow>
                        (case prepare_install h plan w of
                           (Inl e, w1) \<Rightarrow> answer (Inl (Internal e)) s1 w1
                         | (Inr (a, g), w1) \<Rightarrow>
                             if ig_intent g \<noteq> ia_intent a \<or> \<not> lowerHexLength (ig_intent g) 32
                             then answer (Inl (Internal (Text ''native install preparation refused''))) s1 w1
                             else answer (Inr (InstallGranted g)) (s1\<lparr>se_install := Some a\<rparr>) w1))))"

definition handle_confirm_install :: "'w session_hosts \<Rightarrow> rpc_params \<Rightarrow> 'w handler" where
  "handle_confirm_install hs p s w =
     (let already = se_confirmed s; s1 = s\<lparr>se_confirmed := True, se_install := None\<rparr>
      in case (already, se_install s, sh_install hs) of
           (False, Some a, Some h) \<Rightarrow>
             (case confirm_install h (raw_params p) a w of
                (((Some e, runs), a1), w1) \<Rightarrow> (((Inl (Internal e), map RanInstall runs), s1), w1)
              | (((None, runs), a1), w1) \<Rightarrow>
                  (((Inr EmptyReply, map RanInstall runs), s1\<lparr>se_started := True\<rparr>), w1))
         | _ \<Rightarrow> answer (Inl (Internal (Text ''no install intent is available in this session''))) s1 w)"

definition handle_prepare_maintenance :: "'w session_hosts \<Rightarrow> rpc_params \<Rightarrow> 'w handler" where
  "handle_prepare_maintenance hs p s w =
     (if se_prepared s \<or> se_vm_used s then answer (Inl (Internal (Text holds_plan))) s w
      else (let s1 = s\<lparr>se_prepared := True\<rparr>
            in case decodeNativeMaintenancePlan p of
                 None \<Rightarrow> answer (Inl (InvalidParams (Text ''maintenance plan refused''))) s1 w
               | Some plan \<Rightarrow>
                   (case sh_maintenance hs of
                      None \<Rightarrow> answer (Inl (Internal (Text ''native maintenance unavailable''))) s1 w
                    | Some h \<Rightarrow>
                        if \<not> maintenance_usable h
                        then answer (Inl (Internal (Text ''native maintenance unavailable''))) s1 w
                        else (case prepare_maintenance h plan w of
                                (Inl e, w1) \<Rightarrow> answer (Inl (Internal e)) s1 w1
                              | (Inr (a, g), w1) \<Rightarrow>
                                  answer (Inr (MaintenanceGranted g)) (s1\<lparr>se_maintenance := Some a\<rparr>) w1))))"

definition handle_confirm_maintenance :: "'w session_hosts \<Rightarrow> rpc_params \<Rightarrow> 'w handler" where
  "handle_confirm_maintenance hs p s w =
     (let already = se_confirmed s; s1 = s\<lparr>se_confirmed := True, se_maintenance := None\<rparr>
      in case (already, se_maintenance s, sh_maintenance hs) of
           (False, Some a, Some h) \<Rightarrow>
             (case confirm_maintenance h (raw_params p) a w of
                (((e, runs), a1), w1) \<Rightarrow>
                  ((((case e of Some t \<Rightarrow> Inl (Internal t) | None \<Rightarrow> Inr EmptyReply), map RanMaintenance runs), s1), w1))
         | _ \<Rightarrow> answer (Inl (Internal (Text ''no maintenance intent is available in this session''))) s1 w)"

definition handle_prepare_vm :: "'w session_hosts \<Rightarrow> rpc_params \<Rightarrow> 'w handler" where
  "handle_prepare_vm hs p s w =
     (if se_prepared s
      then answer (Inl (Internal (Text
        ''this install session already holds a plan; start a new session for the Linux window''))) s w
      else (case decodeNativeVMPlan p of
              Inl e \<Rightarrow> answer (Inl (InvalidParams (Text e))) s w
            | Inr plan \<Rightarrow>
                (case sh_vm hs of
                   None \<Rightarrow> answer (Inl (Internal (Text ''native VM control unavailable''))) s w
                 | Some h \<Rightarrow>
                     if \<not> vm_usable h then answer (Inl (Internal (Text ''native VM control unavailable''))) s w
                     else (let s1 = s\<lparr>se_vm := None, se_vm_used := True\<rparr>
                           in case grant_vm h plan w of
                                (Inl e, w1) \<Rightarrow> answer (Inl (Internal e)) s1 w1
                              | (Inr (a, g), w1) \<Rightarrow> answer (Inr (VMGranted g)) (s1\<lparr>se_vm := Some a\<rparr>) w1))))"

definition handle_confirm_vm :: "'w session_hosts \<Rightarrow> rpc_params \<Rightarrow> 'w handler" where
  "handle_confirm_vm hs p s w =
     (let s1 = s\<lparr>se_vm := None\<rparr>
      in case (se_vm s, sh_vm hs) of
           (Some a, Some h) \<Rightarrow>
             (case confirm_vm h (raw_params p) a w of
                (((e, runs), a1), w1) \<Rightarrow>
                  ((((case e of Some t \<Rightarrow> Inl (Internal t) | None \<Rightarrow> Inr EmptyReply), map RanVM runs), s1), w1))
         | _ \<Rightarrow> answer (Inl (Internal (Text ''no VM intent is available in this session''))) s1 w)"

definition session_dispatch :: "'w session_hosts \<Rightarrow> string \<Rightarrow> rpc_params \<Rightarrow> 'w handler" where
  "session_dispatch hs method p =
     (if method = ''PrepareNativeInstall'' then handle_prepare_install hs p
      else if method = ''ConfirmNativeInstall'' then handle_confirm_install hs p
      else if method = ''PrepareNativeMaintenance'' then handle_prepare_maintenance hs p
      else if method = ''ConfirmNativeMaintenance'' then handle_confirm_maintenance hs p
      else if method = ''PrepareNativeVMAction'' then handle_prepare_vm hs p
      else if method = ''ConfirmNativeVMAction'' then handle_confirm_vm hs p
      else answer (Inl (MethodNotFound (Text ''method unavailable in install session''))))"

record install_status =
  is_running :: bool
  is_done :: bool
  is_error :: string

definition restart_unavailable :: string where
  "restart_unavailable =
     ''restart is available only after this session'' @ [CHR 0x27] @ ''s installation finished''"

definition session_restart :: "'w session_hosts \<Rightarrow> install_status \<Rightarrow> 'w handler" where
  "session_restart hs st s w =
     (case sh_reboot hs of
        Some reboot \<Rightarrow>
          if se_started s \<and> is_done st \<and> \<not> is_running st \<and> is_error st = []
          then (case reboot w of
                  (Some e, w1) \<Rightarrow> (((Inl (Internal (Text e)), [RanReboot]), s), w1)
                | (None, w1) \<Rightarrow> (((Inr EmptyReply, [RanReboot]), s), w1))
          else answer (Inl (Internal (Text restart_unavailable))) s w
      | None \<Rightarrow> answer (Inl (Internal (Text restart_unavailable))) s w)"

definition session_read :: "'w session_hosts \<Rightarrow> string \<Rightarrow> rpc_params \<Rightarrow> 'w handler" where
  "session_read hs method p s w =
     (if given_params p then answer (Inl (InvalidParams (Text ''this observation accepts no parameters''))) s w
      else (case sh_maintenance hs of
              Some h \<Rightarrow>
                if maintenance_usable h then
                  (if method = ''InspectBoot''
                   then (let (r, w1) = mh_inspect h w in answer (Inr (BootInspected r)) s w1)
                   else (let (i, w1) = mh_info h w in answer (Inr (UninstallShown i)) s w1))
                else answer (Inl (MethodNotFound (Text ''method unavailable in install session''))) s w
            | None \<Rightarrow> answer (Inl (MethodNotFound (Text ''method unavailable in install session''))) s w))"

definition session_vm_status :: "'w session_hosts \<Rightarrow> rpc_params \<Rightarrow> 'w handler" where
  "session_vm_status hs p s w =
     (if given_params p then answer (Inl (InvalidParams (Text ''this observation accepts no parameters''))) s w
      else (case sh_vm hs of
              Some h \<Rightarrow>
                if vm_usable h then (let (ob, w1) = observe_vm h w in answer (Inr (VMShown ob)) s w1)
                else answer (Inl (MethodNotFound (Text ''method unavailable in install session''))) s w
            | None \<Rightarrow> answer (Inl (MethodNotFound (Text ''method unavailable in install session''))) s w))"

end
