(* ===== verification/Native_Session_Props.thy ===== *)
theory Native_Session_Props
  imports Native_Session
begin

text \<open>
  Single use of an intent. The three authorities of \<open>Native_Session\<close> meet one contract, the
  locale \<open>one_shot\<close>: a confirmation spends the intent whatever it says, and runs the granted plan
  only when it quotes the intent and the engine's observations still give the facts of the grant.
\<close>

subsection \<open>The contract of an authority\<close>

fun confirm_repeatedly ::
  "('d \<Rightarrow> 'a \<Rightarrow> 'w \<Rightarrow> ((refusal_text option \<times> 'p list) \<times> 'a) \<times> 'w) \<Rightarrow> ('d \<times> 'w) list \<Rightarrow> 'a \<Rightarrow> 'p list" where
  "confirm_repeatedly confirm [] a = []"
| "confirm_repeatedly confirm ((d, w) # rest) a =
     (case confirm d a w of (((e, runs), a1), w1) \<Rightarrow> runs @ confirm_repeatedly confirm rest a1)"

locale one_shot =
  fixes confirm :: "'d \<Rightarrow> 'a \<Rightarrow> 'w \<Rightarrow> ((refusal_text option \<times> 'p list) \<times> 'a) \<times> 'w"
    and used :: "'a \<Rightarrow> bool"
    and plan_of :: "'a \<Rightarrow> 'p"
    and reason :: "'d \<Rightarrow> 'a \<Rightarrow> bool"
  assumes spends: "confirm d a w = (((e, runs), a1), w1) \<Longrightarrow> used a1"
    and spent: "confirm d a w = (((e, runs), a1), w1) \<Longrightarrow> used a \<Longrightarrow> runs = []"
    and granted: "confirm d a w = (((e, runs), a1), w1) \<Longrightarrow> runs = [] \<or> runs = [plan_of a] \<and> reason d a"
begin

lemma spent_never_runs: "used a \<Longrightarrow> confirm_repeatedly confirm cs a = []"
proof (induction cs arbitrary: a)
  case Nil
  then show ?case by simp
next
  case (Cons c cs)
  obtain d w where c: "c = (d, w)" by (cases c)
  obtain e runs a1 w1 where r: "confirm d a w = (((e, runs), a1), w1)" by (metis prod.collapse)
  with spends [OF r] spent [OF r Cons.prems] Cons.IH c show ?case by simp
qed

lemma at_most_once:
  "confirm_repeatedly confirm cs a = [] \<or>
   (\<exists>d. d \<in> fst ` set cs \<and> confirm_repeatedly confirm cs a = [plan_of a] \<and> reason d a)"
proof (cases cs)
  case Nil
  then show ?thesis by simp
next
  case (Cons c rest)
  obtain d w where c: "c = (d, w)" by (cases c)
  obtain e runs a1 w1 where r: "confirm d a w = (((e, runs), a1), w1)" by (metis prod.collapse)
  from spent_never_runs [OF spends [OF r]] granted [OF r] r Cons c show ?thesis by auto
qed

end

subsection \<open>The three authorities meet it\<close>

lemma and_then_Inr:
  "and_then m f w = (Inr y, w2) \<longleftrightarrow> (\<exists>x w1. m w = (Inr x, w1) \<and> f x w1 = (Inr y, w2))"
  by (auto simp: and_then_def split: prod.splits sum.splits)

lemma required_Inr: "required b e w = (Inr y, w1) \<longleftrightarrow> b \<and> w1 = w"
  by (auto simp: required_def)

lemma decided_Inr: "decided r w = (Inr y, w1) \<longleftrightarrow> r = Inr y \<and> w1 = w"
  by (auto simp: decided_def)

lemma observed_Inr: "observed ob w = (Inr x, w1) \<longleftrightarrow> ob w = (x, w1)"
  by (auto simp: observed_def split: prod.splits)

lemma passes_Inr: "passes c w = (Inr y, w1) \<longleftrightarrow> c w = (None, w1)"
  by (auto simp: passes_def split: prod.splits option.splits)

lemma text_error_Inr: "text_error r = Inr x \<longleftrightarrow> r = Inr x"
  by (auto simp: text_error_def split: sum.splits)

lemma or_refuse_Inr: "or_refuse msg m w = (Inr x, w1) \<longleftrightarrow> m w = (Inr x, w1)"
  by (auto simp: or_refuse_def split: prod.splits sum.splits)

lemmas step_Inr = or_refuse_Inr and_then_Inr required_Inr decided_Inr observed_Inr passes_Inr text_error_Inr

text \<open>Why a plan ran: the confirmation quotes the intent, and an observation gives the granted facts.\<close>

definition maintenance_reason :: "'w maintenance_host \<Rightarrow> int \<times> json_token list \<Rightarrow> maintenance_auth \<Rightarrow> bool" where
  "maintenance_reason h data a \<longleftrightarrow>
     (\<exists>ms. decode_confirmation data = Some ms \<and> str_member ms ''intentId'' = ma_intent a \<and>
        str_member ms ''action'' = mp_action (ma_plan a)) \<and>
     (\<exists>w1 ob w2. observe_maintenance h w1 = (ob, w2) \<and> admitNativeMaintenance (ma_plan a) ob = Inr (ma_facts a))"

definition vm_reason :: "'w vm_host \<Rightarrow> int \<times> json_token list \<Rightarrow> vm_auth \<Rightarrow> bool" where
  "vm_reason h data a \<longleftrightarrow>
     (\<exists>ms. decode_confirmation data = Some ms \<and> str_member ms ''intentId'' = va_intent a \<and>
        str_member ms ''action'' = vp_action (va_plan a)) \<and>
     (\<exists>w1 ob w2. observe_vm h w1 = (ob, w2) \<and> admitNativeVMAction (va_plan a) ob = Inr (va_facts a))"

definition same_volume :: "native_storage \<Rightarrow> native_storage \<Rightarrow> bool" where
  "same_volume u v \<longleftrightarrow> ns_id u = ns_id v \<and> ns_disk_guid u = ns_disk_guid v \<and>
     ns_partition_guid u = ns_partition_guid v \<and> ns_serial u = ns_serial v"

definition install_reason :: "'w install_host \<Rightarrow> int \<times> json_token list \<Rightarrow> install_auth \<Rightarrow> bool" where
  "install_reason h data a \<longleftrightarrow>
     (\<exists>ms. decodeNativeInstallConfirmation data = Some ms \<and> str_member ms ''intentId'' = ia_intent a) \<and>
     (\<exists>w1 snap w2 b. ih_observe h w1 = (Inr snap, w2) \<and> bindNativeInstallPlan snap (ia_config a) = Inr b \<and>
        same_volume (pb_volume b) (pb_volume (ia_binding a)) \<and> pb_image b = pb_image (ia_binding a))"

lemma unchangedIn_None:
  "unchangedIn b snap cfg = None \<longleftrightarrow>
     (\<exists>c. bindNativeInstallPlan snap cfg = Inr c \<and> same_volume (pb_volume c) (pb_volume b) \<and> pb_image c = pb_image b)"
  by (auto simp: unchangedIn_def same_volume_def Let_def split: sum.splits)

lemma recheck_maintenance_reason:
  "recheck_maintenance h a data w = (Inr x, w1) \<Longrightarrow> maintenance_reason h data a"
  by (auto simp: recheck_maintenance_def maintenance_reason_def step_Inr confirms_def split: option.splits; blast)

lemma recheck_vm_reason: "recheck_vm h a data w = (Inr x, w1) \<Longrightarrow> vm_reason h data a"
  by (auto simp: recheck_vm_def vm_reason_def step_Inr confirms_def split: option.splits; blast)

lemma revalidate_None:
  "revalidate_binding h b cfg w = (None, w1) \<Longrightarrow>
     \<exists>w0 snap. ih_observe h w0 = (Inr snap, w1) \<and> unchangedIn b snap cfg = None"
  by (auto simp: revalidate_binding_def split: prod.splits option.splits sum.splits)

lemma replaced_None: "replaced msg r = (None, w1) \<longleftrightarrow> r = (None, w1)"
  by (cases r) (auto simp: replaced_def)

lemma recheck_install_reason:
  assumes "recheck_install h a data w = (Inr x, w1)"
  shows "install_reason h data a"
proof (cases "decodeNativeInstallConfirmation data")
  case None
  then show ?thesis using assms by (simp add: recheck_install_def step_Inr)
next
  case (Some ms)
  with assms obtain w2 w3 where c: "confirms ''confirm-install'' (ia_session a) (ia_brand a) (ia_intent a) ms"
    "revalidate_binding h (ia_binding a) (ia_config a) w2 = (None, w3)"
    by (auto simp: recheck_install_def step_Inr replaced_None)
  from revalidate_None [OF c(2)] c(1) Some show ?thesis
    by (auto simp: install_reason_def confirms_def unchangedIn_None; blast)
qed

interpretation maintenance: one_shot "confirm_maintenance h" ma_used ma_plan "maintenance_reason h"
  by unfold_locales
    (auto simp: confirm_maintenance_def Let_def split: if_splits prod.splits sum.splits
      dest: recheck_maintenance_reason)

interpretation vm: one_shot "confirm_vm h" va_used va_plan "vm_reason h"
  by unfold_locales
    (auto simp: confirm_vm_def Let_def split: if_splits prod.splits sum.splits dest: recheck_vm_reason)

interpretation install: one_shot "confirm_install h" ia_used ia_config "install_reason h"
  by unfold_locales
    (auto simp: confirm_install_def Let_def split: if_splits prod.splits sum.splits dest: recheck_install_reason)


end
