(* ===== verification/Rpc_Server.thy ===== *)
theory Rpc_Server
  imports Native_Session Install_Space
begin

text \<open>
  The dispatcher of the JSON-RPC server (\<open>app/serve.go\<close>): which session may call which method,
  the validation that precedes an observation, and the loop's answer to a request. The App's own
  methods are a callback; each call of one is an event.
\<close>

datatype server_event = Session session_event | AppCall string

record 'w rpc_server =
  rs_validate :: "('w \<Rightarrow> string option \<times> 'w) option"
  rs_assessment :: bool
  rs_configuration :: "('w \<Rightarrow> (string + native_snapshot) \<times> 'w) option"
  rs_space :: "(string \<Rightarrow> string \<Rightarrow> 'w \<Rightarrow> install_space \<times> 'w) option"
  rs_session :: "'w session_hosts option"
  rs_strict :: bool
  rs_accepts :: "string \<Rightarrow> rpc_params \<Rightarrow> bool"
  rs_app :: "string \<Rightarrow> rpc_params \<Rightarrow> 'w \<Rightarrow> (string + string) \<times> 'w"
  rs_status :: "'w \<Rightarrow> install_status \<times> 'w"
  rs_audit :: "'w \<Rightarrow> string option \<times> 'w"
  rs_native :: "string \<Rightarrow> 'w \<Rightarrow> (string + string) \<times> 'w"

text \<open>
  The three constructors of the source. A server without a session and without the assessment
  flag is the legacy one.
\<close>

definition NewAssessmentServer :: "'w rpc_server \<Rightarrow> 'w rpc_server" where
  "NewAssessmentServer sv = sv\<lparr>rs_assessment := True\<rparr>"

definition newNativeInstallServer :: "'w session_hosts \<Rightarrow> 'w rpc_server \<Rightarrow> 'w rpc_server" where
  "newNativeInstallServer hs sv = sv\<lparr>rs_session := Some hs\<rparr>"

definition newConfigurationAssessmentServer ::
  "('w \<Rightarrow> (string + native_snapshot) \<times> 'w) \<Rightarrow> (string \<Rightarrow> string \<Rightarrow> 'w \<Rightarrow> install_space \<times> 'w) \<Rightarrow>
     'w rpc_server \<Rightarrow> 'w rpc_server" where
  "newConfigurationAssessmentServer config space sv =
     (NewAssessmentServer sv)\<lparr>rs_configuration := Some config, rs_space := Some space\<rparr>"

record server_state =
  ss_session :: native_session
  ss_observed :: "native_snapshot option"
  ss_shutdown :: bool

datatype server_reply =
  Replied rpc_reply | Snapshot native_snapshot | Space install_space

type_synonym 'w server_step =
  "server_state \<Rightarrow> 'w \<Rightarrow> (((rpc_error + server_reply) \<times> server_event list) \<times> server_state) \<times> 'w"

definition reply ::
  "rpc_error + server_reply \<Rightarrow> server_state \<Rightarrow> 'w \<Rightarrow>
     (((rpc_error + server_reply) \<times> server_event list) \<times> server_state) \<times> 'w" where
  "reply r st w = (((r, []), st), w)"

definition refused_method :: "string \<Rightarrow> 'w server_step" where
  "refused_method msg = reply (Inl (MethodNotFound (Text msg)))"

text \<open>The startup validation, where the transport set one.\<close>

definition validated :: "'w rpc_server \<Rightarrow> 'w server_step \<Rightarrow> 'w server_step" where
  "validated sv k st w =
     (case rs_validate sv of
        None \<Rightarrow> k st w
      | Some check \<Rightarrow>
          (case check w of
             (Some e, w1) \<Rightarrow> reply (Inl (Internal (Text ''native startup observation refused''))) st w1
           | (None, w1) \<Rightarrow> k st w1))"

definition in_session :: "'w handler \<Rightarrow> 'w server_step" where
  "in_session h st w =
     (case h (ss_session st) w of
        (((r, evs), s1), w1) \<Rightarrow>
          ((((case r of Inl e \<Rightarrow> Inl e | Inr x \<Rightarrow> Inr (Replied x)), map Session evs), st\<lparr>ss_session := s1\<rparr>), w1))"

definition call_app :: "'w rpc_server \<Rightarrow> string \<Rightarrow> rpc_params \<Rightarrow> 'w server_step" where
  "call_app sv method p st w =
     (case rs_app sv method p w of
        (Inl e, w1) \<Rightarrow> (((Inl (Internal (Text e)), [AppCall method]), st), w1)
      | (Inr s, w1) \<Rightarrow> (((Inr (Replied (AppAnswer s)), [AppCall method]), st), w1))"

text \<open>A strict startup reads the audited records instead of asking the App.\<close>

definition native_read :: "'w rpc_server \<Rightarrow> string \<Rightarrow> string \<Rightarrow> 'w server_step" where
  "native_read sv method msg st w =
     (case rs_native sv method w of
        (Inl e, w1) \<Rightarrow> reply (Inl (Internal (Text msg))) st w1
      | (Inr s, w1) \<Rightarrow> reply (Inr (Replied (AppAnswer s))) st w1)"

definition audited :: "'w rpc_server \<Rightarrow> 'w server_step \<Rightarrow> 'w server_step" where
  "audited sv k st w =
     (if rs_validate sv \<noteq> None then k st w
      else (case rs_audit sv w of
              (Some e, w1) \<Rightarrow> reply (Inl (Internal (Text e))) st w1
            | (None, w1) \<Rightarrow> k st w1))"

definition startup_read :: "'w rpc_server \<Rightarrow> string \<Rightarrow> string \<Rightarrow> rpc_params \<Rightarrow> 'w server_step" where
  "startup_read sv method msg p =
     validated sv (if rs_strict sv then audited sv (native_read sv method msg) else call_app sv method p)"

text \<open>
  GetInstallRecovery in a strict startup first asks whether an installation is running; then it
  answers without reading.
\<close>

definition recovery_read :: "'w rpc_server \<Rightarrow> rpc_params \<Rightarrow> 'w server_step" where
  "recovery_read sv p =
     (if given_params p then reply (Inl (InvalidParams (Text ''install recovery observation accepts no parameters'')))
      else validated sv
        (if rs_strict sv
         then audited sv (\<lambda>st w.
           case rs_status sv w of
             (status, w1) \<Rightarrow>
               if is_running status then reply (Inr (Replied (AppAnswer ''in-progress''))) st w1
               else native_read sv ''GetInstallRecovery'' ''native install recovery observation refused'' st w1)
         else call_app sv ''GetInstallRecovery'' p))"

subsection \<open>The configuration of a session\<close>

definition read_configuration :: "'w rpc_server \<Rightarrow> rpc_params \<Rightarrow> 'w server_step" where
  "read_configuration sv p st w =
     (case rs_configuration sv of
        None \<Rightarrow> refused_method ''method unavailable in this session'' st w
      | Some config \<Rightarrow>
          if given_params p
          then reply (Inl (InvalidParams (Text ''configuration observation accepts no parameters''))) st w
          else validated sv (\<lambda>st w.
            case config w of
              (Inl e, w1) \<Rightarrow> reply (Inl (Internal (Text ''native configuration observation refused''))) st w1
            | (Inr snap, w1) \<Rightarrow> reply (Inr (Snapshot snap)) (st\<lparr>ss_observed := Some snap\<rparr>) w1) st w)"

text \<open>
  The request names one image and one drive. \<open>decoder.More\<close> after the value refuses what
  follows it, except a closing delimiter.
\<close>

definition space_kinds :: "string smap" where
  "space_kinds = [(''imageRef'', ''string''), (''storageDrive'', ''string'')]"

definition drive_letter :: "string \<Rightarrow> bool" where
  "drive_letter s \<longleftrightarrow> (case s of [c] \<Rightarrow> (let n = code_of c in 65 \<le> n \<and> n \<le> 90) | _ \<Rightarrow> False)"

text \<open>
  \<open>encoding/json\<close> matches the keys without regard to case, lets the last value win, and skips
  a null.
\<close>

definition folded_members :: "string smap \<Rightarrow> (string \<times> json) list \<Rightarrow> (string \<times> json) list" where
  "folded_members kinds ms =
     rev (filter (\<lambda>(k, v). v \<noteq> JNull)
       (map (\<lambda>(k, v). (case List.find (equal_fold k) (map fst kinds) of Some k1 \<Rightarrow> k1 | None \<Rightarrow> k, v)) ms))"

definition decode_space_request :: "rpc_params \<Rightarrow> (string \<times> string) option" where
  "decode_space_request p =
     (let (n, ts) = raw_params p in
      case read_value (length ts) ts of
        Some (JObj ms, r) \<Rightarrow>
          (let fs = folded_members space_kinds ms;
                img = str_member fs ''imageRef''; drive = str_member fs ''storageDrive''
           in if decodes space_kinds fs \<and> \<not> has_more r \<and> img \<noteq> [] \<and> length img \<le> 512 \<and> drive_letter drive
              then Some (img, drive) else None)
      | _ \<Rightarrow> None)"

definition installSpace :: "'w rpc_server \<Rightarrow> rpc_params \<Rightarrow> 'w server_step" where
  "installSpace sv p st w =
     (case rs_space sv of
        None \<Rightarrow> refused_method ''method unavailable in this session'' st w
      | Some space \<Rightarrow>
          (case decode_space_request p of
             None \<Rightarrow> reply (Inl (InvalidParams (Text ''install space needs one observed image and drive''))) st w
           | Some (img, drive) \<Rightarrow>
               validated sv (\<lambda>st w.
                 case ss_observed st of
                   None \<Rightarrow> reply (Inl (InvalidParams (Text ''read the Linux configuration before its install space''))) st w
                 | Some snap \<Rightarrow>
                     if list_ex (\<lambda>i. ni_ref i = img) (nn_images snap) \<and>
                        list_ex (\<lambda>v. ns_letter v = drive) (nn_storage snap)
                     then (let (s, w1) = space img drive w in reply (Inr (Space s)) st w1)
                     else reply (Inl (InvalidParams (Text ''the image or drive is not in the observed configuration''))) st w)
                 st w))"

subsection \<open>Dispatch\<close>

definition session_methods :: "string list" where
  "session_methods =
     [''PrepareNativeInstall'', ''ConfirmNativeInstall'', ''PrepareNativeMaintenance'', ''ConfirmNativeMaintenance'',
      ''PrepareNativeVMAction'', ''ConfirmNativeVMAction'']"

definition assessment_reads :: "string list" where
  "assessment_reads = [''GetStatus'', ''GetLastRun'', ''GetRecoveryVerdict'', ''GetInstallRecovery'']"

definition configuration_methods :: "string list" where
  "configuration_methods =
     [''GetNativeConfiguration'', ''GetNativeInstallSpace'', ''E2EDriveDirective'', ''E2EDriveReport'', ''E2EDriveReady'']"

text \<open>Methods whose parameters are unmarshalled before the App is called, and those without.\<close>

definition parameter_methods :: "string list" where
  "parameter_methods =
     [''StartInstall'', ''UninstallWith'', ''E2EDriveReport'', ''E2EDriveReady'', ''PrepareVM'', ''TryInVMFresh'']"

definition plain_methods :: "string list" where
  "plain_methods =
     [''GetSupportPolicy'', ''GetSystemInfo'', ''GetReleaseNotice'', ''GetBranding'', ''GetInstallSteps'', ''GetImages'',
      ''GetSessionCandidates'', ''CancelInstall'', ''DefragDrive'', ''Reboot'', ''ExistingInstallFound'',
      ''GetUninstallInfo'', ''BootIntoLinux'', ''E2EDriveDirective'', ''GetVMCapability'', ''GetFreshVMCapability'',
      ''GetVMState'', ''InstallVMRuntime'', ''BootInVM'', ''StopVM'', ''ForceStopVM'']"

definition general_dispatch :: "'w rpc_server \<Rightarrow> string \<Rightarrow> rpc_params \<Rightarrow> 'w server_step" where
  "general_dispatch sv method p =
     (if method = ''GetNativeConfiguration'' then read_configuration sv p
      else if method = ''GetNativeInstallSpace''
      then (case rs_configuration sv of
              None \<Rightarrow> refused_method ''method unavailable in this session'' | Some _ \<Rightarrow> installSpace sv p)
      else if method = ''GetStatus'' then validated sv (call_app sv method p)
      else if method = ''GetLastRun'' then startup_read sv method ''native lifecycle observation refused'' p
      else if method = ''GetRecoveryVerdict'' then startup_read sv method ''native recovery observation refused'' p
      else if method = ''GetInstallRecovery'' then recovery_read sv p
      else if method = ''Shutdown'' then (\<lambda>st. reply (Inr (Replied EmptyReply)) (st\<lparr>ss_shutdown := True\<rparr>))
      else if List.member parameter_methods method
      then (if rs_accepts sv method p then call_app sv method p
            else reply (Inl (InvalidParams (Text ''invalid params''))))
      else if List.member plain_methods method then call_app sv method p
      else refused_method ''method not found'')"

text \<open>The assessment flag leaves only observations.\<close>

definition assessed_dispatch :: "'w rpc_server \<Rightarrow> string \<Rightarrow> rpc_params \<Rightarrow> 'w server_step" where
  "assessed_dispatch sv method p =
     (if rs_assessment sv \<and>
         \<not> (List.member assessment_reads method \<or>
            (List.member configuration_methods method \<and> rs_configuration sv \<noteq> None))
      then refused_method ''method unavailable in assessment session''
      else general_dispatch sv method p)"

definition server_dispatch :: "'w rpc_server \<Rightarrow> string \<Rightarrow> rpc_params \<Rightarrow> 'w server_step" where
  "server_dispatch sv method p =
     (case rs_session sv of
        None \<Rightarrow> assessed_dispatch sv method p
      | Some hs \<Rightarrow>
          if method = ''GetStatus'' \<or> method = ''CancelInstall'' then assessed_dispatch sv method p
          else if method = ''Reboot'' then
            (if given_params p then reply (Inl (InvalidParams (Text ''restart accepts no parameters'')))
             else (\<lambda>st w. case rs_status sv w of (status, w1) \<Rightarrow> in_session (session_restart hs status) st w1))
          else if method = ''GetUninstallInfo'' \<or> method = ''InspectBoot''
          then validated sv (in_session (session_read hs method p))
          else if method = ''GetNativeVMStatus'' then validated sv (in_session (session_vm_status hs p))
          else if List.member session_methods method then validated sv (in_session (session_dispatch hs method p))
          else refused_method ''method unavailable in install session'')"

text \<open>
  One line of the loop: text that does not parse and a request of another version are answered
  without a dispatch; \<open>None\<close> is a blank line.
\<close>

datatype request_line = Blank | Unparsed | Request string string rpc_params

definition serve_line ::
  "'w rpc_server \<Rightarrow> request_line \<Rightarrow> server_state \<Rightarrow> 'w \<Rightarrow>
     (((rpc_error + server_reply) option \<times> server_event list) \<times> server_state) \<times> 'w" where
  "serve_line sv line st w =
     (case line of
        Blank \<Rightarrow> (((None, []), st), w)
      | Unparsed \<Rightarrow> (((Some (Inl (ParseError (Text ''parse error''))), []), st), w)
      | Request version method p \<Rightarrow>
          if version \<noteq> ''2.0'' \<or> method = []
          then (((Some (Inl (InvalidRequest (Text ''invalid JSON-RPC 2.0 request''))), []), st), w)
          else (case server_dispatch sv method p st w of
                  (((r, evs), st1), w1) \<Rightarrow> (((Some r, evs), st1), w1)))"

fun serve_lines ::
  "'w rpc_server \<Rightarrow> request_line list \<Rightarrow> server_state \<Rightarrow> 'w \<Rightarrow> (server_event list \<times> server_state) \<times> 'w" where
  "serve_lines sv [] st w = (([], st), w)"
| "serve_lines sv (l # ls) st w =
     (case serve_line sv l st w of
        (((r, evs), st1), w1) \<Rightarrow>
          if ss_shutdown st1 then ((evs, st1), w1)
          else (case serve_lines sv ls st1 w1 of ((evs2, st2), w2) \<Rightarrow> ((evs @ evs2, st2), w2)))"

end
