(* ===== verification/Session_Histories.thy ===== *)
theory Session_Histories
  imports Native_Session_Props Rpc_Server
begin

text \<open>
  Histories of requests to a server. To an install-session server: no run that was not granted
  and confirmed, at most one plan of the installation or its maintenance, and never both such a
  plan and a VM action; the invariant is an induction over the history, one lemma per handler.
  To an assessment server: observations only.
\<close>

subsection \<open>Histories of a session\<close>

text \<open>An entry is the line, the reply and the events; the newest entry comes first.\<close>

type_synonym served_entry = "request_line \<times> (rpc_error + server_reply) option \<times> server_event list"

definition entry_events :: "served_entry \<Rightarrow> server_event list" where
  "entry_events x = snd (snd x)"

definition fresh_state :: server_state where
  "fresh_state = \<lparr>ss_session = newNativeInstallSession, ss_observed = None, ss_shutdown = False\<rparr>"

inductive served :: "'w rpc_server \<Rightarrow> served_entry list \<Rightarrow> server_state \<Rightarrow> 'w \<Rightarrow> bool" for sv where
  served_start: "served sv [] fresh_state w"
| served_world: "served sv hist st w \<Longrightarrow> served sv hist st w'"
| served_line: "served sv hist st w \<Longrightarrow> serve_line sv l st w = (((r, evs), st'), w') \<Longrightarrow>
    served sv ((l, r, evs) # hist) st' w'"

definition replied :: "served_entry list \<Rightarrow> rpc_reply \<Rightarrow> bool" where
  "replied hist r \<longleftrightarrow> (\<exists>l evs. (l, Some (Inr (Replied r)), evs) \<in> set hist)"

text \<open>A grant shows the plan it stands for.\<close>

definition install_shown :: "served_entry list \<Rightarrow> install_config \<Rightarrow> string \<Rightarrow> bool" where
  "install_shown hist cfg intent \<longleftrightarrow>
     (\<exists>g. replied hist (InstallGranted g) \<and> ig_intent g = intent \<and> ig_image g = ic_image cfg \<and>
        ig_drive g = ic_drive cfg \<and> ig_disk_gb g = ic_disk_gb cfg \<and> ig_encryption g = ic_encryption cfg)"

definition maintenance_shown :: "served_entry list \<Rightarrow> maintenance_plan \<Rightarrow> string \<Rightarrow> bool" where
  "maintenance_shown hist plan intent \<longleftrightarrow>
     (\<exists>g. replied hist (MaintenanceGranted g) \<and> mg_intent g = intent \<and> mg_plan g = plan)"

definition vm_shown :: "served_entry list \<Rightarrow> vm_plan \<Rightarrow> string \<Rightarrow> bool" where
  "vm_shown hist plan intent \<longleftrightarrow>
     (\<exists>g. replied hist (VMGranted g) \<and> vg_intent g = intent \<and> vg_action g = vp_action plan)"

definition quotes_install :: "request_line \<Rightarrow> string \<Rightarrow> bool" where
  "quotes_install l intent \<longleftrightarrow>
     (\<exists>p ms. l = Request ''2.0'' ''ConfirmNativeInstall'' p \<and>
        decodeNativeInstallConfirmation (raw_params p) = Some ms \<and> str_member ms ''intentId'' = intent)"

definition quotes :: "request_line \<Rightarrow> string \<Rightarrow> string \<Rightarrow> string \<Rightarrow> bool" where
  "quotes l meth intent action \<longleftrightarrow>
     (\<exists>p ms. l = Request ''2.0'' meth p \<and> decode_confirmation (raw_params p) = Some ms \<and>
        str_member ms ''intentId'' = intent \<and> str_member ms ''action'' = action)"

definition ran_install :: "server_event \<Rightarrow> bool" where
  "ran_install ev \<longleftrightarrow> (case ev of Session (RanInstall cfg) \<Rightarrow> True | _ \<Rightarrow> False)"

fun justified :: "request_line \<Rightarrow> served_entry list \<Rightarrow> server_event \<Rightarrow> bool" where
  "justified l earlier (Session (RanInstall cfg)) \<longleftrightarrow>
     (\<exists>intent. install_shown earlier cfg intent \<and> quotes_install l intent)"
| "justified l earlier (Session (RanMaintenance plan)) \<longleftrightarrow>
     (\<exists>intent. maintenance_shown earlier plan intent \<and> quotes l ''ConfirmNativeMaintenance'' intent (mp_action plan))"
| "justified l earlier (Session (RanVM plan)) \<longleftrightarrow>
     (\<exists>intent. vm_shown earlier plan intent \<and> quotes l ''ConfirmNativeVMAction'' intent (vp_action plan))"
| "justified l earlier (Session RanReboot) \<longleftrightarrow> (\<exists>x\<in>set earlier. \<exists>ev\<in>set (entry_events x). ran_install ev)"
| "justified l earlier (AppCall m) \<longleftrightarrow> m = ''GetStatus'' \<or> m = ''CancelInstall''"

fun all_justified :: "served_entry list \<Rightarrow> bool" where
  "all_justified [] \<longleftrightarrow> True"
| "all_justified ((l, r, evs) # earlier) \<longleftrightarrow> (\<forall>ev\<in>set evs. justified l earlier ev) \<and> all_justified earlier"

definition plan_event :: "server_event \<Rightarrow> bool" where
  "plan_event ev \<longleftrightarrow>
     (case ev of Session (RanInstall cfg) \<Rightarrow> True | Session (RanMaintenance plan) \<Rightarrow> True | _ \<Rightarrow> False)"

definition vm_event :: "server_event \<Rightarrow> bool" where
  "vm_event ev \<longleftrightarrow> (case ev of Session (RanVM plan) \<Rightarrow> True | _ \<Rightarrow> False)"

definition all_events :: "served_entry list \<Rightarrow> server_event list" where
  "all_events hist = concat (map entry_events hist)"

lemma all_events_simps [simp]:
  "all_events [] = []" "all_events ((l, r, evs) # hist) = evs @ all_events hist"
  by (simp_all add: all_events_def entry_events_def)

lemma event_kinds [simp]:
  "ran_install (Session (RanInstall cfg))" "plan_event (Session (RanInstall cfg))"
  "plan_event (Session (RanMaintenance mp))" "vm_event (Session (RanVM vp))"
  "\<not> plan_event (Session (RanVM vp))" "\<not> vm_event (Session (RanInstall cfg))"
  "\<not> vm_event (Session (RanMaintenance mp))" "\<not> plan_event (Session RanReboot)"
  "\<not> vm_event (Session RanReboot)" "\<not> plan_event (AppCall m)" "\<not> vm_event (AppCall m)"
  by (simp_all add: ran_install_def plan_event_def vm_event_def)

subsection \<open>The invariant\<close>

definition plan_events :: "served_entry list \<Rightarrow> server_event list" where
  "plan_events hist = filter plan_event (all_events hist)"

definition vm_events :: "served_entry list \<Rightarrow> server_event list" where
  "vm_events hist = filter vm_event (all_events hist)"

lemma event_filters [simp]:
  "plan_events [] = []" "plan_events ((l, r, evs) # hist) = filter plan_event evs @ plan_events hist"
  "vm_events [] = []" "vm_events ((l, r, evs) # hist) = filter vm_event evs @ vm_events hist"
  by (simp_all add: plan_events_def vm_events_def)

definition auths_shown :: "served_entry list \<Rightarrow> native_session \<Rightarrow> bool" where
  "auths_shown hist s \<longleftrightarrow>
     (\<forall>a. se_install s = Some a \<longrightarrow> install_shown hist (ia_config a) (ia_intent a)) \<and>
     (\<forall>a. se_maintenance s = Some a \<longrightarrow> maintenance_shown hist (ma_plan a) (ma_intent a)) \<and>
     (\<forall>a. se_vm s = Some a \<longrightarrow> vm_shown hist (va_plan a) (va_intent a))"

lemma shown_mono:
  "install_shown hist cfg i \<Longrightarrow> install_shown (x # hist) cfg i"
  "maintenance_shown hist plan i \<Longrightarrow> maintenance_shown (x # hist) plan i"
  "vm_shown hist vp i \<Longrightarrow> vm_shown (x # hist) vp i"
  by (auto simp: install_shown_def maintenance_shown_def vm_shown_def replied_def)

text \<open>A step without events that grants nothing.\<close>

lemma auths_shown_quiet:
  assumes "auths_shown hist s" "se_install s' = se_install s \<or> se_install s' = None"
    "se_maintenance s' = se_maintenance s \<or> se_maintenance s' = None"
    "se_vm s' = se_vm s \<or> se_vm s' = None"
  shows "auths_shown (x # hist) s'"
  unfolding auths_shown_def
proof (intro conjI allI impI)
  fix a assume "se_install s' = Some a"
  with assms(1,2) show "install_shown (x # hist) (ia_config a) (ia_intent a)"
    by (intro shown_mono) (auto simp: auths_shown_def)
next
  fix a assume "se_maintenance s' = Some a"
  with assms(1,3) show "maintenance_shown (x # hist) (ma_plan a) (ma_intent a)"
    by (intro shown_mono) (auto simp: auths_shown_def)
next
  fix a assume "se_vm s' = Some a"
  with assms(1,4) show "vm_shown (x # hist) (va_plan a) (va_intent a)"
    by (intro shown_mono) (auto simp: auths_shown_def)
qed

definition started_after_run :: "served_entry list \<Rightarrow> native_session \<Rightarrow> bool" where
  "started_after_run hist s \<longleftrightarrow> (se_started s \<longrightarrow> (\<exists>x\<in>set hist. \<exists>ev\<in>set (entry_events x). ran_install ev))"

definition counted :: "served_entry list \<Rightarrow> native_session \<Rightarrow> bool" where
  "counted hist s \<longleftrightarrow>
     (se_install s \<noteq> None \<or> se_maintenance s \<noteq> None \<longrightarrow> se_prepared s \<and> plan_events hist = []) \<and>
     (se_install s = None \<or> se_maintenance s = None) \<and>
     (se_vm s \<noteq> None \<longrightarrow> se_vm_used s) \<and> \<not> (se_prepared s \<and> se_vm_used s) \<and>
     (\<not> se_prepared s \<longrightarrow> plan_events hist = []) \<and> (\<not> se_vm_used s \<longrightarrow> vm_events hist = []) \<and>
     length (plan_events hist) \<le> 1"

definition session_inv :: "served_entry list \<Rightarrow> native_session \<Rightarrow> bool" where
  "session_inv hist s \<longleftrightarrow> auths_shown hist s \<and> counted hist s \<and> started_after_run hist s"

lemma counted_quiet:
  assumes "counted hist s"
    and "se_install s' = se_install s \<or> se_install s' = None"
    and "se_maintenance s' = se_maintenance s \<or> se_maintenance s' = None"
    and "se_vm s' = se_vm s \<or> se_vm s' = None"
    and "se_prepared s \<longrightarrow> se_prepared s'" "se_vm_used s \<longrightarrow> se_vm_used s'"
    and "\<not> (se_prepared s' \<and> se_vm_used s')"
  shows "counted ((l, r, []) # hist) s'"
proof -
  have "se_install s' \<noteq> None \<or> se_maintenance s' \<noteq> None \<longrightarrow> se_prepared s' \<and> plan_events hist = []"
    "se_install s' = None \<or> se_maintenance s' = None" "se_vm s' \<noteq> None \<longrightarrow> se_vm_used s'"
    "\<not> se_prepared s' \<longrightarrow> plan_events hist = []" "\<not> se_vm_used s' \<longrightarrow> vm_events hist = []"
    using assms unfolding counted_def by metis+
  with assms(1,7) show ?thesis by (simp add: counted_def)
qed

lemma started_mono:
  "started_after_run hist s \<Longrightarrow> se_started s' = se_started s \<Longrightarrow> started_after_run (x # hist) s'"
  by (auto simp: started_after_run_def)

lemma quiet_step:
  assumes "session_inv hist s"
    and "se_install s' = se_install s \<or> se_install s' = None"
    and "se_maintenance s' = se_maintenance s \<or> se_maintenance s' = None"
    and "se_vm s' = se_vm s \<or> se_vm s' = None"
    and "se_prepared s \<longrightarrow> se_prepared s'" "se_vm_used s \<longrightarrow> se_vm_used s'"
    and "\<not> (se_prepared s' \<and> se_vm_used s')" "se_started s' = se_started s"
  shows "session_inv ((l, r, []) # hist) s'"
proof -
  from assms(1) have i: "auths_shown hist s" "counted hist s" "started_after_run hist s"
    by (simp_all add: session_inv_def)
  show ?thesis
    using auths_shown_quiet [OF i(1) assms(2-4)] counted_quiet [OF i(2) assms(2-7)] started_mono [OF i(3) assms(8)]
    by (simp add: session_inv_def)
qed

text \<open>One dispatch in the session: the state after it, and a reason for every event.\<close>

definition lifted :: "rpc_error + rpc_reply \<Rightarrow> rpc_error + server_reply" where
  "lifted r = (case r of Inl e \<Rightarrow> Inl e | Inr x \<Rightarrow> Inr (Replied x))"

definition good_step ::
  "request_line \<Rightarrow> served_entry list \<Rightarrow> (((rpc_error + rpc_reply) \<times> session_event list) \<times> native_session) \<times> 'w \<Rightarrow> bool"
where
  "good_step l hist res \<longleftrightarrow>
     (case res of (((r, evs), s'), w') \<Rightarrow>
        session_inv ((l, Some (lifted r), map Session evs) # hist) s' \<and>
        (\<forall>ev\<in>set evs. justified l hist (Session ev)))"

lemma good_answer:
  assumes "session_inv hist s"
  shows "good_step l hist (answer r s w)"
proof -
  have "\<not> (se_prepared s \<and> se_vm_used s)" using assms by (simp add: session_inv_def counted_def)
  with assms have "session_inv ((l, Some (lifted r), []) # hist) s" by (intro quiet_step) simp_all
  then show ?thesis by (simp add: good_step_def answer_def)
qed

lemma session_inv_prepare:
  "session_inv hist s \<Longrightarrow> \<not> se_prepared s \<Longrightarrow> \<not> se_vm_used s \<Longrightarrow> session_inv hist (s\<lparr>se_prepared := True\<rparr>)"
  by (simp add: session_inv_def auths_shown_def counted_def started_after_run_def)

lemma unprepared:
  "session_inv hist s \<Longrightarrow> \<not> se_prepared s \<Longrightarrow> se_install s = None \<and> se_maintenance s = None \<and> plan_events hist = []"
  by (auto simp: session_inv_def counted_def)

lemma not_vm_used: "session_inv hist s \<Longrightarrow> \<not> se_vm_used s \<Longrightarrow> se_vm s = None"
  by (auto simp: session_inv_def counted_def)

lemma either_use: "session_inv hist s \<Longrightarrow> \<not> (se_prepared s \<and> se_vm_used s)"
  by (simp add: session_inv_def counted_def)

text \<open>Adding an authority that the newest entry shows.\<close>

lemma add_install:
  assumes "session_inv hist s" "se_prepared s" "plan_events hist = []" "se_maintenance s = None"
    and "install_shown hist (ia_config a) (ia_intent a)"
  shows "session_inv hist (s\<lparr>se_install := Some a\<rparr>)"
  using assms either_use [OF assms(1)] not_vm_used [OF assms(1)]
  by (simp add: session_inv_def auths_shown_def counted_def started_after_run_def)

lemma add_maintenance:
  assumes "session_inv hist s" "se_prepared s" "plan_events hist = []" "se_install s = None"
    and "maintenance_shown hist (ma_plan a) (ma_intent a)"
  shows "session_inv hist (s\<lparr>se_maintenance := Some a\<rparr>)"
  using assms either_use [OF assms(1)] not_vm_used [OF assms(1)]
  by (simp add: session_inv_def auths_shown_def counted_def started_after_run_def)

lemma add_vm:
  assumes "session_inv hist s" "se_vm_used s" "vm_shown hist (va_plan a) (va_intent a)"
  shows "session_inv hist (s\<lparr>se_vm := Some a\<rparr>)"
  using assms either_use [OF assms(1)] unprepared [OF assms(1)]
  by (simp add: session_inv_def auths_shown_def counted_def started_after_run_def)

lemma granted_install:
  assumes "session_inv hist s" "\<not> se_prepared s" "\<not> se_vm_used s" "prepare_install h plan w = (Inr (a, g), w1)"
  shows "good_step l hist (answer (Inr (InstallGranted g)) (s\<lparr>se_prepared := True, se_install := Some a\<rparr>) w2)"
proof -
  let ?h = "(l, Some (lifted (Inr (InstallGranted g))), []) # hist" and ?s = "s\<lparr>se_prepared := True\<rparr>"
  have g: "ig_intent g = ia_intent a" "ig_image g = ic_image (ia_config a)" "ig_drive g = ic_drive (ia_config a)"
    "ig_disk_gb g = ic_disk_gb (ia_config a)" "ig_encryption g = ic_encryption (ia_config a)"
    using assms(4) by (auto simp: prepare_install_def prepareNativeInstallAuthorization_def step_Inr)
  have "session_inv ?h ?s"
    by (rule quiet_step [OF session_inv_prepare [OF assms(1,2,3)]]) (simp_all add: assms(3))
  moreover have "install_shown ?h (ia_config a) (ia_intent a)"
    using g by (auto simp: install_shown_def replied_def lifted_def)
  ultimately have "session_inv ?h (?s\<lparr>se_install := Some a\<rparr>)"
    using unprepared [OF assms(1,2)] by (intro add_install) simp_all
  then show ?thesis by (simp add: good_step_def answer_def)
qed

lemma granted_maintenance:
  assumes "session_inv hist s" "\<not> se_prepared s" "\<not> se_vm_used s" "prepare_maintenance h plan w = (Inr (a, g), w1)"
  shows "good_step l hist (answer (Inr (MaintenanceGranted g)) (s\<lparr>se_prepared := True, se_maintenance := Some a\<rparr>) w2)"
proof -
  let ?h = "(l, Some (lifted (Inr (MaintenanceGranted g))), []) # hist" and ?s = "s\<lparr>se_prepared := True\<rparr>"
  have g: "mg_intent g = ma_intent a" "mg_plan g = ma_plan a"
    using assms(4) by (auto simp: prepare_maintenance_def step_Inr)
  have "session_inv ?h ?s"
    by (rule quiet_step [OF session_inv_prepare [OF assms(1,2,3)]]) (simp_all add: assms(3))
  moreover have "maintenance_shown ?h (ma_plan a) (ma_intent a)"
    using g by (auto simp: maintenance_shown_def replied_def lifted_def)
  ultimately have "session_inv ?h (?s\<lparr>se_maintenance := Some a\<rparr>)"
    using unprepared [OF assms(1,2)] by (intro add_maintenance) simp_all
  then show ?thesis by (simp add: good_step_def answer_def)
qed

lemma session_inv_vm:
  "session_inv hist s \<Longrightarrow> \<not> se_prepared s \<Longrightarrow> session_inv hist (s\<lparr>se_vm := None, se_vm_used := True\<rparr>)"
  by (simp add: session_inv_def auths_shown_def counted_def started_after_run_def)

lemma granted_vm:
  assumes "session_inv hist s" "\<not> se_prepared s" "grant_vm h plan w = (Inr (a, g), w1)"
  shows "good_step l hist (answer (Inr (VMGranted g)) (s\<lparr>se_vm_used := True, se_vm := Some a\<rparr>) w2)"
proof -
  let ?h = "(l, Some (lifted (Inr (VMGranted g))), []) # hist" and ?s = "s\<lparr>se_vm := None, se_vm_used := True\<rparr>"
  have g: "vg_intent g = va_intent a" "vg_action g = vp_action (va_plan a)"
    using assms(3) by (auto simp: grant_vm_def step_Inr)
  have "session_inv ?h ?s"
    by (rule quiet_step [OF session_inv_vm [OF assms(1,2)]]) (simp_all add: assms(2))
  moreover have "vm_shown ?h (va_plan a) (va_intent a)"
    using g by (auto simp: vm_shown_def replied_def lifted_def)
  ultimately have "session_inv ?h (?s\<lparr>se_vm := Some a\<rparr>)" by (intro add_vm) simp_all
  then show ?thesis by (simp add: good_step_def answer_def)
qed

subsection \<open>Every request keeps the invariant\<close>

lemma good_prepared_answer:
  "session_inv hist s \<Longrightarrow> \<not> se_prepared s \<Longrightarrow> \<not> se_vm_used s \<Longrightarrow>
    good_step l hist (answer r (s\<lparr>se_prepared := True\<rparr>) w)"
  by (intro good_answer session_inv_prepare)

lemma good_prepare_install:
  assumes "session_inv hist s"
  shows "good_step l hist (handle_prepare_install hs p s w)"
proof (cases "se_prepared s \<or> se_vm_used s")
  case True
  then show ?thesis by (simp add: handle_prepare_install_def good_answer [OF assms])
next
  case False
  then have np: "\<not> se_prepared s" and nu: "\<not> se_vm_used s" by simp_all
  note quiet = good_prepared_answer [OF assms np nu]
  from granted_install [OF assms np nu] quiet show ?thesis
    by (auto simp: handle_prepare_install_def Let_def np nu split: sum.splits option.splits prod.splits)
qed

lemma good_prepare_maintenance:
  assumes "session_inv hist s"
  shows "good_step l hist (handle_prepare_maintenance hs p s w)"
proof (cases "se_prepared s \<or> se_vm_used s")
  case True
  then show ?thesis by (simp add: handle_prepare_maintenance_def good_answer [OF assms])
next
  case False
  then have np: "\<not> se_prepared s" and nu: "\<not> se_vm_used s" by simp_all
  note quiet = good_prepared_answer [OF assms np nu]
  from granted_maintenance [OF assms np nu] quiet show ?thesis
    by (auto simp: handle_prepare_maintenance_def Let_def np nu split: sum.splits option.splits prod.splits)
qed

lemma good_prepare_vm:
  assumes "session_inv hist s"
  shows "good_step l hist (handle_prepare_vm hs p s w)"
proof (cases "se_prepared s")
  case True
  then show ?thesis by (simp add: handle_prepare_vm_def good_answer [OF assms])
next
  case False
  have e: "s\<lparr>se_vm := None, se_vm_used := True, se_vm := Some a\<rparr> = s\<lparr>se_vm_used := True, se_vm := Some a\<rparr>" for a
    by simp
  from granted_vm [OF assms False] good_answer [OF assms] good_answer [OF session_inv_vm [OF assms False]] False
  show ?thesis
    by (auto simp: handle_prepare_vm_def Let_def split: sum.splits option.splits prod.splits)
qed

text \<open>A confirmation takes the authority away, so a run is the last of its kind.\<close>

lemma good_run_plan:
  assumes inv: "session_inv hist s" and auth: "se_install s \<noteq> None \<or> se_maintenance s \<noteq> None"
    and ev: "plan_event (Session ev)" "justified l hist (Session ev)"
    and st: "se_started s' \<longrightarrow> se_started s \<or> ran_install (Session ev)"
    and s': "se_install s' = None" "se_maintenance s' = None" "se_vm s' = se_vm s" "se_prepared s' = se_prepared s"
      "se_vm_used s' = se_vm_used s"
  shows "good_step l hist (((r, [ev]), s'), w)"
proof -
  from inv auth have c: "auths_shown hist s" "counted hist s" "started_after_run hist s"
      "se_prepared s" "plan_events hist = []" "\<not> se_vm_used s" "se_vm s = None" "vm_events hist = []"
    by (auto simp: session_inv_def counted_def)
  have "\<not> vm_event (Session ev)" using ev(1) by (cases ev) simp_all
  with c ev s' have "counted ((l, Some (lifted r), [Session ev]) # hist) s'" by (simp add: counted_def)
  moreover have "auths_shown ((l, Some (lifted r), [Session ev]) # hist) s'"
    using s' c by (simp add: auths_shown_def)
  moreover have "started_after_run ((l, Some (lifted r), [Session ev]) # hist) s'"
    using st c(3) by (auto simp: started_after_run_def entry_events_def)
  ultimately show ?thesis using ev by (simp add: good_step_def session_inv_def)
qed

lemma good_spent:
  assumes "session_inv hist s" "se_install s' = se_install s \<or> se_install s' = None"
    "se_maintenance s' = se_maintenance s \<or> se_maintenance s' = None" "se_vm s' = se_vm s \<or> se_vm s' = None"
    "se_prepared s' = se_prepared s" "se_vm_used s' = se_vm_used s" "se_started s' = se_started s"
  shows "good_step l hist (((r, []), s'), w)"
  using quiet_step [OF assms(1-4)] assms(5-7) either_use [OF assms(1)] by (simp add: good_step_def)

lemma install_shown_of: "session_inv hist s \<Longrightarrow> se_install s = Some a \<Longrightarrow> install_shown hist (ia_config a) (ia_intent a)"
  and maintenance_shown_of: "session_inv hist s \<Longrightarrow> se_maintenance s = Some m \<Longrightarrow> maintenance_shown hist (ma_plan m) (ma_intent m)"
  and vm_shown_of: "session_inv hist s \<Longrightarrow> se_vm s = Some v \<Longrightarrow> vm_shown hist (va_plan v) (va_intent v)"
  by (simp_all add: session_inv_def auths_shown_def)

lemma one_plan_authority:
  "session_inv hist s \<Longrightarrow> se_install s \<noteq> None \<Longrightarrow> se_maintenance s = None"
  "session_inv hist s \<Longrightarrow> se_maintenance s \<noteq> None \<Longrightarrow> se_install s = None"
  by (simp_all add: session_inv_def counted_def)

lemma unrefused_install_runs: "confirm_install h data a w = (((None, runs), a1), w1) \<Longrightarrow> runs = [ia_config a]"
  by (auto simp: confirm_install_def Let_def split: if_splits prod.splits sum.splits)

lemma good_confirm_install:
  assumes inv: "session_inv hist s" and l: "l = Request ''2.0'' ''ConfirmNativeInstall'' p"
  shows "good_step l hist (handle_confirm_install hs p s w)"
proof (cases "se_confirmed s")
  case True
  then show ?thesis by (auto simp: handle_confirm_install_def Let_def answer_def intro!: good_spent [OF inv])
next
  case nc: False
  show ?thesis
  proof (cases "se_install s")
    case None
    then show ?thesis by (auto simp: handle_confirm_install_def Let_def answer_def nc intro!: good_spent [OF inv])
  next
    case a: (Some a)
    show ?thesis
    proof (cases "sh_install hs")
      case None
      then show ?thesis by (auto simp: handle_confirm_install_def Let_def answer_def nc intro!: good_spent [OF inv] split: option.splits)
    next
      case h: (Some h)
      obtain e runs a1 w1 where c: "confirm_install h (raw_params p) a w = (((e, runs), a1), w1)" by (metis prod.collapse)
      have m: "se_maintenance s = None" using one_plan_authority(1) [OF inv] a by simp
      from install.granted [OF c] consider "runs = []" | "runs = [ia_config a]" "install_reason h (raw_params p) a" by blast
      then show ?thesis
      proof cases
        case 1
        then obtain t where "e = Some t" using unrefused_install_runs [of h "raw_params p" a w runs a1 w1] c by (cases e) auto
        with 1 show ?thesis
          by (auto simp: handle_confirm_install_def Let_def nc a h c intro!: good_spent [OF inv])
      next
        case 2
        then have "justified l hist (Session (RanInstall (ia_config a)))"
          using install_shown_of [OF inv a] by (auto simp: install_reason_def quotes_install_def l)
        then show ?thesis using m
          by (auto simp: handle_confirm_install_def Let_def nc a h c 2 intro!: good_run_plan [OF inv] split: option.splits)
      qed
    qed
  qed
qed


lemma good_confirm_maintenance:
  assumes inv: "session_inv hist s" and l: "l = Request ''2.0'' ''ConfirmNativeMaintenance'' p"
  shows "good_step l hist (handle_confirm_maintenance hs p s w)"
proof (cases "\<not> se_confirmed s \<and> se_maintenance s \<noteq> None \<and> sh_maintenance hs \<noteq> None")
  case False
  then show ?thesis
    by (auto simp: handle_confirm_maintenance_def Let_def answer_def intro!: good_spent [OF inv]
        split: option.splits bool.splits)
next
  case True
  then obtain a h where nc: "\<not> se_confirmed s" and a: "se_maintenance s = Some a" and h: "sh_maintenance hs = Some h" by auto
  obtain e runs a1 w1 where c: "confirm_maintenance h (raw_params p) a w = (((e, runs), a1), w1)" by (metis prod.collapse)
  have i: "se_install s = None" using one_plan_authority(2) [OF inv] a by simp
  from maintenance.granted [OF c] consider "runs = []" | "runs = [ma_plan a]" "maintenance_reason h (raw_params p) a" by blast
  then show ?thesis
  proof cases
    case 1
    then show ?thesis
      by (auto simp: handle_confirm_maintenance_def Let_def nc a h c intro!: good_spent [OF inv])
  next
    case 2
    then have "justified l hist (Session (RanMaintenance (ma_plan a)))"
      using maintenance_shown_of [OF inv a] by (auto simp: maintenance_reason_def quotes_def l)
    then show ?thesis using i
      by (auto simp: handle_confirm_maintenance_def Let_def nc a h c 2 intro!: good_run_plan [OF inv])
  qed
qed

lemma good_run_vm:
  assumes inv: "session_inv hist s" and v: "se_vm s = Some v" and j: "justified l hist (Session (RanVM plan))"
  shows "good_step l hist (((r, [RanVM plan]), s\<lparr>se_vm := None\<rparr>), w)"
proof -
  from inv v have "auths_shown hist s" "counted hist s" "started_after_run hist s" "se_vm_used s" "\<not> se_prepared s"
    "se_install s = None" "se_maintenance s = None" "plan_events hist = []"
    by (auto simp: session_inv_def counted_def)
  then have "session_inv ((l, Some (lifted r), [Session (RanVM plan)]) # hist) (s\<lparr>se_vm := None\<rparr>)"
    by (simp add: session_inv_def auths_shown_def counted_def started_after_run_def entry_events_def)
  with j show ?thesis by (simp add: good_step_def)
qed

lemma good_confirm_vm:
  assumes inv: "session_inv hist s" and l: "l = Request ''2.0'' ''ConfirmNativeVMAction'' p"
  shows "good_step l hist (handle_confirm_vm hs p s w)"
proof (cases "se_vm s \<noteq> None \<and> sh_vm hs \<noteq> None")
  case False
  then show ?thesis
    by (auto simp: handle_confirm_vm_def Let_def answer_def intro!: good_spent [OF inv] split: option.splits)
next
  case True
  then obtain a h where a: "se_vm s = Some a" and h: "sh_vm hs = Some h" by auto
  obtain e runs a1 w1 where c: "confirm_vm h (raw_params p) a w = (((e, runs), a1), w1)" by (metis prod.collapse)
  from vm.granted [OF c] consider "runs = []" | "runs = [va_plan a]" "vm_reason h (raw_params p) a" by blast
  then show ?thesis
  proof cases
    case 1
    then show ?thesis by (auto simp: handle_confirm_vm_def Let_def a h c intro!: good_spent [OF inv])
  next
    case 2
    then have "justified l hist (Session (RanVM (va_plan a)))"
      using vm_shown_of [OF inv a] by (auto simp: vm_reason_def quotes_def l)
    then show ?thesis by (auto simp: handle_confirm_vm_def Let_def a h c 2 intro!: good_run_vm [OF inv a])
  qed
qed

lemma good_dispatch:
  assumes "session_inv hist s" "l = Request ''2.0'' meth p"
  shows "good_step l hist (session_dispatch hs meth p s w)"
  using assms by (auto simp: session_dispatch_def intro!: good_prepare_install good_prepare_maintenance good_prepare_vm
      good_confirm_install good_confirm_maintenance good_confirm_vm good_answer)

lemma good_reboot:
  assumes inv: "session_inv hist s" and st: "se_started s"
  shows "good_step l hist (((r, [RanReboot]), s), w)"
proof -
  have "justified l hist (Session RanReboot)"
    using inv st by (auto simp: session_inv_def started_after_run_def)
  moreover have "session_inv ((l, Some (lifted r), [Session RanReboot]) # hist) s"
    using inv shown_mono by (auto simp: session_inv_def auths_shown_def counted_def started_after_run_def)
  ultimately show ?thesis by (simp add: good_step_def)
qed

lemma good_restart: "session_inv hist s \<Longrightarrow> good_step l hist (session_restart hs st s w)"
  by (auto simp: session_restart_def intro!: good_answer good_reboot split: option.splits prod.splits)

lemma good_read: "session_inv hist s \<Longrightarrow> good_step l hist (session_read hs meth p s w)"
  by (auto simp: session_read_def intro!: good_answer split: option.splits prod.splits)

lemma good_vm_status: "session_inv hist s \<Longrightarrow> good_step l hist (session_vm_status hs p s w)"
  by (auto simp: session_vm_status_def intro!: good_answer split: option.splits prod.splits)


subsection \<open>Requests to the server\<close>

definition good_answered ::
  "request_line \<Rightarrow> served_entry list \<Rightarrow> (((rpc_error + server_reply) \<times> server_event list) \<times> server_state) \<times> 'w \<Rightarrow> bool"
where
  "good_answered l hist res \<longleftrightarrow>
     (case res of (((r, evs), st'), w') \<Rightarrow>
        session_inv ((l, Some r, evs) # hist) (ss_session st') \<and> (\<forall>ev\<in>set evs. justified l hist ev))"

lemma idle_entry:
  assumes "session_inv hist s" "filter plan_event evs = []" "filter vm_event evs = []"
  shows "session_inv ((l, r, evs) # hist) s"
proof -
  have "auths_shown ((l, r, evs) # hist) s" using assms(1) by (intro auths_shown_quiet [of hist s]) (simp_all add: session_inv_def)
  moreover have "counted ((l, r, evs) # hist) s" using assms by (simp add: session_inv_def counted_def)
  moreover have "started_after_run ((l, r, evs) # hist) s"
    using assms(1) by (intro started_mono) (simp_all add: session_inv_def)
  ultimately show ?thesis by (simp add: session_inv_def)
qed

lemma good_reply: "session_inv hist (ss_session st) \<Longrightarrow> good_answered l hist (reply r st w)"
  by (simp add: good_answered_def reply_def idle_entry)

lemma good_in_session:
  assumes "good_step l hist (h (ss_session st) w)"
  shows "good_answered l hist (in_session h st w)"
proof -
  obtain r evs s1 w1 where h: "h (ss_session st) w = (((r, evs), s1), w1)" by (metis prod.collapse)
  with assms show ?thesis by (simp add: good_step_def good_answered_def in_session_def lifted_def)
qed

lemma good_validated:
  "session_inv hist (ss_session st) \<Longrightarrow> (\<And>w. good_answered l hist (k st w)) \<Longrightarrow> good_answered l hist (validated sv k st w)"
  by (auto simp: validated_def intro: good_reply split: option.splits prod.splits)

lemma good_call_app:
  "session_inv hist (ss_session st) \<Longrightarrow> meth = ''GetStatus'' \<or> meth = ''CancelInstall'' \<Longrightarrow>
    good_answered l hist (call_app sv meth p st w)"
  by (auto simp: call_app_def good_answered_def intro!: idle_entry split: prod.splits sum.splits)

lemma general_status: "general_dispatch sv ''GetStatus'' p = validated sv (call_app sv ''GetStatus'' p)"
  by (simp add: general_dispatch_def)

lemma general_cancel: "general_dispatch sv ''CancelInstall'' p = call_app sv ''CancelInstall'' p"
proof -
  have "List.member plain_methods ''CancelInstall''" "\<not> List.member parameter_methods ''CancelInstall''" by code_simp+
  then show ?thesis by (simp add: general_dispatch_def)
qed

lemma good_assessed:
  assumes "session_inv hist (ss_session st)" "good_answered l hist (general_dispatch sv meth p st w)"
  shows "good_answered l hist (assessed_dispatch sv meth p st w)"
  using assms(2) by (simp add: assessed_dispatch_def refused_method_def good_reply [OF assms(1)])

lemma good_observation:
  assumes inv: "session_inv hist (ss_session st)" and m: "meth = ''GetStatus'' \<or> meth = ''CancelInstall''"
  shows "good_answered l hist (assessed_dispatch sv meth p st w)"
proof (rule good_assessed [OF inv])
  show "good_answered l hist (general_dispatch sv meth p st w)"
    using m
  proof
    assume "meth = ''GetStatus''"
    then show "good_answered l hist (general_dispatch sv meth p st w)" by (simp add: general_status good_validated inv good_call_app [OF inv])
  next
    assume "meth = ''CancelInstall''"
    then show ?thesis by (simp add: general_cancel good_call_app [OF inv])
  qed
qed

lemma good_server_dispatch:
  assumes "session_inv hist (ss_session st)" "rs_session sv = Some hs" "l = Request ''2.0'' meth p"
  shows "good_answered l hist (server_dispatch sv meth p st w)"
  using assms good_observation [OF assms(1), of meth l sv p]
  by (auto simp: server_dispatch_def refused_method_def
      intro!: good_reply good_validated good_in_session good_restart good_read good_vm_status good_dispatch
      split: prod.splits)

lemma good_serve_line:
  assumes "session_inv hist (ss_session st)" "rs_session sv = Some hs" "serve_line sv l st w = (((r, evs), st'), w')"
  shows "session_inv ((l, r, evs) # hist) (ss_session st') \<and> (\<forall>ev\<in>set evs. justified l hist ev)"
proof (cases l)
  case Blank
  then show ?thesis using assms by (auto simp: serve_line_def idle_entry)
next
  case Unparsed
  then show ?thesis using assms by (auto simp: serve_line_def idle_entry)
next
  case (Request version meth p)
  show ?thesis
  proof (cases "version = ''2.0'' \<and> meth \<noteq> []")
    case True
    obtain r1 evs1 st1 w1 where d: "server_dispatch sv meth p st w = (((r1, evs1), st1), w1)" by (metis prod.collapse)
    from good_server_dispatch [OF assms(1,2), of l meth p w] True Request assms(3) d show ?thesis
      by (auto simp: serve_line_def good_answered_def)
  next
    case False
    then show ?thesis using Request assms by (auto simp: serve_line_def idle_entry)
  qed
qed

lemma fresh_inv: "session_inv [] (ss_session fresh_state)"
  by (simp add: fresh_state_def newNativeInstallSession_def session_inv_def auths_shown_def counted_def started_after_run_def)

lemma served_inv:
  "served sv hist st w \<Longrightarrow> rs_session sv = Some hs \<Longrightarrow> session_inv hist (ss_session st) \<and> all_justified hist"
proof (induction rule: served.induct)
  case (served_start w)
  then show ?case by (simp add: fresh_inv)
next
  case (served_world hist st w w')
  then show ?case by simp
next
  case (served_line hist st w l r evs st' w')
  then have "session_inv hist (ss_session st)" "all_justified hist" by simp_all
  with good_serve_line [OF this(1) served_line.prems served_line.hyps(2)] show ?case by simp
qed

lemma inv_counts:
  "session_inv hist s \<Longrightarrow> length (plan_events hist) \<le> 1 \<and> (plan_events hist = [] \<or> vm_events hist = [])"
  unfolding session_inv_def counted_def by blast

text \<open>
  C16: consent, for a whole session. Whatever requests an install-purpose server is sent, in
  whatever order, and whatever happens on the machine between them: every plan it ran was shown
  in an earlier grant whose intent the request quotes, every restart follows an installation,
  no other call reaches the App than the status and the cancellation; at most one plan of the
  installation or its maintenance ran, and a session that ran one started no VM action.
\<close>

theorem session_consent:
  assumes "served sv hist st w" and "rs_session sv = Some hs"
  shows "all_justified hist \<and> length (plan_events hist) \<le> 1 \<and> (plan_events hist = [] \<or> vm_events hist = [])"
  using served_inv [OF assms] inv_counts by blast

subsection \<open>Assessment\<close>

definition observation_call :: "server_event \<Rightarrow> bool" where
  "observation_call ev \<longleftrightarrow>
     (case ev of AppCall m \<Rightarrow> m \<in> set (assessment_reads @ [''E2EDriveDirective'', ''E2EDriveReport'', ''E2EDriveReady''])
      | Session e \<Rightarrow> False)"

definition only_observed ::
  "server_state \<Rightarrow> (((rpc_error + server_reply) \<times> server_event list) \<times> server_state) \<times> 'w \<Rightarrow> bool" where
  "only_observed st res \<longleftrightarrow>
     (case res of (((r, evs), st'), w') \<Rightarrow> list_all observation_call evs \<and> ss_session st' = ss_session st)"

lemma observed_reply: "only_observed st (reply r st w)"
  by (simp add: only_observed_def reply_def)

lemma observed_validated: "(\<And>w. only_observed st (k st w)) \<Longrightarrow> only_observed st (validated sv k st w)"
  by (auto simp: validated_def intro: observed_reply split: option.splits prod.splits)

lemma observed_app: "observation_call (AppCall m) \<Longrightarrow> only_observed st (call_app sv m p st w)"
  by (auto simp: call_app_def only_observed_def split: prod.splits sum.splits)

lemma observed_native: "only_observed st (native_read sv m msg st w)"
  by (auto simp: native_read_def intro: observed_reply split: prod.splits sum.splits)

lemma observed_audited: "(\<And>w. only_observed st (k st w)) \<Longrightarrow> only_observed st (audited sv k st w)"
  by (auto simp: audited_def intro: observed_reply split: option.splits prod.splits)

lemma observed_configuration: "only_observed st (read_configuration sv p st w)"
  by (auto simp: read_configuration_def refused_method_def intro!: observed_reply observed_validated
      split: option.splits prod.splits sum.splits) (auto simp: only_observed_def reply_def)

lemma observed_space: "only_observed st (installSpace sv p st w)"
  by (auto simp: installSpace_def refused_method_def Let_def intro!: observed_reply observed_validated
      split: option.splits prod.splits)


lemma observed_startup:
  "observation_call (AppCall m) \<Longrightarrow> only_observed st (startup_read sv m msg p st w)"
  by (auto simp: startup_read_def intro!: observed_validated observed_audited observed_native observed_app)

lemma observed_recovery:
  "observation_call (AppCall ''GetInstallRecovery'') \<Longrightarrow> only_observed st (recovery_read sv p st w)"
  unfolding recovery_read_def
  by (auto intro!: observed_reply observed_validated observed_audited observed_native observed_app split: prod.splits)

text \<open>The methods an assessment server admits, one by one.\<close>

lemma method_kinds:
  "''E2EDriveDirective'' \<notin> set parameter_methods" "''E2EDriveDirective'' \<in> set plain_methods"
  "''E2EDriveReport'' \<in> set parameter_methods" "''E2EDriveReady'' \<in> set parameter_methods"
  by code_simp+

lemma general_space:
  "general_dispatch sv ''GetNativeInstallSpace'' p =
     (case rs_configuration sv of None \<Rightarrow> refused_method ''method unavailable in this session'' | Some c \<Rightarrow> installSpace sv p)"
  by (simp add: general_dispatch_def)

lemma general_reads:
  "general_dispatch sv ''GetLastRun'' p = startup_read sv ''GetLastRun'' ''native lifecycle observation refused'' p"
  "general_dispatch sv ''GetRecoveryVerdict'' p =
     startup_read sv ''GetRecoveryVerdict'' ''native recovery observation refused'' p"
  "general_dispatch sv ''GetInstallRecovery'' p = recovery_read sv p"
  "general_dispatch sv ''GetNativeConfiguration'' p = read_configuration sv p"
  "general_dispatch sv ''E2EDriveDirective'' p = call_app sv ''E2EDriveDirective'' p"
  "general_dispatch sv ''E2EDriveReport'' p =
     (if rs_accepts sv ''E2EDriveReport'' p then call_app sv ''E2EDriveReport'' p
      else reply (Inl (InvalidParams (Text ''invalid params''))))"
  "general_dispatch sv ''E2EDriveReady'' p =
     (if rs_accepts sv ''E2EDriveReady'' p then call_app sv ''E2EDriveReady'' p
      else reply (Inl (InvalidParams (Text ''invalid params''))))"
  by (simp_all add: general_dispatch_def method_kinds)

lemma observation_calls:
  "observation_call (AppCall ''GetStatus'')" "observation_call (AppCall ''GetLastRun'')"
  "observation_call (AppCall ''GetRecoveryVerdict'')" "observation_call (AppCall ''GetInstallRecovery'')"
  "observation_call (AppCall ''E2EDriveDirective'')" "observation_call (AppCall ''E2EDriveReport'')"
  "observation_call (AppCall ''E2EDriveReady'')"
  by code_simp+

lemma observed_space_method: "only_observed st (general_dispatch sv ''GetNativeInstallSpace'' p st w)"
  by (simp add: general_space observed_space refused_method_def observed_reply split: option.splits)

lemmas observed_methods = general_status general_reads observed_space_method observed_validated observed_app
  observed_startup observed_recovery observed_configuration observed_reply observation_calls

lemma observed_reads: "list_all (\<lambda>m. only_observed st (general_dispatch sv m p st w)) assessment_reads"
  by (simp add: assessment_reads_def observed_methods)

lemma observed_configurations: "list_all (\<lambda>m. only_observed st (general_dispatch sv m p st w)) configuration_methods"
  by (simp add: configuration_methods_def observed_methods)

lemma observed_general:
  "m \<in> set assessment_reads \<or> m \<in> set configuration_methods \<Longrightarrow>
     only_observed st (general_dispatch sv m p st w)"
  using observed_reads [of st sv p w] observed_configurations [of st sv p w] by (auto simp: list_all_iff)

lemma observed_assessment:
  assumes "rs_assessment sv" "rs_session sv = None"
  shows "only_observed st (server_dispatch sv m p st w)"
proof (cases "m \<in> set assessment_reads \<or> m \<in> set configuration_methods")
  case True
  then have "only_observed st (general_dispatch sv m p st w)" by (rule observed_general)
  with assms show ?thesis
    by (simp add: server_dispatch_def assessed_dispatch_def refused_method_def observed_reply)
next
  case False
  with assms show ?thesis by (simp add: server_dispatch_def assessed_dispatch_def refused_method_def observed_reply)
qed

lemma observed_line:
  assumes "rs_assessment sv" "rs_session sv = None" "serve_line sv l st w = (((r, evs), st1), w1)"
  shows "list_all observation_call evs \<and> ss_session st1 = ss_session st"
proof (cases "\<exists>m p. l = Request ''2.0'' m p \<and> m \<noteq> []")
  case True
  then obtain m p where l: "l = Request ''2.0'' m p" "m \<noteq> []" by blast
  obtain r1 evs1 st2 w2 where d: "server_dispatch sv m p st w = (((r1, evs1), st2), w2)" by (metis prod.collapse)
  from observed_assessment [OF assms(1,2), of st m p w] d assms(3) l show ?thesis
    by (simp add: serve_line_def only_observed_def)
next
  case False
  with assms(3) show ?thesis by (auto simp: serve_line_def split: request_line.splits if_splits)
qed

text \<open>
  Assessment changes nothing. A server made by the assessment constructor, with or without a
  configuration reader, sent any sequence of requests, never calls a method of the App other than
  the status reads and the development drive's, runs no plan, and keeps no consent.
\<close>

theorem assessment_only_observes:
  assumes "rs_session sv = None" and "serve_lines (NewAssessmentServer sv) ls st w = ((evs, st'), w')"
  shows "list_all observation_call evs \<and> ss_session st' = ss_session st"
  using assms(2)
proof (induction ls arbitrary: st w evs)
  case Nil
  then show ?case by simp
next
  case (Cons l ls)
  let ?sv = "NewAssessmentServer sv"
  obtain r evs1 st1 w1 where l: "serve_line ?sv l st w = (((r, evs1), st1), w1)" by (metis prod.collapse)
  obtain evs2 st2 w2 where ls: "serve_lines ?sv ls st1 w1 = ((evs2, st2), w2)" by (metis prod.collapse)
  have o: "list_all observation_call evs1 \<and> ss_session st1 = ss_session st"
    using assms(1) by (intro observed_line [OF _ _ l]) (simp_all add: NewAssessmentServer_def)
  show ?case
  proof (cases "ss_shutdown st1")
    case True
    with Cons.prems l o show ?thesis by simp
  next
    case False
    with Cons.prems l ls have e: "evs = evs1 @ evs2" "st' = st2" "w' = w2" by simp_all
    from Cons.IH [of st1 w1 evs2] ls e(2,3) o e(1) show ?thesis by simp
  qed
qed

end
