(* ===== verification/Session_Witness.thy ===== *)
theory Session_Witness
  imports Session_Histories
begin

text \<open>
  A removal in a concrete install session: the shell prepares an uninstall plan, confirms it and
  confirms it again; then it asks for a VM action. Evaluated for the witnesses of
  \<open>Session_Histories\<close>.
\<close>

definition sample_removal :: maintenance_plan where
  "sample_removal = \<lparr>mp_action = ''uninstall'', mp_delete = True, mp_remove = False\<rparr>"

definition sample_boot :: boot_report where
  "sample_boot =
     \<lparr>rr_at = [], rr_state = ''healthy'', rr_ownership = ''owned'', rr_lifecycle = [], rr_sequence = [], rr_order = [],
      rr_entries = [], rr_findings = [], rr_refusals = [], rr_can_restore = False, rr_can_repair = False,
      rr_recommended = []\<rparr>"

definition sample_found :: uninstall_info where
  "sample_found =
     \<lparr>un_found = True, un_drive = ''C'', un_disk_path = ''root.disk'', un_removal_reason = [], un_dedicated = False,
      un_reclaim = 0, un_label = ''Linux'', un_orphaned = False, un_deployed = True\<rparr>"

text \<open>The world counts the intents that were drawn.\<close>

definition sample_intent :: string where
  "sample_intent = ''0123456789abcdef0123456789abcdef''"

definition sample_host :: "nat maintenance_host" where
  "sample_host =
     \<lparr>mh_session = ''ffffffffffffffffffffffffffffffff'', mh_brand = ''wootc'', mh_complete = True,
      mh_running = (\<lambda>w. (False, w)), mh_info = (\<lambda>w. (sample_found, w)), mh_boot = (\<lambda>w. (sample_boot, w)),
      mh_inspect = (\<lambda>w. (sample_boot, w)), mh_verdict = (\<lambda>w. (safe_actions, w)), mh_user = (\<lambda>w. (None, w)),
      mh_nonce = (\<lambda>w. (Inr sample_intent, Suc w)), mh_run = (\<lambda>plan w. (None, w))\<rparr>"

definition sample_hosts :: "nat session_hosts" where
  "sample_hosts = \<lparr>sh_install = None, sh_maintenance = Some sample_host, sh_vm = None, sh_reboot = None\<rparr>"

definition sample_server :: "nat rpc_server" where
  "sample_server = newNativeInstallServer sample_hosts
     \<lparr>rs_validate = Some (\<lambda>w. (None, w)), rs_assessment = False, rs_configuration = None, rs_space = None,
      rs_session = None, rs_strict = True, rs_accepts = (\<lambda>m p. True), rs_app = (\<lambda>m p w. (Inr m, w)),
      rs_status = (\<lambda>w. (\<lparr>is_running = False, is_done = False, is_error = []\<rparr>, w)),
      rs_audit = (\<lambda>w. (None, w)), rs_native = (\<lambda>m w. (Inr m, w))\<rparr>"

definition prepare_line :: request_line where
  "prepare_line = Request ''2.0'' ''PrepareNativeMaintenance''
     (Params 48 (json_tokens (JObj [(''action'', JStr ''uninstall''), (''deleteRootDisk'', JBool True)])))"

definition confirm_line :: request_line where
  "confirm_line = Request ''2.0'' ''ConfirmNativeMaintenance''
     (Params 200 (json_tokens (JObj
        [(''kind'', JStr ''confirm-maintenance''), (''protocolVersion'', JNum ''1''),
         (''session'', JStr (replicate 32 (CHR ''f''))), (''brandId'', JStr ''wootc''),
         (''intentId'', JStr sample_intent), (''action'', JStr ''uninstall'')])))"

definition vm_line :: request_line where
  "vm_line = Request ''2.0'' ''PrepareNativeVMAction'' (Params 20 (json_tokens (JObj [(''action'', JStr ''boot'')])))"

definition sample_grant :: maintenance_grant where
  "sample_grant =
     \<lparr>mg_session = ''ffffffffffffffffffffffffffffffff'', mg_brand = ''wootc'', mg_intent = sample_intent,
      mg_plan = sample_removal, mg_disk_path = ''root.disk'', mg_drive = ''C'', mg_label = ''Linux'',
      mg_orphaned = False, mg_boot_state = ''healthy''\<rparr>"

definition session_refusal :: "string \<Rightarrow> (rpc_error + server_reply) option" where
  "session_refusal s = Some (Inl (Internal (Text s)))"

fun serve_all ::
  "'w rpc_server \<Rightarrow> request_line list \<Rightarrow> served_entry list \<Rightarrow> server_state \<Rightarrow> 'w \<Rightarrow> (served_entry list \<times> server_state) \<times> 'w"
where
  "serve_all sv [] hist st w = ((hist, st), w)"
| "serve_all sv (l # ls) hist st w =
     (case serve_line sv l st w of (((r, evs), st1), w1) \<Rightarrow> serve_all sv ls ((l, r, evs) # hist) st1 w1)"

lemma served_all:
  "served sv hist st w \<Longrightarrow> served sv (fst (fst (serve_all sv ls hist st w))) (snd (fst (serve_all sv ls hist st w)))
     (snd (serve_all sv ls hist st w))"
  by (induction ls arbitrary: hist st w) (auto intro: served_line split: prod.splits)

definition sample_history :: "served_entry list" where
  "sample_history = fst (fst (serve_all sample_server [prepare_line, confirm_line, confirm_line, vm_line] [] fresh_state 0))"

lemma sample_entries:
  "map snd (rev sample_history) =
     [(Some (Inr (Replied (MaintenanceGranted sample_grant))), []),
      (Some (Inr (Replied EmptyReply)), [Session (RanMaintenance sample_removal)]),
      (session_refusal ''no maintenance intent is available in this session'', []),
      (session_refusal ''this install session already holds a plan; start a new session for the Linux window'', [])]"
  by code_simp

lemma session_consent_witness:
  "all_justified sample_history \<and> plan_events sample_history = [Session (RanMaintenance sample_removal)] \<and>
     vm_events sample_history = []"
proof -
  let ?r = "serve_all sample_server [prepare_line, confirm_line, confirm_line, vm_line] [] fresh_state 0"
  have s: "served sample_server sample_history (snd (fst ?r)) (snd ?r)"
    unfolding sample_history_def by (rule served_all) (rule served_start)
  have hs: "rs_session sample_server = Some sample_hosts" by (simp add: sample_server_def newNativeInstallServer_def)
  have "plan_events sample_history = [Session (RanMaintenance sample_removal)]" by code_simp
  with session_consent [OF s hs] show ?thesis by simp
qed

definition sample_assessment :: "nat rpc_server" where
  "sample_assessment = NewAssessmentServer (sample_server\<lparr>rs_session := None\<rparr>)"

definition assessment_lines :: "request_line list" where
  "assessment_lines =
     [Request ''2.0'' ''GetStatus'' NoParams, Request ''2.0'' ''StartInstall'' NoParams, confirm_line]"

lemma assessment_only_observes_witness:
  "fst (serve_lines sample_assessment assessment_lines fresh_state 0) = ([AppCall ''GetStatus''], fresh_state) \<and>
   list_all observation_call [AppCall ''GetStatus'']"
proof -
  have e: "fst (serve_lines sample_assessment assessment_lines fresh_state 0) = ([AppCall ''GetStatus''], fresh_state)"
    by code_simp
  then obtain w' where "serve_lines sample_assessment assessment_lines fresh_state 0 = (([AppCall ''GetStatus''], fresh_state), w')"
    by (metis prod.collapse)
  from assessment_only_observes [OF _ this [unfolded sample_assessment_def]] e show ?thesis by simp
qed

end
