(* ===== verification/Glob.thy ===== *)
theory Glob
  imports Go_Strings
begin

text \<open>
  Matching of kernel aliases (\<open>app/hardware.go\<close>, \<open>globMatch\<close>). The code walks the
  pattern and the text once and returns to the last star when it is stuck; it is shown to decide
  the language of the pattern, read as a sequence of single-rune tests and runs.
\<close>

subsection \<open>Runes of a string\<close>

text \<open>
  Conversion of a byte string to runes, as the language defines it: a byte that starts no valid
  encoding is the rune 0xFFFD on its own.
\<close>

type_synonym rune = int

definition byte :: "char \<Rightarrow> int" where
  "byte c = of_char c"

definition between :: "int \<Rightarrow> int \<Rightarrow> char \<Rightarrow> bool" where
  "between lo hi c \<longleftrightarrow> lo \<le> byte c \<and> byte c \<le> hi"

definition second_byte :: "int \<Rightarrow> char \<Rightarrow> bool" where
  "second_byte n c \<longleftrightarrow>
     (if n = 0xE0 then between 0xA0 0xBF c else if n = 0xED then between 0x80 0x9F c
      else if n = 0xF0 then between 0x90 0xBF c else if n = 0xF4 then between 0x80 0x8F c
      else between 0x80 0xBF c)"

definition decode_rune :: "char \<Rightarrow> string \<Rightarrow> rune \<times> string" where
  "decode_rune b r =
     (let n = byte b; bad = (0xFFFD, r) in
      if n < 0x80 then (n, r)
      else case r of
        [] \<Rightarrow> bad
      | c1 # r1 \<Rightarrow>
          if 0xC2 \<le> n \<and> n \<le> 0xDF \<and> second_byte n c1 then ((n - 0xC0) * 64 + (byte c1 - 0x80), r1)
          else (case r1 of
            [] \<Rightarrow> bad
          | c2 # r2 \<Rightarrow>
              if 0xE0 \<le> n \<and> n \<le> 0xEF \<and> second_byte n c1 \<and> between 0x80 0xBF c2
              then ((n - 0xE0) * 4096 + (byte c1 - 0x80) * 64 + (byte c2 - 0x80), r2)
              else (case r2 of
                [] \<Rightarrow> bad
              | c3 # r3 \<Rightarrow>
                  if 0xF0 \<le> n \<and> n \<le> 0xF4 \<and> second_byte n c1 \<and> between 0x80 0xBF c2 \<and> between 0x80 0xBF c3
                  then ((n - 0xF0) * 262144 + (byte c1 - 0x80) * 4096 + (byte c2 - 0x80) * 64 + (byte c3 - 0x80), r3)
                  else bad)))"

lemma decode_rune_shorter: "decode_rune b r = (x, r') \<Longrightarrow> length r' \<le> length r"
  by (auto simp: decode_rune_def Let_def split: if_splits list.splits)

function runes :: "string \<Rightarrow> rune list" where
  "runes [] = []"
| "runes (b # r) = (let (x, r1) = decode_rune b r in x # runes r1)"
  by pat_completeness auto
termination
  by (relation "measure length") (auto simp: less_Suc_eq_le dest: decode_rune_shorter [OF sym])

lemma runes_ascii: "list_all (\<lambda>c. byte c < 0x80) s \<Longrightarrow> runes s = map byte s"
  by (induction s) (simp_all add: decode_rune_def)

subsection \<open>The matcher\<close>

definition rune_star :: rune where "rune_star = 42"
definition rune_any :: rune where "rune_any = 63"
definition rune_open :: rune where "rune_open = 91"
definition rune_close :: rune where "rune_close = 93"
definition rune_dash :: rune where "rune_dash = 45"
definition rune_bang :: rune where "rune_bang = 33"
definition rune_caret :: rune where "rune_caret = 94"

lemmas rune_names = rune_star_def rune_any_def rune_open_def rune_close_def rune_dash_def rune_bang_def rune_caret_def

text \<open>
  The body of a class, from the rune after the bracket and a negation: whether the character was
  matched, and the pattern after the closing bracket.
\<close>

fun scan_class :: "bool \<Rightarrow> bool \<Rightarrow> bool \<Rightarrow> rune list \<Rightarrow> rune \<Rightarrow> (bool \<times> rune list) option" where
  "scan_class negate first matched [] c = None"
| "scan_class negate first matched (x # lo # hi # r) c =
     (if x = rune_close \<and> \<not> first then Some (matched \<noteq> negate, lo # hi # r)
      else if lo = rune_dash \<and> hi \<noteq> rune_close
      then scan_class negate False (matched \<or> x \<le> c \<and> c \<le> hi) r c
      else scan_class negate False (matched \<or> x = c) (lo # hi # r) c)"
| "scan_class negate first matched (x # r) c =
     (if x = rune_close \<and> \<not> first then Some (matched \<noteq> negate, r)
      else scan_class negate False (matched \<or> x = c) r c)"

definition negated :: "rune list \<Rightarrow> bool" where
  "negated r \<longleftrightarrow> (case r of x # _ \<Rightarrow> x = rune_bang \<or> x = rune_caret | [] \<Rightarrow> False)"

definition globClassMatch :: "rune list \<Rightarrow> rune \<Rightarrow> (bool \<times> rune list) option" where
  "globClassMatch pattern c =
     (let r = tl pattern in
      if negated r then scan_class True True False (tl r) c else scan_class False True False r c)"

datatype glob_step = Starred "rune list" | Advance "rune list" | Stuck

text \<open>The switch on the rune of the pattern at the current index.\<close>

definition glob_step :: "rune list \<Rightarrow> rune \<Rightarrow> glob_step" where
  "glob_step p c =
     (case p of
        [] \<Rightarrow> Stuck
      | x # r \<Rightarrow>
          if x = rune_star then Starred r
          else if x = rune_any then Advance r
          else if x = rune_open then
            (case globClassMatch p c of
               Some (matched, rest) \<Rightarrow> if matched then Advance rest else Stuck
             | None \<Rightarrow> if x = c then Advance r else Stuck)
          else if x = c then Advance r else Stuck)"

lemma scan_class_shorter: "scan_class negate first matched p c = Some (m, rest) \<Longrightarrow> length rest < length p"
  by (induction negate first matched p c rule: scan_class.induct) (auto split: if_splits)

lemma glob_step_shorter: "glob_step p c = Starred p' \<or> glob_step p c = Advance p' \<Longrightarrow> length p' < length p"
  by (auto simp: glob_step_def globClassMatch_def Let_def split: list.splits if_splits option.splits
      dest!: scan_class_shorter)

text \<open>
  The loop, on what is left of pattern and text; \<open>star\<close> holds what was left of both at the last
  star. Its measure: a new star shortens the pattern of the last one, a return to the star
  shortens its text, any other step shortens the pattern.
\<close>

definition behind_star :: "rune list \<Rightarrow> rune list \<Rightarrow> (rune list \<times> rune list) option \<Rightarrow> bool" where
  "behind_star p t star \<longleftrightarrow>
     (case star of None \<Rightarrow> True | Some (sp, st) \<Rightarrow> length p \<le> length sp \<and> length t \<le> length st)"

definition star_pattern :: "rune list \<Rightarrow> rune list \<Rightarrow> (rune list \<times> rune list) option \<Rightarrow> nat" where
  "star_pattern p t star =
     (if behind_star p t star then (case star of None \<Rightarrow> Suc (length p) | Some (sp, st) \<Rightarrow> length sp) else length p)"

definition star_text :: "(rune list \<times> rune list) option \<Rightarrow> nat" where
  "star_text star = (case star of None \<Rightarrow> 0 | Some (sp, st) \<Rightarrow> length st)"

function glob_loop :: "rune list \<Rightarrow> rune list \<Rightarrow> (rune list \<times> rune list) option \<Rightarrow> bool" where
  "glob_loop p [] star = list_all (\<lambda>x. x = rune_star) p"
| "glob_loop p (c # t) star =
     (case glob_step p c of
        Starred p' \<Rightarrow> glob_loop p' (c # t) (Some (p', c # t))
      | Advance p' \<Rightarrow> glob_loop p' t star
      | Stuck \<Rightarrow>
          (case star of
             None \<Rightarrow> False
           | Some (sp, st) \<Rightarrow> glob_loop sp (tl st) (Some (sp, tl st))))"
  by pat_completeness auto
termination
proof (relation "measures [\<lambda>(p, t, star). if behind_star p t star then 0 else 1,
    \<lambda>(p, t, star). star_pattern p t star, \<lambda>(p, t, star). star_text star, \<lambda>(p, t, star). length p]", goal_cases)
  case 1
  then show ?case by simp
next
  case (2 p c t star p')
  then have "length p' < length p" using glob_step_shorter by blast
  then show ?case
    by (auto simp: behind_star_def star_pattern_def split: option.splits)
next
  case (3 p c t star p')
  then have "length p' < length p" using glob_step_shorter by blast
  then show ?case
    by (auto simp: behind_star_def star_pattern_def split: option.splits)
next
  case (4 p c t star s sp st)
  then show ?case
    by (auto simp: behind_star_def star_pattern_def star_text_def split: if_splits)
qed

definition globMatch :: "string \<Rightarrow> string \<Rightarrow> bool" where
  "globMatch pattern text = glob_loop (runes pattern) (runes text) None"

subsection \<open>What a pattern means\<close>

text \<open>
  A pattern is a sequence of runs and of tests of one rune. A class is a list of ranges, read
  without looking at any text.
\<close>

fun class_ranges :: "bool \<Rightarrow> rune list \<Rightarrow> ((rune \<times> rune) list \<times> rune list) option" where
  "class_ranges first [] = None"
| "class_ranges first (x # lo # hi # r) =
     (if x = rune_close \<and> \<not> first then Some ([], lo # hi # r)
      else if lo = rune_dash \<and> hi \<noteq> rune_close then map_option (apfst (Cons (x, hi))) (class_ranges False r)
      else map_option (apfst (Cons (x, x))) (class_ranges False (lo # hi # r)))"
| "class_ranges first (x # r) =
     (if x = rune_close \<and> \<not> first then Some ([], r)
      else map_option (apfst (Cons (x, x))) (class_ranges False r))"

definition in_ranges :: "rune \<Rightarrow> (rune \<times> rune) list \<Rightarrow> bool" where
  "in_ranges c rs \<longleftrightarrow> (\<exists>(lo, hi)\<in>set rs. lo \<le> c \<and> c \<le> hi)"

lemma in_ranges_simps [simp]:
  "\<not> in_ranges c []" "in_ranges c ((lo, hi) # rs) \<longleftrightarrow> lo \<le> c \<and> c \<le> hi \<or> in_ranges c rs"
  by (auto simp: in_ranges_def)

lemma scan_class_ranges:
  "scan_class negate first matched p c =
     map_option (\<lambda>(rs, rest). ((matched \<or> in_ranges c rs) \<noteq> negate, rest)) (class_ranges first p)"
  by (induction negate first matched p c rule: scan_class.induct)
    (auto simp: option.map_comp comp_def split_beta intro!: map_option_cong)

text \<open>The tests of a pattern; a class without its closing bracket is the bracket itself.\<close>

datatype glob_token = Run | One "rune \<Rightarrow> bool"

definition class_of :: "rune list \<Rightarrow> ((rune \<Rightarrow> bool) \<times> rune list) option" where
  "class_of r =
     (if negated r then map_option (\<lambda>(rs, rest). (\<lambda>c. \<not> in_ranges c rs, rest)) (class_ranges True (tl r))
      else map_option (\<lambda>(rs, rest). (\<lambda>c. in_ranges c rs, rest)) (class_ranges True r))"

definition first_token :: "rune \<Rightarrow> rune list \<Rightarrow> glob_token \<times> rune list" where
  "first_token x r =
     (if x = rune_star then (Run, r) else if x = rune_any then (One (\<lambda>c. True), r)
      else if x = rune_open then (case class_of r of Some (f, rest) \<Rightarrow> (One f, rest) | None \<Rightarrow> (One (\<lambda>c. x = c), r))
      else (One (\<lambda>c. x = c), r))"

lemma class_ranges_shorter: "class_ranges first p = Some (rs, rest) \<Longrightarrow> length rest < length p"
  by (induction first p arbitrary: rs rule: class_ranges.induct) (auto split: if_splits)

lemma first_token_shorter: "first_token x r = (tok, rest) \<Longrightarrow> length rest \<le> length r"
  by (auto simp: first_token_def class_of_def split: if_splits option.splits dest!: class_ranges_shorter)

function glob_tokens :: "rune list \<Rightarrow> glob_token list" where
  "glob_tokens [] = []"
| "glob_tokens (x # r) = (let (tok, rest) = first_token x r in tok # glob_tokens rest)"
  by pat_completeness auto
termination
  by (relation "measure length") (auto simp: less_Suc_eq_le dest: first_token_shorter [OF sym])

inductive glob_language :: "glob_token list \<Rightarrow> rune list \<Rightarrow> bool" where
  lang_end: "glob_language [] []"
| lang_one: "f c \<Longrightarrow> glob_language ts s \<Longrightarrow> glob_language (One f # ts) (c # s)"
| lang_run: "glob_language ts s \<Longrightarrow> glob_language (Run # ts) (u @ s)"

inductive_simps language_Nil [simp]: "glob_language [] s"
inductive_simps language_One: "glob_language (One f # ts) s"
inductive_simps language_Run: "glob_language (Run # ts) s"

lemma language_One_simps [simp]:
  "\<not> glob_language (One f # ts) []" "glob_language (One f # ts) (c # s) \<longleftrightarrow> f c \<and> glob_language ts s"
  by (auto simp: language_One)

text \<open>A run is tried at every position.\<close>

lemma language_Run_drop: "glob_language (Run # ts) s \<longleftrightarrow> (\<exists>k\<le>length s. glob_language ts (drop k s))"
proof
  assume "glob_language (Run # ts) s"
  then obtain u v where "s = u @ v" "glob_language ts v" by (auto simp: language_Run)
  then show "\<exists>k\<le>length s. glob_language ts (drop k s)" by (intro exI [of _ "length u"]) simp
next
  assume "\<exists>k\<le>length s. glob_language ts (drop k s)"
  then obtain k where "glob_language ts (drop k s)" by blast
  then have "glob_language (Run # ts) (take k s @ drop k s)" by (rule lang_run)
  then show "glob_language (Run # ts) s" by simp
qed

lemma language_Run_later: "glob_language (Run # ts) (drop k s) \<Longrightarrow> glob_language (Run # ts) s"
proof -
  assume "glob_language (Run # ts) (drop k s)"
  then obtain u v where "drop k s = u @ v" "glob_language ts v" by (auto simp: language_Run)
  then have "s = (take k s @ u) @ v" by (metis append.assoc append_take_drop_id)
  then show ?thesis using lang_run [OF \<open>glob_language ts v\<close>] by metis
qed

lemma language_Ones:
  "glob_language (map One fs @ ts) s \<Longrightarrow> length fs \<le> length s \<and> glob_language ts (drop (length fs) s)"
proof (induction fs arbitrary: s)
  case Nil
  then show ?case by simp
next
  case (Cons f fs)
  then show ?case by (cases s) auto
qed

subsection \<open>The walk decides the language\<close>

lemma glob_step_token:
  "glob_step (x # r) c =
     (case first_token x r of (Run, rest) \<Rightarrow> Starred rest | (One f, rest) \<Rightarrow> if f c then Advance rest else Stuck)"
  by (auto simp: glob_step_def first_token_def globClassMatch_def class_of_def scan_class_ranges Let_def
      split: option.splits)

lemma tokens_all_runs: "list_all (\<lambda>x. x = rune_star) p \<longleftrightarrow> glob_language (glob_tokens p) []"
proof (induction p)
  case Nil
  then show ?case by simp
next
  case (Cons x r)
  show ?case
  proof (cases "x = rune_star")
    case True
    with Cons.IH show ?thesis by (simp add: first_token_def language_Run_drop)
  next
    case False
    then have "\<exists>f rest. first_token x r = (One f, rest)"
      by (auto simp: first_token_def split: option.splits)
    with False show ?thesis by auto
  qed
qed

text \<open>Since the last star only tests of one rune were passed, each on one rune of the text.\<close>

definition since_star :: "rune list \<Rightarrow> rune list \<Rightarrow> (rune list \<times> rune list) option \<Rightarrow> bool" where
  "since_star p t star \<longleftrightarrow>
     (case star of None \<Rightarrow> True
      | Some (sp, st) \<Rightarrow> \<exists>fs u. glob_tokens sp = map One fs @ glob_tokens p \<and> st = u @ t \<and> length fs = length u)"

definition later_star :: "(rune list \<times> rune list) option \<Rightarrow> bool" where
  "later_star star \<longleftrightarrow>
     (case star of None \<Rightarrow> False
      | Some (sp, st) \<Rightarrow> \<exists>k. 1 \<le> k \<and> k \<le> length st \<and> glob_language (glob_tokens sp) (drop k st))"

lemma later_star_Nil:
  assumes "since_star p [] star"
  shows "\<not> later_star star"
proof
  assume "later_star star"
  then obtain sp st k where s: "star = Some (sp, st)" "1 \<le> k" "k \<le> length st" "glob_language (glob_tokens sp) (drop k st)"
    by (auto simp: later_star_def split: option.splits)
  with assms obtain fs where f: "glob_tokens sp = map One fs @ glob_tokens p" "length fs = length st"
    by (auto simp: since_star_def)
  from s(4) have "length fs \<le> length (drop k st)" unfolding f(1) by (auto dest: language_Ones)
  with f(2) s(2,3) show False by simp
qed

text \<open>A later start at the last star is subsumed by a start at the next one.\<close>

lemma later_star_subsumed:
  assumes "since_star p t star" "later_star star" "glob_tokens p = Run # ts"
  shows "glob_language (glob_tokens p) t"
proof -
  from assms(2) obtain sp st k where s: "star = Some (sp, st)" "glob_language (glob_tokens sp) (drop k st)"
    by (auto simp: later_star_def split: option.splits)
  with assms(1) obtain fs u where f: "glob_tokens sp = map One fs @ glob_tokens p" "st = u @ t" "length fs = length u"
    by (auto simp: since_star_def)
  have "drop (length u) (drop k (u @ t)) = drop k (drop (length u) (u @ t))" by (simp only: drop_drop add.commute)
  then have "drop (length u) (drop k (u @ t)) = drop k t" by simp
  with language_Ones [OF s(2) [unfolded f(1)]] have "glob_language (Run # ts) (drop k t)"
    using f(2,3) assms(3) by simp
  then show ?thesis using assms(3) language_Run_later by simp
qed

lemma later_star_self:
  "glob_language (glob_tokens p) t \<or> later_star (Some (p, t)) \<longleftrightarrow> glob_language (Run # glob_tokens p) t"
proof -
  have "(\<exists>k\<le>length t. glob_language (glob_tokens p) (drop k t)) \<longleftrightarrow>
      glob_language (glob_tokens p) t \<or> (\<exists>k. 1 \<le> k \<and> k \<le> length t \<and> glob_language (glob_tokens p) (drop k t))"
    by (metis One_nat_def Suc_leI bot_nat_0.extremum drop0 gr0I)
  then show ?thesis by (simp add: language_Run_drop later_star_def)
qed

lemma later_star_next:
  assumes "st \<noteq> []"
  shows "later_star (Some (sp, st)) \<longleftrightarrow> glob_language (Run # glob_tokens sp) (tl st)"
proof -
  obtain c t where st: "st = c # t" using assms by (cases st) auto
  have "(\<exists>k. 1 \<le> k \<and> k \<le> Suc (length t) \<and> glob_language (glob_tokens sp) (drop k (c # t))) \<longleftrightarrow>
      (\<exists>j\<le>length t. glob_language (glob_tokens sp) (drop j t))"
    by (metis (no_types, lifting) One_nat_def Suc_le_D Suc_le_mono drop_Suc_Cons le0)
  then show ?thesis using st by (simp add: later_star_def language_Run_drop)
qed

lemma glob_loop_correct:
  "since_star p t star \<Longrightarrow> glob_loop p t star \<longleftrightarrow> glob_language (glob_tokens p) t \<or> later_star star"
proof (induction p t star rule: glob_loop.induct)
  case (1 p star)
  then show ?case by (simp add: tokens_all_runs later_star_Nil)
next
  case (2 p c t star)
  show ?case
  proof (cases "glob_step p c")
    case (Starred p')
    then obtain x r where p: "p = x # r" "first_token x r = (Run, p')"
      by (cases p) (auto simp: glob_step_token glob_step_def [of "[]"] split: prod.splits glob_token.splits if_splits)
    then have tok: "glob_tokens p = Run # glob_tokens p'" by simp
    have "since_star p' (c # t) (Some (p', c # t))" by (simp add: since_star_def exI [of _ "[]"])
    from 2(1) [OF Starred this] Starred have "glob_loop p (c # t) star \<longleftrightarrow> glob_language (glob_tokens p) (c # t)"
      using later_star_self [of p' "c # t"] tok by simp
    with later_star_subsumed [OF 2(4) _ tok] show ?thesis by blast
  next
    case (Advance p')
    then obtain x r f where p: "p = x # r" "first_token x r = (One f, p')" "f c"
      by (cases p) (auto simp: glob_step_token glob_step_def [of "[]"] split: prod.splits glob_token.splits if_splits)
    have "since_star p' t star"
      unfolding since_star_def
    proof (cases star)
      case (Some a)
      obtain sp st where a: "a = (sp, st)" by (cases a)
      with 2(4) Some p obtain fs u where "glob_tokens sp = map One fs @ One f # glob_tokens p'" "st = u @ c # t"
        "length fs = length u"
        by (auto simp: since_star_def)
      then have "glob_tokens sp = map One (fs @ [f]) @ glob_tokens p' \<and> st = (u @ [c]) @ t \<and> length (fs @ [f]) = length (u @ [c])"
        by simp
      with Some a show "case star of None \<Rightarrow> True
        | Some (sp, st) \<Rightarrow> \<exists>fs u. glob_tokens sp = map One fs @ glob_tokens p' \<and> st = u @ t \<and> length fs = length u"
        by (simp only: option.case prod.case) blast
    qed simp
    from 2(2) [OF Advance this] Advance p show ?thesis by simp
  next
    case Stuck
    have l: "\<not> glob_language (glob_tokens p) (c # t)"
    proof (cases p)
      case (Cons x r)
      with Stuck obtain f rest where "first_token x r = (One f, rest)" "\<not> f c"
        by (auto simp: glob_step_token split: prod.splits glob_token.splits if_splits)
      with Cons show ?thesis by simp
    qed simp
    show ?thesis
    proof (cases star)
      case None
      with Stuck l show ?thesis by (simp add: later_star_def)
    next
      case (Some a)
      obtain sp st where a: "a = (sp, st)" by (cases a)
      with Some 2(4) have ne: "st \<noteq> []" by (auto simp: since_star_def)
      have "since_star sp (tl st) (Some (sp, tl st))" by (simp add: since_star_def exI [of _ "[]"])
      from 2(3) [OF Stuck Some a [symmetric] this] Some Stuck a
      have "glob_loop p (c # t) star \<longleftrightarrow> glob_language (Run # glob_tokens sp) (tl st)"
        using later_star_self [of sp "tl st"] by simp
      with l later_star_next [OF ne] Some a show ?thesis by simp
    qed
  qed
qed

text \<open>
  C22: the walk with its single return point decides the language of the pattern. For every
  pattern and every text, malformed classes included, \<open>globMatch\<close> answers and answers yes
  exactly when the text is a sequence of pieces, any runes for a star and one rune passing the
  test for every other token.
\<close>

theorem glob_match_exact:
  "globMatch pattern text \<longleftrightarrow> glob_language (glob_tokens (runes pattern)) (runes text)"
  by (simp add: globMatch_def glob_loop_correct since_star_def later_star_def)

end
