(* ===== verification/Hardware.thy ===== *)
theory Hardware
  imports Glob "HOL-Library.Word"
begin

text \<open>
  Comparison of this PC with the target image's kernel (\<open>app/hardware.go\<close>): the inventory read
  from the image's module files, the devices Windows reports, and the report. A Go map is an
  association list in the order in which the code happens to range over it.
\<close>

subsection \<open>Findings\<close>

datatype severity = HardwareNote | HardwareWarning | HardwareBlocking

definition severityRank :: "severity \<Rightarrow> nat" where
  "severityRank s = (case s of HardwareBlocking \<Rightarrow> 3 | HardwareWarning \<Rightarrow> 2 | HardwareNote \<Rightarrow> 1)"

datatype hardware_finding = Finding (hf_severity: severity) (hf_subject: string) (hf_detail: string)

text \<open>The comparison that sorts a report: severe findings first, then subject and detail.\<close>

definition finding_before :: "hardware_finding \<Rightarrow> hardware_finding \<Rightarrow> bool" where
  "finding_before left right \<longleftrightarrow>
     (if severityRank (hf_severity left) \<noteq> severityRank (hf_severity right)
      then severityRank (hf_severity right) < severityRank (hf_severity left)
      else if hf_subject left \<noteq> hf_subject right then hf_subject left < hf_subject right
      else hf_detail left < hf_detail right)"

lemma severityRank_inject [simp]: "severityRank s = severityRank t \<longleftrightarrow> s = t"
  by (cases s; cases t) (simp_all add: severityRank_def)

lemma severityRank_total: "s = t \<or> severityRank s < severityRank t \<or> severityRank t < severityRank s"
  by (metis linorder_less_linear severityRank_inject)

instantiation hardware_finding :: linorder
begin

definition less_hardware_finding :: "hardware_finding \<Rightarrow> hardware_finding \<Rightarrow> bool" where
  "less_hardware_finding = finding_before"

definition less_eq_hardware_finding :: "hardware_finding \<Rightarrow> hardware_finding \<Rightarrow> bool" where
  "less_eq_hardware_finding x y \<longleftrightarrow> x = y \<or> finding_before x y"

instance
proof
  fix x y z :: hardware_finding
  show "x < y \<longleftrightarrow> x \<le> y \<and> \<not> y \<le> x"
    by (cases x; cases y) (auto simp: less_hardware_finding_def less_eq_hardware_finding_def finding_before_def)
  show "x \<le> x" by (simp add: less_eq_hardware_finding_def)
  show "x \<le> y \<Longrightarrow> y \<le> z \<Longrightarrow> x \<le> z"
    by (cases x; cases y; cases z)
      (auto simp: less_eq_hardware_finding_def finding_before_def split: if_splits)
  show "x \<le> y \<Longrightarrow> y \<le> x \<Longrightarrow> x = y"
    by (cases x; cases y) (auto simp: less_eq_hardware_finding_def finding_before_def split: if_splits)
  show "x \<le> y \<or> y \<le> x"
    using severityRank_total [of "hf_severity x" "hf_severity y"]
    by (cases x; cases y) (auto simp: less_eq_hardware_finding_def finding_before_def)
qed

end

record hardware_report =
  hr_kernel :: string
  hr_checked :: nat
  hr_findings :: "hardware_finding list"

definition hasBlocking :: "hardware_report \<Rightarrow> bool" where
  "hasBlocking r \<longleftrightarrow> list_ex (\<lambda>f. hf_severity f = HardwareBlocking) (hr_findings r)"

definition maxHardwareWarningCount :: nat where "maxHardwareWarningCount = 32"
definition maxHardwareMessageRunes :: nat where "maxHardwareMessageRunes = 1800"

text \<open>The first \<open>n\<close> runes of a string, as bytes; the cut message ends in the ellipsis rune.\<close>

fun take_runes :: "nat \<Rightarrow> string \<Rightarrow> string" where
  "take_runes 0 s = []"
| "take_runes (Suc n) [] = []"
| "take_runes (Suc n) (b # r) =
     (let r1 = snd (decode_rune b r) in take (length (b # r) - length r1) (b # r) @ take_runes n r1)"

definition ellipsis :: string where
  "ellipsis = [CHR 0xE2, CHR 0x80, CHR 0xA6]"

definition truncateHardwareMessage :: "string \<Rightarrow> string" where
  "truncateHardwareMessage message =
     (if length (runes message) \<le> maxHardwareMessageRunes then message
      else take_runes (maxHardwareMessageRunes - 1) message @ ellipsis)"

definition finding_text :: "hardware_finding \<Rightarrow> string" where
  "finding_text f = hf_subject f @ '': '' @ hf_detail f"

definition warningMessages :: "hardware_report \<Rightarrow> string list" where
  "warningMessages r =
     (let messages = map (\<lambda>f. truncateHardwareMessage (finding_text f))
            (filter (\<lambda>f. hf_severity f = HardwareWarning) (hr_findings r))
      in if maxHardwareWarningCount < length messages
         then take (maxHardwareWarningCount - 1) messages @
           [dec_nat (length messages - (maxHardwareWarningCount - 1)) @ '' additional hardware warnings were omitted.'']
         else messages)"

definition blockingError :: "hardware_report \<Rightarrow> string option" where
  "blockingError r =
     (let messages = map finding_text (filter (\<lambda>f. hf_severity f = HardwareBlocking) (hr_findings r))
      in if messages = [] then None
         else Some (''the selected Linux image is not compatible with this PC: '' @
           truncateHardwareMessage (join_with '' '' messages) @
           '' Choose an image that includes this hardware support and try again''))"

subsection \<open>The target's inventory\<close>

datatype module_alias = Alias (al_pattern: string) (al_module: string)

record target_kernel =
  tk_version :: string
  tk_modules :: "string set"
  tk_builtin :: "string set"
  tk_aliases :: "module_alias list"
  tk_firmware :: "string set"
  tk_skipped :: nat

definition normalizeModule :: "string \<Rightarrow> string" where
  "normalizeModule name = replace_char (CHR ''-'') (CHR ''_'') (trim_space name)"

text \<open>\<open>strings.CutSuffix\<close> with the first suffix of a list that the string has.\<close>

definition cut_suffix :: "string \<Rightarrow> string \<Rightarrow> string option" where
  "cut_suffix s p = (if has_suffix s p then Some (trim_suffix s p) else None)"

definition cut_prefix :: "string \<Rightarrow> string \<Rightarrow> string option" where
  "cut_prefix s p = (if has_prefix s p then Some (trim_prefix s p) else None)"

fun first_stem :: "(string \<Rightarrow> bool) \<Rightarrow> string \<Rightarrow> string list \<Rightarrow> string option" where
  "first_stem ok s [] = None"
| "first_stem ok s (p # ps) =
     (case cut_suffix s p of
        Some stem \<Rightarrow> if ok stem then Some stem else first_stem ok s ps
      | None \<Rightarrow> first_stem ok s ps)"

definition base_name :: "string \<Rightarrow> string" where
  "base_name path = last (split_on slash path)"

definition moduleNameFromPath :: "string \<Rightarrow> string option" where
  "moduleNameFromPath path =
     map_option normalizeModule
       (first_stem (\<lambda>s. s \<noteq> []) (trim_space (base_name path)) [''.ko.xz'', ''.ko.zst'', ''.ko.gz'', ''.ko''])"

definition normalizeFirmware :: "string \<Rightarrow> string" where
  "normalizeFirmware name =
     (let n = trim_left_by (\<lambda>c. c = slash) (trim_prefix (trim_space name) ''./'')
      in case first_stem (\<lambda>s. True) n [''.xz'', ''.zst'', ''.gz''] of Some stem \<Rightarrow> stem | None \<Rightarrow> n)"

definition line_feed :: char where "line_feed = CHR 0x0A"

definition parseModuleList :: "string \<Rightarrow> string set" where
  "parseModuleList content =
     set (List.map_filter (\<lambda>l. moduleNameFromPath (hd (split_on (CHR '':'') l))) (split_on line_feed content))"

definition parseModuleAliases :: "string \<Rightarrow> module_alias list" where
  "parseModuleAliases content =
     List.map_filter
       (\<lambda>l. case str_fields l of
          w # pattern # m # _ \<Rightarrow> if w = ''alias'' then Some (Alias pattern (normalizeModule m)) else None
        | _ \<Rightarrow> None)
       (split_on line_feed content)"

text \<open>\<open>strings.Cut\<close> at the first occurrence of a character.\<close>

definition cut_at :: "char \<Rightarrow> string \<Rightarrow> (string \<times> string) option" where
  "cut_at c s = (if c \<in> set s then Some (takeWhile (\<lambda>x. x \<noteq> c) s, tl (dropWhile (\<lambda>x. x \<noteq> c) s)) else None)"

definition modinfo_record :: "string \<Rightarrow> module_alias option" where
  "modinfo_record rec =
     (case cut_at (CHR ''='') rec of
        None \<Rightarrow> None
      | Some (key, pattern) \<Rightarrow>
          if pattern = [] then None
          else (case first_stem (\<lambda>s. True) key [''.alias'', '':alias''] of
                  Some m \<Rightarrow> if m \<noteq> [] then Some (Alias pattern (normalizeModule m)) else None
                | None \<Rightarrow> None))"

definition parseBuiltinModinfo :: "string \<Rightarrow> module_alias list" where
  "parseBuiltinModinfo content =
     List.map_filter modinfo_record
       (filter (\<lambda>r. r \<noteq> []) (split_on line_feed (replace_char (CHR 0x00) line_feed content)))"

definition hasModule :: "target_kernel \<Rightarrow> string \<Rightarrow> bool" where
  "hasModule k m \<longleftrightarrow> normalizeModule m \<in> tk_modules k \<union> tk_builtin k"

definition aliasDrivers :: "target_kernel \<Rightarrow> string \<Rightarrow> string list" where
  "aliasDrivers k modalias =
     sort (remdups (map al_module (filter (\<lambda>a. globMatch (al_pattern a) modalias) (tk_aliases k))))"

definition hasFirmware :: "target_kernel \<Rightarrow> string \<Rightarrow> bool" where
  "hasFirmware k name =
     (let n = normalizeFirmware name
      in if contains_any n ''*?['' then (\<exists>candidate\<in>tk_firmware k. globMatch n candidate)
         else n \<in> tk_firmware k)"

subsection \<open>This PC\<close>

record host_device =
  hd_bus :: string
  hd_id :: string
  hd_modalias :: string
  hd_module :: string
  hd_known :: bool
  hd_class :: "32 word option"
  hd_out_of_tree :: bool

record host_module =
  hm_out_of_tree :: bool
  hm_firmware :: "string list"

record host_hardware =
  hh_devices :: "host_device list"
  hh_modules :: "host_module smap"
  hh_cpu :: string
  hh_microcode :: bool
  hh_complete :: bool
  hh_incomplete_why :: string

text \<open>The kind of a PCI class, and whether losing such a device is severe.\<close>

definition pciKind :: "32 word \<Rightarrow> string \<times> bool" where
  "pciKind c =
     (let major = drop_bit 16 c in
      if major = 0x01 then (''storage controller'', True)
      else if major = 0x02 then (''network controller'', True)
      else if major = 0x03 then (''display controller'', True)
      else if major = 0x04 then (''multimedia device'', False)
      else if major = 0x0C then
        (if take_bit 8 (drop_bit 8 c) = 0x03 then (''USB controller'', True) else (''serial bus controller'', False))
      else if major = 0x0D then (''wireless controller'', True)
      else if major = 0x06 then (''bridge'', False)
      else if major = 0x08 then (''system peripheral'', False)
      else if major = 0x11 then (''signal processing controller'', False)
      else (''device'', False))"

definition is_display :: "32 word \<Rightarrow> bool" where
  "is_display c \<longleftrightarrow> drop_bit 16 c = 0x03"

definition firmwareFramebufferDrivers :: "string list" where
  "firmwareFramebufferDrivers = [''simpledrm'', ''efifb'', ''simplefb'', ''vesafb'', ''ofdrm'']"

definition driverFirmwarePatterns :: "string \<Rightarrow> string list" where
  "driverFirmwarePatterns name =
     (let m = normalizeModule name in
      if m = ''iwlwifi'' then [''iwlwifi-*.ucode'', ''intel/iwlwifi/*'']
      else if m = ''brcmfmac'' then [''brcm/brcmfmac*'']
      else if m = ''ath10k_pci'' \<or> m = ''ath10k_core'' then [''ath10k/*'']
      else if m = ''ath11k_pci'' \<or> m = ''ath11k_core'' then [''ath11k/*'']
      else if m = ''ath12k_pci'' then [''ath12k/*'']
      else if has_prefix m ''rtw88_'' then [''rtw88/*'']
      else if has_prefix m ''rtw89_'' then [''rtw89/*'']
      else [])"

definition allKnownDriverFirmwareMissing :: "string list \<Rightarrow> target_kernel \<Rightarrow> bool" where
  "allKnownDriverFirmwareMissing drivers k \<longleftrightarrow>
     drivers \<noteq> [] \<and>
     list_all (\<lambda>d. driverFirmwarePatterns d \<noteq> [] \<and> list_all (\<lambda>p. \<not> hasFirmware k p) (driverFirmwarePatterns d)) drivers"

subsection \<open>The assessment\<close>

text \<open>What groups lost devices: they share the driver, its replacement and the severity.\<close>

datatype lost_key = LostKey (lk_module: string) (lk_fallback: string) (lk_fb_only: bool) (lk_severity: severity)

definition no_target_driver :: string where
  "no_target_driver = ''no matching target driver''"

type_synonym lost_map = "(lost_key \<times> string list) list"

fun add_lost :: "lost_key \<Rightarrow> string \<Rightarrow> lost_map \<Rightarrow> lost_map" where
  "add_lost k dev [] = [(k, [dev])]"
| "add_lost k dev ((k1, devs) # rest) =
     (if k1 = k then (k1, devs @ [dev]) # rest else (k1, devs) # add_lost k dev rest)"

definition upper_char :: "char \<Rightarrow> char" where
  "upper_char c = (let n = code_of c in if 97 \<le> n \<and> n \<le> 122 then char_of (n - 32) else c)"

definition to_upper :: "string \<Rightarrow> string" where
  "to_upper s = map upper_char s"

definition device_label :: "host_device \<Rightarrow> string \<Rightarrow> string" where
  "device_label d kind = to_upper (hd_bus d) @ '' '' @ hd_id d @ '' ('' @ kind @ '')''"

definition framebuffer :: "target_kernel \<Rightarrow> string list" where
  "framebuffer k = filter (hasModule k) firmwareFramebufferDrivers"

text \<open>The outcome for one device of the inventory.\<close>

datatype device_outcome =
    Ignored
  | Supported
  | FirmwareGap hardware_finding
  | Lost lost_key string

definition device_kind :: "host_device \<Rightarrow> string \<times> bool \<times> bool" where
  "device_kind d =
     (case hd_class d of None \<Rightarrow> (''device'', False, False)
      | Some c \<Rightarrow> (fst (pciKind c), snd (pciKind c), is_display c))"

definition firmware_gap :: "host_device \<Rightarrow> string list \<Rightarrow> string \<Rightarrow> bool \<Rightarrow> hardware_finding" where
  "firmware_gap d drivers kind severe =
     Finding (if severe then HardwareBlocking else HardwareWarning) (device_label d kind @ '' firmware'')
       (''the target kernel claims this hardware with '' @ join_with ''/'' drivers @
        '', but the image ships none of that driver family'' @ [CHR 0x27] @
        ''s firmware. It is expected to stop working after restart.'')"

definition lost_severity :: "bool \<Rightarrow> bool \<Rightarrow> bool \<Rightarrow> bool \<Rightarrow> severity" where
  "lost_severity fbOnly noFallback severe outOfTree =
     (if fbOnly then HardwareWarning
      else if noFallback \<and> (severe \<or> outOfTree) then HardwareBlocking
      else if noFallback then HardwareWarning
      else if outOfTree then HardwareWarning
      else HardwareNote)"

definition assess_device :: "host_hardware \<Rightarrow> target_kernel \<Rightarrow> host_device \<Rightarrow> device_outcome" where
  "assess_device host k d =
     (if hd_modalias d = [] \<or> (hd_known d \<and> hd_module d = []) then Ignored
      else
        (let m = normalizeModule (hd_module d)
         in if m \<noteq> [] \<and> hasModule k m then Supported
            else
              (let fallback = aliasDrivers k (hd_modalias d); (kind, severe, display) = device_kind d
               in if m = [] \<and> fallback = [] \<and> \<not> severe then Supported
                  else if m = [] \<and> fallback \<noteq> [] then
                    (if allKnownDriverFirmwareMissing fallback k then FirmwareGap (firmware_gap d fallback kind severe)
                     else Supported)
                  else
                    (let outOfTree = (hd_out_of_tree d \<or>
                           (case map_of (hh_modules host) m of None \<Rightarrow> False | Some info \<Rightarrow> hm_out_of_tree info));
                         fbOnly = (fallback = [] \<and> display \<and> framebuffer k \<noteq> []);
                         fallback1 = (if fbOnly then framebuffer k else fallback)
                     in Lost (LostKey (if m = [] then no_target_driver else m) (join_with '','' fallback1) fbOnly
                          (lost_severity fbOnly (fallback1 = []) severe outOfTree))
                          (device_label d kind)))))"

record device_scan =
  ds_checked :: nat
  ds_findings :: "hardware_finding list"
  ds_lost :: lost_map

definition scan_device :: "host_hardware \<Rightarrow> target_kernel \<Rightarrow> host_device \<Rightarrow> device_scan \<Rightarrow> device_scan" where
  "scan_device host k d s =
     (case assess_device host k d of
        Ignored \<Rightarrow> s
      | Supported \<Rightarrow> s\<lparr>ds_checked := Suc (ds_checked s)\<rparr>
      | FirmwareGap f \<Rightarrow> s\<lparr>ds_checked := Suc (ds_checked s), ds_findings := ds_findings s @ [f]\<rparr>
      | Lost key dev \<Rightarrow> s\<lparr>ds_checked := Suc (ds_checked s), ds_lost := add_lost key dev (ds_lost s)\<rparr>)"

definition scan_devices :: "host_hardware \<Rightarrow> target_kernel \<Rightarrow> device_scan" where
  "scan_devices host k =
     fold (scan_device host k) (hh_devices host) \<lparr>ds_checked = 0, ds_findings = [], ds_lost = []\<rparr>"

definition summarizeDevices :: "string list \<Rightarrow> string" where
  "summarizeDevices devices =
     (let ds = sort devices; limit = min 4 (length ds)
      in join_with '', '' (take limit ds) @
         (if limit < length ds then '', and '' @ dec_nat (length ds - limit) @ '' more'' else []))"

definition sampleFirmware :: "string list \<Rightarrow> string" where
  "sampleFirmware names =
     (let limit = min 4 (length names)
      in join_with '', '' (take limit names) @
         (if limit < length names then '' and '' @ dec_nat (length names - limit) @ '' more'' else []))"

definition lost_detail :: "target_kernel \<Rightarrow> lost_key \<Rightarrow> string" where
  "lost_detail k key =
     (let fallback = (if lk_fallback key = [] then [] else split_on (CHR '','') (lk_fallback key));
          others = join_with ''/'' fallback
      in if lk_fb_only key
         then ''no target driver supports this display controller. After restart it can use the firmware framebuffer ('' @
           others @ ''), without graphics acceleration and usually with one display at the firmware'' @ [CHR 0x27] @ ''s resolution.''
         else if lk_module key = no_target_driver
         then ''no module in target kernel '' @ tk_version k @ '' claims this hardware. It is expected to stop working after restart.''
         else if fallback = []
         then ''uses driver '' @ lk_module key @ '', which target kernel '' @ tk_version k @
           '' does not ship, and no target driver claims this hardware. It is expected to stop working after restart.''
         else if lk_module key = ''nvidia''
         then ''uses the proprietary NVIDIA driver, which the target does not ship. '' @ others @
           '' takes over after restart, without CUDA or the proprietary OpenGL/Vulkan stack and its performance.''
         else ''uses driver '' @ lk_module key @ '', which the target does not ship; '' @ others @
           '' supports the hardware after restart.'')"

definition lost_finding :: "target_kernel \<Rightarrow> lost_key \<times> string list \<Rightarrow> hardware_finding" where
  "lost_finding k e = Finding (lk_severity (fst e)) (summarizeDevices (snd e)) (lost_detail k (fst e))"

text \<open>The firmware of the host's modules.\<close>

definition severe_module :: "host_hardware \<Rightarrow> target_kernel \<Rightarrow> string \<Rightarrow> bool" where
  "severe_module host k m \<longleftrightarrow>
     list_ex (\<lambda>d. normalizeModule (hd_module d) = normalizeModule m \<and>
        (case hd_class d of None \<Rightarrow> False
         | Some c \<Rightarrow> snd (pciKind c) \<and> \<not> (is_display c \<and> framebuffer k \<noteq> []))) (hh_devices host)"

definition module_finding :: "host_hardware \<Rightarrow> target_kernel \<Rightarrow> string \<times> host_module \<Rightarrow> hardware_finding list" where
  "module_finding host k e =
     (let m = fst e; present = hm_firmware (snd e); absent = filter (\<lambda>f. \<not> hasFirmware k f) present
      in if present = [] \<or> \<not> hasModule k m \<or> absent = [] then []
         else if length absent = length present
         then [Finding (if severe_module host k m then HardwareBlocking else HardwareWarning)
                (''driver '' @ m @ '' firmware'')
                (''the target image ships none of the '' @ dec_nat (length absent) @
                 '' firmware files available for this device ('' @ sampleFirmware absent @
                 ''). Hardware that needs firmware to start is expected to stop working after restart.'')]
         else [Finding HardwareNote (''driver '' @ m @ '' firmware'')
                (''the target image lacks '' @ dec_nat (length absent) @ '' of '' @ dec_nat (length present) @
                 '' firmware variants ('' @ sampleFirmware absent @ ''); the missing files are likely for other models.'')])"

definition microcode_dir :: "string \<Rightarrow> string" where
  "microcode_dir cpu =
     (if cpu = ''GenuineIntel'' then ''intel-ucode/'' else if cpu = ''AuthenticAMD'' then ''amd-ucode/'' else [])"

definition microcode_finding :: "host_hardware \<Rightarrow> target_kernel \<Rightarrow> hardware_finding list" where
  "microcode_finding host k =
     note_if (microcode_dir (hh_cpu host) \<noteq> [] \<and> hh_microcode host \<and>
         \<not> (\<exists>f\<in>tk_firmware k. has_prefix f (microcode_dir (hh_cpu host))))
       (Finding HardwareWarning (''CPU microcode ('' @ hh_cpu host @ '')'')
         (''the target image has no CPU microcode updates; the CPU will rely on the firmware-loaded revision without the image'' @
          [CHR 0x27] @ ''s security and stability fixes.''))"

definition incomplete :: "host_hardware \<Rightarrow> target_kernel \<Rightarrow> bool" where
  "incomplete host k \<longleftrightarrow> 0 < tk_skipped k \<or> \<not> hh_complete host"

definition incomplete_reasons :: "host_hardware \<Rightarrow> target_kernel \<Rightarrow> string list" where
  "incomplete_reasons host k =
     note_if (0 < tk_skipped k) (dec_nat (tk_skipped k) @ '' target image layer(s) could not be read'') @
     note_if (\<not> hh_complete host)
       (if hh_incomplete_why host = [] then ''the Windows device inventory could not be read completely''
        else hh_incomplete_why host)"

definition soften :: "hardware_finding \<Rightarrow> hardware_finding" where
  "soften f =
     Finding (if hf_severity f = HardwareBlocking then HardwareWarning else hf_severity f) (hf_subject f) (hf_detail f)"

definition incomplete_finding :: "host_hardware \<Rightarrow> target_kernel \<Rightarrow> hardware_finding" where
  "incomplete_finding host k =
     Finding HardwareWarning ''incomplete hardware check''
       (join_with ''; '' (incomplete_reasons host k) @
        ''. Missing items are not proof of incompatibility, so this check does not block installation.'')"

text \<open>
  The report. \<open>order\<close> is the order in which the code happens to range over the groups of lost
  devices; that over the host's modules is the order of the association list.
\<close>

definition raw_findings :: "(lost_map \<Rightarrow> lost_map) \<Rightarrow> host_hardware \<Rightarrow> target_kernel \<Rightarrow> hardware_finding list" where
  "raw_findings order host k =
     ds_findings (scan_devices host k) @ map (lost_finding k) (order (ds_lost (scan_devices host k))) @
     concat (map (module_finding host k) (hh_modules host)) @ microcode_finding host k"

definition assessHardware :: "(lost_map \<Rightarrow> lost_map) \<Rightarrow> host_hardware \<Rightarrow> target_kernel \<Rightarrow> hardware_report" where
  "assessHardware order host k =
     \<lparr>hr_kernel = tk_version k, hr_checked = ds_checked (scan_devices host k),
      hr_findings = sort
        (if incomplete host k then map soften (raw_findings order host k) @ [incomplete_finding host k]
         else raw_findings order host k)\<rparr>"

end
