(* ===== verification/Kernel_Version.thy ===== *)
theory Kernel_Version
  imports Go_Strings "HOL-Library.Product_Lexorder"
begin

text \<open>
  The order on kernel directory names (\<open>kernelVersionLess\<close> in \<open>app/oci_hardware.go\<close>), shown to
  be the lexicographic order of the names read as numbers and characters, with ties broken
  bytewise. So it is a strict total order and the newest kernel of an image is well defined.
\<close>

subsection \<open>The comparison\<close>

text \<open>A run of digits without its leading zeros; the last digit stays.\<close>

fun strip_zeros :: "string \<Rightarrow> string" where
  "strip_zeros (c # d # r) = (if c = CHR ''0'' then strip_zeros (d # r) else c # d # r)"
| "strip_zeros s = s"

definition digit_run :: "string \<Rightarrow> string" where
  "digit_run s = takeWhile is_digit s"

definition after_run :: "string \<Rightarrow> string" where
  "after_run s = dropWhile is_digit s"

lemma after_run_shorter: "is_digit a \<Longrightarrow> length (after_run (a # l)) < length (a # l)"
  using length_dropWhile_le [of is_digit l] by (simp add: after_run_def)

text \<open>The loop; \<open>None\<close> is both names exhausted together.\<close>

function compare_versions :: "string \<Rightarrow> string \<Rightarrow> bool option" where
  "compare_versions [] [] = None"
| "compare_versions [] (b # r) = Some True"
| "compare_versions (a # l) [] = Some False"
| "compare_versions (a # l) (b # r) =
     (if is_digit a \<and> is_digit b then
        (let n = strip_zeros (digit_run (a # l)); m = strip_zeros (digit_run (b # r))
         in if length n \<noteq> length m then Some (length n < length m)
            else if n \<noteq> m then Some (n < m)
            else compare_versions (after_run (a # l)) (after_run (b # r)))
      else if a \<noteq> b then Some (a < b)
      else compare_versions l r)"
  by pat_completeness auto
termination
  by (relation "measure (\<lambda>(l, r). length l)") (use after_run_shorter in auto)

definition kernelVersionLess :: "string \<Rightarrow> string \<Rightarrow> bool" where
  "kernelVersionLess left right =
     (case compare_versions left right of Some b \<Rightarrow> b | None \<Rightarrow> left < right)"

subsection \<open>Numbers\<close>

definition digits_value :: "string \<Rightarrow> nat" where
  "digits_value s = fold (\<lambda>c v. 10 * v + digit_val c) s 0"

lemma fold_digits: "fold (\<lambda>c v. 10 * v + digit_val c) s v = v * 10 ^ length s + digits_value s"
proof (induction s arbitrary: v)
  case Nil
  then show ?case by (simp add: digits_value_def)
next
  case (Cons c s)
  have "digits_value (c # s) = digit_val c * 10 ^ length s + digits_value s"
    by (simp only: digits_value_def [of "c # s"] fold_simps Cons.IH) simp
  moreover have "fold (\<lambda>c v. 10 * v + digit_val c) (c # s) v = (10 * v + digit_val c) * 10 ^ length s + digits_value s"
    by (simp only: fold_simps Cons.IH)
  ultimately show ?case by (simp add: algebra_simps)
qed

lemma digits_value_Nil [simp]: "digits_value [] = 0"
  by (simp add: digits_value_def)

lemma digits_value_Cons: "digits_value (c # s) = digit_val c * 10 ^ length s + digits_value s"
  using fold_digits [of s "digit_val c"] by (simp add: digits_value_def)

lemma digit_val_less: "is_digit c \<Longrightarrow> digit_val c < 10"
  by (auto simp: is_digit_def digit_val_def Let_def)

lemma digits_value_bound: "list_all is_digit s \<Longrightarrow> digits_value s < 10 ^ length s"
proof (induction s)
  case Nil
  then show ?case by simp
next
  case (Cons c s)
  then have "digit_val c \<le> 9" "digits_value s < 10 ^ length s" using digit_val_less [of c] by simp_all
  then have "digit_val c * 10 ^ length s + digits_value s < 9 * 10 ^ length s + 10 ^ length s"
    by (intro add_le_less_mono mult_le_mono1)
  then show ?case by (simp add: digits_value_Cons)
qed

lemma char_less_code: "c < d \<longleftrightarrow> code_of c < code_of d"
  by (simp add: code_of_def less_char_def)

lemma digit_less: "is_digit c \<Longrightarrow> is_digit d \<Longrightarrow> c < d \<longleftrightarrow> digit_val c < digit_val d"
  by (auto simp: char_less_code is_digit_def digit_val_def Let_def)

lemma digit_eq: "is_digit c \<Longrightarrow> is_digit d \<Longrightarrow> digit_val c = digit_val d \<Longrightarrow> c = d"
  by (metis digit_less linorder_less_linear nat_neq_iff)

lemma leading_digit_less:
  assumes "list_all is_digit s" "list_all is_digit t" "length s = length t" "digit_val c < digit_val d"
  shows "digits_value (c # s) < digits_value (d # t)"
proof -
  have "digit_val c * 10 ^ length t + digits_value s < digit_val c * 10 ^ length t + 10 ^ length t"
    using digits_value_bound [OF assms(1)] assms(3) by simp
  also have "\<dots> = Suc (digit_val c) * 10 ^ length t" by simp
  also have "\<dots> \<le> digit_val d * 10 ^ length t" using assms(4) by (intro mult_le_mono1) simp
  finally show ?thesis using assms(3) by (simp add: digits_value_Cons)
qed

lemma equal_length_value:
  "list_all is_digit s \<Longrightarrow> list_all is_digit t \<Longrightarrow> length s = length t \<Longrightarrow>
     (s < t \<longleftrightarrow> digits_value s < digits_value t) \<and> (digits_value s = digits_value t \<longrightarrow> s = t)"
proof (induction s arbitrary: t)
  case Nil
  then show ?case by simp
next
  case (Cons c s)
  then obtain d t' where t: "t = d # t'" "length s = length t'" by (cases t) auto
  with Cons have ih: "(s < t' \<longleftrightarrow> digits_value s < digits_value t') \<and> (digits_value s = digits_value t' \<longrightarrow> s = t')"
    by simp
  from Cons.prems t have cd: "is_digit c" "is_digit d" "list_all is_digit s" "list_all is_digit t'" by simp_all
  consider "digit_val c < digit_val d" | "digit_val d < digit_val c" | "c = d"
    using digit_eq [OF cd(1,2)] by linarith
  then show ?case
  proof cases
    case 1
    with leading_digit_less [OF cd(3,4) t(2) 1] digit_less [OF cd(1,2)] show ?thesis by (auto simp: t)
  next
    case 2
    with leading_digit_less [OF cd(4,3) t(2) [symmetric] 2] digit_less [OF cd(1,2)] digit_less [OF cd(2,1)]
    show ?thesis by (auto simp: t)
  next
    case 3
    with ih show ?thesis by (simp add: t digits_value_Cons)
  qed
qed

lemma strip_zeros_digits: "list_all is_digit s \<Longrightarrow> list_all is_digit (strip_zeros s)"
  by (induction s rule: strip_zeros.induct) auto

lemma strip_zeros_value: "digits_value (strip_zeros s) = digits_value s"
proof (induction s rule: strip_zeros.induct)
  case (1 c d r)
  have "digit_val (CHR ''0'') = 0" by (simp add: digit_val_def code_of_def)
  with 1 show ?case by (auto simp: digits_value_Cons [of c])
qed simp_all

lemma strip_zeros_leading: "s \<noteq> [] \<Longrightarrow> length (strip_zeros s) = 1 \<or> hd (strip_zeros s) \<noteq> CHR ''0'' \<and> strip_zeros s \<noteq> []"
  by (induction s rule: strip_zeros.induct) auto

lemma longer_value:
  assumes "list_all is_digit s" "list_all is_digit t" "length s < length t" "s \<noteq> []" "hd t \<noteq> CHR ''0''"
  shows "digits_value s < digits_value t"
proof -
  obtain d t' where t: "t = d # t'" using assms(3) by (cases t) auto
  have "is_digit (CHR ''0'')" "digit_val (CHR ''0'') = 0"
    by (simp_all add: is_digit_def digit_val_def code_of_def)
  with t assms(2,5) have "1 \<le> digit_val d" using digit_eq [of d "CHR ''0''"] by fastforce
  then have "10 ^ length t' \<le> digits_value t" using t by (simp add: digits_value_Cons trans_le_add1)
  moreover have "10 ^ length s \<le> (10 :: nat) ^ length t'" using assms(3) t by (intro power_increasing) simp_all
  ultimately show ?thesis using digits_value_bound [OF assms(1)] by linarith
qed

lemma stripped_compare:
  assumes "list_all is_digit s" "list_all is_digit t" "s \<noteq> []" "t \<noteq> []"
  defines "n \<equiv> strip_zeros s" and "m \<equiv> strip_zeros t"
  shows "(if length n \<noteq> length m then length n < length m else n < m) \<longleftrightarrow> digits_value s < digits_value t"
    and "n = m \<longleftrightarrow> digits_value s = digits_value t"
proof -
  have d: "list_all is_digit n" "list_all is_digit m" using assms(1,2) by (simp_all add: n_def m_def strip_zeros_digits)
  have v: "digits_value n = digits_value s" "digits_value m = digits_value t" by (simp_all add: n_def m_def strip_zeros_value)
  have l: "length n = 1 \<or> hd n \<noteq> CHR ''0'' \<and> n \<noteq> []" "length m = 1 \<or> hd m \<noteq> CHR ''0'' \<and> m \<noteq> []"
    using strip_zeros_leading assms(3,4) by (simp_all add: n_def m_def)
  have ne: "n \<noteq> []" "m \<noteq> []" using l by auto
  consider "length n < length m" | "length m < length n" | "length n = length m" by linarith
  then have "((if length n \<noteq> length m then length n < length m else n < m) \<longleftrightarrow> digits_value s < digits_value t) \<and>
      (n = m \<longleftrightarrow> digits_value s = digits_value t)"
  proof cases
    case 1
    with ne l(2) have "hd m \<noteq> CHR ''0''" by (cases n) auto
    from longer_value [OF d 1 ne(1) this] 1 v show ?thesis by auto
  next
    case 2
    with ne l(1) have "hd n \<noteq> CHR ''0''" by (cases m) auto
    from longer_value [OF d(2,1) 2 ne(2) this] 2 v show ?thesis by auto
  next
    case 3
    with equal_length_value [OF d 3] v show ?thesis by auto
  qed
  then show "(if length n \<noteq> length m then length n < length m else n < m) \<longleftrightarrow> digits_value s < digits_value t"
    "n = m \<longleftrightarrow> digits_value s = digits_value t" by simp_all
qed

subsection \<open>The reference order\<close>

text \<open>A name as a list of tokens: characters below the digits, numbers, characters above.\<close>

definition char_token :: "char \<Rightarrow> nat \<times> nat" where
  "char_token c = (if c < CHR ''0'' then 0 else 2, code_of c)"

function version_key :: "string \<Rightarrow> (nat \<times> nat) list" where
  "version_key [] = []"
| "version_key (a # l) =
     (if is_digit a then (1, digits_value (digit_run (a # l))) # version_key (after_run (a # l))
      else char_token a # version_key l)"
  by pat_completeness auto
termination
  by (relation "measure length") (use after_run_shorter in auto)

definition newer :: "string \<Rightarrow> string \<Rightarrow> bool" where
  "newer left right \<longleftrightarrow>
     version_key left < version_key right \<or> version_key left = version_key right \<and> left < right"

lemma run_digits: "list_all is_digit (digit_run s)"
  by (auto simp: digit_run_def list_all_iff dest: set_takeWhileD)

lemma run_ne: "is_digit a \<Longrightarrow> digit_run (a # l) \<noteq> []"
  by (simp add: digit_run_def)

lemma digit_codes: "is_digit c \<longleftrightarrow> 48 \<le> code_of c \<and> code_of c \<le> 57"
  by (simp add: is_digit_def Let_def)

lemma code_zero: "code_of (CHR ''0'') = 48"
  by (simp add: code_of_def)

lemma char_token_less: "\<not> is_digit a \<Longrightarrow> \<not> is_digit b \<Longrightarrow> char_token a < char_token b \<longleftrightarrow> a < b"
  by (auto simp: char_token_def less_prod_def char_less_code digit_codes code_zero)

lemma char_token_eq: "char_token a = char_token b \<longleftrightarrow> a = b"
  by (auto simp: char_token_def code_of_inject)

lemma char_token_digit:
  assumes "\<not> is_digit a" "is_digit b"
  shows "char_token a < (Suc 0, v) \<longleftrightarrow> a < b" "(Suc 0, v) < char_token a \<longleftrightarrow> b < a"
    "char_token a \<noteq> (Suc 0, v)" "(Suc 0, v) \<noteq> char_token a" "a \<noteq> b" "b \<noteq> a"
  using assms by (auto simp: char_token_def less_prod_def char_less_code digit_codes code_zero)

lemma compare_versions_key:
  "compare_versions left right =
     (if version_key left = version_key right then None else Some (version_key left < version_key right))"
proof (induction left right rule: compare_versions.induct)
  case (2 b r)
  then show ?case by simp
next
  case (3 a l)
  then show ?case by simp
next
  case (4 a l b r)
  consider "is_digit a" "is_digit b" | "is_digit a" "\<not> is_digit b" | "\<not> is_digit a" "is_digit b"
    | "\<not> is_digit a" "\<not> is_digit b" by blast
  then show ?case
  proof cases
    case 1
    note c = stripped_compare [OF run_digits run_digits run_ne [OF 1(1), of l] run_ne [OF 1(2), of r]]
    show ?thesis
    proof (cases "digits_value (digit_run (a # l)) = digits_value (digit_run (b # r))")
      case True
      with c(2) have "strip_zeros (digit_run (a # l)) = strip_zeros (digit_run (b # r))" by simp
      with 4(1) 1 True show ?thesis by (simp add: Let_def)
    next
      case False
      with c(2) have "strip_zeros (digit_run (a # l)) \<noteq> strip_zeros (digit_run (b # r))" by simp
      with c(1) 1 False show ?thesis by (simp add: Let_def less_prod_def split: if_splits)
    qed
  next
    case 2
    then show ?thesis by (simp add: char_token_digit [OF 2(2) 2(1)])
  next
    case 3
    then show ?thesis by (simp add: char_token_digit [OF 3])
  next
    case 4
    with "4.IH"(2) char_token_less [OF 4] char_token_eq show ?thesis by auto
  qed
qed simp

lemma kernelVersionLess_newer: "kernelVersionLess left right \<longleftrightarrow> newer left right"
  by (auto simp: kernelVersionLess_def newer_def compare_versions_key)

text \<open>
  Kernel names are compared by their numbers. \<open>kernelVersionLess\<close> is the lexicographic order
  of the names read as numbers and characters, ties broken bytewise; so it is irreflexive,
  transitive and total, and a list of kernels has one newest whatever its order.
\<close>

theorem kernel_order_total:
  "(kernelVersionLess a b \<longleftrightarrow> newer a b) \<and> \<not> kernelVersionLess a a \<and>
   (kernelVersionLess a b \<and> kernelVersionLess b c \<longrightarrow> kernelVersionLess a c) \<and>
   (a = b \<or> kernelVersionLess a b \<or> kernelVersionLess b a)"
  by (auto simp: kernelVersionLess_newer newer_def)

end
