(* ===== verification/Target_Image.thy ===== *)
theory Target_Image
  imports Hardware Kernel_Version "HOL-Library.AList"
begin

text \<open>
  The kernel inventory of the target image (\<open>app/oci_hardware.go\<close>): the layers of a local OCI
  layout are scanned and merged in order, with their whiteouts, and the newest kernel's module
  files are read. Decompression and the tar format are libraries: a blob is what reading it
  yields, its entries and whether the stream ended well. The caller of a scan only counts a
  failure, so its texts are left out.
\<close>

subsection \<open>Archives\<close>

datatype tar_type = TarRegular | TarLink | TarDir | TarOther

text \<open>The contents of an entry: \<open>None\<close> is a read that fails.\<close>

record tar_entry =
  te_name :: string
  te_type :: tar_type
  te_link :: string
  te_data :: "string option"

type_synonym tar_stream = "tar_entry list \<times> bool"

fun visit_entries :: "(tar_entry \<Rightarrow> 's \<Rightarrow> 's option) \<Rightarrow> tar_entry list \<Rightarrow> 's \<Rightarrow> 's option" where
  "visit_entries visit [] s = Some s"
| "visit_entries visit (e # es) s = (case visit e s of None \<Rightarrow> None | Some s1 \<Rightarrow> visit_entries visit es s1)"

definition walkLayerTar :: "tar_stream \<Rightarrow> (tar_entry \<Rightarrow> 's \<Rightarrow> 's option) \<Rightarrow> 's \<Rightarrow> 's option" where
  "walkLayerTar blob visit s =
     (case visit_entries visit (fst blob) s of None \<Rightarrow> None | Some s1 \<Rightarrow> if snd blob then Some s1 else None)"

text \<open>\<open>path.Clean\<close> of a relative path, on its components; the result keeps them reversed.\<close>

definition clean_component :: "string \<Rightarrow> string list \<Rightarrow> string list" where
  "clean_component c out =
     (if c = [] \<or> c = ''.'' then out
      else if c = ''..'' then
        (case out of [] \<Rightarrow> [''..''] | t # rest \<Rightarrow> if t = ''..'' then ''..'' # out else rest)
      else c # out)"

definition path_clean :: "string \<Rightarrow> string" where
  "path_clean name =
     (let out = fold clean_component (split_on slash name) [] in if out = [] then ''.'' else join_with ''/'' (rev out))"

definition cleanArchivePath :: "string \<Rightarrow> string option" where
  "cleanArchivePath name =
     (let n = trim_prefix (to_slashes name) ''./'' in
      if n = [] \<or> has_prefix n ''/'' then None
      else (let clean = path_clean n
            in if clean = ''.'' \<or> clean = ''..'' \<or> has_prefix clean ''../'' then None else Some clean))"

record whiteout =
  wh_path :: string
  wh_opaque :: bool

text \<open>\<open>path.Split\<close>, without the trailing slash of the directory.\<close>

definition dir_part :: "string \<Rightarrow> string" where
  "dir_part name = join_with ''/'' (butlast (split_on slash name))"

definition whiteoutTarget :: "string \<Rightarrow> whiteout option" where
  "whiteoutTarget name =
     (let dir = dir_part name; base = base_name name in
      if base = ''.wh..wh..opq'' then Some \<lparr>wh_path = dir, wh_opaque = True\<rparr>
      else (case cut_prefix base ''.wh.'' of
              None \<Rightarrow> None
            | Some removed \<Rightarrow>
                if removed = [] then None
                else Some \<lparr>wh_path = (if dir = [] then removed else dir @ ''/'' @ removed), wh_opaque = False\<rparr>))"

definition inventory_files :: "string list" where
  "inventory_files =
     [''modules.dep'', ''modules.builtin'', ''modules.alias'', ''modules.builtin.alias'', ''modules.builtin.modinfo'']"

definition isKernelInventoryPath :: "string \<Rightarrow> bool" where
  "isKernelInventoryPath name \<longleftrightarrow>
     (case cut_prefix name ''usr/lib/modules/'' of
        None \<Rightarrow> False
      | Some rest \<Rightarrow>
          (case cut_at slash rest of
             None \<Rightarrow> False
           | Some (kversion, file) \<Rightarrow> kversion \<noteq> [] \<and> slash \<notin> set file \<and> file \<in> set inventory_files))"

subsection \<open>One layer\<close>

record layer_inventory =
  li_whiteouts :: "whiteout list"
  li_files :: "string smap"
  li_firmware :: "string set"
  li_links :: "string smap"

definition empty_layer :: layer_inventory where
  "empty_layer = \<lparr>li_whiteouts = [], li_files = [], li_firmware = {}, li_links = []\<rparr>"

definition maxKernelInventoryFile :: int where
  "maxKernelInventoryFile = 67108864"

definition firmware_dir :: string where
  "firmware_dir = ''usr/lib/firmware/''"

definition read_limited :: "string option \<Rightarrow> string option" where
  "read_limited data =
     (case data of None \<Rightarrow> None | Some d \<Rightarrow> if maxKernelInventoryFile < int (length d) then None else Some d)"

definition scan_entry :: "tar_entry \<Rightarrow> layer_inventory \<Rightarrow> layer_inventory option" where
  "scan_entry e layer =
     (case cleanArchivePath (te_name e) of
        None \<Rightarrow> Some layer
      | Some name \<Rightarrow>
          (case whiteoutTarget name of
             Some w \<Rightarrow> Some (layer\<lparr>li_whiteouts := li_whiteouts layer @ [w]\<rparr>)
           | None \<Rightarrow>
               (let layer1 = (if has_prefix name firmware_dir \<and> te_type e \<noteq> TarDir
                    then layer\<lparr>li_firmware := insert (normalizeFirmware (trim_prefix name firmware_dir)) (li_firmware layer)\<rparr>
                    else layer)
                in if \<not> isKernelInventoryPath name then Some layer1
                   else (case te_type e of
                           TarRegular \<Rightarrow>
                             map_option (\<lambda>d. layer1\<lparr>li_files := AList.update name d (li_files layer1)\<rparr>)
                               (read_limited (te_data e))
                         | TarLink \<Rightarrow>
                             map_option (\<lambda>t. layer1\<lparr>li_links := AList.update name t (li_links layer1)\<rparr>)
                               (cleanArchivePath (te_link e))
                         | _ \<Rightarrow> Some layer1))))"

definition resolve_entry :: "string set \<Rightarrow> tar_entry \<Rightarrow> string smap \<Rightarrow> string smap option" where
  "resolve_entry wanted e resolved =
     (case cleanArchivePath (te_name e) of
        None \<Rightarrow> Some resolved
      | Some name \<Rightarrow>
          if name \<notin> wanted \<or> te_type e \<noteq> TarRegular then Some resolved
          else map_option (\<lambda>d. AList.update name d resolved) (read_limited (te_data e)))"

fun link_files :: "string smap \<Rightarrow> string smap \<Rightarrow> string smap \<Rightarrow> string smap option" where
  "link_files resolved [] files = Some files"
| "link_files resolved ((name, target) # links) files =
     (case map_of resolved target of
        None \<Rightarrow> None
      | Some d \<Rightarrow> link_files resolved links (AList.update name d files))"

definition scanHardwareLayer :: "tar_stream \<Rightarrow> layer_inventory option" where
  "scanHardwareLayer blob =
     (case walkLayerTar blob scan_entry empty_layer of
        None \<Rightarrow> None
      | Some layer \<Rightarrow>
          if li_links layer = [] then Some layer
          else (case walkLayerTar blob (resolve_entry (snd ` set (li_links layer))) [] of
                  None \<Rightarrow> None
                | Some resolved \<Rightarrow>
                    map_option (\<lambda>files. layer\<lparr>li_files := files\<rparr>)
                      (link_files resolved (li_links layer) (li_files layer))))"

subsection \<open>Merging the layers\<close>

record overlay =
  ov_files :: "string smap"
  ov_firmware :: "string set"

definition removes :: "string \<Rightarrow> string \<Rightarrow> bool" where
  "removes path name \<longleftrightarrow> name = path \<or> has_prefix name (path @ ''/'')"

definition apply_whiteout :: "whiteout \<Rightarrow> overlay \<Rightarrow> overlay" where
  "apply_whiteout w ov =
     (let path = wh_path w
      in ov\<lparr>ov_files := filter (\<lambda>(name, d). \<not> removes path name) (ov_files ov),
            ov_firmware :=
              (if path = ''usr/lib/firmware'' then {}
               else (case cut_prefix path firmware_dir of
                       Some relative \<Rightarrow> Set.filter (\<lambda>name. \<not> removes (normalizeFirmware relative) name) (ov_firmware ov)
                     | None \<Rightarrow> ov_firmware ov))\<rparr>)"

definition applyHardwareLayer :: "layer_inventory \<Rightarrow> overlay \<Rightarrow> overlay" where
  "applyHardwareLayer layer ov =
     (let ov1 = fold apply_whiteout (li_whiteouts layer) ov
      in ov1\<lparr>ov_files := fold (\<lambda>(name, d). AList.update name d) (li_files layer) (ov_files ov1),
             ov_firmware := ov_firmware ov1 \<union> (li_firmware layer - {[]})\<rparr>)"

subsection \<open>The newest kernel\<close>

definition modules_dir :: string where
  "modules_dir = ''usr/lib/modules/''"

definition kernel_versions :: "string smap \<Rightarrow> string list" where
  "kernel_versions files =
     List.map_filter
       (\<lambda>(name, d).
          if has_suffix name ''/modules.dep''
          then (let rest = trim_suffix (trim_prefix name modules_dir) ''/modules.dep''
                in if rest \<noteq> [] \<and> slash \<notin> set rest then Some rest else None)
          else None) files"

text \<open>The last of the sorted names: \<open>kernelVersionLess\<close> is a strict total order.\<close>

definition later_version :: "string \<Rightarrow> string \<Rightarrow> string" where
  "later_version a b = (if kernelVersionLess a b then b else a)"

definition newest_version :: "string list \<Rightarrow> string" where
  "newest_version vs = fold later_version (tl vs) (hd vs)"

definition targetKernelFromOverlay :: "overlay \<Rightarrow> nat \<Rightarrow> target_kernel option" where
  "targetKernelFromOverlay ov skipped =
     (let versions = kernel_versions (ov_files ov) in
      if versions = [] then None
      else (let version = newest_version versions;
                read = (\<lambda>name. lookup_or [] (ov_files ov) (modules_dir @ version @ ''/'' @ name))
            in Some \<lparr>tk_version = version, tk_modules = parseModuleList (read ''modules.dep''),
                 tk_builtin = parseModuleList (read ''modules.builtin''),
                 tk_aliases = parseModuleAliases (read ''modules.alias'') @
                   parseModuleAliases (read ''modules.builtin.alias'') @
                   parseBuiltinModinfo (read ''modules.builtin.modinfo''),
                 tk_firmware = ov_firmware ov, tk_skipped = skipped\<rparr>))"

subsection \<open>The layout on disk\<close>

record oci_descriptor =
  od_digest :: string
  od_size :: int

text \<open>
  The two JSON files as read and parsed, and the blob of a digest: its size on disk and its
  stream; \<open>None\<close> is a blob that is not there.
\<close>

record oci_layout =
  ol_index :: "string + oci_descriptor list"
  ol_manifest :: "string \<Rightarrow> string + oci_descriptor list"
  ol_blob :: "string \<Rightarrow> (int \<times> tar_stream) option"

definition ociBlobPath :: "string \<Rightarrow> string option" where
  "ociBlobPath digest =
     (case cut_prefix digest ''sha256:'' of
        None \<Rightarrow> None
      | Some hex \<Rightarrow> if length hex = 64 \<and> list_all is_hex hex then Some hex else None)"

definition layer_of :: "oci_layout \<Rightarrow> oci_descriptor \<Rightarrow> layer_inventory option" where
  "layer_of ol d =
     (case ociBlobPath (od_digest d) of
        None \<Rightarrow> None
      | Some hex \<Rightarrow>
          (case ol_blob ol hex of
             None \<Rightarrow> None
           | Some (sz, stream) \<Rightarrow>
               if 0 \<le> od_size d \<and> sz \<noteq> od_size d then None else scanHardwareLayer stream))"

definition merge_layer :: "oci_layout \<Rightarrow> oci_descriptor \<Rightarrow> overlay \<times> nat \<Rightarrow> overlay \<times> nat" where
  "merge_layer ol d s =
     (case layer_of ol d of
        None \<Rightarrow> (fst s, Suc (snd s))
      | Some layer \<Rightarrow> (applyHardwareLayer layer (fst s), snd s))"

definition empty_overlay :: overlay where
  "empty_overlay = \<lparr>ov_files = [], ov_firmware = {}\<rparr>"

definition inspectOCIBundle :: "oci_layout \<Rightarrow> string + target_kernel" where
  "inspectOCIBundle ol =
     (case ol_index ol of
        Inl e \<Rightarrow> Inl e
      | Inr [] \<Rightarrow> Inl ''parse OCI index: index contains no manifest''
      | Inr (m # ms) \<Rightarrow>
          (case ociBlobPath (od_digest m) of
             None \<Rightarrow> Inl (''unsupported OCI digest '' @ od_digest m)
           | Some hex \<Rightarrow>
               (case ol_manifest ol hex of
                  Inl e \<Rightarrow> Inl e
                | Inr layers \<Rightarrow>
                    (let (ov, skipped) = fold (merge_layer ol) layers (empty_overlay, 0)
                     in case targetKernelFromOverlay ov skipped of
                          Some k \<Rightarrow> Inr k
                        | None \<Rightarrow> Inl (''the target image contains no readable kernel module inventory ('' @
                            dec_nat skipped @ '' layer(s) skipped)'')))))"

end
