(* ===== verification/Hardware_Props.thy ===== *)
theory Hardware_Props
  imports Hardware "HOL-Library.Multiset"
begin

text \<open>
  What the hardware report promises: it does not depend on the order in which maps are ranged
  over, and it blocks an installation exactly when a complete inventory shows a device or a
  driver of this PC that the target cannot serve.
\<close>

subsection \<open>Independence of iteration order\<close>

lemma sort_mset_eq: "mset xs = mset ys \<Longrightarrow> sort xs = sort (ys :: 'a::linorder list)"
  by (metis mset_sort properties_for_sort sorted_sort)

lemma map_of_mset_eq:
  assumes "mset xs = mset ys" "distinct (map fst xs)"
  shows "map_of xs = map_of ys"
proof -
  have "distinct (map fst ys)" using assms by (metis mset_eq_imp_distinct_iff mset_map)
  moreover have "set xs = set ys" using assms(1) by (metis set_mset_mset)
  ultimately show ?thesis using assms(2) by (simp add: map_of_inject_set)
qed

lemma mset_concat_sum: "mset (concat (map f xs)) = (\<Sum>x\<in>#mset xs. mset (f x))"
  by (induction xs) simp_all

lemma mset_concat_map: "mset xs = mset ys \<Longrightarrow> mset (concat (map f xs)) = mset (concat (map f ys))"
  by (simp only: mset_concat_sum)

definition reorders :: "(lost_map \<Rightarrow> lost_map) \<Rightarrow> bool" where
  "reorders order \<longleftrightarrow> (\<forall>l. mset (order l) = mset l)"

lemma set_reordered: "reorders order \<Longrightarrow> set (order l) = set l"
  unfolding reorders_def by (metis set_mset_mset)

lemma assess_device_modules:
  assumes "map_of ms = map_of (hh_modules host)"
  shows "assess_device (host\<lparr>hh_modules := ms\<rparr>) k d = assess_device host k d"
proof -
  have e: "hh_modules (host\<lparr>hh_modules := ms\<rparr>) = ms" by simp
  show ?thesis unfolding assess_device_def e assms by (rule refl)
qed

lemma scan_devices_modules:
  "map_of ms = map_of (hh_modules host) \<Longrightarrow> scan_devices (host\<lparr>hh_modules := ms\<rparr>) k = scan_devices host k"
  by (simp add: scan_devices_def scan_device_def [abs_def] assess_device_modules)

lemma module_finding_modules: "module_finding (host\<lparr>hh_modules := ms\<rparr>) k = module_finding host k"
  by (rule ext) (simp add: module_finding_def severe_module_def Let_def)

lemma raw_findings_mset:
  assumes "reorders order" "reorders order'" "mset ms = mset (hh_modules host)" "distinct (map fst (hh_modules host))"
  shows "mset (raw_findings order' (host\<lparr>hh_modules := ms\<rparr>) k) = mset (raw_findings order host k)"
proof -
  have m: "map_of ms = map_of (hh_modules host)" using map_of_mset_eq [OF assms(3) [symmetric] assms(4)] by simp
  have "mset (map (lost_finding k) (order' l)) = mset (map (lost_finding k) (order l))" for l
    using assms(1,2) by (simp add: reorders_def)
  moreover have "mset (concat (map (module_finding host k) ms)) = mset (concat (map (module_finding host k) (hh_modules host)))"
    using assms(3) by (rule mset_concat_map)
  ultimately show ?thesis
    by (simp add: raw_findings_def scan_devices_modules [OF m] module_finding_modules microcode_finding_def)
qed

text \<open>
  The report is a function of the PC and the image. The code ranges over two maps, whose
  iteration order changes from run to run; whatever the orders, the report is the same, finding
  for finding.
\<close>

theorem report_order_independent:
  assumes "reorders order" "reorders order'"
    and "mset ms = mset (hh_modules host)" "distinct (map fst (hh_modules host))"
  shows "assessHardware order' (host\<lparr>hh_modules := ms\<rparr>) k = assessHardware order host k"
proof -
  have m: "map_of ms = map_of (hh_modules host)" using map_of_mset_eq [OF assms(3) [symmetric] assms(4)] by simp
  note r = raw_findings_mset [OF assms]
  have "sort (map soften (raw_findings order' (host\<lparr>hh_modules := ms\<rparr>) k) @ [incomplete_finding host k]) =
      sort (map soften (raw_findings order host k) @ [incomplete_finding host k])"
    using r by (intro sort_mset_eq) simp
  moreover have "incomplete_finding (host\<lparr>hh_modules := ms\<rparr>) k = incomplete_finding host k"
    by (simp add: incomplete_finding_def incomplete_reasons_def)
  ultimately show ?thesis using sort_mset_eq [OF r]
    by (simp add: assessHardware_def scan_devices_modules [OF m] incomplete_def)
qed

subsection \<open>What blocks\<close>

definition own_module :: "host_device \<Rightarrow> string" where
  "own_module d = normalizeModule (hd_module d)"

definition device_severe :: "host_device \<Rightarrow> bool" where
  "device_severe d \<longleftrightarrow> (\<exists>c. hd_class d = Some c \<and> snd (pciKind c))"

definition framebuffer_serves :: "target_kernel \<Rightarrow> host_device \<Rightarrow> bool" where
  "framebuffer_serves k d \<longleftrightarrow> (\<exists>c. hd_class d = Some c \<and> is_display c) \<and> framebuffer k \<noteq> []"

definition device_out_of_tree :: "host_hardware \<Rightarrow> host_device \<Rightarrow> bool" where
  "device_out_of_tree host d \<longleftrightarrow>
     hd_out_of_tree d \<or> (\<exists>info. map_of (hh_modules host) (own_module d) = Some info \<and> hm_out_of_tree info)"

text \<open>
  A device the target cannot serve: no driver of its own, none by alias, no framebuffer, and
  severe or bound to a driver from outside the kernel; or a severe device without a driver of its
  own whose every alias driver is of a family with known firmware that the image lacks.
\<close>

definition blocks_device :: "host_hardware \<Rightarrow> target_kernel \<Rightarrow> host_device \<Rightarrow> bool" where
  "blocks_device host k d \<longleftrightarrow>
     hd_modalias d \<noteq> [] \<and> \<not> (hd_known d \<and> hd_module d = []) \<and>
     (own_module d = [] \<or> \<not> hasModule k (own_module d)) \<and>
     (aliasDrivers k (hd_modalias d) = [] \<and> \<not> framebuffer_serves k d \<and>
        (device_severe d \<or> own_module d \<noteq> [] \<and> device_out_of_tree host d) \<or>
      own_module d = [] \<and> device_severe d \<and> allKnownDriverFirmwareMissing (aliasDrivers k (hd_modalias d)) k)"

definition blocks_module :: "host_hardware \<Rightarrow> target_kernel \<Rightarrow> string \<times> host_module \<Rightarrow> bool" where
  "blocks_module host k e \<longleftrightarrow>
     hm_firmware (snd e) \<noteq> [] \<and> hasModule k (fst e) \<and> (\<forall>f\<in>set (hm_firmware (snd e)). \<not> hasFirmware k f) \<and>
     severe_module host k (fst e)"

definition blocking_outcome :: "device_outcome \<Rightarrow> bool" where
  "blocking_outcome oc \<longleftrightarrow>
     (case oc of FirmwareGap f \<Rightarrow> hf_severity f = HardwareBlocking
      | Lost key dev \<Rightarrow> lk_severity key = HardwareBlocking | _ \<Rightarrow> False)"

lemma allKnown_ne: "allKnownDriverFirmwareMissing [] k \<longleftrightarrow> False"
  by (simp add: allKnownDriverFirmwareMissing_def)

lemma device_kind_parts:
  "device_kind d = (kind, severe, display) \<Longrightarrow>
     severe = device_severe d \<and> (display \<and> framebuffer k \<noteq> [] \<longleftrightarrow> framebuffer_serves k d)"
  by (auto simp: device_kind_def device_severe_def framebuffer_serves_def split: option.splits)

lemma severity_blocking:
  "lost_severity fb no severe oot = HardwareBlocking \<longleftrightarrow> \<not> fb \<and> no \<and> (severe \<or> oot)"
  by (simp add: lost_severity_def)

lemma blocking_lost:
  "blocking_outcome (Lost (LostKey a b fb (lost_severity fb no severe oot)) dev) \<longleftrightarrow> \<not> fb \<and> no \<and> (severe \<or> oot)"
  by (simp add: blocking_outcome_def severity_blocking)

lemma blocking_gap: "blocking_outcome (FirmwareGap (firmware_gap d drivers kind severe)) \<longleftrightarrow> severe"
  by (simp add: blocking_outcome_def firmware_gap_def)

lemma not_blocking [simp]: "\<not> blocking_outcome Ignored" "\<not> blocking_outcome Supported"
  by (simp_all add: blocking_outcome_def)

lemma blocking_device: "blocking_outcome (assess_device host k d) \<longleftrightarrow> blocks_device host k d"
proof -
  obtain kind severe display where dk: "device_kind d = (kind, severe, display)" by (cases "device_kind d") auto
  note p = device_kind_parts [OF dk, of k]
  have o: "(hd_out_of_tree d \<or>
      (case map_of (hh_modules host) (own_module d) of None \<Rightarrow> False | Some info \<Rightarrow> hm_out_of_tree info)) =
      device_out_of_tree host d"
    by (simp add: device_out_of_tree_def split: option.splits)
  have f: "(if b then x else []) = [] \<longleftrightarrow> b \<longrightarrow> x = []" for b and x :: "string list" by simp
  consider "hd_modalias d = [] \<or> hd_known d \<and> hd_module d = []"
    | "hd_modalias d \<noteq> []" "\<not> (hd_known d \<and> hd_module d = [])" "own_module d \<noteq> []" "hasModule k (own_module d)"
    | "hd_modalias d \<noteq> []" "\<not> (hd_known d \<and> hd_module d = [])" "own_module d = []"
    | "hd_modalias d \<noteq> []" "\<not> (hd_known d \<and> hd_module d = [])" "own_module d \<noteq> []" "\<not> hasModule k (own_module d)"
    by blast
  then show ?thesis
  proof cases
    case 1
    then show ?thesis by (auto simp: assess_device_def blocks_device_def)
  next
    case 2
    then show ?thesis by (simp add: assess_device_def blocks_device_def own_module_def)
  next
    case 3
    have "blocking_outcome (assess_device host k d) \<longleftrightarrow>
        (if aliasDrivers k (hd_modalias d) = [] then severe \<and> \<not> framebuffer_serves k d
         else severe \<and> allKnownDriverFirmwareMissing (aliasDrivers k (hd_modalias d)) k)"
      using 3 p unfolding assess_device_def own_module_def [symmetric] Let_def dk prod.case o
      by (cases "aliasDrivers k (hd_modalias d) = []"; cases "device_severe d"; cases "framebuffer_serves k d")
        (simp_all add: blocking_lost blocking_gap)
    with 3 p show ?thesis by (auto simp: blocks_device_def allKnown_ne)
  next
    case 4
    have "blocking_outcome (assess_device host k d) \<longleftrightarrow>
        aliasDrivers k (hd_modalias d) = [] \<and> \<not> framebuffer_serves k d \<and> (severe \<or> device_out_of_tree host d)"
      using 4 p unfolding assess_device_def own_module_def [symmetric] Let_def dk prod.case o
      by (cases "aliasDrivers k (hd_modalias d) = []"; cases "framebuffer_serves k d") (auto simp: blocking_lost)
    with 4 p show ?thesis by (auto simp: blocks_device_def allKnown_ne)
  qed
qed

lemma blocking_module:
  "list_ex (\<lambda>f. hf_severity f = HardwareBlocking) (module_finding host k e) \<longleftrightarrow> blocks_module host k e"
proof -
  have "length (filter (\<lambda>f. \<not> hasFirmware k f) fs) = length fs \<longleftrightarrow> (\<forall>f\<in>set fs. \<not> hasFirmware k f)" for fs
    by (metis (no_types, lifting) filter_id_conv length_filter_less nat_less_le)
  then show ?thesis
    by (auto simp: module_finding_def blocks_module_def Let_def filter_empty_conv)
qed

lemma add_lost_blocks:
  "(\<exists>e\<in>set (add_lost key dev l). lk_severity (fst e) = s) \<longleftrightarrow>
     lk_severity key = s \<or> (\<exists>e\<in>set l. lk_severity (fst e) = s)"
  by (induction key dev l rule: add_lost.induct) auto

definition scan_blocks :: "device_scan \<Rightarrow> bool" where
  "scan_blocks s \<longleftrightarrow>
     (\<exists>f\<in>set (ds_findings s). hf_severity f = HardwareBlocking) \<or>
     (\<exists>e\<in>set (ds_lost s). lk_severity (fst e) = HardwareBlocking)"

lemma scan_device_blocks:
  "scan_blocks (scan_device host k d s) \<longleftrightarrow> scan_blocks s \<or> blocks_device host k d"
  unfolding blocking_device [symmetric]
  by (cases "assess_device host k d")
    (simp_all add: scan_device_def scan_blocks_def blocking_outcome_def add_lost_blocks disj_ac)

lemma scan_all_blocks:
  "scan_blocks (fold (scan_device host k) ds s) \<longleftrightarrow> scan_blocks s \<or> (\<exists>d\<in>set ds. blocks_device host k d)"
  by (induction ds arbitrary: s) (auto simp: scan_device_blocks)

lemma scan_devices_blocks: "scan_blocks (scan_devices host k) \<longleftrightarrow> (\<exists>d\<in>set (hh_devices host). blocks_device host k d)"
  by (simp add: scan_devices_def scan_all_blocks) (simp add: scan_blocks_def)

lemma raw_blocks:
  assumes "reorders order"
  shows "(\<exists>f\<in>set (raw_findings order host k). hf_severity f = HardwareBlocking) \<longleftrightarrow>
    (\<exists>d\<in>set (hh_devices host). blocks_device host k d) \<or> (\<exists>e\<in>set (hh_modules host). blocks_module host k e)"
proof -
  have "(\<exists>f\<in>set (map (lost_finding k) (order l)). hf_severity f = HardwareBlocking) \<longleftrightarrow>
      (\<exists>e\<in>set l. lk_severity (fst e) = HardwareBlocking)" for l
    by (auto simp: lost_finding_def set_reordered [OF assms])
  moreover have "(\<exists>f\<in>set (concat (map (module_finding host k) es)). hf_severity f = HardwareBlocking) \<longleftrightarrow>
      (\<exists>e\<in>set es. blocks_module host k e)" for es
    using blocking_module by (fastforce simp: list_ex_iff)
  moreover have "\<not> (\<exists>f\<in>set (microcode_finding host k). hf_severity f = HardwareBlocking)"
    by (auto simp: microcode_finding_def)
  ultimately show ?thesis
    unfolding raw_findings_def set_append Bex_def Un_iff
    using scan_devices_blocks [of host k] unfolding scan_blocks_def Bex_def by blast
qed

lemma blocks_iff:
  assumes "reorders order"
  shows "hasBlocking (assessHardware order host k) \<longleftrightarrow>
      \<not> incomplete host k \<and>
      ((\<exists>d\<in>set (hh_devices host). blocks_device host k d) \<or> (\<exists>e\<in>set (hh_modules host). blocks_module host k e))"
proof -
  have "\<not> (\<exists>f\<in>set (map soften fs @ [incomplete_finding host k]). hf_severity f = HardwareBlocking)" for fs
    by (auto simp: soften_def incomplete_finding_def)
  with raw_blocks [OF assms, of host k] show ?thesis
    by (auto simp: hasBlocking_def assessHardware_def list_ex_iff)
qed

lemma blocks_only_complete: "reorders order \<Longrightarrow> hasBlocking (assessHardware order host k) \<Longrightarrow> \<not> incomplete host k"
  by (simp add: blocks_iff)

text \<open>
  C20: what stops an installation. The report holds a blocking finding exactly when the inventory
  of the PC and of the image is complete and shows a device or a driver the target cannot serve;
  an incomplete inventory only ever warns.
\<close>

theorem hardware_blocks_exactly:
  assumes "reorders order"
  shows "(hasBlocking (assessHardware order host k) \<longleftrightarrow>
      \<not> incomplete host k \<and>
      ((\<exists>d\<in>set (hh_devices host). blocks_device host k d) \<or> (\<exists>e\<in>set (hh_modules host). blocks_module host k e))) \<and>
    (incomplete host k \<longrightarrow> incomplete_finding host k \<in> set (hr_findings (assessHardware order host k)))"
  by (simp add: blocks_iff [OF assms]) (simp add: assessHardware_def)

end
