(* ===== verification/Target_Image_Props.thy ===== *)
theory Target_Image_Props
  imports Target_Image Hardware_Props
begin

text \<open>
  The inventory of the merged image: every module file is the one a container runtime shows, the
  kernel read is the newest, and a layer that could not be read makes the comparison advisory.
\<close>

subsection \<open>Files of one layer\<close>

definition layer_ok :: "layer_inventory \<Rightarrow> bool" where
  "layer_ok l \<longleftrightarrow> distinct (map fst (li_files l))"

lemma update_distinct: "distinct (map fst m) \<Longrightarrow> distinct (map fst (AList.update k v m))"
  by (rule distinct_update)

lemma scan_entry_ok: "scan_entry e l = Some l1 \<Longrightarrow> layer_ok l \<Longrightarrow> layer_ok l1"
  by (auto simp: scan_entry_def layer_ok_def Let_def update_distinct split: option.splits if_splits tar_type.splits)

lemma visit_entries_ok:
  "(\<And>e s s1. visit e s = Some s1 \<Longrightarrow> P s \<Longrightarrow> P s1) \<Longrightarrow> visit_entries visit es s = Some s1 \<Longrightarrow> P s \<Longrightarrow> P s1"
  by (induction es arbitrary: s) (auto split: option.splits)

lemma link_files_ok: "link_files resolved links files = Some files1 \<Longrightarrow> distinct (map fst files) \<Longrightarrow> distinct (map fst files1)"
  by (induction resolved links files rule: link_files.induct) (auto simp: update_distinct split: option.splits)

lemma scanHardwareLayer_ok:
  assumes "scanHardwareLayer blob = Some l"
  shows "layer_ok l"
proof -
  from assms obtain l0 where l0: "visit_entries scan_entry (fst blob) empty_layer = Some l0"
    and l: "l = l0 \<or> (\<exists>r files. link_files r (li_links l0) (li_files l0) = Some files \<and> l = l0\<lparr>li_files := files\<rparr>)"
    by (auto simp: scanHardwareLayer_def walkLayerTar_def split: option.splits if_splits)
  have "layer_ok l0"
    by (rule visit_entries_ok [OF scan_entry_ok l0]) (simp_all add: empty_layer_def layer_ok_def)
  with l show ?thesis by (auto simp: layer_ok_def dest: link_files_ok)
qed

subsection \<open>Merging\<close>

text \<open>What a container runtime shows of a stack of layers, the top one first.\<close>

definition layer_removes :: "layer_inventory \<Rightarrow> string \<Rightarrow> bool" where
  "layer_removes l name \<longleftrightarrow> list_ex (\<lambda>w. removes (wh_path w) name) (li_whiteouts l)"

fun visible_file :: "layer_inventory list \<Rightarrow> string \<Rightarrow> string option" where
  "visible_file [] name = None"
| "visible_file (l # below) name =
     (case map_of (li_files l) name of
        Some d \<Rightarrow> Some d
      | None \<Rightarrow> if layer_removes l name then None else visible_file below name)"

lemma map_of_filter_fst: "map_of (filter (\<lambda>(k, v). p k) m) k = (if p k then map_of m k else None)"
  by (induction m) auto

lemma whiteout_file:
  "map_of (ov_files (apply_whiteout w ov)) name = (if removes (wh_path w) name then None else map_of (ov_files ov) name)"
  by (simp add: apply_whiteout_def Let_def map_of_filter_fst)

lemma whiteouts_file:
  "map_of (ov_files (fold apply_whiteout ws ov)) name =
     (if list_ex (\<lambda>w. removes (wh_path w) name) ws then None else map_of (ov_files ov) name)"
  by (induction ws arbitrary: ov) (simp_all add: whiteout_file)

lemma fold_update:
  "distinct (map fst fs) \<Longrightarrow>
    map_of (fold (\<lambda>(k, v). AList.update k v) fs m) name = (case map_of fs name of Some d \<Rightarrow> Some d | None \<Rightarrow> map_of m name)"
proof (induction fs arbitrary: m)
  case Nil
  then show ?case by simp
next
  case (Cons f fs)
  obtain k v where f: "f = (k, v)" by (cases f)
  with Cons.prems have "map_of fs k = None" by (simp add: map_of_eq_None_iff)
  with Cons f show ?case by (auto simp: update_conv' split: option.splits)
qed

lemma layer_file:
  "layer_ok l \<Longrightarrow> map_of (ov_files (applyHardwareLayer l ov)) name =
     (case map_of (li_files l) name of
        Some d \<Rightarrow> Some d | None \<Rightarrow> if layer_removes l name then None else map_of (ov_files ov) name)"
  by (simp add: applyHardwareLayer_def Let_def layer_ok_def fold_update whiteouts_file layer_removes_def
      split: option.splits)

definition layers_read :: "oci_layout \<Rightarrow> oci_descriptor list \<Rightarrow> layer_inventory list" where
  "layers_read ol ds = List.map_filter (layer_of ol) ds"

lemma layer_of_ok: "layer_of ol d = Some l \<Longrightarrow> layer_ok l"
  by (auto simp: layer_of_def intro: scanHardwareLayer_ok split: option.splits if_splits)

lemma merge_layers:
  "fold (merge_layer ol) ds (ov, n) =
     (fold applyHardwareLayer (layers_read ol ds) ov, n + length (filter (\<lambda>d. layer_of ol d = None) ds))"
  by (induction ds arbitrary: ov n) (auto simp: merge_layer_def layers_read_def map_filter_def split: option.splits)

lemma merged_file:
  "list_all layer_ok ls \<Longrightarrow>
     map_of (ov_files (fold applyHardwareLayer ls ov)) name =
       (if ls = [] then map_of (ov_files ov) name
        else map_of (ov_files (applyHardwareLayer (last ls) (fold applyHardwareLayer (butlast ls) ov))) name)"
  by (cases ls rule: rev_cases) simp_all

lemma merged_visible:
  "list_all layer_ok ls \<Longrightarrow> map_of (ov_files (fold applyHardwareLayer ls empty_overlay)) name = visible_file (rev ls) name"
proof (induction ls rule: rev_induct)
  case Nil
  then show ?case by (simp add: empty_overlay_def)
next
  case (snoc l ls)
  then show ?case by (simp add: layer_file split: option.splits)
qed

lemma layers_read_ok: "list_all layer_ok (layers_read ol ds)"
  by (auto simp: layers_read_def list_all_iff map_filter_def dest: layer_of_ok)

subsection \<open>The newest kernel\<close>

lemma later_version_cases: "later_version a b = a \<or> later_version a b = b"
  by (simp add: later_version_def)

lemma newer_order:
  "\<not> kernelVersionLess a a" "kernelVersionLess a b \<Longrightarrow> kernelVersionLess b c \<Longrightarrow> kernelVersionLess a c"
  "a = b \<or> kernelVersionLess a b \<or> kernelVersionLess b a"
  by (auto simp: kernelVersionLess_newer newer_def)

lemma newest_fold:
  "fold later_version vs v \<in> set (v # vs) \<and> (\<forall>x\<in>set (v # vs). \<not> kernelVersionLess (fold later_version vs v) x)"
proof (induction vs arbitrary: v)
  case Nil
  then show ?case by (simp add: newer_order)
next
  case (Cons b vs)
  let ?m = "fold later_version vs (later_version b v)"
  have m: "?m \<in> set (later_version b v # vs)" "\<forall>x\<in>set (later_version b v # vs). \<not> kernelVersionLess ?m x"
    using Cons.IH [of "later_version b v"] by simp_all
  have "\<not> kernelVersionLess ?m v" "\<not> kernelVersionLess ?m b"
    using m(2) newer_order(2) [of ?m v b] newer_order(2) [of ?m b v] newer_order(3) [of v b]
    by (auto simp: later_version_def split: if_splits)
  with m later_version_cases [of b v] show ?case by auto
qed

lemma newest_version_max:
  assumes "vs \<noteq> []"
  shows "newest_version vs \<in> set vs" "x \<in> set vs \<Longrightarrow> x = newest_version vs \<or> kernelVersionLess x (newest_version vs)"
proof -
  obtain v vs' where vs: "vs = v # vs'" using assms by (cases vs) auto
  with newest_fold [of vs' v] show "newest_version vs \<in> set vs" by (simp add: newest_version_def)
  assume "x \<in> set vs"
  with newest_fold [of vs' v] vs newer_order(3) show "x = newest_version vs \<or> kernelVersionLess x (newest_version vs)"
    by (metis list.sel(1,3) newest_version_def)
qed

subsection \<open>Names in the overlay\<close>

lemma trim_ends [simp]: "trim_prefix (p @ s) p = s" "trim_suffix (s @ p) p = s"
  by (simp_all add: trim_prefix_def trim_suffix_def has_prefix_def has_suffix_def suffix_def)

lemma cut_prefix_Some: "cut_prefix s p = Some r \<longleftrightarrow> s = p @ r"
  by (auto simp: cut_prefix_def trim_prefix_def has_prefix_def prefix_def)

lemma cut_at_Some:
  assumes "cut_at c s = Some (a, b)"
  shows "s = a @ c # b"
proof -
  let ?r = "dropWhile (\<lambda>x. x \<noteq> c) s"
  from assms have c: "c \<in> set s" and ab: "a = takeWhile (\<lambda>x. x \<noteq> c) s" "b = tl ?r"
    by (auto simp: cut_at_def split: if_splits)
  from c have ne: "?r \<noteq> []" by (simp add: dropWhile_eq_Nil_conv)
  then have "hd ?r = c" using hd_dropWhile by blast
  with ne ab have "?r = c # b" by (metis list.collapse)
  with ab(1) show ?thesis by (metis takeWhile_dropWhile_id)
qed

lemma inventory_path_parts:
  assumes "isKernelInventoryPath n"
  obtains v fl where "n = modules_dir @ v @ slash # fl" "v \<noteq> []" "slash \<notin> set fl" "fl \<in> set inventory_files"
proof -
  from assms obtain rest where r: "cut_prefix n modules_dir = Some rest"
    unfolding isKernelInventoryPath_def modules_dir_def by (auto split: option.splits)
  with assms obtain v fl where c: "cut_at slash rest = Some (v, fl)"
    unfolding isKernelInventoryPath_def modules_dir_def [symmetric] by (auto split: option.splits)
  from assms r c have "v \<noteq> [] \<and> slash \<notin> set fl \<and> fl \<in> set inventory_files"
    unfolding isKernelInventoryPath_def modules_dir_def [symmetric] by simp
  with that [of v fl] r cut_at_Some [OF c] show ?thesis by (auto simp: cut_prefix_Some)
qed

lemma set_map_filter: "y \<in> set (List.map_filter f xs) \<longleftrightarrow> (\<exists>x\<in>set xs. f x = Some y)"
  by (induction xs) (auto simp: map_filter_simps split: option.splits)

definition inventory_names :: "string smap \<Rightarrow> bool" where
  "inventory_names m \<longleftrightarrow> (\<forall>n\<in>fst ` set m. isKernelInventoryPath n)"

lemma inventory_update: "inventory_names m \<Longrightarrow> isKernelInventoryPath n \<Longrightarrow> inventory_names (AList.update n d m)"
  unfolding inventory_names_def using dom_update [of n d m] by simp

lemma scan_entry_names:
  "scan_entry e l = Some l1 \<Longrightarrow> inventory_names (li_files l) \<and> inventory_names (li_links l) \<Longrightarrow>
     inventory_names (li_files l1) \<and> inventory_names (li_links l1)"
  by (auto simp: scan_entry_def Let_def inventory_update split: option.splits if_splits tar_type.splits)

lemma link_files_names:
  "link_files r links files = Some files1 \<Longrightarrow> inventory_names files \<Longrightarrow> inventory_names links \<Longrightarrow> inventory_names files1"
proof (induction r links files rule: link_files.induct)
  case (1 r files)
  then show ?case by simp
next
  case (2 r name target links files)
  then obtain d where d: "map_of r target = Some d" "link_files r links (AList.update name d files) = Some files1"
    by (auto split: option.splits)
  from 2(4) have "isKernelInventoryPath name" "inventory_names links" by (simp_all add: inventory_names_def)
  with 2(1) [OF d(1,2)] inventory_update [OF 2(3), of name d] show ?case by blast
qed

lemma scanHardwareLayer_names:
  assumes "scanHardwareLayer blob = Some l"
  shows "inventory_names (li_files l)"
proof -
  from assms obtain l0 where l0: "visit_entries scan_entry (fst blob) empty_layer = Some l0"
    and l: "l = l0 \<or> (\<exists>r files. link_files r (li_links l0) (li_files l0) = Some files \<and> l = l0\<lparr>li_files := files\<rparr>)"
    by (auto simp: scanHardwareLayer_def walkLayerTar_def split: option.splits if_splits)
  have "inventory_names (li_files l0) \<and> inventory_names (li_links l0)"
    by (rule visit_entries_ok [OF scan_entry_names l0]) (simp_all add: empty_layer_def inventory_names_def)
  with l show ?thesis by (auto dest: link_files_names)
qed

lemma layer_of_names: "layer_of ol d = Some l \<Longrightarrow> inventory_names (li_files l)"
  by (auto simp: layer_of_def intro: scanHardwareLayer_names split: option.splits if_splits)

lemma visible_names:
  "\<forall>l\<in>set ls. inventory_names (li_files l) \<Longrightarrow> visible_file ls n \<noteq> None \<Longrightarrow> isKernelInventoryPath n"
proof (induction ls)
  case Nil
  then show ?case by simp
next
  case (Cons l ls)
  show ?case
  proof (cases "map_of (li_files l) n")
    case (Some d)
    then have "n \<in> fst ` set (li_files l)" by (force dest: map_of_SomeD)
    with Cons.prems(1) show ?thesis unfolding inventory_names_def by auto
  next
    case None
    with Cons show ?thesis by (auto split: if_splits)
  qed
qed

lemma inventory_dep:
  assumes "isKernelInventoryPath n" "has_suffix n ''/modules.dep''"
  shows "n = modules_dir @ trim_suffix (trim_prefix n modules_dir) ''/modules.dep'' @ ''/modules.dep''"
proof -
  from assms(1) obtain v fl where n: "n = modules_dir @ v @ slash # fl" "v \<noteq> []" "fl \<in> set inventory_files"
    by (rule inventory_path_parts)
  define rest where "rest = v @ slash # fl"
  have "11 \<le> length fl" using n(3) by (auto simp: inventory_files_def)
  then have "length ''/modules.dep'' \<le> length rest" using n(2) by (cases v) (simp_all add: rest_def)
  have n: "n = modules_dir @ rest" using n(1) by (simp add: rest_def)
  note \<open>length ''/modules.dep'' \<le> length rest\<close>
  moreover have "suffix ''/modules.dep'' (modules_dir @ rest)" using assms(2) n by (simp add: has_suffix_def)
  ultimately have "suffix ''/modules.dep'' rest" by (metis suffix_def suffix_length_suffix)
  then obtain v where "rest = v @ ''/modules.dep''" by (auto simp: suffix_def)
  then show ?thesis using n by (simp add: trim_suffix_def has_suffix_def suffix_def)
qed

definition dep_path :: "string \<Rightarrow> string" where
  "dep_path v = modules_dir @ v @ ''/modules.dep''"

lemma kernel_versions_in:
  assumes "v \<in> set (kernel_versions files)" "\<forall>n\<in>fst ` set files. isKernelInventoryPath n"
  shows "v \<noteq> [] \<and> slash \<notin> set v \<and> map_of files (dep_path v) \<noteq> None"
proof -
  from assms(1) obtain n d where n: "(n, d) \<in> set files" "has_suffix n ''/modules.dep''"
    and v: "v = trim_suffix (trim_prefix n modules_dir) ''/modules.dep''" "v \<noteq> []" "slash \<notin> set v"
    by (auto simp: kernel_versions_def set_map_filter Let_def split: if_splits)
  have "isKernelInventoryPath n" using n(1) assms(2) by force
  from inventory_dep [OF this n(2)] v have "n = dep_path v" by (simp add: dep_path_def)
  with n(1) v show ?thesis by (metis map_of_eq_None_iff fst_conv image_eqI)
qed

lemma kernel_versions_all:
  assumes "v \<noteq> []" "slash \<notin> set v" "map_of files (dep_path v) \<noteq> None"
  shows "v \<in> set (kernel_versions files)"
proof -
  from assms(3) obtain d where "(dep_path v, d) \<in> set files" by (auto dest: map_of_SomeD)
  moreover have "has_suffix (dep_path v) ''/modules.dep''" by (simp add: dep_path_def has_suffix_def suffix_def)
  moreover have "trim_suffix (trim_prefix (dep_path v) modules_dir) ''/modules.dep'' = v"
    unfolding dep_path_def by (metis trim_ends)
  ultimately show ?thesis using assms(1,2) by (auto simp: kernel_versions_def set_map_filter Let_def intro!: bexI)
qed

subsection \<open>The kernel of the merged image\<close>

definition layers_listed :: "oci_layout \<Rightarrow> oci_descriptor list \<Rightarrow> bool" where
  "layers_listed ol ds \<longleftrightarrow>
     (\<exists>m ms hex. ol_index ol = Inr (m # ms) \<and> ociBlobPath (od_digest m) = Some hex \<and> ol_manifest ol hex = Inr ds)"

definition shown_file :: "oci_layout \<Rightarrow> oci_descriptor list \<Rightarrow> string \<Rightarrow> string option" where
  "shown_file ol ds = visible_file (rev (layers_read ol ds))"

definition module_text :: "(string \<Rightarrow> string option) \<Rightarrow> string \<Rightarrow> string \<Rightarrow> string" where
  "module_text see version name = (case see (modules_dir @ version @ ''/'' @ name) of Some d \<Rightarrow> d | None \<Rightarrow> [])"

definition has_kernel :: "(string \<Rightarrow> string option) \<Rightarrow> string \<Rightarrow> bool" where
  "has_kernel see v \<longleftrightarrow> v \<noteq> [] \<and> slash \<notin> set v \<and> see (dep_path v) \<noteq> None"

lemma merged_files:
  "map_of (ov_files (fold applyHardwareLayer (layers_read ol ds) empty_overlay)) = shown_file ol ds"
  by (rule ext) (simp add: shown_file_def merged_visible layers_read_ok)

lemma shown_names: "shown_file ol ds n \<noteq> None \<Longrightarrow> isKernelInventoryPath n"
proof (unfold shown_file_def, rule visible_names)
  show "\<forall>l\<in>set (rev (layers_read ol ds)). inventory_names (li_files l)"
    by (auto simp: layers_read_def set_map_filter intro: layer_of_names)
qed

lemma merged_versions:
  fixes ol ds
  defines "files \<equiv> ov_files (fold applyHardwareLayer (layers_read ol ds) empty_overlay)"
  shows "v \<in> set (kernel_versions files) \<longleftrightarrow> has_kernel (shown_file ol ds) v"
proof -
  have m: "map_of files = shown_file ol ds" unfolding files_def by (rule merged_files)
  have "\<forall>n\<in>fst ` set files. isKernelInventoryPath n"
    using shown_names [of ol ds] by (metis m map_of_eq_None_iff)
  with kernel_versions_in [of v files] kernel_versions_all [of v files] show ?thesis
    unfolding has_kernel_def m by blast
qed

lemma inspect_parts:
  assumes "inspectOCIBundle ol = Inr k"
  obtains ds where "layers_listed ol ds"
    "targetKernelFromOverlay (fold applyHardwareLayer (layers_read ol ds) empty_overlay)
       (length (filter (\<lambda>d. layer_of ol d = None) ds)) = Some k"
  using assms
  by (auto simp: inspectOCIBundle_def merge_layers layers_listed_def split: sum.splits list.splits option.splits)

lemma layers_listed_unique: "layers_listed ol ds \<Longrightarrow> layers_listed ol ds' \<Longrightarrow> ds' = ds"
  by (auto simp: layers_listed_def)

lemma kernel_of_overlay:
  assumes "targetKernelFromOverlay ov n = Some k"
  shows "tk_skipped k = n \<and> kernel_versions (ov_files ov) \<noteq> [] \<and> tk_version k = newest_version (kernel_versions (ov_files ov)) \<and>
    tk_modules k = parseModuleList (module_text (map_of (ov_files ov)) (tk_version k) ''modules.dep'') \<and>
    tk_builtin k = parseModuleList (module_text (map_of (ov_files ov)) (tk_version k) ''modules.builtin'') \<and>
    tk_aliases k =
      parseModuleAliases (module_text (map_of (ov_files ov)) (tk_version k) ''modules.alias'') @
      parseModuleAliases (module_text (map_of (ov_files ov)) (tk_version k) ''modules.builtin.alias'') @
      parseBuiltinModinfo (module_text (map_of (ov_files ov)) (tk_version k) ''modules.builtin.modinfo'')"
  using assms by (auto simp: targetKernelFromOverlay_def Let_def module_text_def lookup_or_def split: if_splits)


text \<open>
  An unreadable layer makes the comparison advisory. When any layer of the image is missing,
  of another size than its descriptor says, or broken, the report on any PC blocks nothing.
\<close>

theorem unreadable_layer_never_blocks:
  assumes "inspectOCIBundle ol = Inr k" and "reorders order"
    and "layers_listed ol ds" "d \<in> set ds" "layer_of ol d = None"
  shows "\<not> hasBlocking (assessHardware order host k) \<and> blockingError (assessHardware order host k) = None"
proof -
  from assms(1) obtain ds' where ds: "layers_listed ol ds'"
    and k: "targetKernelFromOverlay (fold applyHardwareLayer (layers_read ol ds') empty_overlay)
      (length (filter (\<lambda>d. layer_of ol d = None) ds')) = Some k"
    by (rule inspect_parts)
  have "ds' = ds" using layers_listed_unique [OF assms(3) ds] .
  with assms(4,5) have "filter (\<lambda>d. layer_of ol d = None) ds' \<noteq> []" by (auto simp: filter_empty_conv)
  with kernel_of_overlay [OF k] have "incomplete host k" by (simp add: incomplete_def)
  then have b: "\<not> hasBlocking (assessHardware order host k)" using blocks_only_complete [OF assms(2)] by blast
  then have "filter (\<lambda>f. hf_severity f = HardwareBlocking) (hr_findings (assessHardware order host k)) = []"
    by (auto simp: hasBlocking_def list_ex_iff filter_empty_conv)
  with b show ?thesis by (simp add: blockingError_def)
qed

text \<open>
  The firmware names are not merged as precisely: a whiteout of a directory above
  \<open>usr/lib/firmware\<close> takes the module files away but leaves the firmware in the inventory.
\<close>

lemma ancestor_whiteout_keeps_firmware:
  "let l = empty_layer\<lparr>li_whiteouts := [\<lparr>wh_path = ''usr/lib'', wh_opaque = False\<rparr>]\<rparr>;
       ov = \<lparr>ov_files = [(''usr/lib/modules/6.1/modules.dep'', [])], ov_firmware = {''iwlwifi-8000.ucode''}\<rparr>
   in ov_files (applyHardwareLayer l ov) = [] \<and> ''iwlwifi-8000.ucode'' \<in> ov_firmware (applyHardwareLayer l ov)"
  by code_simp

end
