(* ===== verification/Pnp.thy ===== *)
theory Pnp
  imports Hardware "HOL-Library.AList"
begin

text \<open>
  Windows PnP records as Linux devices (\<open>app/pnp.go\<close>): the identifiers are matched as the
  code's regular expressions do, and a record becomes a device with a kernel modalias. Case
  folding is the ASCII one.
\<close>

record pnp_record =
  pn_id :: string
  pn_hardware :: "string list"
  pn_compatible :: "string list"
  pn_service :: string
  pn_name :: string
  pn_class :: string
  pn_manufacturer :: string
  pn_status :: string
  pn_error :: "32 word"

subsection \<open>The identifiers\<close>

text \<open>A literal, without regard to case, and a group of hexadecimal digits.\<close>

definition fold_prefix :: "string \<Rightarrow> string \<Rightarrow> string option" where
  "fold_prefix p s = (if equal_fold (take (length p) s) p then Some (drop (length p) s) else None)"

definition hex_field :: "nat \<Rightarrow> string \<Rightarrow> (string \<times> string) option" where
  "hex_field n s =
     (if length (take n s) = n \<and> list_all is_hex (take n s) then Some (take n s, drop n s) else None)"

definition field_after :: "string \<Rightarrow> nat \<Rightarrow> string \<Rightarrow> (string \<times> string) option" where
  "field_after p n s = (case fold_prefix p s of None \<Rightarrow> None | Some r \<Rightarrow> hex_field n r)"

text \<open>An optional group: what it captured, empty when it does not match.\<close>

definition optional_field :: "string \<Rightarrow> nat \<Rightarrow> string \<Rightarrow> string \<times> string" where
  "optional_field p n s = (case field_after p n s of Some r \<Rightarrow> r | None \<Rightarrow> ([], s))"

definition two_fields :: "string \<Rightarrow> string \<Rightarrow> string \<Rightarrow> nat \<Rightarrow> string \<Rightarrow> (string \<times> string \<times> string) option" where
  "two_fields first second third n s =
     (case field_after first 4 s of
        None \<Rightarrow> None
      | Some (a, r) \<Rightarrow>
          (case field_after second 4 r of
             None \<Rightarrow> None
           | Some (b, r1) \<Rightarrow> Some (a, b, fst (optional_field third n r1))))"

definition backslashed :: "string \<Rightarrow> string \<Rightarrow> string" where
  "backslashed a b = a @ [backslash] @ b"

definition pciDeviceIDPattern :: "string \<Rightarrow> (string \<times> string \<times> string) option" where
  "pciDeviceIDPattern = two_fields (backslashed ''PCI'' ''VEN_'') ''&DEV_'' ''&SUBSYS_'' 8"

definition usbDeviceIDPattern :: "string \<Rightarrow> (string \<times> string \<times> string) option" where
  "usbDeviceIDPattern = two_fields (backslashed ''USB'' ''VID_'') ''&PID_'' ''&REV_'' 4"

definition usbClassPattern :: "string \<Rightarrow> (string \<times> string \<times> string) option" where
  "usbClassPattern s =
     (case field_after (backslashed ''USB'' ''CLASS_'') 2 s of
        None \<Rightarrow> None
      | Some (c, r) \<Rightarrow>
          (let (sub, r1) = optional_field ''&SUBCLASS_'' 2 r
           in Some (c, sub, fst (optional_field ''&PROT_'' 2 r1))))"

text \<open>The two patterns that match anywhere: at the leftmost position that a separator precedes.\<close>

definition field_ends :: "string \<Rightarrow> bool" where
  "field_ends s \<longleftrightarrow> (case s of [] \<Rightarrow> True | c # _ \<Rightarrow> c = CHR ''&'' \<or> c = backslash)"

fun search_field :: "(char \<Rightarrow> bool) \<Rightarrow> (string \<Rightarrow> 'a option) \<Rightarrow> bool \<Rightarrow> string \<Rightarrow> 'a option" where
  "search_field sep here start [] = (if start then here [] else None)"
| "search_field sep here start (c # s) =
     (case (if start then here (c # s) else None) of
        Some m \<Rightarrow> Some m
      | None \<Rightarrow> search_field sep here (sep c) s)"

definition class_here :: "string \<Rightarrow> (string \<times> string) option" where
  "class_here s =
     (case field_after ''CC_'' 4 s of
        None \<Rightarrow> None
      | Some (c, r) \<Rightarrow>
          (case hex_field 2 r of
             Some (i, r1) \<Rightarrow> if field_ends r1 then Some (c, i) else if field_ends r then Some (c, []) else None
           | None \<Rightarrow> if field_ends r then Some (c, []) else None))"

definition pciClassPattern :: "string \<Rightarrow> (string \<times> string) option" where
  "pciClassPattern = search_field (\<lambda>c. c = CHR ''&'' \<or> c = backslash) class_here True"

definition interface_here :: "string \<Rightarrow> string option" where
  "interface_here s =
     (case field_after ''MI_'' 2 s of
        None \<Rightarrow> None
      | Some (i, r) \<Rightarrow> if field_ends r then Some i else None)"

definition usbInterfacePattern :: "string \<Rightarrow> string option" where
  "usbInterfacePattern = search_field (\<lambda>c. c = CHR ''&'') interface_here True"

text \<open>The first identifier that matches.\<close>

fun first_match :: "(string \<Rightarrow> 'a option) \<Rightarrow> string list \<Rightarrow> 'a option" where
  "first_match p [] = None"
| "first_match p (i # is) = (case p (trim_space i) of Some m \<Rightarrow> Some m | None \<Rightarrow> first_match p is)"

subsection \<open>Devices\<close>

definition pciClassFromPnPClass :: "string \<Rightarrow> string" where
  "pciClassFromPnPClass cls =
     (let c = to_lower (trim_space cls) in
      if c = ''scsiadapter'' \<or> c = ''hdc'' then ''0100''
      else if c = ''net'' then ''0200''
      else if c = ''display'' then ''0300''
      else if c = ''media'' then ''0400''
      else if c = ''usb'' then ''0C03''
      else [])"

definition windowsModuleHint :: "pnp_record \<Rightarrow> bool \<Rightarrow> string \<times> bool" where
  "windowsModuleHint r display =
     (if contains_str (to_lower (pn_service r)) ''nvlddmkm'' \<or>
         (display \<and> contains_str (to_lower (pn_manufacturer r)) ''nvidia'')
      then (''nvidia'', True) else ([], False))"

definition or_zeros :: "string \<Rightarrow> string \<Rightarrow> string" where
  "or_zeros zeros s = (if s = [] then zeros else to_upper s)"

definition hex_number :: "string \<Rightarrow> int" where
  "hex_number s = fold (\<lambda>c v. 16 * v + int (hex_val c)) s 0"

definition pnp_label :: "pnp_record \<Rightarrow> string" where
  "pnp_label r = (if pn_name r = [] then pn_id r else pn_name r)"

definition pci_class :: "pnp_record \<Rightarrow> string list \<Rightarrow> string \<times> string" where
  "pci_class r ids =
     (case first_match pciClassPattern ids of
        Some (c, i) \<Rightarrow> (to_upper c, or_zeros ''00'' i)
      | None \<Rightarrow> (pciClassFromPnPClass (pn_class r), ''00''))"

definition pciHostDevice :: "pnp_record \<Rightarrow> string list \<Rightarrow> string \<times> string \<times> string \<Rightarrow> host_device option" where
  "pciHostDevice r ids match =
     (let (cls, iface) = pci_class r ids; (vendor, device, subsystem) = match in
      if length cls \<noteq> 4 then None
      else
        (let c = word_of_int (hex_number (cls @ iface)) :: 32 word;
             sub = or_zeros ''00000000'' subsystem;
             (m, oot) = windowsModuleHint r (is_display c)
         in Some \<lparr>hd_bus = ''pci'', hd_id = pnp_label r,
              hd_modalias = ''pci:v0000'' @ to_upper vendor @ ''d0000'' @ to_upper device @
                ''sv0000'' @ drop 4 sub @ ''sd0000'' @ take 4 sub @
                ''bc'' @ take 2 cls @ ''sc'' @ drop 2 cls @ ''i'' @ iface,
              hd_module = m, hd_known = (m \<noteq> []), hd_class = Some c, hd_out_of_tree = oot\<rparr>))"

definition usb_revision :: "string list \<Rightarrow> string" where
  "usb_revision ids =
     fold (\<lambda>i rev. case usbDeviceIDPattern (trim_space i) of
         Some (v, p, r) \<Rightarrow> if r \<noteq> [] then to_upper r else rev | None \<Rightarrow> rev) ids ''0000''"

definition usb_interface :: "string list \<Rightarrow> string option" where
  "usb_interface ids =
     fold (\<lambda>i n. case usbInterfacePattern (trim_space i) of Some m \<Rightarrow> Some (to_upper m) | None \<Rightarrow> n) ids None"

definition usbHostDevice :: "pnp_record \<Rightarrow> string list \<Rightarrow> string \<times> string \<times> string \<Rightarrow> host_device option" where
  "usbHostDevice r ids match =
     (let (vendor, product, first_revision) = match in
      if list_ex (\<lambda>i. equal_fold (trim_space i) (backslashed ''USB'' ''COMPOSITE'')) ids then None
      else
        (let interface = usb_interface ids;
             zeros = (''00'', ''00'', ''00'');
             classes = (case first_match usbClassPattern ids of
                 Some (c, sub, prot) \<Rightarrow> Some (to_upper c, or_zeros ''00'' sub, or_zeros ''00'' prot) | None \<Rightarrow> None);
             ifc = (case classes of Some x \<Rightarrow> x | None \<Rightarrow> zeros);
             dev = (if interface = None then ifc else zeros);
             (m, oot) = windowsModuleHint r False
         in if fst ifc = ''09'' then None
            else Some \<lparr>hd_bus = ''usb'', hd_id = pnp_label r,
              hd_modalias = ''usb:v'' @ to_upper vendor @ ''p'' @ to_upper product @ ''d'' @ usb_revision ids @
                ''dc'' @ fst dev @ ''dsc'' @ fst (snd dev) @ ''dp'' @ snd (snd dev) @
                ''ic'' @ fst ifc @ ''isc'' @ fst (snd ifc) @ ''ip'' @ snd (snd ifc) @
                ''in'' @ (case interface of Some n \<Rightarrow> n | None \<Rightarrow> ''00''),
              hd_module = m, hd_known = (m \<noteq> []), hd_class = None, hd_out_of_tree = oot\<rparr>))"

definition record_ids :: "pnp_record \<Rightarrow> string list" where
  "record_ids r = pn_id r # pn_hardware r @ pn_compatible r"

definition pnpDeviceToHost :: "pnp_record \<Rightarrow> host_device option" where
  "pnpDeviceToHost r =
     (case first_match pciDeviceIDPattern (record_ids r) of
        Some m \<Rightarrow> pciHostDevice r (record_ids r) m
      | None \<Rightarrow>
          (case first_match usbDeviceIDPattern (record_ids r) of
             Some m \<Rightarrow> usbHostDevice r (record_ids r) m
           | None \<Rightarrow> None))"

definition working :: "pnp_record \<Rightarrow> bool" where
  "working r \<longleftrightarrow> pn_error r = 0 \<and> (pn_status r = [] \<or> equal_fold (pn_status r) ''OK'')"

definition device_key :: "host_device \<Rightarrow> string \<times> string" where
  "device_key d = (hd_bus d, hd_modalias d)"

definition add_record :: "pnp_record \<Rightarrow> host_hardware \<Rightarrow> host_hardware" where
  "add_record r host =
     (if \<not> working r then host
      else (case pnpDeviceToHost r of
              None \<Rightarrow> host
            | Some d \<Rightarrow>
                if device_key d \<in> device_key ` set (hh_devices host) then host
                else (let host1 = host\<lparr>hh_devices := hh_devices host @ [d]\<rparr>
                      in if hd_module d = [] then host1
                         else host1\<lparr>hh_modules := AList.update (normalizeModule (hd_module d))
                                \<lparr>hm_out_of_tree = hd_out_of_tree d, hm_firmware = []\<rparr> (hh_modules host1)\<rparr>)))"

definition hostHardwareFromPnP :: "pnp_record list \<Rightarrow> bool \<Rightarrow> string \<Rightarrow> host_hardware" where
  "hostHardwareFromPnP records whole why =
     fold add_record records
       \<lparr>hh_devices = [], hh_modules = [], hh_cpu = [], hh_microcode = False, hh_complete = whole,
        hh_incomplete_why = why\<rparr>"

subsection \<open>The inventory\<close>

text \<open>
  What the inventory holds: devices of working records only, no two with the same bus and
  modalias, and a module entry for exactly the modules the devices name.
\<close>

definition inventory_inv :: "pnp_record list \<Rightarrow> host_hardware \<Rightarrow> bool" where
  "inventory_inv rs host \<longleftrightarrow>
     distinct (map device_key (hh_devices host)) \<and>
     (\<forall>d\<in>set (hh_devices host). \<exists>r\<in>set rs. working r \<and> pnpDeviceToHost r = Some d) \<and>
     (\<forall>r\<in>set rs. \<forall>d. working r \<longrightarrow> pnpDeviceToHost r = Some d \<longrightarrow>
        device_key d \<in> device_key ` set (hh_devices host)) \<and>
     fst ` set (hh_modules host) = {normalizeModule (hd_module d) | d. d \<in> set (hh_devices host) \<and> hd_module d \<noteq> []}"

lemma add_record_skip:
  assumes "inventory_inv rs host" "\<And>d. working r \<Longrightarrow> pnpDeviceToHost r = Some d \<Longrightarrow> device_key d \<in> device_key ` set (hh_devices host)"
  shows "inventory_inv (rs @ [r]) host"
  using assms by (auto simp: inventory_inv_def)

definition admit_device :: "host_device \<Rightarrow> host_hardware \<Rightarrow> host_hardware" where
  "admit_device d host =
     host\<lparr>hh_devices := hh_devices host @ [d],
       hh_modules := (if hd_module d = [] then hh_modules host
         else AList.update (normalizeModule (hd_module d)) \<lparr>hm_out_of_tree = hd_out_of_tree d, hm_firmware = []\<rparr> (hh_modules host))\<rparr>"

lemma add_record_new:
  assumes inv: "inventory_inv rs host" and r: "working r" "pnpDeviceToHost r = Some d"
    and new: "device_key d \<notin> device_key ` set (hh_devices host)"
  shows "inventory_inv (rs @ [r]) (admit_device d host)"
proof -
  let ?h = "admit_device d host"
  have devs: "hh_devices ?h = hh_devices host @ [d]" by (simp add: admit_device_def)
  have "fst ` set (hh_modules ?h) =
      (if hd_module d = [] then {} else {normalizeModule (hd_module d)}) \<union> fst ` set (hh_modules host)"
    by (simp add: admit_device_def dom_update)
  moreover have "fst ` set (hh_modules host) = {normalizeModule (hd_module d) | d. d \<in> set (hh_devices host) \<and> hd_module d \<noteq> []}"
    using inv by (simp add: inventory_inv_def)
  ultimately have "fst ` set (hh_modules ?h) = {normalizeModule (hd_module d) | d. d \<in> set (hh_devices ?h) \<and> hd_module d \<noteq> []}"
    by (auto simp: devs)
  moreover have "distinct (map device_key (hh_devices ?h))"
    using inv new by (simp add: devs inventory_inv_def)
  moreover have "\<exists>r'\<in>set (rs @ [r]). working r' \<and> pnpDeviceToHost r' = Some x" if "x \<in> set (hh_devices ?h)" for x
    using that inv r by (auto simp: devs inventory_inv_def)
  moreover have "device_key x \<in> device_key ` set (hh_devices ?h)"
    if "r' \<in> set (rs @ [r])" "working r'" "pnpDeviceToHost r' = Some x" for r' x
    using that inv r by (auto simp: devs inventory_inv_def)
  ultimately show ?thesis unfolding inventory_inv_def by blast
qed

lemma add_record_cases:
  "add_record r host =
     (case pnpDeviceToHost r of
        Some d \<Rightarrow> if working r \<and> device_key d \<notin> device_key ` set (hh_devices host) then admit_device d host else host
      | None \<Rightarrow> host)"
  by (simp add: add_record_def admit_device_def Let_def split: option.splits)

lemma add_record_inv:
  assumes "inventory_inv rs host"
  shows "inventory_inv (rs @ [r]) (add_record r host)"
proof (cases "pnpDeviceToHost r")
  case None
  then have "add_record r host = host" by (simp add: add_record_cases)
  moreover have "inventory_inv (rs @ [r]) host" using None by (intro add_record_skip [OF assms]) simp
  ultimately show ?thesis by simp
next
  case (Some d)
  show ?thesis
  proof (cases "working r \<and> device_key d \<notin> device_key ` set (hh_devices host)")
    case True
    then show ?thesis using add_record_new [OF assms _ Some] Some by (simp add: add_record_cases)
  next
    case False
    then have "add_record r host = host" using Some by (auto simp: add_record_cases)
    with False Some show ?thesis by (auto intro: add_record_skip [OF assms])
  qed
qed

lemma add_records_inv: "inventory_inv rs host \<Longrightarrow> inventory_inv (rs @ records) (fold add_record records host)"
proof (induction records arbitrary: rs host)
  case Nil
  then show ?case by simp
next
  case (Cons r records)
  from Cons.IH [OF add_record_inv [OF Cons.prems]] show ?case by simp
qed

lemma add_records_complete: "hh_complete (fold add_record records host) = hh_complete host"
  by (induction records arbitrary: host) (simp_all add: add_record_cases admit_device_def split: option.splits)

text \<open>
  The inventory of the PC. Whatever records Windows reports, the inventory lists exactly one
  device for every bus and modalias of a working record, and names
  exactly the modules of its devices; it is complete exactly when the query was.
\<close>

theorem pnp_inventory:
  "inventory_inv records (hostHardwareFromPnP records whole why) \<and>
   hh_complete (hostHardwareFromPnP records whole why) = whole"
proof -
  let ?h = "\<lparr>hh_devices = [], hh_modules = [], hh_cpu = [], hh_microcode = False, hh_complete = whole, hh_incomplete_why = why\<rparr>"
  have "inventory_inv [] ?h" by (simp add: inventory_inv_def)
  from add_records_inv [OF this, of records] show ?thesis
    by (simp add: hostHardwareFromPnP_def add_records_complete)
qed

end
