(* ===== verification/Hardware_Witness.thy ===== *)
theory Hardware_Witness
  imports Target_Image_Props Pnp
begin

text \<open>
  A PC with an NVIDIA display and a network controller before an image whose kernel knows neither,
  from the Windows records and the layers to the report; evaluated for the witnesses of the
  hardware comparison.
\<close>

definition sample_records :: "pnp_record list" where
  "sample_records =
     [\<lparr>pn_id = backslashed ''PCI'' ''VEN_10DE&DEV_1C03&SUBSYS_85AC1043&REV_A1'', pn_hardware = [backslashed ''PCI'' ''VEN_10DE&DEV_1C03&CC_030000''],
       pn_compatible = [], pn_service = ''nvlddmkm'', pn_name = ''GeForce'', pn_class = ''Display'', pn_manufacturer = ''NVIDIA'',
       pn_status = ''OK'', pn_error = 0\<rparr>,
      \<lparr>pn_id = backslashed ''PCI'' ''VEN_14C3&DEV_7961'', pn_hardware = [backslashed ''PCI'' ''VEN_14C3&DEV_7961&CC_0280''],
       pn_compatible = [], pn_service = ''mtkwl'', pn_name = ''Wi-Fi'', pn_class = ''Net'', pn_manufacturer = ''MediaTek'',
       pn_status = ''OK'', pn_error = 0\<rparr>]"

definition sample_host_hardware :: host_hardware where
  "sample_host_hardware = hostHardwareFromPnP sample_records True []"

definition sample_kernel :: "nat \<Rightarrow> target_kernel" where
  "sample_kernel skipped =
     \<lparr>tk_version = ''6.12.9'', tk_modules = {''ext4''}, tk_builtin = {''simpledrm''},
      tk_aliases = [Alias ''pci:v0000168Cd*sv*sd*bc02sc80i*'' ''ath9k''], tk_firmware = {}, tk_skipped = skipped\<rparr>"

lemma sample_devices:
  "map hd_modalias (hh_devices sample_host_hardware) =
     [''pci:v000010DEd00001C03sv00001043sd000085ACbc03sc00i00'', ''pci:v000014C3d00007961sv00000000sd00000000bc02sc80i00'']"
  by code_simp

lemma sample_report:
  "map hf_severity (hr_findings (assessHardware (\<lambda>l. l) sample_host_hardware (sample_kernel 0))) =
     [HardwareBlocking, HardwareWarning]"
  by code_simp

lemma reorders_id: "reorders (\<lambda>l. l)" and reorders_rev: "reorders rev"
  by (simp_all add: reorders_def)

text \<open>Two modules and two groups of lost devices, ranged over in both orders.\<close>

definition two_modules :: "host_module smap" where
  "two_modules =
     [(''nvidia'', \<lparr>hm_out_of_tree = True, hm_firmware = []\<rparr>), (''ext4'', \<lparr>hm_out_of_tree = False, hm_firmware = [''a.bin'']\<rparr>)]"

lemma report_order_independent_witness:
  "assessHardware rev (sample_host_hardware\<lparr>hh_modules := rev two_modules\<rparr>) (sample_kernel 0) =
     assessHardware (\<lambda>l. l) (sample_host_hardware\<lparr>hh_modules := two_modules\<rparr>) (sample_kernel 0) \<and>
   rev two_modules \<noteq> two_modules"
  using report_order_independent [OF reorders_id reorders_rev, of "rev two_modules"
      "sample_host_hardware\<lparr>hh_modules := two_modules\<rparr>" "sample_kernel 0"]
  by (simp add: two_modules_def)

lemma hardware_blocks_exactly_witness:
  "(\<exists>d\<in>set (hh_devices sample_host_hardware). blocks_device sample_host_hardware (sample_kernel 0) d) \<and>
   \<not> hasBlocking (assessHardware (\<lambda>l. l) sample_host_hardware (sample_kernel 1))"
proof -
  have b: "hasBlocking (assessHardware (\<lambda>l. l) sample_host_hardware (sample_kernel 0))" by code_simp
  have m: "\<not> (\<exists>e\<in>set (hh_modules sample_host_hardware). blocks_module sample_host_hardware (sample_kernel 0) e)"
    by code_simp
  have "incomplete sample_host_hardware (sample_kernel 1)" by (simp add: incomplete_def sample_kernel_def)
  with b m hardware_blocks_exactly [OF reorders_id, of sample_host_hardware "sample_kernel 0"]
    hardware_blocks_exactly [OF reorders_id, of sample_host_hardware "sample_kernel 1"]
  show ?thesis by blast
qed

text \<open>An image of three layers; the last has another size than its descriptor says.\<close>

definition sample_digest :: "string \<Rightarrow> string" where
  "sample_digest c = ''sha256:'' @ concat (replicate 64 c)"

definition tar_file :: "string \<Rightarrow> string \<Rightarrow> tar_entry" where
  "tar_file name d = \<lparr>te_name = name, te_type = TarRegular, te_link = [], te_data = Some d\<rparr>"

definition sample_blob :: "string \<Rightarrow> (int \<times> tar_stream) option" where
  "sample_blob hex =
     (if hex = concat (replicate 64 ''a'')
      then Some (100, [tar_file ''./usr/lib/modules/6.9.1/modules.dep'' ''kernel/a.ko:'',
        tar_file ''./usr/lib/modules/6.12.9/modules.dep'' ''kernel/fs/ext4.ko.xz:'',
        tar_file ''./usr/lib/modules/6.12.9/modules.alias'' ''alias pci:v* r8169''], True)
      else if hex = concat (replicate 64 ''b'')
      then Some (50, [tar_file ''usr/lib/modules/.wh.6.9.1'' []], True)
      else Some (7, [], True))"

definition sample_descriptor :: "string \<Rightarrow> int \<Rightarrow> oci_descriptor" where
  "sample_descriptor c n = \<lparr>od_digest = sample_digest c, od_size = n\<rparr>"

definition sample_layers :: "oci_descriptor list" where
  "sample_layers = [sample_descriptor ''a'' 100, sample_descriptor ''b'' 50, sample_descriptor ''c'' 8]"

definition sample_layout :: oci_layout where
  "sample_layout =
     \<lparr>ol_index = Inr [sample_descriptor ''d'' 10], ol_manifest = (\<lambda>hex. Inr sample_layers), ol_blob = sample_blob\<rparr>"

definition sample_target :: target_kernel where
  "sample_target =
     \<lparr>tk_version = ''6.12.9'', tk_modules = {''ext4''}, tk_builtin = {}, tk_aliases = [Alias ''pci:v*'' ''r8169''],
      tk_firmware = {}, tk_skipped = 1\<rparr>"

lemma sample_inspected: "inspectOCIBundle sample_layout = Inr sample_target"
  by code_simp

lemma sample_listed: "layers_listed sample_layout sample_layers"
proof -
  have "ociBlobPath (od_digest (sample_descriptor ''d'' 10)) = Some (concat (replicate 64 ''d''))" by code_simp
  then show ?thesis by (auto simp: layers_listed_def sample_layout_def)
qed

lemma sample_unreadable: "layer_of sample_layout (sample_descriptor ''c'' 8) = None"
  by code_simp


lemma unreadable_layer_never_blocks_witness:
  "blockingError (assessHardware (\<lambda>l. l) sample_host_hardware sample_target) = None"
  using unreadable_layer_never_blocks [OF sample_inspected reorders_id sample_listed _ sample_unreadable, of sample_host_hardware]
  by (simp add: sample_layers_def)

end
