(* ===== verification/Json_Objects.thy ===== *)
theory Json_Objects
  imports Json_Strict_Props "HOL-Library.AList"
begin

text \<open>
  JSON objects without ambiguous keys (\<open>decodeQMPObject\<close> and \<open>qmpJSONValue\<close> in
  \<open>app/vm_qmp.go\<close>), and \<open>json.Unmarshal\<close> of their fields into the fields of a struct. The
  walker refuses a key that repeats another one of the same object up to the case of its ASCII
  letters, at any depth, and a nesting deeper than 32. It is followed with fuel, one unit for
  each call; twice the number of tokens is enough for any stream.
\<close>

datatype qmp_error =
  NestingLimit | JsonSyntax | DuplicateField | TrailingJson | ObjectRequired | WalkerFuel

fun qmpJSONValue :: "nat \<Rightarrow> nat \<Rightarrow> json_token list \<Rightarrow> qmp_error + json_token list"
  and qmp_items :: "nat \<Rightarrow> nat \<Rightarrow> json_token list \<Rightarrow> qmp_error + json_token list"
  and qmp_members :: "nat \<Rightarrow> nat \<Rightarrow> string list \<Rightarrow> json_token list \<Rightarrow> qmp_error + json_token list" where
  "qmpJSONValue 0 depth ts = Inl WalkerFuel"
| "qmpJSONValue (Suc n) depth ts =
     (if 32 < depth then Inl NestingLimit
      else (case ts of
              [] \<Rightarrow> Inl JsonSyntax
            | t # r \<Rightarrow>
                if t = ObjOpen then qmp_members n depth [] r
                else if t = ArrOpen then qmp_items n depth r
                else if t \<in> {ObjClose, ArrClose, BadToken} then Inl JsonSyntax
                else Inr r))"
| "qmp_items 0 depth ts = Inl WalkerFuel"
| "qmp_items (Suc n) depth ts =
     (if \<not> has_more ts
      then (case expect ArrClose ts of None \<Rightarrow> Inl JsonSyntax | Some r \<Rightarrow> Inr r)
      else (case qmpJSONValue n (depth + 1) ts of
              Inl e \<Rightarrow> Inl e
            | Inr r \<Rightarrow> qmp_items n depth r))"
| "qmp_members 0 depth seen ts = Inl WalkerFuel"
| "qmp_members (Suc n) depth seen ts =
     (if \<not> has_more ts
      then (case expect ObjClose ts of None \<Rightarrow> Inl JsonSyntax | Some r \<Rightarrow> Inr r)
      else (case take_key ts of
              None \<Rightarrow> Inl DuplicateField
            | Some (key, r) \<Rightarrow>
                if to_lower key \<in> set seen then Inl DuplicateField
                else (case qmpJSONValue n (depth + 1) r of
                        Inl e \<Rightarrow> Inl e
                      | Inr r1 \<Rightarrow> qmp_members n depth (to_lower key # seen) r1)))"

text \<open>Null decodes into a nil map, which is refused like any other value that is no object.\<close>

definition decodeQMPObject :: "json_token list \<Rightarrow> qmp_error + (string \<times> json) list" where
  "decodeQMPObject ts =
     (case qmpJSONValue (2 * length ts + 1) 0 ts of
        Inl e \<Rightarrow> Inl e
      | Inr r \<Rightarrow>
          if r \<noteq> [] then Inl TrailingJson
          else (case read_value (length ts) ts of
                  Some (JObj ms, _) \<Rightarrow> Inr ms
                | _ \<Rightarrow> Inl ObjectRequired))"

subsection \<open>Decoding into a struct\<close>

text \<open>
  The values that \<open>json.Unmarshal\<close> finds for a field: of every key equal to the field's name up
  to case, in order. Null leaves the field alone, another type than the field's is an error;
  of several values the last wins.
\<close>

definition field_values :: "(string \<times> json) list \<Rightarrow> string \<Rightarrow> json list" where
  "field_values ms name = map snd (filter (\<lambda>m. equal_fold (fst m) name) ms)"

fun last_text :: "string \<Rightarrow> json list \<Rightarrow> string option" where
  "last_text s [] = Some s"
| "last_text s (JStr t # vs) = last_text t vs"
| "last_text s (JNull # vs) = last_text s vs"
| "last_text s (v # vs) = None"

fun last_bool :: "bool \<Rightarrow> json list \<Rightarrow> bool option" where
  "last_bool b [] = Some b"
| "last_bool b (JBool c # vs) = last_bool c vs"
| "last_bool b (JNull # vs) = last_bool b vs"
| "last_bool b (v # vs) = None"

fun last_int :: "int \<Rightarrow> json list \<Rightarrow> int option" where
  "last_int i [] = Some i"
| "last_int i (JNum s # vs) = (case json_int s of None \<Rightarrow> None | Some j \<Rightarrow> last_int j vs)"
| "last_int i (JNull # vs) = last_int i vs"
| "last_int i (v # vs) = None"

definition unmarshal_text :: "(string \<times> json) list \<Rightarrow> string \<Rightarrow> string option" where
  "unmarshal_text ms name = last_text [] (field_values ms name)"

definition unmarshal_bool :: "(string \<times> json) list \<Rightarrow> string \<Rightarrow> bool option" where
  "unmarshal_bool ms name = last_bool False (field_values ms name)"

definition unmarshal_int :: "(string \<times> json) list \<Rightarrow> string \<Rightarrow> int option" where
  "unmarshal_int ms name = last_int 0 (field_values ms name)"

text \<open>A field that is a slice: nil when absent or null, else the items, undecoded.\<close>

fun last_items :: "json list option \<Rightarrow> json list \<Rightarrow> json list option option" where
  "last_items xs [] = Some xs"
| "last_items xs (JArr ys # vs) = last_items (Some ys) vs"
| "last_items xs (JNull # vs) = last_items None vs"
| "last_items xs (v # vs) = None"

definition unmarshal_items :: "(string \<times> json) list \<Rightarrow> string \<Rightarrow> json list option option" where
  "unmarshal_items ms name = last_items None (field_values ms name)"

text \<open>
  A field of type \<open>map[string]string\<close>. Null items of it are empty strings.
\<close>

fun text_entries :: "(string \<times> json) list \<Rightarrow> string smap \<Rightarrow> string smap option" where
  "text_entries [] acc = Some acc"
| "text_entries ((k, JStr s) # ms) acc = text_entries ms (AList.update k s acc)"
| "text_entries ((k, JNull) # ms) acc = text_entries ms (AList.update k [] acc)"
| "text_entries (m # ms) acc = None"

fun last_texts :: "string smap \<Rightarrow> json list \<Rightarrow> string smap option" where
  "last_texts acc [] = Some acc"
| "last_texts acc (JObj ms # vs) = (case text_entries ms acc of None \<Rightarrow> None | Some acc1 \<Rightarrow> last_texts acc1 vs)"
| "last_texts acc (JNull # vs) = last_texts [] vs"
| "last_texts acc (v # vs) = None"

definition unmarshal_texts :: "(string \<times> json) list \<Rightarrow> string \<Rightarrow> string smap option" where
  "unmarshal_texts ms name = last_texts [] (field_values ms name)"

definition only_fields :: "string list \<Rightarrow> (string \<times> json) list \<Rightarrow> bool" where
  "only_fields names ms \<longleftrightarrow> list_all (\<lambda>m. list_ex (equal_fold (fst m)) names) ms"

text \<open>The raw value of a key, as tokens: none when the key is absent.\<close>

definition raw_field :: "(string \<times> json) list \<Rightarrow> string \<Rightarrow> json_token list" where
  "raw_field ms name = (case map_of ms name of None \<Rightarrow> [] | Some v \<Rightarrow> json_tokens v)"

subsection \<open>What the walker accepts\<close>

fun unambiguous :: "nat \<Rightarrow> json \<Rightarrow> bool" where
  "unambiguous depth (JArr vs) \<longleftrightarrow> depth \<le> 32 \<and> (\<forall>v\<in>set vs. unambiguous (depth + 1) v)"
| "unambiguous depth (JObj ms) \<longleftrightarrow>
     depth \<le> 32 \<and> distinct (map (\<lambda>m. to_lower (fst m)) ms) \<and> (\<forall>m\<in>set ms. unambiguous (depth + 1) (snd m))"
| "unambiguous depth v \<longleftrightarrow> depth \<le> 32"

lemma walk_sound:
  "qmpJSONValue n d ts = Inr r \<Longrightarrow> \<exists>v. ts = json_tokens v @ r \<and> unambiguous d v"
  "qmp_items n d ts = Inr r \<Longrightarrow>
     \<exists>vs. ts = items_tokens vs @ ArrClose # r \<and> (\<forall>v\<in>set vs. unambiguous (d + 1) v)"
  "qmp_members n d seen ts = Inr r \<Longrightarrow>
     \<exists>ms. ts = members_tokens ms @ ObjClose # r \<and> distinct (map (\<lambda>m. to_lower (fst m)) ms) \<and>
       set (map (\<lambda>m. to_lower (fst m)) ms) \<inter> set seen = {} \<and> (\<forall>m\<in>set ms. unambiguous (d + 1) (snd m))"
proof (induction n d ts and n d ts and n d seen ts arbitrary: r and r and r
    rule: qmpJSONValue_qmp_items_qmp_members.induct)
  case (2 n d ts)
  note items = 2(2)
  from 2(3) obtain t ts1 where ts: "ts = t # ts1" and d: "d \<le> 32" by (auto split: if_splits list.splits)
  consider "t = ObjOpen" | "t = ArrOpen" | "t \<noteq> ObjOpen" "t \<noteq> ArrOpen" by blast
  then show ?case
  proof cases
    case 1
    with 2(3) ts d have "qmp_members n d [] ts1 = Inr r" by simp
    with 2(1) [of t ts1 r] ts d 1 obtain ms where
      "ts1 = members_tokens ms @ ObjClose # r" "distinct (map (\<lambda>m. to_lower (fst m)) ms)"
      "\<forall>m\<in>set ms. unambiguous (d + 1) (snd m)" by auto
    with ts 1 d show ?thesis by (intro exI [of _ "JObj ms"]) simp
  next
    case 2
    with \<open>qmpJSONValue (Suc n) d ts = Inr r\<close> ts d have "qmp_items n d ts1 = Inr r" by simp
    with items [of t ts1 r] ts d 2 obtain vs where
      "ts1 = items_tokens vs @ ArrClose # r" "\<forall>v\<in>set vs. unambiguous (d + 1) v" by auto
    with ts 2 d show ?thesis by (intro exI [of _ "JArr vs"]) simp
  next
    case 3
    with \<open>qmpJSONValue (Suc n) d ts = Inr r\<close> ts d have "scalar t \<noteq> None \<and> ts1 = r"
      by (cases t) (auto simp: scalar_def)
    then obtain v where v: "scalar t = Some v" and "ts1 = r" by auto
    moreover have "unambiguous d v" using v d by (cases t) (auto simp: scalar_def)
    ultimately show ?thesis using ts scalar_tokens [OF v] by (intro exI [of _ v]) simp
  qed
next
  case (4 n d ts)
  show ?case
  proof (cases "has_more ts")
    case False
    with 4(3) show ?thesis by (intro exI [of _ "[]"]) (auto split: option.splits)
  next
    case True
    with 4(3) obtain r1 where w: "qmpJSONValue n (d + 1) ts = Inr r1" "qmp_items n d r1 = Inr r"
      by (auto split: sum.splits)
    from 4(1) [of r1] 4(2) [of r1 r] True w obtain v vs where
      "ts = json_tokens v @ items_tokens vs @ ArrClose # r" "unambiguous (d + 1) v" "\<forall>v\<in>set vs. unambiguous (d + 1) v"
      by auto
    then show ?thesis by (intro exI [of _ "v # vs"]) simp
  qed
next
  case (6 n d seen ts)
  show ?case
  proof (cases "has_more ts")
    case False
    with 6(3) show ?thesis by (intro exI [of _ "[]"]) (auto split: option.splits)
  next
    case True
    with 6(3) obtain k r0 r1 where w: "ts = StrToken k # r0" "to_lower k \<notin> set seen"
      "qmpJSONValue n (d + 1) r0 = Inr r1" "qmp_members n d (to_lower k # seen) r1 = Inr r"
      by (auto split: sum.splits option.splits if_splits)
    from 6(1) [of "(k, r0)" k r0 r1] 6(2) [of "(k, r0)" k r0 r1 r] True w obtain v ms where
      "r0 = json_tokens v @ members_tokens ms @ ObjClose # r" "unambiguous (d + 1) v"
      "distinct (map (\<lambda>m. to_lower (fst m)) ms)" "set (map (\<lambda>m. to_lower (fst m)) ms) \<inter> set (to_lower k # seen) = {}"
      "\<forall>m\<in>set ms. unambiguous (d + 1) (snd m)"
      by auto
    with w show ?thesis by (intro exI [of _ "(k, v) # ms"]) auto
  qed
qed simp_all

lemma unambiguous_depth: "unambiguous d v \<Longrightarrow> d \<le> 32"
  by (cases v) auto

lemma walk_complete:
  "length (json_tokens v) \<le> n \<Longrightarrow> unambiguous d v \<Longrightarrow> qmpJSONValue n d (json_tokens v @ r) = Inr r"
  "length (items_tokens vs) < n \<Longrightarrow> (\<forall>v\<in>set vs. unambiguous (d + 1) v) \<Longrightarrow>
     qmp_items n d (items_tokens vs @ ArrClose # r) = Inr r"
  "length (members_tokens ms) < n \<Longrightarrow> distinct (map (\<lambda>m. to_lower (fst m)) ms) \<Longrightarrow>
     set (map (\<lambda>m. to_lower (fst m)) ms) \<inter> set seen = {} \<Longrightarrow> (\<forall>m\<in>set ms. unambiguous (d + 1) (snd m)) \<Longrightarrow>
     qmp_members n d seen (members_tokens ms @ ObjClose # r) = Inr r"
proof (induction v and vs and ms arbitrary: n d r and n d r and n d seen r
    rule: json_tokens_items_tokens_members_tokens.induct)
  case (5 vs)
  then show ?case by (cases n) auto
next
  case (6 ms)
  then show ?case by (cases n) auto
next
  case 7
  then show ?case by (cases n) auto
next
  case (8 v vs)
  obtain k where "length (json_tokens v) = Suc k" by (rule json_tokens_head [of v]) simp
  with 8 show ?case by (cases n) auto
next
  case 9
  then show ?case by (cases n) auto
next
  case (10 k v ms)
  then show ?case by (cases n) auto
qed (case_tac [!] n; simp)+

text \<open>The decoder accepts exactly the texts of one object that is unambiguous throughout.\<close>

lemma decodeQMPObject_iff:
  "decodeQMPObject ts = Inr ms \<longleftrightarrow> ts = json_tokens (JObj ms) \<and> unambiguous 0 (JObj ms)" (is "?l \<longleftrightarrow> ?r")
proof
  assume ?l
  then have w: "qmpJSONValue (2 * length ts + 1) 0 ts = Inr []"
    and v: "\<exists>r. read_value (length ts) ts = Some (JObj ms, r)"
    by (auto simp: decodeQMPObject_def split: sum.splits if_splits option.splits json.splits)
  from walk_sound(1) [OF w] obtain u where u: "ts = json_tokens u" "unambiguous 0 u" by auto
  with v read_complete(1) [of u "length ts" "[]"] have "u = JObj ms" by auto
  with u show ?r by simp
next
  assume ?r
  then show ?l
    using walk_complete(1) [of "JObj ms" "2 * length ts + 1" 0 "[]"] read_complete(1) [of "JObj ms" "length ts" "[]"]
    by (simp add: decodeQMPObject_def)
qed

text \<open>The walk always returns: a value takes a token away, and a list or an object its bracket.\<close>

lemma value_consumes: "qmpJSONValue n d ts = Inr r \<Longrightarrow> length r < length ts"
  using json_tokens_nonempty by (fastforce dest: walk_sound(1))

lemma walker_returns:
  "2 * length ts < n \<Longrightarrow> qmpJSONValue n d ts \<noteq> Inl WalkerFuel"
  "2 * length ts + 1 < n \<Longrightarrow> qmp_items n d ts \<noteq> Inl WalkerFuel"
  "2 * length ts + 1 < n \<Longrightarrow> qmp_members n d seen ts \<noteq> Inl WalkerFuel"
proof (induction n d ts and n d ts and n d seen ts rule: qmpJSONValue_qmp_items_qmp_members.induct)
  case (2 n d ts)
  then show ?case by (cases ts) auto
next
  case (4 n d ts)
  show ?case
  proof (cases "has_more ts")
    case True
    then have "ts \<noteq> []" by auto
    then obtain m where m: "n = Suc m" using 4(3) by (cases n) auto
    show ?thesis
    proof (cases "qmpJSONValue n (d + 1) ts")
      case (Inl e)
      with 4(1) 4(3) True show ?thesis by auto
    next
      case (Inr r)
      with value_consumes [OF Inr] 4(2) [OF _ Inr] 4(3) True show ?thesis by auto
    qed
  qed (simp split: option.splits)
next
  case (6 n d seen ts)
  show ?case
  proof (cases "has_more ts")
    case True
    show ?thesis
    proof (cases "take_key ts")
      case (Some kr)
      obtain k r where kr: "kr = (k, r)" by (cases kr)
      with Some have ts: "ts = StrToken k # r" by simp
      show ?thesis
      proof (cases "to_lower k \<in> set seen")
        case False
        from True have more: "\<not> \<not> has_more ts" by simp
        have v: "qmpJSONValue n (d + 1) r \<noteq> Inl WalkerFuel"
          by (rule 6(1) [OF more Some kr [symmetric] False]) (use 6(3) ts in simp)
        show ?thesis
        proof (cases "qmpJSONValue n (d + 1) r")
          case (Inl e)
          with v True False ts show ?thesis by simp
        next
          case (Inr r1)
          have "qmp_members n d (to_lower k # seen) r1 \<noteq> Inl WalkerFuel"
            by (rule 6(2) [OF more Some kr [symmetric] False Inr]) (use 6(3) ts value_consumes [OF Inr] in simp)
          with Inr True False ts show ?thesis by simp
        qed
      qed (use True ts in simp)
    qed (use True in simp)
  qed (simp split: option.splits)
qed simp_all

lemma decodeQMPObject_returns: "decodeQMPObject ts \<noteq> Inl WalkerFuel"
proof (cases "qmpJSONValue (2 * length ts + 1) 0 ts")
  case (Inl e)
  with walker_returns(1) [of ts "2 * length ts + 1" 0] show ?thesis
    unfolding decodeQMPObject_def by (simp del: qmpJSONValue.simps)
next
  case (Inr r)
  then show ?thesis
    unfolding decodeQMPObject_def by (simp del: qmpJSONValue.simps split: option.split prod.split json.split)
qed

declare qmpJSONValue.simps [simp del] qmp_items.simps [simp del] qmp_members.simps [simp del]

end
