(* ===== verification/Base64.thy ===== *)
theory Base64
  imports Go_Strings
begin

text \<open>The decoder of \<open>encoding/base64\<close> that the code uses for texts that cross a process boundary.\<close>

text \<open>\<open>base64.StdEncoding.DecodeString\<close>: line ends are skipped, padding only at the end.\<close>

definition base64_digit :: "char \<Rightarrow> int option" where
  "base64_digit c =
     (let n = (of_char c :: int)
      in if 65 \<le> n \<and> n \<le> 90 then Some (n - 65)
         else if 97 \<le> n \<and> n \<le> 122 then Some (n - 71)
         else if 48 \<le> n \<and> n \<le> 57 then Some (n + 4)
         else if n = 43 then Some 62
         else if n = 47 then Some 63
         else None)"

definition byte_of :: "int \<Rightarrow> char" where
  "byte_of n = char_of n"

definition base64_quantum :: "char list \<Rightarrow> string option" where
  "base64_quantum cs =
     (case those (map base64_digit cs) of
        Some [a, b] \<Rightarrow> Some [byte_of (a * 4 + b div 16)]
      | Some [a, b, c] \<Rightarrow> Some [byte_of (a * 4 + b div 16), byte_of (b * 16 + c div 4)]
      | Some [a, b, c, d] \<Rightarrow> Some [byte_of (a * 4 + b div 16), byte_of (b * 16 + c div 4), byte_of (c * 64 + d)]
      | _ \<Rightarrow> None)"

fun base64_quanta :: "string \<Rightarrow> string option" where
  "base64_quanta [] = Some []"
| "base64_quanta (a # b # c # d # r) =
     (if r = [] \<and> d = CHR ''=''
      then base64_quantum (if c = CHR ''='' then [a, b] else [a, b, c])
      else (case (base64_quantum [a, b, c, d], base64_quanta r) of
              (Some x, Some y) \<Rightarrow> Some (x @ y)
            | _ \<Rightarrow> None))"
| "base64_quanta s = None"

definition base64_decode :: "string \<Rightarrow> string option" where
  "base64_decode s = base64_quanta (filter (\<lambda>c. c \<noteq> CHR 13 \<and> c \<noteq> CHR 10) s)"

end
