(* ===== verification/Guest_Graph.thy ===== *)
theory Guest_Graph
  imports Json_Objects Hardware Base64
begin

text \<open>
  The measured storage graph of a preview VM (\<open>app/vm_guest_ancestry.go\<close>, first half). The
  guest prints what \<open>lsblk\<close>, \<open>findmnt\<close>, \<open>losetup\<close>, \<open>realpath\<close> and \<open>btrfs\<close> show, as base64 of
  JSON or of tab-separated lines; the engine trusts none of the guest's verdicts and builds the
  graph of block devices, mounts, loops and filesystem members itself. A refusal is the text
  of the code's error. The tokens of a JSON text are a parameter, as everywhere.
\<close>

datatype guest_error = Refused string | GraphJson qmp_error | SearchFuel

datatype guest_block =
  Guest_Block (gb_name: string) (gb_kname: string) (gb_type: string) (gb_major: string)
    (gb_uuid: string) (gb_ptuuid: string) (gb_children: "guest_block list option") (gb_pkname: string)

datatype guest_mount =
  Guest_Mount (gm_target: string) (gm_source: string) (gm_fstype: string) (gm_major: string)
    (gm_options: string) (gm_uuid: string) (gm_children: "guest_mount list option")

record guest_loop =
  gl_name :: string
  gl_major :: string
  gl_file :: string

text \<open>\<open>vmGuestGraph\<close>. The parents of a block and the stacked targets are sets in the code.\<close>

record guest_graph =
  gg_nodes :: "guest_block smap"
  gg_aliases :: "string smap"
  gg_parents :: "string list smap"
  gg_mounts :: "guest_mount smap"
  gg_stacked :: "string list"
  gg_loops :: "string smap"
  gg_paths :: "string smap"
  gg_btrfs :: "string list smap"
  gg_target :: string

definition no_graph :: guest_graph where
  "no_graph = \<lparr>gg_nodes = [], gg_aliases = [], gg_parents = [], gg_mounts = [], gg_stacked = [],
     gg_loops = [], gg_paths = [], gg_btrfs = [], gg_target = []\<rparr>"

subsection \<open>Names\<close>

definition vmGuestMajor :: "string \<Rightarrow> bool" where
  "vmGuestMajor s =
     (case split_on (CHR '':'') s of
        [a, b] \<Rightarrow> a \<noteq> [] \<and> b \<noteq> [] \<and> list_all is_digit a \<and> list_all is_digit b
      | _ \<Rightarrow> False)"

definition vmGuestUUID :: "string \<Rightarrow> bool" where
  "vmGuestUUID s = uuid_shape is_lower_hex s"

definition vmGuestStrictMountTargets :: "string list" where
  "vmGuestStrictMountTargets =
     [''/'', ''/sysroot'', ''/boot'', ''/boot/efi'', ''/etc'', ''/usr'', ''/var'', ''/home'', ''/var/home'']"

text \<open>\<open>path.Clean\<close> of a rooted path: a parent step at the root stays there.\<close>

definition rooted_component :: "string \<Rightarrow> string list \<Rightarrow> string list" where
  "rooted_component c out = (if c = [] \<or> c = ''.'' then out else if c = ''..'' then tl out else c # out)"

definition clean_rooted :: "string \<Rightarrow> string" where
  "clean_rooted s = slash # join_with ''/'' (rev (fold rooted_component (split_on slash s) []))"

definition vmGuestAbsolute :: "string \<Rightarrow> bool" where
  "vmGuestAbsolute s \<longleftrightarrow>
     has_prefix s ''/'' \<and> clean_rooted s = s \<and> \<not> contains_any s [backslash, CHR 9, CHR 13, CHR 10, CHR '' '']"

subsection \<open>Texts of the guest\<close>

definition vmGuestGraphText :: "string \<Rightarrow> guest_error + string" where
  "vmGuestGraphText encoded =
     (case base64_decode encoded of
        None \<Rightarrow> Inl (Refused ''measured graph encoding unavailable'')
      | Some b \<Rightarrow>
          if 262144 < int (length b) then Inl (Refused ''measured graph encoding unavailable'') else Inr b)"

text \<open>\<open>vmGuestGraphJSON\<close> up to the decoding into rows, which follows.\<close>

definition vmGuestGraphJSON ::
  "(string \<Rightarrow> json_token list) \<Rightarrow> string \<Rightarrow> guest_error + (string \<times> json) list" where
  "vmGuestGraphJSON tokens encoded =
     (case vmGuestGraphText encoded of
        Inl e \<Rightarrow> Inl e
      | Inr b \<Rightarrow> (case decodeQMPObject (tokens b) of Inl e \<Rightarrow> Inl (GraphJson e) | Inr ms \<Rightarrow> Inr ms))"

lemma last_items_in: "last_items xs vs = Some (Some ys) \<Longrightarrow> xs = Some ys \<or> JArr ys \<in> set vs"
  by (induction xs vs rule: last_items.induct) auto

lemma unmarshal_items_size:
  assumes "unmarshal_items ms name = Some (Some vs)" "v \<in> set vs"
  shows "size v < size (JObj ms)"
proof -
  from last_items_in [of None "field_values ms name" vs] assms(1) have "JArr vs \<in> set (field_values ms name)"
    by (simp add: unmarshal_items_def)
  then obtain k where k: "(k, JArr vs) \<in> set ms" by (auto simp: field_values_def)
  have "size v \<le> size_list size vs" using assms(2) by (simp add: size_list_estimation')
  moreover have "size (JArr vs) \<le> size_list (size_prod (\<lambda>x. 0) size) ms"
    using k by (rule size_list_estimation') simp
  ultimately show ?thesis by simp
qed

function unmarshal_block :: "json \<Rightarrow> guest_block option" where
  "unmarshal_block (JObj ms) =
     (case those (map (unmarshal_text ms) [''name'', ''kname'', ''type'', ''maj:min'', ''uuid'', ''ptuuid'', ''pkname'']) of
        Some [n, kn, t, m, u, pu, pk] \<Rightarrow>
          (case unmarshal_items ms ''children'' of
             None \<Rightarrow> None
           | Some None \<Rightarrow> Some (Guest_Block n kn t m u pu None pk)
           | Some (Some vs) \<Rightarrow>
               map_option (\<lambda>rows. Guest_Block n kn t m u pu (Some rows) pk) (those (map unmarshal_block vs)))
      | _ \<Rightarrow> None)"
| "unmarshal_block JNull = Some (Guest_Block [] [] [] [] [] [] None [])"
| "unmarshal_block (JBool b) = None"
| "unmarshal_block (JNum s) = None"
| "unmarshal_block (JStr s) = None"
| "unmarshal_block (JArr vs) = None"
  by pat_completeness auto

termination
  by (relation "measure size") (auto dest!: unmarshal_items_size)

function unmarshal_mount :: "json \<Rightarrow> guest_mount option" where
  "unmarshal_mount (JObj ms) =
     (case those (map (unmarshal_text ms) [''target'', ''source'', ''fstype'', ''maj:min'', ''options'', ''uuid'']) of
        Some [t, s, f, m, opts, u] \<Rightarrow>
          (case unmarshal_items ms ''children'' of
             None \<Rightarrow> None
           | Some None \<Rightarrow> Some (Guest_Mount t s f m opts u None)
           | Some (Some vs) \<Rightarrow>
               map_option (\<lambda>rows. Guest_Mount t s f m opts u (Some rows)) (those (map unmarshal_mount vs)))
      | _ \<Rightarrow> None)"
| "unmarshal_mount JNull = Some (Guest_Mount [] [] [] [] [] [] None)"
| "unmarshal_mount (JBool b) = None"
| "unmarshal_mount (JNum s) = None"
| "unmarshal_mount (JStr s) = None"
| "unmarshal_mount (JArr vs) = None"
  by pat_completeness auto

termination
  by (relation "measure size") (auto dest!: unmarshal_items_size)

definition unmarshal_loop :: "json \<Rightarrow> guest_loop option" where
  "unmarshal_loop v =
     (case v of
        JObj ms \<Rightarrow>
          (case those (map (unmarshal_text ms) [''name'', ''maj:min'', ''back-file'']) of
             Some [n, m, f] \<Rightarrow> Some \<lparr>gl_name = n, gl_major = m, gl_file = f\<rparr>
           | _ \<Rightarrow> None)
      | JNull \<Rightarrow> Some \<lparr>gl_name = [], gl_major = [], gl_file = []\<rparr>
      | _ \<Rightarrow> None)"

text \<open>The rows of a document: nil when the field is absent or null.\<close>

definition graph_rows ::
  "(string \<Rightarrow> json_token list) \<Rightarrow> (json \<Rightarrow> 'a option) \<Rightarrow> string \<Rightarrow> string \<Rightarrow> guest_error + 'a list option" where
  "graph_rows tokens row field encoded =
     (case vmGuestGraphJSON tokens encoded of
        Inl e \<Rightarrow> Inl e
      | Inr ms \<Rightarrow>
          (case unmarshal_items ms field of
             None \<Rightarrow> Inl (Refused ''json: cannot unmarshal'')
           | Some None \<Rightarrow> Inr None
           | Some (Some vs) \<Rightarrow>
               (case those (map row vs) of
                  None \<Rightarrow> Inl (Refused ''json: cannot unmarshal'')
                | Some rows \<Rightarrow> Inr (Some rows))))"

subsection \<open>Building the graph\<close>

definition ok_then :: "('e + 'a) \<Rightarrow> ('a \<Rightarrow> 'e + 'b) \<Rightarrow> 'e + 'b" where
  "ok_then r f = (case r of Inl e \<Rightarrow> Inl e | Inr x \<Rightarrow> f x)"

lemma ok_then_simps [simp]: "ok_then (Inl e) f = Inl e" "ok_then (Inr x) f = f x"
  by (simp_all add: ok_then_def)

lemma ok_then_Inr: "ok_then r f = Inr y \<longleftrightarrow> (\<exists>x. r = Inr x \<and> f x = Inr y)"
  by (cases r) auto

lemma ok_then_cong [fundef_cong]: "r = r' \<Longrightarrow> (\<And>x. r' = Inr x \<Longrightarrow> f x = f' x) \<Longrightarrow> ok_then r f = ok_then r' f'"
  by (cases r') auto

fun try_each :: "('a \<Rightarrow> 's \<Rightarrow> 'e + 's) \<Rightarrow> 'a list \<Rightarrow> 's \<Rightarrow> 'e + 's" where
  "try_each f [] s = Inr s"
| "try_each f (x # xs) s = ok_then (f x s) (try_each f xs)"

definition device_path :: "string \<Rightarrow> bool" where
  "device_path s \<longleftrightarrow> has_prefix s ''/dev/'' \<and> vmGuestAbsolute s"

definition same_block :: "guest_block \<Rightarrow> guest_block \<Rightarrow> bool" where
  "same_block old r \<longleftrightarrow> gb_name old = gb_name r \<and> gb_kname old = gb_kname r \<and> gb_type old = gb_type r \<and>
     gb_uuid old = gb_uuid r \<and> gb_ptuuid old = gb_ptuuid r"

definition add_alias :: "string \<Rightarrow> string \<Rightarrow> guest_graph \<Rightarrow> guest_error + guest_graph" where
  "add_alias major a g =
     (case map_of (gg_aliases g) a of
        Some old \<Rightarrow>
          if old \<noteq> major then Inl (Refused ''ambiguous block alias'') else Inr g
      | None \<Rightarrow> Inr (g\<lparr>gg_aliases := AList.update a major (gg_aliases g)\<rparr>))"

definition parents_of :: "guest_graph \<Rightarrow> string \<Rightarrow> string list" where
  "parents_of g major = lookup_or [] (gg_parents g) major"

definition add_parent :: "string \<Rightarrow> string \<Rightarrow> guest_graph \<Rightarrow> guest_graph" where
  "add_parent parent major g =
     g\<lparr>gg_parents := AList.update major
         (if parent = [] then parents_of g major else List.insert parent (parents_of g major)) (gg_parents g)\<rparr>"

text \<open>One row of the block inventory; the second component holds the selected disks.\<close>

definition enter_block ::
  "string \<Rightarrow> string \<Rightarrow> guest_block \<Rightarrow> guest_graph \<times> string list \<Rightarrow> guest_error + (guest_graph \<times> string list)" where
  "enter_block disk_id parent r st =
     (let (g, selected) = st; major = gb_major r in
      if \<not> vmGuestMajor major \<or> \<not> device_path (gb_name r) \<or> \<not> device_path (gb_kname r) \<or> gb_type r = []
      then Inl (Refused ''invalid block identity'')
      else if 1024 \<le> int (length (gg_nodes g)) then Inl (Refused ''block bound'')
      else if (case map_of (gg_nodes g) major of None \<Rightarrow> False | Some old \<Rightarrow> \<not> same_block old r)
      then Inl (Refused ''conflicting block identity'')
      else
        ok_then (try_each (add_alias major) [gb_name r, gb_kname r]
                   (g\<lparr>gg_nodes := AList.update major r (gg_nodes g)\<rparr>))
          (\<lambda>g1. Inr (add_parent parent major g1,
                     if gb_type r = ''disk'' \<and> gb_ptuuid r = disk_id then List.insert major selected else selected)))"

lemma block_children_size: "gb_children r = Some cs \<Longrightarrow> size_list size cs < size r"
  by (cases r) auto

lemma mount_children_size: "gm_children r = Some cs \<Longrightarrow> size_list size cs < size r"
  by (cases r) auto

function visit_blocks ::
  "string \<Rightarrow> nat \<Rightarrow> string \<Rightarrow> guest_block list \<Rightarrow> guest_graph \<times> string list \<Rightarrow>
     guest_error + (guest_graph \<times> string list)" where
  "visit_blocks disk_id depth parent [] st = Inr st"
| "visit_blocks disk_id depth parent (r # rs) st =
     ok_then (enter_block disk_id parent r st) (\<lambda>st1.
     ok_then (case gb_children r of
                None \<Rightarrow> Inr st1
              | Some cs \<Rightarrow>
                  if 32 < depth + 1 then Inl (Refused ''block inventory unavailable'')
                  else visit_blocks disk_id (depth + 1) (gb_major r) cs st1)
       (visit_blocks disk_id depth parent rs))"
  by pat_completeness auto

termination
  by (relation "measure (\<lambda>(disk_id, depth, parent, rs, st). size_list size rs)")
    (auto dest: block_children_size)

definition block_at :: "guest_graph \<Rightarrow> string \<Rightarrow> guest_block" where
  "block_at g major = lookup_or (Guest_Block [] [] [] [] [] [] None []) (gg_nodes g) major"

definition parent_name_measured :: "guest_graph \<Rightarrow> string \<times> guest_block \<Rightarrow> bool" where
  "parent_name_measured g n \<longleftrightarrow>
     gb_pkname (snd n) = [] \<or>
     (let parent = lookup_or [] (gg_aliases g) (gb_pkname (snd n))
      in parent \<noteq> [] \<and> parent \<in> set (parents_of g (fst n)))"

text \<open>The blocks and the selected disk.\<close>

definition measured_blocks ::
  "guest_block list option \<Rightarrow> string \<Rightarrow> string \<Rightarrow> guest_error + guest_graph" where
  "measured_blocks rows target disk_id =
     (case rows of
        None \<Rightarrow> Inl (Refused ''block inventory unavailable'')
      | Some rs \<Rightarrow>
          ok_then (visit_blocks disk_id 0 [] rs (no_graph, [])) (\<lambda>(g, selected).
          if \<not> list_all (parent_name_measured g) (gg_nodes g)
          then Inl (Refused ''measured parent name disagrees with graph edge'')
          else (let major = lookup_or [] (gg_aliases g) target
                in if length selected \<noteq> 1 \<or> major \<notin> set selected \<or> gb_type (block_at g major) \<noteq> ''disk''
                   then Inl (Refused ''unique selected GPT disk not measured'')
                   else Inr (g\<lparr>gg_target := major\<rparr>))))"

definition enter_mount :: "guest_mount \<Rightarrow> guest_graph \<times> int \<Rightarrow> guest_error + (guest_graph \<times> int)" where
  "enter_mount r st =
     (let (g, n) = st; t = gm_target r in
      if \<not> vmGuestAbsolute t \<or> gm_source r = [] \<or> gm_fstype r = [] \<or> gm_options r = [] \<or> \<not> vmGuestMajor (gm_major r)
      then Inl (Refused ''incomplete mount observation'')
      else if 4096 \<le> n then Inl (Refused ''mount inventory bound'')
      else if map_of (gg_mounts g) t \<noteq> None \<or> t \<in> set (gg_stacked g)
      then if t \<in> set vmGuestStrictMountTargets then Inl (Refused ''ambiguous mount inventory'')
           else Inr (g\<lparr>gg_mounts := AList.delete t (gg_mounts g), gg_stacked := List.insert t (gg_stacked g)\<rparr>, n + 1)
      else Inr (g\<lparr>gg_mounts := AList.update t r (gg_mounts g)\<rparr>, n + 1))"

function visit_mounts ::
  "nat \<Rightarrow> guest_mount list \<Rightarrow> guest_graph \<times> int \<Rightarrow> guest_error + (guest_graph \<times> int)" where
  "visit_mounts depth [] st = Inr st"
| "visit_mounts depth (r # rs) st =
     ok_then (enter_mount r st) (\<lambda>st1.
     ok_then (case gm_children r of
                None \<Rightarrow> Inr st1
              | Some cs \<Rightarrow>
                  if 32 < depth + 1 then Inl (Refused ''mount inventory unavailable'')
                  else visit_mounts (depth + 1) cs st1)
       (visit_mounts depth rs))"
  by pat_completeness auto

termination
  by (relation "measure (\<lambda>(depth, rs, st). size_list size rs)") (auto dest: mount_children_size)

definition measured_mounts :: "guest_mount list option \<Rightarrow> guest_graph \<Rightarrow> guest_error + guest_graph" where
  "measured_mounts rows g =
     (case rows of
        None \<Rightarrow> Inl (Refused ''mount inventory unavailable'')
      | Some rs \<Rightarrow> ok_then (visit_mounts 0 rs (g, 0)) (\<lambda>(g1, n). Inr g1))"

definition enter_loop :: "guest_loop \<Rightarrow> guest_graph \<Rightarrow> guest_error + guest_graph" where
  "enter_loop r g =
     (if map_of (gg_loops g) (gl_major r) \<noteq> None \<or> lookup_or [] (gg_aliases g) (gl_name r) \<noteq> gl_major r \<or>
         \<not> vmGuestAbsolute (gl_file r)
      then Inl (Refused ''ambiguous loop inventory'')
      else Inr (g\<lparr>gg_loops := AList.update (gl_major r) (gl_file r) (gg_loops g)\<rparr>))"

definition measured_loops :: "guest_loop list option \<Rightarrow> guest_graph \<Rightarrow> guest_error + guest_graph" where
  "measured_loops rows g =
     (case rows of
        None \<Rightarrow> Inl (Refused ''loop inventory unavailable'')
      | Some rs \<Rightarrow>
          if 512 < int (length rs) then Inl (Refused ''loop inventory unavailable'') else try_each enter_loop rs g)"

text \<open>A line of the resolved paths and a line of the Btrfs members.\<close>

definition enter_path :: "string \<Rightarrow> guest_graph \<Rightarrow> guest_error + guest_graph" where
  "enter_path line g =
     (case split_on (CHR 9) line of
        [p, resolved] \<Rightarrow>
          if 512 \<le> int (length (gg_paths g)) then Inl (Refused ''invalid resolved path inventory'')
          else if map_of (gg_paths g) p \<noteq> None then Inl (Refused ''duplicate path'')
          else Inr (g\<lparr>gg_paths := AList.update p resolved (gg_paths g)\<rparr>)
      | _ \<Rightarrow> Inl (Refused ''invalid resolved path inventory''))"

definition enter_btrfs :: "string \<Rightarrow> guest_graph \<Rightarrow> guest_error + guest_graph" where
  "enter_btrfs line g =
     (case split_on (CHR 9) line of
        [u, valid, members] \<Rightarrow>
          if \<not> vmGuestUUID u \<or> 128 \<le> int (length (gg_btrfs g)) then Inl (Refused ''invalid Btrfs inventory'')
          else if map_of (gg_btrfs g) u \<noteq> None then Inl (Refused ''duplicate Btrfs identity'')
          else if valid = ''1''
          then Inr (g\<lparr>gg_btrfs := AList.update u (split_on (CHR '','') members) (gg_btrfs g)\<rparr>)
          else if valid = ''0'' then Inr (g\<lparr>gg_btrfs := AList.update u [] (gg_btrfs g)\<rparr>)
          else Inl (Refused ''invalid Btrfs validity'')
      | _ \<Rightarrow> Inl (Refused ''invalid Btrfs inventory''))"

definition measured_lines ::
  "(string \<Rightarrow> guest_graph \<Rightarrow> guest_error + guest_graph) \<Rightarrow> string \<Rightarrow> guest_graph \<Rightarrow> guest_error + guest_graph" where
  "measured_lines enter encoded g =
     ok_then (vmGuestGraphText encoded) (\<lambda>s.
       if s = [] then Inr g else try_each enter (split_on (CHR 10) s) g)"

record guest_root =
  gr_target :: string
  gr_disk :: string
  gr_verified :: bool
  gr_measurements :: "string smap"

text \<open>\<open>verifyVMGuestRoot\<close> up to its last line: all inventories are decoded before any is used.\<close>

definition measured_graph ::
  "(string \<Rightarrow> json_token list) \<Rightarrow> guest_root \<Rightarrow> string \<Rightarrow> guest_error + guest_graph" where
  "measured_graph tokens rt disk_id =
     (let text = lookup_or [] (gr_measurements rt) in
      ok_then (graph_rows tokens unmarshal_block ''blockdevices'' (text ''BLOCKS'')) (\<lambda>blocks.
      ok_then (graph_rows tokens unmarshal_mount ''filesystems'' (text ''MOUNTS'')) (\<lambda>mounts.
      ok_then (graph_rows tokens unmarshal_loop ''loopdevices'' (text ''LOOPS'')) (\<lambda>loops.
      ok_then (measured_blocks blocks (gr_target rt) disk_id) (\<lambda>g1.
      ok_then (measured_mounts mounts g1) (\<lambda>g2.
      ok_then (measured_loops loops g2) (\<lambda>g3.
      ok_then (measured_lines enter_path (text ''PATHS'') g3) (\<lambda>g4.
      measured_lines enter_btrfs (text ''BTRFS'') g4))))))))"

end
