(* ===== verification/Guest_Ancestry.thy ===== *)
theory Guest_Ancestry
  imports Guest_Graph
begin

text \<open>
  The backing of the guest's root (\<open>app/vm_guest_ancestry.go\<close>, second half): from a mount over
  partitions, mappers, arrays, loops and Btrfs members down to whole disks. The search carries
  the blocks it is inside of; its recursion is followed with fuel, one unit for each nested
  block, and more fuel than there are blocks is enough.
\<close>

text \<open>\<open>consider\<close> of the code: the longest target that holds the path, stacked ones included.\<close>

definition holds_path :: "string \<Rightarrow> string \<Rightarrow> bool" where
  "holds_path resolved t \<longleftrightarrow> t = ''/'' \<or> t = resolved \<or> has_prefix resolved (t @ ''/'')"

definition consider_target :: "string \<Rightarrow> string \<Rightarrow> string \<Rightarrow> string" where
  "consider_target resolved t best = (if holds_path resolved t \<and> length best < length t then t else best)"

definition mountAt :: "guest_graph \<Rightarrow> string \<Rightarrow> guest_error + guest_mount" where
  "mountAt g target =
     (if target \<in> set (gg_stacked g) then Inl (Refused ''ambiguous mount inventory'')
      else (case map_of (gg_mounts g) target of
              None \<Rightarrow> Inl (Refused ''mount unavailable'')
            | Some row \<Rightarrow> Inr row))"

definition mountFor :: "guest_graph \<Rightarrow> string \<Rightarrow> guest_error + guest_mount" where
  "mountFor g p =
     (case map_of (gg_paths g) p of
        None \<Rightarrow> Inl (Refused ''resolved projection unavailable'')
      | Some resolved \<Rightarrow>
          if \<not> vmGuestAbsolute resolved then Inl (Refused ''resolved projection unavailable'')
          else (let best = fold (consider_target resolved) (map fst (gg_mounts g) @ gg_stacked g) []
                in if best = [] then Inl (Refused ''projection mount unavailable'') else mountAt g best))"

text \<open>The union of what the parts give; the first refusal ends the loop.\<close>

definition collect :: "('a \<Rightarrow> 'e + string list) \<Rightarrow> 'a list \<Rightarrow> 'e + string list" where
  "collect f xs = try_each (\<lambda>x out. ok_then (f x) (\<lambda>a. Inr (fold List.insert a out))) xs []"

definition mount_source :: "guest_mount \<Rightarrow> string" where
  "mount_source row = takeWhile (\<lambda>c. c \<noteq> CHR ''['') (gm_source row)"

text \<open>
  \<open>mount\<close>, given the search below a block. A member must name the filesystem itself and must
  not occur twice.
\<close>

fun btrfs_members ::
  "guest_graph \<Rightarrow> string \<Rightarrow> (string \<Rightarrow> guest_error + string list) \<Rightarrow> string list \<Rightarrow> string list \<Rightarrow> string list \<Rightarrow>
     guest_error + string list" where
  "btrfs_members g u below unique [] out = Inr out"
| "btrfs_members g u below unique (m # ms) out =
     (if m \<in> set unique \<or> \<not> vmGuestMajor m then Inl (Refused ''ambiguous Btrfs membership'')
      else if gb_uuid (block_at g m) \<noteq> u then Inl (Refused ''Btrfs member filesystem identity disagrees'')
      else ok_then (below m) (\<lambda>a. btrfs_members g u below (m # unique) ms (fold List.insert a out)))"

definition mount_over ::
  "(string \<Rightarrow> bool \<Rightarrow> guest_error + string list) \<Rightarrow> guest_graph \<Rightarrow> guest_mount \<Rightarrow> bool \<Rightarrow>
     guest_error + string list" where
  "mount_over below g row projected =
     (let physical = lookup_or [] (gg_aliases g) (mount_source row); u = gm_uuid row in
      if gm_fstype row = ''btrfs'' then
        (let members = lookup_or [] (gg_btrfs g) u in
         if physical = [] \<or> u = [] \<or> gb_uuid (block_at g physical) \<noteq> u \<or> members = []
         then Inl (Refused ''Btrfs membership unavailable'')
         else ok_then (btrfs_members g u (\<lambda>m. below m False) [] members []) (\<lambda>out.
                if physical \<notin> set members then Inl (Refused ''Btrfs source not current member'') else Inr out))
      else if physical \<noteq> gm_major row then Inl (Refused ''mount source identity mismatch'')
      else below (gm_major row) projected)"

definition layer_types :: "string list" where
  "layer_types =
     [''part'', ''crypt'', ''lvm'', ''dm'', ''mpath'', ''md'', ''raid0'', ''raid1'', ''raid4'', ''raid5'',
      ''raid6'', ''raid10'']"

fun disk_below :: "nat \<Rightarrow> guest_graph \<Rightarrow> string list \<Rightarrow> string \<Rightarrow> bool \<Rightarrow> guest_error + string list" where
  "disk_below 0 g seen major projected = Inl SearchFuel"
| "disk_below (Suc n) g seen major projected =
     (if major \<in> set seen then Inl (Refused ''cyclic backing'')
      else (case map_of (gg_nodes g) major of
              None \<Rightarrow> Inl (Refused ''block backing unavailable'')
            | Some node \<Rightarrow>
                (let below = disk_below n g (major # seen); parents = parents_of g major in
                 if gb_type node = ''loop'' then
                   (if \<not> projected then Inl (Refused ''root is loop backed'')
                    else (case map_of (gg_loops g) major of
                            None \<Rightarrow> Inl (Refused ''loop backing unavailable'')
                          | Some p \<Rightarrow> ok_then (mountFor g p) (\<lambda>row. mount_over below g row False)))
                 else if gb_type node = ''disk'' then
                   (if parents \<noteq> [] then Inl (Refused ''whole disk parents'') else Inr [major])
                 else if gb_type node \<notin> set layer_types then Inl (Refused ''unknown block layer'')
                 else if parents = [] then Inl (Refused ''missing block parents'')
                 else collect (\<lambda>p. below p projected) parents)))"

definition disk :: "guest_graph \<Rightarrow> string \<Rightarrow> bool \<Rightarrow> guest_error + string list" where
  "disk g = disk_below (Suc (length (gg_nodes g))) g []"

definition mount :: "guest_graph \<Rightarrow> guest_mount \<Rightarrow> bool \<Rightarrow> guest_error + string list" where
  "mount g = mount_over (disk g) g"

definition require_target :: "guest_graph \<Rightarrow> guest_mount \<Rightarrow> guest_error option" where
  "require_target g row =
     (case mount g row (gm_fstype row = ''erofs'') of
        Inl e \<Rightarrow> Some e
      | Inr a \<Rightarrow>
          if length a \<noteq> 1 \<or> gg_target g \<notin> set a then Some (Refused ''current backing outside selected target'')
          else None)"

subsection \<open>Overlay roots\<close>

definition overlay_keys :: "string list" where
  "overlay_keys = [''lowerdir'', ''datadir'', ''upperdir'', ''workdir'']"

text \<open>One mount option; a plus sign appends to a lower or a data layer.\<close>

definition enter_layer :: "string \<Rightarrow> string smap \<Rightarrow> guest_error + string smap" where
  "enter_layer opt layers =
     (let (raw, v, has) = (case cut_at (CHR ''='') opt of None \<Rightarrow> (opt, [], False) | Some (a, b) \<Rightarrow> (a, b, True));
          k = trim_right_set raw ''+''
      in if k \<notin> set overlay_keys then Inr layers
         else if \<not> has \<or> v = [] \<or> lookup_or [] layers k \<noteq> [] \<or>
                 contains_any v [backslash, CHR '' '', CHR 9, CHR 13, CHR 10] \<or>
                 (raw \<noteq> k \<and> raw \<noteq> k @ ''+'') \<or> (raw \<noteq> k \<and> k \<noteq> ''lowerdir'' \<and> k \<noteq> ''datadir'')
         then Inl (Refused ''ambiguous overlay layer'')
         else Inr (AList.update k v layers))"

text \<open>\<open>strings.Count\<close> and \<open>strings.Cut\<close> of the double colon.\<close>

fun count_pairs :: "string \<Rightarrow> nat" where
  "count_pairs (a # b # r) =
     (if a = CHR '':'' \<and> b = CHR '':'' then Suc (count_pairs r) else count_pairs (b # r))"
| "count_pairs s = 0"

fun cut_pair :: "string \<Rightarrow> string \<times> string" where
  "cut_pair (a # b # r) =
     (if a = CHR '':'' \<and> b = CHR '':'' then ([], r) else apfst (Cons a) (cut_pair (b # r)))"
| "cut_pair s = (s, [])"

definition layer_paths :: "string \<times> string \<Rightarrow> string list \<Rightarrow> guest_error + string list" where
  "layer_paths layer paths =
     (let (k, v) = layer;
          data = k = ''lowerdir'' \<and> contains_str v ''::'';
          (left, right) = cut_pair v
      in if data \<and> count_pairs v \<noteq> 1 then Inl (Refused ''ambiguous data layer'')
         else if data \<and> (left = [] \<or> right = []) then Inl (Refused ''empty data layer'')
         else (let parts = split_on (CHR '':'') (if data then left @ '':'' @ right else v)
               in if (k = ''upperdir'' \<or> k = ''workdir'') \<and> length parts \<noteq> 1
                  then Inl (Refused ''invalid writable layer'')
                  else if \<not> list_all vmGuestAbsolute parts then Inl (Refused ''invalid layer path'')
                  else Inr (paths @ parts)))"

definition writable_layers_agree :: "guest_graph \<Rightarrow> string smap \<Rightarrow> guest_error option" where
  "writable_layers_agree g layers =
     (let upper = lookup_or [] layers ''upperdir'' in
      if upper = [] then None
      else (case mountFor g upper of
              Inl e \<Rightarrow> Some e
            | Inr u \<Rightarrow>
                (case mountFor g (lookup_or [] layers ''workdir'') of
                   Inl e \<Rightarrow> Some e
                 | Inr w \<Rightarrow>
                     if gm_major u \<noteq> gm_major w \<or> gm_source u \<noteq> gm_source w
                     then Some (Refused ''writable layers disagree'') else None)))"

fun require_paths :: "guest_graph \<Rightarrow> string list \<Rightarrow> guest_error option" where
  "require_paths g [] = None"
| "require_paths g (p # ps) =
     (case mountFor g p of
        Inl e \<Rightarrow> Some e
      | Inr r \<Rightarrow>
          if gm_target r = ''/'' then Some (Refused ''root projection through itself'')
          else (case require_target g r of Some e \<Rightarrow> Some e | None \<Rightarrow> require_paths g ps))"

text \<open>The layers are ranged over in some order; here, in that of the options.\<close>

definition overlay_layers :: "guest_mount \<Rightarrow> guest_error + string smap" where
  "overlay_layers row =
     ok_then (try_each enter_layer (split_on (CHR '','') (gm_options row)) []) (\<lambda>layers.
       if lookup_or [] layers ''lowerdir'' = [] \<or>
          (lookup_or [] layers ''upperdir'' = []) \<noteq> (lookup_or [] layers ''workdir'' = [])
       then Inl (Refused ''incomplete overlay content'') else Inr layers)"

definition verifyRoot :: "guest_graph \<Rightarrow> guest_error option" where
  "verifyRoot g =
     (case mountAt g ''/'' of
        Inl (Refused s) \<Rightarrow> Some (Refused (''current root unavailable: '' @ s))
      | Inl e \<Rightarrow> Some e
      | Inr row \<Rightarrow>
          if gm_fstype row \<noteq> ''overlay'' then require_target g row
          else (case overlay_layers row of
                  Inl e \<Rightarrow> Some e
                | Inr layers \<Rightarrow>
                    (case try_each layer_paths layers [] of
                       Inl e \<Rightarrow> Some e
                     | Inr paths \<Rightarrow>
                         if 32 < length paths then Some (Refused ''projection bound'')
                         else (case writable_layers_agree g layers of
                                 Some e \<Rightarrow> Some e
                               | None \<Rightarrow> require_paths g paths))))"

definition verifyVMGuestRoot ::
  "(string \<Rightarrow> json_token list) \<Rightarrow> guest_root \<Rightarrow> string \<Rightarrow> guest_error option" where
  "verifyVMGuestRoot tokens rt disk_id =
     (case measured_graph tokens rt disk_id of Inl e \<Rightarrow> Some e | Inr g \<Rightarrow> verifyRoot g)"

end
