(* ===== verification/Guest_Ancestry_Props.thy ===== *)
theory Guest_Ancestry_Props
  imports Guest_Ancestry
begin

text \<open>
  What an accepted root promises. \<open>backed g major projected S\<close> is a finite derivation that the
  block rests on the whole disks \<open>S\<close> and on nothing else; \<open>carried\<close> says it of a mount. The
  search finds exactly the derivable facts, whatever the graph, cyclic ones included, and it
  always returns.
\<close>

inductive backed :: "guest_graph \<Rightarrow> string \<Rightarrow> bool \<Rightarrow> string set \<Rightarrow> bool"
  and carried :: "guest_graph \<Rightarrow> guest_mount \<Rightarrow> bool \<Rightarrow> string set \<Rightarrow> bool"
  for g :: guest_graph where
  whole_disk: "map_of (gg_nodes g) m = Some b \<Longrightarrow> gb_type b = ''disk'' \<Longrightarrow> parents_of g m = [] \<Longrightarrow>
     backed g m pr {m}"
| block_layer: "map_of (gg_nodes g) m = Some b \<Longrightarrow> gb_type b \<in> set layer_types \<Longrightarrow> parents_of g m \<noteq> [] \<Longrightarrow>
     (\<forall>p\<in>set (parents_of g m). backed g p pr (S p)) \<Longrightarrow> backed g m pr (\<Union>p\<in>set (parents_of g m). S p)"
| loop_file: "map_of (gg_nodes g) m = Some b \<Longrightarrow> gb_type b = ''loop'' \<Longrightarrow> map_of (gg_loops g) m = Some p \<Longrightarrow>
     mountFor g p = Inr row \<Longrightarrow> carried g row False S \<Longrightarrow> backed g m True S"
| btrfs_mount: "gm_fstype row = ''btrfs'' \<Longrightarrow> gm_uuid row \<noteq> [] \<Longrightarrow>
     lookup_or [] (gg_aliases g) (mount_source row) = physical \<Longrightarrow> physical \<noteq> [] \<Longrightarrow>
     lookup_or [] (gg_btrfs g) (gm_uuid row) = ms \<Longrightarrow> physical \<in> set ms \<Longrightarrow> distinct ms \<Longrightarrow>
     gb_uuid (block_at g physical) = gm_uuid row \<Longrightarrow>
     (\<forall>m\<in>set ms. vmGuestMajor m \<and> gb_uuid (block_at g m) = gm_uuid row \<and> backed g m False (S m)) \<Longrightarrow>
     carried g row pr (\<Union>m\<in>set ms. S m)"
| block_mount: "gm_fstype row \<noteq> ''btrfs'' \<Longrightarrow>
     lookup_or [] (gg_aliases g) (mount_source row) = gm_major row \<Longrightarrow> backed g (gm_major row) pr S \<Longrightarrow>
     carried g row pr S"

inductive_cases backedE: "backed g m pr S"
inductive_cases carriedE: "carried g row pr S"

subsection \<open>Collecting\<close>

lemma try_each_append: "try_each f (xs @ ys) s = ok_then (try_each f xs s) (try_each f ys)"
proof (induction xs arbitrary: s)
  case (Cons x xs)
  then show ?case by (cases "f x s") auto
qed simp

lemma set_fold_insert: "set (fold List.insert xs ys) = set xs \<union> set ys"
  by (induction xs arbitrary: ys) auto

lemma distinct_fold_insert: "distinct ys \<Longrightarrow> distinct (fold List.insert xs ys)"
  by (induction xs arbitrary: ys) auto

lemma try_each_collect:
  "try_each (\<lambda>x out. ok_then (f x) (\<lambda>a. Inr (fold List.insert a out))) xs out = Inr r \<Longrightarrow>
     (\<forall>x\<in>set xs. \<exists>a. f x = Inr a) \<and> set r = set out \<union> (\<Union>x\<in>set xs. set (projr (f x))) \<and> (distinct out \<longrightarrow> distinct r)"
proof (induction xs arbitrary: out)
  case (Cons x xs)
  then obtain a where a: "f x = Inr a" by (cases "f x") auto
  with Cons.prems Cons.IH [of "fold List.insert a out"] show ?case
    by (auto simp: set_fold_insert distinct_fold_insert)
qed simp

lemma try_each_collect_ok:
  "\<forall>x\<in>set xs. \<exists>a. f x = Inr a \<Longrightarrow>
     \<exists>r. try_each (\<lambda>x out. ok_then (f x) (\<lambda>a. Inr (fold List.insert a out))) xs out = Inr r"
  by (induction xs arbitrary: out) auto

lemma collect_Inr:
  assumes "collect f xs = Inr r"
  shows "\<forall>x\<in>set xs. \<exists>a. f x = Inr a" "set r = (\<Union>x\<in>set xs. set (projr (f x)))" "distinct r"
  using try_each_collect [OF assms [unfolded collect_def]] by auto

lemma collect_ok: "\<forall>x\<in>set xs. \<exists>a. f x = Inr a \<Longrightarrow> \<exists>r. collect f xs = Inr r"
  by (simp add: collect_def try_each_collect_ok)

lemma collect_error: "collect f xs = Inl e \<Longrightarrow> \<exists>x\<in>set xs. f x = Inl e"
proof -
  have "try_each (\<lambda>x out. ok_then (f x) (\<lambda>a. Inr (fold List.insert a out))) xs out = Inl e \<Longrightarrow>
      \<exists>x\<in>set xs. f x = Inl e" for out
  proof (induction xs arbitrary: out)
    case (Cons x xs)
    then show ?case by (cases "f x") auto
  qed simp
  then show "collect f xs = Inl e \<Longrightarrow> ?thesis" by (simp add: collect_def)
qed

lemma btrfs_members_Inr:
  "btrfs_members g u f unique ms out = Inr r \<longleftrightarrow>
     distinct ms \<and> set ms \<inter> set unique = {} \<and>
     (\<forall>m\<in>set ms. vmGuestMajor m \<and> gb_uuid (block_at g m) = u) \<and>
     try_each (\<lambda>m out. ok_then (f m) (\<lambda>a. Inr (fold List.insert a out))) ms out = Inr r"
proof (induction g u f unique ms out rule: btrfs_members.induct)
  case (2 g u f unique m ms out)
  show ?case
  proof (cases "f m")
    case (Inr a)
    with 2 show ?thesis by auto
  qed (use 2 in auto)
qed simp

lemma btrfs_members_error:
  "btrfs_members g u f unique ms out = Inl e \<Longrightarrow> (\<exists>s. e = Refused s) \<or> (\<exists>m\<in>set ms. f m = Inl e)"
proof (induction g u f unique ms out rule: btrfs_members.induct)
  case (2 g u f unique m ms out)
  then show ?case by (cases "f m") (auto split: if_splits)
qed simp

subsection \<open>The search always returns\<close>

lemma mountFor_refuses: "mountFor g p = Inl e \<Longrightarrow> \<exists>s. e = Refused s"
  by (auto simp: mountFor_def mountAt_def Let_def split: option.splits if_splits)

lemma mountAt_refuses: "mountAt g p = Inl e \<Longrightarrow> \<exists>s. e = Refused s"
  by (auto simp: mountAt_def split: option.splits if_splits)

lemma mount_over_error:
  "mount_over f g row pr = Inl e \<Longrightarrow> (\<exists>s. e = Refused s) \<or> (\<exists>m b. f m b = Inl e)"
  by (auto simp: mount_over_def Let_def ok_then_def split: if_splits sum.splits dest!: btrfs_members_error)

definition unseen :: "guest_graph \<Rightarrow> string list \<Rightarrow> nat" where
  "unseen g seen = card (fst ` set (gg_nodes g) - set seen)"

lemma unseen_step:
  "map_of (gg_nodes g) m = Some b \<Longrightarrow> m \<notin> set seen \<Longrightarrow> unseen g (m # seen) < unseen g seen"
  unfolding unseen_def by (rule psubset_card_mono) (force dest: map_of_SomeD)+

lemma disk_below_refuses: "unseen g seen < n \<Longrightarrow> disk_below n g seen m pr = Inl e \<Longrightarrow> \<exists>s. e = Refused s"
proof (induction n arbitrary: seen m pr e)
  case (Suc n)
  show ?case
  proof (cases "m \<in> set seen \<or> map_of (gg_nodes g) m = None")
    case True
    with Suc.prems show ?thesis by (auto split: if_splits)
  next
    case False
    then obtain b where b: "map_of (gg_nodes g) m = Some b" "m \<notin> set seen" by auto
    let ?f = "disk_below n g (m # seen)"
    have below: "\<exists>s. e = Refused s" if "?f x y = Inl e" for x y e
      using Suc.IH [OF _ that] Suc.prems(1) unseen_step [OF b] by simp
    have over: "\<exists>s. e = Refused s" if "mount_over ?f g row False = Inl e" for row e
      using mount_over_error [OF that] below by blast
    have parts: "\<exists>s. e = Refused s" if "collect (\<lambda>p. ?f p pr) ps = Inl e" for ps e
      using collect_error [OF that] below by blast
    show ?thesis
      using Suc.prems(2) b
      by (auto simp: Let_def ok_then_def split: if_splits option.splits sum.splits
          dest: over parts mountFor_refuses)
  qed
qed simp

subsection \<open>What the search finds is derivable\<close>

lemma carried_btrfs:
  assumes "gm_fstype row = ''btrfs''" "mount_over f g row pr = Inr a"
  obtains physical ms where "lookup_or [] (gg_aliases g) (mount_source row) = physical" "physical \<noteq> []"
    "gm_uuid row \<noteq> []" "lookup_or [] (gg_btrfs g) (gm_uuid row) = ms" "physical \<in> set ms" "distinct ms"
    "gb_uuid (block_at g physical) = gm_uuid row"
    "\<forall>m\<in>set ms. vmGuestMajor m \<and> gb_uuid (block_at g m) = gm_uuid row"
    "collect (\<lambda>m. f m False) ms = Inr a"
  using assms by (auto simp: mount_over_def Let_def ok_then_Inr btrfs_members_Inr collect_def split: if_splits)

lemma mount_over_sound:
  assumes f: "\<And>m b a. f m b = Inr a \<Longrightarrow> backed g m b (set a) \<and> distinct a"
    and m: "mount_over f g row pr = Inr a"
  shows "carried g row pr (set a) \<and> distinct a"
proof (cases "gm_fstype row = ''btrfs''")
  case True
  show ?thesis
  proof (rule carried_btrfs [OF True m])
    fix physical ms
    assume b: "lookup_or [] (gg_aliases g) (mount_source row) = physical" "physical \<noteq> []"
      "gm_uuid row \<noteq> []" "lookup_or [] (gg_btrfs g) (gm_uuid row) = ms" "physical \<in> set ms" "distinct ms"
      "gb_uuid (block_at g physical) = gm_uuid row"
      "\<forall>m\<in>set ms. vmGuestMajor m \<and> gb_uuid (block_at g m) = gm_uuid row"
      and c: "collect (\<lambda>m. f m False) ms = Inr a"
    have "\<forall>m\<in>set ms. backed g m False (set (projr (f m False)))"
      using collect_Inr(1) [OF c] f by force
    with b have "carried g row pr (\<Union>m\<in>set ms. set (projr (f m False)))"
      by (intro btrfs_mount [OF True]) auto
    with collect_Inr(2,3) [OF c] show ?thesis by simp
  qed
next
  case False
  with m f show ?thesis by (auto simp: mount_over_def Let_def split: if_splits intro: block_mount)
qed

lemma disk_below_sound: "disk_below n g seen m pr = Inr a \<Longrightarrow> backed g m pr (set a) \<and> distinct a"
proof (induction n arbitrary: seen m pr a)
  case (Suc n)
  from Suc.prems obtain b where b: "map_of (gg_nodes g) m = Some b" by (auto split: if_splits option.splits)
  let ?f = "disk_below n g (m # seen)"
  consider (loop) p row where "gb_type b = ''loop''" "pr" "map_of (gg_loops g) m = Some p" "mountFor g p = Inr row"
      "mount_over ?f g row False = Inr a"
    | (disk) "gb_type b = ''disk''" "parents_of g m = []" "a = [m]"
    | (layer) "gb_type b \<in> set layer_types" "parents_of g m \<noteq> []" "collect (\<lambda>p. ?f p pr) (parents_of g m) = Inr a"
    using Suc.prems b by (auto simp: Let_def ok_then_Inr split: if_splits option.splits)
  then show ?case
  proof cases
    case loop
    from mount_over_sound [OF Suc.IH loop(5)] b loop show ?thesis by (auto intro: loop_file)
  next
    case disk
    with b show ?thesis by (auto intro: whole_disk)
  next
    case layer
    have "\<forall>p\<in>set (parents_of g m). backed g p pr (set (projr (?f p pr)))"
      using collect_Inr(1) [OF layer(3)] Suc.IH by force
    with b layer have "backed g m pr (\<Union>p\<in>set (parents_of g m). set (projr (?f p pr)))"
      by (intro block_layer) auto
    with collect_Inr(2,3) [OF layer(3)] show ?thesis by simp
  qed
qed simp

subsection \<open>What is derivable is found\<close>

text \<open>The search without the guard against cycles, as a device of the proof.\<close>

fun unguarded :: "nat \<Rightarrow> guest_graph \<Rightarrow> string \<Rightarrow> bool \<Rightarrow> guest_error + string list" where
  "unguarded 0 g major projected = Inl SearchFuel"
| "unguarded (Suc n) g major projected =
     (case map_of (gg_nodes g) major of
        None \<Rightarrow> Inl SearchFuel
      | Some node \<Rightarrow>
          if gb_type node = ''loop'' then
            (case map_of (gg_loops g) major of
               None \<Rightarrow> Inl SearchFuel
             | Some p \<Rightarrow>
                 if projected then ok_then (mountFor g p) (\<lambda>row. mount_over (unguarded n g) g row False) else Inl SearchFuel)
          else if gb_type node = ''disk'' then
            (if parents_of g major = [] then Inr [major] else Inl SearchFuel)
          else if gb_type node \<in> set layer_types \<and> parents_of g major \<noteq> []
          then collect (\<lambda>p. unguarded n g p projected) (parents_of g major)
          else Inl SearchFuel)"

declare unguarded.simps [simp del] disk_below.simps [simp del]

lemma layer_types_others [simp]: "''loop'' \<notin> set layer_types" "''disk'' \<notin> set layer_types"
  by code_simp+

lemma unguarded_Suc:
  "unguarded (Suc n) g m pr = Inr a \<longleftrightarrow>
     (\<exists>b. map_of (gg_nodes g) m = Some b \<and>
        ((gb_type b = ''loop'' \<and> pr \<and>
          (\<exists>p row. map_of (gg_loops g) m = Some p \<and> mountFor g p = Inr row \<and>
             mount_over (unguarded n g) g row False = Inr a)) \<or>
         (gb_type b = ''disk'' \<and> parents_of g m = [] \<and> a = [m]) \<or>
         (gb_type b \<in> set layer_types \<and> parents_of g m \<noteq> [] \<and>
          collect (\<lambda>p. unguarded n g p pr) (parents_of g m) = Inr a)))"
proof (cases "map_of (gg_nodes g) m")
  case (Some b)
  show ?thesis
  proof (cases "gb_type b \<in> set layer_types")
    case True
    then have "gb_type b \<noteq> ''loop''" "gb_type b \<noteq> ''disk''" by (metis layer_types_others)+
    with Some True show ?thesis by (simp add: unguarded.simps(2))
  next
    case False
    with Some show ?thesis
      by (cases "gb_type b = ''loop''"; cases "map_of (gg_loops g) m")
        (auto simp: unguarded.simps(2) ok_then_Inr)
  qed
qed (simp add: unguarded.simps(2))

lemma try_each_agree:
  assumes "try_each (\<lambda>x out. ok_then (f x) (\<lambda>a. Inr (fold List.insert a out))) xs out = Inr a"
    "\<And>x y. x \<in> set xs \<Longrightarrow> f x = Inr y \<Longrightarrow> f' x = Inr y"
  shows "try_each (\<lambda>x out. ok_then (f' x) (\<lambda>a. Inr (fold List.insert a out))) xs out = Inr a"
  using assms
proof (induction xs arbitrary: out)
  case (Cons x xs)
  then show ?case by (cases "f x") auto
qed simp

lemma collect_agree:
  assumes "collect f xs = Inr a" "collect h xs = Inr b"
    "\<And>x y z. f x = Inr y \<Longrightarrow> h x = Inr z \<Longrightarrow> f' x = Inr y"
  shows "collect f' xs = Inr a"
  unfolding collect_def
  by (rule try_each_agree [OF assms(1) [unfolded collect_def]]) (use collect_Inr(1) [OF assms(2)] assms(3) in blast)

lemma mount_over_agree:
  assumes f: "mount_over f g row pr = Inr a" and h: "mount_over h g row pr = Inr b"
    and agree: "\<And>m c x y. f m c = Inr x \<Longrightarrow> h m c = Inr y \<Longrightarrow> f' m c = Inr x"
  shows "mount_over f' g row pr = Inr a"
proof (cases "gm_fstype row = ''btrfs''")
  case True
  show ?thesis
  proof (rule carried_btrfs [OF True f], rule carried_btrfs [OF True h])
    fix physical ms physical' ms'
    assume "lookup_or [] (gg_aliases g) (mount_source row) = physical" "physical \<noteq> []"
      "gm_uuid row \<noteq> []" "lookup_or [] (gg_btrfs g) (gm_uuid row) = ms" "physical \<in> set ms" "distinct ms"
      "gb_uuid (block_at g physical) = gm_uuid row"
      "\<forall>m\<in>set ms. vmGuestMajor m \<and> gb_uuid (block_at g m) = gm_uuid row"
      "lookup_or [] (gg_btrfs g) (gm_uuid row) = ms'"
      and c: "collect (\<lambda>m. f m False) ms = Inr a" "collect (\<lambda>m. h m False) ms' = Inr b"
    moreover have "collect (\<lambda>m. f' m False) ms = Inr a"
      using collect_agree [OF c(1), of "\<lambda>m. h m False" b "\<lambda>m. f' m False"] c agree calculation by auto
    ultimately show ?thesis
      using True by (auto simp: mount_over_def Let_def ok_then_Inr btrfs_members_Inr collect_def)
  qed
next
  case False
  with f h agree show ?thesis by (auto simp: mount_over_def Let_def split: if_splits)
qed

lemma unguarded_mono: "unguarded n g m pr = Inr a \<Longrightarrow> n \<le> k \<Longrightarrow> unguarded k g m pr = Inr a"
proof (induction n arbitrary: k m pr a)
  case (Suc n)
  from Suc.prems(2) obtain j where k: "k = Suc j" "n \<le> j" by (cases k) auto
  have up: "unguarded j g x c = Inr y" if "unguarded n g x c = Inr y" for x c y
    using Suc.IH that k by blast
  have over: "mount_over (unguarded j g) g row False = Inr a" if "mount_over (unguarded n g) g row False = Inr a" for row
    by (rule mount_over_agree [OF that that]) (rule up)
  have parts: "collect (\<lambda>p. unguarded j g p pr) ps = Inr a" if "collect (\<lambda>p. unguarded n g p pr) ps = Inr a" for ps
    by (rule collect_agree [OF that that]) (rule up)
  from Suc.prems(1) show ?case unfolding k(1) unguarded_Suc using over parts by blast
qed (simp add: unguarded.simps)

lemma unguarded_projected: "unguarded n g m pr = Inr a \<Longrightarrow> unguarded n g m True = Inr a"
proof (induction n arbitrary: m pr a)
  case (Suc n)
  have parts: "collect (\<lambda>p. unguarded n g p True) ps = Inr a" if "collect (\<lambda>p. unguarded n g p pr) ps = Inr a" for ps
    by (rule collect_agree [OF that that]) (rule Suc.IH)
  from Suc.prems show ?case unfolding unguarded_Suc using parts by blast
qed (simp add: unguarded.simps)

lemma collect_reaches:
  fixes f :: "nat \<Rightarrow> 'a \<Rightarrow> 'e + string list"
  assumes "\<forall>x\<in>set xs. \<exists>n a. f n x = Inr a \<and> set a = S x"
    and mono: "\<And>n k x a. f n x = Inr a \<Longrightarrow> n \<le> k \<Longrightarrow> f k x = Inr a"
  shows "\<exists>n r. collect (f n) xs = Inr r \<and> set r = (\<Union>x\<in>set xs. S x)"
proof -
  have "\<exists>n. \<forall>x\<in>set xs. \<exists>a. f n x = Inr a \<and> set a = S x"
    using assms(1)
  proof (induction xs)
    case (Cons x xs)
    then obtain n k a where n: "\<forall>x\<in>set xs. \<exists>a. f n x = Inr a \<and> set a = S x"
      and k: "f k x = Inr a" "set a = S x" by auto
    have "\<exists>a. f (max n k) y = Inr a \<and> set a = S y" if "y \<in> set xs" for y
    proof -
      from n that obtain a where a: "f n y = Inr a" "set a = S y" by blast
      from mono [OF a(1) max.cobounded1] a(2) show ?thesis by blast
    qed
    moreover have "f (max n k) x = Inr a" using k mono [of k x a "max n k"] by simp
    ultimately have "\<forall>y\<in>set (x # xs). \<exists>a. f (max n k) y = Inr a \<and> set a = S y" using k(2) by simp
    then show ?case ..
  qed simp
  then obtain n where n: "\<forall>x\<in>set xs. \<exists>a. f n x = Inr a \<and> set a = S x" ..
  then have "\<forall>x\<in>set xs. \<exists>a. f n x = Inr a" by blast
  from collect_ok [OF this] obtain r where r: "collect (f n) xs = Inr r" ..
  have "\<forall>x\<in>set xs. set (projr (f n x)) = S x" using n by force
  with collect_Inr(2) [OF r] r show ?thesis by (intro exI [of _ n] exI [of _ r]) simp
qed

lemma backed_unguarded:
  "backed g m pr S \<Longrightarrow> \<exists>n a. unguarded n g m pr = Inr a \<and> set a = S"
  "carried g row pr S \<Longrightarrow> \<exists>n a. mount_over (unguarded n g) g row pr = Inr a \<and> set a = S"
proof (induction rule: backed_carried.inducts)
  case (whole_disk m b pr)
  then show ?case by (intro exI [of _ "Suc 0"] exI [of _ "[m]"]) (simp add: unguarded_Suc)
next
  case (block_layer m b pr S)
  have "\<exists>n r. collect (\<lambda>p. unguarded n g p pr) (parents_of g m) = Inr r \<and> set r = (\<Union>p\<in>set (parents_of g m). S p)"
    using block_layer.IH by (intro collect_reaches) (blast intro: unguarded_mono)+
  then obtain n r where "collect (\<lambda>p. unguarded n g p pr) (parents_of g m) = Inr r"
    "set r = (\<Union>p\<in>set (parents_of g m). S p)" by blast
  with block_layer show ?case by (intro exI [of _ "Suc n"] exI [of _ r]) (simp add: unguarded_Suc)
next
  case (loop_file m b p row S)
  then obtain n a where "mount_over (unguarded n g) g row False = Inr a" "set a = S" by blast
  with loop_file show ?case by (intro exI [of _ "Suc n"] exI [of _ a]) (simp add: unguarded_Suc)
next
  case (btrfs_mount row physical ms S pr)
  have "\<exists>n r. collect (\<lambda>m. unguarded n g m False) ms = Inr r \<and> set r = (\<Union>m\<in>set ms. S m)"
    using btrfs_mount.IH by (intro collect_reaches) (blast intro: unguarded_mono)+
  then obtain n r where "collect (\<lambda>m. unguarded n g m False) ms = Inr r" "set r = (\<Union>m\<in>set ms. S m)" by blast
  with btrfs_mount show ?case
    by (intro exI [of _ n] exI [of _ r]) (auto simp: mount_over_def Let_def ok_then_Inr btrfs_members_Inr collect_def)
next
  case (block_mount row pr S)
  then show ?case by (auto simp: mount_over_def Let_def)
qed

text \<open>Along every path of the search this number decreases, so no block is met inside itself.\<close>

definition search_rank :: "guest_graph \<Rightarrow> string \<Rightarrow> nat" where
  "search_rank g m = (LEAST n. \<exists>a. unguarded n g m True = Inr a)"

lemma search_rank:
  assumes "unguarded n g m pr = Inr a"
  obtains k b where "search_rank g m = Suc k" "unguarded (Suc k) g m True = Inr b"
proof -
  have ex: "\<exists>a. unguarded n g m True = Inr a" using unguarded_projected [OF assms] by blast
  from LeastI [of "\<lambda>n. \<exists>a. unguarded n g m True = Inr a", OF ex]
  obtain b where b: "unguarded (search_rank g m) g m True = Inr b" by (auto simp: search_rank_def)
  then show thesis using that by (cases "search_rank g m") (auto simp: unguarded.simps)
qed

lemma search_rank_le: "unguarded k g x c = Inr y \<Longrightarrow> search_rank g x \<le> k"
  unfolding search_rank_def by (rule Least_le) (auto dest: unguarded_projected)

lemma guarded:
  assumes "unguarded n g m pr = Inr a" "\<forall>s\<in>set seen. search_rank g m < search_rank g s" "unseen g seen < N"
  shows "disk_below N g seen m pr = Inr a"
  using assms
proof (induction N arbitrary: n seen m pr a)
  case (Suc N)
  then have fresh: "m \<notin> set seen" by auto
  obtain j where n: "n = Suc j" using Suc.prems(1) by (cases n) (auto simp: unguarded.simps)
  from search_rank [OF Suc.prems(1)] obtain k b where
    k: "search_rank g m = Suc k" "unguarded (Suc k) g m True = Inr b" by blast
  obtain node where node: "map_of (gg_nodes g) m = Some node"
    using Suc.prems(1) n by (auto simp: unguarded_Suc)
  have below: "disk_below N g (m # seen) x c = Inr y" if "unguarded j g x c = Inr y" "unguarded k g x d = Inr z"
    for x c d y z
  proof (rule Suc.IH [OF that(1)])
    show "\<forall>s\<in>set (m # seen). search_rank g x < search_rank g s"
      using search_rank_le [OF that(2)] k Suc.prems(2) by auto
    show "unseen g (m # seen) < N" using unseen_step [OF node fresh] Suc.prems(3) by simp
  qed
  have over: "mount_over (disk_below N g (m # seen)) g row False = Inr a"
    if "mount_over (unguarded j g) g row False = Inr a" "mount_over (unguarded k g) g row False = Inr b" for row a b
    by (rule mount_over_agree [OF that]) (rule below)
  have parts: "collect (\<lambda>p. disk_below N g (m # seen) p pr) ps = Inr a"
    if "collect (\<lambda>p. unguarded j g p pr) ps = Inr a" "collect (\<lambda>p. unguarded k g p True) ps = Inr b" for ps a b
    by (rule collect_agree [OF that]) (rule below)
  consider (loop) p row where "gb_type node = ''loop''" "pr" "map_of (gg_loops g) m = Some p" "mountFor g p = Inr row"
      "mount_over (unguarded j g) g row False = Inr a" "mount_over (unguarded k g) g row False = Inr b"
    | (disk) "gb_type node = ''disk''" "parents_of g m = []" "a = [m]"
    | (layer) "gb_type node \<in> set layer_types" "parents_of g m \<noteq> []"
      "collect (\<lambda>p. unguarded j g p pr) (parents_of g m) = Inr a"
      "collect (\<lambda>p. unguarded k g p True) (parents_of g m) = Inr b"
    using Suc.prems(1) k(2) node unfolding n unguarded_Suc by fastforce
  then show ?case
  proof cases
    case loop
    with over [OF loop(5,6)] fresh node show ?thesis by (simp add: disk_below.simps(2) Let_def)
  next
    case disk
    with fresh node show ?thesis by (simp add: disk_below.simps(2) Let_def)
  next
    case layer
    then have "gb_type node \<noteq> ''loop''" "gb_type node \<noteq> ''disk''" by (metis layer_types_others)+
    with layer parts [OF layer(3,4)] fresh node show ?thesis by (simp add: disk_below.simps(2) Let_def)
  qed
qed simp

lemma blocks_bound: "unseen g [] \<le> length (gg_nodes g)"
  using card_image_le [of "set (gg_nodes g)" fst] card_length [of "gg_nodes g"] by (simp add: unseen_def)

lemma disk_refuses: "disk g m pr = Inl e \<Longrightarrow> \<exists>s. e = Refused s"
  using blocks_bound [of g] disk_below_refuses [of g "[]" "Suc (length (gg_nodes g))" m pr e] by (simp add: disk_def)

lemma mount_refuses: "mount g row pr = Inl e \<Longrightarrow> \<exists>s. e = Refused s"
  using mount_over_error [of "disk g" g row pr e] disk_refuses by (auto simp: mount_def)

lemma disk_iff: "backed g m pr S \<longleftrightarrow> (\<exists>a. disk g m pr = Inr a \<and> set a = S \<and> distinct a)"
proof
  assume "backed g m pr S"
  from backed_unguarded(1) [OF this] obtain n a where a: "unguarded n g m pr = Inr a" "set a = S" by blast
  with guarded [OF a(1), of "[]" "Suc (length (gg_nodes g))"] blocks_bound [of g] have "disk g m pr = Inr a"
    by (simp add: disk_def)
  with a disk_below_sound show "\<exists>a. disk g m pr = Inr a \<and> set a = S \<and> distinct a"
    unfolding disk_def by blast
qed (auto simp: disk_def dest: disk_below_sound)

lemma mount_sound: "mount g row pr = Inr a \<Longrightarrow> carried g row pr (set a) \<and> distinct a"
  unfolding mount_def disk_def by (rule mount_over_sound) (rule disk_below_sound)

lemma mount_iff: "carried g row pr S \<longleftrightarrow> (\<exists>a. mount g row pr = Inr a \<and> set a = S \<and> distinct a)"
proof
  assume "carried g row pr S"
  from backed_unguarded(2) [OF this] obtain n a where
    a: "mount_over (unguarded n g) g row pr = Inr a" "set a = S" by blast
  have "disk g x c = Inr y" if "unguarded n g x c = Inr y" for x c y
    using guarded [OF that, of "[]" "Suc (length (gg_nodes g))"] blocks_bound [of g] by (simp add: disk_def)
  then have "mount g row pr = Inr a"
    unfolding mount_def by (intro mount_over_agree [OF a(1) a(1)])
  with a mount_sound show "\<exists>a. mount g row pr = Inr a \<and> set a = S \<and> distinct a" by blast
qed (auto dest: mount_sound)

lemma require_iff:
  "require_target g row = None \<longleftrightarrow> carried g row (gm_fstype row = ''erofs'') {gg_target g}"
proof -
  have "length a = 1 \<and> t \<in> set a \<longleftrightarrow> set a = {t}" if "distinct a" for a and t :: string
    using distinct_card [OF that] that by (cases a; cases "tl a") (auto simp: insert_absorb)
  then show ?thesis
    by (cases "mount g row (gm_fstype row = ''erofs'')") (auto simp: mount_iff require_target_def dest: mount_sound)
qed

subsection \<open>The verdict\<close>

text \<open>
  The reference: the root of a plain mount, or each layer of an overlay root, rests on the
  selected disk; no layer is served by the root mount itself, and the writable layers are on
  one filesystem.
\<close>

definition layer_on_target :: "guest_graph \<Rightarrow> string \<Rightarrow> bool" where
  "layer_on_target g p \<longleftrightarrow>
     (\<exists>r. mountFor g p = Inr r \<and> gm_target r \<noteq> ''/'' \<and> carried g r (gm_fstype r = ''erofs'') {gg_target g})"

definition one_writable_mount :: "guest_graph \<Rightarrow> string smap \<Rightarrow> bool" where
  "one_writable_mount g layers \<longleftrightarrow>
     lookup_or [] layers ''upperdir'' = [] \<or>
     (\<exists>u w. mountFor g (lookup_or [] layers ''upperdir'') = Inr u \<and>
        mountFor g (lookup_or [] layers ''workdir'') = Inr w \<and> gm_major u = gm_major w \<and> gm_source u = gm_source w)"

definition root_on_target :: "guest_graph \<Rightarrow> bool" where
  "root_on_target g \<longleftrightarrow>
     (\<exists>row. mountAt g ''/'' = Inr row \<and>
        (if gm_fstype row \<noteq> ''overlay'' then carried g row (gm_fstype row = ''erofs'') {gg_target g}
         else (\<exists>layers paths. overlay_layers row = Inr layers \<and> try_each layer_paths layers [] = Inr paths \<and>
                length paths \<le> 32 \<and> one_writable_mount g layers \<and> (\<forall>p\<in>set paths. layer_on_target g p))))"

lemma require_paths_iff: "require_paths g ps = None \<longleftrightarrow> (\<forall>p\<in>set ps. layer_on_target g p)"
proof (induction ps)
  case (Cons p ps)
  then show ?case
    by (auto simp: layer_on_target_def require_iff [symmetric] split: sum.splits option.splits)
qed simp

lemma writable_iff: "writable_layers_agree g layers = None \<longleftrightarrow> one_writable_mount g layers"
  by (auto simp: writable_layers_agree_def one_writable_mount_def Let_def split: sum.splits)

lemma verifyRoot_iff: "verifyRoot g = None \<longleftrightarrow> root_on_target g"
proof (cases "mountAt g ''/''")
  case (Inl e)
  then show ?thesis by (cases e) (auto simp: verifyRoot_def root_on_target_def)
next
  case (Inr row)
  show ?thesis
  proof (cases "gm_fstype row = ''overlay''")
    case False
    with Inr show ?thesis by (simp add: verifyRoot_def root_on_target_def require_iff)
  next
    case True
    with Inr show ?thesis
      by (auto simp: verifyRoot_def root_on_target_def require_paths_iff writable_iff
          split: sum.splits option.splits simp flip: writable_iff)
  qed
qed

text \<open>
  C23: the guest's root rests on the selected disk and on nothing else. The engine accepts the
  measured root exactly when the inventories give a graph in which a finite derivation leads
  from the root mount, or from every layer of an overlay root, to that one disk: each parent of
  a partition or an array, each member of a Btrfs filesystem, and the file behind a loop of an
  erofs projection included. A cycle, a second disk or an unknown kind of block is a refusal.
\<close>

theorem guest_root_exact:
  "verifyVMGuestRoot tokens rt disk_id = None \<longleftrightarrow>
     (\<exists>g. measured_graph tokens rt disk_id = Inr g \<and> root_on_target g)"
  by (auto simp: verifyVMGuestRoot_def verifyRoot_iff split: sum.splits)

subsection \<open>Termination\<close>

lemma try_each_error: "try_each f xs s = Inl e \<Longrightarrow> \<exists>x\<in>set xs. \<exists>s. f x s = Inl e"
proof (induction xs arbitrary: s)
  case (Cons x xs)
  then show ?case by (cases "f x s") auto
qed simp

definition no_fuel :: "guest_error \<Rightarrow> bool" where
  "no_fuel e \<longleftrightarrow> e \<noteq> SearchFuel \<and> e \<noteq> GraphJson WalkerFuel"

lemma no_fuel_simps [simp]:
  "no_fuel (Refused s)" "\<not> no_fuel SearchFuel" "no_fuel (GraphJson e) \<longleftrightarrow> e \<noteq> WalkerFuel"
  by (simp_all add: no_fuel_def)

lemma ok_then_Inl: "ok_then r f = Inl e \<longleftrightarrow> r = Inl e \<or> (\<exists>x. r = Inr x \<and> f x = Inl e)"
  by (cases r) auto

lemma rows_no_fuel: "graph_rows tokens row field t = Inl e \<Longrightarrow> no_fuel e"
  by (auto simp: graph_rows_def vmGuestGraphJSON_def vmGuestGraphText_def decodeQMPObject_returns
      split: sum.splits option.splits if_splits)

lemma enter_block_no_fuel: "enter_block d p r st = Inl e \<Longrightarrow> no_fuel e"
  by (cases st) (auto simp: enter_block_def Let_def ok_then_Inl add_alias_def split: if_splits option.splits)

lemma visit_blocks_no_fuel: "visit_blocks disk_id depth parent rs st = Inl e \<Longrightarrow> no_fuel e"
proof (induction disk_id depth parent rs st arbitrary: e rule: visit_blocks.induct)
  case (2 disk_id depth parent r rs st)
  show ?case
  proof (cases "enter_block disk_id parent r st")
    case (Inr st1)
    show ?thesis
    proof (cases "gb_children r")
      case None
      with 2 Inr show ?thesis by simp
    next
      case (Some cs)
      show ?thesis
      proof (cases "32 < depth + 1")
        case False
        note below = 2(1) [OF Inr Some False] and later = 2(2) [OF Inr]
        from below later 2(3) Inr Some False show ?thesis
          by (cases "visit_blocks disk_id (depth + 1) (gb_major r) cs st1") auto
      qed (use 2(3) Inr Some in auto)
    qed
  qed (use 2(3) in \<open>simp add: enter_block_no_fuel\<close>)
qed simp

lemma enter_mount_no_fuel: "enter_mount r st = Inl e \<Longrightarrow> no_fuel e"
  by (cases st) (auto simp: enter_mount_def Let_def split: if_splits)

lemma visit_mounts_no_fuel: "visit_mounts depth rs st = Inl e \<Longrightarrow> no_fuel e"
proof (induction depth rs st arbitrary: e rule: visit_mounts.induct)
  case (2 depth r rs st)
  show ?case
  proof (cases "enter_mount r st")
    case (Inr st1)
    show ?thesis
    proof (cases "gm_children r")
      case None
      with 2 Inr show ?thesis by simp
    next
      case (Some cs)
      show ?thesis
      proof (cases "32 < depth + 1")
        case False
        note below = 2(1) [OF Inr Some False] and later = 2(2) [OF Inr]
        from below later 2(3) Inr Some False show ?thesis
          by (cases "visit_mounts (depth + 1) cs st1") auto
      qed (use 2(3) Inr Some in auto)
    qed
  qed (use 2(3) in \<open>simp add: enter_mount_no_fuel\<close>)
qed simp

lemma measured_graph_no_fuel: "measured_graph tokens rt d = Inl e \<Longrightarrow> no_fuel e"
  unfolding measured_graph_def Let_def ok_then_Inl
  by (elim disjE exE conjE)
    (auto simp: measured_blocks_def measured_mounts_def measured_loops_def measured_lines_def
        vmGuestGraphText_def enter_loop_def enter_path_def enter_btrfs_def ok_then_Inl Let_def
      dest!: rows_no_fuel visit_blocks_no_fuel visit_mounts_no_fuel try_each_error
      split: option.splits if_splits prod.splits list.splits)

end
