(* ===== verification/Guest_Selected.thy ===== *)
theory Guest_Selected
  imports Guest_Ancestry_Props
begin

text \<open>
  Which disk an accepted root names: the one whole disk that was measured with the identity of
  the installation, and the device the guest was asked about is a name of it. The inventory of
  blocks keeps an invariant; what is entered later leaves the blocks alone. Also here: the
  verification returns for every input, and a composefs root as an example.
\<close>

subsection \<open>The invariant of the block inventory\<close>

definition wanted :: "string \<Rightarrow> guest_block \<Rightarrow> bool" where
  "wanted disk_id b \<longleftrightarrow> gb_type b = ''disk'' \<and> gb_ptuuid b = disk_id"

definition blocks_inv :: "string \<Rightarrow> guest_graph \<times> string list \<Rightarrow> bool" where
  "blocks_inv disk_id st \<longleftrightarrow>
     (\<forall>m. m \<in> set (snd st) \<longleftrightarrow> (\<exists>b. map_of (gg_nodes (fst st)) m = Some b \<and> wanted disk_id b)) \<and>
     distinct (snd st) \<and> map_of (gg_nodes (fst st)) [] = None \<and>
     (\<forall>a m. map_of (gg_aliases (fst st)) a = Some m \<longrightarrow>
        (\<exists>b. map_of (gg_nodes (fst st)) m = Some b \<and> (a = gb_name b \<or> a = gb_kname b)))"

lemma blocks_inv_names:
  "blocks_inv d (g, sel) \<Longrightarrow> map_of (gg_aliases g) a = Some m \<Longrightarrow>
     \<exists>b. map_of (gg_nodes g) m = Some b \<and> (a = gb_name b \<or> a = gb_kname b)"
  by (simp add: blocks_inv_def)

lemma blocks_inv_wanted:
  "blocks_inv d (g, sel) \<Longrightarrow> m \<in> set sel \<longleftrightarrow> (\<exists>b. map_of (gg_nodes g) m = Some b \<and> wanted d b)"
  by (simp add: blocks_inv_def)

lemma map_of_update [simp]: "map_of (AList.update k v al) = (map_of al)(k \<mapsto> v)"
  by (rule update_conv')

lemma same_block_wanted: "same_block old r \<Longrightarrow> wanted d r = wanted d old"
  by (simp add: same_block_def wanted_def)

lemma add_alias_Inr:
  "add_alias major a g = Inr g1 \<Longrightarrow>
     gg_nodes g1 = gg_nodes g \<and> map_of (gg_aliases g1) = (map_of (gg_aliases g))(a \<mapsto> major)"
  by (auto simp: add_alias_def fun_upd_triv split: option.splits if_splits)

lemma vmGuestMajor_ne: "vmGuestMajor s \<Longrightarrow> s \<noteq> []"
  by (cases "s = []") (auto simp: vmGuestMajor_def)

lemma enter_block_inv:
  assumes inv: "blocks_inv d st" and ok: "enter_block d p r st = Inr st1"
  shows "blocks_inv d st1"
proof -
  obtain g sel where st: "st = (g, sel)" by (cases st)
  let ?m = "gb_major r"
  from ok st have major: "?m \<noteq> []"
    by (auto simp: enter_block_def Let_def dest: vmGuestMajor_ne split: if_splits)
  from ok st obtain g1 where
    old: "\<forall>old. map_of (gg_nodes g) ?m = Some old \<longrightarrow> same_block old r" and
    g1: "try_each (add_alias ?m) [gb_name r, gb_kname r] (g\<lparr>gg_nodes := AList.update ?m r (gg_nodes g)\<rparr>) = Inr g1" and
    st1: "st1 = (add_parent p ?m g1, if wanted d r then List.insert ?m sel else sel)"
    by (auto simp: enter_block_def Let_def wanted_def ok_then_Inr split: if_splits option.splits)
  from g1 have nodes: "map_of (gg_nodes g1) = (map_of (gg_nodes g))(?m \<mapsto> r)" and
    aliases: "map_of (gg_aliases g1) = (map_of (gg_aliases g))(gb_name r \<mapsto> ?m, gb_kname r \<mapsto> ?m)"
    by (auto simp: ok_then_Inr dest!: add_alias_Inr)
  have sel: "(m \<in> set (if wanted d r then List.insert ?m sel else sel)) =
      (\<exists>b. ((map_of (gg_nodes g))(?m \<mapsto> r)) m = Some b \<and> wanted d b)" for m
    using inv old unfolding st blocks_inv_def by (auto simp: same_block_wanted)
  have names: "\<exists>b. ((map_of (gg_nodes g))(?m \<mapsto> r)) m = Some b \<and> (a = gb_name b \<or> a = gb_kname b)"
    if "((map_of (gg_aliases g))(gb_name r \<mapsto> ?m, gb_kname r \<mapsto> ?m)) a = Some m" for a m
  proof (cases "a = gb_name r \<or> a = gb_kname r")
    case True
    with that show ?thesis by (auto split: if_splits)
  next
    case False
    with that have "map_of (gg_aliases g) a = Some m" by simp
    from blocks_inv_names [OF inv [unfolded st] this]
    obtain b where b: "map_of (gg_nodes g) m = Some b" "a = gb_name b \<or> a = gb_kname b" by blast
    then show ?thesis using old False by (cases "m = ?m") (auto simp: same_block_def)
  qed
  show ?thesis
    using sel names inv major unfolding st st1 blocks_inv_def
    by (auto simp: add_parent_def nodes aliases)
qed

lemma visit_blocks_inv:
  "visit_blocks disk_id depth parent rs st = Inr st1 \<Longrightarrow> blocks_inv disk_id st \<Longrightarrow> blocks_inv disk_id st1"
proof (induction disk_id depth parent rs st arbitrary: st1 rule: visit_blocks.induct)
  case (2 disk_id depth parent r rs st)
  from 2(3) obtain st2 st3 where e: "enter_block disk_id parent r st = Inr st2"
    and k: "(case gb_children r of None \<Rightarrow> Inr st2
       | Some cs \<Rightarrow> if 32 < depth + 1 then Inl (Refused ''block inventory unavailable'')
                  else visit_blocks disk_id (depth + 1) (gb_major r) cs st2) = Inr st3"
    and l: "visit_blocks disk_id depth parent rs st3 = Inr st1"
    by (auto simp: ok_then_Inr)
  have inv2: "blocks_inv disk_id st2" by (rule enter_block_inv [OF 2(4) e])
  have inv3: "blocks_inv disk_id st3"
  proof (cases "gb_children r")
    case None
    with k inv2 show ?thesis by simp
  next
    case (Some cs)
    with k have n: "\<not> 32 < depth + 1" by (auto split: if_splits)
    with k Some have "visit_blocks disk_id (depth + 1) (gb_major r) cs st2 = Inr st3" by simp
    from 2(1) [OF e Some n this inv2] show ?thesis .
  qed
  from 2(2) [OF e k l inv3] show ?case .
qed simp

text \<open>What follows the blocks.\<close>

definition same_blocks :: "guest_graph \<Rightarrow> guest_graph \<Rightarrow> bool" where
  "same_blocks g g1 \<longleftrightarrow> gg_nodes g1 = gg_nodes g \<and> gg_aliases g1 = gg_aliases g \<and> gg_target g1 = gg_target g"

lemma same_blocks_refl [simp]: "same_blocks g g"
  by (simp add: same_blocks_def)

lemma same_blocks_trans [trans]: "same_blocks g g1 \<Longrightarrow> same_blocks g1 g2 \<Longrightarrow> same_blocks g g2"
  by (simp add: same_blocks_def)

lemma try_each_keeps:
  "try_each f xs g = Inr g1 \<Longrightarrow> (\<forall>x\<in>set xs. \<forall>a b. f x a = Inr b \<longrightarrow> same_blocks a b) \<Longrightarrow> same_blocks g g1"
proof (induction xs arbitrary: g)
  case (Cons x xs)
  from Cons.prems obtain g2 where "f x g = Inr g2" "try_each f xs g2 = Inr g1" by (auto simp: ok_then_Inr)
  with Cons show ?case by (fastforce intro: same_blocks_trans)
qed simp

lemma enter_mount_keeps: "enter_mount r st = Inr st1 \<Longrightarrow> same_blocks (fst st) (fst st1)"
  by (cases st) (auto simp: enter_mount_def Let_def same_blocks_def split: if_splits)

lemma visit_mounts_keeps: "visit_mounts depth rs st = Inr st1 \<Longrightarrow> same_blocks (fst st) (fst st1)"
proof (induction depth rs st arbitrary: st1 rule: visit_mounts.induct)
  case (2 depth r rs st)
  from 2(3) obtain st2 st3 where e: "enter_mount r st = Inr st2"
    and k: "(case gm_children r of None \<Rightarrow> Inr st2
       | Some cs \<Rightarrow> if 32 < depth + 1 then Inl (Refused ''mount inventory unavailable'')
                  else visit_mounts (depth + 1) cs st2) = Inr st3"
    and l: "visit_mounts depth rs st3 = Inr st1"
    by (auto simp: ok_then_Inr)
  have "same_blocks (fst st2) (fst st3)"
  proof (cases "gm_children r")
    case None
    with k show ?thesis by simp
  next
    case (Some cs)
    with k have n: "\<not> 32 < depth + 1" by (auto split: if_splits)
    with k Some have "visit_mounts (depth + 1) cs st2 = Inr st3" by simp
    from 2(1) [OF e Some n this] show ?thesis .
  qed
  with enter_mount_keeps [OF e] 2(2) [OF e k l] show ?case by (blast intro: same_blocks_trans)
qed simp

lemma entered_keeps:
  "enter_loop l g = Inr g1 \<Longrightarrow> same_blocks g g1"
  "enter_path t g = Inr g1 \<Longrightarrow> same_blocks g g1"
  "enter_btrfs t g = Inr g1 \<Longrightarrow> same_blocks g g1"
  by (auto simp: enter_loop_def enter_path_def enter_btrfs_def same_blocks_def split: list.splits if_splits)

lemma measured_keeps:
  "measured_loops ls g = Inr g1 \<Longrightarrow> same_blocks g g1"
  "measured_lines enter_path t g = Inr g1 \<Longrightarrow> same_blocks g g1"
  "measured_lines enter_btrfs t g = Inr g1 \<Longrightarrow> same_blocks g g1"
  by (auto simp: measured_loops_def measured_lines_def ok_then_Inr entered_keeps split: option.splits if_splits
      elim!: try_each_keeps)

lemma measured_graph_blocks:
  assumes "measured_graph tokens rt d = Inr g"
  obtains rows g1 where "measured_blocks rows (gr_target rt) d = Inr g1" "same_blocks g1 g"
proof -
  from assms obtain rows ms ls g1 g2 g3 g4 where
    b: "measured_blocks rows (gr_target rt) d = Inr g1" and m: "measured_mounts ms g1 = Inr g2"
    and l: "measured_loops ls g2 = Inr g3" and p: "measured_lines enter_path (lookup_or [] (gr_measurements rt) ''PATHS'') g3 = Inr g4"
    and t: "measured_lines enter_btrfs (lookup_or [] (gr_measurements rt) ''BTRFS'') g4 = Inr g"
    unfolding measured_graph_def Let_def by (auto simp: ok_then_Inr)
  from m have "same_blocks g1 g2"
    by (auto simp: measured_mounts_def ok_then_Inr dest!: visit_mounts_keeps split: option.splits)
  also from l have "same_blocks g2 g3" by (rule measured_keeps)
  also from p have "same_blocks g3 g4" by (rule measured_keeps)
  also from t have "same_blocks g4 g" by (rule measured_keeps)
  finally show thesis using that b by blast
qed

lemma measured_selection:
  assumes "measured_blocks rows target d = Inr g"
  shows "\<exists>b. map_of (gg_nodes g) (gg_target g) = Some b \<and> wanted d b \<and> target \<in> {gb_name b, gb_kname b} \<and>
    (\<forall>m c. map_of (gg_nodes g) m = Some c \<longrightarrow> wanted d c \<longrightarrow> m = gg_target g)"
proof -
  from assms obtain rs g1 sel where v: "visit_blocks d 0 [] rs (no_graph, []) = Inr (g1, sel)"
    and sel: "length sel = 1" "lookup_or [] (gg_aliases g1) target \<in> set sel"
      "gb_type (block_at g1 (lookup_or [] (gg_aliases g1) target)) = ''disk''"
    and g: "g = g1\<lparr>gg_target := lookup_or [] (gg_aliases g1) target\<rparr>"
    by (auto simp: measured_blocks_def ok_then_Inr Let_def split: option.splits if_splits)
  let ?t = "lookup_or [] (gg_aliases g1) target"
  have inv: "blocks_inv d (g1, sel)"
    by (rule visit_blocks_inv [OF v]) (simp add: blocks_inv_def no_graph_def)
  from sel(1,2) have only: "m \<in> set sel \<longleftrightarrow> m = ?t" for m by (cases sel) auto
  from inv sel(2) obtain b where b: "map_of (gg_nodes g1) ?t = Some b" "wanted d b" by (auto simp: blocks_inv_def)
  have nm: "map_of (gg_aliases g1) target = Some ?t"
  proof (cases "map_of (gg_aliases g1) target")
    case None
    with sel(2) only have "[] \<in> set sel" by (simp add: lookup_or_def)
    with inv show ?thesis by (auto simp: blocks_inv_def)
  qed (simp add: lookup_or_def)
  from blocks_inv_names [OF inv nm] b(1) have names: "target \<in> {gb_name b, gb_kname b}" by auto
  have unique: "m = ?t" if "map_of (gg_nodes g1) m = Some c" "wanted d c" for m c
  proof -
    have "m \<in> set sel" unfolding blocks_inv_wanted [OF inv] using that by blast
    then show ?thesis unfolding only .
  qed
  have g_parts: "gg_nodes g = gg_nodes g1" "gg_target g = ?t" by (simp_all add: g)
  show ?thesis
    unfolding g_parts by (intro exI [of _ b] conjI allI impI) (rule b names unique; assumption)+
qed

subsection \<open>No refusal is a lack of fuel\<close>

lemma require_no_fuel: "require_target g row = Some e \<Longrightarrow> no_fuel e"
  by (auto simp: require_target_def split: sum.splits if_splits dest!: mount_refuses)

lemma require_paths_no_fuel: "require_paths g ps = Some e \<Longrightarrow> no_fuel e"
proof (induction ps)
  case (Cons p ps)
  show ?case
  proof (cases "mountFor g p")
    case (Inl e1)
    with Cons.prems mountFor_refuses [OF Inl] show ?thesis by auto
  next
    case (Inr r)
    with Cons show ?thesis
      by (cases "require_target g r") (auto simp: require_no_fuel split: if_splits)
  qed
qed simp

lemma enter_layer_refuses: "enter_layer opt layers = Inl e \<Longrightarrow> \<exists>s. e = Refused s"
  unfolding enter_layer_def Let_def by (clarsimp split: prod.splits option.splits if_split_asm)

lemma layer_paths_refuses: "layer_paths l ps = Inl e \<Longrightarrow> \<exists>s. e = Refused s"
  unfolding layer_paths_def Let_def by (clarsimp split: prod.splits if_split_asm)

lemma layers_no_fuel:
  "overlay_layers row = Inl e \<Longrightarrow> no_fuel e"
  "try_each layer_paths layers paths = Inl e \<Longrightarrow> no_fuel e"
  by (auto simp: overlay_layers_def ok_then_Inl split: if_splits
      dest!: try_each_error enter_layer_refuses layer_paths_refuses)

lemma verifyRoot_no_fuel: "verifyRoot g = Some e \<Longrightarrow> no_fuel e"
  by (auto simp: verifyRoot_def writable_layers_agree_def Let_def
      dest!: mountAt_refuses mountFor_refuses dest: require_no_fuel require_paths_no_fuel layers_no_fuel
      split: sum.splits if_splits option.splits guest_error.splits)

subsection \<open>The verdict\<close>

text \<open>
  C24: an accepted root names the selected disk. When the engine accepts the measured root, the
  graph has exactly one whole disk with the identity of this installation, the device the guest
  was asked about is a name of that disk, and the root rests on it alone.
\<close>

theorem guest_root_selected:
  assumes "verifyVMGuestRoot tokens rt disk_id = None"
  shows "\<exists>g b. measured_graph tokens rt disk_id = Inr g \<and> root_on_target g \<and>
    map_of (gg_nodes g) (gg_target g) = Some b \<and> wanted disk_id b \<and> gr_target rt \<in> {gb_name b, gb_kname b} \<and>
    (\<forall>m c. map_of (gg_nodes g) m = Some c \<longrightarrow> wanted disk_id c \<longrightarrow> m = gg_target g)"
proof -
  from assms obtain g where g: "measured_graph tokens rt disk_id = Inr g" "root_on_target g"
    by (auto simp: verifyVMGuestRoot_def verifyRoot_iff split: sum.splits)
  from measured_graph_blocks [OF g(1)] obtain rows g1 where
    "measured_blocks rows (gr_target rt) disk_id = Inr g1" "same_blocks g1 g" .
  with measured_selection g show ?thesis by (fastforce simp: same_blocks_def)
qed

text \<open>
  C25: the verification of a guest's root always returns. Whatever the guest prints, block graphs
  with cycles, mounts that back each other and endless nesting included, neither the search nor
  the walk over the JSON runs out of its fuel.
\<close>

theorem guest_root_returns:
  "verifyVMGuestRoot tokens rt disk_id \<noteq> Some SearchFuel \<and>
   verifyVMGuestRoot tokens rt disk_id \<noteq> Some (GraphJson WalkerFuel)"
proof -
  have "no_fuel e" if "verifyVMGuestRoot tokens rt disk_id = Some e" for e
    using that verifyRoot_no_fuel measured_graph_no_fuel
    by (auto simp: verifyVMGuestRoot_def split: sum.splits)
  then show ?thesis by force
qed

subsection \<open>A composefs root\<close>

text \<open>
  An overlay over an erofs image in a loop whose file lies on the partition that also holds the
  writable layers. The documents are given as values; only the resolved paths are a real text.
\<close>

definition sample_disk_id :: string where
  "sample_disk_id = ''12345678-1234-1234-1234-123456789abc''"

definition sample_blocks :: json where
  "sample_blocks =
     JObj [(''blockdevices'', JArr [JObj [(''name'', JStr ''/dev/vdb''), (''kname'', JStr
     ''/dev/vdb''), (''type'', JStr ''disk''), (''maj:min'', JStr ''8:16''), (''ptuuid'', JStr
     ''12345678-1234-1234-1234-123456789abc''), (''children'', JArr [JObj [(''name'', JStr
     ''/dev/vdb3''), (''kname'', JStr ''/dev/vdb3''), (''type'', JStr ''part''), (''maj:min'', JStr
     ''8:19'')]])], JObj [(''name'', JStr ''/dev/loop0''), (''kname'', JStr ''/dev/loop0''),
     (''type'', JStr ''loop''), (''maj:min'', JStr ''7:0'')]])]"

definition sample_mounts :: json where
  "sample_mounts =
     JObj [(''filesystems'', JArr [JObj [(''target'', JStr ''/''), (''source'', JStr ''overlay''),
     (''maj:min'', JStr ''0:55''), (''fstype'', JStr ''overlay''), (''options'', JStr
     ''rw,lowerdir=/lower,upperdir=/var/upper,workdir=/var/work'')], JObj [(''target'', JStr
     ''/lower''), (''source'', JStr ''/dev/loop0''), (''maj:min'', JStr ''7:0''), (''fstype'', JStr
     ''erofs''), (''options'', JStr ''ro'')], JObj [(''target'', JStr ''/var''), (''source'', JStr
     ''/dev/vdb3''), (''maj:min'', JStr ''8:19''), (''fstype'', JStr ''ext4''), (''options'', JStr
     ''rw'')]])]"

definition sample_loops :: json where
  "sample_loops =
     JObj [(''loopdevices'', JArr [JObj [(''name'', JStr ''/dev/loop0''), (''maj:min'', JStr
     ''7:0''), (''back-file'', JStr ''/var/image'')]])]"

definition sample_tokens :: "string \<Rightarrow> json_token list" where
  "sample_tokens s =
     (if s = ''B'' then json_tokens sample_blocks
      else if s = ''M'' then json_tokens sample_mounts
      else if s = ''L'' then json_tokens sample_loops else [])"

definition sample_root :: guest_root where
  "sample_root =
     \<lparr>gr_target = ''/dev/vdb'', gr_disk = sample_disk_id, gr_verified = True,
      gr_measurements =
        [(''BLOCKS'', ''Qg==''), (''MOUNTS'', ''TQ==''), (''LOOPS'', ''TA==''), (''BTRFS'', []),
         (''PATHS'', ''L2xvd2VyCS9sb3dlcgovdmFyL3VwcGVyCS92YXIvdXBwZXIKL3Zhci93b3JrCS92YXIvd29yawovdmFyL2ltYWdlCS92YXIvaW1hZ2U='')]\<rparr>"

text \<open>The rows they decode to and the graph, step by step.\<close>

definition sample_block_rows :: "guest_block list" where
  "sample_block_rows =
     [Guest_Block ''/dev/vdb'' ''/dev/vdb'' ''disk'' ''8:16'' [] sample_disk_id
        (Some [Guest_Block ''/dev/vdb3'' ''/dev/vdb3'' ''part'' ''8:19'' [] [] None []]) [],
      Guest_Block ''/dev/loop0'' ''/dev/loop0'' ''loop'' ''7:0'' [] [] None []]"

definition sample_mount_rows :: "guest_mount list" where
  "sample_mount_rows =
     [Guest_Mount ''/'' ''overlay'' ''overlay'' ''0:55''
        ''rw,lowerdir=/lower,upperdir=/var/upper,workdir=/var/work'' [] None,
      Guest_Mount ''/lower'' ''/dev/loop0'' ''erofs'' ''7:0'' ''ro'' [] None,
      Guest_Mount ''/var'' ''/dev/vdb3'' ''ext4'' ''8:19'' ''rw'' [] None]"

definition sample_loop_rows :: "guest_loop list" where
  "sample_loop_rows = [\<lparr>gl_name = ''/dev/loop0'', gl_major = ''7:0'', gl_file = ''/var/image''\<rparr>]"

definition sample_paths :: string where
  "sample_paths = ''/lower'' @ [CHR 9] @ ''/lower'' @ [CHR 10] @ ''/var/upper'' @ [CHR 9] @ ''/var/upper'' @ [CHR 10] @
     ''/var/work'' @ [CHR 9] @ ''/var/work'' @ [CHR 10] @ ''/var/image'' @ [CHR 9] @ ''/var/image''"

definition sample_graph :: guest_graph where
  "sample_graph =
     \<lparr>gg_nodes = [(''8:16'', sample_block_rows ! 0), (''8:19'', the (gb_children (sample_block_rows ! 0)) ! 0),
        (''7:0'', sample_block_rows ! 1)],
      gg_aliases = [(''/dev/vdb'', ''8:16''), (''/dev/vdb3'', ''8:19''), (''/dev/loop0'', ''7:0'')],
      gg_parents = [(''8:16'', []), (''8:19'', [''8:16'']), (''7:0'', [])],
      gg_mounts = map (\<lambda>r. (gm_target r, r)) sample_mount_rows, gg_stacked = [],
      gg_loops = [(''7:0'', ''/var/image'')],
      gg_paths = map (\<lambda>p. (p, p)) [''/lower'', ''/var/upper'', ''/var/work'', ''/var/image''],
      gg_btrfs = [], gg_target = ''8:16''\<rparr>"

definition sample_before :: guest_graph where
  "sample_before = sample_graph\<lparr>gg_mounts := [], gg_loops := [], gg_paths := []\<rparr>"

lemma sample_rows_1: "graph_rows sample_tokens unmarshal_block ''blockdevices'' ''Qg=='' = Inr (Some sample_block_rows)"
  by code_simp

lemma sample_rows_2: "graph_rows sample_tokens unmarshal_mount ''filesystems'' ''TQ=='' = Inr (Some sample_mount_rows)"
  by code_simp

lemma sample_rows_3: "graph_rows sample_tokens unmarshal_loop ''loopdevices'' ''TA=='' = Inr (Some sample_loop_rows)"
  by code_simp

lemma sample_rows_4: "vmGuestGraphText (lookup_or [] (gr_measurements sample_root) ''PATHS'') = Inr sample_paths"
  by code_simp

lemmas sample_rows = sample_rows_1 sample_rows_2 sample_rows_3 sample_rows_4

lemma sample_entries_1: "measured_blocks (Some sample_block_rows) ''/dev/vdb'' sample_disk_id = Inr sample_before"
  by code_simp

lemma sample_entries_2: "measured_mounts (Some sample_mount_rows) sample_before = Inr (sample_graph\<lparr>gg_loops := [], gg_paths := []\<rparr>)"
  by code_simp

lemma sample_entries_3: "measured_loops (Some sample_loop_rows) (sample_graph\<lparr>gg_loops := [], gg_paths := []\<rparr>) =
     Inr (sample_graph\<lparr>gg_paths := []\<rparr>)"
  by code_simp

lemma sample_entries_4: "try_each enter_path (split_on (CHR 10) sample_paths) (sample_graph\<lparr>gg_paths := []\<rparr>) = Inr sample_graph"
  by code_simp

lemma sample_entries_5: "vmGuestGraphText [] = Inr []"
  by code_simp

lemma sample_entries_6: "sample_paths \<noteq> []"
  by code_simp

lemmas sample_entries = sample_entries_1 sample_entries_2 sample_entries_3 sample_entries_4 sample_entries_5 sample_entries_6

lemma sample_measured_1: "lookup_or [] (gr_measurements sample_root) ''BLOCKS'' = ''Qg==''"
  by code_simp

lemma sample_measured_2: "lookup_or [] (gr_measurements sample_root) ''MOUNTS'' = ''TQ==''"
  by code_simp

lemma sample_measured_3: "lookup_or [] (gr_measurements sample_root) ''LOOPS'' = ''TA==''"
  by code_simp

lemma sample_measured_4: "lookup_or [] (gr_measurements sample_root) ''BTRFS'' = []"
  by code_simp

lemma sample_measured_5: "gr_target sample_root = ''/dev/vdb''"
  by code_simp

lemmas sample_measured = sample_measured_1 sample_measured_2 sample_measured_3 sample_measured_4 sample_measured_5

lemma sample_measured_graph: "measured_graph sample_tokens sample_root sample_disk_id = Inr sample_graph"
  by (simp only: measured_graph_def measured_lines_def Let_def sample_measured sample_rows sample_entries ok_then_simps if_True if_False not_True_eq_False simp_thms)

lemma sample_root_verified: "verifyRoot sample_graph = None"
  by code_simp

lemma sample_accepted: "verifyVMGuestRoot sample_tokens sample_root sample_disk_id = None"
  by (simp add: verifyVMGuestRoot_def sample_measured_graph sample_root_verified)

lemma guest_root_selected_witness:
  "\<exists>g b. measured_graph sample_tokens sample_root sample_disk_id = Inr g \<and> root_on_target g \<and>
    map_of (gg_nodes g) (gg_target g) = Some b \<and> wanted sample_disk_id b \<and>
    gr_target sample_root \<in> {gb_name b, gb_kname b} \<and>
    (\<forall>m c. map_of (gg_nodes g) m = Some c \<longrightarrow> wanted sample_disk_id c \<longrightarrow> m = gg_target g)"
  by (rule guest_root_selected [OF sample_accepted])

end
