(* ===== verification/Oci_Pull.thy ===== *)
theory Oci_Pull
  imports Target_Image Status_Records "HOL-Library.AList"
begin

text \<open>
  The download of the image into an OCI layout (\<open>app/ocipull.go\<close>): the reference, the
  anonymous token, the manifest, the blobs with their check, and the bundle record. The
  registry, the results of the file calls and the cancellation are fields of an environment
  over a world \<open>'n\<close>; the files below the bundle directory are named by their cleaned relative
  paths. \<open>hash\<close> stands for SHA-256 in lower-case hexadecimal digits, \<open>manifest_of\<close> for what
  \<open>json.Unmarshal\<close> makes of a body.
\<close>

definition mtOCIIndex :: string where
  "mtOCIIndex = ''application/vnd.oci.image.index.v1+json''"

definition mtOCIManifest :: string where
  "mtOCIManifest = ''application/vnd.oci.image.manifest.v1+json''"

definition mtDockerList :: string where
  "mtDockerList = ''application/vnd.docker.distribution.manifest.list.v2+json''"

text \<open>A descriptor with its platform (architecture and system), and a manifest or an index.\<close>

record pull_descriptor = oci_descriptor +
  pd_platform :: "(string \<times> string) option"

record ociManifest =
  om_media :: string
  om_config :: pull_descriptor
  om_layers :: "pull_descriptor list"
  om_manifests :: "pull_descriptor list"

text \<open>A body that is read in chunks until its end or an error.\<close>

record http_body =
  hb_chunks :: "string list"
  hb_error :: "string option"

record http_answer =
  ha_status :: int
  ha_challenge :: string
  ha_body :: http_body

datatype pull_error =
    BadReference string
  | Network string
  | BadChallenge
  | TokenStatus int
  | HttpStatus int
  | Tampered string string
  | NotAManifest string
  | NoPlatform string
  | UnsupportedDigest string
  | CorruptBlob string string
  | WrongSize string int int
  | Disk string
  | Cancelled string
  | EndlessIndex

text \<open>The calls on files whose result the environment decides.\<close>

datatype file_call =
    MakeBlobDir | ListBlobs | StatBlobs
  | DiscardPart string
  | CreatePart string | ClosePart string | DropPart string | RenamePart string

text \<open>
  \<open>pe_append\<close> answers a write: \<open>Some (k, e)\<close> is an error \<open>e\<close> after \<open>k\<close> bytes. \<open>pe_write\<close> answers
  \<open>os.WriteFile\<close>: \<open>Some (None, e)\<close> is a file that could not be opened.
  \<open>pe_token\<close> reads \<open>token\<close> and \<open>access_token\<close> in the answer of the token endpoint.
\<close>

record 'n pull_env =
  pe_get :: "string \<Rightarrow> string \<Rightarrow> 'n \<Rightarrow> (string + http_answer) \<times> 'n"
  pe_token :: "string \<Rightarrow> (string \<times> string) option"
  pe_manifest :: "string \<Rightarrow> ociManifest option"
  pe_hash :: "string \<Rightarrow> string"
  pe_call :: "file_call \<Rightarrow> 'n \<Rightarrow> string option \<times> 'n"
  pe_append :: "string \<Rightarrow> string \<Rightarrow> 'n \<Rightarrow> (nat \<times> string) option \<times> 'n"
  pe_write :: "string \<Rightarrow> 'n \<Rightarrow> (nat option \<times> string) option \<times> 'n"
  pe_cancelled :: "'n \<Rightarrow> string option \<times> 'n"
  pe_now :: "'n \<Rightarrow> string \<times> 'n"

text \<open>
  The bundle directory: its files, whether the blob directory is there, index.json (\<open>Some None\<close>
  is a file that was cut short), what bundle.json says, whether a store is there, and the calls
  of \<open>progress\<close>, newest first.
\<close>

record layout_index =
  li_media :: string
  li_digest :: string
  li_size :: int
  li_ref :: string

record 'n puller =
  pl_files :: "string smap"
  pl_dir :: bool
  pl_index :: "layout_index option option"
  pl_layout :: bool
  pl_bundle :: "bundle_info option"
  pl_store :: bool
  pl_progress :: "(int \<times> int) list"
  pl_token :: string
  pl_world :: 'n

text \<open>A step: an error or a value, and what it left.\<close>

type_synonym ('n, 'a) pull = "'n puller \<Rightarrow> (pull_error + 'a) \<times> 'n puller"

definition pull_then :: "('n, 'a) pull \<Rightarrow> ('a \<Rightarrow> ('n, 'b) pull) \<Rightarrow> ('n, 'b) pull" where
  "pull_then m f s = (case m s of (Inl e, s1) \<Rightarrow> (Inl e, s1) | (Inr x, s1) \<Rightarrow> f x s1)"

definition give :: "'a \<Rightarrow> ('n, 'a) pull" where
  "give x s = (Inr x, s)"

definition refuse :: "pull_error \<Rightarrow> ('n, 'a) pull" where
  "refuse e s = (Inl e, s)"

definition world_step :: "('n \<Rightarrow> 'a \<times> 'n) \<Rightarrow> ('n, 'a) pull" where
  "world_step f s = (case f (pl_world s) of (x, w) \<Rightarrow> (Inr x, s\<lparr>pl_world := w\<rparr>))"

definition try_call :: "'n pull_env \<Rightarrow> file_call \<Rightarrow> ('n, unit) pull" where
  "try_call env c =
     pull_then (world_step (pe_call env c)) (\<lambda>r. case r of None \<Rightarrow> give () | Some e \<Rightarrow> refuse (Disk e))"

definition put_file :: "string \<Rightarrow> string \<Rightarrow> ('n, unit) pull" where
  "put_file p c s = (Inr (), s\<lparr>pl_files := AList.update p c (pl_files s)\<rparr>)"

definition drop_file :: "string \<Rightarrow> ('n, unit) pull" where
  "drop_file p s = (Inr (), s\<lparr>pl_files := AList.delete p (pl_files s)\<rparr>)"

subsection \<open>The reference\<close>

definition cut_last :: "char \<Rightarrow> string \<Rightarrow> (string \<times> string) option" where
  "cut_last c s =
     (if c \<in> set s then Some (rev (tl (dropWhile (\<lambda>x. x \<noteq> c) (rev s))), rev (takeWhile (\<lambda>x. x \<noteq> c) (rev s)))
      else None)"

text \<open>Host, repository and tag or digest; a leading slash is no host.\<close>

definition registryRef :: "string \<Rightarrow> (string \<times> string \<times> string) option" where
  "registryRef image_ref =
     (case cut_at slash image_ref of
        Some (c # host, rest) \<Rightarrow>
          (let (repo, ref) =
                 (case cut_at (CHR ''@'') rest of
                    Some (a, b) \<Rightarrow> (a, b)
                  | None \<Rightarrow> (case cut_last (CHR '':'') rest of Some (a, b) \<Rightarrow> (a, b) | None \<Rightarrow> (rest, ''latest'')))
           in if repo = [] \<or> ref = [] then None else Some (c # host, repo, ref))
      | _ \<Rightarrow> None)"

subsection \<open>The registry\<close>

definition bearer_params :: "string \<Rightarrow> string smap" where
  "bearer_params hdr =
     fold (\<lambda>kv m. case cut_at (CHR ''='') (trim_space kv) of
                    None \<Rightarrow> m | Some (k, v) \<Rightarrow> AList.update k (trim_set v [CHR 0x22]) m)
       (split_on (CHR '','') (trim_prefix hdr ''Bearer '')) []"

definition token_url :: "string \<Rightarrow> string smap \<Rightarrow> string" where
  "token_url repo params =
     lookup_or [] params ''realm'' @ ''?service='' @ lookup_or [] params ''service'' @
     ''&scope=repository:'' @ repo @ '':pull''"

definition http :: "'n pull_env \<Rightarrow> string \<Rightarrow> ('n, http_answer) pull" where
  "http env url s =
     (case pe_get env url (pl_token s) (pl_world s) of
        (Inl e, w) \<Rightarrow> (Inl (Network e), s\<lparr>pl_world := w\<rparr>)
      | (Inr a, w) \<Rightarrow> (Inr a, s\<lparr>pl_world := w\<rparr>))"

definition whole_body :: "http_body \<Rightarrow> string" where
  "whole_body b = concat (hb_chunks b)"

definition authorize :: "'n pull_env \<Rightarrow> string \<Rightarrow> string \<Rightarrow> ('n, unit) pull" where
  "authorize env host repo =
     pull_then (http env (''https://'' @ host @ ''/v2/'')) (\<lambda>a.
       if ha_status a \<noteq> 401 \<or> \<not> has_prefix (ha_challenge a) ''Bearer '' then give ()
       else (let params = bearer_params (ha_challenge a)
             in if lookup_or [] params ''realm'' = [] then refuse BadChallenge
                else pull_then (http env (token_url repo params)) (\<lambda>t.
                       if ha_status t \<noteq> 200 then refuse (TokenStatus (ha_status t))
                       else (case pe_token env (take (nat 1048576) (whole_body (ha_body t))) of
                               None \<Rightarrow> refuse (Network ''registry token'')
                             | Some (tok, access) \<Rightarrow>
                                 (\<lambda>s. (Inr (), s\<lparr>pl_token := (if tok = [] then access else tok)\<rparr>))))))"

definition get_path :: "'n pull_env \<Rightarrow> string \<Rightarrow> string \<Rightarrow> string \<Rightarrow> ('n, http_body) pull" where
  "get_path env host repo path =
     pull_then (http env (''https://'' @ host @ ''/v2/'' @ repo @ ''/'' @ path)) (\<lambda>a.
       if ha_status a \<noteq> 200 then refuse (HttpStatus (ha_status a)) else give (ha_body a))"

definition digest_text :: "'n pull_env \<Rightarrow> string \<Rightarrow> string" where
  "digest_text env raw = ''sha256:'' @ pe_hash env raw"

definition is_index :: "ociManifest \<Rightarrow> bool" where
  "is_index m \<longleftrightarrow> om_media m = mtOCIIndex \<or> om_media m = mtDockerList \<or> om_manifests m \<noteq> []"

definition linux_amd64 :: "pull_descriptor \<Rightarrow> bool" where
  "linux_amd64 d \<longleftrightarrow> pd_platform d = Some (''amd64'', ''linux'')"

text \<open>\<open>io.ReadAll(io.LimitReader(body, 32<<20))\<close>: what comes after the limit is not read.\<close>

definition manifest_bytes :: "http_body \<Rightarrow> pull_error + string" where
  "manifest_bytes body =
     (let whole = whole_body body; limit = 33554432 in
      if int (length whole) < limit
      then (case hb_error body of None \<Rightarrow> Inr whole | Some e \<Rightarrow> Inl (Network e))
      else Inr (take (nat limit) whole))"

text \<open>
  \<open>fetchManifest\<close> calls itself for the entry of an index, without a bound; the fuel is the
  number of documents it may read.
\<close>

fun fetchManifest :: "'n pull_env \<Rightarrow> string \<Rightarrow> string \<Rightarrow> nat \<Rightarrow> string \<Rightarrow> ('n, string \<times> string) pull" where
  "fetchManifest env host repo 0 ref = refuse EndlessIndex"
| "fetchManifest env host repo (Suc n) ref =
     pull_then (get_path env host repo (''manifests/'' @ ref)) (\<lambda>body.
       case manifest_bytes body of
         Inl e \<Rightarrow> refuse e
       | Inr raw \<Rightarrow>
           (let digest = digest_text env raw in
            if has_prefix ref ''sha256:'' \<and> ref \<noteq> digest then refuse (Tampered ref digest)
            else (case pe_manifest env raw of
                    None \<Rightarrow> refuse (NotAManifest raw)
                  | Some m \<Rightarrow>
                      if is_index m then
                        (case List.find linux_amd64 (om_manifests m) of
                           Some d \<Rightarrow> fetchManifest env host repo n (od_digest d)
                         | None \<Rightarrow> refuse (NoPlatform digest))
                      else give (raw, digest))))"

subsection \<open>The blobs\<close>

definition wrap64 :: "int \<Rightarrow> int" where
  "wrap64 n = (n + 2 ^ 63) mod 2 ^ 64 - 2 ^ 63"

definition blob_dir :: string where
  "blob_dir = ''oci/blobs/sha256/''"

text \<open>\<open>filepath.Join(blobDir, name)\<close>, which cleans the whole path.\<close>

definition blob_path :: "string \<Rightarrow> string" where
  "blob_path name = path_clean (blob_dir @ name)"

definition tick :: "int \<Rightarrow> int \<Rightarrow> ('n, unit) pull" where
  "tick expected delta s =
     (let before = (case pl_progress s of [] \<Rightarrow> 0 | (d, t) # _ \<Rightarrow> d)
      in (Inr (), s\<lparr>pl_progress := (wrap64 (before + delta), expected) # pl_progress s\<rparr>))"

text \<open>Removing the temporary file: its own failure is ignored.\<close>

definition abandon :: "'n pull_env \<Rightarrow> string \<Rightarrow> pull_error \<Rightarrow> ('n, 'a) pull" where
  "abandon env tmp e =
     pull_then (world_step (pe_call env (DropPart tmp))) (\<lambda>r.
     pull_then (if r = None then drop_file tmp else give ()) (\<lambda>_. refuse e))"

text \<open>The copying loop: each chunk is appended; the end of the body or an error stops it.\<close>

fun copy_chunks ::
  "'n pull_env \<Rightarrow> int \<Rightarrow> string \<Rightarrow> string option \<Rightarrow> string list \<Rightarrow> string \<Rightarrow> ('n, string) pull" where
  "copy_chunks env expected tmp rerr [] acc =
     (case rerr of None \<Rightarrow> give acc | Some e \<Rightarrow> abandon env tmp (Network e))"
| "copy_chunks env expected tmp rerr (c # cs) acc =
     pull_then (world_step (pe_append env tmp c)) (\<lambda>r.
       case r of
         Some (k, e) \<Rightarrow> pull_then (put_file tmp (acc @ take k c)) (\<lambda>_. abandon env tmp (Disk e))
       | None \<Rightarrow>
           pull_then (put_file tmp (acc @ c)) (\<lambda>_.
           pull_then (tick expected (int (length c))) (\<lambda>_. copy_chunks env expected tmp rerr cs (acc @ c))))"

text \<open>The file at a path with its size, if there is one.\<close>

definition stat_size :: "string \<Rightarrow> 'n puller \<Rightarrow> int option" where
  "stat_size p s = map_option (\<lambda>c. int (length c)) (map_of (pl_files s) p)"

definition fetch_blob ::
  "'n pull_env \<Rightarrow> string \<Rightarrow> string \<Rightarrow> int \<Rightarrow> pull_descriptor \<Rightarrow> string \<Rightarrow> ('n, unit) pull" where
  "fetch_blob env host repo expected d final =
     (let tmp = final @ ''.part'' in
      pull_then (get_path env host repo (''blobs/'' @ od_digest d)) (\<lambda>body.
      pull_then (try_call env (CreatePart tmp)) (\<lambda>_.
      pull_then (put_file tmp []) (\<lambda>_.
      pull_then (copy_chunks env expected tmp (hb_error body) (hb_chunks body) []) (\<lambda>content.
      pull_then (world_step (pe_call env (ClosePart tmp))) (\<lambda>r.
        case r of
          Some e \<Rightarrow> abandon env tmp (Disk e)
        | None \<Rightarrow>
            if digest_text env content \<noteq> od_digest d
            then abandon env tmp (CorruptBlob (od_digest d) (digest_text env content))
            else if 0 \<le> od_size d \<and> int (length content) \<noteq> od_size d
            then abandon env tmp (WrongSize (od_digest d) (int (length content)) (od_size d))
            else pull_then (try_call env (RenamePart tmp)) (\<lambda>_.
                 pull_then (drop_file tmp) (\<lambda>_. put_file final content))))))))"

definition writeBlob ::
  "'n pull_env \<Rightarrow> string \<Rightarrow> string \<Rightarrow> int \<Rightarrow> pull_descriptor \<Rightarrow> ('n, unit) pull" where
  "writeBlob env host repo expected d s =
     (case cut_prefix (od_digest d) ''sha256:'' of
        None \<Rightarrow> refuse (UnsupportedDigest (od_digest d)) s
      | Some hex \<Rightarrow>
          (let final = blob_path hex
           in if stat_size final s = Some (od_size d) then tick expected (od_size d) s
              else fetch_blob env host repo expected d final s))"

text \<open>
  \<open>discardIncompleteBlobs\<close> over the files of the blob directory, which holds no directories.
  A file that disappeared meanwhile is no error.
\<close>

definition in_blob_dir :: "string \<Rightarrow> bool" where
  "in_blob_dir p \<longleftrightarrow> has_prefix p blob_dir \<and> slash \<notin> set (drop (length blob_dir) p)"

fun discard_parts :: "'n pull_env \<Rightarrow> string list \<Rightarrow> ('n, unit) pull" where
  "discard_parts env [] = give ()"
| "discard_parts env (p # ps) =
     (if \<not> has_suffix p ''.part'' then discard_parts env ps
      else pull_then (try_call env (DiscardPart p)) (\<lambda>_.
           pull_then (drop_file p) (\<lambda>_. discard_parts env ps)))"

definition discardIncompleteBlobs :: "'n pull_env \<Rightarrow> ('n, unit) pull" where
  "discardIncompleteBlobs env =
     pull_then (try_call env ListBlobs) (\<lambda>_ s. discard_parts env (filter in_blob_dir (map fst (pl_files s))) s)"

fun write_layers ::
  "'n pull_env \<Rightarrow> string \<Rightarrow> string \<Rightarrow> int \<Rightarrow> pull_descriptor list \<Rightarrow> ('n, unit) pull" where
  "write_layers env host repo expected [] = give ()"
| "write_layers env host repo expected (l # ls) =
     pull_then (world_step (pe_cancelled env)) (\<lambda>c.
       case c of
         Some e \<Rightarrow> refuse (Cancelled e)
       | None \<Rightarrow> pull_then (writeBlob env host repo expected l) (\<lambda>_. write_layers env host repo expected ls))"

subsection \<open>The layout and the bundle\<close>

text \<open>\<open>os.WriteFile\<close>: open and truncate, write, close; after a later error a beginning is there.\<close>

definition write_blob_file :: "'n pull_env \<Rightarrow> string \<Rightarrow> string \<Rightarrow> ('n, unit) pull" where
  "write_blob_file env p raw =
     pull_then (world_step (pe_write env p)) (\<lambda>r.
       case r of
         None \<Rightarrow> put_file p raw
       | Some (None, e) \<Rightarrow> refuse (Disk e)
       | Some (Some k, e) \<Rightarrow> pull_then (put_file p (take k raw)) (\<lambda>_. refuse (Disk e)))"

definition write_record :: "'n pull_env \<Rightarrow> string \<Rightarrow> ('n puller \<Rightarrow> 'n puller) \<Rightarrow> ('n puller \<Rightarrow> 'n puller) \<Rightarrow> ('n, unit) pull" where
  "write_record env p whole torn =
     pull_then (world_step (pe_write env p)) (\<lambda>r s.
       case r of
         None \<Rightarrow> (Inr (), whole s)
       | Some (None, e) \<Rightarrow> (Inl (Disk e), s)
       | Some (Some k, e) \<Rightarrow> (Inl (Disk e), torn s))"

text \<open>A new \<open>ociPuller\<close> has no token, and the counter of \<open>progress\<close> starts at zero.\<close>

definition new_puller :: "('n, unit) pull" where
  "new_puller s = (Inr (), s\<lparr>pl_token := [], pl_progress := []\<rparr>)"

definition pullImageToOCILayout :: "'n pull_env \<Rightarrow> nat \<Rightarrow> string \<Rightarrow> ('n, string \<times> int) pull" where
  "pullImageToOCILayout env n image_ref =
     (case registryRef image_ref of
        None \<Rightarrow> refuse (BadReference image_ref)
      | Some (host, repo, ref) \<Rightarrow>
          pull_then new_puller (\<lambda>_.
          pull_then (authorize env host repo) (\<lambda>_.
          pull_then (fetchManifest env host repo n ref) (\<lambda>(raw, digest).
            case pe_manifest env raw of
              None \<Rightarrow> refuse (NotAManifest raw)
            | Some m \<Rightarrow>
                pull_then (try_call env MakeBlobDir) (\<lambda>_.
                pull_then (\<lambda>s. (Inr (), s\<lparr>pl_dir := True\<rparr>)) (\<lambda>_.
                pull_then (discardIncompleteBlobs env) (\<lambda>_.
                (let expected = fold (\<lambda>l t. wrap64 (t + od_size l)) (om_layers m) (od_size (om_config m)) in
                 pull_then (writeBlob env host repo expected (om_config m)) (\<lambda>_.
                 pull_then (write_layers env host repo expected (om_layers m)) (\<lambda>_.
                 pull_then (write_blob_file env (blob_path (trim_prefix digest ''sha256:'')) raw) (\<lambda>_.
                 pull_then (write_record env ''oci/index.json''
                     (\<lambda>s. s\<lparr>pl_index := Some (Some \<lparr>li_media = (if om_media m = [] then mtOCIManifest else om_media m),
                        li_digest = digest, li_size = int (length raw), li_ref = image_ref\<rparr>)\<rparr>)
                     (\<lambda>s. s\<lparr>pl_index := Some None\<rparr>)) (\<lambda>_.
                 pull_then (write_record env ''oci/oci-layout'' (\<lambda>s. s\<lparr>pl_layout := True\<rparr>) (\<lambda>s. s\<lparr>pl_layout := False\<rparr>)) (\<lambda>_.
                 give (digest, expected))))))))))))))"

definition reuseStagedBundleAt :: "'n pull_env \<Rightarrow> string \<Rightarrow> ('n, bool) pull" where
  "reuseStagedBundleAt env image_ref s =
     (case readBundleInfoAt (pl_bundle s) (pl_store s) (pl_index s \<noteq> None) of
        None \<Rightarrow> (Inr False, s)
      | Some b \<Rightarrow>
          if bi_image b \<noteq> image_ref then (Inr False, s)
          else pull_then (world_step (pe_call env StatBlobs)) (\<lambda>r s.
                 case r of
                   Some e \<Rightarrow> (Inl (Disk e), s)
                 | None \<Rightarrow>
                     if \<not> pl_dir s then (Inr False, s)
                     else pull_then (discardIncompleteBlobs env) (\<lambda>_. give True) s) s)"

definition stageImageBundle :: "'n pull_env \<Rightarrow> nat \<Rightarrow> string \<Rightarrow> ('n, unit) pull" where
  "stageImageBundle env n image_ref =
     pull_then (reuseStagedBundleAt env image_ref) (\<lambda>reused.
       if reused then give ()
       else pull_then (pullImageToOCILayout env n image_ref) (\<lambda>(digest, expected).
            pull_then (world_step (pe_now env)) (\<lambda>now.
            write_record env ''bundle.json''
              (\<lambda>s. s\<lparr>pl_bundle := Some \<lparr>bi_image = image_ref, bi_digest = digest, bi_store_bytes = expected,
                 bi_created = now, bi_source = ''predownload''\<rparr>\<rparr>)
              (\<lambda>s. s\<lparr>pl_bundle := None\<rparr>))))"

end
