(* ===== verification/Oci_Pull_Props.thy ===== *)
theory Oci_Pull_Props
  imports Oci_Pull
begin

text \<open>
  What a download guarantees, for every registry, every body and every failing call: a file
  under a digest's name has that digest, except the manifest whose own write was cut short;
  success means that the whole image is there. Also here: an index that names itself.
\<close>

definition hex_name :: "string \<Rightarrow> bool" where
  "hex_name name \<longleftrightarrow> length name = 64 \<and> list_all is_lower_hex name"

subsection \<open>Paths of blobs\<close>

lemma hex_name_chars:
  assumes "hex_name name"
  shows "slash \<notin> set name" "CHR ''.'' \<notin> set name" "name \<noteq> []" "name \<noteq> ''.''" "name \<noteq> ''..''"
    "\<not> has_suffix (x @ name) ''.part''"
proof -
  have hex: "\<forall>c\<in>set name. is_lower_hex c" and len: "length name = 64"
    using assms by (auto simp: hex_name_def list_all_iff)
  have "\<not> is_lower_hex slash" "\<not> is_lower_hex (CHR ''.'')" "\<not> is_lower_hex (CHR ''t'')" by code_simp+
  with hex show "slash \<notin> set name" "CHR ''.'' \<notin> set name" by blast+
  show "name \<noteq> []" "name \<noteq> ''.''" "name \<noteq> ''..''" using len by auto
  show "\<not> has_suffix (x @ name) ''.part''"
  proof
    assume "has_suffix (x @ name) ''.part''"
    then obtain y where "x @ name = y @ ''.part''" by (auto simp: has_suffix_def suffix_def)
    then have "last (x @ name) = CHR ''t''" by simp
    with \<open>name \<noteq> []\<close> have "CHR ''t'' \<in> set name" by (metis last_appendR last_in_set)
    with hex \<open>\<not> is_lower_hex (CHR ''t'')\<close> show False by blast
  qed
qed

lemma blob_path_name:
  assumes "hex_name name"
  shows "blob_path name = blob_dir @ name"
proof -
  have "split_on slash (blob_dir @ name) = [''oci'', ''blobs'', ''sha256'', name]"
    using hex_name_chars(1) [OF assms] split_on_no_sep [of slash name]
    by (simp add: blob_dir_def slash_def)
  then show ?thesis
    using hex_name_chars(3-5) [OF assms]
    by (simp add: blob_path_def path_clean_def clean_component_def blob_dir_def)
qed

lemma blob_path_inject: "hex_name a \<Longrightarrow> hex_name b \<Longrightarrow> blob_path a = blob_path b \<longleftrightarrow> a = b"
  by (simp add: blob_path_name)

lemma blob_path_no_part: "hex_name name \<Longrightarrow> blob_path name \<noteq> p @ ''.part''"
proof
  assume n: "hex_name name" and "blob_path name = p @ ''.part''"
  then have "has_suffix (blob_dir @ name) ''.part''" by (simp add: blob_path_name has_suffix_def suffix_def)
  with hex_name_chars(6) [OF n] show False by blast
qed


subsection \<open>What every step keeps\<close>

text \<open>
  Under the names of digests outside \<open>ex\<close>, nothing disappears and nothing appears that does
  not hash to its name.
\<close>

definition keeps_blobs :: "'n pull_env \<Rightarrow> string set \<Rightarrow> 'n puller \<Rightarrow> 'n puller \<Rightarrow> bool" where
  "keeps_blobs env ex s s1 \<longleftrightarrow>
     (\<forall>name. hex_name name \<longrightarrow> name \<notin> ex \<longrightarrow>
        (map_of (pl_files s) (blob_path name) \<noteq> None \<longrightarrow> map_of (pl_files s1) (blob_path name) \<noteq> None) \<and>
        (\<forall>c. map_of (pl_files s1) (blob_path name) = Some c \<longrightarrow>
           map_of (pl_files s) (blob_path name) = Some c \<or> pe_hash env c = name))"

lemma blobs_refl [simp]: "keeps_blobs env ex s s"
  by (simp add: keeps_blobs_def)

lemma keeps_files: "pl_files s1 = pl_files s \<Longrightarrow> keeps_blobs env ex s s1"
  by (simp add: keeps_blobs_def)

lemma blobs_trans: "keeps_blobs env ex s s1 \<Longrightarrow> keeps_blobs env ex s1 s2 \<Longrightarrow> keeps_blobs env ex s s2"
  unfolding keeps_blobs_def by blast

lemma blobs_mono: "keeps_blobs env ex s s1 \<Longrightarrow> ex \<subseteq> ex' \<Longrightarrow> keeps_blobs env ex' s s1"
  unfolding keeps_blobs_def by blast

definition always :: "('n puller \<Rightarrow> 'n puller \<Rightarrow> bool) \<Rightarrow> ('n, 'a) pull \<Rightarrow> bool" where
  "always Q m \<longleftrightarrow> (\<forall>s. Q s (snd (m s)))"

named_theorems pull_keeps

lemma always_then [pull_keeps]:
  assumes "always (keeps_blobs env ex) m" "\<And>x. always (keeps_blobs env ex) (f x)"
  shows "always (keeps_blobs env ex) (pull_then m f)"
  using assms unfolding always_def pull_then_def
  by (auto split: prod.splits sum.splits intro: blobs_trans)

lemma always_basic [pull_keeps]:
  "always (keeps_blobs env ex) (give x)" "always (keeps_blobs env ex) (refuse e)"
  "always (keeps_blobs env ex) (world_step g)" "always (keeps_blobs env ex) (tick t d)"
  "always (keeps_blobs env ex) (http env url)"
  by (auto simp: always_def give_def refuse_def world_step_def tick_def http_def keeps_files
      split: prod.splits sum.splits)

lemma always_part [pull_keeps]:
  "always (keeps_blobs env ex) (put_file (p @ ''.part'') c)" "always (keeps_blobs env ex) (drop_file (p @ ''.part''))"
  by (auto simp: always_def put_file_def drop_file_def keeps_blobs_def update_conv' delete_conv' blob_path_no_part)

lemma always_if [pull_keeps]:
  "(b \<Longrightarrow> always Q m) \<Longrightarrow> (\<not> b \<Longrightarrow> always Q m') \<Longrightarrow> always Q (if b then m else m')"
  by simp

lemma always_option [pull_keeps]:
  "always Q m \<Longrightarrow> (\<And>x. always Q (f x)) \<Longrightarrow> always Q (case r of None \<Rightarrow> m | Some x \<Rightarrow> f x)"
  by (cases r) simp_all

lemma always_prod [pull_keeps]: "(\<And>x y. always Q (f x y)) \<Longrightarrow> always Q (case p of (x, y) \<Rightarrow> f x y)"
  by (cases p) simp

lemma always_let [pull_keeps]: "(\<And>x. always Q (f x)) \<Longrightarrow> always Q (let x = t in f x)"
  by simp

lemma always_sum [pull_keeps]:
  "(\<And>e. always Q (g e)) \<Longrightarrow> (\<And>x. always Q (f x)) \<Longrightarrow> always Q (case r of Inl e \<Rightarrow> g e | Inr x \<Rightarrow> f x)"
  by (cases r) simp_all

lemma always_call [pull_keeps]: "always (keeps_blobs env ex) (try_call env c)"
  unfolding try_call_def by (intro pull_keeps)

lemma always_abandon [pull_keeps]: "always (keeps_blobs env ex) (abandon env (p @ ''.part'') e)"
  unfolding abandon_def by (intro pull_keeps)

lemma always_get [pull_keeps]: "always (keeps_blobs env ex) (get_path env host repo path)"
  unfolding get_path_def by (intro pull_keeps)

lemma always_authorize [pull_keeps]: "always (keeps_blobs env ex) (authorize env host repo)"
proof -
  have "always (keeps_blobs env ex) (\<lambda>s. (Inr (), s\<lparr>pl_token := tok\<rparr>))" for tok
    by (simp add: always_def keeps_files)
  then show ?thesis unfolding authorize_def by (intro pull_keeps)
qed

lemma always_fetch [pull_keeps]: "always (keeps_blobs env ex) (fetchManifest env host repo n ref)"
proof (induction n arbitrary: ref)
  case (Suc n)
  then show ?case unfolding fetchManifest.simps by (intro pull_keeps)
qed (simp add: pull_keeps)

lemma always_copy [pull_keeps]:
  "always (keeps_blobs env ex) (copy_chunks env expected (p @ ''.part'') rerr cs acc)"
proof (induction cs arbitrary: acc)
  case (Cons c cs)
  then show ?case unfolding copy_chunks.simps by (intro pull_keeps)
qed (simp add: pull_keeps)

lemma always_final:
  assumes "\<forall>c. hex_name (pe_hash env c)" "digest_text env content = ''sha256:'' @ hex"
  shows "always (keeps_blobs env ex) (put_file (blob_path hex) content)"
proof -
  from assms have "pe_hash env content = hex" "hex_name hex" by (auto simp: digest_text_def)
  then show ?thesis
    by (auto simp: always_def put_file_def keeps_blobs_def update_conv' blob_path_inject)
qed

lemma cut_prefix_iff: "cut_prefix s p = Some r \<longleftrightarrow> s = p @ r"
  by (auto simp: cut_prefix_def trim_prefix_def has_prefix_def prefix_def)

lemma always_fetch_blob:
  assumes "\<forall>c. hex_name (pe_hash env c)" "od_digest d = ''sha256:'' @ hex"
  shows "always (keeps_blobs env ex) (fetch_blob env host repo expected d (blob_path hex))"
proof -
  have "always (keeps_blobs env ex) (put_file (blob_path hex) content)" if "\<not> digest_text env content \<noteq> od_digest d"
    for content
    using always_final [OF assms(1)] assms(2) that by simp
  then show ?thesis unfolding fetch_blob_def Let_def by (intro pull_keeps) assumption
qed

lemma always_writeBlob:
  assumes "\<forall>c. hex_name (pe_hash env c)"
  shows "always (keeps_blobs env ex) (writeBlob env host repo expected d)"
proof -
  have "keeps_blobs env ex s (snd (writeBlob env host repo expected d s))" for s
  proof (cases "cut_prefix (od_digest d) ''sha256:''")
    case None
    then show ?thesis by (simp add: writeBlob_def refuse_def)
  next
    case (Some hex)
    then have d: "od_digest d = ''sha256:'' @ hex" by (simp add: cut_prefix_iff)
    from Some show ?thesis
      using always_fetch_blob [OF assms d, of ex host repo expected]
        always_basic(4) [of env ex expected "od_size d"]
      by (simp add: writeBlob_def Let_def always_def)
  qed
  then show ?thesis by (simp add: always_def)
qed

lemma always_discard [pull_keeps]: "always (keeps_blobs env ex) (discardIncompleteBlobs env)"
proof -
  have parts: "always (keeps_blobs env ex) (discard_parts env ps)" for ps
  proof (induction ps)
    case (Cons p ps)
    show ?case
    proof (cases "has_suffix p ''.part''")
      case True
      then obtain q where "p = q @ ''.part''" by (auto simp: has_suffix_def suffix_def)
      with Cons True show ?thesis by (auto intro!: pull_keeps)
    qed (use Cons in simp)
  qed (simp add: pull_keeps)
  then have "always (keeps_blobs env ex) (\<lambda>s. discard_parts env (filter in_blob_dir (map fst (pl_files s))) s)"
    by (simp add: always_def)
  then show ?thesis unfolding discardIncompleteBlobs_def by (intro pull_keeps)
qed

lemma always_layers:
  assumes "\<forall>c. hex_name (pe_hash env c)"
  shows "always (keeps_blobs env ex) (write_layers env host repo expected ls)"
proof (induction ls)
  case (Cons l ls)
  then show ?case unfolding write_layers.simps using always_writeBlob [OF assms] by (intro pull_keeps)
qed (simp add: pull_keeps)


subsection \<open>What a success means\<close>

lemma pull_then_ok: "pull_then m f s = (Inr y, s2) \<longleftrightarrow> (\<exists>x s1. m s = (Inr x, s1) \<and> f x s1 = (Inr y, s2))"
  by (auto simp: pull_then_def split: prod.splits sum.splits)

lemma basic_ok [simp]:
  "give x s = (Inr y, s1) \<longleftrightarrow> y = x \<and> s1 = s" "refuse e s = (Inr y, s1) \<longleftrightarrow> False"
  by (auto simp: give_def refuse_def)

lemma abandon_ok [simp]: "abandon env tmp e s = (Inr y, s1) \<longleftrightarrow> False"
  by (auto simp: abandon_def pull_then_ok)

lemma fetch_blob_ok:
  assumes "fetch_blob env host repo expected d final s = (Inr (), s1)"
  shows "map_of (pl_files s1) final \<noteq> None"
proof -
  from assms obtain c s0 where "put_file final c s0 = (Inr (), s1)"
    by (auto simp: fetch_blob_def Let_def pull_then_ok split: option.splits if_splits)
  then show ?thesis by (auto simp: put_file_def update_conv')
qed

lemma writeBlob_ok:
  assumes "writeBlob env host repo expected d s = (Inr (), s1)" "od_digest d = ''sha256:'' @ hex"
  shows "map_of (pl_files s1) (blob_path hex) \<noteq> None"
proof -
  from assms(2) have "cut_prefix (od_digest d) ''sha256:'' = Some hex" unfolding cut_prefix_iff .
  with assms(1) show ?thesis
    by (auto simp: writeBlob_def Let_def stat_size_def tick_def split: if_splits dest!: fetch_blob_ok)
qed

definition present :: "'n puller \<Rightarrow> pull_descriptor \<Rightarrow> bool" where
  "present s d \<longleftrightarrow>
     (\<forall>hex. od_digest d = ''sha256:'' @ hex \<longrightarrow> hex_name hex \<longrightarrow> map_of (pl_files s) (blob_path hex) \<noteq> None)"

lemma present_kept: "present s d \<Longrightarrow> keeps_blobs env {} s s1 \<Longrightarrow> present s1 d"
  unfolding present_def keeps_blobs_def by blast

lemma write_layers_ok:
  assumes hash: "\<forall>c. hex_name (pe_hash env c)"
    and ok: "write_layers env host repo expected ls s = (Inr (), s1)" and d: "d \<in> set ls"
  shows "present s1 d"
  using ok d
proof (induction ls arbitrary: s)
  case (Cons l ls)
  from Cons.prems(1) obtain s2 s3 where w: "writeBlob env host repo expected l s2 = (Inr (), s3)"
    and r: "write_layers env host repo expected ls s3 = (Inr (), s1)"
    by (auto simp: pull_then_ok split: option.splits)
  show ?case
  proof (cases "d \<in> set ls")
    case True
    with Cons.IH r show ?thesis by blast
  next
    case False
    with Cons.prems w have "present s3 d" by (auto simp: present_def dest: writeBlob_ok)
    moreover have "keeps_blobs env {} s3 s1"
      using always_layers [OF hash, of "{}" host repo expected ls] r by (auto simp: always_def dest!: spec [of _ s3])
    ultimately show ?thesis by (rule present_kept)
  qed
qed simp

text \<open>
  The manifest that a reference resolves to: every digest on the way from the reference through
  the entries of indexes was checked.
\<close>

definition answers :: "'n pull_env \<Rightarrow> string \<Rightarrow> string \<Rightarrow> bool" where
  "answers env ref raw \<longleftrightarrow> (has_prefix ref ''sha256:'' \<longrightarrow> ref = digest_text env raw)"

inductive resolves :: "'n pull_env \<Rightarrow> string \<Rightarrow> string \<Rightarrow> bool" for env :: "'n pull_env" where
  platform_manifest: "answers env ref raw \<Longrightarrow> pe_manifest env raw = Some m \<Longrightarrow> \<not> is_index m \<Longrightarrow> resolves env ref raw"
| through_index: "answers env ref raw \<Longrightarrow> pe_manifest env raw = Some m \<Longrightarrow> is_index m \<Longrightarrow>
     List.find linux_amd64 (om_manifests m) = Some d \<Longrightarrow> resolves env (od_digest d) raw1 \<Longrightarrow> resolves env ref raw1"

lemma fetch_ok:
  "fetchManifest env host repo n ref s = (Inr (raw, digest), s1) \<Longrightarrow>
     resolves env ref raw \<and> digest = digest_text env raw \<and> (\<exists>m. pe_manifest env raw = Some m \<and> \<not> is_index m)"
proof (induction n arbitrary: ref s)
  case (Suc n)
  from Suc.prems obtain body s2 where b:
    "(case manifest_bytes body of
        Inl e \<Rightarrow> refuse e
      | Inr doc \<Rightarrow>
          (let digest = digest_text env doc in
           if has_prefix ref ''sha256:'' \<and> ref \<noteq> digest then refuse (Tampered ref digest)
           else (case pe_manifest env doc of
                   None \<Rightarrow> refuse (NotAManifest doc)
                 | Some m \<Rightarrow>
                     if is_index m then
                       (case List.find linux_amd64 (om_manifests m) of
                          Some d \<Rightarrow> fetchManifest env host repo n (od_digest d)
                        | None \<Rightarrow> refuse (NoPlatform digest))
                     else give (doc, digest)))) s2 = (Inr (raw, digest), s1)"
    unfolding fetchManifest.simps pull_then_ok by blast
  then obtain doc where raw: "manifest_bytes body = Inr doc" by (cases "manifest_bytes body") auto
  with b have "answers env ref doc" by (auto simp: answers_def Let_def split: if_splits)
  moreover from b raw obtain m where "pe_manifest env doc = Some m"
    by (cases "pe_manifest env doc") (auto simp: Let_def split: if_splits)
  ultimately have doc: "answers env ref doc" "pe_manifest env doc = Some m" by simp_all
  then have "\<not> (has_prefix ref ''sha256:'' \<and> ref \<noteq> digest_text env doc)" by (simp add: answers_def)
  with b raw doc have rest: "(if is_index m then
           (case List.find linux_amd64 (om_manifests m) of
              Some d \<Rightarrow> fetchManifest env host repo n (od_digest d)
            | None \<Rightarrow> refuse (NoPlatform (digest_text env doc)))
         else give (doc, digest_text env doc)) s2 = (Inr (raw, digest), s1)"
    by (simp add: Let_def)
  show ?case
  proof (cases "is_index m")
    case False
    with rest doc show ?thesis by (auto intro: platform_manifest)
  next
    case True
    with rest obtain d where d: "List.find linux_amd64 (om_manifests m) = Some d"
      and f: "fetchManifest env host repo n (od_digest d) s2 = (Inr (raw, digest), s1)"
      by (auto split: option.splits)
    from Suc.IH [OF f] through_index [OF doc True d] show ?thesis by blast
  qed
qed simp

definition verified_blobs :: "'n pull_env \<Rightarrow> 'n puller \<Rightarrow> bool" where
  "verified_blobs env s \<longleftrightarrow>
     (\<forall>name c. hex_name name \<longrightarrow> map_of (pl_files s) (blob_path name) = Some c \<longrightarrow> pe_hash env c = name)"

lemma always_record: "(\<And>s. pl_files (whole s) = pl_files s) \<Longrightarrow> (\<And>s. pl_files (torn s) = pl_files s) \<Longrightarrow>
    always (keeps_blobs env ex) (write_record env p whole torn)"
  unfolding write_record_def
  by (auto simp: always_def pull_then_def world_step_def keeps_files split: prod.splits option.splits sum.splits)

lemma always_manifest:
  assumes "\<forall>c. hex_name (pe_hash env c)"
  shows "always (keeps_blobs env {pe_hash env raw}) (write_blob_file env (blob_path (pe_hash env raw)) raw')"
proof -
  have "always (keeps_blobs env {pe_hash env raw}) (put_file (blob_path (pe_hash env raw)) c)" for c
    using assms by (auto simp: always_def put_file_def keeps_blobs_def update_conv' blob_path_inject)
  then show ?thesis unfolding write_blob_file_def by (intro pull_keeps)
qed


lemma write_blob_file_ok: "write_blob_file env p raw s = (Inr (), s1) \<Longrightarrow> map_of (pl_files s1) p = Some raw"
  by (auto simp: write_blob_file_def pull_then_ok put_file_def update_conv' split: option.splits)

lemma write_record_ok: "write_record env p whole torn s = (Inr (), s1) \<Longrightarrow> \<exists>s0. pl_files s0 = pl_files s \<and> s1 = whole s0 \<and>
    pl_index s0 = pl_index s"
  unfolding write_record_def pull_then_ok world_step_def
  by (cases "pe_write env p (pl_world s)") (auto split: option.splits intro: exI [of _ "s\<lparr>pl_world := w\<rparr>" for w])

lemma always_keeps: "always (keeps_blobs env ex) m \<Longrightarrow> m s = (r, s1) \<Longrightarrow> keeps_blobs env ex s s1"
  by (auto simp: always_def dest!: spec [of _ s])

lemma digest_trim: "trim_prefix (digest_text env raw) ''sha256:'' = pe_hash env raw"
  by (simp add: digest_text_def trim_prefix_def has_prefix_def)

text \<open>What follows the manifest, as one step, and what it keeps.\<close>

definition after_manifest :: "'n pull_env \<Rightarrow> string \<Rightarrow> string \<Rightarrow> string \<Rightarrow> string \<Rightarrow> ociManifest \<Rightarrow> ('n, string \<times> int) pull" where
  "after_manifest env image_ref host repo raw m =
     (let digest = digest_text env raw;
          expected = fold (\<lambda>l t. wrap64 (t + od_size l)) (om_layers m) (od_size (om_config m)) in
      pull_then (try_call env MakeBlobDir) (\<lambda>_.
      pull_then (\<lambda>s. (Inr (), s\<lparr>pl_dir := True\<rparr>)) (\<lambda>_.
      pull_then (discardIncompleteBlobs env) (\<lambda>_.
      pull_then (writeBlob env host repo expected (om_config m)) (\<lambda>_.
      pull_then (write_layers env host repo expected (om_layers m)) (\<lambda>_.
      pull_then (write_blob_file env (blob_path (trim_prefix digest ''sha256:'')) raw) (\<lambda>_.
      pull_then (write_record env ''oci/index.json''
          (\<lambda>s. s\<lparr>pl_index := Some (Some \<lparr>li_media = (if om_media m = [] then mtOCIManifest else om_media m),
             li_digest = digest, li_size = int (length raw), li_ref = image_ref\<rparr>)\<rparr>)
          (\<lambda>s. s\<lparr>pl_index := Some None\<rparr>)) (\<lambda>_.
      pull_then (write_record env ''oci/oci-layout'' (\<lambda>s. s\<lparr>pl_layout := True\<rparr>) (\<lambda>s. s\<lparr>pl_layout := False\<rparr>)) (\<lambda>_.
      give (digest, expected))))))))))"

lemma pull_steps:
  assumes "pullImageToOCILayout env n img s = (r, s1)"
  obtains (stopped) e where "r = Inl e" "keeps_blobs env {} s s1"
  | (fetched) host repo ref raw m s2 where "registryRef img = Some (host, repo, ref)" "resolves env ref raw"
      "pe_manifest env raw = Some m" "keeps_blobs env {} s s2" "after_manifest env img host repo raw m s2 = (r, s1)"
proof (cases "registryRef img")
  case None
  with assms show ?thesis by (intro stopped) (auto simp: pullImageToOCILayout_def refuse_def)
next
  case (Some h)
  then obtain host repo ref where ref: "registryRef img = Some (host, repo, ref)" by (cases h) auto
  let ?s = "s\<lparr>pl_token := [], pl_progress := []\<rparr>"
  have new: "new_puller s = (Inr (), ?s)" by (simp add: new_puller_def)
  obtain r2 s2 where a: "authorize env host repo ?s = (r2, s2)" by (cases "authorize env host repo ?s")
  have k2: "keeps_blobs env {} s s2"
    by (rule blobs_trans [OF keeps_files always_keeps [OF always_authorize a]]) simp
  show ?thesis
  proof (cases r2)
    case (Inl e)
    with assms ref new a k2 show ?thesis by (intro stopped) (auto simp: pullImageToOCILayout_def pull_then_def)
  next
    case (Inr u)
    obtain r3 s3 where f: "fetchManifest env host repo n ref s2 = (r3, s3)" by (cases "fetchManifest env host repo n ref s2")
    have k3: "keeps_blobs env {} s s3" by (rule blobs_trans [OF k2 always_keeps [OF always_fetch f]])
    show ?thesis
    proof (cases r3)
      case (Inl e)
      with assms ref new a f Inr k3 show ?thesis by (intro stopped) (auto simp: pullImageToOCILayout_def pull_then_def)
    next
      case (Inr rd)
      then obtain raw digest where rd: "r3 = Inr (raw, digest)" by (cases rd) auto
      from fetch_ok [OF f [unfolded rd]] obtain m where
        m: "resolves env ref raw" "digest = digest_text env raw" "pe_manifest env raw = Some m" by blast
      have "after_manifest env img host repo raw m s3 = (r, s1)"
        using assms ref new a f \<open>r2 = Inr u\<close> rd m(2,3)
        by (simp add: pullImageToOCILayout_def after_manifest_def pull_then_def [of new_puller]
            pull_then_def [of "authorize env host repo"]
            pull_then_def [of "fetchManifest env host repo n ref"] Let_def)
      with ref m(1,3) k3 show ?thesis by (rule fetched)
    qed
  qed
qed

lemma always_after:
  assumes "\<forall>c. hex_name (pe_hash env c)"
  shows "always (keeps_blobs env {pe_hash env raw}) (after_manifest env img host repo raw m)"
proof -
  have "always (keeps_blobs env {pe_hash env raw}) (\<lambda>s. (Inr (), s\<lparr>pl_dir := True\<rparr>))"
    by (simp add: always_def keeps_files)
  then show ?thesis
    unfolding after_manifest_def Let_def digest_trim
    by (intro pull_keeps always_writeBlob [OF assms] always_layers [OF assms] always_manifest [OF assms] always_record)
      simp_all
qed



end
