(* ===== verification/Oci_Pull_Sample.thy ===== *)
theory Oci_Pull_Sample
  imports Oci_Pull_Props
begin

text \<open>
  A small registry on which the download is run: one image with a config and one layer, served
  under a tag through an index. Also here: the behaviours of the download that its guarantees
  do not exclude.
\<close>

definition sample_hash :: "string \<Rightarrow> string" where
  "sample_hash c = replicate 63 (CHR ''a'') @ [''0123456789abcdef'' ! (length c mod 16)]"

lemma sample_hash_hex: "hex_name (sample_hash c)"
proof -
  have "list_all is_lower_hex ''0123456789abcdef''" by code_simp
  then have "is_lower_hex (''0123456789abcdef'' ! (length c mod 16))" by (simp only: list_all_length) simp
  moreover have "is_lower_hex (CHR ''a'')" by code_simp
  ultimately show ?thesis by (simp add: hex_name_def sample_hash_def list_all_iff)
qed

definition sample_blob :: "string \<Rightarrow> pull_descriptor" where
  "sample_blob c = \<lparr>od_digest = ''sha256:'' @ sample_hash c, od_size = int (length c), pd_platform = None\<rparr>"

definition answer200 :: "string list \<Rightarrow> string + http_answer" where
  "answer200 chunks = Inr \<lparr>ha_status = 200, ha_challenge = [], ha_body = \<lparr>hb_chunks = chunks, hb_error = None\<rparr>\<rparr>"

text \<open>The token \<open>1\<close> of a world counts the requests; bodies come in chunks of their own.\<close>

definition sample_image :: ociManifest where
  "sample_image = \<lparr>om_media = mtOCIManifest, om_config = sample_blob ''cfg'', om_layers = [sample_blob ''layers''], om_manifests = []\<rparr>"

definition index_to :: "string \<Rightarrow> ociManifest" where
  "index_to ref = \<lparr>om_media = mtOCIIndex, om_config = sample_blob [], om_layers = [],
     om_manifests = [\<lparr>od_digest = ref, od_size = 5, pd_platform = Some (''amd64'', ''linux'')\<rparr>]\<rparr>"

definition sample_manifest :: "string \<Rightarrow> ociManifest option" where
  "sample_manifest raw =
     (if raw = ''image'' then Some sample_image
      else if raw = ''an index'' then Some (index_to (''sha256:'' @ sample_hash ''image''))
      else if raw = ''loop'' then Some (index_to ''loop'')
      else None)"

definition sample_get :: "string \<Rightarrow> string \<Rightarrow> unit \<Rightarrow> (string + http_answer) \<times> unit" where
  "sample_get url tok w =
     (if url = ''https://r/v2/'' then answer200 []
      else if url = ''https://r/v2/o/i/manifests/1'' then answer200 [''an '', ''index'']
      else if url = ''https://r/v2/o/i/manifests/sha256:'' @ sample_hash ''image'' then answer200 [''image'']
      else if url = ''https://r/v2/o/i/manifests/loop'' then answer200 [''loop'']
      else if url = ''https://r/v2/o/i/blobs/sha256:'' @ sample_hash ''cfg'' then answer200 [''cfg'']
      else if url = ''https://r/v2/o/i/blobs/sha256:'' @ sample_hash ''layers'' then answer200 [''la'', ''yers'']
      else Inl ''not found'', w)"

definition sample_env :: "unit pull_env" where
  "sample_env = \<lparr>pe_get = sample_get, pe_token = (\<lambda>_. None), pe_manifest = sample_manifest, pe_hash = sample_hash,
     pe_call = (\<lambda>_ w. (None, w)), pe_append = (\<lambda>_ _ w. (None, w)), pe_write = (\<lambda>p w. (if p = ''bundle.json'' then Some (None, ''locked'') else None, w)),
     pe_cancelled = (\<lambda>w. (None, w)), pe_now = (\<lambda>w. (''now'', w))\<rparr>"

definition fresh :: "unit puller" where
  "fresh = \<lparr>pl_files = [], pl_dir = False, pl_index = None, pl_layout = False, pl_bundle = None, pl_store = False,
     pl_progress = [], pl_token = [], pl_world = ()\<rparr>"

lemma sample_ref: "registryRef ''r/o/i:1'' = Some (''r'', ''o/i'', ''1'')"
  by code_simp

lemma sample_paths: "blob_path (sample_hash c) = blob_dir @ sample_hash c" "blob_dir @ x = blob_dir @ y \<longleftrightarrow> x = y"
  by (simp_all add: blob_path_name sample_hash_hex)

lemma sample_hashes:
  "sample_hash ''cfg'' \<noteq> sample_hash ''layers''" "sample_hash ''cfg'' \<noteq> sample_hash ''image''"
  "sample_hash ''layers'' \<noteq> sample_hash ''image''"
  by (simp_all add: sample_hash_def)

lemma unit_world [simp]: "(s :: unit puller)\<lparr>pl_world := w\<rparr> = s"
  by (cases s) simp

lemma sample_authorize: "authorize sample_env ''r'' ''o/i'' s = (Inr (), s)"
  by (simp add: authorize_def pull_then_def http_def sample_env_def sample_get_def answer200_def give_def)

lemma sample_fetch:
  "fetchManifest sample_env ''r'' ''o/i'' 2 ''1'' s = (Inr (''image'', ''sha256:'' @ sample_hash ''image''), s)"
  by (simp add: numeral_2_eq_2 pull_then_def get_path_def http_def sample_env_def sample_get_def answer200_def give_def
      manifest_bytes_def whole_body_def Let_def sample_manifest_def index_to_def is_index_def mtOCIIndex_def linux_amd64_def
      digest_text_def has_prefix_def sample_image_def mtOCIManifest_def mtDockerList_def)

lemma sample_get_blob:
  "get_path sample_env ''r'' ''o/i'' (''blobs/sha256:'' @ sample_hash ''cfg'') s =
     (Inr \<lparr>hb_chunks = [''cfg''], hb_error = None\<rparr>, s)"
  "get_path sample_env ''r'' ''o/i'' (''blobs/sha256:'' @ sample_hash ''layers'') s =
     (Inr \<lparr>hb_chunks = [''la'', ''yers''], hb_error = None\<rparr>, s)"
  using sample_hashes
  by (simp_all add: get_path_def pull_then_def http_def sample_env_def sample_get_def answer200_def give_def)

lemma sample_calls:
  "try_call sample_env c s = (Inr (), s)" "pe_call sample_env c w = (None, w)" "pe_append sample_env p x w = (None, w)"
  "pe_write sample_env p w = (if p = ''bundle.json'' then Some (None, ''locked'') else None, w)" "pe_cancelled sample_env w = (None, w)"
  "pe_now sample_env w = (''now'', w)"
  "digest_text sample_env x = ''sha256:'' @ sample_hash x"
  by (simp_all add: try_call_def pull_then_def world_step_def sample_env_def give_def digest_text_def)

lemmas sample_steps = pull_then_def world_step_def give_def put_file_def drop_file_def tick_def sample_calls

lemma sample_write:
  assumes "c \<in> {''cfg'', ''layers''}" "map_of (pl_files s) (blob_path (sample_hash c)) = None"
    "map_of (pl_files s) (blob_path (sample_hash c) @ ''.part'') = None"
  obtains ps where "writeBlob sample_env ''r'' ''o/i'' 9 (sample_blob c) s =
    (Inr (), s\<lparr>pl_progress := ps, pl_files := pl_files s @ [(blob_path (sample_hash c), c)]\<rparr>)"
proof -
  have upd: "AList.update k v xs = xs @ [(k, v)]" "AList.delete k (xs @ [(k, w)]) = xs"
    "AList.update k v (xs @ [(k, w)]) = xs @ [(k, v)]"
    if "map_of xs k = None" for k :: string and v w :: string and xs
    using that by (induction xs) (auto split: if_splits)
  have "cut_prefix (''sha256:'' @ x) ''sha256:'' = Some x" for x by (simp only: cut_prefix_iff)
  note cut = this [simplified]
  have part: "blob_path (sample_hash c) @ ''.part'' \<noteq> blob_path (sample_hash c)" by simp
  from assms(1) consider "c = ''cfg''" | "c = ''layers''" by blast
  then have "\<exists>ps. writeBlob sample_env ''r'' ''o/i'' 9 (sample_blob c) s =
    (Inr (), s\<lparr>pl_progress := ps, pl_files := pl_files s @ [(blob_path (sample_hash c), c)]\<rparr>)"
  proof cases
    case 1
    with assms part show ?thesis
      using sample_get_blob
      by (auto simp: writeBlob_def sample_blob_def cut stat_size_def fetch_blob_def Let_def sample_steps upd intro!: exI)
  next
    case 2
    with assms part show ?thesis
      using sample_get_blob
      by (auto simp: writeBlob_def sample_blob_def cut stat_size_def fetch_blob_def Let_def sample_steps upd intro!: exI)
  qed
  then show ?thesis using that by blast
qed

lemma sample_path_neq:
  "blob_path (sample_hash x) = blob_path (sample_hash y) \<longleftrightarrow> sample_hash x = sample_hash y"
  "blob_path (sample_hash x) \<noteq> blob_path (sample_hash y) @ ''.part''"
  "blob_path (sample_hash y) @ ''.part'' \<noteq> blob_path (sample_hash x)"
  "blob_path (sample_hash x) \<noteq> ''bundle.json''"
  by (simp_all add: blob_path_inject sample_hash_hex blob_path_no_part blob_path_no_part [symmetric])
    (simp add: sample_paths blob_dir_def)

definition sample_index :: layout_index where
  "sample_index = \<lparr>li_media = mtOCIManifest, li_digest = ''sha256:'' @ sample_hash ''image'', li_size = 5, li_ref = ''r/o/i:1''\<rparr>"

lemma sample_pull:
  assumes none: "pl_files s = []"
  obtains s1 where
    "pullImageToOCILayout sample_env 2 ''r/o/i:1'' s = (Inr (''sha256:'' @ sample_hash ''image'', 9), s1)"
    "pl_files s1 = map (\<lambda>c. (blob_path (sample_hash c), c)) [''cfg'', ''layers'', ''image'']"
    "pl_index s1 = Some (Some sample_index)" "pl_bundle s1 = pl_bundle s" "pl_dir s1"
proof -
  let ?s = "s\<lparr>pl_token := [], pl_progress := [], pl_dir := True\<rparr>"
  obtain ps1 where w1: "writeBlob sample_env ''r'' ''o/i'' 9 (sample_blob ''cfg'') ?s =
      (Inr (), ?s\<lparr>pl_progress := ps1, pl_files := [(blob_path (sample_hash ''cfg''), ''cfg'')]\<rparr>)"
    by (rule sample_write [of "''cfg''" ?s]) (simp_all add: none)
  let ?s1 = "?s\<lparr>pl_progress := ps1, pl_files := [(blob_path (sample_hash ''cfg''), ''cfg'')]\<rparr>"
  obtain ps2 where w2: "writeBlob sample_env ''r'' ''o/i'' 9 (sample_blob ''layers'') ?s1 =
      (Inr (), ?s1\<lparr>pl_progress := ps2, pl_files := pl_files ?s1 @ [(blob_path (sample_hash ''layers''), ''layers'')]\<rparr>)"
    by (rule sample_write [of "''layers''" ?s1])
      (use sample_hashes in \<open>simp_all add: sample_path_neq del: append.simps\<close>)
  let ?s2 = "?s1\<lparr>pl_progress := ps2, pl_files := pl_files ?s1 @ [(blob_path (sample_hash ''layers''), ''layers'')]\<rparr>"
  have "pe_manifest sample_env ''image'' = Some sample_image" by (simp add: sample_env_def sample_manifest_def)
  moreover have "discardIncompleteBlobs sample_env ?s = (Inr (), ?s)"
    by (simp add: discardIncompleteBlobs_def sample_steps none)
  moreover have "(9 :: int) = wrap64 (od_size (sample_blob ''cfg'') + od_size (sample_blob ''layers''))"
    by (simp add: wrap64_def sample_blob_def)
  moreover have "om_media sample_image = mtOCIManifest" "om_config sample_image = sample_blob ''cfg''"
    "om_layers sample_image = [sample_blob ''layers'']" by (simp_all add: sample_image_def)
  moreover have "mtOCIManifest \<noteq> []" by (simp add: mtOCIManifest_def)
  moreover note digest_trim [of sample_env "''image''", unfolded sample_calls, simplified]
  moreover have "pe_hash sample_env ''image'' = sample_hash ''image''" by (simp add: sample_env_def)
  ultimately have "pullImageToOCILayout sample_env 2 ''r/o/i:1'' s = (Inr (''sha256:'' @ sample_hash ''image'', 9),
      ?s2\<lparr>pl_files := pl_files ?s2 @ [(blob_path (sample_hash ''image''), ''image'')],
          pl_index := Some (Some sample_index), pl_layout := True\<rparr>)"
    using w1 w2 sample_hashes
    by (simp add: pullImageToOCILayout_def sample_ref sample_authorize sample_fetch sample_steps write_record_def
        new_puller_def write_blob_file_def sample_path_neq sample_index_def)
  then show ?thesis by (rule that) simp_all
qed

subsection \<open>The guarantees on the sample\<close>

lemma sample_env_hash: "\<forall>c. hex_name (pe_hash sample_env c)"
  by (simp add: sample_env_def sample_hash_hex)



subsection \<open>What the guarantees leave open\<close>

text \<open>An index whose entry names itself by its tag is read for ever: no amount of fuel is enough.\<close>

lemma endless_index: "fetchManifest sample_env ''r'' ''o/i'' n ''loop'' s = (Inl EndlessIndex, s)"
proof (induction n)
  case (Suc n)
  have "pe_manifest sample_env ''loop'' = Some (index_to ''loop'')" "sample_hash x \<noteq> []" for x
    by (simp_all add: sample_env_def sample_manifest_def sample_hash_def)
  moreover have "get_path sample_env ''r'' ''o/i'' ''manifests/loop'' s = (Inr \<lparr>hb_chunks = [''loop''], hb_error = None\<rparr>, s)"
    by (simp add: get_path_def pull_then_def http_def sample_env_def sample_get_def answer200_def give_def)
  ultimately show ?case
    using Suc
    by (simp add: pull_then_def manifest_bytes_def whole_body_def Let_def has_prefix_def index_to_def is_index_def
        linux_amd64_def)
qed (simp add: refuse_def)

text \<open>The digest of a layer is a path: this one leaves the bundle directory, and its temporary file takes
  the place of a file there.\<close>

lemma digest_leaves_bundle: "blob_path ''../../../../user'' = ''../user''"
  by code_simp

lemma digest_removes_file:
  assumes "od_digest d = ''sha256:../../../../user''" "od_size d = 1"
  shows "map_of (pl_files (snd (writeBlob (sample_env\<lparr>pe_get := \<lambda>_ _ w. (answer200 [''x''], w)\<rparr>) ''r'' ''o/i'' 1 d
    (fresh\<lparr>pl_files := [(''../user.part'', ''kept'')]\<rparr>)))) ''../user.part'' = None"
proof -
  have "cut_prefix (''sha256:'' @ x) ''sha256:'' = Some x" for x by (simp only: cut_prefix_iff)
  from this [of "''../../../../user''"] have "cut_prefix ''sha256:../../../../user'' ''sha256:'' = Some ''../../../../user''"
    by simp
  then show ?thesis
    using assms digest_leaves_bundle
    by (simp add: writeBlob_def stat_size_def fetch_blob_def Let_def sample_steps sample_env_def fresh_def get_path_def
        http_def answer200_def try_call_def abandon_def refuse_def digest_text_def sample_hash_def)
qed

text \<open>
  index.json is written before bundle.json: when the second write fails, the record of another
  image stays beside this image's layout, and a later run takes that image for downloaded.
\<close>

lemma stale_bundle_reused:
  assumes "bi_image b = ''r/other:1''"
  obtains s1 s2 where
    "stageImageBundle sample_env 2 ''r/o/i:1'' (fresh\<lparr>pl_bundle := Some b\<rparr>) = (Inl (Disk ''locked''), s1)"
    "reuseStagedBundleAt sample_env ''r/other:1'' s1 = (Inr True, s2)"
    "pl_index s2 = Some (Some sample_index)"
proof -
  let ?s = "fresh\<lparr>pl_bundle := Some b\<rparr>"
  have "pl_files ?s = []" by (simp add: fresh_def)
  then obtain s1 where p: "pullImageToOCILayout sample_env 2 ''r/o/i:1'' ?s = (Inr (''sha256:'' @ sample_hash ''image'', 9), s1)"
    and f: "pl_files s1 = map (\<lambda>c. (blob_path (sample_hash c), c)) [''cfg'', ''layers'', ''image'']"
    and i: "pl_index s1 = Some (Some sample_index)" "pl_bundle s1 = Some b" "pl_dir s1"
    by (elim sample_pull) simp
  have "\<not> has_suffix (blob_path (sample_hash c)) ''.part''" for c
    using hex_name_chars(6) [OF sample_hash_hex] by (simp add: sample_paths)
  then have "discardIncompleteBlobs sample_env s1 = (Inr (), s1)"
    by (simp add: discardIncompleteBlobs_def sample_steps f)
  then have "reuseStagedBundleAt sample_env ''r/other:1'' s1 = (Inr True, s1)"
    using i assms by (simp add: reuseStagedBundleAt_def readBundleInfoAt_def sample_steps)
  moreover have "stageImageBundle sample_env 2 ''r/o/i:1'' ?s = (Inl (Disk ''locked''), s1)"
    using p assms
    by (simp add: stageImageBundle_def reuseStagedBundleAt_def readBundleInfoAt_def sample_steps write_record_def fresh_def)
  ultimately show ?thesis using that i(1) by blast
qed

end
