(* ===== verification/Secure_Boot.thy ===== *)
theory Secure_Boot
  imports Base64 "HOL-Library.Word"
begin

unbundle bit_operations_syntax

text \<open>
  Which Microsoft authority the firmware trusts (\<open>app/secureboot.go\<close>): the walk over the
  signature lists of the variable \<open>db\<close>, and the verdict on the staged shim. Slicing and
  indexing out of range, which panic in Go, are \<open>None\<close>. \<open>common_name\<close> stands for the subject
  that \<open>x509.ParseCertificate\<close> reads, \<open>None\<close> for bytes that are no certificate.
\<close>

type_synonym bytes = "8 word list"

subsection \<open>Reading the variable\<close>

definition efiCertX509GUID :: bytes where
  "efiCertX509GUID =
     [0xa1, 0x59, 0xc0, 0xa5, 0xe4, 0x94, 0xa7, 0x4a, 0x87, 0xb5, 0xab, 0x15, 0x5c, 0x2b, 0xf0, 0x72]"

text \<open>\<open>db[a:b]\<close>, and \<open>db[i]\<close> of an index in range.\<close>

definition slice_of :: "bytes \<Rightarrow> int \<Rightarrow> int \<Rightarrow> bytes option" where
  "slice_of db a b =
     (if 0 \<le> a \<and> a \<le> b \<and> b \<le> int (length db) then Some (take (nat (b - a)) (drop (nat a) db)) else None)"

definition byte_at :: "bytes \<Rightarrow> int \<Rightarrow> 32 word" where
  "byte_at db i = ucast (db ! nat i)"

definition le32 :: "bytes \<Rightarrow> int \<Rightarrow> 32 word" where
  "le32 b off =
     (if off < 0 \<or> int (length b) < off + 4 then 0
      else byte_at b off OR push_bit 8 (byte_at b (off + 1)) OR push_bit 16 (byte_at b (off + 2)) OR
        push_bit 24 (byte_at b (off + 3)))"

definition microsoftUefiCAPatterns :: "((string \<Rightarrow> bool) \<times> string) list" where
  "microsoftUefiCAPatterns =
     [(\<lambda>name. contains_str name ''Microsoft Corporation UEFI CA 2011'', ''2011''),
      (\<lambda>name. contains_str name ''Microsoft Corporation UEFI CA 2023'' \<or> contains_str name ''Microsoft UEFI CA 2023'',
       ''2023'')]"

definition matchMicrosoftUefiCA :: "string \<Rightarrow> string list" where
  "matchMicrosoftUefiCA name = map snd (filter (\<lambda>p. fst p name) microsoftUefiCAPatterns)"

text \<open>What was found so far: the generations and the number of certificates.\<close>

type_synonym found = "string list \<times> int"

definition note_certificate :: "(bytes \<Rightarrow> string option) \<Rightarrow> bytes \<Rightarrow> found \<Rightarrow> found" where
  "note_certificate common_name der st =
     (case common_name der of
        None \<Rightarrow> st
      | Some name \<Rightarrow> (fold List.insert (matchMicrosoftUefiCA name) (fst st), snd st + 1))"

text \<open>
  The entries of a list, from \<open>e\<close> to \<open>limit\<close>. The caller has checked that an entry is larger
  than its owner, so the loop advances.
\<close>

function read_entries ::
  "(bytes \<Rightarrow> string option) \<Rightarrow> bytes \<Rightarrow> int \<Rightarrow> int \<Rightarrow> int \<Rightarrow> found \<Rightarrow> found option" where
  "read_entries common_name db limit sig_size e st =
     (if 16 < sig_size \<and> e + sig_size \<le> limit
      then (case slice_of db (e + 16) (e + sig_size) of
              None \<Rightarrow> None
            | Some der \<Rightarrow>
                read_entries common_name db limit sig_size (e + sig_size) (note_certificate common_name der st))
      else Some st)"
  by pat_completeness auto

termination
  by (relation "measure (\<lambda>(common_name, db, limit, sig_size, e, st). nat (limit - e))") auto

declare read_entries.simps [simp del]

function read_lists :: "(bytes \<Rightarrow> string option) \<Rightarrow> bytes \<Rightarrow> int \<Rightarrow> found \<Rightarrow> found option" where
  "read_lists common_name db off st =
     (if int (length db) < off + 28 then Some st
      else (case slice_of db off (off + 16) of
              None \<Rightarrow> None
            | Some sig_type \<Rightarrow>
                (let list_size = uint (le32 db (off + 16)); header_size = uint (le32 db (off + 20));
                     sig_size = uint (le32 db (off + 24))
                 in if list_size < 28 \<or> sig_size \<le> 16 \<or> int (length db) < off + list_size then Some st
                    else (case (if sig_type = efiCertX509GUID
                                then read_entries common_name db (off + list_size) sig_size (off + 28 + header_size) st
                                else Some st) of
                            None \<Rightarrow> None
                          | Some st1 \<Rightarrow> read_lists common_name db (off + list_size) st1))))"
  by pat_completeness auto

termination
  by (relation "measure (\<lambda>(common_name, db, off, st). nat (int (length db) - off))") auto

declare read_lists.simps [simp del]

definition sortedKeys :: "string list \<Rightarrow> string list" where
  "sortedKeys xs = sorted_keys (map (\<lambda>x. (x, ())) xs)"

definition parseUEFIDb :: "(bytes \<Rightarrow> string option) \<Rightarrow> bytes \<Rightarrow> (string list \<times> int) option" where
  "parseUEFIDb common_name db = map_option (apfst sortedKeys) (read_lists common_name db 0 ([], 0))"

definition parseUEFISignatureListCAs :: "(bytes \<Rightarrow> string option) \<Rightarrow> bytes \<Rightarrow> string list option" where
  "parseUEFISignatureListCAs common_name db = map_option fst (parseUEFIDb common_name db)"

text \<open>
  \<open>trustedUefiAuthorities\<close>: the variable through base64 (\<open>None\<close> is a command that failed), or
  else the subjects that another command prints, one a line. The second result tells whether
  anything was read.
\<close>

definition subject_authorities :: "string \<Rightarrow> string list \<times> bool" where
  "subject_authorities out =
     (let lines = filter (\<lambda>l. trim_space l \<noteq> []) (split_on (CHR 10) out)
      in (sortedKeys (concat (map matchMicrosoftUefiCA lines)), lines \<noteq> []))"

definition db_authorities :: "(bytes \<Rightarrow> string option) \<Rightarrow> string option \<Rightarrow> (string list \<times> int) option option" where
  "db_authorities common_name out =
     (case out of
        None \<Rightarrow> Some None
      | Some text \<Rightarrow>
          (case (if trim_space text = [] then None else base64_decode (trim_space text)) of
             None \<Rightarrow> Some None
           | Some db \<Rightarrow> map_option Some (parseUEFIDb common_name (map of_char db))))"

definition trustedUefiAuthorities ::
  "(bytes \<Rightarrow> string option) \<Rightarrow> string option \<Rightarrow> string option \<Rightarrow> (string list \<times> bool) option" where
  "trustedUefiAuthorities common_name variable subjects =
     (case db_authorities common_name variable of
        None \<Rightarrow> None
      | Some r \<Rightarrow>
          (case r of
             Some (gens, certs) \<Rightarrow>
               if 0 < certs then Some (gens, True)
               else Some (case subjects of None \<Rightarrow> ([], False) | Some out \<Rightarrow> subject_authorities out)
           | None \<Rightarrow> Some (case subjects of None \<Rightarrow> ([], False) | Some out \<Rightarrow> subject_authorities out)))"

subsection \<open>The verdict\<close>

definition normalizeAuthorities :: "string list \<Rightarrow> string list" where
  "normalizeAuthorities xs = sortedKeys (filter (\<lambda>s. s \<noteq> []) (map trim_space xs))"

text \<open>
  The authorities of shim-authorities.json (\<open>None\<close> when it is missing or does not parse) under
  the name of the shim, or else those of the build.
\<close>

definition stagedShimAuthorities :: "string list smap option \<Rightarrow> string \<Rightarrow> string list" where
  "stagedShimAuthorities file_map stamped =
     (case (case file_map of None \<Rightarrow> None | Some m \<Rightarrow> map_of m ''shimx64.efi'') of
        Some gens \<Rightarrow> normalizeAuthorities gens
      | None \<Rightarrow> if stamped = [] then [] else normalizeAuthorities (split_on (CHR '','') stamped))"

definition intersects :: "string list \<Rightarrow> string list \<Rightarrow> bool" where
  "intersects a b \<longleftrightarrow> list_ex (\<lambda>x. list_ex (\<lambda>y. x = y) b) a"

definition humanAuthorities :: "string list \<Rightarrow> string" where
  "humanAuthorities gens =
     (case gens of
        [] \<Rightarrow> ''no known''
      | [a] \<Rightarrow> a
      | [a, b] \<Rightarrow> a @ '' and '' @ b
      | _ \<Rightarrow> join_with '', '' (butlast gens) @ '' and '' @ last gens)"

text \<open>The three messages; the last quotes both sides and the product.\<close>

datatype chain_message =
    NoMessage
  | OnlyWindows
  | UnreadableDb
  | OtherAuthority string string string

record secureBootChainCheck =
  sb_blocked :: bool
  sb_warn :: bool
  sb_message :: chain_message

definition no_objection :: secureBootChainCheck where
  "no_objection = \<lparr>sb_blocked = False, sb_warn = False, sb_message = NoMessage\<rparr>"

definition checkSecureBootChain ::
  "bool \<Rightarrow> bool \<Rightarrow> bool \<Rightarrow> string list \<Rightarrow> string list \<Rightarrow> string \<Rightarrow> secureBootChainCheck" where
  "checkSecureBootChain on known db_read trusted staged product =
     (if \<not> known \<or> \<not> on then no_objection
      else if staged = [] then no_objection
      else if trusted = [] \<and> db_read then \<lparr>sb_blocked = True, sb_warn = False, sb_message = OnlyWindows\<rparr>
      else if trusted = [] then \<lparr>sb_blocked = False, sb_warn = True, sb_message = UnreadableDb\<rparr>
      else if intersects trusted staged then no_objection
      else \<lparr>sb_blocked = True, sb_warn = False,
        sb_message = OtherAuthority (humanAuthorities trusted) (humanAuthorities staged) product\<rparr>)"

definition productNameForMessages :: "string \<Rightarrow> string" where
  "productNameForMessages name = (if name \<noteq> [] then name else ''wootc'')"

record firmware_info =
  fi_on :: bool
  fi_known :: bool
  fi_db_read :: bool
  fi_trusted :: "string list"

definition secureBootChainVerdict ::
  "firmware_info \<Rightarrow> string list smap option \<Rightarrow> string \<Rightarrow> string \<Rightarrow> secureBootChainCheck" where
  "secureBootChainVerdict si file_map stamped product =
     checkSecureBootChain (fi_on si) (fi_known si) (fi_db_read si) (fi_trusted si)
       (stagedShimAuthorities file_map stamped) (productNameForMessages product)"

end
