(* ===== verification/Secure_Boot_Props.thy ===== *)
theory Secure_Boot_Props
  imports Secure_Boot
begin

text \<open>
  The reader of \<open>db\<close> never leaves the variable, and on a well-formed chain of signature lists it
  finds exactly the certificates that are in it; the verdict on such a chain says whether any of
  them vouches for the staged shim. Also here: a chain that is cut short after a readable list.
\<close>

subsection \<open>No access outside the variable\<close>

lemma read_entries_returns:
  assumes "0 \<le> e" "16 < sig_size" "limit \<le> int (length db)"
  shows "read_entries common_name db limit sig_size e st \<noteq> None"
  using assms
proof (induction common_name db limit sig_size e st rule: read_entries.induct)
  case (1 common_name db limit sig_size e st)
  show ?case
  proof (cases "e + sig_size \<le> limit")
    case True
    with 1 show ?thesis
      by (subst read_entries.simps) (auto simp: slice_of_def)
  qed (subst read_entries.simps, simp)
qed

lemma read_lists_returns: "0 \<le> off \<Longrightarrow> read_lists common_name db off st \<noteq> None"
proof (induction common_name db off st rule: read_lists.induct)
  case (1 common_name db off st)
  let ?size = "uint (le32 db (off + 16))" and ?head = "uint (le32 db (off + 20))" and ?sig = "uint (le32 db (off + 24))"
  show ?case
  proof (cases "int (length db) < off + 28 \<or> ?size < 28 \<or> ?sig \<le> 16 \<or> int (length db) < off + ?size")
    case True
    with 1(2) show ?thesis by (subst read_lists.simps) (auto simp: slice_of_def Let_def)
  next
    case False
    then obtain t where t: "slice_of db off (off + 16) = Some t" using 1(2) by (auto simp: slice_of_def)
    have "read_entries common_name db (off + ?size) ?sig (off + 28 + ?head) st \<noteq> None"
      by (rule read_entries_returns) (use False 1(2) in auto)
    then obtain st1 where st1: "(if t = efiCertX509GUID
        then read_entries common_name db (off + ?size) ?sig (off + 28 + ?head) st else Some st) = Some st1"
      by (cases "t = efiCertX509GUID") auto
    from 1(1) [OF _ t refl refl refl _ st1] False 1(2) have "read_lists common_name db (off + ?size) st1 \<noteq> None" by auto
    with False t st1 show ?thesis by (subst read_lists.simps) (simp add: Let_def)
  qed
qed

text \<open>Whatever the bytes of the variable are, reading them does not index or slice out of range.\<close>

theorem db_never_panics: "parseUEFIDb common_name db \<noteq> None"
  using read_lists_returns [of 0] by (simp add: parseUEFIDb_def)

subsection \<open>Well-formed chains\<close>

text \<open>A signature list: its type, header, entries of one size (owner and signature), and slack.\<close>

record signature_list =
  sl_type :: bytes
  sl_header :: bytes
  sl_sig_size :: int
  sl_entries :: "(bytes \<times> bytes) list"
  sl_slack :: bytes

definition enc32 :: "int \<Rightarrow> bytes" where
  "enc32 n = (let w = word_of_int n :: 32 word in [ucast w, ucast (drop_bit 8 w), ucast (drop_bit 16 w), ucast (drop_bit 24 w)])"

definition sl_payload :: "signature_list \<Rightarrow> bytes" where
  "sl_payload l = concat (map (\<lambda>(own, sig). own @ sig) (sl_entries l))"

definition sl_length :: "signature_list \<Rightarrow> int" where
  "sl_length l = 28 + int (length (sl_header l)) + int (length (sl_payload l)) + int (length (sl_slack l))"

definition encode_list :: "signature_list \<Rightarrow> bytes" where
  "encode_list l = sl_type l @ enc32 (sl_length l) @ enc32 (int (length (sl_header l))) @ enc32 (sl_sig_size l) @
     sl_header l @ sl_payload l @ sl_slack l"

definition wf_list :: "signature_list \<Rightarrow> bool" where
  "wf_list l \<longleftrightarrow> length (sl_type l) = 16 \<and> 16 < sl_sig_size l \<and> sl_sig_size l < 2 ^ 32 \<and> sl_length l < 2 ^ 32 \<and>
     int (length (sl_slack l)) < sl_sig_size l \<and>
     list_all (\<lambda>(own, sig). length own = 16 \<and> 16 + int (length sig) = sl_sig_size l) (sl_entries l)"

definition sl_certs :: "signature_list \<Rightarrow> bytes list" where
  "sl_certs l = (if sl_type l = efiCertX509GUID then map snd (sl_entries l) else [])"

lemma enc32_length [simp]: "length (enc32 n) = 4"
  by (simp add: enc32_def Let_def)

lemma le32_bytes:
  "(w :: 32 word) = ucast (ucast w :: 8 word) OR push_bit 8 (ucast (ucast (drop_bit 8 w) :: 8 word)) OR
     push_bit 16 (ucast (ucast (drop_bit 16 w) :: 8 word)) OR push_bit 24 (ucast (ucast (drop_bit 24 w) :: 8 word))"
proof (rule bit_word_eqI)
  fix n :: nat
  consider "n < 8" | "8 \<le> n" "n < 16" | "16 \<le> n" "n < 24" | "24 \<le> n" by linarith
  then show "bit w n = bit (ucast (ucast w :: 8 word) OR push_bit 8 (ucast (ucast (drop_bit 8 w) :: 8 word)) OR
     push_bit 16 (ucast (ucast (drop_bit 16 w) :: 8 word)) OR push_bit 24 (ucast (ucast (drop_bit 24 w) :: 8 word)) :: 32 word) n"
    if "n < LENGTH(32)" using that by cases (auto simp: bit_simps)
qed

lemma le32_enc32:
  assumes "0 \<le> n" "n < 2 ^ 32" "k = int (length pre)"
  shows "uint (le32 (pre @ enc32 n @ post) k) = n"
proof -
  let ?w = "word_of_int n :: 32 word"
  have "le32 (pre @ enc32 n @ post) k = ?w"
    using assms(3) by (subst (2) le32_bytes) (simp add: le32_def byte_at_def enc32_def Let_def nth_append nat_add_distrib)
  then show ?thesis using assms(1,2) by (simp add: uint_word_of_int)
qed

lemma slice_mid: "k = int (length pre) \<Longrightarrow> m = k + int (length mid) \<Longrightarrow> slice_of (pre @ mid @ post) k m = Some mid"
  by (simp add: slice_of_def)

lemma read_entries_encoded:
  assumes "list_all (\<lambda>(own, sig). length own = 16 \<and> 16 + int (length sig) = n) es" "16 < n"
    "int (length slack) < n" "e = int (length pre)"
    "limit = e + int (length (concat (map (\<lambda>(own, sig). own @ sig) es))) + int (length slack)"
  shows "read_entries common_name (pre @ concat (map (\<lambda>(own, sig). own @ sig) es) @ slack @ post) limit n e st =
     Some (fold (note_certificate common_name) (map snd es) st)"
  using assms
proof (induction es arbitrary: pre e st)
  case Nil
  then show ?case by (subst read_entries.simps) simp
next
  case (Cons x es)
  obtain own sig where x: "x = (own, sig)" by fastforce
  let ?rest = "concat (map (\<lambda>(own, sig). own @ sig) es)"
  let ?db = "pre @ concat (map (\<lambda>(own, sig). own @ sig) (x # es)) @ slack @ post"
  from Cons.prems(1) x have len: "length own = 16" "16 + int (length sig) = n" by simp_all
  have "slice_of ((pre @ own) @ sig @ ?rest @ slack @ post) (e + 16) (e + n) = Some sig"
    by (rule slice_mid) (use Cons.prems(4) len in simp_all)
  then have s: "slice_of ?db (e + 16) (e + n) = Some sig" by (simp add: x)
  have "read_entries common_name ((pre @ own @ sig) @ ?rest @ slack @ post) limit n (e + n)
      (note_certificate common_name sig st) = Some (fold (note_certificate common_name) (map snd es) (note_certificate common_name sig st))"
    by (rule Cons.IH) (use Cons.prems len in \<open>simp_all add: x\<close>)
  then have r: "read_entries common_name ?db limit n (e + n) (note_certificate common_name sig st) =
      Some (fold (note_certificate common_name) (map snd es) (note_certificate common_name sig st))"
    by (simp add: x)
  have "e + n \<le> limit" using Cons.prems(5) len by (simp add: x)
  with s r Cons.prems(2) show ?case by (subst read_entries.simps) (simp add: x)
qed

lemma list_fields:
  assumes "wf_list l" "off = int (length pre)"
  shows "slice_of (pre @ encode_list l @ post) off (off + 16) = Some (sl_type l)"
    "uint (le32 (pre @ encode_list l @ post) (off + 16)) = sl_length l"
    "uint (le32 (pre @ encode_list l @ post) (off + 20)) = int (length (sl_header l))"
    "uint (le32 (pre @ encode_list l @ post) (off + 24)) = sl_sig_size l"
    "int (length (encode_list l)) = sl_length l" "28 \<le> sl_length l"
proof -
  have len: "length (sl_type l) = 16" using assms(1) by (simp add: wf_list_def)
  have size: "0 \<le> sl_length l" "sl_length l < 2 ^ 32" "0 \<le> sl_sig_size l" "sl_sig_size l < 2 ^ 32"
    "int (length (sl_header l)) < 2 ^ 32"
    using assms(1) by (auto simp: wf_list_def sl_length_def)
  show "slice_of (pre @ encode_list l @ post) off (off + 16) = Some (sl_type l)"
    using slice_mid [of off pre "off + 16" "sl_type l"] assms(2) len by (simp add: encode_list_def)
  show "uint (le32 (pre @ encode_list l @ post) (off + 16)) = sl_length l"
    using le32_enc32 [OF size(1,2), of "off + 16" "pre @ sl_type l"] assms(2) len by (simp add: encode_list_def)
  show "uint (le32 (pre @ encode_list l @ post) (off + 20)) = int (length (sl_header l))"
    using le32_enc32 [OF _ size(5), of "off + 20" "pre @ sl_type l @ enc32 (sl_length l)"] assms(2) len
    by (simp add: encode_list_def)
  show "uint (le32 (pre @ encode_list l @ post) (off + 24)) = sl_sig_size l"
    using le32_enc32 [OF size(3,4), of "off + 24" "pre @ sl_type l @ enc32 (sl_length l) @ enc32 (int (length (sl_header l)))"]
      assms(2) len
    by (simp add: encode_list_def)
  show "int (length (encode_list l)) = sl_length l" "28 \<le> sl_length l"
    using len by (simp_all add: encode_list_def sl_length_def)
qed

lemma read_list_encoded:
  assumes "wf_list l" "off = int (length pre)"
  shows "(if sl_type l = efiCertX509GUID
      then read_entries common_name (pre @ encode_list l @ post) (off + sl_length l) (sl_sig_size l)
        (off + 28 + int (length (sl_header l))) st else Some st) =
    Some (fold (note_certificate common_name) (sl_certs l) st)"
proof -
  let ?pre = "pre @ sl_type l @ enc32 (sl_length l) @ enc32 (int (length (sl_header l))) @ enc32 (sl_sig_size l) @ sl_header l"
  have "read_entries common_name (?pre @ sl_payload l @ sl_slack l @ post) (off + sl_length l) (sl_sig_size l)
      (off + 28 + int (length (sl_header l))) st = Some (fold (note_certificate common_name) (map snd (sl_entries l)) st)"
    unfolding sl_payload_def
    by (rule read_entries_encoded) (use assms in \<open>auto simp: wf_list_def sl_length_def sl_payload_def\<close>)
  moreover have "?pre @ sl_payload l @ sl_slack l @ post = pre @ encode_list l @ post" by (simp add: encode_list_def)
  ultimately show ?thesis by (simp only:) (simp add: sl_certs_def)
qed

lemma read_lists_encoded:
  assumes "list_all wf_list ls" "off = int (length pre)"
  shows "read_lists common_name (pre @ concat (map encode_list ls) @ post) off st =
    read_lists common_name (pre @ concat (map encode_list ls) @ post) (off + int (length (concat (map encode_list ls))))
      (fold (note_certificate common_name) (concat (map sl_certs ls)) st)"
  using assms
proof (induction ls arbitrary: pre off st)
  case (Cons l ls)
  then have l: "wf_list l" by simp
  let ?post = "concat (map encode_list ls) @ post"
  note f = list_fields(1-4) [OF l Cons.prems(2), of ?post] list_fields(5,6) [OF l Cons.prems(2)] and r = read_list_encoded [OF l Cons.prems(2), of common_name ?post]
  have n: "16 < sl_sig_size l" using l by (simp add: wf_list_def)
  let ?st = "fold (note_certificate common_name) (sl_certs l) st"
  have "read_lists common_name ((pre @ encode_list l) @ ?post) (off + sl_length l) ?st =
    read_lists common_name ((pre @ encode_list l) @ ?post) (off + sl_length l + int (length (concat (map encode_list ls))))
      (fold (note_certificate common_name) (concat (map sl_certs ls)) ?st)"
    by (rule Cons.IH) (use Cons.prems f(5) in simp_all)
  with f(5) have rest: "read_lists common_name (pre @ encode_list l @ ?post) (off + sl_length l) ?st =
    read_lists common_name (pre @ encode_list l @ ?post) (off + int (length (concat (map encode_list (l # ls)))))
      (fold (note_certificate common_name) (concat (map sl_certs (l # ls))) st)"
    by (simp add: add.assoc)
  have "read_lists common_name (pre @ encode_list l @ ?post) off st =
      read_lists common_name (pre @ encode_list l @ ?post) (off + sl_length l) ?st"
    using f n r [of st, unfolded Cons.prems(2)] Cons.prems(2)
    by (cases "sl_type l = efiCertX509GUID") (subst read_lists.simps, simp add: Let_def)+
  with rest show ?case by simp
qed simp

lemma read_lists_short: "int (length db) < off + 28 \<Longrightarrow> read_lists common_name db off st = Some st"
  by (subst read_lists.simps) simp

text \<open>What the certificates of a chain say: the generations they identify, and how many are readable.\<close>

definition vouched :: "(bytes \<Rightarrow> string option) \<Rightarrow> bytes list \<Rightarrow> string set" where
  "vouched common_name certs = {g. \<exists>der\<in>set certs. \<exists>name. common_name der = Some name \<and> g \<in> set (matchMicrosoftUefiCA name)}"

lemma fold_insert_set: "set (fold List.insert xs ys) = set xs \<union> set ys"
  by (induction xs arbitrary: ys) auto

lemma fold_notes:
  "set (fst (fold (note_certificate common_name) ders st)) = set (fst st) \<union> vouched common_name ders \<and>
   snd (fold (note_certificate common_name) ders st) =
     snd st + int (length (filter (\<lambda>der. common_name der \<noteq> None) ders))"
proof (induction ders arbitrary: st)
  case (Cons der ders)
  show ?case
  proof (cases "common_name der")
    case (Some name)
    then show ?thesis
      using Cons.IH [of "note_certificate common_name der st"]
      by (auto simp: note_certificate_def vouched_def fold_insert_set)
  qed (use Cons.IH [of st] in \<open>auto simp: note_certificate_def vouched_def\<close>)
qed (simp add: vouched_def)

definition readable :: "(bytes \<Rightarrow> string option) \<Rightarrow> bytes list \<Rightarrow> bytes list" where
  "readable common_name certs = filter (\<lambda>der. common_name der \<noteq> None) certs"

definition chain_certs :: "signature_list list \<Rightarrow> bytes list" where
  "chain_certs ls = concat (map sl_certs ls)"

text \<open>A readable part, and after it a tail at which the walk stops.\<close>

lemma parse_readable_part:
  assumes "list_all wf_list ls"
    "\<And>st. read_lists common_name (concat (map encode_list ls) @ tail) (int (length (concat (map encode_list ls)))) st = Some st"
  shows "\<exists>gens. parseUEFIDb common_name (concat (map encode_list ls) @ tail) =
      Some (gens, int (length (readable common_name (chain_certs ls)))) \<and>
    sorted gens \<and> distinct gens \<and> set gens = vouched common_name (chain_certs ls)"
proof -
  let ?st = "fold (note_certificate common_name) (chain_certs ls) ([], 0)"
  have "read_lists common_name (concat (map encode_list ls) @ tail) 0 ([], 0) = Some ?st"
    using read_lists_encoded [OF assms(1), of 0 "[]" common_name tail "([], 0)"] assms(2) by (simp add: chain_certs_def)
  moreover have "set (sortedKeys (fst ?st)) = vouched common_name (chain_certs ls)"
    "snd ?st = int (length (readable common_name (chain_certs ls)))"
    using fold_notes [of common_name "chain_certs ls" "([], 0)"]
    by (auto simp: sortedKeys_def readable_def image_image)
  ultimately show ?thesis
    by (cases ?st) (simp add: parseUEFIDb_def sortedKeys_def apfst_def map_prod_def)
qed

text \<open>
  On a well-formed chain of signature lists, reading is exact: the generations are those of
  the X.509 entries, each once and in order, and the count is that of the readable certificates.
\<close>

theorem db_reads_chain:
  assumes "list_all wf_list ls"
  shows "\<exists>gens. parseUEFIDb common_name (concat (map encode_list ls)) =
      Some (gens, int (length (readable common_name (chain_certs ls)))) \<and>
    sorted gens \<and> distinct gens \<and> set gens = vouched common_name (chain_certs ls)"
  using parse_readable_part [OF assms, of common_name "[]"] by (simp add: read_lists_short)

subsection \<open>The verdict\<close>

lemma intersects_iff: "intersects a b \<longleftrightarrow> set a \<inter> set b \<noteq> {}"
  by (auto simp: intersects_def list_ex_iff)

lemma blocked_iff:
  "sb_blocked (checkSecureBootChain on known db_read trusted staged product) \<longleftrightarrow>
     known \<and> on \<and> staged \<noteq> [] \<and> (if trusted = [] then db_read else set trusted \<inter> set staged = {})"
  by (auto simp: checkSecureBootChain_def no_objection_def intersects_iff)

lemma trusted_of_db:
  assumes "trim_space out \<noteq> []" "base64_decode (trim_space out) = Some raw"
    "parseUEFIDb common_name (map of_char raw) = Some (gens, certs)" "0 < certs"
  shows "trustedUefiAuthorities common_name (Some out) subjects = Some (gens, True)"
  using assms by (simp add: trustedUefiAuthorities_def db_authorities_def)

text \<open>
  C28: the verdict on a machine whose \<open>db\<close> is well formed and holds a readable certificate: it
  blocks exactly when Secure Boot is known to be on, the authorities of the staged shim are
  recorded, and no certificate of \<open>db\<close> is of one of them.
\<close>

theorem chain_verdict_exact:
  assumes "list_all wf_list ls" "readable common_name (chain_certs ls) \<noteq> []"
    "trim_space out \<noteq> []" "base64_decode (trim_space out) = Some raw"
    "map of_char raw = concat (map encode_list ls)"
  shows "\<exists>gens db_read. trustedUefiAuthorities common_name (Some out) subjects = Some (gens, db_read) \<and>
    (sb_blocked (secureBootChainVerdict
        \<lparr>fi_on = on, fi_known = known, fi_db_read = db_read, fi_trusted = gens\<rparr> file_map stamped product) \<longleftrightarrow>
      known \<and> on \<and> stagedShimAuthorities file_map stamped \<noteq> [] \<and>
      vouched common_name (chain_certs ls) \<inter> set (stagedShimAuthorities file_map stamped) = {})"
proof -
  obtain gens where g: "parseUEFIDb common_name (concat (map encode_list ls)) =
      Some (gens, int (length (readable common_name (chain_certs ls))))"
    and v: "set gens = vouched common_name (chain_certs ls)"
    using parse_readable_part [OF assms(1), of common_name "[]"] by (auto simp: read_lists_short)
  have "trustedUefiAuthorities common_name (Some out) subjects = Some (gens, True)"
    by (rule trusted_of_db [OF assms(3,4) g [folded assms(5)]]) (use assms(2) in simp)
  moreover have "gens = [] \<longleftrightarrow> vouched common_name (chain_certs ls) = {}" using v by auto
  ultimately show ?thesis
    using v by (auto simp: secureBootChainVerdict_def blocked_iff)
qed

text \<open>
  A \<open>db\<close> that is cut short after a readable certificate of Windows alone counts as read: whatever
  the lost part held, the machine is blocked.
\<close>

lemma truncated_db_blocks:
  assumes "wf_list l" "readable common_name (sl_certs l) \<noteq> []" "vouched common_name (sl_certs l) = {}"
    "length tail < 28" "trim_space out \<noteq> []" "base64_decode (trim_space out) = Some raw"
    "map of_char raw = encode_list l @ tail" "stagedShimAuthorities file_map stamped \<noteq> []"
  shows "trustedUefiAuthorities common_name (Some out) subjects = Some ([], True)"
    "sb_blocked (secureBootChainVerdict
        \<lparr>fi_on = True, fi_known = True, fi_db_read = True, fi_trusted = []\<rparr> file_map stamped product)"
proof -
  have "chain_certs [l] = sl_certs l" "concat (map encode_list [l]) = encode_list l" by (simp_all add: chain_certs_def)
  then obtain gens where g: "parseUEFIDb common_name (encode_list l @ tail) =
      Some (gens, int (length (readable common_name (sl_certs l))))" and "set gens = {}"
    using parse_readable_part [of "[l]" common_name tail] assms(1,3,4) by (auto simp: read_lists_short)
  then show "trustedUefiAuthorities common_name (Some out) subjects = Some ([], True)"
    using trusted_of_db [OF assms(5,6) g [folded assms(7)]] assms(2) by simp
  show "sb_blocked (secureBootChainVerdict
        \<lparr>fi_on = True, fi_known = True, fi_db_read = True, fi_trusted = []\<rparr> file_map stamped product)"
    using assms(8) by (simp add: secureBootChainVerdict_def blocked_iff)
qed

subsection \<open>A variable of one list\<close>

definition sample_list :: signature_list where
  "sample_list = \<lparr>sl_type = efiCertX509GUID, sl_header = [], sl_sig_size = 17,
     sl_entries = [(replicate 16 0, [23])], sl_slack = []\<rparr>"

definition sample_name :: "bytes \<Rightarrow> string option" where
  "sample_name der = (if der = [23] then Some ''Microsoft UEFI CA 2023'' else None)"

definition sample_db :: string where
  "sample_db = ''oVnApeSUp0qHtasVXCvwci0AAAAAAAAAEQAAAAAAAAAAAAAAAAAAAAAAAAAX''"

lemma sample_list_wf: "list_all wf_list [sample_list]"
  by (simp add: wf_list_def sample_list_def sl_length_def sl_payload_def efiCertX509GUID_def)

lemma sample_certs: "chain_certs [sample_list] = [[23]]"
  by (simp add: chain_certs_def sl_certs_def sample_list_def)

theorem db_reads_chain_witness:
  "\<exists>gens. parseUEFIDb sample_name (concat (map encode_list [sample_list])) = Some (gens, 1) \<and>
     set gens = vouched sample_name [[23]] \<and> ''2023'' \<in> set gens"
proof -
  have "''2023'' \<in> vouched sample_name [[23]]"
  proof -
    have "''2023'' \<in> set (matchMicrosoftUefiCA ''Microsoft UEFI CA 2023'')" by code_simp
    then show ?thesis by (simp add: vouched_def sample_name_def)
  qed
  moreover have "length (readable sample_name [[23]]) = 1" by (simp add: readable_def sample_name_def)
  ultimately show ?thesis using db_reads_chain [OF sample_list_wf, of sample_name] unfolding sample_certs by auto
qed

definition sample_raw :: string where
  "sample_raw = map (char_of :: int \<Rightarrow> char) [161,89,192,165,228,148,167,74,135,181,171,21,92,43,240,114,45,0,0,0,0,0,0,0,17,0,0,0,0,0,0,0,0,0,0,0,0,0,0,0,0,0,0,0,23]"

lemma sample_db_decodes: "base64_decode (trim_space sample_db) = Some sample_raw"
  by code_simp

lemma sample_raw_bytes: "map of_char sample_raw = concat (map encode_list [sample_list])"
  by code_simp

lemma sample_vouched: "vouched sample_name [[23]] = {''2023''}"
proof -
  have "matchMicrosoftUefiCA ''Microsoft UEFI CA 2023'' = [''2023'']" by code_simp
  then show ?thesis by (simp add: vouched_def sample_name_def)
qed

lemma sample_staged: "stagedShimAuthorities None ''2011'' = [''2011'']"
  by code_simp

theorem chain_verdict_exact_witness:
  "\<exists>gens db_read. trustedUefiAuthorities sample_name (Some sample_db) None = Some (gens, db_read) \<and>
     sb_blocked (secureBootChainVerdict
       \<lparr>fi_on = True, fi_known = True, fi_db_read = db_read, fi_trusted = gens\<rparr> None ''2011'' ''wootc'')"
proof -
  have "trim_space sample_db \<noteq> []" using sample_db_decodes by (auto simp: sample_raw_def base64_decode_def)
  from chain_verdict_exact [OF sample_list_wf _ this sample_db_decodes sample_raw_bytes, of sample_name None True True None "''2011''" "''wootc''"]
  show ?thesis unfolding sample_certs sample_vouched sample_staged by (auto simp: readable_def sample_name_def)
qed

end
