(* ===== verification/Recovery_Tasks.thy ===== *)
theory Recovery_Tasks
  imports Go_Strings
begin

text \<open>
  The scheduled tasks of the recovery guard (\<open>app/recovery_tasks.go\<close> and the registration in
  \<open>app/recovery_windows.go\<close>). Task Scheduler is a record of calls over a machine \<open>'s\<close>; what it
  is documented to do is \<open>documented_scheduler\<close>. The texts of the PowerShell scripts are left out.
\<close>

record recovery_task =
  rt_name :: string
  rt_executable :: string
  rt_arguments :: string
  rt_principal :: string
  rt_level :: string
  rt_trigger :: string
  rt_actions :: int
  rt_triggers :: int

definition recoveryTaskIdentityMatches :: "recovery_task \<Rightarrow> recovery_task \<Rightarrow> bool" where
  "recoveryTaskIdentityMatches actual expected \<longleftrightarrow>
     equal_fold (trim_space (rt_name actual)) (trim_space (rt_name expected)) \<and>
     equal_fold (trim_set (trim_space (rt_executable actual)) [CHR 0x22]) (trim_set (trim_space (rt_executable expected)) [CHR 0x22]) \<and>
     trim_space (rt_arguments actual) = trim_space (rt_arguments expected) \<and>
     equal_fold (trim_space (rt_principal actual)) (trim_space (rt_principal expected)) \<and>
     equal_fold (trim_space (rt_level actual)) (trim_space (rt_level expected)) \<and>
     equal_fold (trim_space (rt_trigger actual)) (trim_space (rt_trigger expected)) \<and>
     rt_actions actual = 1 \<and> rt_triggers actual = 1"

definition startup_task :: "string \<Rightarrow> recovery_task" where
  "startup_task exe = \<lparr>rt_name = ''wootc-recovery'', rt_executable = exe, rt_arguments = ''recover --startup'',
     rt_principal = ''SYSTEM'', rt_level = ''Highest'', rt_trigger = ''MSFT_TaskBootTrigger'', rt_actions = 1, rt_triggers = 1\<rparr>"

definition prompt_task :: "string \<Rightarrow> recovery_task" where
  "prompt_task exe = \<lparr>rt_name = ''wootc-recovery-prompt'', rt_executable = exe, rt_arguments = ''recover --prompt'',
     rt_principal = ''BUILTIN'' @ [backslash] @ ''Users'', rt_level = ''Highest'', rt_trigger = ''MSFT_TaskLogonTrigger'',
     rt_actions = 1, rt_triggers = 1\<rparr>"

definition recoveryTaskSpecs :: "string \<Rightarrow> recovery_task list" where
  "recoveryTaskSpecs exe = [startup_task exe, prompt_task exe]"

text \<open>A query answers with an error or with the task of that name, if there is one.\<close>

record 's task_env =
  tk_query :: "string \<Rightarrow> 's \<Rightarrow> (string + recovery_task option) \<times> 's"
  tk_register :: "recovery_task \<Rightarrow> 's \<Rightarrow> string option \<times> 's"
  tk_remove :: "string \<Rightarrow> 's \<Rightarrow> string option \<times> 's"

datatype task_error =
    QueryFailed string string
  | ForeignTask string
  | UnsupportedTrigger string
  | RegisterFailed string string
  | NotObservable string
  | MismatchAfter string
  | RemoveFailed string string
  | CleanupIncomplete "task_error list"

definition registerScheduledTask :: "'s task_env \<Rightarrow> recovery_task \<Rightarrow> 's \<Rightarrow> task_error option \<times> 's" where
  "registerScheduledTask env spec s =
     (case tk_query env (rt_name spec) s of
        (Inl e, s1) \<Rightarrow> (Some (QueryFailed (rt_name spec) e), s1)
      | (Inr (Some actual), s1) \<Rightarrow>
          ((if recoveryTaskIdentityMatches actual spec then None else Some (ForeignTask (rt_name spec))), s1)
      | (Inr None, s1) \<Rightarrow>
          if rt_trigger spec \<noteq> ''MSFT_TaskBootTrigger'' \<and> rt_trigger spec \<noteq> ''MSFT_TaskLogonTrigger''
          then (Some (UnsupportedTrigger (rt_trigger spec)), s1)
          else (case tk_register env spec s1 of
                  (Some e, s2) \<Rightarrow> (Some (RegisterFailed (rt_name spec) e), s2)
                | (None, s2) \<Rightarrow>
                    (case tk_query env (rt_name spec) s2 of
                       (Inl e, s3) \<Rightarrow> (Some (QueryFailed (rt_name spec) e), s3)
                     | (Inr None, s3) \<Rightarrow> (Some (NotObservable (rt_name spec)), s3)
                     | (Inr (Some actual), s3) \<Rightarrow>
                         ((if recoveryTaskIdentityMatches actual spec then None
                           else Some (MismatchAfter (rt_name spec))), s3))))"

fun register_all :: "'s task_env \<Rightarrow> recovery_task list \<Rightarrow> 's \<Rightarrow> task_error option \<times> 's" where
  "register_all env [] s = (None, s)"
| "register_all env (spec # specs) s =
     (case registerScheduledTask env spec s of
        (Some e, s1) \<Rightarrow> (Some e, s1)
      | (None, s1) \<Rightarrow> register_all env specs s1)"

definition registerRecoveryTasks :: "'s task_env \<Rightarrow> string \<Rightarrow> 's \<Rightarrow> task_error option \<times> 's" where
  "registerRecoveryTasks env exe = register_all env (recoveryTaskSpecs exe)"

definition removeScheduledTask :: "'s task_env \<Rightarrow> recovery_task \<Rightarrow> 's \<Rightarrow> task_error option \<times> 's" where
  "removeScheduledTask env spec s =
     (case tk_remove env (rt_name spec) s of
        (None, s1) \<Rightarrow> (None, s1)
      | (Some e, s1) \<Rightarrow>
          (case tk_query env (rt_name spec) s1 of
             (Inr None, s2) \<Rightarrow> (None, s2)
           | (_, s2) \<Rightarrow> (Some (RemoveFailed (rt_name spec) e), s2)))"

text \<open>Every task is tried; the failures are collected.\<close>

fun unregister_all :: "'s task_env \<Rightarrow> recovery_task list \<Rightarrow> task_error list \<Rightarrow> 's \<Rightarrow> task_error list \<times> 's" where
  "unregister_all env [] failures s = (failures, s)"
| "unregister_all env (spec # specs) failures s =
     (case tk_query env (rt_name spec) s of
        (Inl e, s1) \<Rightarrow> unregister_all env specs (failures @ [QueryFailed (rt_name spec) e]) s1
      | (Inr None, s1) \<Rightarrow> unregister_all env specs failures s1
      | (Inr (Some actual), s1) \<Rightarrow>
          if \<not> recoveryTaskIdentityMatches actual spec
          then unregister_all env specs (failures @ [ForeignTask (rt_name spec)]) s1
          else (case removeScheduledTask env spec s1 of
                  (Some e, s2) \<Rightarrow> unregister_all env specs (failures @ [e]) s2
                | (None, s2) \<Rightarrow> unregister_all env specs failures s2))"

definition unregisterRecoveryTasks :: "'s task_env \<Rightarrow> string \<Rightarrow> 's \<Rightarrow> task_error option \<times> 's" where
  "unregisterRecoveryTasks env exe s =
     (case unregister_all env (recoveryTaskSpecs exe) [] s of
        (failures, s1) \<Rightarrow> ((if failures = [] then None else Some (CleanupIncomplete failures)), s1))"

subsection \<open>What Task Scheduler is documented to do\<close>

text \<open>
  Names are unique up to case. A query changes nothing, and an answer is the task of that name.
  A registration fails or adds one task of the asked name; a removal fails or takes away the
  tasks of that name; a call that reports success had its effect, one that reports an error may
  have had it.
\<close>

definition task_named :: "string \<Rightarrow> recovery_task \<Rightarrow> bool" where
  "task_named n t \<longleftrightarrow> to_lower (rt_name t) = to_lower n"

definition unique_names :: "recovery_task list \<Rightarrow> bool" where
  "unique_names ts \<longleftrightarrow> distinct (map (\<lambda>t. to_lower (rt_name t)) ts)"

definition documented_scheduler :: "'s task_env \<Rightarrow> ('s \<Rightarrow> recovery_task list) \<Rightarrow> bool" where
  "documented_scheduler env view \<longleftrightarrow>
     (\<forall>s n. view (snd (tk_query env n s)) = view s \<and>
        (\<forall>r. fst (tk_query env n s) = Inr r \<longrightarrow> r = List.find (task_named n) (view s))) \<and>
     (\<forall>s t. (view (snd (tk_register env t s)) = view s \<and> fst (tk_register env t s) \<noteq> None) \<or>
        (\<exists>t1. task_named (rt_name t) t1 \<and> list_all (\<lambda>u. \<not> task_named (rt_name t) u) (view s) \<and>
           view (snd (tk_register env t s)) = t1 # view s)) \<and>
     (\<forall>s n. (view (snd (tk_remove env n s)) = view s \<and> fst (tk_remove env n s) \<noteq> None) \<or>
        view (snd (tk_remove env n s)) = filter (\<lambda>t. \<not> task_named n t) (view s))"

lemma documented_schedulerD:
  assumes "documented_scheduler env view"
  shows "tk_query env n s = (r, s1) \<Longrightarrow> view s1 = view s"
    "tk_query env n s = (Inr x, s1) \<Longrightarrow> x = List.find (task_named n) (view s)"
    "tk_register env t s = (q, s1) \<Longrightarrow> (view s1 = view s \<and> q \<noteq> None) \<or>
       (\<exists>t1. task_named (rt_name t) t1 \<and> list_all (\<lambda>u. \<not> task_named (rt_name t) u) (view s) \<and> view s1 = t1 # view s)"
    "tk_remove env n s = (q, s1) \<Longrightarrow>
       (view s1 = view s \<and> q \<noteq> None) \<or> view s1 = filter (\<lambda>t. \<not> task_named n t) (view s)"
  using assms unfolding documented_scheduler_def by (metis fst_conv snd_conv)+

subsection \<open>Tasks of others are never touched\<close>

text \<open>Ours are the tasks that match one of the two specifications, name and all.\<close>

definition ours :: "string \<Rightarrow> recovery_task \<Rightarrow> bool" where
  "ours exe t \<longleftrightarrow> (\<exists>spec\<in>set (recoveryTaskSpecs exe). recoveryTaskIdentityMatches t spec)"

lemma found_task: "List.find P xs = Some t \<Longrightarrow> t \<in> set xs \<and> P t"
  by (metis find_Some_iff nth_mem)

lemma register_keeps:
  assumes doc: "documented_scheduler env view" and u: "unique_names (view s)"
    and run: "registerScheduledTask env spec s = (r, s1)"
  shows "unique_names (view s1) \<and> set (view s) \<subseteq> set (view s1) \<and>
    (r = None \<longrightarrow> (\<exists>t\<in>set (view s1). task_named (rt_name spec) t \<and> recoveryTaskIdentityMatches t spec))"
proof -
  obtain q s2 where q: "tk_query env (rt_name spec) s = (q, s2)" by fastforce
  note v2 = documented_schedulerD(1) [OF doc q]
  show ?thesis
  proof (cases q)
    case (Inl e)
    with run q u v2 show ?thesis by (auto simp: registerScheduledTask_def)
  next
    case (Inr found)
    note f = documented_schedulerD(2) [OF doc q [unfolded Inr]]
    show ?thesis
    proof (cases found)
      case (Some t)
      from found_task [OF f [unfolded Some, symmetric]] have "t \<in> set (view s)" "task_named (rt_name spec) t" by simp_all
      with run q u v2 Inr Some show ?thesis by (auto simp: registerScheduledTask_def split: if_splits)
    next
      case None
      show ?thesis
      proof (cases "rt_trigger spec \<noteq> ''MSFT_TaskBootTrigger'' \<and> rt_trigger spec \<noteq> ''MSFT_TaskLogonTrigger''")
        case True
        with run q u v2 Inr None show ?thesis by (auto simp: registerScheduledTask_def)
      next
        case False
        obtain g s3 where g: "tk_register env spec s2 = (g, s3)" by fastforce
        have v3: "unique_names (view s3)" "set (view s) \<subseteq> set (view s3)"
        proof -
          have "unique_names (t1 # view s)" if "task_named n t1" "list_all (\<lambda>u. \<not> task_named n u) (view s)" for t1 n
            using that u by (auto simp: unique_names_def task_named_def list_all_iff)
          with documented_schedulerD(3) [OF doc g] u v2 show "unique_names (view s3)" "set (view s) \<subseteq> set (view s3)"
            by auto
        qed
        obtain q2 s4 where q2: "tk_query env (rt_name spec) s3 = (q2, s4)" by fastforce
        note v4 = documented_schedulerD(1) [OF doc q2]
        from run q Inr None False g q2 have r: "(r, s1) = (case g of Some e \<Rightarrow> (Some (RegisterFailed (rt_name spec) e), s3)
            | None \<Rightarrow> (case q2 of Inl e \<Rightarrow> (Some (QueryFailed (rt_name spec) e), s4)
                | Inr None \<Rightarrow> (Some (NotObservable (rt_name spec)), s4)
                | Inr (Some actual) \<Rightarrow> ((if recoveryTaskIdentityMatches actual spec then None
                    else Some (MismatchAfter (rt_name spec))), s4)))"
          by (auto simp: registerScheduledTask_def split: option.splits sum.splits)
        have "\<exists>t\<in>set (view s1). task_named (rt_name spec) t \<and> recoveryTaskIdentityMatches t spec" if "r = None"
        proof -
          from r that obtain t where "q2 = Inr (Some t)" "recoveryTaskIdentityMatches t spec" "s1 = s4"
            by (auto split: option.splits sum.splits if_splits)
          with found_task [OF documented_schedulerD(2) [OF doc q2 [unfolded this(1)], symmetric]] v4 show ?thesis by auto
        qed
        moreover have "view s1 = view s3" using r v4 by (auto split: option.splits sum.splits)
        ultimately show ?thesis using v3 by simp
      qed
    qed
  qed
qed

lemma register_all_keeps:
  assumes doc: "documented_scheduler env view"
  shows "unique_names (view s) \<Longrightarrow> register_all env specs s = (r, s1) \<Longrightarrow>
    unique_names (view s1) \<and> set (view s) \<subseteq> set (view s1) \<and>
    (r = None \<longrightarrow> (\<forall>spec\<in>set specs. \<exists>t\<in>set (view s1). task_named (rt_name spec) t \<and> recoveryTaskIdentityMatches t spec))"
proof (induction specs arbitrary: s)
  case (Cons spec specs)
  obtain q s2 where q: "registerScheduledTask env spec s = (q, s2)" by fastforce
  note k = register_keeps [OF doc Cons.prems(1) q]
  show ?case
  proof (cases q)
    case (Some e)
    with Cons.prems(2) q have "r = Some e" "s1 = s2" by simp_all
    with k Some show ?thesis by simp
  next
    case None
    with Cons.prems(2) q have r: "register_all env specs s2 = (r, s1)" by simp
    from Cons.IH [OF _ r] k None show ?thesis by auto
  qed
qed simp

lemma find_unique:
  assumes "unique_names ts" "t \<in> set ts" "task_named n t" "u \<in> set ts" "task_named n u"
  shows "t = u"
  using assms by (metis (mono_tags, lifting) distinct_map inj_onD task_named_def unique_names_def)

lemma unique_filter: "unique_names ts \<Longrightarrow> unique_names (filter P ts)"
  by (simp add: unique_names_def distinct_map_filter)

lemma remove_keeps:
  assumes doc: "documented_scheduler env view" and run: "removeScheduledTask env spec s = (r, s1)"
  shows "(view s1 = view s \<or> view s1 = filter (\<lambda>t. \<not> task_named (rt_name spec) t) (view s)) \<and>
    (r = None \<longrightarrow> list_all (\<lambda>t. \<not> task_named (rt_name spec) t) (view s1))"
proof -
  obtain q s2 where q: "tk_remove env (rt_name spec) s = (q, s2)" by fastforce
  note d = documented_schedulerD(4) [OF doc q]
  show ?thesis
  proof (cases q)
    case None
    with run q d show ?thesis by (auto simp: removeScheduledTask_def list_all_iff)
  next
    case (Some e)
    obtain f s3 where f: "tk_query env (rt_name spec) s2 = (f, s3)" by fastforce
    note v = documented_schedulerD(1) [OF doc f]
    from run q Some f have r: "s1 = s3" "r = None \<longleftrightarrow> f = Inr None"
      by (auto simp: removeScheduledTask_def split: sum.splits option.splits)
    moreover have "list_all (\<lambda>t. \<not> task_named (rt_name spec) t) (view s2)" if "f = Inr None"
      using documented_schedulerD(2) [OF doc f [unfolded that], symmetric] by (simp add: find_None_iff list_all_iff)
    ultimately show ?thesis using d v by auto
  qed
qed

text \<open>\<open>unregister_all\<close> with the names that are surely gone.\<close>

lemma unregister_all_keeps:
  assumes doc: "documented_scheduler env view"
  shows "unique_names (view s) \<Longrightarrow> unregister_all env specs fs s = (fs1, s1) \<Longrightarrow>
    unique_names (view s1) \<and> set (view s1) \<subseteq> set (view s) \<and>
    (\<forall>t\<in>set (view s). (\<forall>spec\<in>set specs. \<not> recoveryTaskIdentityMatches t spec) \<longrightarrow> t \<in> set (view s1)) \<and>
    (fs1 = [] \<longrightarrow> fs = [] \<and> (\<forall>spec\<in>set specs. list_all (\<lambda>t. \<not> task_named (rt_name spec) t) (view s1)))"
proof (induction specs arbitrary: s fs)
  case (Cons spec specs)
  obtain q s2 where q: "tk_query env (rt_name spec) s = (q, s2)" by fastforce
  note v2 = documented_schedulerD(1) [OF doc q]
  have u2: "unique_names (view s2)" using Cons.prems(1) v2 by simp
  show ?case
  proof (cases q)
    case (Inl e)
    with Cons.prems(2) q have "unregister_all env specs (fs @ [QueryFailed (rt_name spec) e]) s2 = (fs1, s1)" by simp
    from Cons.IH [OF u2 this] v2 show ?thesis by auto
  next
    case (Inr found)
    note f = documented_schedulerD(2) [OF doc q [unfolded Inr]]
    show ?thesis
    proof (cases found)
      case None
      with Cons.prems(2) q Inr have "unregister_all env specs fs s2 = (fs1, s1)" by simp
      note ih = Cons.IH [OF u2 this]
      have "list_all (\<lambda>t. \<not> task_named (rt_name spec) t) (view s)"
        using f None by (metis (mono_tags, lifting) find_None_iff list_all_iff)
      with ih v2 show ?thesis by (auto simp: list_all_iff)
    next
      case (Some actual)
      from found_task [OF f [unfolded Some, symmetric]] have a: "actual \<in> set (view s)" "task_named (rt_name spec) actual" by simp_all
      show ?thesis
      proof (cases "recoveryTaskIdentityMatches actual spec")
        case False
        with Cons.prems(2) q Inr Some have "unregister_all env specs (fs @ [ForeignTask (rt_name spec)]) s2 = (fs1, s1)" by simp
        from Cons.IH [OF u2 this] v2 show ?thesis by auto
      next
        case True
        obtain g s3 where g: "removeScheduledTask env spec s2 = (g, s3)" by fastforce
        from remove_keeps [OF doc g] have v3: "view s3 = view s2 \<or> view s3 = filter (\<lambda>t. \<not> task_named (rt_name spec) t) (view s2)"
          "g = None \<longrightarrow> list_all (\<lambda>t. \<not> task_named (rt_name spec) t) (view s3)" by simp_all
        then have u3: "unique_names (view s3)" "set (view s3) \<subseteq> set (view s)" using u2 v2 unique_filter by auto
        have others: "t \<in> set (view s3)" if "t \<in> set (view s)" "\<not> recoveryTaskIdentityMatches t spec" for t
        proof -
          have "\<not> task_named (rt_name spec) t" using find_unique [OF Cons.prems(1) that(1) _ a] that(2) True by auto
          with v3(1) v2 that(1) show ?thesis by auto
        qed
        from Cons.prems(2) q Inr Some True g have r: "unregister_all env specs (fs @ (case g of None \<Rightarrow> [] | Some e \<Rightarrow> [e])) s3 = (fs1, s1)"
          by (cases g) simp_all
        note ih = Cons.IH [OF u3(1) r]
        have "list_all (\<lambda>t. \<not> task_named (rt_name spec) t) (view s1)" "g = None" if "fs1 = []"
        proof -
          from ih that show "g = None" by (cases g) auto
          with v3(2) ih show "list_all (\<lambda>t. \<not> task_named (rt_name spec) t) (view s1)" by (auto simp: list_all_iff)
        qed
        with ih others u3 show ?thesis by (auto split: option.splits)
      qed
    qed
  qed
qed simp


end
