(* ===== verification/Boot_Wiring.thy ===== *)
theory Boot_Wiring
  imports Recovery_Tasks Boot_Txn Esp_Staging Boot_Repair First_Boot Hardware "HOL-Library.AList"
begin

text \<open>
  What surrounds the boot-chain transaction on the PC (\<open>app/installer_esp.go\<close> from \<open>backupBCD\<close>
  on, \<open>app/bcd_parse.go\<close>, \<open>app/recovery_windows.go\<close>): the backup of the store, the letter of the
  ESP, the records in the install directory, the recovery tasks, and recovery at the start of
  Windows. The files of the install directory are fields of the state; the rest of the PC is a
  world \<open>'w\<close> on which the calls of the environment act. The scripts and messages are left out.
\<close>

subsection \<open>The state\<close>

datatype install_file =
    TxnFile | ArmedFile | GuidFile | IdentityFile | CompleteFile | VerdictFile | StateFile | LetterFile
  | StartedFile | EngineFile | InstallDir

text \<open>The results of writing a file: done, refused with the old contents, or cut short.\<close>

datatype write_result = Written | OldKept string | CutShort string

record 'w host =
  ho_txn :: "boot_txn file_read"
  ho_armed :: "armed_state file_read"
  ho_guid :: "string file_read"
  ho_identity :: "installation_identity file_read"
  ho_complete :: bool
  ho_verdict :: "recovery_verdict option"
  ho_state :: "lifecycle_state file_read"
  ho_started :: bool
  ho_power :: "string file_read"
  ho_letter :: "string file_read"
  ho_backup :: bool
  ho_engine :: "string file_read"
  ho_world :: 'w

record 'w host_env =
  he_bcdedit :: "string list \<Rightarrow> 'w \<Rightarrow> (string \<times> string option) \<times> 'w"
  he_tasks :: "'w task_env"
  he_write :: "install_file \<Rightarrow> 'w \<Rightarrow> write_result \<times> 'w"
  he_remove :: "install_file \<Rightarrow> 'w \<Rightarrow> string option \<times> 'w"
  he_find_esp :: "'w \<Rightarrow> (string \<times> string option) \<times> 'w"
  he_efi_there :: "string \<Rightarrow> 'w \<Rightarrow> bool \<times> 'w"
  he_mountvol :: "string \<Rightarrow> 'w \<Rightarrow> 'w"
  he_hash_esp :: "string \<Rightarrow> string \<Rightarrow> 'w \<Rightarrow> string option \<times> 'w"
  he_owned :: "string \<Rightarrow> 'w \<Rightarrow> (string + string list) \<times> 'w"
  he_partition :: "'w \<Rightarrow> (string \<times> string option) \<times> 'w"
  he_host_uuid :: "string \<Rightarrow> 'w \<Rightarrow> (string + string) \<times> 'w"
  he_random :: "'w \<Rightarrow> string option \<times> 'w"
  he_now :: "'w \<Rightarrow> string \<times> 'w"
  he_sleep :: "nat \<Rightarrow> 'w \<Rightarrow> 'w"
  he_executable :: "'w \<Rightarrow> (string + string) \<times> 'w"
  he_read_exe :: "'w \<Rightarrow> (string + string) \<times> 'w"
  he_hash :: "string \<Rightarrow> string"
  he_verified :: "'w \<Rightarrow> (lifecycle_state \<times> bool) \<times> 'w"
  he_evidence :: "string \<Rightarrow> 'w \<Rightarrow> string option \<times> 'w"
  he_logs :: "'w \<Rightarrow> string file_read list \<times> 'w"
  he_setup_esp :: "install_config \<Rightarrow> 'w \<Rightarrow> string option \<times> 'w"
  he_observe :: "'w \<Rightarrow> boot_observation \<times> 'w"
  he_reboot :: "'w \<Rightarrow> string option \<times> 'w"
  he_source :: stage_source
  he_dir :: string
  he_product :: string

text \<open>A call on the world.\<close>

definition on_world :: "('w \<Rightarrow> 'a \<times> 'w) \<Rightarrow> 'w host \<Rightarrow> 'a \<times> 'w host" where
  "on_world f h = (case f (ho_world h) of (x, w) \<Rightarrow> (x, h\<lparr>ho_world := w\<rparr>))"

definition run_world :: "('w \<Rightarrow> 'w) \<Rightarrow> 'w host \<Rightarrow> 'w host" where
  "run_world f h = h\<lparr>ho_world := f (ho_world h)\<rparr>"

definition run_bcd :: "'w host_env \<Rightarrow> string list \<Rightarrow> 'w host \<Rightarrow> (string \<times> string option) \<times> 'w host" where
  "run_bcd env args = on_world (he_bcdedit env args)"

text \<open>
  \<open>put\<close> stores the new contents, or the mark of a file that was cut short; the error, if any.
  Removing reports an error other than that there was no file.
\<close>

definition write_file ::
  "'w host_env \<Rightarrow> install_file \<Rightarrow> ('a file_read \<Rightarrow> 'w host \<Rightarrow> 'w host) \<Rightarrow> 'a \<Rightarrow> 'w host \<Rightarrow> string option \<times> 'w host" where
  "write_file env f put x h =
     (case on_world (he_write env f) h of
        (Written, h1) \<Rightarrow> (None, put (Found x) h1)
      | (OldKept e, h1) \<Rightarrow> (Some e, h1)
      | (CutShort e, h1) \<Rightarrow> (Some e, put (Unreadable e) h1))"

definition remove_file :: "'w host_env \<Rightarrow> install_file \<Rightarrow> ('w host \<Rightarrow> 'w host) \<Rightarrow> 'w host \<Rightarrow> string option \<times> 'w host" where
  "remove_file env f drop_it h =
     (case on_world (he_remove env f) h of
        (None, h1) \<Rightarrow> (None, drop_it h1)
      | (Some e, h1) \<Rightarrow> (Some e, h1))"

definition drop_armed :: "'w host_env \<Rightarrow> 'w host \<Rightarrow> 'w host" where
  "drop_armed env h = snd (remove_file env ArmedFile (\<lambda>h. h\<lparr>ho_armed := Missing\<rparr>) h)"

definition drop_guid :: "'w host_env \<Rightarrow> 'w host \<Rightarrow> 'w host" where
  "drop_guid env h = snd (remove_file env GuidFile (\<lambda>h. h\<lparr>ho_guid := Missing\<rparr>) h)"

definition drop_verdict :: "'w host_env \<Rightarrow> 'w host \<Rightarrow> 'w host" where
  "drop_verdict env h = snd (remove_file env VerdictFile (\<lambda>h. h\<lparr>ho_verdict := None\<rparr>) h)"

definition drop_started :: "'w host_env \<Rightarrow> 'w host \<Rightarrow> 'w host" where
  "drop_started env h = snd (remove_file env StartedFile (\<lambda>h. h\<lparr>ho_started := False\<rparr>) h)"

text \<open>\<open>writeBootTxn\<close> renames a synced file, so it never leaves a torn one.\<close>

definition writeBootTxn :: "'w host_env \<Rightarrow> boot_txn \<Rightarrow> 'w host \<Rightarrow> string option \<times> 'w host" where
  "writeBootTxn env txn h =
     (case on_world (he_write env TxnFile) h of
        (Written, h1) \<Rightarrow> (None, h1\<lparr>ho_txn := Found txn\<rparr>)
      | (OldKept e, h1) \<Rightarrow> (Some e, h1)
      | (CutShort e, h1) \<Rightarrow> (Some e, h1))"

definition writeArmedJSON :: "'w host_env \<Rightarrow> armed_state \<Rightarrow> 'w host \<Rightarrow> string option \<times> 'w host" where
  "writeArmedJSON env = write_file env ArmedFile (\<lambda>r h. h\<lparr>ho_armed := r\<rparr>)"

definition writeState :: "'w host_env \<Rightarrow> string \<Rightarrow> string \<Rightarrow> string \<Rightarrow> 'w host \<Rightarrow> 'w host" where
  "writeState env st phase err h =
     (case on_world (he_now env) h of (now, h1) \<Rightarrow>
        snd (write_file env StateFile (\<lambda>r h. h\<lparr>ho_state := r\<rparr>) (new_lifecycle_state now st phase err) h1))"

definition writeRecoveryVerdict :: "'w host_env \<Rightarrow> recovery_verdict \<Rightarrow> 'w host \<Rightarrow> string option \<times> 'w host" where
  "writeRecoveryVerdict env =
     write_file env VerdictFile (\<lambda>r h. h\<lparr>ho_verdict := (case r of Found v \<Rightarrow> Some v | _ \<Rightarrow> None)\<rparr>)"

definition task_calls :: "'w host_env \<Rightarrow> 'w host task_env" where
  "task_calls env =
     \<lparr>tk_query = (\<lambda>n. on_world (tk_query (he_tasks env) n)),
      tk_register = (\<lambda>t. on_world (tk_register (he_tasks env) t)),
      tk_remove = (\<lambda>n. on_world (tk_remove (he_tasks env) n))\<rparr>"

definition install_exe :: "'w host_env \<Rightarrow> string" where
  "install_exe env = he_dir env @ [backslash] @ ''install'' @ [backslash] @ ''wootc.exe''"

subsection \<open>The ESP's drive letter\<close>

definition esp_blanks :: string where
  "esp_blanks = [CHR '' '', CHR 9, CHR 13, CHR 10, CHR 0x00]"

definition parseESPDiscovery :: "string \<Rightarrow> string \<times> bool" where
  "parseESPDiscovery out =
     (let s = trim_set out esp_blanks in
      if has_prefix s ''ASSIGNED:'' then (trim_set (trim_prefix s ''ASSIGNED:'') esp_blanks, True) else (s, False))"

datatype wiring_error =
    EspDiscovery string | NoSystemDisk | NoEsp | NoLetter string
  | BackupFailed string | SystemdMissing esp_error | ManifestUnreadable string | StagedUnreadable string
  | ExeUnresolved string | ExeUnreadable string | ExeNotStaged string | ExeNotHashed
  | HostVolume string | IdentityInvalid string | IdentityNotSaved string | CompletionNotReset string
  | TasksFailed task_error | TxnFailed boot_error | NothingPrepared | NoArmedRecord string
  | ExeMismatch | TasksKept task_error | RecordNotWritten string
  | InvalidGuid string | EngineUnavailable | RearmFailed string string | NothingRecorded | RebootFailed string
  | RepairRefused | EspRepairFailed string | RepairNotVerified repair_error

definition findESP :: "'w host_env \<Rightarrow> 'w host \<Rightarrow> (wiring_error + string) \<times> 'w host" where
  "findESP env h =
     (case on_world (he_find_esp env) h of
        ((out, Some e), h1) \<Rightarrow> (Inl (EspDiscovery e), h1)
      | ((out, None), h1) \<Rightarrow>
          (let (letter, assigned) = parseESPDiscovery out in
           if letter = ''WOOTC_NO_SYSTEM_DISK'' then (Inl NoSystemDisk, h1)
           else if letter = ''WOOTC_NO_ESP'' then (Inl NoEsp, h1)
           else if length letter \<noteq> 1 then (Inl (NoLetter out), h1)
           else (Inr (letter @ '':'' @ [backslash]),
                 if assigned
                 then snd (write_file env LetterFile (\<lambda>r h. h\<lparr>ho_letter := r\<rparr>) (letter @ [CHR 10]) h1) else h1)))"

definition releaseESPLetter :: "'w host_env \<Rightarrow> 'w host \<Rightarrow> 'w host" where
  "releaseESPLetter env h =
     (case ho_letter h of
        Found b \<Rightarrow>
          (let letter = trim_space b;
               h1 = (if length letter = 1
                     then (case on_world (he_efi_there env letter) h of
                             (there, h1) \<Rightarrow> if there then run_world (he_mountvol env (letter @ '':'')) h1 else h1)
                     else h)
           in snd (remove_file env LetterFile (\<lambda>h. h\<lparr>ho_letter := Missing\<rparr>) h1))
      | _ \<Rightarrow> h)"

subsection \<open>The store of Windows\<close>

text \<open>One line of the listing: whether we are in the display order, and whether it names itself.\<close>

definition blank_start :: "string \<Rightarrow> bool" where
  "blank_start line \<longleftrightarrow> (case line of [] \<Rightarrow> False | c # _ \<Rightarrow> c = CHR '' '' \<or> c = CHR 9)"

fun lists_itself :: "bool \<Rightarrow> string list \<Rightarrow> bool" where
  "lists_itself inside [] = False"
| "lists_itself inside (raw # rest) =
     (let line = trim_right_set raw [CHR '' '', CHR 9] in
      if line = [] then lists_itself False rest
      else if \<not> blank_start line then
        (case str_fields line of
           [] \<Rightarrow> lists_itself False rest
         | f # fs \<Rightarrow>
             if \<not> equal_fold f ''displayorder'' then lists_itself False rest
             else list_ex (\<lambda>g. equal_fold g ''{bootmgr}'') fs \<or> lists_itself True rest)
      else (inside \<and> equal_fold (trim_space line) ''{bootmgr}'') \<or> lists_itself inside rest)"

definition bootmgrListsItself :: "string \<Rightarrow> bool" where
  "bootmgrListsItself out = lists_itself False (split_on (CHR 10) (crlf_to_lf out))"

definition removeBootmgrSelfReference :: "'w host_env \<Rightarrow> 'w host \<Rightarrow> 'w host" where
  "removeBootmgrSelfReference env h =
     (case run_bcd env [''/enum'', ''{bootmgr}''] h of
        ((out, err), h1) \<Rightarrow>
          if err \<noteq> None \<or> \<not> bootmgrListsItself out then h1
          else snd (run_bcd env [''/displayorder'', ''{bootmgr}'', ''/remove''] h1))"

definition backup_path :: "'w host_env \<Rightarrow> string" where
  "backup_path env = he_dir env @ [backslash] @ ''install'' @ [backslash] @ ''bcd-before.bak''"

definition export_command :: "'w host_env \<Rightarrow> string list" where
  "export_command env = [''/export'', backup_path env]"

definition backupBCD :: "'w host_env \<Rightarrow> 'w host \<Rightarrow> wiring_error option \<times> 'w host" where
  "backupBCD env h =
     (if ho_backup h then (None, h)
      else (case on_world (he_write env InstallDir) h of
              (Written, h1) \<Rightarrow>
                (case run_bcd env (export_command env) h1 of
                   ((out, Some e), h2) \<Rightarrow> (Some (BackupFailed e), h2)
                 | ((out, None), h2) \<Rightarrow> (None, h2\<lparr>ho_backup := True\<rparr>))
            | (OldKept e, h1) \<Rightarrow> (Some (BackupFailed e), h1)
            | (CutShort e, h1) \<Rightarrow> (Some (BackupFailed e), h1)))"

subsection \<open>The environments of the transaction\<close>

fun hash_files :: "'w host_env \<Rightarrow> string \<Rightarrow> string list \<Rightarrow> string smap \<Rightarrow> 'w host \<Rightarrow> string smap \<times> 'w host" where
  "hash_files env esp [] out h = (out, h)"
| "hash_files env esp (rel # rels) out h =
     (case on_world (he_hash_esp env esp rel) h of
        (None, h1) \<Rightarrow> hash_files env esp rels out h1
      | (Some d, h1) \<Rightarrow> hash_files env esp rels (AList.update rel d out) h1)"

definition record_entry :: "'w host_env \<Rightarrow> armed_state \<Rightarrow> string \<Rightarrow> 'w host \<Rightarrow> string option \<times> 'w host" where
  "record_entry env armed guid h =
     (case write_file env GuidFile (\<lambda>r h. h\<lparr>ho_guid := r\<rparr>) guid h of
        (Some e, h1) \<Rightarrow> (Some e, h1)
      | (None, h1) \<Rightarrow> writeArmedJSON env (armed\<lparr>as_guid := guid\<rparr>) h1)"

definition windowsBootChainEnv :: "'w host_env \<Rightarrow> string \<Rightarrow> armed_state \<Rightarrow> 'w host boot_chain_env" where
  "windowsBootChainEnv env esp armed =
     \<lparr>bcdedit = run_bcd env, hashESP = (\<lambda>rels. hash_files env esp rels []), saveTxn = writeBootTxn env,
      onEntry = record_entry env armed, sleepFor = (\<lambda>n. run_world (he_sleep env n)), clockNow = on_world (he_now env)\<rparr>"

text \<open>A rollback neither hashes nor creates an entry: these two fields are not set there.\<close>

definition rollback_env :: "'w host_env \<Rightarrow> 'w host boot_chain_env" where
  "rollback_env env =
     \<lparr>bcdedit = run_bcd env, hashESP = (\<lambda>rels h. ([], h)), saveTxn = writeBootTxn env,
      onEntry = (\<lambda>g h. (None, h)), sleepFor = (\<lambda>n. run_world (he_sleep env n)), clockNow = on_world (he_now env)\<rparr>"

definition zero_txn :: boot_txn where
  "zero_txn = \<lparr>tx_phase = [], tx_guid = [], tx_efi_path = [], tx_hashes = [], tx_started = [], tx_updated = [], tx_error = None\<rparr>"

definition recorded_guid :: "'w host \<Rightarrow> string" where
  "recorded_guid h =
     (case ho_guid h of
        Found b \<Rightarrow> (let g = trim_space b in if validBCDGUID g then g else [])
      | _ \<Rightarrow> [])"

definition txn_to_roll_back :: "'w host \<Rightarrow> boot_txn" where
  "txn_to_roll_back h = (case ho_txn h of Found t \<Rightarrow> t | _ \<Rightarrow> zero_txn\<lparr>tx_guid := recorded_guid h\<rparr>)"

definition rollbackBootChain :: "'w host_env \<Rightarrow> 'w host \<Rightarrow> boot_error option \<times> 'w host" where
  "rollbackBootChain env h =
     (case rollbackBootChainTxn (rollback_env env) (txn_to_roll_back h) h of ((e, txn), h1) \<Rightarrow> (e, h1))"

definition deleteWootcBCDEntries :: "'w host_env \<Rightarrow> 'w host \<Rightarrow> 'w host" where
  "deleteWootcBCDEntries env h =
     removeBootmgrSelfReference env (sweepWootcEntries (rollback_env env) (recorded_guid h) h)"

definition disarmOneShot :: "'w host_env \<Rightarrow> 'w host \<Rightarrow> 'w host" where
  "disarmOneShot env h =
     (let h1 = releaseESPLetter env (removeBootmgrSelfReference env h) in
      case rollbackBootChain env h1 of
        (Some e, h2) \<Rightarrow> h2
      | (None, h2) \<Rightarrow> drop_armed env (snd (unregisterRecoveryTasks (task_calls env) (install_exe env) (drop_guid env h2))))"

subsection \<open>Preparing the chain\<close>

definition chosen_loader :: "stage_source \<Rightarrow> string \<Rightarrow> wiring_error + string" where
  "chosen_loader src bootloader =
     (if bootloader = ''systemd-boot''
      then (case systemdBootAsset src of
              Inl e \<Rightarrow> Inl (SystemdMissing e)
            | Inr a \<Rightarrow> Inr (backslash # esp_rel (systemd_dir @ [if sa_trusted a then ''shimx64.efi'' else ''systemd-bootx64.efi''])))
      else Inr (backslash # esp_rel (fedora_dir @ [''shimx64.efi''])))"

text \<open>The digests of all claimed files, each of which must be readable.\<close>

fun stage_hashes :: "'w host_env \<Rightarrow> string \<Rightarrow> string list \<Rightarrow> string smap \<Rightarrow> 'w host \<Rightarrow> (wiring_error + string smap) \<times> 'w host" where
  "stage_hashes env esp [] out h = (Inr out, h)"
| "stage_hashes env esp (f # fs) out h =
     (case on_world (he_hash_esp env esp f) h of
        (None, h1) \<Rightarrow> (Inl (StagedUnreadable f), h1)
      | (Some d, h1) \<Rightarrow> stage_hashes env esp fs (AList.update f d out) h1)"

text \<open>The engine that recovery runs: a copy in the install directory, and its digest.\<close>

definition stage_engine :: "'w host_env \<Rightarrow> 'w host \<Rightarrow> (wiring_error + string) \<times> 'w host" where
  "stage_engine env h =
     (case on_world (he_executable env) h of
        (Inl e, h1) \<Rightarrow> (Inl (ExeUnresolved e), h1)
      | (Inr cur, h1) \<Rightarrow>
          (let (r, h2) =
             (if equal_fold cur (install_exe env) then (None, h1)
              else (case on_world (he_read_exe env) h1 of
                      (Inl e, h2) \<Rightarrow> (Some (ExeUnreadable e), h2)
                    | (Inr data, h2) \<Rightarrow>
                        (case write_file env EngineFile (\<lambda>r h. h\<lparr>ho_engine := r\<rparr>) data h2 of
                           (Some e, h3) \<Rightarrow> (Some (ExeNotStaged e), h3)
                         | (None, h3) \<Rightarrow> (None, h3))))
           in case r of
                Some e \<Rightarrow> (Inl e, h2)
              | None \<Rightarrow> (case ho_engine h2 of Found d \<Rightarrow> (Inr (he_hash env d), h2) | _ \<Rightarrow> (Inl ExeNotHashed, h2))))"

definition read_power_line :: "string \<Rightarrow> prior_power_state \<Rightarrow> prior_power_state" where
  "read_power_line line p =
     (case cut_at (CHR ''='') line of
        None \<Rightarrow> p
      | Some (k, v) \<Rightarrow>
          if trim_space k = ''hibernate'' then p\<lparr>pp_hibernate := trim_space v\<rparr>
          else if trim_space k = ''hiberboot'' then p\<lparr>pp_hiberboot := trim_space v\<rparr> else p)"

definition prior_power :: "'w host \<Rightarrow> prior_power_state" where
  "prior_power h =
     (let none = \<lparr>pp_hibernate = [], pp_hiberboot = []\<rparr> in
      case ho_power h of Found b \<Rightarrow> fold read_power_line (split_on (CHR 10) b) none | _ \<Rightarrow> none)"

definition findESPPartitionGuid :: "'w host_env \<Rightarrow> 'w host \<Rightarrow> string \<times> 'w host" where
  "findESPPartitionGuid env h =
     (case on_world (he_partition env) h of ((out, err), h1) \<Rightarrow> (if err = None then trim_space out else [], h1))"

text \<open>The identity of this installation, recorded before anything can boot.\<close>

definition record_identity :: "'w host_env \<Rightarrow> install_config \<Rightarrow> string \<Rightarrow> string \<Rightarrow> string \<Rightarrow> 'w host \<Rightarrow> wiring_error option \<times> 'w host" where
  "record_identity env cfg drive part efi h =
     (case on_world (he_host_uuid env drive) h of
        (Inl e, h1) \<Rightarrow> (Some (HostVolume e), h1)
      | (Inr uuid, h1) \<Rightarrow>
          (let (random, h2) = on_world (he_random env) h1; (now, h3) = on_world (he_now env) h2 in
           case newInstallationIdentity random now (ic_image cfg) part efi uuid of
             Inl e \<Rightarrow> (Some (IdentityInvalid e), h3)
           | Inr p \<Rightarrow>
               (case write_file env IdentityFile (\<lambda>r h. h\<lparr>ho_identity := r\<rparr>) p h3 of
                  (Some e, h4) \<Rightarrow> (Some (IdentityNotSaved e), h4)
                | (None, h4) \<Rightarrow>
                    (case remove_file env CompleteFile (\<lambda>h. h\<lparr>ho_complete := False\<rparr>) h4 of
                       (Some e, h5) \<Rightarrow> (Some (CompletionNotReset e), h5)
                     | (None, h5) \<Rightarrow> (None, h5)))))"

definition guard_tasks :: "'w host_env \<Rightarrow> 'w host \<Rightarrow> wiring_error option \<times> 'w host" where
  "guard_tasks env h =
     (case registerRecoveryTasks (task_calls env) (install_exe env) h of
        (Some e, h1) \<Rightarrow> (Some (TasksFailed e), snd (unregisterRecoveryTasks (task_calls env) (install_exe env) h1))
      | (None, h1) \<Rightarrow> (None, h1))"

text \<open>Everything of \<open>configureBCD\<close> before the transaction, once the ESP has its letter.\<close>

definition prepare_guard ::
  "'w host_env \<Rightarrow> install_config \<Rightarrow> string \<Rightarrow> string \<Rightarrow> 'w host \<Rightarrow> (wiring_error + string smap \<times> armed_state) \<times> 'w host" where
  "prepare_guard env cfg efi esp h =
     (case on_world (he_owned env esp) h of
        (Inl e, h1) \<Rightarrow> (Inl (ManifestUnreadable e), h1)
      | (Inr files, h1) \<Rightarrow>
        (case stage_hashes env esp files [] h1 of
           (Inl e, h2) \<Rightarrow> (Inl e, h2)
         | (Inr staged, h2) \<Rightarrow>
           (case stage_engine env h2 of
              (Inl e, h3) \<Rightarrow> (Inl e, h3)
            | (Inr exe_hash, h3) \<Rightarrow>
                (let power = prior_power h3;
                     drive = (if ic_drive cfg = [] then ''C'' else ic_drive cfg);
                     (part, h4) = findESPPartitionGuid env h3 in
                 case record_identity env cfg drive part efi h4 of
                   (Some e, h5) \<Rightarrow> (Inl e, h5)
                 | (None, h5) \<Rightarrow>
                     (let (now, h6) = on_world (he_now env) h5;
                          armed = \<lparr>as_guid = [], as_partition = part, as_files = sort files, as_hashes = staged,
                            as_power = power, as_drive = drive, as_image = ic_image cfg, as_bootloader = ic_bootloader cfg,
                            as_timestamp = now, as_exe_hash = exe_hash\<rparr> in
                      case guard_tasks env h6 of
                        (Some e, h7) \<Rightarrow> (Inl e, h7)
                      | (None, h7) \<Rightarrow> (Inr (staged, armed), h7))))))"

text \<open>The letter is released however it ends.\<close>

definition configureBCD :: "'w host_env \<Rightarrow> install_config \<Rightarrow> 'w host \<Rightarrow> wiring_error option \<times> 'w host" where
  "configureBCD env cfg h =
     (case chosen_loader (he_source env) (ic_bootloader cfg) of
        Inl e \<Rightarrow> (Some e, h)
      | Inr efi \<Rightarrow>
        (case backupBCD env h of
           (Some e, h1) \<Rightarrow> (Some e, h1)
         | (None, h1) \<Rightarrow>
           (case findESP env h1 of
              (Inl e, h2) \<Rightarrow> (Some e, h2)
            | (Inr esp, h2) \<Rightarrow>
              (case prepare_guard env cfg efi esp h2 of
                 (Inl e, h3) \<Rightarrow> (Some e, releaseESPLetter env h3)
               | (Inr (staged, armed), h3) \<Rightarrow>
                   (case beginBootChainTxn (windowsBootChainEnv env esp armed) efi staged h3 of
                      ((e, txn), h4) \<Rightarrow> (map_option TxnFailed e, releaseESPLetter env h4))))))"

definition armBootChain :: "'w host_env \<Rightarrow> 'w host \<Rightarrow> wiring_error option \<times> 'w host" where
  "armBootChain env h =
     (case ho_txn h of
        Found txn \<Rightarrow>
          (case ho_armed h of
             Found armed \<Rightarrow>
               (case findESP env h of
                  (Inl e, h1) \<Rightarrow> (Some e, h1)
                | (Inr esp, h1) \<Rightarrow>
                    (case armBootChainTxn (windowsBootChainEnv env esp armed) txn h1 of
                       ((e, txn1), h2) \<Rightarrow> (map_option TxnFailed e, releaseESPLetter env h2)))
           | Missing \<Rightarrow> (Some (NoArmedRecord ''missing''), h)
           | Unreadable e \<Rightarrow> (Some (NoArmedRecord e), h))
      | _ \<Rightarrow> (Some NothingPrepared, h))"

subsection \<open>The start of Windows\<close>

text \<open>
  An uncommitted installation is rolled back. The first result tells that it was handled; a failure
  of the rollback or of the removal of the tasks ends it early.
\<close>

definition undo_install :: "'w host_env \<Rightarrow> 'w host \<Rightarrow> (bool \<times> wiring_error option) \<times> 'w host" where
  "undo_install env h =
     (case rollbackBootChain env h of
        (Some e, h1) \<Rightarrow> ((True, Some (TxnFailed e)), h1)
      | (None, h1) \<Rightarrow>
          (case unregisterRecoveryTasks (task_calls env) (install_exe env) h1 of
             (Some e, h2) \<Rightarrow> ((True, Some (TasksKept e)), h2)
           | (None, h2) \<Rightarrow>
               ((True, None),
                writeState env StateFailed StepInstallerMakingLinuxBootableOnYourMachine
                  (''setup stopped before the boot setup was finished; '' @ he_product env
                   @ '' removed its boot entry and Windows starts normally'')
                  (drop_verdict env (drop_armed env (drop_guid env h2))))))"

text \<open>A journal that cannot be read was never committed as far as anyone can prove.\<close>

definition journal_of :: "'w host \<Rightarrow> boot_txn" where
  "journal_of h = (case ho_txn h of Found t \<Rightarrow> t | _ \<Rightarrow> zero_txn)"

definition recoverBootTxnAtStartup ::
  "'w host_env \<Rightarrow> bool \<Rightarrow> lifecycle_state \<Rightarrow> 'w host \<Rightarrow> (bool \<times> wiring_error option) \<times> 'w host" where
  "recoverBootTxnAtStartup env started ls h =
     (if ho_txn h = Missing then ((False, None), h)
      else let action = bootTxnStartupAction (journal_of h) started ls in
           if action = bootTxnMarkCommitted then
             (case writeBootTxn env ((journal_of h)\<lparr>tx_phase := txnCommitted\<rparr>) h of
                (e, h1) \<Rightarrow> ((False, map_option RecordNotWritten e), h1))
           else if action = bootTxnRollback then undo_install env h
           else ((False, None), h))"

definition clear_one_shot :: "string list" where
  "clear_one_shot = [''/deletevalue'', ''{fwbootmgr}'', ''bootsequence'']"

definition save_verdict :: "'w host_env \<Rightarrow> recovery_verdict \<Rightarrow> 'w host \<Rightarrow> wiring_error option \<times> 'w host" where
  "save_verdict env v h = (case writeRecoveryVerdict env v h of (e, h1) \<Rightarrow> (map_option RecordNotWritten e, h1))"

definition act_on_verdict :: "'w host_env \<Rightarrow> recovery_verdict \<Rightarrow> 'w host \<Rightarrow> wiring_error option \<times> 'w host" where
  "act_on_verdict env v h =
     (if rv_verdict v = VerdictHealthy then
        (case unregisterRecoveryTasks (task_calls env) (install_exe env) h of
           (Some e, h1) \<Rightarrow> (Some (TasksKept e), h1)
         | (None, h1) \<Rightarrow> (None, drop_verdict env (drop_armed env h1)))
      else if rv_verdict v = VerdictNeverBooted \<or> rv_verdict v = VerdictInterrupted \<or> rv_verdict v = VerdictFailed then
        save_verdict env v (snd (run_bcd env [''/enum'', ''{fwbootmgr}''] (snd (run_bcd env clear_one_shot h))))
      else save_verdict env v h)"

text \<open>\<open>ls\<close> is the verified state, and \<open>ok\<close> whether there is one.\<close>

definition judge_start :: "'w host_env \<Rightarrow> armed_state \<Rightarrow> bool \<Rightarrow> lifecycle_state \<times> bool \<Rightarrow> 'w host \<Rightarrow> wiring_error option \<times> 'w host" where
  "judge_start env armed started verified h =
     (let ls = (if snd verified then fst verified else zero_lifecycle\<lparr>ls_state := StateArmed\<rparr>);
          (unproven, h1) = (if ls_state ls = StateHealthy then on_world (he_evidence env (as_drive armed)) h else (None, h));
          ls1 = (if unproven = None then ls else ls\<lparr>ls_state := StateDeployed\<rparr>);
          (now, h2) = on_world (he_now env) h1;
          (logs, h3) = on_world (he_logs env) h2
      in act_on_verdict env (EvaluateRecovery now started ls1 logs) h3)"

definition exe_trusted :: "'w host_env \<Rightarrow> armed_state \<Rightarrow> 'w host \<Rightarrow> wiring_error option \<times> 'w host" where
  "exe_trusted env armed h =
     (if as_exe_hash armed = [] then (None, h)
      else (case on_world (he_executable env) h of
              (Inl e, h1) \<Rightarrow> (Some (ExeUnresolved e), h1)
            | (Inr cur, h1) \<Rightarrow>
                (case on_world (he_read_exe env) h1 of
                   (Inl e, h2) \<Rightarrow> (Some ExeNotHashed, h2)
                 | (Inr data, h2) \<Rightarrow>
                     ((if he_hash env data = as_exe_hash armed then None else Some ExeMismatch), h2))))"

definition no_armed :: armed_state where
  "no_armed = \<lparr>as_guid = [], as_partition = [], as_files = [], as_hashes = [],
     as_power = \<lparr>pp_hibernate = [], pp_hiberboot = []\<rparr>, as_drive = [], as_image = [], as_bootloader = [],
     as_timestamp = [], as_exe_hash = []\<rparr>"

definition runRecoverStartup :: "'w host_env \<Rightarrow> 'w host \<Rightarrow> wiring_error option \<times> 'w host" where
  "runRecoverStartup env h =
     (case ho_armed h of
        Unreadable e \<Rightarrow> (Some (NoArmedRecord e), h)
      | r \<Rightarrow>
          (let armed = (case r of Found a \<Rightarrow> a | _ \<Rightarrow> no_armed) in
           case exe_trusted env armed h of
             (Some e, h1) \<Rightarrow> (Some e, h1)
           | (None, h1) \<Rightarrow>
               (let started = ho_started h1; (verified, h2) = on_world (he_verified env) h1 in
                case recoverBootTxnAtStartup env started (fst verified) h2 of
                  ((handled, e), h3) \<Rightarrow>
                    if handled \<or> e \<noteq> None then (e, h3)
                    else if r = Missing then (None, h3)
                    else judge_start env armed started verified h3)))"

subsection \<open>Trying again\<close>

definition rearm_command :: "string \<Rightarrow> string list" where
  "rearm_command guid = [''/set'', ''{fwbootmgr}'', ''bootsequence'', guid, ''/addfirst'']"

definition armOneShotFromPersistedGUID :: "'w host_env \<Rightarrow> 'w host \<Rightarrow> wiring_error option \<times> 'w host" where
  "armOneShotFromPersistedGUID env h =
     (case ho_guid h of
        Found b \<Rightarrow>
          (let guid = trim_space b in
           if \<not> has_prefix guid ''{'' then (Some (InvalidGuid guid), h)
           else (case run_bcd env (rearm_command guid) h of
                   ((out, Some e), h1) \<Rightarrow> (Some (RearmFailed e out), h1)
                 | ((out, None), h1) \<Rightarrow> (None, h1)))
      | _ \<Rightarrow> (Some NothingRecorded, h))"

definition armed_again :: "'w host_env \<Rightarrow> bool \<Rightarrow> 'w host \<Rightarrow> wiring_error option \<times> 'w host" where
  "armed_again env noReboot h =
     (let h1 = drop_verdict env (drop_started env (writeState env StateArmed [] [] h)) in
      if noReboot then (None, h1)
      else (case on_world (he_reboot env) h1 of (e, h2) \<Rightarrow> (map_option RebootFailed e, h2)))"

definition tryAgainFromArmed :: "'w host_env \<Rightarrow> bool \<Rightarrow> 'w host \<Rightarrow> wiring_error option \<times> 'w host" where
  "tryAgainFromArmed env noReboot h =
     (case ho_armed h of
        Found armed \<Rightarrow>
          (let guid = (if as_guid armed \<noteq> [] then as_guid armed
                       else (case ho_guid h of Found b \<Rightarrow> trim_space b | _ \<Rightarrow> [])) in
           if \<not> has_prefix guid ''{'' then (Some (InvalidGuid guid), h)
           else if ho_engine h = Missing then (Some EngineUnavailable, h)
           else (case registerRecoveryTasks (task_calls env) (install_exe env) h of
                   (Some e, h1) \<Rightarrow> (Some (TasksFailed e), h1)
                 | (None, h1) \<Rightarrow>
                     (case run_bcd env (rearm_command guid) h1 of
                        ((out, Some e), h2) \<Rightarrow> (Some (RearmFailed e out), h2)
                      | ((out, None), h2) \<Rightarrow> armed_again env noReboot h2)))
      | _ \<Rightarrow> armOneShotFromPersistedGUID env h)"

definition repair_config :: "armed_state \<Rightarrow> install_config" where
  "repair_config armed =
     \<lparr>ic_image = as_image armed, ic_disk_gb = 0, ic_username = [], ic_password = [], ic_hostname = [],
      ic_bootloader = (if as_bootloader armed = [] then ''auto'' else as_bootloader armed), ic_composefs = False,
      ic_drive = as_drive armed, ic_encryption = [], ic_luks_passphrase = [], ic_windows_look = False,
      ic_session_consent = [], ic_fault = []\<rparr>"

definition restore_after :: "'w host_env \<Rightarrow> boot_report \<Rightarrow> 'w host \<Rightarrow> 'w host" where
  "restore_after env after h =
     (case restoreWindowsCommands after of
        Inl e \<Rightarrow> h
      | Inr cmds \<Rightarrow> foldl (\<lambda>h c. snd (run_bcd env c h)) h cmds)"

definition repairBootFromArmed :: "'w host_env \<Rightarrow> bool \<Rightarrow> 'w host \<Rightarrow> wiring_error option \<times> 'w host" where
  "repairBootFromArmed env noReboot h =
     (case on_world (he_observe env) h of (before, h1) \<Rightarrow>
        if \<not> rr_can_repair (planBootRepair before) then (Some RepairRefused, h1)
        else (case ho_armed h1 of
                Found armed \<Rightarrow>
                  (let cfg = repair_config armed in
                   case on_world (he_setup_esp env cfg) h1 of
                     (Some e, h2) \<Rightarrow> (Some (EspRepairFailed e), h2)
                   | (None, h2) \<Rightarrow>
                     (case configureBCD env cfg h2 of
                        (Some e, h3) \<Rightarrow> (Some e, h3)
                      | (None, h3) \<Rightarrow>
                        (case armBootChain env h3 of
                           (Some e, h4) \<Rightarrow> (Some e, h4)
                         | (None, h4) \<Rightarrow>
                             (let (obs, h5) = on_world (he_observe env) h4; after = planBootRepair obs in
                              case verifyRepairArmed after obs of
                                Some e \<Rightarrow> (Some (RepairNotVerified e), restore_after env after h5)
                              | None \<Rightarrow> armed_again env noReboot h5))))
              | Missing \<Rightarrow> (Some (NoArmedRecord ''missing''), h1)
              | Unreadable e \<Rightarrow> (Some (NoArmedRecord e), h1)))"

end
