(* ===== verification/Boot_Wiring_Props.thy ===== *)
theory Boot_Wiring_Props
  imports Boot_Wiring Firmware
begin

text \<open>
  What the wiring of the transaction adds to it: the records outlive a rollback that was not seen
  to work, an installation that never armed is undone at the next start of Windows, and nothing
  is written to the boot store before backup, identity and recovery tasks are in place.
\<close>

subsection \<open>What a rollback leaves alone\<close>

definition env_keeps :: "('s \<Rightarrow> 'a) \<Rightarrow> 's boot_chain_env \<Rightarrow> bool" where
  "env_keeps f env \<longleftrightarrow> (\<forall>c s. f (snd (bcdedit env c s)) = f s) \<and> (\<forall>t s. f (snd (saveTxn env t s)) = f s) \<and>
     (\<forall>n s. f (sleepFor env n s) = f s) \<and> (\<forall>s. f (snd (clockNow env s)) = f s)"

lemma env_keepsD:
  assumes "env_keeps f env"
  shows "bcdedit env c s = (r, s1) \<Longrightarrow> f s1 = f s" "saveTxn env t s = (q, s1) \<Longrightarrow> f s1 = f s"
    "f (sleepFor env n s) = f s" "clockNow env s = (now, s1) \<Longrightarrow> f s1 = f s"
  using assms unfolding env_keeps_def by (metis snd_conv)+

lemma save_keeps:
  assumes k: "env_keeps f env" and run: "env_save env txn ph s = (r, s1)"
  shows "f s1 = f s"
proof -
  obtain now s2 where c: "clockNow env s = (now, s2)" by fastforce
  obtain q s3 where w: "saveTxn env (txn\<lparr>tx_phase := ph, tx_updated := now\<rparr>) s2 = (q, s3)" by fastforce
  from run c w have "s1 = s3" by (simp add: env_save_def)
  with env_keepsD(4) [OF k c] env_keepsD(2) [OF k w] show ?thesis by simp
qed

lemma observe_keeps: "env_keeps f env \<Longrightarrow> observeFirmware env s = (r, s1) \<Longrightarrow> f s1 = f s"
  by (auto simp: observeFirmware_def Let_def dest: env_keepsD split: prod.splits option.splits if_splits)

lemma run_keeps: "env_keeps f env \<Longrightarrow> f (run_commands env cmds s) = f s"
  by (induction cmds arbitrary: s) (auto simp: run_commands_def env_keeps_def)

lemma sweep_keeps:
  assumes "env_keeps f env"
  shows "f (sweepWootcEntries env g s) = f s"
proof -
  obtain r s1 where "observeFirmware env s = (r, s1)" by fastforce
  with observe_keeps [OF assms this] run_keeps [OF assms] show ?thesis
    by (simp add: sweepWootcEntries_def split: sum.split)
qed

lemma attempt_keeps:
  assumes "env_keeps f env" "rollback_attempt env txn s = (r, s1)"
  shows "f s1 = f s"
proof -
  obtain q s2 where q: "observeFirmware env (sweepWootcEntries env (tx_guid txn) s) = (q, s2)" by fastforce
  with assms(2) have "s1 = s2" by (auto simp: rollback_attempt_def Let_def split: sum.splits)
  with observe_keeps [OF assms(1) q] sweep_keeps [OF assms(1)] show ?thesis by simp
qed

lemma give_up_keeps:
  assumes "env_keeps f env" "rollback_give_up env txn e s = (r, s1)"
  shows "f s1 = f s"
  using assms(2) save_keeps [OF assms(1)]
  by (auto simp: rollback_give_up_def Let_def split: prod.splits)

lemma attempts_keep:
  assumes k: "env_keeps f env"
  shows "rollback_attempts env left txn s = (r, s1) \<Longrightarrow> f s1 = f s"
proof (induction left arbitrary: s)
  case 0
  obtain q s2 where q: "rollback_attempt env txn s = (q, s2)" by fastforce
  from 0 q attempt_keeps [OF k q] show ?case
    by (cases q) (auto simp: rollback_attempts.simps [of env 0] dest: save_keeps [OF k] give_up_keeps [OF k])
next
  case (Suc n)
  obtain q s2 where q: "rollback_attempt env txn s = (q, s2)" by fastforce
  from Suc.prems q attempt_keeps [OF k q] env_keepsD(3) [OF k] show ?case
    by (cases q) (auto simp: rollback_attempts.simps [of env "Suc n"] dest: save_keeps [OF k] Suc.IH)
qed

lemma rollback_keeps:
  assumes "env_keeps f env" "rollbackBootChainTxn env txn s = (r, s1)"
  shows "f s1 = f s"
proof -
  obtain q t s2 where "env_save env txn txnRollingBack s = ((q, t), s2)" by (metis surj_pair)
  with assms attempts_keep [OF assms(1)] save_keeps [OF assms(1) this] show ?thesis
    by (auto simp: rollbackBootChainTxn_def)
qed

text \<open>A rollback that reports success saw a clean store, and then wrote the journal.\<close>

definition saw_clean :: "'s boot_chain_env \<Rightarrow> string \<Rightarrow> 's \<Rightarrow> bool" where
  "saw_clean env guid s1 \<longleftrightarrow> (\<exists>s objs. observeFirmware env (sweepWootcEntries env guid s) = (Inr objs, s1) \<and> windows_clean objs guid)"

lemma save_success:
  assumes "env_save env txn ph s = ((None, t1), s1)"
  shows "tx_phase t1 = ph \<and> tx_guid t1 = tx_guid txn \<and> saveTxn env t1 (snd (clockNow env s)) = (None, s1)"
  using assms by (auto simp: env_save_def Let_def split: prod.splits)

lemma save_guid: "env_save env txn ph s = ((r, t1), s1) \<Longrightarrow> tx_guid t1 = tx_guid txn"
  by (auto simp: env_save_def Let_def split: prod.splits)

lemma confirmed_saved:
  assumes "rollback_attempt env txn s = (None, s2)" "env_save env txn txnRolledBack s2 = ((None, t1), s1)"
  shows "tx_phase t1 = txnRolledBack \<and> tx_guid t1 = tx_guid txn \<and>
     (\<exists>s2. saw_clean env (tx_guid txn) s2 \<and> saveTxn env t1 (snd (clockNow env s2)) = (None, s1))"
proof -
  from assms(1) have "saw_clean env (tx_guid txn) s2"
    by (auto simp: rollback_attempt_def saw_clean_def Let_def bootChainResidue_Nil split: prod.splits sum.splits if_splits)
  with save_success [OF assms(2)] show ?thesis by blast
qed

lemma attempts_saved:
  "rollback_attempts env left txn s = ((None, t1), s1) \<Longrightarrow>
     tx_phase t1 = txnRolledBack \<and> tx_guid t1 = tx_guid txn \<and>
     (\<exists>s2. saw_clean env (tx_guid txn) s2 \<and> saveTxn env t1 (snd (clockNow env s2)) = (None, s1))"
proof (induction left arbitrary: s)
  case 0
  obtain q s2 where q: "rollback_attempt env txn s = (q, s2)" by fastforce
  with 0 have "q = None \<and> env_save env txn txnRolledBack s2 = ((None, t1), s1)"
    by (cases q) (auto simp: rollback_attempts.simps [of env 0] rollback_give_up_def Let_def split: prod.splits)
  with q confirmed_saved [of env txn s s2 t1 s1] show ?case by simp
next
  case (Suc n)
  obtain q s2 where q: "rollback_attempt env txn s = (q, s2)" by fastforce
  show ?case
  proof (cases q)
    case None
    with Suc.prems q have "env_save env txn txnRolledBack s2 = ((None, t1), s1)"
      by (simp add: rollback_attempts.simps [of env "Suc n"])
    with None q confirmed_saved [of env txn s s2 t1 s1] show ?thesis by simp
  next
    case (Some e)
    with Suc.prems q show ?thesis by (simp add: rollback_attempts.simps [of env "Suc n"] Suc.IH)
  qed
qed

lemma rollback_saved:
  assumes "rollbackBootChainTxn env txn s = ((None, t1), s1)"
  shows "tx_phase t1 = txnRolledBack \<and> tx_guid t1 = tx_guid txn \<and>
     (\<exists>s2. saw_clean env (tx_guid txn) s2 \<and> saveTxn env t1 (snd (clockNow env s2)) = (None, s1))"
proof -
  obtain q t s2 where q: "env_save env txn txnRollingBack s = ((q, t), s2)" by (metis surj_pair)
  with assms have "rollback_attempts env 1 t s2 = ((None, t1), s1)" by (simp add: rollbackBootChainTxn_def)
  from attempts_saved [OF this] save_guid [OF q] show ?thesis by simp
qed

subsection \<open>Records outlive an unconfirmed rollback\<close>

text \<open>The fields of the install directory, by the calls that may change them.\<close>

definition records :: "'w host \<Rightarrow> armed_state file_read \<times> string file_read" where
  "records h = (ho_armed h, ho_guid h)"

lemma on_world_fields:
  assumes "on_world f h = (x, h1)"
  shows "records h1 = records h \<and> ho_txn h1 = ho_txn h"
  using assms by (auto simp: on_world_def records_def split: prod.splits)

lemma run_world_fields: "records (run_world f h) = records h \<and> ho_txn (run_world f h) = ho_txn h"
  by (simp add: run_world_def records_def)

lemma rollback_env_keeps_records: "env_keeps records (rollback_env env)"
  by (auto simp: env_keeps_def rollback_env_def run_bcd_def on_world_def run_world_def writeBootTxn_def records_def
      split: prod.splits write_result.splits)

lemma rollback_records:
  assumes "rollbackBootChain env h = (r, h1)"
  shows "records h1 = records h"
proof -
  obtain e t h2 where q: "rollbackBootChainTxn (rollback_env env) (txn_to_roll_back h) h = ((e, t), h2)" by (metis surj_pair)
  with assms have "h1 = h2" by (simp add: rollbackBootChain_def)
  with rollback_keeps [OF rollback_env_keeps_records q] show ?thesis by simp
qed

text \<open>The journal says that the rollback is over, and that was looked at.\<close>

definition confirmed :: "'w host_env \<Rightarrow> 'w host \<Rightarrow> bool" where
  "confirmed env h \<longleftrightarrow>
     (\<exists>t h1. ho_txn h = Found t \<and> tx_phase t = txnRolledBack \<and> saw_clean (rollback_env env) (tx_guid t) h1)"

lemma rollback_confirmed:
  assumes "rollbackBootChain env h = (None, h1)"
  shows "\<exists>t h2. ho_txn h1 = Found t \<and> tx_phase t = txnRolledBack \<and> tx_guid t = tx_guid (txn_to_roll_back h) \<and>
    saw_clean (rollback_env env) (tx_guid t) h2"
proof -
  from assms obtain t where "rollbackBootChainTxn (rollback_env env) (txn_to_roll_back h) h = ((None, t), h1)"
    by (auto simp: rollbackBootChain_def split: prod.splits)
  from rollback_saved [OF this] obtain s2 where r: "tx_phase t = txnRolledBack"
    "tx_guid t = tx_guid (txn_to_roll_back h)" "saw_clean (rollback_env env) (tx_guid t) s2"
    "saveTxn (rollback_env env) t (snd (clockNow (rollback_env env) s2)) = (None, h1)" by auto
  from r(4) have "ho_txn h1 = Found t"
    by (auto simp: rollback_env_def writeBootTxn_def split: prod.splits write_result.splits)
  with r show ?thesis by blast
qed

lemma remove_txn:
  "ho_txn (drop_armed env h) = ho_txn h" "ho_txn (drop_guid env h) = ho_txn h" "ho_txn (drop_verdict env h) = ho_txn h"
  "ho_txn (writeState env st ph e h) = ho_txn h"
  by (auto simp: drop_armed_def drop_guid_def drop_verdict_def writeState_def write_file_def remove_file_def on_world_def
      split: prod.splits option.splits write_result.splits)

text \<open>Calls of the task scheduler act on the world only.\<close>

definition tasks_keep :: "('s \<Rightarrow> 'a) \<Rightarrow> 's task_env \<Rightarrow> bool" where
  "tasks_keep f env \<longleftrightarrow> (\<forall>n s. f (snd (tk_query env n s)) = f s) \<and> (\<forall>t s. f (snd (tk_register env t s)) = f s) \<and>
     (\<forall>n s. f (snd (tk_remove env n s)) = f s)"

lemma tasks_keepD:
  assumes "tasks_keep f env"
  shows "tk_query env n s = (r, s1) \<Longrightarrow> f s1 = f s" "tk_register env t s = (q, s1) \<Longrightarrow> f s1 = f s"
    "tk_remove env n s = (q, s1) \<Longrightarrow> f s1 = f s"
  using assms unfolding tasks_keep_def by (metis snd_conv)+

lemma removeTask_keeps:
  assumes k: "tasks_keep f env" and run: "removeScheduledTask env spec s = (r, s1)"
  shows "f s1 = f s"
proof -
  obtain q s2 where q: "tk_remove env (rt_name spec) s = (q, s2)" by fastforce
  obtain g s3 where g: "tk_query env (rt_name spec) s2 = (g, s3)" by fastforce
  from run q g have "s1 = s2 \<or> s1 = s3"
    by (auto simp: removeScheduledTask_def split: option.splits sum.splits)
  with tasks_keepD(3) [OF k q] tasks_keepD(1) [OF k g] show ?thesis by auto
qed

lemma unregister_all_keep:
  assumes k: "tasks_keep f env"
  shows "unregister_all env specs fs s = (r, s1) \<Longrightarrow> f s1 = f s"
proof (induction specs arbitrary: fs s)
  case (Cons spec specs)
  obtain q s2 where q: "tk_query env (rt_name spec) s = (q, s2)" by fastforce
  obtain g s3 where g: "removeScheduledTask env spec s2 = (g, s3)" by fastforce
  have "\<exists>gs s4. unregister_all env specs gs s4 = (r, s1) \<and> f s4 = f s"
    using Cons.prems q g tasks_keepD(1) [OF k q] removeTask_keeps [OF k g]
    by (auto split: sum.splits option.splits if_splits)
  with Cons.IH show ?case by metis
qed simp

lemma unregister_keeps: "tasks_keep f env \<Longrightarrow> unregisterRecoveryTasks env exe s = (r, s1) \<Longrightarrow> f s1 = f s"
  by (auto simp: unregisterRecoveryTasks_def dest: unregister_all_keep split: prod.splits)

lemma task_calls_keep_fields: "tasks_keep (\<lambda>h. (records h, ho_txn h)) (task_calls env)"
  by (auto simp: tasks_keep_def task_calls_def on_world_def records_def split: prod.splits)

lemma unregister_fields:
  assumes "unregisterRecoveryTasks (task_calls env) exe h = (r, h1)"
  shows "records h1 = records h" "ho_txn h1 = ho_txn h"
  using unregister_keeps [OF task_calls_keep_fields assms] by simp_all

lemma release_records: "records (releaseESPLetter env h) = records h"
  by (auto simp: releaseESPLetter_def Let_def remove_file_def on_world_def run_world_def records_def
      split: file_read.splits prod.splits option.splits)

lemma bootmgr_records: "records (removeBootmgrSelfReference env h) = records h"
  by (auto simp: removeBootmgrSelfReference_def run_bcd_def on_world_def records_def split: prod.splits)


subsection \<open>An installation that never armed is undone at the next start\<close>

text \<open>
  What the machine is documented to do: firmware and Task Scheduler as before, files and clock
  separate from both, and those separate from each other.
\<close>

definition documented_machine ::
  "'w host_env \<Rightarrow> ('w \<Rightarrow> bool) \<Rightarrow> ('w \<Rightarrow> bcd_object list) \<Rightarrow> ('w \<Rightarrow> recovery_task list) \<Rightarrow> bool" where
  "documented_machine env ok store tasks \<longleftrightarrow>
     documented_firmware (rollback_env env) (\<lambda>h. ok (ho_world h)) (\<lambda>h. store (ho_world h)) \<and>
     documented_scheduler (he_tasks env) tasks \<and>
     env_keeps (\<lambda>h. tasks (ho_world h)) (rollback_env env) \<and> tasks_keep store (he_tasks env) \<and>
     (\<forall>f w. store (snd (he_write env f w)) = store w \<and> tasks (snd (he_write env f w)) = tasks w \<and>
        store (snd (he_remove env f w)) = store w \<and> tasks (snd (he_remove env f w)) = tasks w) \<and>
     (\<forall>w. store (snd (he_now env w)) = store w \<and> tasks (snd (he_now env w)) = tasks w)"

lemma documented_task_calls:
  "documented_scheduler (he_tasks env) tasks \<Longrightarrow> documented_scheduler (task_calls env) (\<lambda>h. tasks (ho_world h))"
  unfolding documented_scheduler_def task_calls_def on_world_def
  by (simp add: split_beta)

text \<open>The two views together, through the closing writes.\<close>

lemma closing_views:
  assumes "documented_machine env ok store tasks"
  shows "store (ho_world (drop_armed env h)) = store (ho_world h) \<and> tasks (ho_world (drop_armed env h)) = tasks (ho_world h)"
    "store (ho_world (drop_guid env h)) = store (ho_world h) \<and> tasks (ho_world (drop_guid env h)) = tasks (ho_world h)"
    "store (ho_world (drop_verdict env h)) = store (ho_world h) \<and> tasks (ho_world (drop_verdict env h)) = tasks (ho_world h)"
    "store (ho_world (writeState env st ph e h)) = store (ho_world h) \<and> tasks (ho_world (writeState env st ph e h)) = tasks (ho_world h)"
proof -
  have r: "he_remove env f w = (x, w1) \<Longrightarrow> store w1 = store w \<and> tasks w1 = tasks w"
    and p: "he_write env f w = (y, w1) \<Longrightarrow> store w1 = store w \<and> tasks w1 = tasks w"
    and n: "he_now env w = (now, w1) \<Longrightarrow> store w1 = store w \<and> tasks w1 = tasks w" for f w x y now w1
    using assms unfolding documented_machine_def by (metis snd_conv)+
  show "store (ho_world (drop_armed env h)) = store (ho_world h) \<and> tasks (ho_world (drop_armed env h)) = tasks (ho_world h)"
    "store (ho_world (drop_guid env h)) = store (ho_world h) \<and> tasks (ho_world (drop_guid env h)) = tasks (ho_world h)"
    "store (ho_world (drop_verdict env h)) = store (ho_world h) \<and> tasks (ho_world (drop_verdict env h)) = tasks (ho_world h)"
    by (auto simp: drop_armed_def drop_guid_def drop_verdict_def remove_file_def on_world_def split: prod.splits option.splits dest: r)
  show "store (ho_world (writeState env st ph e h)) = store (ho_world h) \<and> tasks (ho_world (writeState env st ph e h)) = tasks (ho_world h)"
    by (auto simp: writeState_def write_file_def on_world_def split: prod.splits write_result.splits dest!: p n)
qed

lemma undo_views:
  assumes m: "documented_machine env ok store tasks"
    and r: "rollbackBootChain env h = (None, h1)" and q: "unregisterRecoveryTasks (task_calls env) (install_exe env) h1 = (q, h2)"
    and run: "undo_install env h = (x, h3)"
  shows "x = (True, map_option TasksKept q)" "store (ho_world h3) = store (ho_world h1)" "tasks (ho_world h3) = tasks (ho_world h2)"
    "ho_txn h3 = ho_txn h1" "q \<noteq> None \<longrightarrow> records h3 = records h"
proof -
  have s2: "store (ho_world h2) = store (ho_world h1)"
  proof -
    from m have "tasks_keep (\<lambda>h. store (ho_world h)) (task_calls env)"
      unfolding documented_machine_def tasks_keep_def task_calls_def on_world_def by (simp add: split_beta)
    from unregister_keeps [OF this q] show ?thesis .
  qed
  show "x = (True, map_option TasksKept q)" "store (ho_world h3) = store (ho_world h1)" "tasks (ho_world h3) = tasks (ho_world h2)"
    "ho_txn h3 = ho_txn h1" "q \<noteq> None \<longrightarrow> records h3 = records h"
    using run s2 r q closing_views [OF m] rollback_records [OF r] unregister_fields [OF q]
    by (auto simp: undo_install_def remove_txn split: option.splits)
qed


subsection \<open>Guards before the first change\<close>

text \<open>The steps before the transaction do not look at what bcdedit does, apart from the export.\<close>

definition other_bcdedit :: "'w host_env \<Rightarrow> (string list \<Rightarrow> 'w \<Rightarrow> (string \<times> string option) \<times> 'w) \<Rightarrow> 'w host_env" where
  "other_bcdedit env b = env\<lparr>he_bcdedit := b(export_command env := he_bcdedit env (export_command env))\<rparr>"

lemma other_fields [simp]:
  "he_tasks (other_bcdedit env b) = he_tasks env" "he_write (other_bcdedit env b) = he_write env"
  "he_remove (other_bcdedit env b) = he_remove env" "he_find_esp (other_bcdedit env b) = he_find_esp env"
  "he_efi_there (other_bcdedit env b) = he_efi_there env" "he_mountvol (other_bcdedit env b) = he_mountvol env"
  "he_hash_esp (other_bcdedit env b) = he_hash_esp env" "he_owned (other_bcdedit env b) = he_owned env"
  "he_partition (other_bcdedit env b) = he_partition env" "he_host_uuid (other_bcdedit env b) = he_host_uuid env"
  "he_random (other_bcdedit env b) = he_random env" "he_now (other_bcdedit env b) = he_now env"
  "he_executable (other_bcdedit env b) = he_executable env" "he_read_exe (other_bcdedit env b) = he_read_exe env"
  "he_hash (other_bcdedit env b) = he_hash env" "he_source (other_bcdedit env b) = he_source env"
  "he_dir (other_bcdedit env b) = he_dir env"
  by (simp_all add: other_bcdedit_def)

lemma other_steps [simp]:
  "write_file (other_bcdedit env b) f put x h = write_file env f put x h"
  "remove_file (other_bcdedit env b) f d h = remove_file env f d h"
  "task_calls (other_bcdedit env b) = task_calls env" "install_exe (other_bcdedit env b) = install_exe env"
  by (simp_all add: write_file_def remove_file_def task_calls_def install_exe_def)

lemma other_export [simp]:
  "run_bcd (other_bcdedit env b) (export_command env) h = run_bcd env (export_command env) h"
  "export_command (other_bcdedit env b) = export_command env"
  by (simp_all add: run_bcd_def export_command_def backup_path_def) (simp add: other_bcdedit_def export_command_def backup_path_def)

lemma other_hashes [simp]: "stage_hashes (other_bcdedit env b) esp fs out h = stage_hashes env esp fs out h"
  by (induction fs arbitrary: out h) (simp_all cong: option.case_cong split: prod.split option.split)

lemmas all_cases = prod.case_cong option.case_cong sum.case_cong write_result.case_cong file_read.case_cong if_cong

lemma other_parts [simp]:
  "backupBCD (other_bcdedit env b) h = backupBCD env h" "findESP (other_bcdedit env b) h = findESP env h"
  "releaseESPLetter (other_bcdedit env b) h = releaseESPLetter env h"
  "stage_engine (other_bcdedit env b) h = stage_engine env h"
  "record_identity (other_bcdedit env b) cfg drive part efi h = record_identity env cfg drive part efi h"
  "findESPPartitionGuid (other_bcdedit env b) h = findESPPartitionGuid env h"
  "guard_tasks (other_bcdedit env b) h = guard_tasks env h"
  by (simp_all add: backupBCD_def findESP_def releaseESPLetter_def stage_engine_def record_identity_def
      findESPPartitionGuid_def guard_tasks_def Let_def cong: all_cases)

lemma other_prepare [simp]: "prepare_guard (other_bcdedit env b) cfg efi esp h = prepare_guard env cfg efi esp h"
  by (simp add: prepare_guard_def Let_def cong: all_cases)

text \<open>What is in place when the transaction begins.\<close>

definition guarded :: "'w host_env \<Rightarrow> armed_state \<Rightarrow> 'w host \<Rightarrow> bool" where
  "guarded env armed h \<longleftrightarrow> ho_backup h \<and> \<not> ho_complete h \<and>
     (\<exists>p. ho_identity h = Found p \<and> validateInstallationIdentity p = None \<and> id_image p = as_image armed \<and>
        id_esp p = canonicalGUID (as_partition armed)) \<and>
     (\<exists>data. ho_engine h = Found data \<and> as_exe_hash armed = he_hash env data)"

definition guard_fields where
  "guard_fields h = (ho_backup h, ho_complete h, ho_identity h, ho_engine h)"

lemma on_world_guard: "on_world f h = (x, h1) \<Longrightarrow> guard_fields h1 = guard_fields h"
  by (auto simp: on_world_def guard_fields_def split: prod.splits)

lemma register_one_keeps:
  assumes k: "tasks_keep f env" and run: "registerScheduledTask env spec s = (r, s1)"
  shows "f s1 = f s"
  using run
  by (auto simp: registerScheduledTask_def split: prod.splits sum.splits option.splits if_splits
      dest!: tasks_keepD [OF k])

lemma register_keeps_state:
  assumes k: "tasks_keep f env"
  shows "register_all env specs s = (r, s1) \<Longrightarrow> f s1 = f s"
proof (induction specs arbitrary: s)
  case (Cons spec specs)
  then show ?case
    by (auto split: prod.splits option.splits dest!: register_one_keeps [OF k])
qed simp

lemma task_calls_guard: "tasks_keep guard_fields (task_calls env)"
  by (auto simp: tasks_keep_def task_calls_def on_world_def guard_fields_def split: prod.splits)

lemma guard_tasks_success:
  assumes "guard_tasks env h = (None, h1)"
  shows "registerRecoveryTasks (task_calls env) (install_exe env) h = (None, h1) \<and> guard_fields h1 = guard_fields h"
  using assms register_keeps_state [OF task_calls_guard]
  by (auto simp: guard_tasks_def registerRecoveryTasks_def split: prod.splits option.splits)

lemma stage_hashes_guard: "stage_hashes env esp fs out h = (r, h1) \<Longrightarrow> guard_fields h1 = guard_fields h"
  by (induction fs arbitrary: out h) (auto split: prod.splits option.splits dest!: on_world_guard)

lemma findESP_backup: "findESP env h = (r, h1) \<Longrightarrow> ho_backup h1 = ho_backup h"
  by (auto simp: findESP_def Let_def on_world_def write_file_def split: prod.splits option.splits if_splits write_result.splits)

lemma engine_staged:
  assumes "stage_engine env h = (Inr x, h1)"
  shows "ho_backup h1 = ho_backup h \<and> (\<exists>data. ho_engine h1 = Found data \<and> x = he_hash env data)"
  using assms by (auto simp: stage_engine_def Let_def write_file_def on_world_def split: prod.splits sum.splits
      option.splits if_splits write_result.splits file_read.splits)

lemma identity_recorded:
  assumes "record_identity env cfg drive part efi h = (None, h1)"
  shows "ho_backup h1 = ho_backup h \<and> ho_engine h1 = ho_engine h \<and> \<not> ho_complete h1 \<and>
    (\<exists>p. ho_identity h1 = Found p \<and> validateInstallationIdentity p = None \<and> id_image p = ic_image cfg \<and> id_esp p = canonicalGUID part)"
  using assms
  by (auto simp: record_identity_def Let_def write_file_def remove_file_def on_world_def newInstallationIdentity_def
      split: prod.splits sum.splits option.splits write_result.splits)

lemma prepare_guarded:
  assumes "prepare_guard env cfg efi esp h = (Inr (staged, armed), h1)" "ho_backup h"
  shows "guarded env armed h1 \<and> as_hashes armed = staged \<and> as_image armed = ic_image cfg \<and>
    (\<exists>h0. registerRecoveryTasks (task_calls env) (install_exe env) h0 = (None, h1))"
proof -
  obtain files h2 h3 exe h4 part h5 h6 now h7 where run:
    "on_world (he_owned env esp) h = (Inr files, h2)" "stage_hashes env esp files [] h2 = (Inr staged, h3)"
    "stage_engine env h3 = (Inr exe, h4)" "findESPPartitionGuid env h4 = (part, h5)"
    "record_identity env cfg (if ic_drive cfg = [] then ''C'' else ic_drive cfg) part efi h5 = (None, h6)"
    "on_world (he_now env) h6 = (now, h7)" "guard_tasks env h7 = (None, h1)"
    "armed = \<lparr>as_guid = [], as_partition = part, as_files = sort files, as_hashes = staged, as_power = prior_power h4,
       as_drive = (if ic_drive cfg = [] then ''C'' else ic_drive cfg), as_image = ic_image cfg,
       as_bootloader = ic_bootloader cfg, as_timestamp = now, as_exe_hash = exe\<rparr>"
    using assms(1) unfolding prepare_guard_def Let_def
    by (auto split: prod.splits sum.splits option.splits)
  have "guard_fields h5 = guard_fields h4"
    using run(4) by (auto simp: findESPPartitionGuid_def split: prod.splits dest: on_world_guard)
  with on_world_guard [OF run(1)] stage_hashes_guard [OF run(2)] engine_staged [OF run(3)] identity_recorded [OF run(5)]
    on_world_guard [OF run(6)] guard_tasks_success [OF run(7)] assms(2) run(8)
  show ?thesis by (auto simp: guard_fields_def guarded_def)
qed

text \<open>
  C7: the guards come before the first change of the boot configuration. Whatever the calls answer, a
  configuration either fails without having run any bcdedit command but the export (with
  every other command answered differently it would end the same), or it reaches the transaction
  in a state where the backup and a valid identity of this image and this ESP exist, no old
  completion counts, the engine's recorded digest is that of the staged copy, and the recovery tasks
  have just been registered without an error; the result is then the transaction's.
\<close>

theorem configure_guards_first:
  "(case configureBCD env cfg h of (r, h1) \<Rightarrow> r \<noteq> None \<and>
      (\<forall>b. configureBCD (env\<lparr>he_bcdedit := b(export_command env := he_bcdedit env (export_command env))\<rparr>) cfg h = (r, h1))) \<or>
   (\<exists>esp armed efi h2 h3. registerRecoveryTasks (task_calls env) (install_exe env) h2 = (None, h3) \<and>
      guarded env armed h3 \<and> as_image armed = ic_image cfg \<and>
      configureBCD env cfg h = (case beginBootChainTxn (windowsBootChainEnv env esp armed) efi (as_hashes armed) h3 of
        ((e, txn), h4) \<Rightarrow> (map_option TxnFailed e, releaseESPLetter env h4)))"
proof (cases "\<exists>efi h1 esp h2 staged armed h3. chosen_loader (he_source env) (ic_bootloader cfg) = Inr efi \<and>
    backupBCD env h = (None, h1) \<and> findESP env h1 = (Inr esp, h2) \<and> prepare_guard env cfg efi esp h2 = (Inr (staged, armed), h3)")
  case True
  then obtain efi h1 esp h2 staged armed h3 where run: "chosen_loader (he_source env) (ic_bootloader cfg) = Inr efi"
    "backupBCD env h = (None, h1)" "findESP env h1 = (Inr esp, h2)" "prepare_guard env cfg efi esp h2 = (Inr (staged, armed), h3)"
    by blast
  have "ho_backup h1"
    using run(2) by (auto simp: backupBCD_def split: if_splits prod.splits option.splits write_result.splits)
  with findESP_backup [OF run(3)] have "ho_backup h2" by simp
  note g = prepare_guarded [OF run(4) this]
  moreover have "configureBCD env cfg h = (case beginBootChainTxn (windowsBootChainEnv env esp armed) efi (as_hashes armed) h3 of
        ((e, txn), h4) \<Rightarrow> (map_option TxnFailed e, releaseESPLetter env h4))"
    using run g by (simp add: configureBCD_def)
  ultimately show ?thesis by blast
next
  case False
  have "configureBCD (other_bcdedit env b) cfg h = configureBCD env cfg h \<and> fst (configureBCD env cfg h) \<noteq> None" for b
  proof (cases "chosen_loader (he_source env) (ic_bootloader cfg)")
    case (Inr efi)
    obtain q h1 where q: "backupBCD env h = (q, h1)" by fastforce
    obtain r h2 where r: "findESP env h1 = (r, h2)" by fastforce
    obtain x h3 where x: "prepare_guard env cfg efi (projr r) h2 = (x, h3)" by fastforce
    from False Inr q r x have "q \<noteq> None \<or> isl r \<or> isl x" by (cases q; cases r; cases x) auto
    with Inr q r x show ?thesis by (cases q; cases r; cases x) (auto simp: configureBCD_def)
  qed (simp add: configureBCD_def)
  then show ?thesis unfolding other_bcdedit_def by (auto split: prod.split)
qed

end
