(* ===== verification/Boot_Wiring_Sample.thy ===== *)
theory Boot_Wiring_Sample
  imports Boot_Wiring_Props Simulated_Machine Boot_Repair_Props Esp_Staging_Props
begin

text \<open>
  A concrete PC for the witnesses of the wiring: the simulated boot store, a list of scheduled
  tasks, and a disk whose writes succeed. A removal of a task fails while \<open>pc_locked\<close>.
\<close>

record pc =
  pc_machine :: machine
  pc_tasks :: "recovery_task list"
  pc_locked :: bool

definition pc_scheduler :: "pc task_env" where
  "pc_scheduler =
     \<lparr>tk_query = (\<lambda>n p. (Inr (List.find (task_named n) (pc_tasks p)), p)),
      tk_register = (\<lambda>t p. if list_ex (task_named (rt_name t)) (pc_tasks p) then (Some ''exists'', p)
         else (None, p\<lparr>pc_tasks := t # pc_tasks p\<rparr>)),
      tk_remove = (\<lambda>n p. if pc_locked p then (Some ''denied'', p)
         else (None, p\<lparr>pc_tasks := filter (\<lambda>t. \<not> task_named n t) (pc_tasks p)\<rparr>))\<rparr>"

definition pc_env :: "pc host_env" where
  "pc_env =
     \<lparr>he_bcdedit = (\<lambda>c p. case machine_bcdedit c (pc_machine p) of (r, m) \<Rightarrow> (r, p\<lparr>pc_machine := m\<rparr>)),
      he_tasks = pc_scheduler, he_write = (\<lambda>f p. (Written, p)), he_remove = (\<lambda>f p. (None, p)),
      he_find_esp = (\<lambda>p. ((''S'', None), p)), he_efi_there = (\<lambda>l p. (True, p)), he_mountvol = (\<lambda>l p. p),
      he_hash_esp = (\<lambda>d f p. (Some ''ABC1'', p)), he_owned = (\<lambda>d p. (Inr [loader_rel], p)),
      he_partition = (\<lambda>p. (([], None), p)), he_host_uuid = (\<lambda>d p. (Inr [], p)), he_random = (\<lambda>p. (None, p)),
      he_now = (\<lambda>p. (''2025-01-01T00:00:00Z'', p)), he_sleep = (\<lambda>n p. p), he_executable = (\<lambda>p. (Inr [], p)),
      he_read_exe = (\<lambda>p. (Inr [], p)), he_hash = (\<lambda>d. d), he_verified = (\<lambda>p. ((zero_lifecycle, False), p)),
      he_evidence = (\<lambda>d p. (None, p)), he_logs = (\<lambda>p. ([], p)), he_setup_esp = (\<lambda>c p. (None, p)),
      he_observe = (\<lambda>p. (sample_observation, p)), he_reboot = (\<lambda>p. (None, p)), he_source = sample_source, he_dir = ''C:'', he_product = ''wootc''\<rparr>"

lemma pc_scheduled: "documented_scheduler pc_scheduler pc_tasks"
  by (auto simp: documented_scheduler_def pc_scheduler_def list_ex_iff list_all_iff task_named_def)

lemma pc_firmware:
  "documented_firmware (rollback_env pc_env) (\<lambda>h. machine_ok (pc_machine (ho_world h))) (\<lambda>h. m_store (pc_machine (ho_world h)))"
proof -
  note d = documented_firmwareD [OF machine_documented]
  have run: "bcdedit (rollback_env pc_env) c h = (case machine_bcdedit c (pc_machine (ho_world h)) of (r, m) \<Rightarrow>
      (r, h\<lparr>ho_world := (ho_world h)\<lparr>pc_machine := m\<rparr>\<rparr>))" for c and h :: "pc host"
    by (simp add: rollback_env_def run_bcd_def on_world_def pc_env_def split: prod.split)
  have save: "saveTxn (rollback_env pc_env) t h = (None, h\<lparr>ho_txn := Found t\<rparr>)" for t and h :: "pc host"
    by (simp add: rollback_env_def writeBootTxn_def on_world_def pc_env_def)
  have now: "clockNow (rollback_env pc_env) h = (''2025-01-01T00:00:00Z'', h)" for h :: "pc host"
    by (simp add: rollback_env_def on_world_def pc_env_def)
  have m: "bcdedit machine_env = machine_bcdedit" by (simp add: machine_env_def)
  show ?thesis
    unfolding documented_firmware_def
  proof (intro conjI allI impI)
    fix h :: "pc host"
    assume ok: "machine_ok (pc_machine (ho_world h))"
    show "well_formed_store (m_store (pc_machine (ho_world h)))" using d(1) [OF ok] .
    from d(2) [OF ok] show "\<exists>out s1. bcdedit (rollback_env pc_env) enum_command h = ((out, None), s1) \<and>
        machine_ok (pc_machine (ho_world s1)) \<and> m_store (pc_machine (ho_world s1)) = m_store (pc_machine (ho_world h)) \<and>
        parseBCDEnum out = m_store (pc_machine (ho_world h))"
      by (auto simp: run m)
  next
    fix h :: "pc host" and c
    assume ok: "machine_ok (pc_machine (ho_world h))" and c: "removal_of validBCDGUID c \<or> c = clear_sequence"
    from d(3) [OF ok c] show "machine_ok (pc_machine (ho_world (snd (bcdedit (rollback_env pc_env) c h))))"
      "m_store (pc_machine (ho_world (snd (bcdedit (rollback_env pc_env) c h)))) = effect_of c (m_store (pc_machine (ho_world h)))"
      by (auto simp: run m split: prod.splits)
  qed (simp_all add: save now)
qed

lemma pc_documented:
  "documented_machine pc_env (\<lambda>p. machine_ok (pc_machine p)) (\<lambda>p. m_store (pc_machine p)) pc_tasks"
  unfolding documented_machine_def
proof (intro conjI)
  show "env_keeps (\<lambda>h. pc_tasks (ho_world h)) (rollback_env pc_env)"
    by (auto simp: env_keeps_def rollback_env_def run_bcd_def on_world_def run_world_def writeBootTxn_def pc_env_def split: prod.splits)
  show "tasks_keep (\<lambda>p. m_store (pc_machine p)) (he_tasks pc_env)"
    by (simp add: tasks_keep_def pc_env_def pc_scheduler_def)
  show "documented_firmware (rollback_env pc_env) (\<lambda>h. machine_ok (pc_machine (ho_world h))) (\<lambda>h. m_store (pc_machine (ho_world h)))"
    by (rule pc_firmware)
qed (simp_all add: pc_scheduled pc_env_def)

text \<open>A PC that stopped while the entry was there, with both tasks and a task of someone else.\<close>

definition other_task :: recovery_task where
  "other_task = \<lparr>rt_name = ''backup'', rt_executable = ''b.exe'', rt_arguments = [], rt_principal = ''SYSTEM'', rt_level = ''Highest'',
     rt_trigger = ''MSFT_TaskBootTrigger'', rt_actions = 1, rt_triggers = 1\<rparr>"

definition stopped_pc :: pc where
  "stopped_pc = \<lparr>pc_machine = armed_machine, pc_tasks = other_task # recoveryTaskSpecs (install_exe pc_env), pc_locked = True\<rparr>"

definition stopped_host :: "pc host" where
  "stopped_host = \<lparr>ho_txn = Found (txn_in txnPrepared), ho_armed = Missing, ho_guid = Found wootc_id, ho_identity = Missing,
     ho_complete = False, ho_verdict = None, ho_state = Missing, ho_started = False, ho_power = Missing, ho_letter = Missing,
     ho_backup = True, ho_engine = Missing, ho_world = stopped_pc\<rparr>"

lemma stopped_unique: "unique_names (pc_tasks stopped_pc)"
  by code_simp



end
