(* ===== verification/Runtime_Bundle.thy ===== *)
theory Runtime_Bundle
  imports Target_Image
begin

text \<open>
  The authenticated artifact manifest (\<open>app/internal/artifactauth/manifest.go\<close>) and the
  installation of the runtime of the virtual machine from its archive
  (\<open>app/internal/runtimebundle/install.go\<close>). Ed25519 and SHA-256 (in lower-case digits), the
  directory of the zip file, the contents read from it, and the results of file calls are fields of
  an environment.
\<close>

subsection \<open>The manifest\<close>

datatype bundle_error =
    InvalidHash | InvalidKey | InvalidSignature | InvalidManifestSize | InvalidLine int | InvalidEntry int
  | DuplicateManifestEntry string | EmptyManifest
  | ArchiveBounds | ArchiveChanged | ArchiveChecksum
  | FileCount | NotUnderQemu string | UnsafePath string | ConflictingCase string | DuplicateEntry string
  | FileBounds string | ExpandedBounds | AlsoDirectory string
  | MetadataMissing | MetadataBounds | ManifestDiffers | MissingOrReserved | RequiredMissing string
  | RuntimeExists | SizeMismatch string | ChecksumMismatch string | AlreadyThere string
  | SystemError string

text \<open>\<open>hex.DecodeString\<close>.\<close>

fun hex_decode :: "string \<Rightarrow> string option" where
  "hex_decode [] = Some []"
| "hex_decode [a] = None"
| "hex_decode (a # b # r) =
     (if is_hex a \<and> is_hex b then map_option (\<lambda>s. char_of (16 * int (hex_val a) + int (hex_val b)) # s) (hex_decode r) else None)"

definition MaxManifestSize :: int where
  "MaxManifestSize = 1048576"

definition sign_domain :: string where
  "sign_domain = ''wootc boot-artifact manifest v1'' @ [CHR 0x00]"

definition bad_artifact_name :: "string \<Rightarrow> bool" where
  "bad_artifact_name name \<longleftrightarrow>
     name = [] \<or> name = ''.'' \<or> name = ''..'' \<or> contains_any name [backslash, CHR '':'', CHR 0x00] \<or>
     has_prefix name ''/'' \<or> path_clean name \<noteq> name \<or> has_prefix name ''../''"

text \<open>One line, with its number, into the hashes so far.\<close>

definition manifest_line :: "int \<Rightarrow> string \<Rightarrow> string smap \<Rightarrow> bundle_error + string smap" where
  "manifest_line i line hashes =
     (if trim_space line = [] then Inr hashes
      else (case str_fields line of
              [hash, star_name] \<Rightarrow>
                (let name = trim_prefix star_name ''*'' in
                 if (case hex_decode hash of None \<Rightarrow> True | Some b \<Rightarrow> int (length b) \<noteq> 32) \<or> bad_artifact_name name
                 then Inl (InvalidEntry i)
                 else if map_of hashes name \<noteq> None then Inl (DuplicateManifestEntry name)
                 else Inr (AList.update name (to_lower hash) hashes))
            | _ \<Rightarrow> Inl (InvalidLine i)))"

fun manifest_lines :: "int \<Rightarrow> string list \<Rightarrow> string smap \<Rightarrow> bundle_error + string smap" where
  "manifest_lines i [] hashes = Inr hashes"
| "manifest_lines i (l # ls) hashes =
     (case manifest_line i l hashes of Inl e \<Rightarrow> Inl e | Inr s1 \<Rightarrow> manifest_lines (i + 1) ls s1)"

definition Parse :: "string \<Rightarrow> bundle_error + string smap" where
  "Parse data =
     (if data = [] \<or> MaxManifestSize < int (length data) then Inl InvalidManifestSize
      else (case manifest_lines 1 (split_on (CHR 10) data) [] of
              Inl e \<Rightarrow> Inl e
            | Inr hashes \<Rightarrow> if hashes = [] then Inl EmptyManifest else Inr hashes))"

text \<open>\<open>vouches key message signature\<close> stands for \<open>ed25519.Verify\<close>.\<close>

definition Verify :: "(string \<Rightarrow> string \<Rightarrow> string \<Rightarrow> bool) \<Rightarrow> string \<Rightarrow> string \<Rightarrow> string \<Rightarrow> bundle_error + string smap" where
  "Verify vouches publicKey data signature =
     (case hex_decode publicKey of
        None \<Rightarrow> Inl InvalidKey
      | Some key \<Rightarrow>
          if int (length key) \<noteq> 32 then Inl InvalidKey
          else if MaxManifestSize < int (length data) \<or> \<not> vouches key (sign_domain @ data) signature
          then Inl InvalidSignature
          else Parse data)"

subsection \<open>The directory of the archive\<close>

record zip_entry =
  ze_name :: string
  ze_regular :: bool
  ze_size :: int

definition MaxArchiveBytes :: int where "MaxArchiveBytes = 268435456"
definition MaxExpandedBytes :: int where "MaxExpandedBytes = 536870912"
definition MaxFileBytes :: int where "MaxFileBytes = 134217728"
definition MaxFiles :: int where "MaxFiles = 8192"

definition reserved_stems :: "string list" where
  "reserved_stems = [''con'', ''prn'', ''aux'', ''nul'', ''clock$'', ''conin$'', ''conout$'']"

text \<open>What comes before the first dot, in lower case where the code takes upper case.\<close>

definition stem_of :: "string \<Rightarrow> string" where
  "stem_of part = to_lower (takeWhile (\<lambda>c. c \<noteq> CHR ''.'') part)"

definition device_stem :: "string \<Rightarrow> bool" where
  "device_stem s \<longleftrightarrow>
     length s = 4 \<and> (has_prefix s ''com'' \<or> has_prefix s ''lpt'') \<and> s ! 3 \<in> set ''123456789''"

definition plain_char :: "char \<Rightarrow> bool" where
  "plain_char c \<longleftrightarrow> 32 < code_of c \<and> code_of c \<le> 126 \<and> c \<notin> {backslash, CHR '':'', CHR ''<'', CHR ''>'', CHR 0x22, CHR ''|'', CHR ''?'', CHR ''*''}"

definition validComponent :: "string \<Rightarrow> bool" where
  "validComponent part \<longleftrightarrow>
     \<not> (part = [] \<or> part = ''.'' \<or> part = ''..'' \<or> trim_right_set part ''. '' \<noteq> part) \<and>
     list_all plain_char part \<and> stem_of part \<notin> set reserved_stems \<and> \<not> device_stem (stem_of part)"

text \<open>The components of a name: each prefix keeps one spelling.\<close>

fun enter_parts :: "string \<Rightarrow> string list \<Rightarrow> string list \<Rightarrow> string smap \<Rightarrow> bundle_error + string smap" where
  "enter_parts name before [] spellings = Inr spellings"
| "enter_parts name before (part # parts) spellings =
     (if \<not> validComponent part then Inl (UnsafePath name)
      else (let prefix = join_with ''/'' (before @ [part]); folded = to_lower prefix in
            case map_of spellings folded of
              Some prior \<Rightarrow>
                if prior \<noteq> prefix then Inl (ConflictingCase name)
                else enter_parts name (before @ [part]) parts (AList.update folded prefix spellings)
            | None \<Rightarrow> enter_parts name (before @ [part]) parts (AList.update folded prefix spellings)))"

text \<open>
  The files so far, the spellings, and the sum of the sizes, which does not wrap: there are at
  most \<open>MaxFiles\<close> sizes of at most \<open>MaxFileBytes\<close>.
\<close>

type_synonym inspected = "zip_entry smap \<times> string smap \<times> int"

definition inspect_entry :: "zip_entry \<Rightarrow> inspected \<Rightarrow> bundle_error + inspected" where
  "inspect_entry file st =
     (case st of (files, spellings, expanded) \<Rightarrow>
        if \<not> has_prefix (ze_name file) ''qemu/'' \<or> \<not> ze_regular file then Inl (NotUnderQemu (ze_name file))
        else (let name = trim_prefix (ze_name file) ''qemu/'' in
              case enter_parts name [] (split_on slash name) spellings of
                Inl e \<Rightarrow> Inl e
              | Inr spellings1 \<Rightarrow>
                  if map_of files name \<noteq> None then Inl (DuplicateEntry name)
                  else if MaxFileBytes < ze_size file then Inl (FileBounds name)
                  else if MaxExpandedBytes < expanded + ze_size file then Inl ExpandedBounds
                  else Inr (files @ [(name, file)], spellings1, expanded + ze_size file)))"

fun inspect_entries :: "zip_entry list \<Rightarrow> inspected \<Rightarrow> bundle_error + inspected" where
  "inspect_entries [] st = Inr st"
| "inspect_entries (e # es) st = (case inspect_entry e st of Inl x \<Rightarrow> Inl x | Inr st1 \<Rightarrow> inspect_entries es st1)"

definition parent_names :: "string \<Rightarrow> string list" where
  "parent_names name =
     (let parts = split_on slash name in map (\<lambda>i. join_with ''/'' (take i parts)) [1..<length parts])"

definition inspect :: "zip_entry list \<Rightarrow> bundle_error + zip_entry smap" where
  "inspect entries =
     (if int (length entries) < 3 \<or> MaxFiles < int (length entries) then Inl FileCount
      else (case inspect_entries entries ([], [], 0) of
              Inl e \<Rightarrow> Inl e
            | Inr (files, _) \<Rightarrow>
                (case List.find (\<lambda>n. list_ex (\<lambda>p. map_of files p \<noteq> None) (parent_names n)) (map fst files) of
                   Some n \<Rightarrow> Inl (AlsoDirectory n)
                 | None \<Rightarrow> Inr files)))"

subsection \<open>Installing\<close>

datatype bundle_call =
    MakeStage | MakeDirs string | CreateEntry string | SyncEntry string | CloseEntry string
  | LookForRuntime | PublishStage

text \<open>
  \<open>be_stat\<close> opens and stats the archive, \<open>be_copy\<close> is what hashing it read, \<open>be_zip\<close> its directory.
  \<open>be_read\<close> reads an entry from its start, up to the end or an error; it may answer differently
  each time, and with an error when the context was cancelled. \<open>be_write\<close> answers \<open>Some (k, e)\<close> for
  an error \<open>e\<close> after \<open>k\<close> bytes. \<open>be_remove\<close> tells which files of the stage a failed \<open>RemoveAll\<close>
  leaves, \<open>be_order\<close> in which order the code ranges over the files.
\<close>

record 'w bundle_env =
  be_stat :: "'w \<Rightarrow> (string + bool \<times> int) \<times> 'w"
  be_copy :: "'w \<Rightarrow> (string + string) \<times> 'w"
  be_zip :: "'w \<Rightarrow> (string + zip_entry list) \<times> 'w"
  be_read :: "string \<Rightarrow> 'w \<Rightarrow> (string + string \<times> string option) \<times> 'w"
  be_call :: "bundle_call \<Rightarrow> 'w \<Rightarrow> string option \<times> 'w"
  be_write :: "string \<Rightarrow> 'w \<Rightarrow> (nat \<times> string) option \<times> 'w"
  be_cancelled :: "'w \<Rightarrow> string option \<times> 'w"
  be_remove :: "'w \<Rightarrow> (string \<Rightarrow> bool) option \<times> 'w"
  be_hash :: "string \<Rightarrow> string"
  be_signed :: "string \<Rightarrow> string \<Rightarrow> string \<Rightarrow> bool"
  be_order :: "string list \<Rightarrow> string list"

text \<open>The directory \<open>qemu\<close> below the parent (\<open>None\<close> when there is none), and the private stage.\<close>

record 'w runtime_dir =
  rd_qemu :: "string smap option"
  rd_stage :: "string smap option"
  rd_world :: 'w

type_synonym ('w, 'a) bundle_step = "'w runtime_dir \<Rightarrow> (bundle_error + 'a) \<times> 'w runtime_dir"

definition and_then :: "('w, 'a) bundle_step \<Rightarrow> ('a \<Rightarrow> ('w, 'b) bundle_step) \<Rightarrow> ('w, 'b) bundle_step" where
  "and_then m f s = (case m s of (Inl e, s1) \<Rightarrow> (Inl e, s1) | (Inr x, s1) \<Rightarrow> f x s1)"

definition yield_value :: "'a \<Rightarrow> ('w, 'a) bundle_step" where
  "yield_value x s = (Inr x, s)"

definition stop_with :: "bundle_error \<Rightarrow> ('w, 'a) bundle_step" where
  "stop_with e s = (Inl e, s)"

definition ask_world :: "('w \<Rightarrow> 'a \<times> 'w) \<Rightarrow> ('w, 'a) bundle_step" where
  "ask_world f s = (case f (rd_world s) of (x, w) \<Rightarrow> (Inr x, s\<lparr>rd_world := w\<rparr>))"

definition check_ok :: "bundle_error + 'a \<Rightarrow> ('w, 'a) bundle_step" where
  "check_ok r s = (r, s)"

definition call_ok :: "('w \<Rightarrow> string option \<times> 'w) \<Rightarrow> ('w, unit) bundle_step" where
  "call_ok f = and_then (ask_world f) (\<lambda>r. case r of None \<Rightarrow> yield_value () | Some e \<Rightarrow> stop_with (SystemError e))"

definition read_ok :: "('w \<Rightarrow> (string + 'a) \<times> 'w) \<Rightarrow> ('w, 'a) bundle_step" where
  "read_ok f = and_then (ask_world f) (\<lambda>r. case r of Inl e \<Rightarrow> stop_with (SystemError e) | Inr x \<Rightarrow> yield_value x)"

text \<open>\<open>io.LimitReader\<close> ends the reading after \<open>limit + 1\<close> bytes; an error behind them is not seen.\<close>

definition limited :: "int \<Rightarrow> string \<times> string option \<Rightarrow> string \<times> string option" where
  "limited limit r =
     (case r of (data, err) \<Rightarrow> if int (length data) \<le> limit then (data, err) else (take (nat (limit + 1)) data, None))"

definition readFile :: "'w bundle_env \<Rightarrow> zip_entry smap \<Rightarrow> string \<Rightarrow> int \<Rightarrow> ('w, string) bundle_step" where
  "readFile env files name limit =
     (case map_of files name of
        None \<Rightarrow> stop_with MetadataMissing
      | Some file \<Rightarrow>
          if limit < ze_size file then stop_with MetadataMissing
          else and_then (read_ok (be_read env name)) (\<lambda>r.
                 case limited limit r of
                   (data, Some e) \<Rightarrow> stop_with (SystemError e)
                 | (data, None) \<Rightarrow> if limit < int (length data) then stop_with MetadataBounds else yield_value data))"

definition absent :: "'w bundle_env \<Rightarrow> ('w, unit) bundle_step" where
  "absent env =
     and_then (call_ok (be_call env LookForRuntime)) (\<lambda>_ s.
       if rd_qemu s = None then yield_value () s else stop_with RuntimeExists s)"

definition put_entry :: "string \<Rightarrow> string \<Rightarrow> ('w, unit) bundle_step" where
  "put_entry name content s = (Inr (), s\<lparr>rd_stage := map_option (AList.update name content) (rd_stage s)\<rparr>)"

text \<open>\<open>O_EXCL\<close> on a volume that does not tell upper from lower case.\<close>

definition create_entry :: "'w bundle_env \<Rightarrow> string \<Rightarrow> ('w, unit) bundle_step" where
  "create_entry env name =
     and_then (call_ok (be_call env (CreateEntry name))) (\<lambda>_ s.
       if list_ex (\<lambda>p. to_lower (fst p) = to_lower name) (case rd_stage s of None \<Rightarrow> [] | Some t \<Rightarrow> t)
       then stop_with (AlreadyThere name) s else put_entry name [] s)"

definition extract_entry :: "'w bundle_env \<Rightarrow> string \<Rightarrow> zip_entry \<Rightarrow> string \<Rightarrow> ('w, unit) bundle_step" where
  "extract_entry env name file checksum =
     and_then (read_ok (be_read env name)) (\<lambda>r.
     and_then (create_entry env name) (\<lambda>_.
       (case limited MaxFileBytes r of (data, err) \<Rightarrow>
          and_then (ask_world (be_write env name)) (\<lambda>w.
            case w of
              Some (k, e) \<Rightarrow> and_then (put_entry name (take k data)) (\<lambda>_. stop_with (SystemError e))
            | None \<Rightarrow>
                and_then (put_entry name data) (\<lambda>_.
                  case err of
                    Some e \<Rightarrow> stop_with (SystemError e)
                  | None \<Rightarrow>
                      if MaxFileBytes < int (length data) \<or> int (length data) \<noteq> ze_size file
                      then stop_with (SizeMismatch (ze_name file))
                      else if checksum \<noteq> [] \<and> be_hash env data \<noteq> checksum
                      then stop_with (ChecksumMismatch (ze_name file))
                      else and_then (call_ok (be_call env (SyncEntry name))) (\<lambda>_.
                             call_ok (be_call env (CloseEntry name))))))))"

fun extract_all :: "'w bundle_env \<Rightarrow> zip_entry smap \<Rightarrow> string smap \<Rightarrow> string list \<Rightarrow> ('w, unit) bundle_step" where
  "extract_all env files hashes [] = yield_value ()"
| "extract_all env files hashes (n # ns) =
     and_then (call_ok (be_cancelled env)) (\<lambda>_.
     and_then (call_ok (be_call env (MakeDirs n))) (\<lambda>_.
       (case map_of files n of
          None \<Rightarrow> extract_all env files hashes ns
        | Some file \<Rightarrow>
            and_then (extract_entry env n file (lookup_or [] hashes n)) (\<lambda>_. extract_all env files hashes ns))))"

definition required_files :: "string list" where
  "required_files =
     [''qemu-system-x86_64.exe'', ''share/edk2-x86_64-code.fd'', ''share/edk2-i386-vars.fd'', ''builder-vmlinuz'',
      ''builder-initramfs.img'', ''builder-protocol.json'']"

definition sums_name :: string where "sums_name = ''SHA256SUMS''"
definition sig_name :: string where "sig_name = ''SHA256SUMS.sig''"

text \<open>The archive and its directory, checked against the hash of the outer manifest.\<close>

definition open_archive :: "'w bundle_env \<Rightarrow> string \<Rightarrow> ('w, zip_entry smap) bundle_step" where
  "open_archive env expectedHash =
     (if (case hex_decode expectedHash of None \<Rightarrow> True | Some b \<Rightarrow> int (length b) \<noteq> 32) then stop_with InvalidHash
      else and_then (read_ok (be_stat env)) (\<lambda>(regular, n).
             if \<not> regular \<or> n \<le> 0 \<or> MaxArchiveBytes < n then stop_with ArchiveBounds
             else and_then (read_ok (be_copy env)) (\<lambda>data.
                    if int (length (take (nat (MaxArchiveBytes + 1)) data)) \<noteq> n then stop_with ArchiveChanged
                    else if \<not> equal_fold (be_hash env data) expectedHash then stop_with ArchiveChecksum
                    else and_then (read_ok (be_zip env)) (\<lambda>entries. check_ok (inspect entries)))))"

text \<open>The signed hashes, which name every other file of the archive.\<close>

definition signed_sums ::
  "'w bundle_env \<Rightarrow> string \<Rightarrow> zip_entry smap \<Rightarrow> ('w, string smap) bundle_step" where
  "signed_sums env publicKey files =
     and_then (readFile env files sums_name MaxManifestSize) (\<lambda>manifest.
     and_then (readFile env files sig_name 64) (\<lambda>signature.
     and_then (check_ok (Verify (be_signed env) publicKey manifest signature)) (\<lambda>hashes.
       if length hashes + 2 \<noteq> length files then stop_with ManifestDiffers
       else if list_ex (\<lambda>p. fst p = sums_name \<or> fst p = sig_name \<or> map_of files (fst p) = None) hashes
       then stop_with MissingOrReserved
       else (case List.find (\<lambda>n. map_of files n = None) required_files of
               Some n \<Rightarrow> stop_with (RequiredMissing n)
             | None \<Rightarrow>
                 yield_value (AList.update sig_name (be_hash env signature)
                   (AList.update sums_name (be_hash env manifest) hashes))))))"

definition publish :: "'w bundle_env \<Rightarrow> ('w, unit) bundle_step" where
  "publish env =
     and_then (call_ok (be_call env PublishStage)) (\<lambda>_ s.
       (Inr (), s\<lparr>rd_qemu := rd_stage s, rd_stage := None\<rparr>))"

text \<open>The deferred \<open>RemoveAll\<close> of the stage; its error is ignored.\<close>

definition remove_stage :: "'w bundle_env \<Rightarrow> 'w runtime_dir \<Rightarrow> 'w runtime_dir" where
  "remove_stage env s =
     (case be_remove env (rd_world s) of
        (None, w) \<Rightarrow> s\<lparr>rd_stage := None, rd_world := w\<rparr>
      | (Some keep, w) \<Rightarrow>
          s\<lparr>rd_stage := map_option (filter (\<lambda>p. keep (fst p))) (rd_stage s), rd_world := w\<rparr>)"

definition fill_and_publish ::
  "'w bundle_env \<Rightarrow> zip_entry smap \<Rightarrow> string smap \<Rightarrow> ('w, unit) bundle_step" where
  "fill_and_publish env files hashes =
     and_then (extract_all env files hashes (be_order env (map fst files))) (\<lambda>_.
     and_then (call_ok (be_cancelled env)) (\<lambda>_.
     and_then (absent env) (\<lambda>_. publish env)))"

definition Install :: "'w bundle_env \<Rightarrow> string \<Rightarrow> string \<Rightarrow> ('w, unit) bundle_step" where
  "Install env expectedHash publicKey =
     and_then (open_archive env expectedHash) (\<lambda>files.
     and_then (signed_sums env publicKey files) (\<lambda>hashes.
     and_then (absent env) (\<lambda>_.
     and_then (call_ok (be_call env MakeStage)) (\<lambda>_ s.
       (case fill_and_publish env files hashes (s\<lparr>rd_stage := Some []\<rparr>) of (r, s1) \<Rightarrow> (r, remove_stage env s1))))))"

end
