(* ===== verification/Runtime_Bundle_Props.thy ===== *)
theory Runtime_Bundle_Props
  imports Runtime_Bundle
begin

text \<open>
  What the archive of the runtime may name, and what an installation leaves: the directory of the
  runtime as it was, or a complete one whose every file the signed manifest vouches for.
\<close>

subsection \<open>Names\<close>

text \<open>The prefixes of a list of components, as paths.\<close>

definition prefix_paths :: "string list \<Rightarrow> string list \<Rightarrow> string set" where
  "prefix_paths before parts = (\<lambda>k. join_with ''/'' (before @ take k parts)) ` {1..length parts}"

lemma prefix_paths_Cons:
  "prefix_paths before (p # ps) = insert (join_with ''/'' (before @ [p])) (prefix_paths (before @ [p]) ps)"
proof -
  have "{1..length (p # ps)} = insert 1 (Suc ` {1..length ps})"
    by (auto simp: image_iff Suc_le_eq)
  then have "prefix_paths before (p # ps) =
      insert (join_with ''/'' (before @ take 1 (p # ps))) ((\<lambda>k. join_with ''/'' (before @ take k (p # ps))) ` Suc ` {1..length ps})"
    unfolding prefix_paths_def by (simp only: image_insert)
  then show ?thesis by (simp add: prefix_paths_def image_image del: image_Suc_atLeastAtMost)
qed

text \<open>Every prefix is recorded under its folded spelling.\<close>

definition spelled :: "string smap \<Rightarrow> string \<Rightarrow> bool" where
  "spelled sp p \<longleftrightarrow> map_of sp (to_lower p) = Some p"

lemma enter_parts_ok:
  assumes "enter_parts name before parts sp = Inr sp1"
  shows "list_all validComponent parts" "\<And>p. p \<in> prefix_paths before parts \<Longrightarrow> spelled sp1 p"
    "\<And>p. spelled sp p \<Longrightarrow> spelled sp1 p"
proof -
  have "list_all validComponent parts \<and> (\<forall>p\<in>prefix_paths before parts. spelled sp1 p) \<and> (\<forall>p. spelled sp p \<longrightarrow> spelled sp1 p)"
    using assms
  proof (induction parts arbitrary: before sp)
    case (Cons part parts)
    let ?p = "join_with ''/'' (before @ [part])"
    from Cons.prems have valid: "validComponent part" by (auto split: if_splits)
    have "(map_of sp (to_lower ?p) = None \<or> map_of sp (to_lower ?p) = Some ?p) \<and>
        enter_parts name (before @ [part]) parts (AList.update (to_lower ?p) ?p sp) = Inr sp1"
      using Cons.prems valid by (cases "map_of sp (to_lower ?p)") (simp_all add: Let_def split: if_splits)
    then have free: "map_of sp (to_lower ?p) = None \<or> map_of sp (to_lower ?p) = Some ?p"
      and rest: "enter_parts name (before @ [part]) parts (AList.update (to_lower ?p) ?p sp) = Inr sp1" by blast+
    have up: "spelled (AList.update (to_lower ?p) ?p sp) q" if "q = ?p \<or> spelled sp q" for q
    proof (cases "to_lower q = to_lower ?p")
      case True
      with that free have "q = ?p" unfolding spelled_def by (metis option.discI option.inject)
      then show ?thesis by (simp add: spelled_def update_conv')
    next
      case False
      with that have "spelled sp q" by blast
      with False show ?thesis by (simp add: spelled_def update_conv')
    qed
    from Cons.IH [OF rest] valid up show ?case unfolding prefix_paths_Cons by (simp add: list.pred_inject)
  qed (simp add: prefix_paths_def)
  then show "list_all validComponent parts" "\<And>p. p \<in> prefix_paths before parts \<Longrightarrow> spelled sp1 p"
    "\<And>p. spelled sp p \<Longrightarrow> spelled sp1 p"
    by auto
qed

definition own_paths :: "string \<Rightarrow> string set" where
  "own_paths name = prefix_paths [] (split_on slash name)"

lemma own_paths_self: "name \<in> own_paths name"
proof -
  have "join_with ''/'' (split_on slash name) = name" using join_split [of slash name] by (simp add: slash_def)
  moreover have "1 \<le> length (split_on slash name)" using split_on_ne [of slash name] by (cases "split_on slash name") auto
  ultimately show ?thesis unfolding own_paths_def prefix_paths_def by (intro image_eqI [of _ _ "length (split_on slash name)"]) auto
qed

lemma parents_own: "set (parent_names name) \<subseteq> own_paths name"
  by (auto simp: parent_names_def own_paths_def prefix_paths_def Let_def)

text \<open>What the walk over the entries keeps.\<close>

definition names_inv :: "inspected \<Rightarrow> bool" where
  "names_inv st \<longleftrightarrow> (case st of (files, sp, expanded) \<Rightarrow>
     distinct (map fst files) \<and>
     (\<forall>n\<in>fst ` set files. list_all validComponent (split_on slash n) \<and> (\<forall>p\<in>own_paths n. spelled sp p)) \<and>
     (\<forall>f\<in>snd ` set files. ze_regular f \<and> ze_size f \<le> MaxFileBytes) \<and>
     expanded = sum_list (map (ze_size \<circ> snd) files) \<and> expanded \<le> MaxExpandedBytes)"

lemma inspect_entry_inv:
  assumes "names_inv st" "inspect_entry e st = Inr st1"
  shows "names_inv st1"
proof -
  obtain files sp n where st: "st = (files, sp, n)" by (cases st)
  let ?name = "trim_prefix (ze_name e) ''qemu/''"
  from assms(2) obtain sp1 where en: "enter_parts ?name [] (split_on slash ?name) sp = Inr sp1"
    by (auto simp: st inspect_entry_def Let_def split: if_splits sum.splits)
  with assms(2) have st1: "st1 = (files @ [(?name, e)], sp1, n + ze_size e)" "map_of files ?name = None"
    "ze_regular e" "ze_size e \<le> MaxFileBytes" "n + ze_size e \<le> MaxExpandedBytes"
    by (auto simp: st inspect_entry_def Let_def split: if_splits)
  note ok = enter_parts_ok [OF en]
  have "spelled sp1 p" if "p \<in> own_paths ?name" for p using ok(2) that by (simp add: own_paths_def)
  with assms(1) st1 ok(1,3) show ?thesis
    by (auto simp: names_inv_def st map_of_eq_None_iff)
qed

lemma inspect_entries_inv: "names_inv st \<Longrightarrow> inspect_entries es st = Inr st1 \<Longrightarrow> names_inv st1"
  by (induction es arbitrary: st) (auto split: sum.splits dest: inspect_entry_inv)


subsection \<open>What the steps leave alone\<close>

definition spares_runtime :: "('w, 'a) bundle_step \<Rightarrow> bool" where
  "spares_runtime m \<longleftrightarrow> (\<forall>s. rd_qemu (snd (m s)) = rd_qemu s)"

named_theorems sparing

lemma sparing_then [sparing]: "spares_runtime m \<Longrightarrow> (\<And>x. spares_runtime (f x)) \<Longrightarrow> spares_runtime (and_then m f)"
  unfolding spares_runtime_def and_then_def by (auto split: prod.splits sum.splits) (metis snd_conv)+

lemma sparing_basic [sparing]:
  "spares_runtime (yield_value x)" "spares_runtime (stop_with e)" "spares_runtime (ask_world f)"
  "spares_runtime (check_ok r)" "spares_runtime (put_entry n c)"
  by (auto simp: spares_runtime_def yield_value_def stop_with_def ask_world_def check_ok_def put_entry_def
      split: prod.splits)

lemma sparing_if [sparing]: "spares_runtime m \<Longrightarrow> spares_runtime m1 \<Longrightarrow> spares_runtime (if b then m else m1)"
  by simp

lemma sparing_if_state [sparing]:
  "spares_runtime m \<Longrightarrow> spares_runtime m1 \<Longrightarrow> spares_runtime (\<lambda>s. if b s then m s else m1 s)"
  by (simp add: spares_runtime_def)

lemma sparing_option [sparing]:
  "spares_runtime m \<Longrightarrow> (\<And>x. spares_runtime (f x)) \<Longrightarrow> spares_runtime (case r of None \<Rightarrow> m | Some x \<Rightarrow> f x)"
  by (cases r) simp_all

lemma sparing_sum [sparing]:
  "(\<And>e. spares_runtime (g e)) \<Longrightarrow> (\<And>x. spares_runtime (f x)) \<Longrightarrow> spares_runtime (case r of Inl e \<Rightarrow> g e | Inr x \<Rightarrow> f x)"
  by (cases r) simp_all

lemma sparing_prod [sparing]: "(\<And>x y. spares_runtime (f x y)) \<Longrightarrow> spares_runtime (case p of (x, y) \<Rightarrow> f x y)"
  by (cases p) simp

lemma sparing_calls [sparing]: "spares_runtime (call_ok f)" "spares_runtime (read_ok g)"
  unfolding call_ok_def read_ok_def by (intro sparing)+

lemma sparing_steps [sparing]:
  "spares_runtime (readFile env files name limit)" "spares_runtime (absent env)"
  "spares_runtime (create_entry env name)"
  unfolding readFile_def absent_def create_entry_def by (intro sparing)+

lemma sparing_extract [sparing]: "spares_runtime (extract_entry env name file checksum)"
  unfolding extract_entry_def by (intro sparing)

lemma sparing_open [sparing]: "spares_runtime (open_archive env h)"
  unfolding open_archive_def by (intro sparing)

lemma sparing_signed [sparing]: "spares_runtime (signed_sums env k files)"
  unfolding signed_sums_def by (intro sparing)

lemma sparing_all [sparing]: "spares_runtime (extract_all env files hashes ns)"
proof (induction ns)
  case (Cons n ns)
  then show ?case unfolding extract_all.simps by (intro sparing)
qed (simp add: sparing)

lemma sparesD: "spares_runtime m \<Longrightarrow> m s = (r, s1) \<Longrightarrow> rd_qemu s1 = rd_qemu s"
  by (auto simp: spares_runtime_def dest!: spec [of _ s])

subsection \<open>What the steps achieve\<close>

lemma and_then_ok: "and_then m f s = (Inr y, s2) \<longleftrightarrow> (\<exists>x s1. m s = (Inr x, s1) \<and> f x s1 = (Inr y, s2))"
  by (auto simp: and_then_def split: prod.splits sum.splits)

lemma bundle_basic_ok [simp]:
  "yield_value x s = (Inr y, s1) \<longleftrightarrow> y = x \<and> s1 = s" "stop_with e s = (Inr y, s1) \<longleftrightarrow> False"
  "check_ok r s = (Inr y, s1) \<longleftrightarrow> r = Inr y \<and> s1 = s"
  by (auto simp: yield_value_def stop_with_def check_ok_def)

lemma ask_world_ok: "ask_world f s = (Inr x, s1) \<Longrightarrow> rd_stage s1 = rd_stage s"
  by (auto simp: ask_world_def split: prod.splits)

lemma call_ok_stage: "call_ok f s = (Inr x, s1) \<Longrightarrow> rd_stage s1 = rd_stage s"
  by (auto simp: call_ok_def and_then_ok ask_world_def split: prod.splits option.splits)

lemma read_ok_stage: "read_ok f s = (Inr x, s1) \<Longrightarrow> rd_stage s1 = rd_stage s"
  by (auto simp: read_ok_def and_then_ok ask_world_def split: prod.splits sum.splits)

lemma create_entry_ok:
  assumes "create_entry env n s = (Inr x, s1)" "rd_stage s = Some t"
  shows "rd_stage s1 = Some (AList.update n [] t)" "n \<notin> fst ` set t"
proof -
  from assms(1) obtain s0 where c: "call_ok (be_call env (CreateEntry n)) s = (Inr (), s0)"
    and r: "(if list_ex (\<lambda>p. to_lower (fst p) = to_lower n) (case rd_stage s0 of None \<Rightarrow> [] | Some t \<Rightarrow> t)
       then stop_with (AlreadyThere n) s0 else put_entry n [] s0) = (Inr x, s1)"
    by (auto simp: create_entry_def and_then_ok)
  from call_ok_stage [OF c] assms(2) have "rd_stage s0 = Some t" by simp
  with r show "rd_stage s1 = Some (AList.update n [] t)" "n \<notin> fst ` set t"
    by (auto simp: put_entry_def list_ex_iff split: if_splits)
qed

lemma extract_entry_ok:
  assumes "extract_entry env n file checksum s = (Inr x, s1)" "rd_stage s = Some t"
  shows "\<exists>d. rd_stage s1 = Some (AList.update n d t) \<and> n \<notin> fst ` set t \<and> int (length d) = ze_size file \<and>
    (checksum \<noteq> [] \<longrightarrow> be_hash env d = checksum)"
proof -
  from assms(1) obtain r s2 u s3 where r: "read_ok (be_read env n) s = (Inr r, s2)"
    and c: "create_entry env n s2 = (Inr u, s3)"
    and rest: "(case limited MaxFileBytes r of (data, err) \<Rightarrow>
          and_then (ask_world (be_write env n)) (\<lambda>w.
            case w of
              Some (k, e) \<Rightarrow> and_then (put_entry n (take k data)) (\<lambda>_. stop_with (SystemError e))
            | None \<Rightarrow>
                and_then (put_entry n data) (\<lambda>_.
                  case err of
                    Some e \<Rightarrow> stop_with (SystemError e)
                  | None \<Rightarrow>
                      if MaxFileBytes < int (length data) \<or> int (length data) \<noteq> ze_size file
                      then stop_with (SizeMismatch (ze_name file))
                      else if checksum \<noteq> [] \<and> be_hash env data \<noteq> checksum
                      then stop_with (ChecksumMismatch (ze_name file))
                      else and_then (call_ok (be_call env (SyncEntry n))) (\<lambda>_.
                             call_ok (be_call env (CloseEntry n)))))) s3 = (Inr x, s1)"
    unfolding extract_entry_def and_then_ok by blast
  obtain data err where d: "limited MaxFileBytes r = (data, err)" by (cases "limited MaxFileBytes r")
  have s3: "rd_stage s3 = Some (AList.update n [] t)" "n \<notin> fst ` set t"
    using create_entry_ok [OF c] read_ok_stage [OF r] assms(2) by simp_all
  from rest d obtain wr s4 where w: "ask_world (be_write env n) s3 = (Inr wr, s4)"
    and rest2: "(case wr of
              Some (k, e) \<Rightarrow> and_then (put_entry n (take k data)) (\<lambda>_. stop_with (SystemError e))
            | None \<Rightarrow>
                and_then (put_entry n data) (\<lambda>_.
                  case err of
                    Some e \<Rightarrow> stop_with (SystemError e)
                  | None \<Rightarrow>
                      if MaxFileBytes < int (length data) \<or> int (length data) \<noteq> ze_size file
                      then stop_with (SizeMismatch (ze_name file))
                      else if checksum \<noteq> [] \<and> be_hash env data \<noteq> checksum
                      then stop_with (ChecksumMismatch (ze_name file))
                      else and_then (call_ok (be_call env (SyncEntry n))) (\<lambda>_.
                             call_ok (be_call env (CloseEntry n))))) s4 = (Inr x, s1)"
    by (auto simp: and_then_ok)
  then have "wr = None" "err = None" by (cases wr; cases err; auto simp: and_then_ok)+
  with rest2 obtain s5 s6 where p: "put_entry n data s4 = (Inr (), s5)" and len: "int (length data) = ze_size file"
    and sum: "checksum \<noteq> [] \<longrightarrow> be_hash env data = checksum"
    and s: "call_ok (be_call env (SyncEntry n)) s5 = (Inr (), s6)"
    and cl: "call_ok (be_call env (CloseEntry n)) s6 = (Inr x, s1)"
    by (auto simp: and_then_ok split: if_splits)
  have "rd_stage s1 = Some (AList.update n data t)"
    using call_ok_stage [OF cl] call_ok_stage [OF s] p ask_world_ok [OF w] s3 by (auto simp: put_entry_def)
  with s3(2) len sum show ?thesis by blast
qed

text \<open>The stage holds the files \<open>done\<close>, each as its sum says.\<close>

definition staged_files :: "'w bundle_env \<Rightarrow> string smap \<Rightarrow> string set \<Rightarrow> 'w runtime_dir \<Rightarrow> bool" where
  "staged_files env hashes names s \<longleftrightarrow>
     (\<exists>t. rd_stage s = Some t \<and> fst ` set t = names \<and>
       (\<forall>n\<in>names. \<exists>d. map_of t n = Some d \<and> (lookup_or [] hashes n \<noteq> [] \<longrightarrow> be_hash env d = lookup_or [] hashes n)))"

lemma staged_update:
  assumes "staged_files env hashes names s" "extract_entry env n file (lookup_or [] hashes n) s = (Inr x, s1)"
  shows "staged_files env hashes (insert n names) s1"
proof -
  from assms(1) obtain t where t: "rd_stage s = Some t" "fst ` set t = names"
    and ok: "\<forall>n\<in>names. \<exists>d. map_of t n = Some d \<and> (lookup_or [] hashes n \<noteq> [] \<longrightarrow> be_hash env d = lookup_or [] hashes n)"
    by (auto simp: staged_files_def)
  from extract_entry_ok [OF assms(2) t(1)] obtain d where d: "rd_stage s1 = Some (AList.update n d t)"
    "lookup_or [] hashes n \<noteq> [] \<longrightarrow> be_hash env d = lookup_or [] hashes n"
    by blast
  have "fst ` set (AList.update n d t) = insert n names" by (simp add: dom_update t(2))
  moreover have "\<exists>d'. map_of (AList.update n d t) m = Some d' \<and>
      (lookup_or [] hashes m \<noteq> [] \<longrightarrow> be_hash env d' = lookup_or [] hashes m)" if "m \<in> insert n names" for m
  proof (cases "m = n")
    case True
    with d(2) show ?thesis by (simp add: update_conv')
  next
    case False
    with that ok show ?thesis by (auto simp: update_conv')
  qed
  ultimately show ?thesis unfolding staged_files_def using d(1) by blast
qed

lemma extract_all_ok:
  assumes "extract_all env files hashes ns s = (Inr x, s1)" "staged_files env hashes names s"
    "\<forall>n\<in>set ns. map_of files n \<noteq> None"
  shows "staged_files env hashes (names \<union> set ns) s1"
  using assms
proof (induction ns arbitrary: s names)
  case (Cons n ns)
  from Cons.prems(3) obtain zf where f: "map_of files n = Some zf" by auto
  from Cons.prems(1) f obtain s2 s3 u v s4 where c: "call_ok (be_cancelled env) s = (Inr (), s2)"
    and m: "call_ok (be_call env (MakeDirs n)) s2 = (Inr u, s3)"
    and e: "extract_entry env n zf (lookup_or [] hashes n) s3 = (Inr v, s4)"
    and r: "extract_all env files hashes ns s4 = (Inr x, s1)"
    by (auto simp: and_then_ok)
  have "staged_files env hashes names s3"
    using Cons.prems(2) call_ok_stage [OF c] call_ok_stage [OF m] by (simp add: staged_files_def)
  from Cons.IH [OF r staged_update [OF this e]] Cons.prems(3) show ?case by simp
qed simp

lemma publish_stage: "publish env s = (r, s1) \<Longrightarrow>
    (case r of Inl e \<Rightarrow> rd_qemu s1 = rd_qemu s | Inr x \<Rightarrow> rd_qemu s1 = rd_stage s)"
  by (auto simp: publish_def and_then_def call_ok_def ask_world_def yield_value_def stop_with_def
      split: prod.splits sum.splits option.splits)

lemma absent_ok: "absent env s = (Inr x, s1) \<Longrightarrow> rd_qemu s = None \<and> rd_qemu s1 = None \<and> rd_stage s1 = rd_stage s"
  by (auto simp: absent_def and_then_ok call_ok_def ask_world_def split: prod.splits option.splits if_splits)

lemma fill_and_publish_result:
  assumes r: "fill_and_publish env files hashes s = (r, s1)" and s: "rd_stage s = Some []"
    and order: "set (be_order env (map fst files)) = fst ` set files"
  shows "case r of Inl e \<Rightarrow> rd_qemu s1 = rd_qemu s
    | Inr x \<Rightarrow> rd_qemu s = None \<and> (\<exists>t. rd_qemu s1 = Some t \<and> fst ` set t = fst ` set files \<and>
        (\<forall>n\<in>fst ` set files. \<exists>d. map_of t n = Some d \<and> (lookup_or [] hashes n \<noteq> [] \<longrightarrow> be_hash env d = lookup_or [] hashes n)))"
proof -
  obtain r2 s2 where e: "extract_all env files hashes (be_order env (map fst files)) s = (r2, s2)" by fastforce
  have q2: "rd_qemu s2 = rd_qemu s" by (rule sparesD [OF sparing_all e])
  show ?thesis
  proof (cases r2)
    case (Inl x)
    with r e q2 show ?thesis by (auto simp: fill_and_publish_def and_then_def)
  next
    case (Inr u)
    have st: "staged_files env hashes ({} \<union> fst ` set files) s2"
      using extract_all_ok [OF e [unfolded Inr], of "{}"] s order by (auto simp: staged_files_def map_of_eq_None_iff)
    obtain r3 s3 where c: "call_ok (be_cancelled env) s2 = (r3, s3)" by fastforce
    have q3: "rd_qemu s3 = rd_qemu s" using sparesD [OF sparing_calls(1) c] q2 by simp
    show ?thesis
    proof (cases r3)
      case (Inl x)
      with r e c Inr q3 show ?thesis by (auto simp: fill_and_publish_def and_then_def)
    next
      case (Inr v)
      obtain r4 s4 where a: "absent env s3 = (r4, s4)" by fastforce
      have q4: "rd_qemu s4 = rd_qemu s" using sparesD [OF sparing_steps(2) a] q3 by simp
      show ?thesis
      proof (cases r4)
        case (Inl x)
        with r e c \<open>r2 = Inr u\<close> Inr a q4 show ?thesis by (auto simp: fill_and_publish_def and_then_def)
      next
        case (Inr w)
        with r e c \<open>r2 = Inr u\<close> \<open>r3 = Inr v\<close> a have p: "publish env s4 = (r, s1)" by (simp add: fill_and_publish_def and_then_def)
        have "rd_stage s4 = rd_stage s2" "rd_qemu s = None"
          using absent_ok [OF a [unfolded Inr]] call_ok_stage [OF c [unfolded \<open>r3 = Inr v\<close>]] q3 by simp_all
        with publish_stage [OF p] st q4 show ?thesis by (auto simp: staged_files_def split: sum.splits)
      qed
    qed
  qed
qed

subsection \<open>The signed sums\<close>

lemma update_new: "map_of xs k = None \<Longrightarrow> AList.update k v xs = xs @ [(k, v)]"
  by (induction xs) (auto split: if_splits)

lemma manifest_line_keeps:
  assumes "manifest_line i l hashes = Inr h1" "distinct (map fst hashes)" "\<forall>h\<in>snd ` set hashes. h \<noteq> []"
  shows "distinct (map fst h1) \<and> (\<forall>h\<in>snd ` set h1. h \<noteq> [])"
proof (cases "trim_space l = []")
  case True
  with assms show ?thesis by (simp add: manifest_line_def)
next
  case False
  with assms(1) obtain hash star where f: "str_fields l = [hash, star]"
    by (auto simp: manifest_line_def split: list.splits)
  with False assms(1) have h1: "h1 = AList.update (trim_prefix star ''*'') (to_lower hash) hashes"
    and new: "map_of hashes (trim_prefix star ''*'') = None" and "\<exists>b. hex_decode hash = Some b \<and> int (length b) = 32"
    by (auto simp: manifest_line_def Let_def split: if_splits option.splits)
  then have "hash \<noteq> []" by auto
  with assms(2,3) new show ?thesis unfolding h1 update_new [OF new] by (auto simp: map_of_eq_None_iff)
qed

lemma manifest_lines_keep:
  "manifest_lines i ls hashes = Inr h1 \<Longrightarrow> distinct (map fst hashes) \<Longrightarrow> \<forall>h\<in>snd ` set hashes. h \<noteq> [] \<Longrightarrow>
     distinct (map fst h1) \<and> (\<forall>h\<in>snd ` set h1. h \<noteq> [])"
proof (induction ls arbitrary: i hashes)
  case (Cons l ls)
  from Cons.prems(1) obtain h2 where "manifest_line i l hashes = Inr h2" "manifest_lines (i + 1) ls h2 = Inr h1"
    by (auto split: sum.splits)
  with Cons.IH manifest_line_keeps Cons.prems(2,3) show ?case by metis
qed simp

lemma Verify_sums:
  assumes "Verify vouches pk data sig = Inr hashes"
  shows "distinct (map fst hashes)" "\<forall>h\<in>snd ` set hashes. h \<noteq> []"
proof -
  from assms have "Parse data = Inr hashes" by (auto simp: Verify_def split: option.splits if_splits)
  then have "manifest_lines 1 (split_on (CHR 10) data) [] = Inr hashes" by (auto simp: Parse_def split: if_splits sum.splits)
  from manifest_lines_keep [OF this] show "distinct (map fst hashes)" "\<forall>h\<in>snd ` set hashes. h \<noteq> []" by auto
qed

lemma readFile_ok: "readFile env files name limit s = (Inr x, s1) \<Longrightarrow> map_of files name \<noteq> None"
  by (auto simp: readFile_def split: option.splits)

lemma sums_sig [simp]: "sums_name \<noteq> sig_name"
  by (simp add: sums_name_def sig_name_def)

lemma signed_sums_ok:
  assumes ok: "signed_sums env pk files s = (Inr sums1, s1)" and files: "distinct (map fst files)"
  obtains manifest signature hashes where "Verify (be_signed env) pk manifest signature = Inr hashes"
    "sums1 = AList.update sig_name (be_hash env signature) (AList.update sums_name (be_hash env manifest) hashes)"
    "fst ` set files = fst ` set hashes \<union> {sums_name, sig_name}" "sums_name \<notin> fst ` set hashes"
    "sig_name \<notin> fst ` set hashes" "set required_files \<subseteq> fst ` set files"
proof -
  from ok obtain manifest s2 signature s3 hashes where
    m: "readFile env files sums_name MaxManifestSize s = (Inr manifest, s2)" and
    g: "readFile env files sig_name 64 s2 = (Inr signature, s3)" and
    v: "Verify (be_signed env) pk manifest signature = Inr hashes" and
    rest: "(if length hashes + 2 \<noteq> length files then stop_with ManifestDiffers
       else if list_ex (\<lambda>p. fst p = sums_name \<or> fst p = sig_name \<or> map_of files (fst p) = None) hashes
       then stop_with MissingOrReserved
       else (case List.find (\<lambda>n. map_of files n = None) required_files of
               Some n \<Rightarrow> stop_with (RequiredMissing n)
             | None \<Rightarrow>
                 yield_value (AList.update sig_name (be_hash env signature)
                   (AList.update sums_name (be_hash env manifest) hashes)))) s3 = (Inr sums1, s1)"
    unfolding signed_sums_def and_then_ok by auto
  from rest have len: "length hashes + 2 = length files" by (auto split: if_splits)
  with rest have named: "\<forall>p\<in>set hashes. fst p \<noteq> sums_name \<and> fst p \<noteq> sig_name \<and> map_of files (fst p) \<noteq> None"
    by (auto simp: list_ex_iff split: if_splits)
  with rest len have req: "List.find (\<lambda>n. map_of files n = None) required_files = None"
    and sums1: "sums1 = AList.update sig_name (be_hash env signature) (AList.update sums_name (be_hash env manifest) hashes)"
    by (auto simp: list_ex_iff split: if_splits option.splits)
  let ?names = "fst ` set hashes \<union> {sums_name, sig_name}"
  have sub: "?names \<subseteq> fst ` set files"
    using named readFile_ok [OF m] readFile_ok [OF g] by (auto simp: map_of_eq_None_iff)
  have "card (fst ` set hashes) = length hashes" "card (fst ` set files) = length files"
    using Verify_sums(1) [OF v] files by (metis distinct_card length_map list.set_map)+
  moreover have "card ?names = card (fst ` set hashes) + card {sums_name, sig_name}"
    by (rule card_Un_disjoint) (use named in auto)
  ultimately have "card ?names = card (fst ` set files)" using len by simp
  with sub have "?names = fst ` set files" by (intro card_subset_eq) auto
  moreover have "set required_files \<subseteq> fst ` set files" using req by (auto simp: find_None_iff map_of_eq_None_iff)
  moreover have "sums_name \<notin> fst ` set hashes" "sig_name \<notin> fst ` set hashes" using named by auto
  ultimately show ?thesis by (intro that [OF v sums1]) simp_all
qed

lemma open_archive_ok: "open_archive env h s = (Inr files, s1) \<Longrightarrow> \<exists>entries. inspect entries = Inr files"
  by (auto simp: open_archive_def and_then_ok split: if_splits)

lemma inspected_distinct:
  assumes "inspect entries = Inr files"
  shows "distinct (map fst files)"
proof -
  from assms obtain sp n where "inspect_entries entries ([], [], 0) = Inr (files, sp, n)"
    by (auto simp: inspect_def split: if_splits sum.splits option.splits)
  moreover have "names_inv ([], [], 0)" by (simp add: names_inv_def MaxExpandedBytes_def)
  ultimately have "names_inv (files, sp, n)" by (blast intro: inspect_entries_inv)
  then show ?thesis by (simp add: names_inv_def)
qed

subsection \<open>The installation\<close>

text \<open>A runtime that a signed manifest vouches for, file by file, and that lacks nothing required.\<close>

definition vouched_runtime :: "'w bundle_env \<Rightarrow> string \<Rightarrow> string smap \<Rightarrow> bool" where
  "vouched_runtime env pk t \<longleftrightarrow>
     (\<exists>manifest signature hashes. Verify (be_signed env) pk manifest signature = Inr hashes \<and>
        fst ` set t = fst ` set hashes \<union> {sums_name, sig_name} \<and> set required_files \<subseteq> fst ` set t \<and>
        (\<forall>(n, h)\<in>set hashes. \<exists>d. map_of t n = Some d \<and> be_hash env d = h) \<and>
        (\<exists>d. map_of t sums_name = Some d \<and> be_hash env d = be_hash env manifest) \<and>
        (\<exists>d. map_of t sig_name = Some d \<and> be_hash env d = be_hash env signature))"

lemma remove_stage_runtime [simp]: "rd_qemu (remove_stage env s) = rd_qemu s"
  by (auto simp: remove_stage_def split: prod.splits option.splits)

lemma filled_vouched:
  assumes v: "Verify (be_signed env) pk manifest signature = Inr hashes"
    and sums1: "sums1 = AList.update sig_name (be_hash env signature) (AList.update sums_name (be_hash env manifest) hashes)"
    and names: "fst ` set files = fst ` set hashes \<union> {sums_name, sig_name}" "sums_name \<notin> fst ` set hashes"
      "sig_name \<notin> fst ` set hashes" "set required_files \<subseteq> fst ` set files"
    and hash: "\<forall>d. be_hash env d \<noteq> []"
    and t: "fst ` set t = fst ` set files"
      "\<forall>n\<in>fst ` set files. \<exists>d. map_of t n = Some d \<and> (lookup_or [] sums1 n \<noteq> [] \<longrightarrow> be_hash env d = lookup_or [] sums1 n)"
  shows "vouched_runtime env pk t"
proof -
  have "lookup_or [] sums1 n = h \<and> h \<noteq> []" if "(n, h) \<in> set hashes" for n h
  proof -
    have "n \<noteq> sums_name" "n \<noteq> sig_name" using that names(2,3) by force+
    moreover have "map_of hashes n = Some h" using that Verify_sums(1) [OF v] by simp
    moreover have "h \<noteq> []" using that Verify_sums(2) [OF v] by force
    ultimately show ?thesis by (simp add: sums1 lookup_or_def update_conv')
  qed
  note lk = this
  have "\<exists>d. map_of t n = Some d \<and> be_hash env d = h" if nh: "(n, h) \<in> set hashes" for n h
  proof -
    have "n \<in> fst ` set hashes" using nh by (rule rev_image_eqI) simp
    then have "n \<in> fst ` set files" using names(1) by blast
    with t(2) lk [OF nh] show ?thesis by metis
  qed
  then have all: "\<forall>(n, h)\<in>set hashes. \<exists>d. map_of t n = Some d \<and> be_hash env d = h" by blast
  have "\<exists>d. map_of t n = Some d \<and> be_hash env d = be_hash env x"
    if "n \<in> fst ` set files" "lookup_or [] sums1 n = be_hash env x" for n x
    using that t(2) hash by metis
  moreover have "lookup_or [] sums1 sums_name = be_hash env manifest" "lookup_or [] sums1 sig_name = be_hash env signature"
    by (simp_all add: sums1 lookup_or_def update_conv')
  moreover have "sums_name \<in> fst ` set files" "sig_name \<in> fst ` set files" using names(1) by auto
  ultimately have "\<exists>d. map_of t sums_name = Some d \<and> be_hash env d = be_hash env manifest"
    "\<exists>d. map_of t sig_name = Some d \<and> be_hash env d = be_hash env signature" by blast+
  with all v names(1,4) t(1) show ?thesis unfolding vouched_runtime_def by (intro exI [of _ manifest] exI [of _ signature] exI [of _ hashes]) simp
qed

text \<open>
  C14: an installation is all or nothing. For every archive and every failing call: after an error
  the directory of the runtime is as it was; after a success there was none before, and now it
  holds the required files and exactly those that one signed manifest names, each with the sum
  that the manifest gives it.
\<close>

theorem runtime_all_or_nothing:
  assumes order: "\<forall>xs. set (be_order env xs) = set xs" and hash: "\<forall>d. be_hash env d \<noteq> []"
  shows "case Install env expectedHash pk s of (r, s1) \<Rightarrow>
    (case r of
       Inl e \<Rightarrow> rd_qemu s1 = rd_qemu s
     | Inr _ \<Rightarrow> rd_qemu s = None \<and> (\<exists>t. rd_qemu s1 = Some t \<and> vouched_runtime env pk t))"
proof -
  obtain r s1 where run: "Install env expectedHash pk s = (r, s1)" by fastforce
  obtain ra sa where a: "open_archive env expectedHash s = (ra, sa)" by fastforce
  have qa: "rd_qemu sa = rd_qemu s" by (rule sparesD [OF sparing_open a])
  show ?thesis
  proof (cases ra)
    case (Inl e)
    with run a qa show ?thesis by (auto simp: Install_def and_then_def)
  next
    case (Inr files)
    note ra = this
    from open_archive_ok [OF a [unfolded ra]] have files: "distinct (map fst files)" by (blast intro: inspected_distinct)
    obtain rb sb where b: "signed_sums env pk files sa = (rb, sb)" by fastforce
    have qb: "rd_qemu sb = rd_qemu s" using sparesD [OF sparing_signed b] qa by simp
    show ?thesis
    proof (cases rb)
      case (Inl e)
      with run a b ra qb show ?thesis by (auto simp: Install_def and_then_def)
    next
      case (Inr sums1)
      note rb = this
      obtain rc sc where c: "and_then (absent env) (\<lambda>_. call_ok (be_call env MakeStage)) sb = (rc, sc)" by fastforce
      have "spares_runtime (and_then (absent env) (\<lambda>_. call_ok (be_call env MakeStage)))" by (intro sparing)
      with c qb have qc: "rd_qemu sc = rd_qemu s" by (metis sparesD)
      show ?thesis
      proof (cases rc)
        case (Inl e)
        with run a b c ra rb qc show ?thesis by (auto simp: Install_def and_then_def split: prod.splits sum.splits)
      next
        case (Inr u)
        obtain rd sd where d: "fill_and_publish env files sums1 (sc\<lparr>rd_stage := Some []\<rparr>) = (rd, sd)" by fastforce
        from run a b c ra rb Inr d have r: "r = rd" "rd_qemu s1 = rd_qemu sd"
          by (auto simp: Install_def and_then_def split: prod.splits sum.splits)
        have "set (be_order env (map fst files)) = fst ` set files" using order by simp
        note fp = fill_and_publish_result [OF d _ this]
        show ?thesis
        proof (cases rd)
          case (Inl e)
          with fp run r qc show ?thesis by simp
        next
          case (Inr v)
          with fp qc obtain t where t: "rd_qemu s = None" "rd_qemu sd = Some t" "fst ` set t = fst ` set files"
            "\<forall>n\<in>fst ` set files. \<exists>d. map_of t n = Some d \<and> (lookup_or [] sums1 n \<noteq> [] \<longrightarrow> be_hash env d = lookup_or [] sums1 n)"
            by auto
          obtain manifest signature hashes where "Verify (be_signed env) pk manifest signature = Inr hashes"
            "sums1 = AList.update sig_name (be_hash env signature) (AList.update sums_name (be_hash env manifest) hashes)"
            "fst ` set files = fst ` set hashes \<union> {sums_name, sig_name}" "sums_name \<notin> fst ` set hashes"
            "sig_name \<notin> fst ` set hashes" "set required_files \<subseteq> fst ` set files"
            by (rule signed_sums_ok [OF b [unfolded rb] files])
          from filled_vouched [OF this hash t(3,4)] have "vouched_runtime env pk t" .
          with run r t Inr show ?thesis by simp
        qed
      qed
    qed
  qed
qed

subsection \<open>Reading a manifest back\<close>

definition render_sum :: "string \<times> string \<Rightarrow> string" where
  "render_sum p = snd p @ '' *'' @ fst p"

definition render_sums :: "string smap \<Rightarrow> string" where
  "render_sums hs = concat (map (\<lambda>p. render_sum p @ [CHR 10]) hs)"

definition clean_sum :: "string \<times> string \<Rightarrow> bool" where
  "clean_sum p \<longleftrightarrow> length (snd p) = 64 \<and> list_all is_lower_hex (snd p) \<and> \<not> bad_artifact_name (fst p) \<and>
     list_all (\<lambda>c. \<not> is_space c) (fst p)"

lemma hex_decode_all: "list_all is_hex s \<Longrightarrow> length s = 2 * n \<Longrightarrow> \<exists>b. hex_decode s = Some b \<and> length b = n"
proof (induction s arbitrary: n rule: hex_decode.induct)
  case (3 a b r)
  from 3(3) obtain m where "n = Suc m" "length r = 2 * m" by (cases n) auto
  with 3 show ?case by auto
qed auto

lemma lower_hex_fixed: "is_lower_hex c \<Longrightarrow> lower_char c = c"
  unfolding lower_char_eq_iff by (auto simp: is_lower_hex_def is_digit_def Let_def lower_code_def)

lemma lower_hex_plain: "is_lower_hex c \<Longrightarrow> \<not> is_space c" "is_lower_hex c \<Longrightarrow> is_hex c"
  by (auto simp: is_lower_hex_def is_digit_def is_space_def is_hex_def Let_def)

lemma fields_pair:
  assumes "a \<noteq> []" "b \<noteq> []" "\<forall>c\<in>set a. \<not> is_space c" "\<forall>c\<in>set b. \<not> is_space c"
  shows "str_fields (a @ CHR '' '' # b) = [a, b]"
proof -
  have sp: "is_space (CHR '' '')" by code_simp
  have word: "takeWhile (\<lambda>c. \<not> is_space c) (w @ r) = w" "dropWhile (\<lambda>c. \<not> is_space c) (w @ r) = r"
    "dropWhile is_space (w @ r) = w @ r"
    if "w \<noteq> []" "\<forall>c\<in>set w. \<not> is_space c" "r = [] \<or> is_space (hd r)" for w r
    using that by (cases w; cases r; auto simp: takeWhile_append dropWhile_append)+
  have one: "str_fields b = [b]"
  proof -
    have "dropWhile is_space b = b" using assms(2,4) by (cases b) auto
    moreover have "takeWhile (\<lambda>c. \<not> is_space c) b = b" "dropWhile (\<lambda>c. \<not> is_space c) b = []" using assms(4) by simp_all
    moreover have "str_fields [] = []" by (subst str_fields.simps) simp
    ultimately show ?thesis using assms(2) by (subst str_fields.simps) (simp only: Let_def if_False)
  qed
  then have "str_fields (CHR '' '' # b) = [b]"
    using sp by (subst str_fields.simps) (simp add: str_fields.simps [of b])
  then show ?thesis
    using word [OF assms(1,3), of "CHR '' '' # b"] sp assms(1) by (subst str_fields.simps) (simp add: Let_def)
qed

lemma read_clean_sum:
  assumes "clean_sum p" "map_of hs (fst p) = None"
  shows "manifest_line i (render_sum p) hs = Inr (hs @ [p])"
proof -
  obtain n h where p: "p = (n, h)" by (cases p)
  have h: "length h = 64" "\<forall>c\<in>set h. is_lower_hex c" and n: "\<not> bad_artifact_name n" "\<forall>c\<in>set n. \<not> is_space c"
    using assms(1) by (auto simp: clean_sum_def p list_all_iff)
  have "\<not> is_space (CHR ''*'')" by code_simp
  moreover have "h \<noteq> []" using h(1) by auto
  ultimately have f: "str_fields (render_sum p) = [h, CHR ''*'' # n]"
    using fields_pair [of h "CHR ''*'' # n"] h n(2) lower_hex_plain(1) by (auto simp: render_sum_def p)
  have "list_all is_hex h" using h(2) lower_hex_plain(2) by (auto simp: list_all_iff)
  then obtain b where b: "hex_decode h = Some b" "length b = 32" using hex_decode_all [of h 32] h(1) by auto
  have "to_lower h = h" using h(2) lower_hex_fixed by (simp add: to_lower_def map_idI)
  moreover have "trim_space (render_sum p) \<noteq> []"
    using h lower_hex_plain(1) unfolding trim_space_def by (intro trim_by_ne) (cases h; auto simp: render_sum_def p)
  moreover have "trim_prefix (CHR ''*'' # n) ''*'' = n" by (simp add: trim_prefix_def has_prefix_def)
  ultimately show ?thesis
    using f b n(1) assms(2) by (simp add: manifest_line_def p Let_def update_new)
qed

lemma read_clean_sums:
  assumes "list_all clean_sum hs" "distinct (map fst (before @ hs))"
  shows "manifest_lines i (split_on (CHR 10) (render_sums hs)) before = Inr (before @ hs)"
  using assms
proof (induction hs arbitrary: i before)
  case Nil
  then show ?case by (simp add: render_sums_def manifest_line_def trim_space_def trim_by_def trim_left_by_def)
next
  case (Cons p hs)
  have "CHR 10 \<notin> set (render_sum p)"
  proof -
    have "is_space (CHR 10)" "CHR 10 \<noteq> CHR '' ''" "CHR 10 \<noteq> CHR ''*''" by code_simp+
    with Cons.prems(1) lower_hex_plain(1) show ?thesis by (auto simp: render_sum_def clean_sum_def list_all_iff)
  qed
  then have "split_on (CHR 10) (render_sums (p # hs)) = render_sum p # split_on (CHR 10) (render_sums hs)"
    using split_on_append [of "CHR 10" "render_sum p" "render_sums hs"] by (simp add: render_sums_def)
  moreover have "manifest_line i (render_sum p) before = Inr (before @ [p])"
    using Cons.prems by (intro read_clean_sum) (auto simp: map_of_eq_None_iff)
  ultimately show ?case using Cons.IH [of "before @ [p]"] Cons.prems by simp
qed

text \<open>
  A manifest reads back as it was written: any list of sums with clean names, each named
  once, is recovered from its text, line by line, in order.
\<close>

theorem sums_roundtrip:
  assumes "hs \<noteq> []" "list_all clean_sum hs" "distinct (map fst hs)" "int (length (render_sums hs)) \<le> MaxManifestSize"
  shows "Parse (render_sums hs) = Inr hs"
proof -
  have "render_sums hs \<noteq> []" using assms(1) by (cases hs) (simp_all add: render_sums_def)
  with read_clean_sums [OF assms(2), of "[]"] assms show ?thesis by (simp add: Parse_def)
qed

end
