(* ===== verification/Runtime_Bundle_Sample.thy ===== *)
theory Runtime_Bundle_Sample
  imports Runtime_Bundle_Props
begin

text \<open>An archive of the required files, installed.\<close>

definition bundle_hash :: "string \<Rightarrow> string" where
  "bundle_hash d = replicate 63 (CHR ''a'') @ [''0123456789abcdef'' ! (length d mod 16)]"

text \<open>Every file contains its own name.\<close>

definition bundle_sums :: "string smap" where
  "bundle_sums = map (\<lambda>n. (n, bundle_hash n)) required_files"

definition bundle_manifest :: string where
  "bundle_manifest = render_sums bundle_sums"

definition bundle_content :: "string \<Rightarrow> string" where
  "bundle_content n = (if n = sums_name then bundle_manifest else if n = sig_name then ''ok'' else n)"

definition bundle_names :: "string list" where
  "bundle_names = sums_name # sig_name # required_files"

definition bundle_entries :: "zip_entry list" where
  "bundle_entries =
     map (\<lambda>n. \<lparr>ze_name = ''qemu/'' @ n, ze_regular = True, ze_size = int (length (bundle_content n))\<rparr>) bundle_names"

definition bundle_files :: "zip_entry smap" where
  "bundle_files = map (\<lambda>e. (drop 5 (ze_name e), e)) bundle_entries"

lemma bundle_inspected: "inspect bundle_entries = Inr bundle_files"
  by code_simp

definition bundle_sample :: "unit bundle_env" where
  "bundle_sample = \<lparr>be_stat = (\<lambda>w. (Inr (True, 7), w)), be_copy = (\<lambda>w. (Inr ''archive'', w)),
     be_zip = (\<lambda>w. (Inr bundle_entries, w)), be_read = (\<lambda>n w. (Inr (bundle_content n, None), w)),
     be_call = (\<lambda>c w. (None, w)), be_write = (\<lambda>n w. (None, w)), be_cancelled = (\<lambda>w. (None, w)),
     be_remove = (\<lambda>w. (None, w)), be_hash = bundle_hash, be_signed = (\<lambda>k m g. g = ''ok''), be_order = id\<rparr>"

definition no_runtime :: "unit runtime_dir" where
  "no_runtime = \<lparr>rd_qemu = None, rd_stage = None, rd_world = ()\<rparr>"

lemma bundle_sample_world:
  "call_ok (be_call bundle_sample c) s = (Inr (), s)" "call_ok (be_cancelled bundle_sample) s = (Inr (), s)"
  "read_ok (be_stat bundle_sample) s = (Inr (True, 7), s)" "read_ok (be_copy bundle_sample) s = (Inr ''archive'', s)"
  "read_ok (be_zip bundle_sample) s = (Inr bundle_entries, s)"
  "read_ok (be_read bundle_sample n) s = (Inr (bundle_content n, None), s)"
  "ask_world (be_write bundle_sample n) s = (Inr None, s)"
  "be_hash bundle_sample d = bundle_hash d" "be_order bundle_sample ns = ns"
  by (simp_all add: call_ok_def read_ok_def and_then_def ask_world_def yield_value_def bundle_sample_def)

lemma bundle_hash_decodes: "\<exists>b. hex_decode (bundle_hash d) = Some b \<and> length b = 32"
proof -
  have all: "list_all is_hex ''0123456789abcdef''" and a: "is_hex (CHR ''a'')" by code_simp+
  then have "is_hex (''0123456789abcdef'' ! (length d mod 16))" by (simp only: list_all_length) simp
  with a have "list_all is_hex (bundle_hash d)" by (simp add: bundle_hash_def list_all_iff)
  then show ?thesis by (intro hex_decode_all) (simp_all add: bundle_hash_def)
qed

lemma sample_archive: "open_archive bundle_sample (bundle_hash ''archive'') s = (Inr bundle_files, s)"
proof -
  obtain b where "hex_decode (bundle_hash ''archive'') = Some b" "length b = 32" using bundle_hash_decodes by blast
  then show ?thesis
    by (simp add: open_archive_def and_then_def bundle_sample_world check_ok_def bundle_inspected MaxArchiveBytes_def)
qed

lemma sample_meta:
  "map_of bundle_files sums_name = Some \<lparr>ze_name = ''qemu/SHA256SUMS'', ze_regular = True, ze_size = 529\<rparr>"
  "map_of bundle_files sig_name = Some \<lparr>ze_name = ''qemu/SHA256SUMS.sig'', ze_regular = True, ze_size = 2\<rparr>"
  by code_simp+

lemma sample_manifest: "int (length bundle_manifest) = 529" "length bundle_files = 8" "length bundle_sums = 6"
  by code_simp+

lemma sample_clean: "list_all clean_sum bundle_sums" "distinct (map fst bundle_sums)" "bundle_sums \<noteq> []"
  by code_simp+

lemma sample_parse: "Parse bundle_manifest = Inr bundle_sums"
  unfolding bundle_manifest_def
  by (rule sums_roundtrip) (use sample_clean sample_manifest(1) in \<open>simp_all add: bundle_manifest_def MaxManifestSize_def\<close>)

definition bundle_key :: string where
  "bundle_key = bundle_hash []"

lemma sample_verify: "Verify (be_signed bundle_sample) bundle_key bundle_manifest ''ok'' = Inr bundle_sums"
proof -
  obtain b where "hex_decode bundle_key = Some b" "length b = 32" using bundle_hash_decodes unfolding bundle_key_def by blast
  then show ?thesis using sample_manifest(1) by (simp add: Verify_def sample_parse MaxManifestSize_def bundle_sample_def)
qed

definition bundle_checked :: "string smap" where
  "bundle_checked = AList.update sig_name (bundle_hash ''ok'') (AList.update sums_name (bundle_hash bundle_manifest) bundle_sums)"

lemma sample_named:
  "\<not> list_ex (\<lambda>p. fst p = sums_name \<or> fst p = sig_name \<or> map_of bundle_files (fst p) = None) bundle_sums"
  "List.find (\<lambda>n. map_of bundle_files n = None) required_files = None"
  by code_simp+

lemma sample_signed: "signed_sums bundle_sample bundle_key bundle_files s = (Inr bundle_checked, s)"
proof -
  have "length bundle_manifest = 529" using sample_manifest(1) by simp
  then show ?thesis
  by (simp add: signed_sums_def and_then_def readFile_def sample_meta MaxManifestSize_def bundle_sample_world limited_def
      bundle_content_def yield_value_def sums_sig [symmetric] check_ok_def sample_verify sample_manifest sample_named
      bundle_checked_def)
qed

lemma sample_filled:
  "case fill_and_publish bundle_sample bundle_files bundle_checked \<lparr>rd_qemu = None, rd_stage = Some [], rd_world = ()\<rparr> of
     (r, s1) \<Rightarrow> r = Inr () \<and> rd_qemu s1 \<noteq> None"
  by code_simp

lemma sample_install:
  "case Install bundle_sample (bundle_hash ''archive'') bundle_key no_runtime of
     (r, s1) \<Rightarrow> r = Inr () \<and> rd_qemu s1 \<noteq> None"
proof -
  have "absent bundle_sample no_runtime = (Inr (), no_runtime)"
    by (simp add: absent_def and_then_def bundle_sample_world yield_value_def no_runtime_def)
  moreover have "no_runtime\<lparr>rd_stage := Some []\<rparr> = \<lparr>rd_qemu = None, rd_stage = Some [], rd_world = ()\<rparr>"
    by (simp add: no_runtime_def)
  ultimately show ?thesis
    using sample_filled
    by (auto simp: Install_def and_then_def sample_archive sample_signed bundle_sample_world split: prod.splits)
qed

theorem runtime_all_or_nothing_witness:
  "\<exists>s1 t. Install bundle_sample (bundle_hash ''archive'') bundle_key no_runtime = (Inr (), s1) \<and>
     rd_qemu s1 = Some t \<and> vouched_runtime bundle_sample bundle_key t"
proof -
  have "\<forall>xs. set (be_order bundle_sample xs) = set xs" by (simp add: bundle_sample_world)
  moreover have "\<forall>d. be_hash bundle_sample d \<noteq> []" by (simp add: bundle_sample_world bundle_hash_def)
  ultimately show ?thesis
    using runtime_all_or_nothing [where env = bundle_sample and expectedHash = "bundle_hash ''archive''" and pk = bundle_key and s = no_runtime] sample_install
    by (auto split: prod.splits)
qed


theorem sums_roundtrip_witness: "Parse (render_sums bundle_sums) = Inr bundle_sums"
  by (rule sums_roundtrip) (use sample_clean sample_manifest(1) in \<open>simp_all add: bundle_manifest_def MaxManifestSize_def\<close>)

end
