(* ===== verification/Partition_Receipt.thy ===== *)
theory Partition_Receipt
  imports Go_Time
begin

text \<open>
  The receipts of a partition that wootc created (\<open>app/partition_receipt.go\<close>,
  \<open>app/partition_receipt_windows.go\<close>, the removal in \<open>app/disk_windows.go\<close>): four files whose texts are
  fields of the state, next to a world of calls. JSON is a pair of functions of the environment.
  The PowerShell texts are left out; the records are extensible, so that other theories add to them.
\<close>

record storage_receipt =
  sr_schema :: int
  sr_partition :: string
  sr_disk :: string
  sr_source_partition :: string
  sr_source_disk :: string
  sr_bytes :: int
  sr_created :: string

definition receipt_guids :: "storage_receipt \<Rightarrow> string list" where
  "receipt_guids r = [sr_partition r, sr_disk r, sr_source_partition r, sr_source_disk r]"

definition validate_receipt :: "storage_receipt \<Rightarrow> string option" where
  "validate_receipt r =
     (if sr_schema r \<noteq> 1 \<or> sr_bytes r = 0 then Some ''schema or size''
      else if list_ex (\<lambda>g. \<not> uuid_shape is_lower_hex g \<or> g = ''00000000-0000-0000-0000-000000000000'') (receipt_guids r)
      then Some ''stable GPT identity''
      else if sr_partition r = sr_source_partition r \<or> sr_disk r \<noteq> sr_source_disk r then Some ''not dedicated''
      else if parse_rfc3339 (sr_created r) = None then Some ''timestamp''
      else None)"

text \<open>The file \<open>creation.json\<close> and its three markers.\<close>

datatype receipt_file = CreationReceipt | RemovalReceipt | DeletedReceipt | CompleteReceipt

datatype write_fault = NoFault | BeforeCreate string | AfterBytes nat string

datatype removal_call = DeletePartition string storage_receipt | ExtendWindows storage_receipt

text \<open>
  \<open>pe_audit\<close> is the audit of the receipt directory and of a protected file, with everything else that may
  go wrong while it is read except its absence; \<open>pe_lstat\<close> the same for the look at the removal marker.
  \<open>pe_decode\<close> is the strict decoding of one JSON object with nothing after it.
\<close>

record 'w receipt_env =
  pe_decode :: "string \<Rightarrow> storage_receipt option"
  pe_encode :: "storage_receipt \<Rightarrow> string"
  pe_audit :: "receipt_file \<Rightarrow> 'w \<Rightarrow> string option \<times> 'w"
  pe_lstat :: "'w \<Rightarrow> string option \<times> 'w"
  pe_write :: "receipt_file \<Rightarrow> 'w \<Rightarrow> write_fault \<times> 'w"
  pe_remove :: "receipt_file \<Rightarrow> 'w \<Rightarrow> string option \<times> 'w"
  pe_removal :: "removal_call \<Rightarrow> 'w \<Rightarrow> string option \<times> 'w"

record 'w receipts =
  rs_file :: "receipt_file \<Rightarrow> string option"
  rs_world :: 'w

definition ask :: "('w \<Rightarrow> 'a \<times> 'w) \<Rightarrow> ('w, 'z) receipts_scheme \<Rightarrow> 'a \<times> ('w, 'z) receipts_scheme" where
  "ask f s = (case f (rs_world s) of (x, w) \<Rightarrow> (x, s\<lparr>rs_world := w\<rparr>))"

definition set_receipt :: "receipt_file \<Rightarrow> string option \<Rightarrow> ('w, 'z) receipts_scheme \<Rightarrow> ('w, 'z) receipts_scheme" where
  "set_receipt f t s = s\<lparr>rs_file := (rs_file s)(f := t)\<rparr>"

definition decodeStoragePartitionReceipt :: "'w receipt_env \<Rightarrow> string \<Rightarrow> string + storage_receipt" where
  "decodeStoragePartitionReceipt env data =
     (if 4096 < length data then Inl ''too large''
      else (case pe_decode env data of
              None \<Rightarrow> Inl ''JSON''
            | Some r \<Rightarrow> (case validate_receipt r of Some e \<Rightarrow> Inl e | None \<Rightarrow> Inr r)))"

definition readPartitionReceiptFile ::
  "'w receipt_env \<Rightarrow> receipt_file \<Rightarrow> ('w, 'z) receipts_scheme \<Rightarrow> storage_receipt file_read \<times> ('w, 'z) receipts_scheme" where
  "readPartitionReceiptFile env f s =
     (case ask (pe_audit env f) s of
        (Some e, s1) \<Rightarrow> (Unreadable e, s1)
      | (None, s1) \<Rightarrow>
          ((case rs_file s1 f of
              None \<Rightarrow> Missing
            | Some data \<Rightarrow> (case decodeStoragePartitionReceipt env data of Inl e \<Rightarrow> Unreadable e | Inr r \<Rightarrow> Found r)), s1))"

text \<open>\<open>O_EXCL\<close>, so an existing receipt is never replaced; a failing write leaves what it wrote.\<close>

definition persistNewStoragePartitionReceipt ::
  "'w receipt_env \<Rightarrow> receipt_file \<Rightarrow> storage_receipt \<Rightarrow> ('w, 'z) receipts_scheme \<Rightarrow> string option \<times> ('w, 'z) receipts_scheme" where
  "persistNewStoragePartitionReceipt env f r s =
     (case validate_receipt r of
        Some e \<Rightarrow> (Some e, s)
      | None \<Rightarrow>
          if rs_file s f \<noteq> None then (Some ''exists'', s)
          else (case ask (pe_write env f) s of
                  (NoFault, s1) \<Rightarrow> (None, set_receipt f (Some (pe_encode env r)) s1)
                | (BeforeCreate e, s1) \<Rightarrow> (Some e, s1)
                | (AfterBytes n e, s1) \<Rightarrow> (Some e, set_receipt f (Some (take n (pe_encode env r))) s1)))"

definition readStoragePartitionReceipt ::
  "'w receipt_env \<Rightarrow> ('w, 'z) receipts_scheme \<Rightarrow> storage_receipt file_read \<times> ('w, 'z) receipts_scheme" where
  "readStoragePartitionReceipt env s =
     (case readPartitionReceiptFile env CreationReceipt s of
        (Missing, s1) \<Rightarrow> readPartitionReceiptFile env CompleteReceipt s1
      | (r, s1) \<Rightarrow> (r, s1))"

text \<open>A marker is right, missing, or not to be trusted.\<close>

datatype marker = MarkerRight | MarkerMissing | MarkerWrong string

definition verifyPartitionRemovalMarker ::
  "'w receipt_env \<Rightarrow> storage_receipt \<Rightarrow> receipt_file \<Rightarrow> ('w, 'z) receipts_scheme \<Rightarrow> marker \<times> ('w, 'z) receipts_scheme" where
  "verifyPartitionRemovalMarker env r f s =
     (case readPartitionReceiptFile env f s of
        (Missing, s1) \<Rightarrow> (MarkerMissing, s1)
      | (Unreadable e, s1) \<Rightarrow> (MarkerWrong e, s1)
      | (Found r1, s1) \<Rightarrow> ((if r1 = r then MarkerRight else MarkerWrong ''mismatch''), s1))"

definition markStoragePartitionRemoval ::
  "'w receipt_env \<Rightarrow> storage_receipt \<Rightarrow> ('w, 'z) receipts_scheme \<Rightarrow> string option \<times> ('w, 'z) receipts_scheme" where
  "markStoragePartitionRemoval env r s =
     (case ask (pe_lstat env) s of
        (Some e, s1) \<Rightarrow> (Some e, s1)
      | (None, s1) \<Rightarrow>
          if rs_file s1 RemovalReceipt = None then persistNewStoragePartitionReceipt env RemovalReceipt r s1
          else (case verifyPartitionRemovalMarker env r RemovalReceipt s1 of
                  (MarkerRight, s2) \<Rightarrow> (None, s2)
                | (MarkerMissing, s2) \<Rightarrow> (Some ''missing'', s2)
                | (MarkerWrong e, s2) \<Rightarrow> (Some e, s2)))"

definition safe_letter :: "string \<Rightarrow> bool" where
  "safe_letter drive \<longleftrightarrow> (\<exists>c\<in>set drive. drive = [c] \<and> CHR 0x41 \<le> c \<and> c \<le> CHR 0x5A \<and> c \<noteq> CHR ''C'')"

definition extend_windows ::
  "'w receipt_env \<Rightarrow> storage_receipt \<Rightarrow> ('w, 'z) receipts_scheme \<Rightarrow> string option \<times> ('w, 'z) receipts_scheme" where
  "extend_windows env r = ask (pe_removal env (ExtendWindows r))"

definition removePartitionAndExtendC ::
  "'w receipt_env \<Rightarrow> string \<Rightarrow> storage_receipt \<Rightarrow> ('w, 'z) receipts_scheme \<Rightarrow> string option \<times> ('w, 'z) receipts_scheme" where
  "removePartitionAndExtendC env drive r s =
     (case verifyPartitionRemovalMarker env r RemovalReceipt s of
        (MarkerMissing, s1) \<Rightarrow> (Some ''explicit removal receipt required'', s1)
      | (MarkerWrong e, s1) \<Rightarrow> (Some e, s1)
      | (MarkerRight, s1) \<Rightarrow>
          (case validate_receipt r of
             Some e \<Rightarrow> (Some e, s1)
           | None \<Rightarrow>
               if drive \<noteq> [] \<and> \<not> safe_letter drive then (Some ''invalid drive'', s1)
               else (case verifyPartitionRemovalMarker env r DeletedReceipt s1 of
                       (MarkerWrong e, s2) \<Rightarrow> (Some e, s2)
                     | (MarkerRight, s2) \<Rightarrow> extend_windows env r s2
                     | (MarkerMissing, s2) \<Rightarrow>
                         (case ask (pe_removal env (DeletePartition drive r)) s2 of
                            (Some e, s3) \<Rightarrow> (Some e, s3)
                          | (None, s3) \<Rightarrow>
                              (case persistNewStoragePartitionReceipt env DeletedReceipt r s3 of
                                 (Some e, s4) \<Rightarrow> (Some e, s4)
                               | (None, s4) \<Rightarrow> extend_windows env r s4)))))"

text \<open>Removing a file that is not there is no error to the cleanup; the last removal must succeed.\<close>

definition remove_receipt ::
  "'w receipt_env \<Rightarrow> receipt_file \<Rightarrow> ('w, 'z) receipts_scheme \<Rightarrow> string option \<times> ('w, 'z) receipts_scheme" where
  "remove_receipt env f s =
     (case ask (pe_remove env f) s of
        (Some e, s1) \<Rightarrow> (Some e, s1)
      | (None, s1) \<Rightarrow> (None, set_receipt f None s1))"

fun remove_receipts ::
  "'w receipt_env \<Rightarrow> receipt_file list \<Rightarrow> ('w, 'z) receipts_scheme \<Rightarrow> string option \<times> ('w, 'z) receipts_scheme" where
  "remove_receipts env [] s = (None, s)"
| "remove_receipts env (f # fs) s =
     (case remove_receipt env f s of (Some e, s1) \<Rightarrow> (Some e, s1) | (None, s1) \<Rightarrow> remove_receipts env fs s1)"

definition close_receipts ::
  "'w receipt_env \<Rightarrow> ('w, 'z) receipts_scheme \<Rightarrow> string option \<times> ('w, 'z) receipts_scheme" where
  "close_receipts env = remove_receipts env [RemovalReceipt, DeletedReceipt, CreationReceipt, CompleteReceipt]"

definition finalizeStoragePartitionRemoval ::
  "'w receipt_env \<Rightarrow> storage_receipt \<Rightarrow> ('w, 'z) receipts_scheme \<Rightarrow> string option \<times> ('w, 'z) receipts_scheme" where
  "finalizeStoragePartitionRemoval env r s =
     (case readPartitionReceiptFile env CompleteReceipt s of
        (Unreadable e, s1) \<Rightarrow> (Some e, s1)
      | (Found done_r, s1) \<Rightarrow> if done_r \<noteq> r then (Some ''mismatch'', s1) else close_receipts env s1
      | (Missing, s1) \<Rightarrow>
          (case readPartitionReceiptFile env DeletedReceipt s1 of
             (Missing, s2) \<Rightarrow> (Some ''missing'', s2)
           | (Unreadable e, s2) \<Rightarrow> (Some e, s2)
           | (Found gone, s2) \<Rightarrow>
               if gone \<noteq> r then (Some ''mismatch'', s2)
               else (case persistNewStoragePartitionReceipt env CompleteReceipt r s2 of
                       (Some e, s3) \<Rightarrow> (Some e, s3)
                     | (None, s3) \<Rightarrow> close_receipts env s3)))"

end
