(* ===== verification/Uninstall.thy ===== *)
theory Uninstall
  imports Partition_Receipt Lifecycle Target_Image
begin

text \<open>
  The uninstaller on Windows (\<open>app/installer_windows.go\<close>), the scrubbing of staged credentials
  (\<open>app/secret_scrub.go\<close>), and which of its own files a running image blocks
  (\<open>app/uninstall_entry.go\<close>). The drives are a list of entries; what an unlinked file leaves readable
  in its clusters is kept too. Tasks, boot entries, ESP and registry are calls on the world.
\<close>

subsection \<open>Drives\<close>

text \<open>A drive letter and the components below its root.\<close>

type_synonym win_path = "string \<times> string list"

datatype disk_entry = RegularFile string | Directory | LinkEntry

record 'w uninstall_state = "'w receipts" +
  us_files :: "(win_path \<times> disk_entry) list"
  us_freed :: "(win_path \<times> string) list"

datatype uninstall_call =
    AssessPartition string storage_receipt | CompanionContents | LockDisk win_path | DiskReleased win_path
  | UnregisterTasks | RestorePower | DropAppsEntry | DeleteBootEntries | Disarm | CleanupEsp | CleanupCompanion

text \<open>
  \<open>ue_stat\<close> is an error of a stat other than that there is nothing; \<open>ue_wipe\<close> the bytes after which
  overwriting failed; \<open>ue_remove_all\<close> which entries a failing \<open>RemoveAll\<close> keeps; \<open>ue_glob\<close> whether a
  directory could be listed; \<open>ue_vanished\<close> which entries a PowerShell helper took away. \<open>ue_lists_wootc\<close> is the regular expression on the listing of the store.
\<close>

record 'w uninstall_env =
  ue_receipts :: "'w receipt_env"
  ue_volumes :: "'w \<Rightarrow> (string \<times> string) list \<times> 'w"
  ue_trusted :: "win_path \<Rightarrow> 'w \<Rightarrow> string option \<times> 'w"
  ue_state :: "string \<Rightarrow> 'w \<Rightarrow> (lifecycle_state \<times> bool) \<times> 'w"
  ue_evidence :: "string \<Rightarrow> 'w \<Rightarrow> string option \<times> 'w"
  ue_location :: "storage_receipt \<Rightarrow> 'w \<Rightarrow> (string + string option) \<times> 'w"
  ue_call :: "uninstall_call \<Rightarrow> 'w \<Rightarrow> string option \<times> 'w"
  ue_bcdedit :: "string list \<Rightarrow> 'w \<Rightarrow> (string \<times> string option) \<times> 'w"
  ue_lists_wootc :: "string \<Rightarrow> bool"
  ue_esp :: "'w \<Rightarrow> (string + string + bool) \<times> 'w"
  ue_registry :: "'w \<Rightarrow> (string \<times> string option) \<times> 'w"
  ue_self :: "'w \<Rightarrow> (string + string) \<times> 'w"
  ue_rename :: "'w \<Rightarrow> string option \<times> 'w"
  ue_aside :: win_path
  ue_stat :: "win_path \<Rightarrow> 'w \<Rightarrow> string option \<times> 'w"
  ue_open :: "win_path \<Rightarrow> 'w \<Rightarrow> string option \<times> 'w"
  ue_wipe :: "win_path \<Rightarrow> 'w \<Rightarrow> nat option \<times> 'w"
  ue_remove :: "win_path \<Rightarrow> 'w \<Rightarrow> string option \<times> 'w"
  ue_remove_all :: "win_path \<Rightarrow> 'w \<Rightarrow> (win_path \<Rightarrow> bool) option \<times> 'w"
  ue_glob :: "win_path \<Rightarrow> 'w \<Rightarrow> bool \<times> 'w"
  ue_vanished :: "'w \<Rightarrow> win_path \<Rightarrow> bool"

definition call :: "'w uninstall_env \<Rightarrow> uninstall_call \<Rightarrow> 'w uninstall_state \<Rightarrow> string option \<times> 'w uninstall_state" where
  "call env c = ask (ue_call env c)"

definition under :: "win_path \<Rightarrow> win_path \<Rightarrow> bool" where
  "under d p \<longleftrightarrow> fst d = fst p \<and> take (length (snd d)) (snd p) = snd d"

definition path_at :: "win_path \<Rightarrow> string list \<Rightarrow> win_path" where
  "path_at d parts = (fst d, snd d @ parts)"

datatype stat_result = Exists | NotThere | StatFailed string

definition stat_path :: "'w uninstall_env \<Rightarrow> win_path \<Rightarrow> 'w uninstall_state \<Rightarrow> stat_result \<times> 'w uninstall_state" where
  "stat_path env p s =
     (case ask (ue_stat env p) s of
        (Some e, s1) \<Rightarrow> (StatFailed e, s1)
      | (None, s1) \<Rightarrow> ((if map_of (us_files s1) p = None then NotThere else Exists), s1))"

text \<open>Entries are unlinked; the contents of regular ones stay readable in freed clusters.\<close>

definition freed_by :: "(win_path \<Rightarrow> bool) \<Rightarrow> (win_path \<times> disk_entry) list \<Rightarrow> (win_path \<times> string) list" where
  "freed_by P fs = concat (map (\<lambda>(p, e). case e of RegularFile c \<Rightarrow> if P p then [(p, c)] else [] | _ \<Rightarrow> []) fs)"

definition unlink :: "(win_path \<Rightarrow> bool) \<Rightarrow> 'w uninstall_state \<Rightarrow> 'w uninstall_state" where
  "unlink P s = s\<lparr>us_files := filter (\<lambda>x. \<not> P (fst x)) (us_files s), us_freed := freed_by P (us_files s) @ us_freed s\<rparr>"

definition remove_path :: "'w uninstall_env \<Rightarrow> win_path \<Rightarrow> 'w uninstall_state \<Rightarrow> string option \<times> 'w uninstall_state" where
  "remove_path env p s =
     (case ask (ue_remove env p) s of
        (Some e, s1) \<Rightarrow> (Some e, s1)
      | (None, s1) \<Rightarrow>
          if map_of (us_files s1) p = None then (Some ''not found'', s1)
          else if list_ex (\<lambda>x. under p (fst x) \<and> fst x \<noteq> p) (us_files s1) then (Some ''not empty'', s1)
          else (None, unlink (\<lambda>q. q = p) s1))"

definition remove_tree :: "'w uninstall_env \<Rightarrow> win_path \<Rightarrow> 'w uninstall_state \<Rightarrow> 'w uninstall_state" where
  "remove_tree env p s =
     (case ask (ue_remove_all env p) s of
        (None, s1) \<Rightarrow> unlink (under p) s1
      | (Some keep, s1) \<Rightarrow> unlink (\<lambda>q. under p q \<and> \<not> keep q) s1)"

subsection \<open>Scrubbing\<close>

definition zeros :: "nat \<Rightarrow> string" where
  "zeros n = replicate n (CHR 0x00)"

definition overwrite :: "win_path \<Rightarrow> string \<Rightarrow> 'w uninstall_state \<Rightarrow> 'w uninstall_state" where
  "overwrite p c s = s\<lparr>us_files := map (\<lambda>(q, e). (q, if q = p then RegularFile c else e)) (us_files s)\<rparr>"

text \<open>The zeros reach the file up to the write that fails; neither error is reported.\<close>

definition wipe_file :: "'w uninstall_env \<Rightarrow> win_path \<Rightarrow> 'w uninstall_state \<Rightarrow> 'w uninstall_state" where
  "wipe_file env p s =
     (case map_of (us_files s) p of
        Some (RegularFile c) \<Rightarrow>
          if c = [] then s
          else (case ask (ue_open env p) s of
                  (Some e, s1) \<Rightarrow> s1
                | (None, s1) \<Rightarrow>
                    (case ask (ue_wipe env p) s1 of
                       (None, s2) \<Rightarrow> overwrite p (zeros (length c)) s2
                     | (Some n, s2) \<Rightarrow> overwrite p (zeros (min n (length c)) @ drop n c) s2))
      | _ \<Rightarrow> s)"

definition scrubFile :: "'w uninstall_env \<Rightarrow> win_path \<Rightarrow> 'w uninstall_state \<Rightarrow> string option \<times> 'w uninstall_state" where
  "scrubFile env p s =
     (case stat_path env p s of
        (NotThere, s1) \<Rightarrow> (None, s1)
      | (StatFailed e, s1) \<Rightarrow> (Some e, s1)
      | (Exists, s1) \<Rightarrow> remove_path env p (wipe_file env p s1))"

definition is_envelope :: "win_path \<Rightarrow> win_path \<Rightarrow> bool" where
  "is_envelope dir p \<longleftrightarrow> under dir p \<and> length (snd p) = Suc (length (snd dir)) \<and> has_suffix (last (snd p)) ''.enc''"

definition installSecretFiles :: "'w uninstall_env \<Rightarrow> win_path \<Rightarrow> 'w uninstall_state \<Rightarrow> win_path list \<times> 'w uninstall_state" where
  "installSecretFiles env inst s =
     (let dir = path_at inst [''slurp'', ''session'']; key = path_at inst [''bitlocker-key.txt''] in
      case ask (ue_glob env dir) s of
        (readable, s1) \<Rightarrow> (key # (if readable then filter (is_envelope dir) (map fst (us_files s1)) else []), s1))"

fun scrub_all :: "'w uninstall_env \<Rightarrow> win_path list \<Rightarrow> 'w uninstall_state \<Rightarrow> win_path list \<times> 'w uninstall_state" where
  "scrub_all env [] s = ([], s)"
| "scrub_all env (p # ps) s =
     (case scrubFile env p s of
        (e, s1) \<Rightarrow> (case scrub_all env ps s1 of (bad, s2) \<Rightarrow> ((if e = None then bad else p # bad), s2)))"

definition scrubInstallSecrets :: "'w uninstall_env \<Rightarrow> win_path \<Rightarrow> 'w uninstall_state \<Rightarrow> win_path list \<times> 'w uninstall_state" where
  "scrubInstallSecrets env inst s = (case installSecretFiles env inst s of (ps, s1) \<Rightarrow> scrub_all env ps s1)"

subsection \<open>The running image\<close>

text \<open>\<open>filepath.Clean\<close> on Windows, for a path with slashes only and at most a drive letter in front.\<close>

definition clean_rest :: "string \<Rightarrow> string" where
  "clean_rest rest =
     (if has_prefix rest ''/''
      then slash # join_with ''/'' (dropWhile (\<lambda>c. c = ''..'') (rev (fold clean_component (split_on slash rest) [])))
      else path_clean rest)"

definition volume_length :: "string \<Rightarrow> nat" where
  "volume_length p = (case p of a # b # _ \<Rightarrow> (if is_letter a \<and> b = CHR '':'' then 2 else 0) | _ \<Rightarrow> 0)"

definition win_clean :: "string \<Rightarrow> string" where
  "win_clean p =
     (let v = volume_length p; rest = drop v p in
      if rest = [] then take v p @ ''.'' else replace_char slash backslash (take v p @ clean_rest rest))"

definition norm_path :: "string \<Rightarrow> string" where
  "norm_path p = to_lower (win_clean (replace_char backslash slash p))"

definition pathWithin :: "string \<Rightarrow> string \<Rightarrow> bool" where
  "pathWithin path dir =
     (let p = norm_path path; d = norm_path dir in
      if d = [] \<or> d = ''.'' then False else p = d \<or> has_prefix p (trim_suffix d ''/'' @ ''/''))"

definition uninstallRemovesImage :: "string \<Rightarrow> string list \<Rightarrow> bool" where
  "uninstallRemovesImage self removed = list_ex (pathWithin self) removed"

definition path_text :: "win_path \<Rightarrow> string" where
  "path_text p = fst p @ '':'' @ concat (map (\<lambda>c. backslash # c) (snd p))"

definition moveRunningImageAside :: "'w uninstall_env \<Rightarrow> win_path list \<Rightarrow> 'w uninstall_state \<Rightarrow> string option \<times> 'w uninstall_state" where
  "moveRunningImageAside env removed s =
     (case ask (ue_self env) s of
        (Inl e, s1) \<Rightarrow> (None, s1)
      | (Inr self, s1) \<Rightarrow>
          if \<not> uninstallRemovesImage self (map path_text removed) then (None, s1)
          else (case ask (ue_rename env) s1 of
                  (Some e, s2) \<Rightarrow> (Some e, s2)
                | (None, s2) \<Rightarrow>
                    (None, s2\<lparr>us_files := map (\<lambda>(p, e). (if equal_fold (path_text p) self then ue_aside env else p, e)) (us_files s2)\<rparr>)))"

subsection \<open>What is there to remove\<close>

record uninstall_info =
  ui_found :: bool
  ui_drive :: string
  ui_disk :: "win_path option"
  ui_pending :: bool
  ui_deployed :: bool
  ui_orphaned :: bool
  ui_dedicated :: bool
  ui_label :: string

definition nothing_found :: uninstall_info where
  "nothing_found = \<lparr>ui_found = False, ui_drive = [], ui_disk = None, ui_pending = False, ui_deployed = False,
     ui_orphaned = False, ui_dedicated = False, ui_label = []\<rparr>"

definition dedicated_label :: string where "dedicated_label = ''wootc-data''"

definition wootc_dir :: "string \<Rightarrow> win_path" where
  "wootc_dir d = (d, [''wootc''])"

text \<open>Only drives whose directory exists and is trusted are looked at.\<close>

fun trusted_drives :: "'w uninstall_env \<Rightarrow> string list \<Rightarrow> 'w uninstall_state \<Rightarrow> string list \<times> 'w uninstall_state" where
  "trusted_drives env [] s = ([], s)"
| "trusted_drives env (d # ds) s =
     (case stat_path env (wootc_dir d) s of
        (Exists, s1) \<Rightarrow>
          (case ask (ue_trusted env (wootc_dir d)) s1 of
             (e, s2) \<Rightarrow> (case trusted_drives env ds s2 of (ok, s3) \<Rightarrow> ((if e = None then d # ok else ok), s3)))
      | (_, s1) \<Rightarrow> trusted_drives env ds s1)"

text \<open>The partition is dedicated when its receipt can be read and its contents are all ours.\<close>

definition fillDedicatedPartitionInfo :: "'w uninstall_env \<Rightarrow> string \<Rightarrow> uninstall_info \<Rightarrow> 'w uninstall_state \<Rightarrow> uninstall_info \<times> 'w uninstall_state" where
  "fillDedicatedPartitionInfo env d info s =
     (case readStoragePartitionReceipt (ue_receipts env) s of
        (Found r, s1) \<Rightarrow> (case call env (AssessPartition d r) s1 of (e, s2) \<Rightarrow> (info\<lparr>ui_dedicated := e = None\<rparr>, s2))
      | (_, s1) \<Rightarrow> (info\<lparr>ui_dedicated := False\<rparr>, s1))"

definition with_partition :: "'w uninstall_env \<Rightarrow> string \<Rightarrow> uninstall_info \<Rightarrow> 'w uninstall_state \<Rightarrow> uninstall_info \<times> 'w uninstall_state" where
  "with_partition env d info s =
     (if d = ''C'' then (info, s)
      else (case fillDedicatedPartitionInfo env d info s of
              (i, s1) \<Rightarrow> ((if ui_dedicated i then i\<lparr>ui_label := dedicated_label\<rparr> else i), s1)))"

definition disk_info :: "'w uninstall_env \<Rightarrow> string \<Rightarrow> win_path \<Rightarrow> 'w uninstall_state \<Rightarrow> uninstall_info \<times> 'w uninstall_state" where
  "disk_info env d p s =
     (let ((ls, ok), s1) = ask (ue_state env d) s; (e, s2) = ask (ue_evidence env d) s1;
          pending = ok \<and> (ls_state ls = StateDeployed \<or> ls_state ls = StateHealthy)
      in with_partition env d (nothing_found\<lparr>ui_found := True, ui_drive := d, ui_disk := Some p,
           ui_deployed := e = None, ui_pending := pending \<and> e \<noteq> None\<rparr>) s2)"

fun first_existing :: "'w uninstall_env \<Rightarrow> win_path list \<Rightarrow> 'w uninstall_state \<Rightarrow> win_path option \<times> 'w uninstall_state" where
  "first_existing env [] s = (None, s)"
| "first_existing env (p # ps) s =
     (case stat_path env p s of (Exists, s1) \<Rightarrow> (Some p, s1) | (_, s1) \<Rightarrow> first_existing env ps s1)"

definition disk_paths :: "string \<Rightarrow> win_path list" where
  "disk_paths d = map (\<lambda>n. path_at (wootc_dir d) [''disks'', n]) [''root.vhdx'', ''root.disk'']"

definition attempt_files :: "string list list" where
  "attempt_files =
     [[''state.json''], [''known-folders.json''], [''disks'', ''root.disk''], [''disks'', ''root.vhdx''],
      [''install'', ''prior-power.txt''], [''install'', ''vault.json''], [''install'', ''grub.install.cfg''],
      [''install'', ''bcd-before.bak''], [''install'', ''bcd-guid.txt''], [''install'', ''armed.json''], [''install'', ''boot-txn.json''],
      [''install'', ''deployer-started.json''], [''install'', ''recovery-verdict.json''],
      [''install'', ''installed-linux-boot.json''], [''logs'', ''deployer.log''], [''logs'', ''deployer-last-journal.log'']]"

text \<open>Anything but a clear absence counts.\<close>

fun any_attempt :: "'w uninstall_env \<Rightarrow> win_path list \<Rightarrow> 'w uninstall_state \<Rightarrow> bool \<times> 'w uninstall_state" where
  "any_attempt env [] s = (False, s)"
| "any_attempt env (p # ps) s =
     (case stat_path env p s of (NotThere, s1) \<Rightarrow> any_attempt env ps s1 | (_, s1) \<Rightarrow> (True, s1))"

definition hasInstallAttempt :: "'w uninstall_env \<Rightarrow> win_path \<Rightarrow> 'w uninstall_state \<Rightarrow> bool \<times> 'w uninstall_state" where
  "hasInstallAttempt env wdir = any_attempt env (map (path_at wdir) attempt_files)"

fun find_disk :: "'w uninstall_env \<Rightarrow> string list \<Rightarrow> 'w uninstall_state \<Rightarrow> uninstall_info option \<times> 'w uninstall_state" where
  "find_disk env [] s = (None, s)"
| "find_disk env (d # ds) s =
     (case first_existing env (disk_paths d) s of
        (Some p, s1) \<Rightarrow> (case disk_info env d p s1 of (i, s2) \<Rightarrow> (Some i, s2))
      | (None, s1) \<Rightarrow> find_disk env ds s1)"

definition orphan :: "string \<Rightarrow> uninstall_info" where
  "orphan d = nothing_found\<lparr>ui_found := True, ui_drive := d, ui_orphaned := True\<rparr>"

fun find_attempt :: "'w uninstall_env \<Rightarrow> string list \<Rightarrow> 'w uninstall_state \<Rightarrow> uninstall_info option \<times> 'w uninstall_state" where
  "find_attempt env [] s = (None, s)"
| "find_attempt env (d # ds) s =
     (case hasInstallAttempt env (wootc_dir d) s of
        (True, s1) \<Rightarrow> (case with_partition env d (orphan d) s1 of (i, s2) \<Rightarrow> (Some i, s2))
      | (False, s1) \<Rightarrow> find_attempt env ds s1)"

text \<open>Whether anything of ours is still in the boot store, on the ESP or among the Apps.\<close>

definition hasWootcBCDEntry :: "'w uninstall_env \<Rightarrow> 'w uninstall_state \<Rightarrow> bool \<times> 'w uninstall_state" where
  "hasWootcBCDEntry env s =
     (case ask (ue_bcdedit env [''/enum'', ''firmware'']) s of
        ((out, err), s1) \<Rightarrow>
          if err = None \<and> ue_lists_wootc env out then (True, s1)
          else (case ask (ue_bcdedit env [''/enum'', ''{fwbootmgr}'']) s1 of
                  ((mgr, err2), s2) \<Rightarrow> (err2 = None \<and> contains_str (to_lower mgr) ''wootc'', s2)))"

definition hasWootcESPArtifacts :: "'w uninstall_env \<Rightarrow> 'w uninstall_state \<Rightarrow> bool \<times> 'w uninstall_state" where
  "hasWootcESPArtifacts env s =
     (case ask (ue_esp env) s of
        (Inl e, s1) \<Rightarrow> (False, s1)
      | (Inr (Inl e), s1) \<Rightarrow> (True, s1)
      | (Inr (Inr owned), s1) \<Rightarrow> (owned, s1))"

definition hasUninstallRegistryEntry :: "'w uninstall_env \<Rightarrow> 'w uninstall_state \<Rightarrow> bool \<times> 'w uninstall_state" where
  "hasUninstallRegistryEntry env s =
     (case ask (ue_registry env) s of ((out, err), s1) \<Rightarrow> (err = None \<and> trim_space out = ''EXISTS'', s1))"

definition getUninstallInfo :: "'w uninstall_env \<Rightarrow> 'w uninstall_state \<Rightarrow> uninstall_info \<times> 'w uninstall_state" where
  "getUninstallInfo env s =
     (let (vols, s1) = ask (ue_volumes env) s;
          (drives, s2) = trusted_drives env (''C'' # map fst vols) s1 in
      case find_disk env drives s2 of
        (Some i, s3) \<Rightarrow> (i, s3)
      | (None, s3) \<Rightarrow>
          (case find_attempt env drives s3 of
             (Some i, s4) \<Rightarrow> (i, s4)
           | (None, s4) \<Rightarrow>
               (let (vols2, s5) = ask (ue_volumes env) s4 in
                case List.find (\<lambda>v. equal_fold (snd v) dedicated_label) vols2 of
                  Some (d, label) \<Rightarrow> fillDedicatedPartitionInfo env d ((orphan d)\<lparr>ui_label := label\<rparr>) s5
                | None \<Rightarrow>
                    (case hasWootcBCDEntry env s5 of
                       (True, s6) \<Rightarrow> (orphan ''C'', s6)
                     | (False, s6) \<Rightarrow>
                         (case hasWootcESPArtifacts env s6 of
                            (True, s7) \<Rightarrow> (orphan ''C'', s7)
                          | (False, s7) \<Rightarrow>
                              (case hasUninstallRegistryEntry env s7 of
                                 (True, s8) \<Rightarrow> (orphan ''C'', s8)
                               | (False, s8) \<Rightarrow> (nothing_found, s8)))))))"

subsection \<open>Uninstalling\<close>

record uninstall_options =
  uo_delete_disk :: bool
  uo_remove_partition :: bool

datatype uninstall_problem =
    EspNotCleaned string | ImageNotMoved string | CompanionKept string | NotScrubbed "win_path list" | PartitionKept string
  | EntryPresent | BootFilesPresent | RegistryPresent | NotRemoved win_path | NotFullyRemoved win_path

datatype uninstall_error = RefusedUninstall string | IncompleteUninstall "uninstall_problem list"

text \<open>
  With a partition to remove, the receipt decides: an error, an early end of an earlier removal, or the
  drive to go on with. A marker that is not there is the only excuse for its absence.
\<close>

datatype removal_plan = Stop "string option" | GoOn string storage_receipt

definition finish_earlier :: "'w uninstall_env \<Rightarrow> storage_receipt \<Rightarrow> 'w uninstall_state \<Rightarrow> removal_plan \<times> 'w uninstall_state" where
  "finish_earlier env r s =
     (case verifyPartitionRemovalMarker (ue_receipts env) r DeletedReceipt s of
        (MarkerRight, s1) \<Rightarrow>
          (case removePartitionAndExtendC (ue_receipts env) [] r s1 of
             (Some e, s2) \<Rightarrow> (Stop (Some e), s2)
           | (None, s2) \<Rightarrow> (case finalizeStoragePartitionRemoval (ue_receipts env) r s2 of (e, s3) \<Rightarrow> (Stop e, s3)))
      | (_, s1) \<Rightarrow> (Stop (Some ''partition absent without recorded prior deletion observation''), s1))"

definition bind_partition :: "'w uninstall_env \<Rightarrow> uninstall_info \<Rightarrow> string \<Rightarrow> storage_receipt \<Rightarrow> 'w uninstall_state \<Rightarrow> removal_plan \<times> 'w uninstall_state" where
  "bind_partition env info bound r s =
     (if ui_found info \<and> ui_drive info \<noteq> bound then (Stop (Some ''different installation''), s)
      else (case call env (AssessPartition bound r) s of
              (Some e, s1) \<Rightarrow> (Stop (Some e), s1)
            | (None, s1) \<Rightarrow>
                (case call env CompanionContents s1 of
                   (Some e, s2) \<Rightarrow> (Stop (Some e), s2)
                 | (None, s2) \<Rightarrow>
                     (case markStoragePartitionRemoval (ue_receipts env) r s2 of
                        (Some e, s3) \<Rightarrow> (Stop (Some e), s3)
                      | (None, s3) \<Rightarrow> (GoOn bound r, s3)))))"

definition plan_removal :: "'w uninstall_env \<Rightarrow> uninstall_info \<Rightarrow> 'w uninstall_state \<Rightarrow> removal_plan \<times> 'w uninstall_state" where
  "plan_removal env info s =
     (case readStoragePartitionReceipt (ue_receipts env) s of
        (Found r, s1) \<Rightarrow>
          (case ask (ue_location env r) s1 of
             (Inl e, s2) \<Rightarrow> (Stop (Some e), s2)
           | (Inr place, s2) \<Rightarrow>
               (case verifyPartitionRemovalMarker (ue_receipts env) r CompleteReceipt s2 of
                  (MarkerRight, s3) \<Rightarrow>
                    (if place \<noteq> None then (Stop (Some ''completed removal identity unexpectedly exists again''), s3)
                     else (case finalizeStoragePartitionRemoval (ue_receipts env) r s3 of (e, s4) \<Rightarrow> (Stop e, s4)))
                | (MarkerWrong e, s3) \<Rightarrow> (Stop (Some e), s3)
                | (MarkerMissing, s3) \<Rightarrow>
                    (case place of
                       None \<Rightarrow> finish_earlier env r s3
                     | Some bound \<Rightarrow> bind_partition env info bound r s3)))
      | (_, s1) \<Rightarrow> (Stop (Some ''creation ownership is missing or unsafe''), s1))"

definition root_disk :: "string \<Rightarrow> win_path" where
  "root_disk d = path_at (wootc_dir d) [''disks'', ''root.disk'']"

text \<open>No virtual machine may hold a disk; the locks are held until the end.\<close>

fun lock_disks :: "'w uninstall_env \<Rightarrow> string list \<Rightarrow> 'w uninstall_state \<Rightarrow> string option \<times> 'w uninstall_state" where
  "lock_disks env [] s = (None, s)"
| "lock_disks env (d # ds) s =
     (case call env (LockDisk (root_disk d)) s of
        (Some e, s1) \<Rightarrow> (Some e, s1)
      | (None, s1) \<Rightarrow>
          (case call env (DiskReleased (root_disk d)) s1 of
             (Some e, s2) \<Rightarrow> (Some e, s2)
           | (None, s2) \<Rightarrow> lock_disks env ds s2))"

definition loose_files :: "string list" where
  "loose_files = [''state.json'', ''channel.txt'', ''brand.css'', ''brand.json'', ''e2e-drive.json'', ''e2e-drive-state.json'']"

definition remove_all :: "'w uninstall_env \<Rightarrow> win_path list \<Rightarrow> 'w uninstall_state \<Rightarrow> 'w uninstall_state" where
  "remove_all env ps s = fold (remove_tree env) ps s"

definition remove_each :: "'w uninstall_env \<Rightarrow> win_path list \<Rightarrow> 'w uninstall_state \<Rightarrow> 'w uninstall_state" where
  "remove_each env ps s = fold (\<lambda>p s. snd (remove_path env p s)) ps s"

definition evidence_file :: "string \<Rightarrow> win_path" where
  "evidence_file d = path_at (wootc_dir d) [''install'', ''installed-linux-boot.json'']"

definition clean_dir :: "'w uninstall_env \<Rightarrow> bool \<Rightarrow> string \<Rightarrow> 'w uninstall_state \<Rightarrow> uninstall_problem list \<times> 'w uninstall_state" where
  "clean_dir env delete d s =
     (case stat_path env (wootc_dir d) s of
        (Exists, s1) \<Rightarrow>
          (let (bad, s2) = scrubInstallSecrets env (path_at (wootc_dir d) [''install'']) s1;
               s3 = remove_each env [evidence_file d] s2;
               s4 = remove_all env (map (\<lambda>x. path_at (wootc_dir d) [x]) [''install'', ''bundle'', ''cache'', ''logs'']) s3;
               s5 = remove_each env (map (\<lambda>x. path_at (wootc_dir d) [x]) loose_files) s4;
               (disk, s6) = first_existing env (map (\<lambda>n. path_at (wootc_dir d) [''disks'', n]) [''root.disk'', ''root.vhdx'']) s5
           in (if bad = [] then [] else [NotScrubbed bad],
               if delete \<or> disk = None then remove_all env [path_at (wootc_dir d) [''disks''], wootc_dir d] s6 else s6))
      | (_, s1) \<Rightarrow> ([], s1))"

definition helper_done :: "'w uninstall_env \<Rightarrow> 'w uninstall_state \<Rightarrow> 'w uninstall_state" where
  "helper_done env s = unlink (ue_vanished env (rs_world s)) s"

fun clean_drives :: "'w uninstall_env \<Rightarrow> uninstall_options \<Rightarrow> string list \<Rightarrow> 'w uninstall_state \<Rightarrow> uninstall_problem list \<times> 'w uninstall_state" where
  "clean_drives env opts [] s = ([], s)"
| "clean_drives env opts (d # ds) s =
     (let (ps, s1) = (if uo_remove_partition opts
                      then (if d = ''C'' then (case call env CleanupCompanion s of
                                               (None, s1) \<Rightarrow> ([], helper_done env s1)
                                             | (Some e, s1) \<Rightarrow> ([CompanionKept e], helper_done env s1)) else ([], s))
                      else clean_dir env (uo_delete_disk opts) d s);
          (qs, s2) = clean_drives env opts ds s1
      in (ps @ qs, s2))"

definition problem_if :: "bool \<Rightarrow> uninstall_problem \<Rightarrow> uninstall_problem list" where
  "problem_if b p = (if b then [p] else [])"

definition left_over :: "'w uninstall_env \<Rightarrow> (win_path \<Rightarrow> uninstall_problem) \<Rightarrow> win_path \<Rightarrow> 'w uninstall_state \<Rightarrow> uninstall_problem list \<times> 'w uninstall_state" where
  "left_over env f p s = (case stat_path env p s of (r, s1) \<Rightarrow> (problem_if (r = Exists) (f p), s1))"

fun left_overs :: "'w uninstall_env \<Rightarrow> ((win_path \<Rightarrow> uninstall_problem) \<times> win_path) list \<Rightarrow> 'w uninstall_state \<Rightarrow> uninstall_problem list \<times> 'w uninstall_state" where
  "left_overs env [] s = ([], s)"
| "left_overs env ((f, p) # ps) s =
     (let (a, s1) = left_over env f p s; (b, s2) = left_overs env ps s1 in (a @ b, s2))"

definition verifyUninstallClean :: "'w uninstall_env \<Rightarrow> uninstall_options \<Rightarrow> string \<Rightarrow> 'w uninstall_state \<Rightarrow> uninstall_problem list \<times> 'w uninstall_state" where
  "verifyUninstallClean env opts d s =
     (let (entry, s1) = hasWootcBCDEntry env s; (files, s2) = hasWootcESPArtifacts env s1;
          (reg, s3) = hasUninstallRegistryEntry env s2;
          paths = concat (map (\<lambda>x. [(NotRemoved, path_at (wootc_dir x) [''install'']), (NotRemoved, evidence_file x)]) [d, ''C'']) @
            (if uo_delete_disk opts \<or> uo_remove_partition opts then map (\<lambda>x. (NotFullyRemoved, wootc_dir x)) [d, ''C''] else []);
          (left, s4) = left_overs env paths s3
      in (problem_if entry EntryPresent @ problem_if files BootFilesPresent @ problem_if reg RegistryPresent @ left, s4))"

text \<open>From here on things are removed. The receipt is there when a partition is to go.\<close>

definition carry_out :: "'w uninstall_env \<Rightarrow> uninstall_options \<Rightarrow> string \<Rightarrow> storage_receipt option \<Rightarrow> 'w uninstall_state \<Rightarrow> uninstall_error option \<times> 'w uninstall_state" where
  "carry_out env opts d receipt s =
     (let targets = (if d = ''C'' then [d] else [d, ''C'']);
          s1 = snd (call env Disarm (snd (call env DeleteBootEntries (snd (call env DropAppsEntry (snd (call env RestorePower s)))))));
          (esp, s2) = call env CleanupEsp s1;
          removed = concat (map (\<lambda>x. path_at (wootc_dir x) [''install''] #
             (if uo_delete_disk opts \<or> uo_remove_partition opts then [wootc_dir x] else [])) targets);
          (moved, s3) = moveRunningImageAside env removed s2;
          (kept, s4) = clean_drives env opts targets s3;
          (gone, s5) = (case receipt of None \<Rightarrow> (None, s4) | Some r \<Rightarrow>
             (case removePartitionAndExtendC (ue_receipts env) d r s4 of (e, s5) \<Rightarrow> (e, helper_done env s5)));
          (left, s6) = verifyUninstallClean env opts d s5;
          problems = (case esp of None \<Rightarrow> [] | Some e \<Rightarrow> [EspNotCleaned e]) @
            (case moved of None \<Rightarrow> [] | Some e \<Rightarrow> [ImageNotMoved e]) @ kept @
            (case gone of None \<Rightarrow> [] | Some e \<Rightarrow> [PartitionKept e]) @ left
      in if problems \<noteq> [] then (Some (IncompleteUninstall problems), s6)
         else (case receipt of
                 None \<Rightarrow> (None, s6)
               | Some r \<Rightarrow> (case finalizeStoragePartitionRemoval (ue_receipts env) r s6 of
                              (e, s7) \<Rightarrow> (map_option RefusedUninstall e, s7))))"

definition guarded_uninstall :: "'w uninstall_env \<Rightarrow> uninstall_options \<Rightarrow> string \<Rightarrow> storage_receipt option \<Rightarrow> 'w uninstall_state \<Rightarrow> uninstall_error option \<times> 'w uninstall_state" where
  "guarded_uninstall env opts d receipt s =
     (case lock_disks env (if d = ''C'' then [d] else [d, ''C'']) s of
        (Some e, s1) \<Rightarrow> (Some (RefusedUninstall e), s1)
      | (None, s1) \<Rightarrow>
          (case call env UnregisterTasks s1 of
             (Some e, s2) \<Rightarrow> (Some (RefusedUninstall e), s2)
           | (None, s2) \<Rightarrow> carry_out env opts d receipt s2))"

definition uninstallWith :: "'w uninstall_env \<Rightarrow> uninstall_options \<Rightarrow> 'w uninstall_state \<Rightarrow> uninstall_error option \<times> 'w uninstall_state" where
  "uninstallWith env opts s =
     (case getUninstallInfo env s of
        (info, s1) \<Rightarrow>
          (if uo_remove_partition opts
           then (case plan_removal env info s1 of
                   (Stop e, s2) \<Rightarrow> (map_option RefusedUninstall e, s2)
                 | (GoOn d r, s2) \<Rightarrow> guarded_uninstall env opts d (Some r) s2)
           else guarded_uninstall env opts (if ui_found info \<and> ui_drive info \<noteq> [] then ui_drive info else ''C'') None s1))"

end
