(* ===== verification/Partition_Receipt_Props.thy ===== *)
theory Partition_Receipt_Props
  imports Partition_Receipt
begin

text \<open>
  What the receipts are for: whatever call fails, the ownership of the partition is not forgotten
  before its removal is over, and the partition is deleted only with a recorded intent.
\<close>

definition receipt_says :: "'w receipt_env \<Rightarrow> storage_receipt \<Rightarrow> receipt_file \<Rightarrow> ('w, 'z) receipts_scheme \<Rightarrow> bool" where
  "receipt_says env r f s \<longleftrightarrow>
     (case rs_file s f of None \<Rightarrow> False | Some d \<Rightarrow> decodeStoragePartitionReceipt env d = Inr r)"

text \<open>What \<open>readStoragePartitionReceipt\<close> answers when nothing fails.\<close>

definition authority :: "'w receipt_env \<Rightarrow> storage_receipt \<Rightarrow> ('w, 'z) receipts_scheme \<Rightarrow> bool" where
  "authority env r s \<longleftrightarrow>
     (if rs_file s CreationReceipt = None then receipt_says env r CompleteReceipt s else receipt_says env r CreationReceipt s)"

lemma ask_files [simp]: "rs_file (snd (ask f s)) = rs_file s"
  by (simp add: ask_def split: prod.split)

lemma ask_file: "ask f s = (x, s1) \<Longrightarrow> rs_file s1 = rs_file s"
  by (metis ask_files snd_conv)

lemma set_receipt_file [simp]: "rs_file (set_receipt f t s) = (rs_file s)(f := t)"
  by (simp add: set_receipt_def)

lemma read_file:
  assumes "readPartitionReceiptFile env f s = (x, s1)"
  shows "rs_file s1 = rs_file s" "x = Found r \<Longrightarrow> receipt_says env r f s" "x = Missing \<Longrightarrow> rs_file s f = None"
  using assms by (auto simp: readPartitionReceiptFile_def receipt_says_def split: option.splits prod.splits sum.splits dest: ask_file)

lemma marker_file:
  assumes "verifyPartitionRemovalMarker env r f s = (x, s1)"
  shows "rs_file s1 = rs_file s" "x = MarkerRight \<Longrightarrow> receipt_says env r f s" "x = MarkerMissing \<Longrightarrow> rs_file s f = None"
proof -
  obtain y s2 where y: "readPartitionReceiptFile env f s = (y, s2)" by fastforce
  show "rs_file s1 = rs_file s" "x = MarkerRight \<Longrightarrow> receipt_says env r f s" "x = MarkerMissing \<Longrightarrow> rs_file s f = None"
    using assms y read_file [OF y] by (auto simp: verifyPartitionRemovalMarker_def split: file_read.splits if_splits)
qed

lemma persist_file:
  assumes "persistNewStoragePartitionReceipt env f r s = (x, s1)"
  shows "g \<noteq> f \<Longrightarrow> rs_file s1 g = rs_file s g" "rs_file s f \<noteq> None \<Longrightarrow> rs_file s1 = rs_file s"
    "x = None \<Longrightarrow> rs_file s1 f = Some (pe_encode env r)"
  using assms
  by (auto simp: persistNewStoragePartitionReceipt_def split: option.splits prod.splits write_fault.splits if_splits dest: ask_file)

text \<open>Neither file of the authority is touched by the others.\<close>

lemma authority_files:
  "rs_file s1 CreationReceipt = rs_file s CreationReceipt \<Longrightarrow>
   rs_file s CreationReceipt \<noteq> None \<or> rs_file s1 CompleteReceipt = rs_file s CompleteReceipt \<Longrightarrow>
   authority env r s1 \<longleftrightarrow> authority env r s"
  by (auto simp: authority_def receipt_says_def)

lemma authority_same: "rs_file s1 = rs_file s \<Longrightarrow> authority env r s1 \<longleftrightarrow> authority env r s"
  by (simp add: authority_def receipt_says_def)

lemma remove_receipts_file:
  "remove_receipts env fs s = (x, s1) \<Longrightarrow> (rs_file s1 f = rs_file s f \<or> (f \<in> set fs \<and> rs_file s1 f = None)) \<and>
     (x = None \<longrightarrow> f \<in> set fs \<longrightarrow> rs_file s1 f = None)"
proof (induction fs arbitrary: s)
  case (Cons g fs)
  obtain y s2 where y: "ask (pe_remove env g) s = (y, s2)" by fastforce
  show ?case
  proof (cases y)
    case None
    with Cons.prems y have "remove_receipts env fs (set_receipt g None s2) = (x, s1)" by (simp add: remove_receipt_def)
    from Cons.IH [OF this] ask_file [OF y] show ?thesis by (auto split: if_splits)
  next
    case (Some e)
    with Cons.prems y have "s1 = s2" "x = Some e" by (auto simp: remove_receipt_def)
    with ask_file [OF y] show ?thesis by simp
  qed
qed simp

lemma complete_last:
  assumes "remove_receipts env (fs @ [CompleteReceipt]) s = (x, s1)" "CompleteReceipt \<notin> set fs" "x \<noteq> None"
  shows "rs_file s1 CompleteReceipt = rs_file s CompleteReceipt"
  using assms(1,2)
proof (induction fs arbitrary: s)
  case Nil
  with assms(3) show ?case by (auto simp: remove_receipt_def split: prod.splits option.splits dest: ask_file)
next
  case (Cons g fs)
  obtain y s2 where y: "ask (pe_remove env g) s = (y, s2)" by fastforce
  show ?case
  proof (cases y)
    case None
    with Cons.prems y have "remove_receipts env (fs @ [CompleteReceipt]) (set_receipt g None s2) = (x, s1)"
      by (simp add: remove_receipt_def)
    from Cons.IH [OF this] Cons.prems(2) ask_file [OF y] show ?thesis by auto
  next
    case (Some e)
    with Cons.prems(1) y have "s1 = s2" by (simp add: remove_receipt_def)
    with ask_file [OF y] show ?thesis by simp
  qed
qed

lemma close_keeps:
  assumes run: "close_receipts env s = (x, s1)" and c: "receipt_says env r CompleteReceipt s"
    and a: "authority env r s"
  shows "(x = None \<and> (\<forall>f. rs_file s1 f = None)) \<or> (x \<noteq> None \<and> authority env r s1)"
proof (cases x)
  case None
  have "rs_file s1 f = None" for f
    using remove_receipts_file [OF run [unfolded close_receipts_def], of f] None by (cases f) auto
  with None show ?thesis by simp
next
  case (Some e)
  have l: "rs_file s1 CompleteReceipt = rs_file s CompleteReceipt"
    using complete_last [of env "[RemovalReceipt, DeletedReceipt, CreationReceipt]" s x s1] run Some
    by (simp add: close_receipts_def)
  moreover have "rs_file s1 CreationReceipt = rs_file s CreationReceipt \<or> rs_file s1 CreationReceipt = None"
    using remove_receipts_file [OF run [unfolded close_receipts_def], of CreationReceipt] by auto
  ultimately show ?thesis using a c Some by (auto simp: authority_def receipt_says_def)
qed

lemma finalize_keeps:
  assumes enc: "decodeStoragePartitionReceipt env (pe_encode env r) = Inr r" and a: "authority env r s"
    and run: "finalizeStoragePartitionRemoval env r s = (x, s1)"
  shows "(x = None \<and> (\<forall>f. rs_file s1 f = None)) \<or> (x \<noteq> None \<and> authority env r s1)"
proof -
  obtain y s2 where y: "readPartitionReceiptFile env CompleteReceipt s = (y, s2)" by fastforce
  note fy = read_file [OF y]
  have a2: "authority env r s2" using a fy(1) authority_same by blast
  show ?thesis
  proof (cases y)
    case (Found q)
    show ?thesis
    proof (cases "q = r")
      case True
      with Found fy have "receipt_says env r CompleteReceipt s2" by (simp add: receipt_says_def)
      moreover from Found True y run have "close_receipts env s2 = (x, s1)" by (simp add: finalizeStoragePartitionRemoval_def)
      ultimately show ?thesis using close_keeps a2 by blast
    next
      case False
      with Found y run a2 show ?thesis by (auto simp: finalizeStoragePartitionRemoval_def)
    qed
  next
    case (Unreadable e)
    with y run a2 show ?thesis by (auto simp: finalizeStoragePartitionRemoval_def)
  next
    case Missing
    with fy have none: "rs_file s2 CompleteReceipt = None" by simp
    with a2 have cr: "rs_file s2 CreationReceipt \<noteq> None"
      by (auto simp: authority_def receipt_says_def split: if_splits)
    obtain z s3 where z: "readPartitionReceiptFile env DeletedReceipt s2 = (z, s3)" by fastforce
    note fz = read_file [OF z]
    have a3: "authority env r s3" using a2 fz(1) authority_same by blast
    show ?thesis
    proof (cases "z = Found r")
      case True
      obtain p s4 where p: "persistNewStoragePartitionReceipt env CompleteReceipt r s3 = (p, s4)" by fastforce
      have a4: "authority env r s4"
        using persist_file(1) [OF p, of CreationReceipt] cr fz(1) a3 authority_files [of s4 s3 env r] by simp
      show ?thesis
      proof (cases p)
        case None
        with y z Missing True p run have "close_receipts env s4 = (x, s1)" by (simp add: finalizeStoragePartitionRemoval_def)
        moreover have "receipt_says env r CompleteReceipt s4"
          using persist_file(3) [OF p None] enc by (simp add: receipt_says_def)
        ultimately show ?thesis using close_keeps a4 by blast
      next
        case (Some e)
        with y z Missing True p run a4 show ?thesis by (auto simp: finalizeStoragePartitionRemoval_def)
      qed
    next
      case False
      with y z Missing run a3 show ?thesis
        by (auto simp: finalizeStoragePartitionRemoval_def split: file_read.splits if_splits)
    qed
  qed
qed

lemma mark_keeps:
  assumes "markStoragePartitionRemoval env r s = (x, s1)"
  shows "authority env q s1 \<longleftrightarrow> authority env q s"
proof -
  have "rs_file s1 f = rs_file s f" if "f \<noteq> RemovalReceipt" for f
    using assms that by (auto simp: markStoragePartitionRemoval_def persist_file split: if_splits prod.splits option.splits marker.splits
        dest!: marker_file(1) ask_file)
  then show ?thesis by (simp add: authority_def receipt_says_def)
qed

lemma removal_keeps:
  assumes "removePartitionAndExtendC env drive r s = (x, s1)"
    and enc: "decodeStoragePartitionReceipt env (pe_encode env r) = Inr r"
  shows "(\<forall>f. f \<noteq> DeletedReceipt \<longrightarrow> rs_file s1 f = rs_file s f) \<and> (x = None \<longrightarrow> receipt_says env r DeletedReceipt s1)"
proof -
  obtain y s2 where y: "verifyPartitionRemovalMarker env r RemovalReceipt s = (y, s2)" by fastforce
  obtain z s3 where z: "verifyPartitionRemovalMarker env r DeletedReceipt s2 = (z, s3)" by fastforce
  obtain p s4 where p: "ask (pe_removal env (DeletePartition drive r)) s3 = (p, s4)" by fastforce
  obtain q s5 where q: "persistNewStoragePartitionReceipt env DeletedReceipt r s4 = (q, s5)" by fastforce
  obtain u s6 where u: "ask (pe_removal env (ExtendWindows r)) s3 = (u, s6)" by fastforce
  obtain v s7 where v: "ask (pe_removal env (ExtendWindows r)) s5 = (v, s7)" by fastforce
  note files = marker_file(1) [OF y] marker_file(1) [OF z] ask_file [OF p] ask_file [OF u] ask_file [OF v]
  have "rs_file s5 f = rs_file s f" if "f \<noteq> DeletedReceipt" for f
    using persist_file(1) [OF q that] files by simp
  moreover have "receipt_says env r DeletedReceipt s7" if "q = None"
    using persist_file(3) [OF q that] enc files by (simp add: receipt_says_def)
  moreover have "receipt_says env r DeletedReceipt s6" if "z = MarkerRight"
    using marker_file(2) [OF z that] files by (simp add: receipt_says_def)
  ultimately show ?thesis
    using assms(1) y z p q u v files
    by (auto simp: removePartitionAndExtendC_def extend_windows_def split: marker.splits option.splits if_splits)
qed

text \<open>Without a recorded intent the helpers are not called: another one would not change the run.\<close>

lemma other_decode [simp]:
  "decodeStoragePartitionReceipt (env\<lparr>pe_removal := b\<rparr>) d = decodeStoragePartitionReceipt env d"
  by (simp add: decodeStoragePartitionReceipt_def)

lemma other_read [simp]: "readPartitionReceiptFile (env\<lparr>pe_removal := b\<rparr>) f s = readPartitionReceiptFile env f s"
  by (simp add: readPartitionReceiptFile_def cong: option.case_cong)

lemma other_marker [simp]:
  "verifyPartitionRemovalMarker (env\<lparr>pe_removal := b\<rparr>) r f s = verifyPartitionRemovalMarker env r f s"
  by (simp add: verifyPartitionRemovalMarker_def cong: option.case_cong)

text \<open>
  C13: the authority over a created partition outlives every failure of its removal. Whatever call
  fails and wherever a write is cut short: after marking, deleting and extending the receipt
  is still what a reader finds; the final cleanup either reports an error and it still is, or
  reports none and all four files are gone. A removal succeeds only with a durable record of the
  deletion, and without the recorded intent it fails without a call to the helpers.
\<close>

theorem removal_authority:
  assumes "decodeStoragePartitionReceipt env (pe_encode env r) = Inr r" "authority env r s"
  shows "authority env r (snd (markStoragePartitionRemoval env r s)) \<and>
    (case removePartitionAndExtendC env drive r s of (e, s1) \<Rightarrow>
       authority env r s1 \<and> (e = None \<longrightarrow> receipt_says env r DeletedReceipt s1) \<and>
       (receipt_says env r RemovalReceipt s \<or>
         (e \<noteq> None \<and> (\<forall>b. removePartitionAndExtendC (env\<lparr>pe_removal := b\<rparr>) drive r s = (e, s1))))) \<and>
    (case finalizeStoragePartitionRemoval env r s of (e, s1) \<Rightarrow>
       (e = None \<and> (\<forall>f. rs_file s1 f = None)) \<or> (e \<noteq> None \<and> authority env r s1))"
proof (intro conjI)
  obtain x s1 where "markStoragePartitionRemoval env r s = (x, s1)" by fastforce
  with mark_keeps [OF this] assms(2) show "authority env r (snd (markStoragePartitionRemoval env r s))" by simp
  obtain y s2 where y: "finalizeStoragePartitionRemoval env r s = (y, s2)" by fastforce
  with finalize_keeps [OF assms y] show "case finalizeStoragePartitionRemoval env r s of (e, s1) \<Rightarrow>
       (e = None \<and> (\<forall>f. rs_file s1 f = None)) \<or> (e \<noteq> None \<and> authority env r s1)" by simp
  obtain z s3 where z: "removePartitionAndExtendC env drive r s = (z, s3)" by fastforce
  note k = removal_keeps [OF z assms(1)]
  then have "authority env r s3" using assms(2) authority_files [of s3 s env r] by simp
  moreover have "z \<noteq> None \<and> (\<forall>b. removePartitionAndExtendC (env\<lparr>pe_removal := b\<rparr>) drive r s = (z, s3))"
    if "\<not> receipt_says env r RemovalReceipt s"
  proof -
    obtain m s4 where m: "verifyPartitionRemovalMarker env r RemovalReceipt s = (m, s4)" by fastforce
    with marker_file(2) [OF m] that have "m \<noteq> MarkerRight" by auto
    with m z show ?thesis by (cases m) (auto simp: removePartitionAndExtendC_def)
  qed
  ultimately show "case removePartitionAndExtendC env drive r s of (e, s1) \<Rightarrow>
       authority env r s1 \<and> (e = None \<longrightarrow> receipt_says env r DeletedReceipt s1) \<and>
       (receipt_says env r RemovalReceipt s \<or>
         (e \<noteq> None \<and> (\<forall>b. removePartitionAndExtendC (env\<lparr>pe_removal := b\<rparr>) drive r s = (e, s1))))"
    using z k by auto
qed

text \<open>
  A marker whose write was cut short blocks the cleanup for good: it is neither missing nor
  readable, and \<open>O_EXCL\<close> never replaces it.
\<close>

lemma torn_completion_stuck:
  assumes "rs_file s CompleteReceipt = Some torn" "decodeStoragePartitionReceipt env torn = Inl e"
  shows "case finalizeStoragePartitionRemoval env r s of (x, s1) \<Rightarrow> x \<noteq> None \<and> rs_file s1 = rs_file s"
proof -
  obtain y s1 where y: "readPartitionReceiptFile env CompleteReceipt s = (y, s1)" by fastforce
  with assms have "\<exists>e. y = Unreadable e"
    by (auto simp: readPartitionReceiptFile_def split: prod.splits option.splits dest!: ask_file)
  with y read_file(1) [OF y] show ?thesis by (auto simp: finalizeStoragePartitionRemoval_def)
qed

end
