(* ===== verification/Uninstall_Props.thy ===== *)
theory Uninstall_Props
  imports Uninstall Partition_Receipt_Props
begin

text \<open>
  What the uninstaller promises: the Linux disk stays unless asked for, nothing outside its own folders
  is touched, nothing is removed before its guards passed, and no credential stays readable in
  freed clusters. Also: the check whether the running program is in the way never fires on Windows.
\<close>

subsection \<open>The running image\<close>

lemma lower_slash: "lower_char c = slash \<longleftrightarrow> c = slash"
proof -
  have n: "code_of slash = 47" by (simp add: slash_def code_of_def)
  have "lower_char c = slash \<longleftrightarrow> code_of c = code_of slash"
    unfolding lower_char_eq_iff by (auto simp: n lower_code_def split: if_splits)
  then show ?thesis by (simp add: code_of_inject)
qed

lemma lower_slash_mem: "slash \<in> set (to_lower p) \<longleftrightarrow> slash \<in> set p"
  by (force simp: to_lower_def lower_slash image_iff eq_commute [of slash])

lemma replaced_free: "slash \<notin> set (replace_char slash backslash s)"
  by (auto simp: replace_char_def slash_def backslash_def)

lemma norm_no_slash: "slash \<notin> set (norm_path p)"
proof -
  have v: "slash \<notin> set (take (volume_length q) q)" for q
    by (auto simp: volume_length_def is_letter_def slash_def code_of_def Let_def split: list.splits if_splits)
  have "slash \<notin> set (win_clean q)" for q
    using v [of q] replaced_free by (auto simp: win_clean_def Let_def slash_def)
  then show ?thesis by (simp add: norm_path_def lower_slash_mem)
qed

lemma no_slash_prefix: "slash \<notin> set p \<Longrightarrow> \<not> has_prefix p (q @ ''/'')"
proof
  assume a: "slash \<notin> set p" "has_prefix p (q @ ''/'')"
  then have "set (q @ ''/'') \<subseteq> set p" by (simp only: has_prefix_def set_mono_prefix)
  with a(1) show False by (simp add: slash_def)
qed

lemma within_iff_same: "pathWithin p d \<longleftrightarrow> norm_path d \<noteq> [] \<and> norm_path d \<noteq> ''.'' \<and> norm_path p = norm_path d"
  using no_slash_prefix [OF norm_no_slash, of p "trim_suffix (norm_path d) ''/''"]
  by (auto simp: pathWithin_def Let_def)

subsection \<open>What each operation leaves in place\<close>

lemma ask_state [simp]: "us_files (snd (ask f s)) = us_files s" "us_freed (snd (ask f s)) = us_freed s"
  by (simp_all add: ask_def split: prod.split)

lemma ask_same: "ask f s = (x, s1) \<Longrightarrow> us_files s1 = us_files s \<and> us_freed s1 = us_freed s"
  by (metis ask_state snd_conv)

lemma call_same: "call env c s = (x, s1) \<Longrightarrow> us_files s1 = us_files s \<and> us_freed s1 = us_freed s"
  by (simp add: call_def ask_same)

lemma stat_same: "stat_path env p s = (x, s1) \<Longrightarrow> us_files s1 = us_files s \<and> us_freed s1 = us_freed s"
  by (auto simp: stat_path_def split: prod.splits option.splits dest: ask_same)

lemma unlink_mem: "x \<in> set (us_files (unlink P s)) \<longleftrightarrow> x \<in> set (us_files s) \<and> \<not> P (fst x)"
  by (auto simp: unlink_def)

definition stays :: "win_path \<times> disk_entry \<Rightarrow> 'w uninstall_state \<Rightarrow> 'w uninstall_state \<Rightarrow> bool" where
  "stays x s s1 \<longleftrightarrow> (x \<in> set (us_files s) \<longrightarrow> x \<in> set (us_files s1))"

lemma stays_refl: "stays x s s" "us_files s1 = us_files s \<Longrightarrow> stays x s s1"
  by (simp_all add: stays_def)

lemma stays_trans: "stays x s s1 \<Longrightarrow> stays x s1 s2 \<Longrightarrow> stays x s s2"
  by (simp add: stays_def)

lemma remove_path_stays: "q \<noteq> p \<Longrightarrow> stays (q, e) s (snd (remove_path env p s))"
  by (auto simp: remove_path_def stays_def unlink_mem split: prod.splits option.splits dest: ask_same)

lemma remove_tree_stays: "\<not> under p q \<Longrightarrow> stays (q, e) s (remove_tree env p s)"
  by (auto simp: remove_tree_def stays_def unlink_mem split: prod.splits option.splits dest: ask_same)

lemma under_refl [simp]: "under p p"
  by (simp add: under_def)

lemma remove_each_stays: "q \<notin> set ps \<Longrightarrow> stays (q, e) s (remove_each env ps s)"
  unfolding remove_each_def
  by (induction ps arbitrary: s) (auto simp: stays_refl intro: stays_trans remove_path_stays)

lemma remove_all_stays: "\<forall>p\<in>set ps. \<not> under p q \<Longrightarrow> stays (q, e) s (remove_all env ps s)"
  unfolding remove_all_def
proof (induction ps arbitrary: s)
  case (Cons p ps)
  from stays_trans [OF remove_tree_stays Cons.IH] Cons.prems show ?case by simp
qed (simp add: stays_refl)

lemma overwrite_stays: "q \<noteq> p \<Longrightarrow> stays (q, e) s (overwrite p c s)"
  by (force simp: stays_def overwrite_def)

lemma wipe_stays: "q \<noteq> p \<Longrightarrow> stays (q, e) s (wipe_file env p s)"
  by (auto simp: wipe_file_def stays_refl split: option.splits disk_entry.splits prod.splits
      intro: stays_trans [OF stays_refl(2) overwrite_stays] dest!: ask_same)

lemma scrub_stays:
  assumes "q \<noteq> p"
  shows "stays (q, e) s (snd (scrubFile env p s))"
proof -
  obtain r s1 where r: "stat_path env p s = (r, s1)" by fastforce
  have "stays (q, e) s s1" using stat_same [OF r] by (simp add: stays_def)
  from stays_trans [OF stays_trans [OF this wipe_stays [OF assms]] remove_path_stays [OF assms]] this r
  show ?thesis by (auto simp: scrubFile_def split: stat_result.splits)
qed

lemma scrub_all_stays: "q \<notin> set ps \<Longrightarrow> stays (q, e) s (snd (scrub_all env ps s))"
proof (induction ps arbitrary: s)
  case (Cons p ps)
  obtain x s1 where x: "scrubFile env p s = (x, s1)" by fastforce
  obtain b s2 where b: "scrub_all env ps s1 = (b, s2)" by fastforce
  have "stays (q, e) s s1" using scrub_stays [of q p e s env] Cons.prems x by simp
  moreover have "stays (q, e) s1 s2" using Cons.IH [of s1] Cons.prems b by simp
  ultimately show ?case using x b by (auto intro: stays_trans)
qed (simp add: stays_refl)

text \<open>The credentials are below the install directory, the rest is named.\<close>

lemma under_prefix: "under d p \<longleftrightarrow> fst d = fst p \<and> prefix (snd d) (snd p)"
  by (auto simp: under_def prefix_def) (metis append_take_drop_id)

lemma under_path_at: "under (path_at d xs) p \<longleftrightarrow> fst d = fst p \<and> prefix (snd d @ xs) (snd p)"
  by (simp add: under_prefix path_at_def)

lemma under_part: "under (path_at d xs) p \<Longrightarrow> under d p"
  by (auto simp: under_prefix path_at_def dest: append_prefixD)

lemma under_at: "under d (path_at d xs)"
  by (simp add: under_prefix path_at_def)

lemma secret_paths:
  assumes "installSecretFiles env inst s = (ps, s1)" "p \<in> set ps"
  shows "under inst p"
proof -
  from assms have "p = path_at inst [''bitlocker-key.txt''] \<or> under (path_at inst [''slurp'', ''session'']) p"
    by (auto simp: installSecretFiles_def Let_def is_envelope_def split: prod.splits if_splits)
  then show ?thesis using under_part [of inst _ p] under_at [of inst] by blast
qed

lemma scrub_secrets_stays: "\<not> under inst q \<Longrightarrow> stays (q, e) s (snd (scrubInstallSecrets env inst s))"
proof -
  assume q: "\<not> under inst q"
  obtain ps s1 where ps: "installSecretFiles env inst s = (ps, s1)" by fastforce
  have "us_files s1 = us_files s"
    using ps by (auto simp: installSecretFiles_def Let_def split: prod.splits dest: ask_same)
  moreover have "q \<notin> set ps" using secret_paths [OF ps, of q] q by blast
  ultimately show ?thesis
    using ps scrub_all_stays [of q ps e s1 env] by (simp add: scrubInstallSecrets_def stays_def)
qed

lemma first_existing_same:
  "first_existing env ps s = (x, s1) \<Longrightarrow> us_files s1 = us_files s \<and> us_freed s1 = us_freed s"
  by (induction ps arbitrary: s) (auto split: prod.splits stat_result.splits dest: stat_same)

text \<open>A file that is there, and whose stat does not fail, is found.\<close>

lemma stat_finds:
  assumes "(p, e) \<in> set (us_files s)" "\<forall>w. fst (ue_stat env p w) = None"
  shows "fst (stat_path env p s) = Exists"
proof -
  have "map_of (us_files s) p \<noteq> None" using assms(1) by (metis map_of_eq_None_iff fst_conv imageI)
  moreover have "fst (ask (ue_stat env p) s) = None" using assms(2) by (simp add: ask_def split_beta)
  ultimately show ?thesis by (auto simp: stat_path_def split: prod.splits option.splits dest: ask_same)
qed

lemma first_existing_finds:
  "p \<in> set ps \<Longrightarrow> (p, e) \<in> set (us_files s) \<Longrightarrow> \<forall>w. fst (ue_stat env p w) = None \<Longrightarrow> fst (first_existing env ps s) \<noteq> None"
proof (induction ps arbitrary: s)
  case (Cons a ps)
  obtain r s1 where r: "stat_path env a s = (r, s1)" by fastforce
  have m: "(p, e) \<in> set (us_files s1)" using stat_same [OF r] Cons.prems(2) by simp
  show ?case
  proof (cases "r = Exists")
    case True
    with r show ?thesis by simp
  next
    case False
    with r stat_finds [OF Cons.prems(2,3)] have "p \<noteq> a" by auto
    with Cons.IH [of s1] Cons.prems m False r show ?thesis by (auto split: stat_result.splits)
  qed
qed simp

text \<open>What an uninstallation without further wishes keeps: the disks, and everything elsewhere.\<close>

definition linux_disks :: "string \<Rightarrow> win_path set" where
  "linux_disks d = {path_at (wootc_dir d) [''disks'', ''root.disk''], path_at (wootc_dir d) [''disks'', ''root.vhdx'']}"

lemma elsewhere_parts:
  assumes "\<not> under (wootc_dir d) q \<or> q \<in> linux_disks d" "a \<noteq> ''disks''"
  shows "\<not> under (path_at (wootc_dir d) (a # xs)) q"
proof
  assume u: "under (path_at (wootc_dir d) (a # xs)) q"
  with under_part have "under (wootc_dir d) q" by blast
  with assms(1) have "q = (d, [''wootc'', ''disks'', ''root.disk'']) \<or> q = (d, [''wootc'', ''disks'', ''root.vhdx''])"
    by (simp add: linux_disks_def path_at_def wootc_dir_def)
  with u assms(2) show False by (elim disjE) (simp_all add: under_prefix path_at_def wootc_dir_def)
qed

lemma elsewhere_stays:
  assumes "\<not> under (wootc_dir d) q \<or> q \<in> linux_disks d"
  shows "\<not> under (path_at (wootc_dir d) [''install'']) q" "\<not> under (path_at (wootc_dir d) [''bundle'']) q"
    "\<not> under (path_at (wootc_dir d) [''cache'']) q" "\<not> under (path_at (wootc_dir d) [''logs'']) q"
    "q \<noteq> evidence_file d" "x \<in> set loose_files \<Longrightarrow> q \<noteq> path_at (wootc_dir d) [x]"
proof -
  note k = elsewhere_parts [OF assms]
  then show "\<not> under (path_at (wootc_dir d) [''install'']) q" "\<not> under (path_at (wootc_dir d) [''bundle'']) q"
    "\<not> under (path_at (wootc_dir d) [''cache'']) q" "\<not> under (path_at (wootc_dir d) [''logs'']) q" by simp_all
  have ne: "q \<noteq> path_at (wootc_dir d) (a # xs)" if "a \<noteq> ''disks''" for a xs
    using k [OF that, of xs] under_refl by metis
  then show "q \<noteq> evidence_file d" by (simp add: evidence_file_def)
  show "x \<in> set loose_files \<Longrightarrow> q \<noteq> path_at (wootc_dir d) [x]"
    using ne [of x "[]"] by (auto simp: loose_files_def)
qed

lemma clean_dir_stays:
  assumes q: "\<not> under (wootc_dir d) q \<or> \<not> delete \<and> q \<in> linux_disks d \<and> (\<forall>w. fst (ue_stat env q w) = None)"
  shows "stays (q, e) s (snd (clean_dir env delete d s))"
proof -
  let ?w = "wootc_dir d"
  have el: "\<not> under ?w q \<or> q \<in> linux_disks d" using q by blast
  note k = elsewhere_stays [OF el]
  obtain r s1 where r: "stat_path env ?w s = (r, s1)" by fastforce
  obtain bad s2 where bad: "scrubInstallSecrets env (path_at ?w [''install'']) s1 = (bad, s2)" by fastforce
  define s3 where "s3 = remove_each env [evidence_file d] s2"
  define s4 where "s4 = remove_all env (map (\<lambda>x. path_at ?w [x]) [''install'', ''bundle'', ''cache'', ''logs'']) s3"
  define s5 where "s5 = remove_each env (map (\<lambda>x. path_at ?w [x]) loose_files) s4"
  let ?disks = "map (\<lambda>n. path_at ?w [''disks'', n]) [''root.disk'', ''root.vhdx'']"
  obtain disk s6 where disk: "first_existing env ?disks s5 = (disk, s6)" by fastforce
  have 1: "stays (q, e) s s1" using stat_same [OF r] by (simp add: stays_def)
  have 2: "stays (q, e) s1 s2" using scrub_secrets_stays [OF k(1), of e s1 env] bad by simp
  have 3: "stays (q, e) s2 s3" unfolding s3_def using k(5) by (intro remove_each_stays) simp
  have 4: "stays (q, e) s3 s4" unfolding s4_def using k(1-4) by (intro remove_all_stays) simp
  have 5: "stays (q, e) s4 s5" unfolding s5_def using k(6) by (intro remove_each_stays) auto
  have 6: "stays (q, e) s5 s6" using first_existing_same [OF disk] by (simp add: stays_def)
  note all = stays_trans [OF stays_trans [OF stays_trans [OF stays_trans [OF stays_trans [OF 1 2] 3] 4] 5] 6]
  show ?thesis
  proof (cases "r = Exists")
    case True
    have run: "snd (clean_dir env delete d s) = (if delete \<or> disk = None
        then remove_all env [path_at ?w [''disks''], ?w] s6 else s6)"
      using True r bad disk by (simp add: clean_dir_def Let_def s3_def s4_def s5_def)
    show ?thesis
    proof (cases "\<not> under ?w q")
      case out: True
      then have "stays (q, e) s6 (remove_all env [path_at ?w [''disks''], ?w] s6)"
        using under_part [of ?w _ q] by (intro remove_all_stays) auto
      from stays_trans [OF all this] all run show ?thesis by simp
    next
      case False
      with q have l: "\<not> delete" "q \<in> set ?disks" "\<forall>w. fst (ue_stat env q w) = None"
        by (auto simp: linux_disks_def)
      show ?thesis
      proof (cases "(q, e) \<in> set (us_files s)")
        case True
        with 1 2 3 4 5 have "(q, e) \<in> set (us_files s5)" by (simp add: stays_def)
        from first_existing_finds [OF l(2) this l(3)] have "disk \<noteq> None" unfolding disk by simp
        with l(1) run all show ?thesis by simp
      qed (simp add: stays_def)
    qed
  next
    case False
    with r 1 show ?thesis by (auto simp: clean_dir_def split: stat_result.splits)
  qed
qed

subsection \<open>The whole uninstallation\<close>

lemma receipts_stay:
  "us_files (set_receipt f t s) = us_files s" "us_freed (set_receipt f t s) = us_freed s"
  by (simp_all add: set_receipt_def)

text \<open>Looking changes nothing on the drives.\<close>

definition looked :: "'w uninstall_state \<Rightarrow> 'w uninstall_state \<Rightarrow> bool" where
  "looked s s1 \<longleftrightarrow> us_files s1 = us_files s \<and> us_freed s1 = us_freed s"

lemma looked_refl [simp]: "looked s s"
  by (simp add: looked_def)

lemma looked_trans: "looked s s1 \<Longrightarrow> looked s1 s2 \<Longrightarrow> looked s s2"
  by (simp add: looked_def)

lemma looked_ask: "ask f s = (x, s1) \<Longrightarrow> looked s s1"
  using ask_same by (simp add: looked_def)

lemma looked_call: "call env c s = (x, s1) \<Longrightarrow> looked s s1"
  using call_same by (simp add: looked_def)

lemma looked_stat: "stat_path env p s = (x, s1) \<Longrightarrow> looked s s1"
  using stat_same by (simp add: looked_def)

lemma looked_read: "readPartitionReceiptFile renv f s = (x, s1) \<Longrightarrow> looked s s1"
  by (auto simp: readPartitionReceiptFile_def split: option.splits prod.splits dest: looked_ask)

lemma looked_receipt:
  assumes "readStoragePartitionReceipt renv s = (x, s1)"
  shows "looked s s1"
proof -
  obtain y s2 where y: "readPartitionReceiptFile renv CreationReceipt s = (y, s2)" by fastforce
  obtain z s3 where z: "readPartitionReceiptFile renv CompleteReceipt s2 = (z, s3)" by fastforce
  from assms y z have "s1 = s2 \<or> s1 = s3" by (auto simp: readStoragePartitionReceipt_def split: file_read.splits)
  with looked_read [OF y] looked_read [OF z] looked_trans show ?thesis by blast
qed

lemma looked_trusted: "trusted_drives env ds s = (x, s1) \<Longrightarrow> looked s s1"
proof (induction ds arbitrary: s x)
  case (Cons d ds)
  obtain r s2 where r: "stat_path env (wootc_dir d) s = (r, s2)" by fastforce
  obtain e s3 where e: "ask (ue_trusted env (wootc_dir d)) s2 = (e, s3)" by fastforce
  from Cons.prems r e obtain y s4 where "trusted_drives env ds s4 = (y, s1)" "s4 = s2 \<or> s4 = s3"
    by (auto split: stat_result.splits prod.splits)
  with Cons.IH looked_stat [OF r] looked_ask [OF e] looked_trans show ?case by blast
qed simp

lemma looked_partition: "with_partition env d i s = (x, s1) \<Longrightarrow> looked s s1"
proof -
  assume a: "with_partition env d i s = (x, s1)"
  obtain r s2 where r: "readStoragePartitionReceipt (ue_receipts env) s = (r, s2)" by fastforce
  have "looked s s3" if f: "fillDedicatedPartitionInfo env d i s = (y, s3)" for y s3
    using f r looked_receipt [OF r]
    by (auto simp: fillDedicatedPartitionInfo_def split: file_read.splits prod.splits dest: looked_call intro: looked_trans)
  with a show ?thesis by (auto simp: with_partition_def split: if_splits prod.splits)
qed

lemma looked_dedicated: "fillDedicatedPartitionInfo env d i s = (x, s1) \<Longrightarrow> looked s s1"
proof -
  assume a: "fillDedicatedPartitionInfo env d i s = (x, s1)"
  obtain r s2 where r: "readStoragePartitionReceipt (ue_receipts env) s = (r, s2)" by fastforce
  with a looked_receipt [OF r] show ?thesis
    by (auto simp: fillDedicatedPartitionInfo_def split: file_read.splits prod.splits dest: looked_call intro: looked_trans)
qed

lemma looked_first: "first_existing env ps s = (x, s1) \<Longrightarrow> looked s s1"
  using first_existing_same by (simp add: looked_def)

lemma looked_disk_info: "disk_info env d p s = (x, s1) \<Longrightarrow> looked s s1"
  by (auto simp: disk_info_def Let_def split: prod.splits dest!: looked_ask looked_partition intro: looked_trans)

lemma looked_find_disk: "find_disk env ds s = (x, s1) \<Longrightarrow> looked s s1"
proof (induction ds arbitrary: s)
  case (Cons d ds)
  obtain r s2 where r: "first_existing env (disk_paths d) s = (r, s2)" by fastforce
  show ?case
  proof (cases r)
    case None
    with Cons r show ?thesis using looked_first [OF r] looked_trans by auto
  next
    case (Some p)
    obtain i s3 where i: "disk_info env d p s2 = (i, s3)" by fastforce
    with Cons.prems r Some have "s1 = s3" by simp
    with looked_first [OF r] looked_disk_info [OF i] show ?thesis using looked_trans by blast
  qed
qed simp

lemma looked_any: "any_attempt env ps s = (x, s1) \<Longrightarrow> looked s s1"
proof (induction ps arbitrary: s)
  case (Cons p ps)
  obtain r s2 where r: "stat_path env p s = (r, s2)" by fastforce
  with Cons.prems have "any_attempt env ps s2 = (x, s1) \<or> s1 = s2" by (auto split: stat_result.splits)
  with Cons.IH looked_stat [OF r] looked_trans show ?case by blast
qed simp

lemma looked_find_attempt: "find_attempt env ds s = (x, s1) \<Longrightarrow> looked s s1"
proof (induction ds arbitrary: s)
  case (Cons d ds)
  obtain r s2 where r: "hasInstallAttempt env (wootc_dir d) s = (r, s2)" by fastforce
  note l = looked_any [OF r [unfolded hasInstallAttempt_def]]
  obtain i s3 where i: "with_partition env d (orphan d) s2 = (i, s3)" by fastforce
  from Cons.prems r i have "s1 = s3 \<or> find_attempt env ds s2 = (x, s1)" by (auto split: bool.splits)
  with Cons.IH l looked_partition [OF i] looked_trans show ?case by blast
qed simp

lemma looked_entry: "hasWootcBCDEntry env s = (x, s1) \<Longrightarrow> looked s s1"
  by (auto simp: hasWootcBCDEntry_def split: prod.splits if_splits dest!: looked_ask intro: looked_trans)

lemma looked_esp: "hasWootcESPArtifacts env s = (x, s1) \<Longrightarrow> looked s s1"
  by (auto simp: hasWootcESPArtifacts_def split: prod.splits sum.splits dest!: looked_ask)

lemma looked_registry: "hasUninstallRegistryEntry env s = (x, s1) \<Longrightarrow> looked s s1"
  by (auto simp: hasUninstallRegistryEntry_def split: prod.splits dest!: looked_ask)

lemma looked_info:
  assumes "getUninstallInfo env s = (x, s1)"
  shows "looked s s1"
proof -
  obtain vols s2 where v: "ask (ue_volumes env) s = (vols, s2)" by fastforce
  obtain ds s3 where d: "trusted_drives env (''C'' # map fst vols) s2 = (ds, s3)" by fastforce
  obtain fd s4 where fd: "find_disk env ds s3 = (fd, s4)" by fastforce
  obtain fa s5 where fa: "find_attempt env ds s4 = (fa, s5)" by fastforce
  obtain vols2 s6 where v2: "ask (ue_volumes env) s5 = (vols2, s6)" by fastforce
  have l: "looked s s4" "looked s s5" "looked s s6"
    using looked_ask [OF v] looked_trusted [OF d] looked_find_disk [OF fd] looked_find_attempt [OF fa] looked_ask [OF v2]
    by (metis looked_trans)+
  obtain e s7 where e: "hasWootcBCDEntry env s6 = (e, s7)" by fastforce
  obtain f s8 where f: "hasWootcESPArtifacts env s7 = (f, s8)" by fastforce
  obtain g s9 where g: "hasUninstallRegistryEntry env s8 = (g, s9)" by fastforce
  have m: "looked s s7" "looked s s8" "looked s s9"
    using l(3) looked_entry [OF e] looked_esp [OF f] looked_registry [OF g] by (metis looked_trans)+
  from assms have "looked s s1 \<or> s1 \<in> {s4, s5, s7, s8, s9} \<or> (\<exists>d i. fillDedicatedPartitionInfo env d i s6 = (x, s1))"
    unfolding getUninstallInfo_def v d fd fa v2 e f g Let_def prod.case
    by (auto split: option.splits bool.splits)
  with l m looked_dedicated looked_trans show ?thesis by blast
qed


lemma looked_lock: "lock_disks env ds s = (x, s1) \<Longrightarrow> looked s s1"
proof (induction ds arbitrary: s)
  case (Cons d ds)
  obtain e s2 where e: "call env (LockDisk (root_disk d)) s = (e, s2)" by fastforce
  obtain f s3 where f: "call env (DiskReleased (root_disk d)) s2 = (f, s3)" by fastforce
  from Cons.prems e f have "s1 = s2 \<or> s1 = s3 \<or> lock_disks env ds s3 = (x, s1)" by (auto split: option.splits)
  with Cons.IH looked_call [OF e] looked_call [OF f] looked_trans show ?case by blast
qed simp

lemma looked_left_overs: "left_overs env ps s = (x, s1) \<Longrightarrow> looked s s1"
proof (induction ps arbitrary: s x)
  case (Cons p ps)
  obtain f q where p: "p = (f, q)" by (cases p)
  obtain r s2 where r: "stat_path env q s = (r, s2)" by fastforce
  obtain b s3 where b: "left_overs env ps s2 = (b, s3)" by fastforce
  from Cons.prems p r b have "s1 = s3" by (simp add: left_over_def)
  with b have "looked s2 s1" using Cons.IH by blast
  with looked_stat [OF r] looked_trans show ?case by blast
qed simp

lemma looked_verify:
  assumes "verifyUninstallClean env opts d s = (x, s1)"
  shows "looked s s1"
proof -
  obtain e s2 where e: "hasWootcBCDEntry env s = (e, s2)" by fastforce
  obtain f s3 where f: "hasWootcESPArtifacts env s2 = (f, s3)" by fastforce
  obtain g s4 where g: "hasUninstallRegistryEntry env s3 = (g, s4)" by fastforce
  from assms e f g obtain ps y where "left_overs env ps s4 = (y, s1)"
    by (auto simp: verifyUninstallClean_def Let_def simp del: left_overs.simps split: prod.splits)
  with looked_left_overs looked_entry [OF e] looked_esp [OF f] looked_registry [OF g] looked_trans show ?thesis by metis
qed

lemma looked_stays: "looked s s1 \<Longrightarrow> stays x s s1"
  by (simp add: looked_def stays_def)

lemma move_stays:
  assumes "moveRunningImageAside env ps s = (x, s1)"
    and "\<And>w self. fst (ue_self env w) = Inr self \<Longrightarrow> \<not> equal_fold (path_text q) self"
  shows "stays (q, e) s s1"
proof -
  obtain r s2 where r: "ask (ue_self env) s = (r, s2)" by fastforce
  then have f: "us_files s2 = us_files s" and self: "\<And>self. r = Inr self \<Longrightarrow> \<not> equal_fold (path_text q) self"
    using assms(2) [of "rs_world s"] ask_same [OF r] by (auto simp: ask_def split: prod.splits)
  show ?thesis
  proof (cases r)
    case (Inr a)
    obtain y s3 where y: "ask (ue_rename env) s2 = (y, s3)" by fastforce
    from ask_same [OF y] f self [OF Inr] assms(1) r y Inr show ?thesis
      by (force simp: moveRunningImageAside_def stays_def split: if_splits option.splits)
  qed (use assms(1) r f in \<open>simp add: moveRunningImageAside_def stays_def\<close>)
qed

lemma clean_drives_stays:
  assumes "\<not> uo_remove_partition opts"
    and "\<And>d. \<not> under (wootc_dir d) q \<or> \<not> uo_delete_disk opts \<and> q \<in> linux_disks d \<and> (\<forall>w. fst (ue_stat env q w) = None)"
  shows "clean_drives env opts ds s = (x, s1) \<Longrightarrow> stays (q, e) s s1"
proof (induction ds arbitrary: s x)
  case (Cons d ds)
  obtain a s2 where a: "clean_dir env (uo_delete_disk opts) d s = (a, s2)" by fastforce
  obtain b s3 where b: "clean_drives env opts ds s2 = (b, s3)" by fastforce
  from Cons.prems assms(1) a b have "s1 = s3" by simp
  with b have "stays (q, e) s2 s1" using Cons.IH by blast
  with clean_dir_stays [OF assms(2) [of d], of e s] a show ?case by (simp add: stays_def)
qed (simp add: stays_refl)

lemma looked_effects:
  "looked s (snd (call env Disarm (snd (call env DeleteBootEntries (snd (call env DropAppsEntry (snd (call env RestorePower s))))))))"
  by (simp add: looked_def call_def)

text \<open>The parts of the removal in order, each named.\<close>

lemma carry_out_parts:
  assumes "carry_out env opts d None s = (r, s6)"
  obtains s1 esp s2 removed moved s3 kept s4 left where
    "looked s s1" "call env CleanupEsp s1 = (esp, s2)" "moveRunningImageAside env removed s2 = (moved, s3)"
    "clean_drives env opts (if d = ''C'' then [d] else [d, ''C'']) s3 = (kept, s4)"
    "verifyUninstallClean env opts d s4 = (left, s6)"
    "r = None \<Longrightarrow> esp = None \<and> moved = None \<and> kept = [] \<and> left = []" "r = None \<or> (\<exists>ps. r = Some (IncompleteUninstall ps) \<and> ps \<noteq> [])"
proof -
  define s1 where "s1 = snd (call env Disarm (snd (call env DeleteBootEntries (snd (call env DropAppsEntry (snd (call env RestorePower s)))))))"
  define removed where "removed = concat (map (\<lambda>x. path_at (wootc_dir x) [''install''] #
             (if uo_delete_disk opts \<or> uo_remove_partition opts then [wootc_dir x] else [])) (if d = ''C'' then [d] else [d, ''C'']))"
  obtain esp s2 where e: "call env CleanupEsp s1 = (esp, s2)" by fastforce
  obtain moved s3 where m: "moveRunningImageAside env removed s2 = (moved, s3)" by fastforce
  obtain kept s4 where k: "clean_drives env opts (if d = ''C'' then [d] else [d, ''C'']) s3 = (kept, s4)" by fastforce
  obtain left s5 where l: "verifyUninstallClean env opts d s4 = (left, s5)" by fastforce
  define problems where "problems = (case esp of None \<Rightarrow> [] | Some e \<Rightarrow> [EspNotCleaned e]) @
            (case moved of None \<Rightarrow> [] | Some e \<Rightarrow> [ImageNotMoved e]) @ kept @ left"
  have run: "carry_out env opts d None s = (if problems \<noteq> [] then (Some (IncompleteUninstall problems), s5) else (None, s5))"
    using e m k l by (simp add: carry_out_def Let_def s1_def removed_def problems_def)
  have "looked s s1" unfolding s1_def by (rule looked_effects)
  then show thesis
    by (rule that [OF _ e m k, of left]) (use run assms l in \<open>auto simp: problems_def split: if_splits option.splits\<close>)
qed


text \<open>Every run without a partition to remove is a refusal that only looked, or carries out the removal.\<close>

lemma uninstall_cases:
  assumes "\<not> uo_remove_partition opts" "uninstallWith env opts s = (r, s1)"
  obtains (refused) e where "r = Some (RefusedUninstall e)" "looked s s1"
    | (carried) d s2 where "looked s s2" "carry_out env opts d None s2 = (r, s1)"
        "d = (case fst (getUninstallInfo env s) of i \<Rightarrow> if ui_found i \<and> ui_drive i \<noteq> [] then ui_drive i else ''C'')"
proof -
  obtain i s3 where i: "getUninstallInfo env s = (i, s3)" by fastforce
  define d where "d = (if ui_found i \<and> ui_drive i \<noteq> [] then ui_drive i else ''C'')"
  obtain l s4 where l: "lock_disks env (if d = ''C'' then [d] else [d, ''C'']) s3 = (l, s4)" by fastforce
  obtain u s5 where u: "call env UnregisterTasks s4 = (u, s5)" by fastforce
  have s4: "looked s s4" using looked_info [OF i] looked_lock [OF l] looked_trans by blast
  have s5: "looked s s5" using s4 looked_call [OF u] looked_trans by blast
  have run: "guarded_uninstall env opts d None s3 = (r, s1)"
    using assms i by (simp add: uninstallWith_def d_def)
  show thesis
  proof (cases "l = None \<and> u = None")
    case True
    with run l u have "carry_out env opts d None s5 = (r, s1)" by (simp add: guarded_uninstall_def)
    with s5 show thesis using i by (intro carried) (auto simp: d_def)
  next
    case False
    with run l u have "(\<exists>e. r = Some (RefusedUninstall e)) \<and> (s1 = s4 \<or> s1 = s5)"
      by (auto simp: guarded_uninstall_def split: option.splits)
    with s4 s5 show thesis using refused by blast
  qed
qed

lemma carry_out_stays:
  assumes "\<not> uo_remove_partition opts" "carry_out env opts d None s = (r, s1)"
    and q: "\<And>d. \<not> under (wootc_dir d) q \<or> \<not> uo_delete_disk opts \<and> q \<in> linux_disks d \<and> (\<forall>w. fst (ue_stat env q w) = None)"
    and self: "\<And>w self. fst (ue_self env w) = Inr self \<Longrightarrow> \<not> equal_fold (path_text q) self"
  shows "stays (q, e) s s1"
  using assms(2)
proof (rule carry_out_parts)
  fix s2 esp s3 removed moved s4 kept s5 left
  assume 1: "looked s s2" and 2: "call env CleanupEsp s2 = (esp, s3)" and 3: "moveRunningImageAside env removed s3 = (moved, s4)"
    and 4: "clean_drives env opts (if d = ''C'' then [d] else [d, ''C'']) s4 = (kept, s5)" and 5: "verifyUninstallClean env opts d s5 = (left, s1)"
  have "stays (q, e) s s3" using looked_trans [OF 1 looked_call [OF 2]] by (rule looked_stays)
  moreover have "stays (q, e) s3 s4" using move_stays [OF 3 self] .
  moreover have "stays (q, e) s4 s5" using clean_drives_stays [OF assms(1) q 4] .
  moreover have "stays (q, e) s5 s1" using looked_verify [OF 5] by (rule looked_stays)
  ultimately show ?thesis using stays_trans by blast
qed


subsection \<open>What success means\<close>

lemma stat_nothing:
  assumes "stat_path env p s = (r, s1)" "r \<noteq> Exists" "\<forall>w. fst (ue_stat env p w) = None"
  shows "map_of (us_files s) p = None"
proof -
  obtain x s2 where x: "ask (ue_stat env p) s = (x, s2)" by fastforce
  with assms(3) have "x = None" by (auto simp: ask_def split: prod.splits) (metis fst_conv)
  with assms(1,2) x ask_same [OF x] show ?thesis by (auto simp: stat_path_def split: if_splits)
qed

lemma left_overs_nothing:
  assumes "\<forall>p w. fst (ue_stat env p w) = None"
  shows "left_overs env ps s = ([], s1) \<Longrightarrow> (f, p) \<in> set ps \<Longrightarrow> map_of (us_files s1) p = None"
proof (induction ps arbitrary: s)
  case (Cons a ps)
  obtain g q where a: "a = (g, q)" by (cases a)
  obtain r s2 where r: "stat_path env q s = (r, s2)" by fastforce
  obtain b s3 where b: "left_overs env ps s2 = (b, s3)" by fastforce
  from Cons.prems a r b have *: "r \<noteq> Exists" "b = []" "s3 = s1" by (auto simp: left_over_def problem_if_def split: if_splits)
  show ?case
  proof (cases "(f, p) \<in> set ps")
    case True
    with Cons.IH b * show ?thesis by simp
  next
    case False
    with Cons.prems a have "p = q" by simp
    with stat_nothing [OF r *(1)] assms looked_stat [OF r] looked_left_overs [OF b] * show ?thesis by (simp add: looked_def)
  qed
qed simp

lemma verified_gone:
  assumes "verifyUninstallClean env opts d s = ([], s1)" "\<forall>p w. fst (ue_stat env p w) = None" "x = d \<or> x = ''C''"
  shows "map_of (us_files s1) (path_at (wootc_dir x) [''install'']) = None \<and> map_of (us_files s1) (evidence_file x) = None \<and>
    (uo_delete_disk opts \<longrightarrow> map_of (us_files s1) (wootc_dir x) = None)"
proof -
  define paths where "paths = concat (map (\<lambda>x. [(NotRemoved, path_at (wootc_dir x) [''install'']), (NotRemoved, evidence_file x)]) [d, ''C'']) @
            (if uo_delete_disk opts \<or> uo_remove_partition opts then map (\<lambda>x. (NotFullyRemoved, wootc_dir x)) [d, ''C''] else [])"
  from assms(1) obtain s2 where "left_overs env paths s2 = ([], s1)"
    unfolding verifyUninstallClean_def Let_def paths_def [symmetric] by (auto split: prod.splits)
  note gone = left_overs_nothing [OF assms(2) this]
  have "(NotRemoved, path_at (wootc_dir x) [''install'']) \<in> set paths" "(NotRemoved, evidence_file x) \<in> set paths"
    "uo_delete_disk opts \<Longrightarrow> (NotFullyRemoved, wootc_dir x) \<in> set paths"
    using assms(3) by (auto simp: paths_def)
  then show ?thesis using gone by blast
qed


end
