(* ===== verification/Uninstall_Secrets.thy ===== *)
theory Uninstall_Secrets
  imports Uninstall_Props
begin

text \<open>
  No staged credential survives in freed clusters: the recovery key and the encrypted session envelopes
  are overwritten with zeros before anything unlinks them, on every drive the uninstaller cleans.
\<close>

definition secret_of :: "string \<Rightarrow> win_path \<Rightarrow> bool" where
  "secret_of d p \<longleftrightarrow> p = path_at (wootc_dir d) [''install'', ''bitlocker-key.txt''] \<or>
     is_envelope (path_at (wootc_dir d) [''install'', ''slurp'', ''session'']) p"

definition blank_text :: "string \<Rightarrow> bool" where
  "blank_text c \<longleftrightarrow> set c \<subseteq> {CHR 0x00}"

text \<open>What was freed at a path since the start is blank; and what is there now is blank, too.\<close>

definition entries_at :: "win_path \<Rightarrow> 'w uninstall_state \<Rightarrow> (win_path \<times> disk_entry) list" where
  "entries_at p s = filter (\<lambda>x. fst x = p) (us_files s)"

definition zeroed :: "win_path \<Rightarrow> 'w uninstall_state \<Rightarrow> 'w uninstall_state \<Rightarrow> bool" where
  "zeroed p s0 s \<longleftrightarrow> length (entries_at p s) \<le> 1 \<and>
     (\<forall>c. (p, c) \<in> set (us_freed s) \<longrightarrow> (p, c) \<in> set (us_freed s0) \<or> blank_text c)"

definition wiped :: "win_path \<Rightarrow> 'w uninstall_state \<Rightarrow> 'w uninstall_state \<Rightarrow> bool" where
  "wiped p s0 s \<longleftrightarrow> zeroed p s0 s \<and> (\<forall>c. (p, RegularFile c) \<in> set (us_files s) \<longrightarrow> blank_text c)"

text \<open>Operations on other paths change neither the entries at a path nor what was freed there.\<close>

definition same_at :: "win_path \<Rightarrow> 'w uninstall_state \<Rightarrow> 'w uninstall_state \<Rightarrow> bool" where
  "same_at p s s1 \<longleftrightarrow> entries_at p s1 = entries_at p s \<and> (\<forall>c. (p, c) \<in> set (us_freed s1) \<longleftrightarrow> (p, c) \<in> set (us_freed s))"

lemma same_at_refl: "same_at p s s" "looked s s1 \<Longrightarrow> same_at p s s1"
  by (simp_all add: same_at_def entries_at_def looked_def)

lemma same_at_trans: "same_at p s s1 \<Longrightarrow> same_at p s1 s2 \<Longrightarrow> same_at p s s2"
  by (simp add: same_at_def)

lemma same_at_zeroed: "same_at p s s1 \<Longrightarrow> zeroed p s0 s \<Longrightarrow> zeroed p s0 s1"
  by (simp add: same_at_def zeroed_def)

lemma entries_at_mem: "(p, e) \<in> set (us_files s) \<longleftrightarrow> (p, e) \<in> set (entries_at p s)"
  by (simp add: entries_at_def)

lemma same_at_wiped: "same_at p s s1 \<Longrightarrow> wiped p s0 s \<Longrightarrow> wiped p s0 s1"
  using same_at_zeroed [of p s s1 s0] by (auto simp: wiped_def entries_at_mem same_at_def)

lemma entries_at_unlink: "entries_at p (unlink P s) = (if P p then [] else entries_at p s)"
  by (auto simp: entries_at_def unlink_def filter_empty_conv intro: filter_cong)

lemma freed_by_mem: "(p, c) \<in> set (freed_by P fs) \<longleftrightarrow> P p \<and> (p, RegularFile c) \<in> set fs"
  by (induction fs) (auto simp: freed_by_def split: disk_entry.splits)

lemma freed_unlink:
  "(p, c) \<in> set (us_freed (unlink P s)) \<longleftrightarrow> P p \<and> (p, RegularFile c) \<in> set (us_files s) \<or> (p, c) \<in> set (us_freed s)"
  by (simp add: unlink_def freed_by_mem)

lemma unlink_same: "\<not> P p \<Longrightarrow> same_at p s (unlink P s)"
  by (simp add: same_at_def entries_at_unlink freed_unlink)

lemma unlink_wiped: "wiped p s0 s \<Longrightarrow> wiped p s0 (unlink P s)"
  by (auto simp: wiped_def zeroed_def entries_at_unlink freed_unlink unlink_mem)

lemma remove_path_same: "q \<noteq> p \<Longrightarrow> same_at q s (snd (remove_path env p s))"
  by (auto simp: remove_path_def split: prod.splits option.splits
      intro: same_at_refl(2) same_at_trans [OF same_at_refl(2) unlink_same] dest!: looked_ask)

lemma remove_path_wiped: "wiped q s0 s \<Longrightarrow> wiped q s0 (snd (remove_path env p s))"
  by (auto simp: remove_path_def split: prod.splits option.splits
      intro: same_at_wiped [OF same_at_refl(2)] unlink_wiped [OF same_at_wiped [OF same_at_refl(2)]] dest!: looked_ask)

lemma remove_tree_same: "\<not> under p q \<Longrightarrow> same_at q s (remove_tree env p s)"
  by (auto simp: remove_tree_def split: prod.splits option.splits
      intro: same_at_trans [OF same_at_refl(2) unlink_same] dest!: looked_ask)

lemma remove_tree_wiped: "wiped q s0 s \<Longrightarrow> wiped q s0 (remove_tree env p s)"
  by (auto simp: remove_tree_def split: prod.splits option.splits
      intro: unlink_wiped [OF same_at_wiped [OF same_at_refl(2)]] dest!: looked_ask)

lemma remove_each_same: "q \<notin> set ps \<Longrightarrow> same_at q s (remove_each env ps s)"
  unfolding remove_each_def
  by (induction ps arbitrary: s) (auto simp: same_at_refl intro: same_at_trans remove_path_same)

lemma remove_each_wiped: "wiped q s0 s \<Longrightarrow> wiped q s0 (remove_each env ps s)"
  unfolding remove_each_def by (induction ps arbitrary: s) (auto intro: remove_path_wiped)

lemma remove_all_wiped: "wiped q s0 s \<Longrightarrow> wiped q s0 (remove_all env ps s)"
  unfolding remove_all_def by (induction ps arbitrary: s) (auto intro: remove_tree_wiped)

lemma remove_all_same: "\<forall>p\<in>set ps. \<not> under p q \<Longrightarrow> same_at q s (remove_all env ps s)"
  unfolding remove_all_def
proof (induction ps arbitrary: s)
  case (Cons p ps)
  from same_at_trans [OF remove_tree_same Cons.IH] Cons.prems show ?case by simp
qed (simp add: same_at_refl)

subsection \<open>Overwriting\<close>

lemma entries_at_overwrite: "entries_at q (overwrite p c s) = (if q = p then map (\<lambda>(r, e). (r, RegularFile c)) (entries_at p s) else entries_at q s)"
proof -
  have "filter (\<lambda>x. fst x = q) (map (\<lambda>(r, e). (r, if r = p then RegularFile c else e)) fs) =
      (if q = p then map (\<lambda>(r, e). (r, RegularFile c)) (filter (\<lambda>x. fst x = p) fs) else filter (\<lambda>x. fst x = q) fs)" for fs
    by (induction fs) auto
  then show ?thesis by (simp add: entries_at_def overwrite_def)
qed

lemma overwrite_freed [simp]: "us_freed (overwrite p c s) = us_freed s"
  by (simp add: overwrite_def)

lemma overwrite_same: "q \<noteq> p \<Longrightarrow> same_at q s (overwrite p c s)"
  by (simp add: same_at_def entries_at_overwrite)

lemma wipe_same: "q \<noteq> p \<Longrightarrow> same_at q s (wipe_file env p s)"
  by (auto simp: wipe_file_def same_at_refl split: option.splits disk_entry.splits prod.splits
      intro: same_at_trans [OF same_at_refl(2) overwrite_same] dest!: looked_ask dest: looked_trans)

lemma scrub_same:
  assumes "q \<noteq> p"
  shows "same_at q s (snd (scrubFile env p s))"
proof -
  obtain r s1 where r: "stat_path env p s = (r, s1)" by fastforce
  note 1 = same_at_refl(2) [OF looked_stat [OF r]]
  from same_at_trans [OF same_at_trans [OF 1 wipe_same [OF assms]] remove_path_same [OF assms]] 1 r
  show ?thesis by (auto simp: scrubFile_def split: stat_result.splits)
qed

text \<open>With one entry at a path, the first one found there is the only one.\<close>

lemma only_entry:
  assumes "length (entries_at p s) \<le> 1" "(p, e) \<in> set (us_files s)"
  shows "map_of (us_files s) p = Some e"
proof -
  have "map_of fs p = Some e" if "length (filter (\<lambda>x. fst x = p) fs) \<le> 1" "(p, e) \<in> set fs" for fs
    using that
  proof (induction fs)
    case (Cons a fs)
    then show ?case by (cases a; cases "fst a = p") (auto simp: filter_empty_conv)
  qed simp
  with assms show ?thesis by (simp add: entries_at_def)
qed

text \<open>\<open>scrubFile\<close> on a file whose stat, open and writes succeed.\<close>

definition scrubbable :: "'w uninstall_env \<Rightarrow> win_path \<Rightarrow> bool" where
  "scrubbable env p \<longleftrightarrow> (\<forall>w. fst (ue_stat env p w) = None \<and> fst (ue_open env p w) = None \<and> fst (ue_wipe env p w) = None)"

lemma blank_zeros: "blank_text (zeros n)" "blank_text []"
  by (auto simp: blank_text_def zeros_def)

lemma wipe_wiped:
  assumes "scrubbable env p" "zeroed p s0 s"
  shows "wiped p s0 (wipe_file env p s)"
proof (cases "\<exists>c. map_of (us_files s) p = Some (RegularFile c) \<and> c \<noteq> []")
  case True
  then obtain c where c: "map_of (us_files s) p = Some (RegularFile c)" "c \<noteq> []" by blast
  obtain x s1 where x: "ask (ue_open env p) s = (x, s1)" by fastforce
  obtain y s2 where y: "ask (ue_wipe env p) s1 = (y, s2)" by fastforce
  have n: "x = None" "y = None"
    using assms(1) x y by (auto simp: scrubbable_def ask_def split: prod.splits) (metis fst_conv)+
  then have w: "wipe_file env p s = overwrite p (zeros (length c)) s2" using c x y by (simp add: wipe_file_def)
  have "zeroed p s0 s2"
    using assms(2) looked_trans [OF looked_ask [OF x] looked_ask [OF y]] by (blast intro: same_at_zeroed same_at_refl)
  then show ?thesis unfolding w by (auto simp: wiped_def zeroed_def entries_at_overwrite entries_at_mem blank_zeros)
next
  case False
  then have "wipe_file env p s = s" by (auto simp: wipe_file_def split: option.splits disk_entry.splits)
  moreover have "blank_text c" if "(p, RegularFile c) \<in> set (us_files s)" for c
    using only_entry [OF _ that] assms(2) False by (auto simp: zeroed_def blank_zeros)
  ultimately show ?thesis using assms(2) by (simp add: wiped_def)
qed

lemma scrub_wiped:
  assumes "scrubbable env p" "zeroed p s0 s"
  shows "wiped p s0 (snd (scrubFile env p s))"
proof -
  obtain r s1 where r: "stat_path env p s = (r, s1)" by fastforce
  have z: "zeroed p s0 s1" using same_at_zeroed [OF same_at_refl(2) [OF looked_stat [OF r]] assms(2)] .
  show ?thesis
  proof (cases "r = Exists")
    case True
    with r remove_path_wiped [OF wipe_wiped [OF assms(1) z]] show ?thesis by (simp add: scrubFile_def)
  next
    case False
    have "map_of (us_files s1) p = None"
      using stat_nothing [OF r False] looked_stat [OF r] assms(1) by (simp add: scrubbable_def looked_def)
    then have "wiped p s0 s1" using z by (auto simp: wiped_def map_of_eq_None_iff image_iff)
    with False r show ?thesis by (cases r) (simp_all add: scrubFile_def)
  qed
qed

subsection \<open>The credentials of an installation\<close>

lemma wiped_zeroed: "wiped p s0 s \<Longrightarrow> zeroed p s0 s"
  by (simp add: wiped_def)

lemma scrub_step: "scrubbable env p \<Longrightarrow> wiped p s0 s \<Longrightarrow> wiped p s0 (snd (scrubFile env q s))"
  by (cases "p = q") (auto intro: scrub_wiped wiped_zeroed same_at_wiped scrub_same)

lemma scrub_all_Cons: "snd (scrub_all env (q # ps) s) = snd (scrub_all env ps (snd (scrubFile env q s)))"
  by (simp split: prod.split)

lemma scrub_all_step: "scrubbable env p \<Longrightarrow> wiped p s0 s \<Longrightarrow> wiped p s0 (snd (scrub_all env ps s))"
proof (induction ps arbitrary: s)
  case (Cons q ps)
  from Cons.IH [OF Cons.prems(1) scrub_step [OF Cons.prems]] show ?case unfolding scrub_all_Cons .
qed simp

lemma scrub_all_wiped:
  "scrubbable env p \<Longrightarrow> p \<in> set ps \<Longrightarrow> zeroed p s0 s \<Longrightarrow> wiped p s0 (snd (scrub_all env ps s))"
proof (induction ps arbitrary: s)
  case (Cons q ps)
  have "wiped p s0 (snd (scrub_all env ps (snd (scrubFile env q s))))"
  proof (cases "p = q")
    case True
    with Cons.prems scrub_wiped [of env p s0 s] show ?thesis by (intro scrub_all_step) simp_all
  next
    case False
    with Cons show ?thesis by (intro Cons.IH same_at_zeroed [OF scrub_same]) simp_all
  qed
  then show ?case unfolding scrub_all_Cons .
qed simp

lemma scrub_all_same: "p \<notin> set ps \<Longrightarrow> same_at p s (snd (scrub_all env ps s))"
proof (induction ps arbitrary: s)
  case (Cons q ps)
  have "same_at p s (snd (scrubFile env q s))" using Cons.prems by (intro scrub_same) simp
  moreover have "same_at p (snd (scrubFile env q s)) (snd (scrub_all env ps (snd (scrubFile env q s))))"
    using Cons.prems by (intro Cons.IH) simp
  ultimately show ?case unfolding scrub_all_Cons by (rule same_at_trans)
qed (simp add: same_at_refl)

lemma looked_secret_files: "installSecretFiles env inst s = (ps, s1) \<Longrightarrow> looked s s1"
  by (auto simp: installSecretFiles_def Let_def split: prod.splits dest: looked_ask)

lemma secrets_listed:
  assumes "installSecretFiles env (path_at (wootc_dir d) [''install'']) s = (ps, s1)" "secret_of d p"
    and "\<And>dir w. fst (ue_glob env dir w)"
  shows "p \<in> set ps \<or> entries_at p s1 = []"
proof -
  obtain b s2 where b: "ask (ue_glob env (path_at (wootc_dir d) [''install'', ''slurp'', ''session''])) s = (b, s2)" by fastforce
  have "fst (ask f s) = fst (f (rs_world s))" for f :: "'a \<Rightarrow> 'c \<times> 'a"
    by (simp add: ask_def split: prod.split)
  with b assms(3) have "b" by (metis fst_conv)
  have p: "path_at (path_at (wootc_dir d) [''install'']) xs = path_at (wootc_dir d) (''install'' # xs)" for xs
    by (simp add: path_at_def)
  from assms(1) b \<open>b\<close> have "ps = path_at (wootc_dir d) [''install'', ''bitlocker-key.txt''] #
      filter (is_envelope (path_at (wootc_dir d) [''install'', ''slurp'', ''session''])) (map fst (us_files s1))"
    unfolding installSecretFiles_def Let_def p by (auto simp: eq_commute [of _ ps])
  moreover have "p \<in> set (map fst (us_files s1)) \<or> entries_at p s1 = []"
    by (cases "p \<in> set (map fst (us_files s1))") (force simp: entries_at_def filter_empty_conv)+
  ultimately show ?thesis using assms(2) unfolding secret_of_def by auto
qed

lemma scrub_secrets_wiped:
  assumes "scrubbable env p" "secret_of d p" "\<And>dir w. fst (ue_glob env dir w)" "zeroed p s0 s"
  shows "wiped p s0 (snd (scrubInstallSecrets env (path_at (wootc_dir d) [''install'']) s))"
proof -
  obtain ps s1 where ps: "installSecretFiles env (path_at (wootc_dir d) [''install'']) s = (ps, s1)" by fastforce
  have z: "zeroed p s0 s1" using same_at_zeroed [OF same_at_refl(2) [OF looked_secret_files [OF ps]] assms(4)] .
  have "wiped p s0 (snd (scrub_all env ps s1))"
  proof (cases "p \<in> set ps")
    case True
    with assms(1) z show ?thesis by (intro scrub_all_wiped)
  next
    case False
    with secrets_listed [OF ps assms(2,3)] z have "wiped p s0 s1" by (auto simp: wiped_def entries_at_mem)
    with scrub_all_same [OF False] show ?thesis by (rule same_at_wiped)
  qed
  with ps show ?thesis by (simp add: scrubInstallSecrets_def)
qed

lemma secret_under: "secret_of d p \<Longrightarrow> under (path_at (wootc_dir d) [''install'']) p"
  unfolding secret_of_def is_envelope_def
  by (elim disjE conjE) (simp_all add: under_prefix path_at_def wootc_dir_def, auto simp: prefix_def)

lemma clean_dir_zeroed:
  assumes "scrubbable env p" "secret_of d p" "\<And>dir w. fst (ue_glob env dir w)" "zeroed p s0 s"
  shows "zeroed p s0 (snd (clean_dir env delete d s))"
proof -
  let ?w = "wootc_dir d"
  obtain r s1 where r: "stat_path env ?w s = (r, s1)" by fastforce
  have z: "zeroed p s0 s1" using same_at_zeroed [OF same_at_refl(2) [OF looked_stat [OF r]] assms(4)] .
  obtain bad s2 where bad: "scrubInstallSecrets env (path_at ?w [''install'']) s1 = (bad, s2)" by fastforce
  define s5 where "s5 = remove_each env (map (\<lambda>x. path_at ?w [x]) loose_files)
     (remove_all env (map (\<lambda>x. path_at ?w [x]) [''install'', ''bundle'', ''cache'', ''logs'']) (remove_each env [evidence_file d] s2))"
  obtain disk s6 where disk: "first_existing env (map (\<lambda>n. path_at ?w [''disks'', n]) [''root.disk'', ''root.vhdx'']) s5 = (disk, s6)"
    by fastforce
  have "wiped p s0 s2" using scrub_secrets_wiped [OF assms(1-3) z] bad by simp
  then have "wiped p s0 s5" unfolding s5_def by (intro remove_each_wiped remove_all_wiped)
  then have w6: "wiped p s0 s6" using same_at_wiped [OF same_at_refl(2) [OF looked_first [OF disk]]] by blast
  show ?thesis
  proof (cases "r = Exists")
    case True
    have "snd (clean_dir env delete d s) = (if delete \<or> disk = None then remove_all env [path_at ?w [''disks''], ?w] s6 else s6)"
      using True r bad disk by (simp add: clean_dir_def Let_def s5_def)
    with w6 show ?thesis by (simp add: wiped_zeroed remove_all_wiped)
  next
    case False
    with r z show ?thesis by (cases r) (simp_all add: clean_dir_def)
  qed
qed

text \<open>On the other drives nothing happens to them.\<close>

lemma scrub_secrets_same: "\<not> under inst q \<Longrightarrow> same_at q s (snd (scrubInstallSecrets env inst s))"
proof -
  assume q: "\<not> under inst q"
  obtain ps s1 where ps: "installSecretFiles env inst s = (ps, s1)" by fastforce
  have "q \<notin> set ps" using secret_paths [OF ps, of q] q by blast
  from same_at_trans [OF same_at_refl(2) [OF looked_secret_files [OF ps]] scrub_all_same [OF this]] ps
  show ?thesis by (simp add: scrubInstallSecrets_def)
qed

lemma clean_dir_same:
  assumes q: "\<not> under (wootc_dir d) q"
  shows "same_at q s (snd (clean_dir env delete d s))"
proof -
  let ?w = "wootc_dir d"
  have el: "\<not> under ?w q \<or> q \<in> linux_disks d" using q by blast
  note k = elsewhere_stays [OF el]
  obtain r s1 where r: "stat_path env ?w s = (r, s1)" by fastforce
  obtain bad s2 where bad: "scrubInstallSecrets env (path_at ?w [''install'']) s1 = (bad, s2)" by fastforce
  define s3 where "s3 = remove_each env [evidence_file d] s2"
  define s4 where "s4 = remove_all env (map (\<lambda>x. path_at ?w [x]) [''install'', ''bundle'', ''cache'', ''logs'']) s3"
  define s5 where "s5 = remove_each env (map (\<lambda>x. path_at ?w [x]) loose_files) s4"
  obtain disk s6 where disk: "first_existing env (map (\<lambda>n. path_at ?w [''disks'', n]) [''root.disk'', ''root.vhdx'']) s5 = (disk, s6)"
    by fastforce
  have 1: "same_at q s s1" using looked_stat [OF r] by (rule same_at_refl)
  have 2: "same_at q s1 s2" using scrub_secrets_same [OF k(1), of s1 env] bad by simp
  have 3: "same_at q s2 s3" unfolding s3_def using k(5) by (intro remove_each_same) simp
  have 4: "same_at q s3 s4" unfolding s4_def using k(1-4) by (intro remove_all_same) simp
  have 5: "same_at q s4 s5" unfolding s5_def using k(6) by (intro remove_each_same) auto
  have 6: "same_at q s5 s6" using looked_first [OF disk] by (rule same_at_refl)
  note all = same_at_trans [OF same_at_trans [OF same_at_trans [OF same_at_trans [OF same_at_trans [OF 1 2] 3] 4] 5] 6]
  have 7: "same_at q s6 (remove_all env [path_at ?w [''disks''], ?w] s6)"
    using q under_part [of ?w _ q] by (intro remove_all_same) auto
  show ?thesis
  proof (cases "r = Exists")
    case True
    have "snd (clean_dir env delete d s) = (if delete \<or> disk = None then remove_all env [path_at ?w [''disks''], ?w] s6 else s6)"
      using True r bad disk by (simp add: clean_dir_def Let_def s3_def s4_def s5_def)
    with all same_at_trans [OF all 7] show ?thesis by simp
  next
    case False
    with r 1 show ?thesis by (cases r) (simp_all add: clean_dir_def)
  qed
qed

lemma clean_drives_zeroed:
  assumes "\<not> uo_remove_partition opts" "scrubbable env p" "secret_of d p" "\<And>dir w. fst (ue_glob env dir w)"
  shows "clean_drives env opts ds s = (x, s1) \<Longrightarrow> zeroed p s0 s \<Longrightarrow> zeroed p s0 s1"
proof (induction ds arbitrary: s x)
  case (Cons a ds)
  obtain y s2 where y: "clean_dir env (uo_delete_disk opts) a s = (y, s2)" by fastforce
  obtain z s3 where z: "clean_drives env opts ds s2 = (z, s3)" by fastforce
  have "zeroed p s0 s2"
  proof (cases "a = d")
    case True
    with clean_dir_zeroed [OF assms(2-4) Cons.prems(2)] y show ?thesis by (metis snd_conv)
  next
    case False
    with secret_under [OF assms(3)] have "\<not> under (wootc_dir a) p" by (simp add: under_def path_at_def wootc_dir_def)
    from same_at_zeroed [OF clean_dir_same [OF this] Cons.prems(2)] y show ?thesis by (metis snd_conv)
  qed
  moreover from Cons.prems assms(1) y z have "s1 = s3" by simp
  ultimately show ?case using Cons.IH z by blast
qed simp

lemma move_zeroed:
  assumes "moveRunningImageAside env ps s = (x, s1)" "ue_aside env \<noteq> p" "zeroed p s0 s"
  shows "zeroed p s0 s1"
proof -
  obtain r s2 where r: "ask (ue_self env) s = (r, s2)" by fastforce
  obtain y s3 where y: "ask (ue_rename env) s2 = (y, s3)" by fastforce
  note f = looked_ask [OF r] looked_trans [OF looked_ask [OF r] looked_ask [OF y]]
  have "length (filter (\<lambda>x. fst x = p) (map (\<lambda>(q, e). (if g q then ue_aside env else q, e)) fs)) \<le> length (filter (\<lambda>x. fst x = p) fs)"
    for g :: "win_path \<Rightarrow> bool" and fs :: "(win_path \<times> disk_entry) list"
    using assms(2) by (induction fs) auto
  then have "zeroed p s0 (s3\<lparr>us_files := map (\<lambda>(q, e). (if g q then ue_aside env else q, e)) (us_files s3)\<rparr>)" for g
    using assms(3) f(2) by (auto simp: zeroed_def entries_at_def looked_def intro: order_trans)
  moreover have "zeroed p s0 s2" "zeroed p s0 s3" using same_at_zeroed [OF same_at_refl(2) assms(3)] f by blast+
  ultimately show ?thesis using assms(1) r y
    by (auto simp: moveRunningImageAside_def split: sum.splits if_splits option.splits)
qed


end
