(* ===== verification/Uninstall_Sample.thy ===== *)
theory Uninstall_Sample
  imports Uninstall_Secrets
begin

text \<open>
  A PC to uninstall from: Linux on drive C with a staged recovery key and an encrypted envelope, a file of the user
  next to it, and a created partition whose receipt is there. Every call succeeds.
\<close>

definition created_partition :: storage_receipt where
  "created_partition = \<lparr>sr_schema = 1, sr_partition = ''11111111-2222-3333-4444-555555555555'',
     sr_disk = ''aaaaaaaa-2222-3333-4444-555555555555'', sr_source_partition = ''bbbbbbbb-2222-3333-4444-555555555555'',
     sr_source_disk = ''aaaaaaaa-2222-3333-4444-555555555555'', sr_bytes = 68719476736, sr_created = ''2026-01-02T03:04:05Z''\<rparr>"

definition ok_receipts :: "unit receipt_env" where
  "ok_receipts = \<lparr>pe_decode = (\<lambda>t. if t = ''receipt'' then Some created_partition else None), pe_encode = (\<lambda>_. ''receipt''),
     pe_audit = (\<lambda>_ w. (None, w)), pe_lstat = (\<lambda>w. (None, w)), pe_write = (\<lambda>_ w. (NoFault, w)), pe_remove = (\<lambda>_ w. (None, w)), pe_removal = (\<lambda>_ w. (None, w))\<rparr>"

definition ok_uninstall :: "unit uninstall_env" where
  "ok_uninstall = \<lparr>ue_receipts = ok_receipts, ue_volumes = (\<lambda>w. ([], w)), ue_trusted = (\<lambda>_ w. (None, w)),
     ue_state = (\<lambda>_ w. ((zero_lifecycle\<lparr>ls_state := StateHealthy\<rparr>, True), w)),
     ue_evidence = (\<lambda>_ w. (None, w)), ue_location = (\<lambda>_ w. (Inr None, w)), ue_call = (\<lambda>_ w. (None, w)),
     ue_bcdedit = (\<lambda>_ w. (([], None), w)), ue_lists_wootc = (\<lambda>_. False), ue_esp = (\<lambda>w. (Inr (Inr False), w)),
     ue_registry = (\<lambda>w. (([], None), w)), ue_self = (\<lambda>w. (Inr (''C:'' @ backslash # ''wootc.exe''), w)), ue_rename = (\<lambda>w. (None, w)),
     ue_aside = (''C'', [''wootc.exe.old'']), ue_stat = (\<lambda>_ w. (None, w)), ue_open = (\<lambda>_ w. (None, w)), ue_wipe = (\<lambda>_ w. (None, w)),
     ue_remove = (\<lambda>_ w. (None, w)), ue_remove_all = (\<lambda>_ w. (None, w)), ue_glob = (\<lambda>_ w. (True, w)), ue_vanished = (\<lambda>_ _. False)\<rparr>"

definition staged_key :: win_path where
  "staged_key = path_at (wootc_dir ''C'') [''install'', ''bitlocker-key.txt'']"

definition pc_with :: "(win_path \<times> disk_entry) list \<Rightarrow> (win_path \<times> string) list \<Rightarrow> unit uninstall_state" where
  "pc_with fs freed = \<lparr>rs_file = (\<lambda>f. if f = CreationReceipt then Some ''receipt'' else None), rs_world = (),
     us_files = fs, us_freed = freed\<rparr>"

definition kept_files :: "(win_path \<times> disk_entry) list" where
  "kept_files = [((''C'', [''wootc'']), Directory), ((''C'', [''wootc'', ''disks'']), Directory),
     (root_disk ''C'', RegularFile ''linux''), ((''C'', [''thesis.txt'']), RegularFile ''words'')]"

definition install_folder :: "win_path \<times> disk_entry" where
  "install_folder = ((''C'', [''wootc'', ''install'']), Directory)"

definition linux_pc :: "unit uninstall_state" where
  "linux_pc = pc_with (install_folder # (staged_key, RegularFile ''123456'') # kept_files) []"

definition plain_options :: uninstall_options where
  "plain_options = \<lparr>uo_delete_disk = False, uo_remove_partition = False\<rparr>"

text \<open>The run, step by step.\<close>

lemmas pieces = ask_def call_def stat_path_def path_at_def wootc_dir_def root_disk_def ok_uninstall_def pc_with_def
  remove_path_def remove_tree_def unlink_def under_def freed_by_def evidence_file_def kept_files_def install_folder_def staged_key_def

lemma ok_scrub:
  "scrubInstallSecrets ok_uninstall (path_at (wootc_dir ''C'') [''install'']) linux_pc =
     ([], pc_with (install_folder # kept_files) [(staged_key, zeros 6)])"
  by (simp add: scrubInstallSecrets_def installSecretFiles_def scrubFile_def wipe_file_def overwrite_def is_envelope_def
      linux_pc_def pieces zeros_def numeral_eq_Suc)

lemma ok_install:
  "remove_all ok_uninstall (map (\<lambda>x. path_at (wootc_dir ''C'') [x]) [''install'', ''bundle'', ''cache'', ''logs''])
     (pc_with (install_folder # kept_files) z) = pc_with kept_files z"
  by (simp add: pieces remove_all_def)

lemma ok_missing: "p \<notin> fst ` set fs \<Longrightarrow> remove_each ok_uninstall (p # ps) (pc_with fs z) = remove_each ok_uninstall ps (pc_with fs z)"
  by (simp add: remove_each_def remove_path_def ask_def ok_uninstall_def pc_with_def map_of_eq_None_iff split: option.split)

lemma ok_none: "remove_each ok_uninstall [] s = s"
  by (simp add: remove_each_def)

lemma ok_stat: "stat_path ok_uninstall p (pc_with fs z) = (if p \<in> fst ` set fs then Exists else NotThere, pc_with fs z)"
  by (simp add: stat_path_def ask_def ok_uninstall_def pc_with_def map_of_eq_None_iff)

lemma ok_clean:
  "clean_dir ok_uninstall False ''C'' linux_pc = ([], pc_with kept_files [(staged_key, zeros 6)])"
proof -
  have e: "remove_each ok_uninstall [evidence_file ''C''] (pc_with (install_folder # kept_files) z) = pc_with (install_folder # kept_files) z" for z
    by (simp add: ok_missing ok_none evidence_file_def install_folder_def kept_files_def root_disk_def path_at_def wootc_dir_def)
  have l: "remove_each ok_uninstall (map (\<lambda>x. path_at (wootc_dir ''C'') [x]) loose_files) (pc_with kept_files z) = pc_with kept_files z" for z
    by (simp add: loose_files_def ok_missing ok_none kept_files_def root_disk_def path_at_def wootc_dir_def)
  have d: "first_existing ok_uninstall (map (\<lambda>n. path_at (wootc_dir ''C'') [''disks'', n]) [''root.disk'', ''root.vhdx'']) (pc_with kept_files z) =
      (Some (root_disk ''C''), pc_with kept_files z)" for z
    by (simp add: ok_stat) (simp add: kept_files_def root_disk_def path_at_def wootc_dir_def)
  have s: "stat_path ok_uninstall (wootc_dir ''C'') linux_pc = (Exists, linux_pc)"
    by (simp add: linux_pc_def ok_stat kept_files_def wootc_dir_def)
  show ?thesis
    unfolding clean_dir_def s Let_def stat_result.case prod.case ok_scrub e ok_install l d by simp
qed

text \<open>The disk was found, so the installation is the one on C; nothing else is left afterwards.\<close>

lemma ok_drive: "(case fst (getUninstallInfo ok_uninstall linux_pc) of i \<Rightarrow> if ui_found i \<and> ui_drive i \<noteq> [] then ui_drive i else ''C'') = ''C''"
  by code_simp

lemma ok_self: "moveRunningImageAside ok_uninstall [(''C'', [''wootc'', ''install''])] (pc_with fs z) = (None, pc_with fs z)"
proof -
  have "\<not> uninstallRemovesImage (''C:'' @ backslash # ''wootc.exe'') (map path_text [(''C'', [''wootc'', ''install''])])"
    by code_simp
  then show ?thesis by (simp add: moveRunningImageAside_def ask_def ok_uninstall_def pc_with_def)
qed

lemma ok_verified: "verifyUninstallClean ok_uninstall plain_options ''C'' (pc_with kept_files z) = ([], pc_with kept_files z)"
proof -
  have e: "hasWootcBCDEntry ok_uninstall (pc_with fs z) = (False, pc_with fs z)" for fs
    by (simp add: hasWootcBCDEntry_def ask_def pc_with_def ok_uninstall_def)
  have f: "hasWootcESPArtifacts ok_uninstall (pc_with fs z) = (False, pc_with fs z)" for fs
    by (simp add: hasWootcESPArtifacts_def ask_def pc_with_def ok_uninstall_def)
  have g: "hasUninstallRegistryEntry ok_uninstall (pc_with fs z) = (False, pc_with fs z)" for fs
    by (simp add: hasUninstallRegistryEntry_def ask_def pc_with_def ok_uninstall_def trim_space_def trim_by_def trim_left_by_def trim_right_by_def)
  show ?thesis
    by (simp add: verifyUninstallClean_def e f g left_over_def ok_stat problem_if_def plain_options_def)
      (simp add: kept_files_def root_disk_def evidence_file_def path_at_def wootc_dir_def)
qed

lemma ok_ask: "ask f (pc_with fs z) = (fst (f ()), pc_with fs z)"
  by (simp add: ask_def pc_with_def split: prod.split)

lemma ok_call: "call ok_uninstall c (pc_with fs z) = (None, pc_with fs z)"
  by (simp add: call_def ok_ask ok_uninstall_def)

lemma ok_found: "\<exists>i. getUninstallInfo ok_uninstall linux_pc = (i, linux_pc) \<and> ui_found i \<and> ui_drive i = ''C''"
proof -
  have v: "ue_volumes ok_uninstall () = ([], ())" "ue_trusted ok_uninstall p () = (None, ())" for p
    by (simp_all add: ok_uninstall_def)
  have t: "trusted_drives ok_uninstall [''C''] linux_pc = ([''C''], linux_pc)"
    by (simp add: linux_pc_def ok_ask ok_stat v) (simp add: kept_files_def wootc_dir_def)
  have f: "first_existing ok_uninstall (disk_paths ''C'') linux_pc = (Some (root_disk ''C''), linux_pc)"
    by (simp add: disk_paths_def linux_pc_def ok_stat)
      (simp add: kept_files_def install_folder_def staged_key_def root_disk_def path_at_def wootc_dir_def)
  have a: "ask g linux_pc = (fst (g ()), linux_pc)" for g :: "unit \<Rightarrow> 'b \<times> unit"
    by (simp add: linux_pc_def ok_ask)
  obtain i where i: "disk_info ok_uninstall ''C'' (root_disk ''C'') linux_pc = (i, linux_pc)" "ui_found i" "ui_drive i = ''C''"
    by (simp add: disk_info_def with_partition_def a nothing_found_def Let_def split_beta)
  then have "find_disk ok_uninstall [''C''] linux_pc = (Some i, linux_pc)" by (simp add: f)
  then have "getUninstallInfo ok_uninstall linux_pc = (i, linux_pc)"
    using t by (simp add: getUninstallInfo_def a v del: trusted_drives.simps find_disk.simps)
  with i(2,3) show ?thesis by simp
qed

lemma ok_run: "uninstallWith ok_uninstall plain_options linux_pc = (None, pc_with kept_files [(staged_key, zeros 6)])"
proof -
  obtain i where i: "getUninstallInfo ok_uninstall linux_pc = (i, linux_pc)" "ui_found i" "ui_drive i = ''C''"
    using ok_found by blast
  have c: "call ok_uninstall c linux_pc = (None, linux_pc)" for c by (simp add: linux_pc_def ok_call)
  have m: "moveRunningImageAside ok_uninstall [path_at (wootc_dir ''C'') [''install'']] linux_pc = (None, linux_pc)"
    using ok_self by (simp add: linux_pc_def path_at_def wootc_dir_def)
  have d: "clean_drives ok_uninstall plain_options [''C''] linux_pc = ([], pc_with kept_files [(staged_key, zeros 6)])"
    using ok_clean by (simp add: plain_options_def)
  have "carry_out ok_uninstall plain_options ''C'' None linux_pc = (None, pc_with kept_files [(staged_key, zeros 6)])"
    unfolding carry_out_def using m d ok_verified by (simp add: c plain_options_def)
  then show ?thesis by (simp add: uninstallWith_def guarded_uninstall_def i c plain_options_def)
qed

subsection \<open>The properties at work\<close>

lemma ok_scrubbable: "scrubbable ok_uninstall p"
  by (simp add: scrubbable_def ok_uninstall_def)




theorem removal_authority_witness:
  "authority ok_receipts created_partition (snd (markStoragePartitionRemoval ok_receipts created_partition linux_pc))"
proof -
  have d: "decodeStoragePartitionReceipt ok_receipts (pe_encode ok_receipts created_partition) = Inr created_partition"
    by code_simp
  then have "authority ok_receipts created_partition linux_pc"
    by (simp add: authority_def receipt_says_def linux_pc_def pc_with_def ok_receipts_def)
  from removal_authority [OF d this] show ?thesis by simp
qed

end
