(* ===== verification/Spec2Isabelle.thy ===== *)
theory Spec2Isabelle
  imports Esp_Cleanup_Props Simulated_Machine Journal_Disk Install_Witness Startup_Recovery Boot_Menu Boot_Repair_Props Install_Space First_Boot_Witness Session_Witness Hardware_Witness Guest_Selected Oci_Pull_Sample Secure_Boot_Props Boot_Wiring_Sample Runtime_Bundle_Sample Uninstall_Sample
begin

text \<open>
  Verification of the installer engine of wootc (Go, \<open>app/\<close>), which installs a bootc Linux
  image from a running Windows: it stages a signed boot chain on the EFI system partition,
  creates and arms a one-shot firmware entry, and leaves the rest to a deployer that runs on
  the next boot.

  The program and how its parts interact.

  A native shell talks to the engine over standard input (\<open>serve.go\<close>). The server decides from
  its session which method may be called; an installation, a removal or a VM action needs a
  plan that was observed, granted and confirmed (\<open>native_*.go\<close>). Before it offers an
  installation it compares the PC with the target image (\<open>hardware.go\<close>, \<open>pnp.go\<close>,
  \<open>oci_hardware.go\<close>, over the OCI layout that \<open>ocipull.go\<close> downloads) and the free space with
  the image size (\<open>install_space.go\<close>). The engine (\<open>install_engine.go\<close>) runs the steps of the
  catalogue (\<open>steps.go\<close>) and journals each one before it starts (\<open>install_journal.go\<close>); the last
  steps stage the ESP (\<open>installer_esp.go\<close>) under an ownership manifest (\<open>esp_ownership.go\<close>,
  \<open>esp_cleanup.go\<close>) and arm the boot chain as a transaction with a journal of its own
  (\<open>boot_txn.go\<close>). After a reboot or a crash the engine reads what is left: the journal
  (\<open>install_recovery.go\<close>), the records and the deployer's log (\<open>recovery.go\<close>,
  \<open>status_records.go\<close>), the boot entries (\<open>boot_repair.go\<close>) and the evidence that the new
  system wrote on its first boot (\<open>firstboot_evidence.go\<close>).

  Which theory models which part.

  \<^item> \<open>Prelude\<close>, \<open>Go_Strings\<close>, \<open>Go_Time\<close>: association lists as Go maps, sorted key lists, the
    results of file reads; the functions of \<open>strings\<close>, \<open>strconv\<close> and \<open>time\<close> the code calls.
  \<^item> \<open>Lifecycle\<close>: \<open>state.go\<close>, \<open>steps.go\<close> and \<open>steps_gen.go\<close>, the persisted state and the catalogue.
  \<^item> \<open>Bcd_Listing\<close>, \<open>Bcd_Roundtrip\<close>, \<open>Boot_Chain\<close>, \<open>Boot_Txn\<close>: \<open>boot_txn.go\<close>, from the parser of
    \<open>bcdedit /enum firmware\<close> to begin, arm, sweep, rollback and the startup decision. \<open>bcdedit\<close>,
    the ESP, the journal file and the clock are the fields of the record \<open>boot_chain_env\<close>.
    \<open>Boot_Trace\<close> adds a trace of events to any such environment and \<open>Boot_Txn_Props\<close> states the
    safety argument over it. \<open>Firmware\<close> states the documented behaviour of
    \<open>bcdedit\<close> on a store and shows that a rollback restores it; \<open>Simulated_Machine\<close> is an executable instance.
  \<^item> \<open>Esp_Paths\<close>, \<open>Esp_Volume\<close>, \<open>Esp_Ownership\<close>, \<open>Esp_Staging\<close>, \<open>Esp_Cleanup\<close> with their
    \<open>Props\<close>: the file names, a FAT volume with a script of faults, the manifest, the staging of
    \<open>installer_esp.go\<close> and the cleanup.
  \<^item> \<open>Install_Journal\<close>, \<open>Journal_Disk\<close>, \<open>Install_Engine\<close>, \<open>Install_Engine_Props\<close>, \<open>Install_Pipeline\<close>,
    \<open>Install_Recovery\<close>, \<open>Install_Recovery_Props\<close>, \<open>Install_Space\<close>, \<open>Install_Witness\<close>: the journal and its
    writer on a disk that can lose power, the step loop over an arbitrary platform, the
    production pipeline, the classification of an interrupted run and the space gate on
    64-bit words.
  \<^item> \<open>Startup_Recovery\<close>, \<open>Boot_Menu\<close>, \<open>Boot_Repair\<close>, \<open>Boot_Repair_Props\<close>: \<open>recovery.go\<close>,
    \<open>boot_menu.go\<close> and \<open>boot_repair.go\<close>.
  \<^item> \<open>Json_Strict\<close>, \<open>Json_Strict_Props\<close>, \<open>Status_Records\<close>, \<open>First_Boot\<close>, \<open>First_Boot_Props\<close>,
    \<open>First_Boot_Witness\<close>: strict decoding of the records over the tokens of Go's decoder, the
    readers of the status records, and the evidence of a first boot.
  \<^item> \<open>Native_Consent\<close>, \<open>Native_Session\<close>, \<open>Native_Session_Props\<close>, \<open>Rpc_Server\<close>,
    \<open>Session_Histories\<close>, \<open>Session_Witness\<close>: plans, admission, the three one-shot authorities, the
    session that holds them, the dispatcher, and histories of requests.
  \<^item> \<open>Glob\<close>, \<open>Hardware\<close>, \<open>Hardware_Props\<close>, \<open>Pnp\<close>, \<open>Kernel_Version\<close>, \<open>Target_Image\<close>,
    \<open>Target_Image_Props\<close>, \<open>Hardware_Witness\<close>: the alias matcher, the comparison of PC and image,
    the Windows records of devices, and the kernel inventory of the layers of an image.
  \<^item> \<open>Oci_Pull\<close>, \<open>Oci_Pull_Props\<close>, \<open>Oci_Pull_Sample\<close>: \<open>ocipull.go\<close>, the download of the image into
    an OCI layout over a registry and file calls that may answer anything.
  \<^item> \<open>Json_Objects\<close>, \<open>Base64\<close>, \<open>Guest_Graph\<close>, \<open>Guest_Ancestry\<close>, \<open>Guest_Ancestry_Props\<close>,
    \<open>Guest_Selected\<close>: \<open>decodeQMPObject\<close> of \<open>vm_qmp.go\<close>, the paths that \<open>vm_guest_protocol.go\<close>
    decodes, and \<open>vm_guest_ancestry.go\<close>: the proof, from what the guest of a virtual machine
    prints, that its root lies on the selected disk.
  \<^item> \<open>Secure_Boot\<close>, \<open>Secure_Boot_Props\<close>: \<open>secureboot.go\<close> and \<open>secureboot_windows.go\<close>, the walk over
    the firmware's signature lists and the verdict on the staged shim.
  \<^item> \<open>Uninstall\<close>, \<open>Uninstall_Props\<close>, \<open>Uninstall_Secrets\<close>, \<open>Uninstall_Sample\<close>: \<open>uninstallWith\<close> and its
    helpers in \<open>installer_windows.go\<close>, \<open>secret_scrub.go\<close>, \<open>install_evidence.go\<close> and \<open>uninstall_entry.go\<close>,
    over drives that remember what unlinked files leave readable.
  \<^item> \<open>Partition_Receipt\<close>, \<open>Partition_Receipt_Props\<close>: \<open>partition_receipt.go\<close>, its Windows part and
    \<open>removePartitionAndExtendC\<close> of \<open>disk_windows.go\<close>: the receipts that own a created partition.

  How the code is represented.

  A Go struct is a record, a \<open>map[string]T\<close> an association list, a string a list of bytes, and
  an \<open>int\<close> or \<open>int64\<close> an \<open>int\<close> except where a sum can wrap (\<open>Install_Space\<close>: \<open>64 word\<close>). An error is
  a value of a datatype of its own, in a sum or an option. A call to the outside is a field of
  an environment record over a state \<open>'s\<close> that the definitions thread; so a theorem about
  every environment holds for every answer of Windows, and its faults are answers like any
  other. Where the code ranges over a map, the order is an argument.

  What the lemmas show.

  \<^item> Boot chain: success is claimed only from an observation made afterwards, arming follows its
    journal record, the sweep names only entries attributable to wootc, cleanup fails closed,
    and on documented firmware a rollback always restores Windows.
  \<^item> ESP: every file of the chain that exists is claimed whatever fails, a refusal comes first,
    cleanup touches only what the allow-list permits and is complete or can be retried.
  \<^item> Engine: steps run once, in order, each after its journal record; every failure disarms; the
    journal survives power loss; resuming is offered exactly when nothing of the boot chain
    was touched.
  \<^item> Records: the strict checker accepts exactly the conforming records; an installation is
    healthy only with valid evidence that names this attempt on this PC.
  \<^item> Sessions: no plan runs without its grant and its confirmation, none twice; an assessment
    session only observes.
  \<^item> Hardware: the report depends on PC and image only, blocks exactly on a proven loss, reads
    the image a container runtime would show, and never blocks when a layer was unreadable.
  \<^item> Download: no file under a digest's name is ever spoiled, and success is the whole image with
    checked digests.
  \<^item> Guest root: a root is accepted exactly when a finite derivation over the block graph leads to
    the selected disk and nothing else; the search always returns.
  \<^item> Secure Boot: reading the variable stays in bounds, is exact on well-formed signature lists,
    and the verdict then blocks exactly when no certificate vouches for the shim.
  \<^item> Wiring: the guards are in place before the first change of the boot store, the records outlive
    a rollback that was not seen to work, an unarmed installation is undone at the next start, and
    tasks of others are never touched.
  \<^item> Runtime: an accepted archive has only safe names, and the runtime is installed whole, as
    signed, or not at all.
  \<^item> Uninstalling: what was not asked to go stays, a success is observed, no credential stays
    readable in freed clusters, and a created partition stays owned until its removal is over.

  Interfaces are locales, interpreted on the model's own definitions in the theory of the
  component that provides them: the entry table of \<open>Esp_Volume\<close>, the two places of
  \<open>persistManifest\<close> and the claim store in \<open>Esp_Ownership_Props\<close>, and the one-shot contract of
  \<open>Native_Session_Props\<close> with an interpretation for each of its three authorities.

  Bounds and fuel.

  The retry loops keep the bounds of the code: three attempts to create or to arm the entry,
  two to roll back, forty to replace the manifest. Decoders and token checkers recur on a fuel that the
  callers set from the number of tokens, one more than any input can use, since each call
  consumes at least one token; \<open>strict_checker_exact\<close> holds for every input, so the fuel never
  decides. The alias matcher, the scanner of kernel names and the rune conversion have
  \<open>termination\<close> proofs. The JSON walker of \<open>Json_Objects\<close> has twice as much fuel as there are tokens and the search
  of \<open>Guest_Ancestry\<close> more than there are blocks and mounts; \<open>decodeQMPObject_returns\<close> and
  \<open>guest_root_returns\<close> prove both enough. The fuel of \<open>fetchManifest\<close> is the number of documents
  it may read: the code sets no bound, and \<open>endless_index\<close> shows an index that exceeds every one.

  Not modelled, and why.

  The syntax of JSON (the code calls \<open>encoding/json\<close>; the model starts at its tokens), digests and
  signatures (parameters), and what is only a call into Windows or Linux: disks and BitLocker,
  the registry, Task Scheduler, ACLs, named pipes, QEMU processes, the migration of user data.
  The user interface, the HTTP service, the payload tools and the code generators are outside
  the engine.
\<close>

end
